(* ===== verification/Prelude.thy ===== *)
theory Prelude
  imports Main "HOL-Library.Word"
begin

text \<open>
  Shared vocabulary of the development: the machine integers of the Rust code, its fallible
  results, the arithmetic methods of the standard library the code calls
  (\<open>checked_add\<close>, \<open>saturating_add\<close>, \<open>from_le_bytes\<close>, \<open>chunks_exact\<close>),
  lowercase hexadecimal text, and the meaning of the SQL statement shapes the repositories
  send. An \<open>i64\<close> is a 64-bit word read with \<open>sint\<close>; \<open>x as i64\<close> of an
  \<open>u64\<close> is then the identity on the bits, as in Rust. Arithmetic operators wrap: the
  modelled artifact is the release profile of \<open>Cargo.toml\<close>, which leaves overflow checks off.
\<close>

section \<open>Machine integers and results\<close>

type_synonym u8 = "8 word"
type_synonym u16 = "16 word"
type_synonym u32 = "32 word"
type_synonym u64 = "64 word"
type_synonym u128 = "128 word"
type_synonym i32 = "32 word"
type_synonym i64 = "64 word"
type_synonym bytes = "u8 list"

named_theorems word_to_nat \<open>reading of the machine operations in the natural numbers\<close>

text \<open>The \<open>?\<close> operator: an error returns early, a value continues.\<close>

fun try_bind :: "'e + 'a \<Rightarrow> ('a \<Rightarrow> 'e + 'b) \<Rightarrow> 'e + 'b" where
  "try_bind (Inl e) f = Inl e"
| "try_bind (Inr a) f = f a"

text \<open>The guard \<open>if !c { return Err(e) }\<close>.\<close>

definition ensure :: "bool \<Rightarrow> 'e \<Rightarrow> 'e + unit" where
  "ensure c e = (if c then Inr () else Inl e)"

text \<open>\<open>Option::ok_or\<close>.\<close>

definition ok_or :: "'a option \<Rightarrow> 'e \<Rightarrow> 'e + 'a" where
  "ok_or x e = (case x of None \<Rightarrow> Inl e | Some a \<Rightarrow> Inr a)"

text \<open>\<open>Result::map_err\<close>.\<close>

definition map_err :: "('e \<Rightarrow> 'd) \<Rightarrow> 'e + 'a \<Rightarrow> 'd + 'a" where
  "map_err f r = (case r of Inl e \<Rightarrow> Inl (f e) | Inr a \<Rightarrow> Inr a)"

lemma map_err_Inr [simp]: "map_err f r = Inr a \<longleftrightarrow> r = Inr a"
  by (cases r) (auto simp: map_err_def)

lemma map_err_Inl [simp]: "map_err f r = Inl d \<longleftrightarrow> (\<exists>e. r = Inl e \<and> d = f e)"
  by (cases r) (auto simp: map_err_def)

lemma try_bind_Inr [simp]:
  "try_bind m f = Inr b \<longleftrightarrow> (\<exists>a. m = Inr a \<and> f a = Inr b)"
  by (cases m) auto

lemma try_bind_Inl [simp]:
  "try_bind m f = Inl e \<longleftrightarrow> m = Inl e \<or> (\<exists>a. m = Inr a \<and> f a = Inl e)"
  by (cases m) auto

lemma ensure_Inr [simp]: "ensure c e = Inr u \<longleftrightarrow> c"
  by (simp add: ensure_def)

lemma ensure_Inl [simp]: "ensure c e = Inl e' \<longleftrightarrow> \<not> c \<and> e' = e"
  by (auto simp: ensure_def)

lemma ok_or_Inr [simp]: "ok_or x e = Inr a \<longleftrightarrow> x = Some a"
  by (cases x) (auto simp: ok_or_def)

lemma ok_or_Inl [simp]: "ok_or x e = Inl e' \<longleftrightarrow> x = None \<and> e' = e"
  by (cases x) (auto simp: ok_or_def)

section \<open>Checked and saturating arithmetic\<close>

definition checked_add :: "'a::len word \<Rightarrow> 'a word \<Rightarrow> 'a word option" where
  "checked_add a b = (if unat a + unat b < 2 ^ LENGTH('a) then Some (a + b) else None)"

definition saturating_add :: "'a::len word \<Rightarrow> 'a word \<Rightarrow> 'a word" where
  "saturating_add a b = (if unat a + unat b < 2 ^ LENGTH('a) then a + b else - 1)"

definition checked_sub :: "'a::len word \<Rightarrow> 'a word \<Rightarrow> 'a word option" where
  "checked_sub a b = (if b \<le> a then Some (a - b) else None)"

definition saturating_sub :: "'a::len word \<Rightarrow> 'a word \<Rightarrow> 'a word" where
  "saturating_sub a b = (if b \<le> a then a - b else 0)"

definition checked_mul :: "'a::len word \<Rightarrow> 'a word \<Rightarrow> 'a word option" where
  "checked_mul a b = (if unat a * unat b < 2 ^ LENGTH('a) then Some (a * b) else None)"

lemma unat_add_no_wrap:
  "unat a + unat b < 2 ^ LENGTH('a) \<Longrightarrow> unat (a + b) = unat a + unat b"
  for a b :: "'a::len word"
  by (simp add: unat_word_ariths)

lemma unat_mult_no_wrap:
  "unat a * unat b < 2 ^ LENGTH('a) \<Longrightarrow> unat (a * b) = unat a * unat b"
  for a b :: "'a::len word"
  by (simp add: unat_word_ariths)

lemma unat_minus_one_word_max: "unat (- 1 :: 'a::len word) = 2 ^ LENGTH('a) - 1"
  by (simp add: unsigned_minus_1_eq_mask mask_eq_exp_minus_1)

lemma unat_less_exp: "unat (w :: 'a::len word) < 2 ^ LENGTH('a)"
  by (rule unsigned_less)

lemma sint_nonneg_iff [word_to_nat]: "0 \<le> sint w \<longleftrightarrow> unat w < 2 ^ 63" for w :: i64
proof -
  have less: "unat w < 2 ^ 64" using unat_less_exp [of w] by simp
  have "\<not> odd (unat w div 2 ^ 63) \<longleftrightarrow> unat w < 2 ^ 63"
  proof (cases "unat w < 2 ^ 63")
    case False
    then have "unat w div 2 ^ 63 = 1" using less by (intro div_nat_eqI) auto
    with False show ?thesis by simp
  qed simp
  moreover have "bit (uint w) 63 \<longleftrightarrow> odd (unat w div 2 ^ 63)"
    unfolding bit_iff_odd [symmetric] by (simp add: bit_unsigned_iff)
  ultimately show ?thesis by (simp add: sint_uint signed_take_bit_nonnegative_iff)
qed

lemma unat_ucast_up:
  "LENGTH('a) \<le> LENGTH('b) \<Longrightarrow> unat (ucast (w :: 'a::len word) :: 'b::len word) = unat w"
  by (simp add: unsigned_ucast_eq take_bit_nat_eq_self order_less_le_trans [OF unat_less_exp])

lemma unat_byte_less [simp]: "unat (b :: u8) < 256"
  using unsigned_less [of b] by simp

lemma unat_saturating_add [word_to_nat]:
  "unat (saturating_add a b) = min (unat a + unat b) (2 ^ LENGTH('a) - 1)"
  for a b :: "'a::len word"
  by (auto simp: saturating_add_def unat_add_no_wrap unat_minus_one_word_max)

lemma checked_add_Some [word_to_nat]:
  "checked_add a b = Some c \<longleftrightarrow> unat c = unat a + unat b"
  for a b c :: "'a::len word"
proof (cases "unat a + unat b < 2 ^ LENGTH('a)")
  case True
  then show ?thesis
    by (auto simp: checked_add_def unat_add_no_wrap word_unat_eq_iff)
next
  case False
  have "unat c < 2 ^ LENGTH('a)" by (rule unsigned_less)
  with False have "unat c \<noteq> unat a + unat b" by linarith
  with False show ?thesis by (simp add: checked_add_def)
qed

lemma checked_add_None [word_to_nat]:
  "checked_add a b = None \<longleftrightarrow> 2 ^ LENGTH('a) \<le> unat a + unat b"
  for a b :: "'a::len word"
  by (auto simp: checked_add_def)

lemma checked_sub_Some [word_to_nat]:
  "checked_sub a b = Some c \<longleftrightarrow> unat a = unat b + unat c"
  for a b c :: "'a::len word"
  by (auto simp: checked_sub_def word_unat_eq_iff word_le_nat_alt unat_sub)

lemma unat_saturating_sub [word_to_nat]:
  "unat (saturating_sub a b) = unat a - unat b"
  by (auto simp: saturating_sub_def word_le_nat_alt unat_sub)

lemma checked_mul_Some [word_to_nat]:
  "checked_mul a b = Some c \<longleftrightarrow> unat c = unat a * unat b"
  for a b c :: "'a::len word"
proof (cases "unat a * unat b < 2 ^ LENGTH('a)")
  case True
  then show ?thesis
    by (auto simp: checked_mul_def unat_mult_no_wrap word_unat_eq_iff)
next
  case False
  have "unat c < 2 ^ LENGTH('a)" by (rule unsigned_less)
  with False have "unat c \<noteq> unat a * unat b" by linarith
  with False show ?thesis by (simp add: checked_mul_def)
qed

section \<open>Little-endian integers in byte slices\<close>

text \<open>\<open>u64::from_le_bytes\<close> and its siblings: the first byte is the least significant.\<close>

fun le_nat :: "bytes \<Rightarrow> nat" where
  "le_nat [] = 0"
| "le_nat (b # bs) = unat b + 256 * le_nat bs"

definition from_le_bytes :: "bytes \<Rightarrow> 'a::len word" where
  "from_le_bytes bs = word_of_nat (le_nat bs)"

text \<open>\<open>to_le_bytes\<close> of a value of \<open>n\<close> bytes.\<close>

fun nat_to_le :: "nat \<Rightarrow> nat \<Rightarrow> bytes" where
  "nat_to_le 0 v = []"
| "nat_to_le (Suc n) v = word_of_nat (v mod 256) # nat_to_le n (v div 256)"

definition to_le_bytes :: "nat \<Rightarrow> 'a::len word \<Rightarrow> bytes" where
  "to_le_bytes n w = nat_to_le n (unat w)"

lemma length_nat_to_le [simp]: "length (nat_to_le n v) = n"
  by (induction n arbitrary: v) auto

lemma length_to_le_bytes [simp]: "length (to_le_bytes n w) = n"
  by (simp add: to_le_bytes_def)

lemma le_nat_nat_to_le: "le_nat (nat_to_le n v) = v mod 256 ^ n"
proof (induction n arbitrary: v)
  case 0
  then show ?case by simp
next
  case (Suc n)
  have "v mod (256 * 256 ^ n) = v mod 256 + 256 * (v div 256 mod 256 ^ n)"
    by (metis add.commute mod_mult2_eq)
  then show ?case
    using Suc by (simp add: unat_of_nat)
qed

lemma le_nat_less: "le_nat bs < 256 ^ length bs"
proof (induction bs)
  case Nil
  then show ?case by simp
next
  case (Cons b bs)
  have "unat b < 256" by simp
  moreover have "le_nat bs + 1 \<le> 256 ^ length bs" using Cons by simp
  then have "256 * le_nat bs + 256 \<le> 256 * 256 ^ length bs"
    by (metis add_mult_distrib2 mult_le_mono2 nat_mult_1_right)
  ultimately have "unat b + 256 * le_nat bs < 256 * 256 ^ length bs" by linarith
  then show ?case by simp
qed

lemma nat_to_le_le_nat: "nat_to_le (length bs) (le_nat bs) = bs"
proof (induction bs)
  case Nil
  then show ?case by simp
next
  case (Cons b bs)
  have "unat b < 256" by simp
  then show ?case using Cons by (simp add: div_add1_eq)
qed

lemma from_le_to_le_bytes [simp]:
  "8 * n = LENGTH('a) \<Longrightarrow> from_le_bytes (to_le_bytes n w) = (w :: 'a::len word)"
proof -
  assume n: "8 * n = LENGTH('a)"
  have "(256::nat) ^ n = 2 ^ LENGTH('a)"
    using n by (simp flip: n add: power_mult)
  then show ?thesis
    by (simp add: from_le_bytes_def to_le_bytes_def le_nat_nat_to_le)
qed

section \<open>Lowercase hexadecimal\<close>

definition hex_chars :: string where
  "hex_chars = ''0123456789abcdef''"

definition hex_byte :: "u8 \<Rightarrow> string" where
  "hex_byte b = [hex_chars ! (unat b div 16), hex_chars ! (unat b mod 16)]"

text \<open>The value of one hexadecimal digit, either case.\<close>

definition nibble_value :: "char \<Rightarrow> nat option" where
  "nibble_value c =
     (let n = of_char c :: nat in
      if 48 \<le> n \<and> n \<le> 57 then Some (n - 48)
      else if 97 \<le> n \<and> n \<le> 102 then Some (n - 97 + 10)
      else if 65 \<le> n \<and> n \<le> 70 then Some (n - 65 + 10)
      else None)"

lemma hex_chars_nibble: "n < 16 \<Longrightarrow> nibble_value (hex_chars ! n) = Some n"
proof -
  assume "n < 16"
  then have "n \<in> set [0..<16]" by simp
  moreover have "\<forall>k \<in> set [0..<16]. nibble_value (hex_chars ! k) = Some k"
    by code_simp
  ultimately show ?thesis by blast
qed

lemma nibble_value_less: "nibble_value c = Some n \<Longrightarrow> n < 16"
  by (auto simp: nibble_value_def Let_def split: if_splits)

lemma length_hex_byte [simp]: "length (hex_byte b) = 2"
  by (simp add: hex_byte_def)

lemma length_concat_hex [simp]: "length (concat (map hex_byte bs)) = 2 * length bs"
  by (induction bs) auto

section \<open>Decimal text\<close>

text \<open>\<open>to_string\<close> of an unsigned integer.\<close>

fun decimal :: "nat \<Rightarrow> string" where
  "decimal n = (if n < 10 then [char_of (48 + n)] else decimal (n div 10) @ [char_of (48 + n mod 10)])"

declare decimal.simps [simp del]

section \<open>SQL statement shapes\<close>

text \<open>
  A table is its list of rows. \<open>UPDATE t SET \<dots> WHERE P\<close> rewrites the rows satisfying \<open>P\<close>
  and reports how many there were (\<open>rows_affected\<close>); \<open>SELECT \<dots> WHERE P\<close> filters;
  \<open>INSERT\<close> into a table with a primary key refuses a key that is present.
\<close>

definition sql_update :: "('r \<Rightarrow> bool) \<Rightarrow> ('r \<Rightarrow> 'r) \<Rightarrow> 'r list \<Rightarrow> 'r list \<times> nat" where
  "sql_update P f t = (map (\<lambda>r. if P r then f r else r) t, length (filter P t))"

definition sql_insert :: "('r \<Rightarrow> 'k) \<Rightarrow> 'r \<Rightarrow> 'r list \<Rightarrow> 'r list option" where
  "sql_insert key r t = (if key r \<in> key ` set t then None else Some (t @ [r]))"

definition sql_get :: "('r \<Rightarrow> 'k) \<Rightarrow> 'k \<Rightarrow> 'r list \<Rightarrow> 'r option" where
  "sql_get key k t = find (\<lambda>r. key r = k) t"

lemma sql_get_Some_in:
  "sql_get key k t = Some r \<Longrightarrow> r \<in> set t \<and> key r = k"
  by (auto simp: sql_get_def find_Some_iff)

lemma sql_get_None: "sql_get key k t = None \<longleftrightarrow> k \<notin> key ` set t"
  by (auto simp: sql_get_def find_None_iff)

lemma sql_get_unique:
  "distinct (map key t) \<Longrightarrow> r \<in> set t \<Longrightarrow> sql_get key (key r) t = Some r"
proof (induction t)
  case (Cons x t)
  then show ?case by (cases "x = r") (auto simp: sql_get_def)
qed (simp add: sql_get_def)

lemma sql_get_append:
  "sql_get key k (t @ [r]) =
     (case sql_get key k t of Some x \<Rightarrow> Some x | None \<Rightarrow> if key r = k then Some r else None)"
  by (induction t) (auto simp: sql_get_def)

lemma sql_insert_get: "sql_insert key r t = Some t' \<Longrightarrow> sql_get key (key r) t' = Some r"
  by (auto simp: sql_insert_def sql_get_append sql_get_None [symmetric] split: if_splits option.splits)

lemma sql_insert_get_other:
  "sql_insert key r t = Some t' \<Longrightarrow> k \<noteq> key r \<Longrightarrow> sql_get key k t' = sql_get key k t"
  by (auto simp: sql_insert_def sql_get_append split: if_splits option.splits)

lemma sql_insert_distinct:
  "sql_insert key r t = Some t' \<Longrightarrow> distinct (map key t) \<Longrightarrow> distinct (map key t')"
  by (auto simp: sql_insert_def split: if_splits)

lemma sql_update_fst_set:
  "set (fst (sql_update P f t)) = (\<lambda>r. if P r then f r else r) ` set t"
  by (simp add: sql_update_def)

lemma sql_update_get:
  assumes "\<And>r. key (f r) = key r"
  shows "sql_get key k (fst (sql_update P f t)) =
           map_option (\<lambda>r. if P r then f r else r) (sql_get key k t)"
  using assms by (induction t) (auto simp: sql_get_def sql_update_def)

lemma sql_update_keys:
  assumes "\<And>r. key (f r) = key r"
  shows "map key (fst (sql_update P f t)) = map key t"
  using assms by (simp add: sql_update_def)

lemma sql_update_none:
  "snd (sql_update P f t) = 0 \<Longrightarrow> fst (sql_update P f t) = t"
  by (auto simp: sql_update_def filter_empty_conv intro: map_idI)

text \<open>
  An update that names one primary key touches at most one row, and the count says whether the
  row it names satisfied the rest of the predicate.
\<close>

lemma sql_update_key_count:
  assumes "distinct (map key t)"
  shows "snd (sql_update (\<lambda>r. key r = k \<and> G r) f t) =
           (case sql_get key k t of None \<Rightarrow> 0 | Some r \<Rightarrow> if G r then 1 else 0)"
  using assms
proof (induction t)
  case (Cons x t)
  show ?case
  proof (cases "key x = k")
    case True
    with Cons.prems have "filter (\<lambda>r. key r = k \<and> G r) t = []"
      by (auto simp: filter_empty_conv) (metis image_eqI)
    with True show ?thesis by (simp add: sql_update_def sql_get_def)
  next
    case False
    with Cons show ?thesis by (simp add: sql_update_def sql_get_def)
  qed
qed (simp add: sql_update_def sql_get_def)

section \<open>Collecting results\<close>

text \<open>\<open>into_iter().map(f).collect::<Result<Vec<_>, _>>()\<close>: the first error wins.\<close>

fun collect_results :: "('e + 'a) list \<Rightarrow> 'e + 'a list" where
  "collect_results [] = Inr []"
| "collect_results (Inl e # rs) = Inl e"
| "collect_results (Inr a # rs) =
     (case collect_results rs of Inl e \<Rightarrow> Inl e | Inr as \<Rightarrow> Inr (a # as))"

lemma collect_results_map_Inr [simp]: "collect_results (map Inr as) = Inr as"
  by (induction as) simp_all

lemma collect_results_Inr: "collect_results rs = Inr as \<longleftrightarrow> rs = map Inr as"
proof
  show "collect_results rs = Inr as \<Longrightarrow> rs = map Inr as"
  proof (induction rs arbitrary: as)
    case (Cons r rs)
    then show ?case by (cases r) (auto split: sum.splits)
  qed simp
qed simp

lemma collect_results_error: "Inl e \<in> set rs \<Longrightarrow> \<exists>e'. collect_results rs = Inl e'"
proof (induction rs)
  case (Cons r rs)
  then show ?case by (cases r) auto
qed simp

end
