(* ===== verification/Core_Types.thy ===== *)
theory Core_Types
  imports Prelude
begin

text \<open>
  The shared data of \<open>crates/types\<close>: networks and commitment levels (\<open>solana.rs\<close>),
  transaction proposals and simulation results (\<open>transaction.rs\<close>), policy rules, conditions,
  actions and verdicts (\<open>policy.rs\<close>), the approval chain stage (\<open>approval.rs\<close>) and the wire
  form of rules that are written as a bare name. A floating-point threshold has the abstract type
  \<open>'f\<close>: the code only stores it and converts it to lamports, and that conversion is a parameter of
  the evaluator. Field names carry a short prefix of their struct where two structs share a name.
\<close>

section \<open>Networks\<close>

datatype solana_network = MainnetBeta | Devnet | Testnet | Localnet

fun is_mainnet :: "solana_network \<Rightarrow> bool" where
  "is_mainnet MainnetBeta = True"
| "is_mainnet _ = False"

fun default_rpc_url :: "solana_network \<Rightarrow> string" where
  "default_rpc_url MainnetBeta = ''https://api.mainnet-beta.solana.com''"
| "default_rpc_url Devnet = ''https://api.devnet.solana.com''"
| "default_rpc_url Testnet = ''https://api.testnet.solana.com''"
| "default_rpc_url Localnet = ''http://127.0.0.1:8899''"

fun network_display :: "solana_network \<Rightarrow> string" where
  "network_display MainnetBeta = ''mainnet-beta''"
| "network_display Devnet = ''devnet''"
| "network_display Testnet = ''testnet''"
| "network_display Localnet = ''localnet''"

datatype commitment_level = Processed | Confirmed | Finalized

text \<open>The derived \<open>Ord\<close> follows the declaration order.\<close>

fun commitment_rank :: "commitment_level \<Rightarrow> nat" where
  "commitment_rank Processed = 0"
| "commitment_rank Confirmed = 1"
| "commitment_rank Finalized = 2"

instantiation commitment_level :: linorder
begin

definition less_eq_commitment_level :: "commitment_level \<Rightarrow> commitment_level \<Rightarrow> bool" where
  "less_eq_commitment_level a b \<longleftrightarrow> commitment_rank a \<le> commitment_rank b"

definition less_commitment_level :: "commitment_level \<Rightarrow> commitment_level \<Rightarrow> bool" where
  "less_commitment_level a b \<longleftrightarrow> commitment_rank a < commitment_rank b"

instance
proof
  fix a b :: commitment_level
  show "a \<le> b \<Longrightarrow> b \<le> a \<Longrightarrow> a = b"
    by (cases a; cases b) (auto simp: less_eq_commitment_level_def)
qed (auto simp: less_eq_commitment_level_def less_commitment_level_def)

end

section \<open>Transactions\<close>

record account_role =
  ar_pubkey :: string
  ar_label :: "string option"
  ar_is_signer :: bool
  ar_is_writable :: bool

record token_transfer =
  tt_mint :: string
  tt_amount :: u64
  tt_decimals :: "u8 option"
  tt_source :: string
  tt_destination :: string

record instruction_summary =
  ix_program_id :: string
  ix_program_name :: "string option"
  ix_description :: string
  ix_transfer_lamports :: "u64 option"
  ix_token_transfer :: "token_transfer option"
  ix_is_legacy_token_transfer :: bool
  ix_accounts :: "account_role list"

record transaction_proposal =
  tp_id :: string
  tp_session_id :: string
  tp_wallet_pubkey :: string
  tp_network :: solana_network
  tp_description :: string
  tp_transaction_b64 :: string
  tp_instructions_summary :: "instruction_summary list"
  tp_created_at :: i64

record account_diff =
  ad_pubkey :: string
  ad_lamports_before :: "u64 option"
  ad_lamports_after :: "u64 option"
  ad_data_changed :: bool

record simulation_result =
  sim_success :: bool
  sim_error :: "string option"
  sim_compute_units_used :: "u64 option"
  sim_logs :: "string list"
  sim_return_data :: "string option"
  sim_account_diffs :: "account_diff list"
  sim_fee_lamports :: "u64 option"

section \<open>Policy rules and verdicts\<close>

record approval_chain_stage =
  acs_role :: string
  acs_description :: string
  acs_min_approvals :: u32

datatype policy_verdict =
    VerdictApproved string                       \<comment> \<open>rule name\<close>
  | VerdictRequiresHumanApproval string string "string option" "approval_chain_stage list option"
      \<comment> \<open>reason, rule name, required approver role, approval chain\<close>
  | VerdictRejected string string                \<comment> \<open>reason, rule name\<close>
  | VerdictSimulationRequired
  | VerdictSimulationFailed string               \<comment> \<open>simulation error\<close>

fun is_auto_approved :: "policy_verdict \<Rightarrow> bool" where
  "is_auto_approved (VerdictApproved _) = True"
| "is_auto_approved _ = False"

fun is_blocked :: "policy_verdict \<Rightarrow> bool" where
  "is_blocked (VerdictRejected _ _) = True"
| "is_blocked (VerdictSimulationFailed _) = True"
| "is_blocked _ = False"

fun requires_human :: "policy_verdict \<Rightarrow> bool" where
  "requires_human (VerdictRequiresHumanApproval _ _ _ _) = True"
| "requires_human _ = False"

fun verdict_label :: "policy_verdict \<Rightarrow> string" where
  "verdict_label (VerdictApproved _) = ''approved''"
| "verdict_label (VerdictRequiresHumanApproval _ _ _ _) = ''requires_human_approval''"
| "verdict_label (VerdictRejected _ _) = ''rejected''"
| "verdict_label VerdictSimulationRequired = ''simulation_required''"
| "verdict_label (VerdictSimulationFailed _) = ''simulation_failed''"

fun verdict_rule_name :: "policy_verdict \<Rightarrow> string option" where
  "verdict_rule_name (VerdictApproved n) = Some n"
| "verdict_rule_name (VerdictRequiresHumanApproval _ n _ _) = Some n"
| "verdict_rule_name (VerdictRejected _ n) = Some n"
| "verdict_rule_name VerdictSimulationRequired = None"
| "verdict_rule_name (VerdictSimulationFailed _) = None"

fun verdict_reason :: "policy_verdict \<Rightarrow> string option" where
  "verdict_reason (VerdictRequiresHumanApproval r _ _ _) = Some r"
| "verdict_reason (VerdictRejected r _) = Some r"
| "verdict_reason (VerdictApproved _) = None"
| "verdict_reason VerdictSimulationRequired = None"
| "verdict_reason (VerdictSimulationFailed _) = None"

record policy_evaluation_result =
  per_verdict :: policy_verdict
  per_rules_total :: nat
  per_rules_evaluated :: nat
  per_matched_rule_index :: "nat option"

datatype 'f policy_condition =
    NetworkIn "solana_network list"
  | ProgramNotInAllowlist
  | DestinationInDenylist
  | CostExceedsSol 'f
  | DailySpendExceedsSol 'f
  | AmountExceedsLamports u64
  | SimulationNotPassed
  | TokenAmountExceeds string u64                \<comment> \<open>mint, threshold\<close>
  | MintNotInAllowlist "string list"
  | LegacyTokenTransferPresent
  | OutsideAllowedHours u8 u8 "u8 list" i32      \<comment> \<open>start, end, days, UTC offset in hours\<close>
  | Always

datatype policy_action =
    ActionApprove
  | ActionRequireHumanApproval string "string option"
  | ActionRequireApprovalChain string "approval_chain_stage list"
  | ActionReject string

record 'f policy_rule =
  pr_name :: string
  pr_description :: string
  pr_condition :: "'f policy_condition"
  pr_action :: policy_action

section \<open>Wire form of conditions and actions\<close>

text \<open>
  The serializer writes a parameterless condition as its bare name and every other one as a tagged
  object; the deserializer accepts both, with snake-case aliases. The tagged variants are those of
  \<open>PolicyConditionTagged\<close>: it has no variant for \<open>LegacyTokenTransferPresent\<close>.
\<close>

datatype 'f policy_condition_tagged =
    TagNetworkIn "solana_network list"
  | TagCostExceedsSol 'f
  | TagDailySpendExceedsSol 'f
  | TagAmountExceedsLamports u64
  | TagProgramNotInAllowlist
  | TagDestinationInDenylist
  | TagSimulationNotPassed
  | TagTokenAmountExceeds string u64
  | TagMintNotInAllowlist "string list"
  | TagOutsideAllowedHours u8 u8 "u8 list" i32
  | TagAlways

datatype 'f policy_condition_wire =
    WireUnit string
  | WireTagged "'f policy_condition_tagged"

fun condition_to_wire :: "'f policy_condition \<Rightarrow> 'f policy_condition_wire" where
  "condition_to_wire (NetworkIn ns) = WireTagged (TagNetworkIn ns)"
| "condition_to_wire ProgramNotInAllowlist = WireUnit ''ProgramNotInAllowlist''"
| "condition_to_wire DestinationInDenylist = WireUnit ''DestinationInDenylist''"
| "condition_to_wire (CostExceedsSol t) = WireTagged (TagCostExceedsSol t)"
| "condition_to_wire (DailySpendExceedsSol t) = WireTagged (TagDailySpendExceedsSol t)"
| "condition_to_wire (AmountExceedsLamports t) = WireTagged (TagAmountExceedsLamports t)"
| "condition_to_wire SimulationNotPassed = WireUnit ''SimulationNotPassed''"
| "condition_to_wire LegacyTokenTransferPresent = WireUnit ''LegacyTokenTransferPresent''"
| "condition_to_wire (TokenAmountExceeds m t) = WireTagged (TagTokenAmountExceeds m t)"
| "condition_to_wire (MintNotInAllowlist ms) = WireTagged (TagMintNotInAllowlist ms)"
| "condition_to_wire (OutsideAllowedHours s e ds off) =
     WireTagged (TagOutsideAllowedHours s e ds off)"
| "condition_to_wire Always = WireUnit ''Always''"

definition parse_policy_condition_unit :: "string \<Rightarrow> 'f policy_condition option" where
  "parse_policy_condition_unit name =
     (if name = ''ProgramNotInAllowlist'' \<or> name = ''program_not_in_allowlist''
        then Some ProgramNotInAllowlist
      else if name = ''DestinationInDenylist'' \<or> name = ''destination_in_denylist''
        then Some DestinationInDenylist
      else if name = ''SimulationNotPassed'' \<or> name = ''simulation_not_passed''
        then Some SimulationNotPassed
      else if name = ''Always'' \<or> name = ''always'' then Some Always
      else if name = ''LegacyTokenTransferPresent'' \<or> name = ''legacy_token_transfer_present''
        then Some LegacyTokenTransferPresent
      else None)"

fun condition_of_tagged :: "'f policy_condition_tagged \<Rightarrow> 'f policy_condition" where
  "condition_of_tagged (TagNetworkIn ns) = NetworkIn ns"
| "condition_of_tagged TagProgramNotInAllowlist = ProgramNotInAllowlist"
| "condition_of_tagged TagDestinationInDenylist = DestinationInDenylist"
| "condition_of_tagged (TagCostExceedsSol t) = CostExceedsSol t"
| "condition_of_tagged (TagDailySpendExceedsSol t) = DailySpendExceedsSol t"
| "condition_of_tagged (TagAmountExceedsLamports t) = AmountExceedsLamports t"
| "condition_of_tagged TagSimulationNotPassed = SimulationNotPassed"
| "condition_of_tagged (TagTokenAmountExceeds m t) = TokenAmountExceeds m t"
| "condition_of_tagged (TagMintNotInAllowlist ms) = MintNotInAllowlist ms"
| "condition_of_tagged (TagOutsideAllowedHours s e ds off) = OutsideAllowedHours s e ds off"
| "condition_of_tagged TagAlways = Always"

text \<open>The error is the unknown name.\<close>

fun condition_of_wire :: "'f policy_condition_wire \<Rightarrow> string + 'f policy_condition" where
  "condition_of_wire (WireUnit name) = ok_or (parse_policy_condition_unit name) name"
| "condition_of_wire (WireTagged t) = Inr (condition_of_tagged t)"

datatype policy_action_tagged =
    TagApprove
  | TagRequireHumanApproval string "string option"
  | TagRequireApprovalChain string "approval_chain_stage list"
  | TagReject string

datatype policy_action_wire =
    WireActionUnit string
  | WireActionTagged policy_action_tagged

fun action_to_wire :: "policy_action \<Rightarrow> policy_action_wire" where
  "action_to_wire ActionApprove = WireActionUnit ''Approve''"
| "action_to_wire (ActionRequireHumanApproval r role) =
     WireActionTagged (TagRequireHumanApproval r role)"
| "action_to_wire (ActionRequireApprovalChain r stages) =
     WireActionTagged (TagRequireApprovalChain r stages)"
| "action_to_wire (ActionReject r) = WireActionTagged (TagReject r)"

definition parse_policy_action_unit :: "string \<Rightarrow> policy_action option" where
  "parse_policy_action_unit name =
     (if name = ''Approve'' \<or> name = ''approve'' then Some ActionApprove else None)"

fun action_of_tagged :: "policy_action_tagged \<Rightarrow> policy_action" where
  "action_of_tagged TagApprove = ActionApprove"
| "action_of_tagged (TagRequireHumanApproval r role) = ActionRequireHumanApproval r role"
| "action_of_tagged (TagRequireApprovalChain r stages) = ActionRequireApprovalChain r stages"
| "action_of_tagged (TagReject r) = ActionReject r"

fun action_of_wire :: "policy_action_wire \<Rightarrow> string + policy_action" where
  "action_of_wire (WireActionUnit name) = ok_or (parse_policy_action_unit name) name"
| "action_of_wire (WireActionTagged t) = Inr (action_of_tagged t)"

lemma condition_wire_roundtrip: "condition_of_wire (condition_to_wire c) = Inr c"
  by (cases c) (simp_all add: parse_policy_condition_unit_def)

lemma action_wire_roundtrip: "action_of_wire (action_to_wire a) = Inr a"
  by (cases a) (simp_all add: parse_policy_action_unit_def)

end
