(* ===== verification/Policy_Engine.thy ===== *)
theory Policy_Engine
  imports Core_Types
begin

text \<open>
  The risk engine, \<open>crates/risk-engine\<close>: the policy set and its first-match evaluation
  (\<open>policy.rs\<close>), the rule helpers (\<open>rules/\<close>) and the spend tracker (\<open>spend.rs\<close>).
  Three things the evaluator gets from outside are fields of \<open>platform\<close>: the conversion of a
  floating-point SOL amount to lamports, and the calendar of the \<open>chrono\<close> crate (the fixed offset
  for a number of seconds, the hour and ISO weekday of an instant under an offset). Strings and
  64-bit amounts are kept as they are in the code.
\<close>

section \<open>The evaluation context\<close>

record ('f, 'o, 'now) platform =
  f64_sol_to_lamports :: "'f \<Rightarrow> u64"     \<comment> \<open>\<open>(x * 1_000_000_000.0) as u64\<close>\<close>
  east_opt :: "i32 \<Rightarrow> 'o option"         \<comment> \<open>\<open>FixedOffset::east_opt\<close>\<close>
  utc_offset :: 'o                       \<comment> \<open>\<open>FixedOffset::east_opt(0).unwrap()\<close>\<close>
  hour_of :: "'o \<Rightarrow> 'now \<Rightarrow> u8"          \<comment> \<open>\<open>with_timezone(..).format("%H")\<close>\<close>
  day_of_week :: "'o \<Rightarrow> 'now \<Rightarrow> u8"      \<comment> \<open>\<open>with_timezone(..).format("%u")\<close>\<close>

record policy_evaluation_context =
  ctx_proposal :: transaction_proposal
  ctx_simulation_result :: "simulation_result option"
  ctx_network :: solana_network
  ctx_session_id :: string
  ctx_session_spend_lamports :: u64
  ctx_wallet_daily_spend_lamports :: u64

record 'f policy_set =
  ps_rules :: "'f policy_rule list"
  ps_program_allowlist :: "string list"
  ps_destination_denylist :: "string list"

section \<open>Allowed hours\<close>

definition hour_allowed :: "u8 \<Rightarrow> u8 \<Rightarrow> u8 \<Rightarrow> bool" where
  "hour_allowed start_hour end_hour hour =
     (if start_hour \<le> end_hour then start_hour \<le> hour \<and> hour \<le> end_hour
      else start_hour \<le> hour \<or> hour \<le> end_hour)"

definition is_outside_allowed_hours_at ::
    "('f, 'o, 'now) platform \<Rightarrow> 'now \<Rightarrow> u8 \<Rightarrow> u8 \<Rightarrow> u8 list \<Rightarrow> i32 \<Rightarrow> bool" where
  "is_outside_allowed_hours_at P now_utc start_hour end_hour allowed_days utc_offset_hours =
     (let offset = (case east_opt P (utc_offset_hours * 3600) of
                      Some off \<Rightarrow> off | None \<Rightarrow> utc_offset P);
          hour = hour_of P offset now_utc;
          dow = day_of_week P offset now_utc
      in if allowed_days \<noteq> [] \<and> dow \<notin> set allowed_days then True
         else \<not> hour_allowed start_hour end_hour hour)"

section \<open>Amounts\<close>

text \<open>The explicit lamport transfers of the proposal, or else the wallet's simulated balance change.\<close>

definition proposal_amounts :: "policy_evaluation_context \<Rightarrow> u64 list" where
  "proposal_amounts ctx =
     List.map_filter ix_transfer_lamports (tp_instructions_summary (ctx_proposal ctx))"

definition transfer_amount_lamports :: "policy_evaluation_context \<Rightarrow> u64 option" where
  "transfer_amount_lamports ctx =
     (if proposal_amounts ctx \<noteq> []
      then Some (foldl saturating_add 0 (proposal_amounts ctx))
      else case ctx_simulation_result ctx of
        None \<Rightarrow> None
      | Some simulation \<Rightarrow>
          (case find (\<lambda>d. ad_pubkey d = tp_wallet_pubkey (ctx_proposal ctx))
                  (sim_account_diffs simulation) of
             None \<Rightarrow> None
           | Some wallet_diff \<Rightarrow>
               (case (ad_lamports_before wallet_diff, ad_lamports_after wallet_diff) of
                  (Some before, Some after) \<Rightarrow>
                    (case checked_sub before after of
                       None \<Rightarrow> None
                     | Some lamports_spent \<Rightarrow>
                         Some (case sim_fee_lamports simulation of
                                 Some fee \<Rightarrow> saturating_sub lamports_spent fee
                               | None \<Rightarrow> lamports_spent))
                | _ \<Rightarrow> None)))"

text \<open>The token transfers of one mint; the code adds them with \<open>sum()\<close>, which wraps.\<close>

definition token_transfers :: "policy_evaluation_context \<Rightarrow> token_transfer list" where
  "token_transfers ctx =
     List.map_filter ix_token_transfer (tp_instructions_summary (ctx_proposal ctx))"

definition token_total :: "string \<Rightarrow> policy_evaluation_context \<Rightarrow> u64" where
  "token_total mint ctx =
     sum_list (map tt_amount (filter (\<lambda>tt. tt_mint tt = mint) (token_transfers ctx)))"

section \<open>Matching a condition\<close>

fun condition_matches_at ::
    "('f, 'o, 'now) platform \<Rightarrow> 'f policy_set \<Rightarrow> 'f policy_condition \<Rightarrow>
     policy_evaluation_context \<Rightarrow> 'now \<Rightarrow> bool" where
  "condition_matches_at P ps (NetworkIn networks) ctx now = (ctx_network ctx \<in> set networks)"
| "condition_matches_at P ps ProgramNotInAllowlist ctx now =
     (if ps_program_allowlist ps = [] then False
      else \<exists>ix \<in> set (tp_instructions_summary (ctx_proposal ctx)).
             ix_program_id ix \<notin> set (ps_program_allowlist ps))"
| "condition_matches_at P ps DestinationInDenylist ctx now =
     (if ps_destination_denylist ps = [] then False
      else \<exists>acc \<in> set (concat (map ix_accounts (tp_instructions_summary (ctx_proposal ctx)))).
             ar_pubkey acc \<in> set (ps_destination_denylist ps))"
| "condition_matches_at P ps (CostExceedsSol threshold_sol) ctx now =
     (let threshold_lamports = f64_sol_to_lamports P threshold_sol in
      case ctx_simulation_result ctx of
        None \<Rightarrow> False
      | Some sim \<Rightarrow> (case sim_fee_lamports sim of
                        None \<Rightarrow> False | Some f \<Rightarrow> threshold_lamports < f))"
| "condition_matches_at P ps (DailySpendExceedsSol cap_sol) ctx now =
     (f64_sol_to_lamports P cap_sol < ctx_wallet_daily_spend_lamports ctx)"
| "condition_matches_at P ps (AmountExceedsLamports threshold) ctx now =
     (case transfer_amount_lamports ctx of None \<Rightarrow> False | Some amount \<Rightarrow> threshold \<le> amount)"
| "condition_matches_at P ps SimulationNotPassed ctx now =
     (case ctx_simulation_result ctx of None \<Rightarrow> True | Some s \<Rightarrow> \<not> sim_success s)"
| "condition_matches_at P ps (TokenAmountExceeds mint threshold) ctx now =
     (threshold \<le> token_total mint ctx)"
| "condition_matches_at P ps (MintNotInAllowlist allowed_mints) ctx now =
     (if allowed_mints = [] then False
      else \<exists>tt \<in> set (token_transfers ctx). tt_mint tt \<notin> set allowed_mints)"
| "condition_matches_at P ps LegacyTokenTransferPresent ctx now =
     (\<exists>ix \<in> set (tp_instructions_summary (ctx_proposal ctx)). ix_is_legacy_token_transfer ix)"
| "condition_matches_at P ps (OutsideAllowedHours s e days off) ctx now =
     is_outside_allowed_hours_at P now s e days off"
| "condition_matches_at P ps Always ctx now = True"

fun action_to_verdict :: "policy_action \<Rightarrow> string \<Rightarrow> policy_verdict" where
  "action_to_verdict ActionApprove rule_name = VerdictApproved rule_name"
| "action_to_verdict (ActionRequireHumanApproval reason role) rule_name =
     VerdictRequiresHumanApproval reason rule_name role None"
| "action_to_verdict (ActionRequireApprovalChain reason stages) rule_name =
     VerdictRequiresHumanApproval reason rule_name None (Some stages)"
| "action_to_verdict (ActionReject reason) rule_name = VerdictRejected reason rule_name"

section \<open>Evaluating a policy set\<close>

definition fail_closed_verdict :: policy_verdict where
  "fail_closed_verdict =
     VerdictRequiresHumanApproval ''no matching policy rule; failing closed''
       ''default-fail-closed'' None None"

text \<open>The loop over \<open>self.rules.iter().enumerate()\<close>; \<open>i\<close> is the index of the head.\<close>

fun evaluate_rules ::
    "('f, 'o, 'now) platform \<Rightarrow> 'f policy_set \<Rightarrow> policy_evaluation_context \<Rightarrow> 'now \<Rightarrow>
     nat \<Rightarrow> nat \<Rightarrow> 'f policy_rule list \<Rightarrow> policy_evaluation_result" where
  "evaluate_rules P ps ctx now rules_total i [] =
     \<lparr>per_verdict = fail_closed_verdict, per_rules_total = rules_total,
      per_rules_evaluated = rules_total, per_matched_rule_index = None\<rparr>"
| "evaluate_rules P ps ctx now rules_total i (rule # rules) =
     (if condition_matches_at P ps (pr_condition rule) ctx now
      then \<lparr>per_verdict = action_to_verdict (pr_action rule) (pr_name rule),
            per_rules_total = rules_total,
            per_rules_evaluated = i + 1, per_matched_rule_index = Some i\<rparr>
      else evaluate_rules P ps ctx now rules_total (i + 1) rules)"

definition evaluate_at ::
    "('f, 'o, 'now) platform \<Rightarrow> 'f policy_set \<Rightarrow> policy_evaluation_context \<Rightarrow> 'now \<Rightarrow>
     policy_evaluation_result" where
  "evaluate_at P ps ctx now =
     (let rules_total = length (ps_rules ps) in
      case ctx_simulation_result ctx of
        Some sim \<Rightarrow>
          (if \<not> sim_success sim
           then \<lparr>per_verdict = VerdictSimulationFailed
                   (case sim_error sim of Some e \<Rightarrow> e | None \<Rightarrow> ''unknown simulation error''),
                 per_rules_total = rules_total,
                 per_rules_evaluated = 0, per_matched_rule_index = None\<rparr>
           else evaluate_rules P ps ctx now rules_total 0 (ps_rules ps))
      | None \<Rightarrow> evaluate_rules P ps ctx now rules_total 0 (ps_rules ps))"

definition with_session_rules :: "'f policy_set \<Rightarrow> 'f policy_rule list \<Rightarrow> 'f policy_set" where
  "with_session_rules ps session_rules =
     \<lparr>ps_rules = session_rules @ ps_rules ps,
      ps_program_allowlist = ps_program_allowlist ps,
      ps_destination_denylist = ps_destination_denylist ps\<rparr>"

definition permissive_default :: "'f policy_set" where
  "permissive_default =
     \<lparr>ps_rules = [\<lparr>pr_name = ''allow-all'',
                   pr_description = ''Approve all transactions (devnet/testnet only)'',
                   pr_condition = Always, pr_action = ActionApprove\<rparr>],
      ps_program_allowlist = [], ps_destination_denylist = []\<rparr>"

definition mainnet_safe_default :: "'f policy_set" where
  "mainnet_safe_default =
     \<lparr>ps_rules =
        [\<lparr>pr_name = ''mainnet-requires-human'',
          pr_description = ''All mainnet transactions require human approval'',
          pr_condition = NetworkIn [MainnetBeta],
          pr_action = ActionRequireHumanApproval
            ''mainnet transaction requires explicit operator approval'' None\<rparr>,
         \<lparr>pr_name = ''devnet-allow'',
          pr_description = ''Allow devnet transactions automatically'',
          pr_condition = NetworkIn [Devnet, Testnet, Localnet],
          pr_action = ActionApprove\<rparr>],
      ps_program_allowlist = [], ps_destination_denylist = []\<rparr>"

section \<open>Rule helpers\<close>

definition all_programs_allowed :: "string list \<Rightarrow> string list \<Rightarrow> bool" where
  "all_programs_allowed program_ids allowlist =
     (if allowlist = [] then True else \<forall>p \<in> set program_ids. \<exists>a \<in> set allowlist. a = p)"

definition any_account_denied :: "string list \<Rightarrow> string list \<Rightarrow> bool" where
  "any_account_denied account_pubkeys denylist =
     (if denylist = [] then False
      else \<exists>p \<in> set account_pubkeys. \<exists>d \<in> set denylist. d = p)"

definition exceeds_cap :: "u64 \<Rightarrow> u64 \<Rightarrow> u64 \<Rightarrow> bool" where
  "exceeds_cap current_spend proposed cap =
     (case checked_add current_spend proposed of Some spent \<Rightarrow> cap < spent | None \<Rightarrow> True)"

datatype anomaly_severity = SeverityLow | SeverityMedium | SeverityHigh

record anomaly_finding =
  af_severity :: anomaly_severity
  af_description :: string

definition bpf_loader_upgradeable :: string where
  "bpf_loader_upgradeable = ''BPFLoaderUpgradeab1e11111111111111111111111''"

definition bpf_loader_description :: string where
  "bpf_loader_description =
     ''Transaction includes BPFLoaderUpgradeable instruction '' @
     [CHR 0xE2, CHR 0x80, CHR 0x94] @  \<comment> \<open>the dash, in UTF-8\<close>
     '' this can modify on-chain programs. Extreme caution required.''"

fun detect_anomalies :: "string list \<Rightarrow> anomaly_finding list" where
  "detect_anomalies [] = []"
| "detect_anomalies (program_id # program_ids) =
     (if program_id = bpf_loader_upgradeable
      then \<lparr>af_severity = SeverityHigh, af_description = bpf_loader_description\<rparr>
             # detect_anomalies program_ids
      else detect_anomalies program_ids)"

section \<open>The spend tracker\<close>

text \<open>
  Two maps behind locks; \<open>today\<close> is the UTC date text the clock gives at the call. The additions
  are the plain \<open>+=\<close> of \<open>u64\<close>.
\<close>

record spend_tracker =
  st_session_spend :: "string \<rightharpoonup> u64"
  st_daily_spend :: "(string \<times> string) \<rightharpoonup> u64"

definition spend_tracker_new :: spend_tracker where
  "spend_tracker_new = \<lparr>st_session_spend = Map.empty, st_daily_spend = Map.empty\<rparr>"

definition unwrap_or_zero :: "u64 option \<Rightarrow> u64" where
  "unwrap_or_zero x = (case x of Some v \<Rightarrow> v | None \<Rightarrow> 0)"

definition session_spend :: "spend_tracker \<Rightarrow> string \<Rightarrow> u64" where
  "session_spend t session_id = unwrap_or_zero (st_session_spend t session_id)"

definition daily_spend :: "spend_tracker \<Rightarrow> string \<Rightarrow> string \<Rightarrow> u64" where
  "daily_spend t today wallet = unwrap_or_zero (st_daily_spend t (wallet, today))"

definition record_spend ::
    "spend_tracker \<Rightarrow> string \<Rightarrow> string \<Rightarrow> string \<Rightarrow> u64 \<Rightarrow> spend_tracker" where
  "record_spend t today session_id wallet lamports =
     \<lparr>st_session_spend =
        (st_session_spend t)(session_id \<mapsto>
           unwrap_or_zero (st_session_spend t session_id) + lamports),
      st_daily_spend =
        (st_daily_spend t)((wallet, today) \<mapsto>
           unwrap_or_zero (st_daily_spend t (wallet, today)) + lamports)\<rparr>"

definition clear_session :: "spend_tracker \<Rightarrow> string \<Rightarrow> spend_tracker" where
  "clear_session t session_id = t\<lparr>st_session_spend := (st_session_spend t)(session_id := None)\<rparr>"

section \<open>First-match evaluation\<close>

lemma evaluate_rules_first_match:
  "evaluate_rules P ps ctx now n i rules =
     (case find (\<lambda>r. condition_matches_at P ps (pr_condition r) ctx now) rules of
        None \<Rightarrow> \<lparr>per_verdict = fail_closed_verdict, per_rules_total = n,
                 per_rules_evaluated = n, per_matched_rule_index = None\<rparr>
      | Some r \<Rightarrow>
          (let k = length (takeWhile (\<lambda>r. \<not> condition_matches_at P ps (pr_condition r) ctx now) rules)
           in \<lparr>per_verdict = action_to_verdict (pr_action r) (pr_name r), per_rules_total = n,
               per_rules_evaluated = i + k + 1, per_matched_rule_index = Some (i + k)\<rparr>))"
  by (induction rules arbitrary: i) (auto simp: Let_def split: option.splits)

lemma evaluate_rules_append:
  "evaluate_rules P ps ctx now n i (rs @ rs') =
     (case find (\<lambda>r. condition_matches_at P ps (pr_condition r) ctx now) rs of
        None \<Rightarrow> evaluate_rules P ps ctx now n (i + length rs) rs'
      | Some r \<Rightarrow> evaluate_rules P ps ctx now n i rs)"
  by (induction rs arbitrary: i) (auto split: option.splits)

lemma find_Some_index:
  "find Q xs = Some x \<longleftrightarrow>
     (\<exists>i. i < length xs \<and> xs ! i = x \<and> Q x \<and> (\<forall>j < i. \<not> Q (xs ! j)))"
  by (auto simp: find_Some_iff)

lemma action_to_verdict_approved:
  "action_to_verdict a n = VerdictApproved m \<longleftrightarrow> a = ActionApprove \<and> n = m"
  by (cases a) auto

lemma evaluate_rules_approved:
  assumes "per_verdict (evaluate_rules P ps ctx now n i rules) = VerdictApproved name"
  shows "\<exists>k r. k < length rules \<and> rules ! k = r \<and> pr_name r = name \<and> pr_action r = ActionApprove
           \<and> condition_matches_at P ps (pr_condition r) ctx now
           \<and> (\<forall>j < k. \<not> condition_matches_at P ps (pr_condition (rules ! j)) ctx now)"
proof -
  let ?Q = "\<lambda>r. condition_matches_at P ps (pr_condition r) ctx now"
  from assms obtain r where r: "find ?Q rules = Some r"
    and act: "action_to_verdict (pr_action r) (pr_name r) = VerdictApproved name"
    by (auto simp: evaluate_rules_first_match fail_closed_verdict_def Let_def
        split: option.splits)
  from r obtain k where "k < length rules" "rules ! k = r" "?Q r" "\<forall>j < k. \<not> ?Q (rules ! j)"
    unfolding find_Some_index by blast
  with act show ?thesis by (auto simp: action_to_verdict_approved)
qed

text \<open>C32: A transaction is approved automatically only when no simulation failed and the first rule
  whose condition matches has the action Approve; the verdict carries that rule's name. No rule
  before it matched, and a set in which nothing matches never approves.\<close>

theorem auto_approval_needs_first_matching_approve:
  assumes "per_verdict (evaluate_at P ps ctx now) = VerdictApproved name"
  shows "(case ctx_simulation_result ctx of None \<Rightarrow> True | Some sim \<Rightarrow> sim_success sim)
       \<and> (\<exists>k r. k < length (ps_rules ps) \<and> ps_rules ps ! k = r \<and> pr_name r = name
            \<and> pr_action r = ActionApprove
            \<and> condition_matches_at P ps (pr_condition r) ctx now
            \<and> (\<forall>j < k. \<not> condition_matches_at P ps (pr_condition (ps_rules ps ! j)) ctx now))"
proof (cases "ctx_simulation_result ctx")
  case None
  with assms have "per_verdict (evaluate_rules P ps ctx now (length (ps_rules ps)) 0 (ps_rules ps))
                     = VerdictApproved name"
    by (simp add: evaluate_at_def Let_def)
  from evaluate_rules_approved [OF this] None show ?thesis by simp
next
  case (Some sim)
  with assms have ok: "sim_success sim"
    by (auto simp: evaluate_at_def Let_def split: if_splits)
  with Some assms
  have "per_verdict (evaluate_rules P ps ctx now (length (ps_rules ps)) 0 (ps_rules ps))
          = VerdictApproved name"
    by (simp add: evaluate_at_def Let_def)
  from evaluate_rules_approved [OF this] Some ok show ?thesis by simp
qed

definition example_platform :: "(nat, unit, nat) platform" where
  "example_platform =
     \<lparr>f64_sol_to_lamports = (\<lambda>n. word_of_nat (n * 1000000000)),
      east_opt = (\<lambda>_. Some ()), utc_offset = (),
      hour_of = (\<lambda>_ t. word_of_nat (t div 3600 mod 24)),
      day_of_week = (\<lambda>_ t. word_of_nat ((t div 86400 + 3) mod 7 + 1))\<rparr>"

definition example_context :: "solana_network \<Rightarrow> instruction_summary list \<Rightarrow> policy_evaluation_context" where
  "example_context net ixs =
     \<lparr>ctx_proposal = \<lparr>tp_id = ''t'', tp_session_id = ''s'', tp_wallet_pubkey = ''w'',
        tp_network = net, tp_description = ''transfer'', tp_transaction_b64 = ''AA=='',
        tp_instructions_summary = ixs, tp_created_at = 0\<rparr>,
      ctx_simulation_result = None, ctx_network = net, ctx_session_id = ''s'',
      ctx_session_spend_lamports = 0, ctx_wallet_daily_spend_lamports = 0\<rparr>"

theorem auto_approval_needs_first_matching_approve_witness:
  "per_verdict (evaluate_at example_platform mainnet_safe_default (example_context Devnet []) 0)
     = VerdictApproved ''devnet-allow''
   \<and> (\<exists>k r. k < length (ps_rules (mainnet_safe_default :: nat policy_set)) \<and> ps_rules mainnet_safe_default ! k = r
        \<and> pr_name r = ''devnet-allow'' \<and> pr_action r = ActionApprove
        \<and> condition_matches_at example_platform mainnet_safe_default (pr_condition r) (example_context Devnet []) 0
        \<and> (\<forall>j < k. \<not> condition_matches_at example_platform mainnet_safe_default
               (pr_condition (ps_rules mainnet_safe_default ! j)) (example_context Devnet []) 0))"
proof -
  have approved: "per_verdict (evaluate_at example_platform mainnet_safe_default (example_context Devnet []) 0)
          = VerdictApproved ''devnet-allow''"
    by (simp add: evaluate_at_def mainnet_safe_default_def example_context_def)
  from auto_approval_needs_first_matching_approve [OF this] approved show ?thesis by blast
qed

lemma condition_matches_same_lists:
  assumes "ps_program_allowlist ps' = ps_program_allowlist ps"
    and "ps_destination_denylist ps' = ps_destination_denylist ps"
  shows "condition_matches_at P ps' c ctx now = condition_matches_at P ps c ctx now"
  using assms by (cases c) simp_all

lemma evaluate_rules_same_lists:
  assumes "ps_program_allowlist ps' = ps_program_allowlist ps"
    and "ps_destination_denylist ps' = ps_destination_denylist ps"
  shows "evaluate_rules P ps' ctx now n i rs = evaluate_rules P ps ctx now n i rs"
  by (induction rs arbitrary: i) (simp_all add: condition_matches_same_lists [OF assms])

lemma evaluate_rules_verdict_shift:
  "per_verdict (evaluate_rules P ps ctx now n (i + d) rs)
     = per_verdict (evaluate_rules P ps ctx now m i rs)"
  "per_matched_rule_index (evaluate_rules P ps ctx now n (i + d) rs)
     = map_option (\<lambda>k. k + d) (per_matched_rule_index (evaluate_rules P ps ctx now m i rs))"
  by (auto simp: evaluate_rules_first_match Let_def split: option.splits)

lemma evaluate_rules_unmatched:
  "per_matched_rule_index (evaluate_rules P ps ctx now n i rs) = None
     \<longleftrightarrow> find (\<lambda>r. condition_matches_at P ps (pr_condition r) ctx now) rs = None"
  by (auto simp: evaluate_rules_first_match Let_def split: option.splits)

lemma evaluate_rules_overlay:
  "per_verdict (evaluate_rules P ps ctx now n 0 (srules @ rs)) =
     (if per_matched_rule_index (evaluate_rules P ps ctx now m 0 srules) = None
      then per_verdict (evaluate_rules P ps ctx now l 0 rs)
      else per_verdict (evaluate_rules P ps ctx now m 0 srules))
   \<and> per_matched_rule_index (evaluate_rules P ps ctx now n 0 (srules @ rs)) =
     (if per_matched_rule_index (evaluate_rules P ps ctx now m 0 srules) = None
      then map_option (\<lambda>k. k + length srules)
             (per_matched_rule_index (evaluate_rules P ps ctx now l 0 rs))
      else per_matched_rule_index (evaluate_rules P ps ctx now m 0 srules))"
  using evaluate_rules_verdict_shift [of P ps ctx now n 0 "length srules" rs l]
    evaluate_rules_verdict_shift [of P ps ctx now n 0 0 srules m]
  unfolding evaluate_rules_append evaluate_rules_unmatched
  by (auto split: option.splits simp: option.map_ident)

text \<open>The session overlay: rules prepended for a session decide first, and when none of them
  matches the verdict is the one of the global set, whose rule index is shifted by the number of
  session rules. The allowlist and denylist are the global ones in both cases.\<close>

theorem session_rules_take_precedence:
  "per_verdict (evaluate_at P (with_session_rules ps srules) ctx now) =
     (let sess = evaluate_at P (ps\<lparr>ps_rules := srules\<rparr>) ctx now;
          glob = evaluate_at P ps ctx now
      in if per_matched_rule_index sess = None then per_verdict glob else per_verdict sess)
   \<and> per_matched_rule_index (evaluate_at P (with_session_rules ps srules) ctx now) =
     (let sess = evaluate_at P (ps\<lparr>ps_rules := srules\<rparr>) ctx now;
          glob = evaluate_at P ps ctx now
      in if per_matched_rule_index sess = None
         then map_option (\<lambda>k. k + length srules) (per_matched_rule_index glob)
         else per_matched_rule_index sess)"
proof -
  let ?E = "evaluate_rules P ps ctx now"
  have w: "evaluate_rules P (with_session_rules ps srules) ctx now n i rs = ?E n i rs"
    and s: "evaluate_rules P (ps\<lparr>ps_rules := srules\<rparr>) ctx now n i rs = ?E n i rs" for n i rs
    by (rule evaluate_rules_same_lists; simp add: with_session_rules_def)+
  have r: "ps_rules (with_session_rules ps srules) = srules @ ps_rules ps"
    by (simp add: with_session_rules_def)
  have "per_verdict (?E (length (srules @ ps_rules ps)) 0 (srules @ ps_rules ps)) =
         (if per_matched_rule_index (?E (length srules) 0 srules) = None
          then per_verdict (?E (length (ps_rules ps)) 0 (ps_rules ps))
          else per_verdict (?E (length srules) 0 srules))
       \<and> per_matched_rule_index (?E (length (srules @ ps_rules ps)) 0 (srules @ ps_rules ps)) =
         (if per_matched_rule_index (?E (length srules) 0 srules) = None
          then map_option (\<lambda>k. k + length srules)
                 (per_matched_rule_index (?E (length (ps_rules ps)) 0 (ps_rules ps)))
          else per_matched_rule_index (?E (length srules) 0 srules))"
    by (rule evaluate_rules_overlay)
  then show ?thesis
    unfolding evaluate_at_def w s r by (cases "ctx_simulation_result ctx") (simp_all add: Let_def)
qed

text \<open>The safe default set never lets a mainnet transaction proceed without a human: whatever the
  proposal, simulation and time, the verdict is a request for approval or a failed simulation. On
  the other networks it approves exactly the transactions whose simulation did not fail.\<close>

theorem mainnet_safe_default_verdicts:
  "(let v = per_verdict (evaluate_at P mainnet_safe_default ctx now);
        failed = (case ctx_simulation_result ctx of None \<Rightarrow> False | Some s \<Rightarrow> \<not> sim_success s)
    in (if failed then is_blocked v
        else if is_mainnet (ctx_network ctx) then requires_human v
        else v = VerdictApproved ''devnet-allow'')
       \<and> (is_mainnet (ctx_network ctx) \<or> failed \<longleftrightarrow> \<not> is_auto_approved v))"
  by (cases "ctx_network ctx")
     (auto simp: evaluate_at_def mainnet_safe_default_def Let_def split: option.splits)

section \<open>Amount thresholds\<close>

lemma unat_foldl_saturating_add:
  "unat (foldl saturating_add a xs)
     = min (unat a + sum_list (map unat xs)) (2 ^ LENGTH('a) - 1)"
  for a :: "'a::len word"
proof (induction xs arbitrary: a)
  case Nil
  have "unat a \<le> 2 ^ LENGTH('a) - 1" using unat_less_exp [of a] by linarith
  then have "min (unat a) (2 ^ LENGTH('a) - 1) = unat a" by (rule min_absorb1)
  then show ?case by simp
next
  case (Cons x xs)
  then show ?case by (simp add: unat_saturating_add)
qed

text \<open>The lamport threshold sees through overflow: for a proposal with explicit lamport transfers,
  \<open>AmountExceedsLamports\<close> fires exactly when the true sum of all transfers, taken without a width,
  reaches the threshold. Saturation never lets a huge total slip under it.\<close>

theorem amount_threshold_exact:
  assumes "proposal_amounts ctx \<noteq> []"
  shows "condition_matches_at P ps (AmountExceedsLamports threshold) ctx now
           \<longleftrightarrow> unat threshold \<le> sum_list (map unat (proposal_amounts ctx))"
proof -
  have "unat threshold < 2 ^ LENGTH(64)" by (rule unat_less_exp)
  then have "unat threshold \<le> 2 ^ LENGTH(64) - 1" by simp
  then show ?thesis
    using assms
    by (simp add: transfer_amount_lamports_def word_le_nat_alt unat_foldl_saturating_add
        del: len_bit0)
qed

definition lamport_transfer :: "u64 \<Rightarrow> instruction_summary" where
  "lamport_transfer amount =
     \<lparr>ix_program_id = ''11111111111111111111111111111111'', ix_program_name = None,
      ix_description = ''transfer'', ix_transfer_lamports = Some amount,
      ix_token_transfer = None, ix_is_legacy_token_transfer = False, ix_accounts = []\<rparr>"

theorem amount_threshold_exact_witness:
  "condition_matches_at example_platform mainnet_safe_default (AmountExceedsLamports 1000)
     (example_context Devnet [lamport_transfer (- 1), lamport_transfer 7]) 0"
proof -
  let ?ctx = "example_context Devnet [lamport_transfer (- 1), lamport_transfer 7]"
  have am: "proposal_amounts ?ctx = [- 1, 7]"
    by (simp add: proposal_amounts_def example_context_def lamport_transfer_def
        List.map_filter_def)
  have "proposal_amounts ?ctx \<noteq> []" by (simp add: am)
  from amount_threshold_exact [OF this] show ?thesis
    by (simp add: am unat_minus_one_word_max)
qed

lemma unat_sum_list_no_wrap:
  "sum_list (map unat xs) < 2 ^ LENGTH('a) \<Longrightarrow> unat (sum_list xs) = sum_list (map unat xs)"
  for xs :: "'a::len word list"
proof (induction xs)
  case (Cons x xs)
  then have tl: "unat (sum_list xs) = sum_list (map unat xs)" by simp
  then show ?case using Cons.prems by (simp add: unat_add_no_wrap)
qed simp

text \<open>The token threshold counts every transfer of the mint, and only those, as long as their true
  sum fits 64 bits: it then fires exactly when that sum reaches the threshold.\<close>

theorem token_threshold_exact:
  assumes "sum_list (map (unat \<circ> tt_amount) (filter (\<lambda>tt. tt_mint tt = mint) (token_transfers ctx)))
             < 2 ^ 64"
  shows "condition_matches_at P ps (TokenAmountExceeds mint threshold) ctx now
           \<longleftrightarrow> unat threshold \<le>
                 sum_list (map (unat \<circ> tt_amount) (filter (\<lambda>tt. tt_mint tt = mint) (token_transfers ctx)))"
proof -
  let ?xs = "map tt_amount (filter (\<lambda>tt. tt_mint tt = mint) (token_transfers ctx))"
  have "sum_list (map unat ?xs) < 2 ^ LENGTH(64)"
    using assms by (simp add: comp_def)
  from unat_sum_list_no_wrap [OF this] show ?thesis
    by (simp add: token_total_def word_le_nat_alt comp_def)
qed

definition token_transfer_ix :: "string \<Rightarrow> u64 \<Rightarrow> instruction_summary" where
  "token_transfer_ix mint amount =
     \<lparr>ix_program_id = ''TokenkegQfeZyiNwAJbNbGKPFXCWuBvf9Ss623VQ5DA'', ix_program_name = None,
      ix_description = ''transferChecked'', ix_transfer_lamports = None,
      ix_token_transfer = Some \<lparr>tt_mint = mint, tt_amount = amount, tt_decimals = Some 6,
                                tt_source = ''src'', tt_destination = ''dst''\<rparr>,
      ix_is_legacy_token_transfer = False, ix_accounts = []\<rparr>"

theorem token_threshold_exact_witness:
  "condition_matches_at example_platform mainnet_safe_default (TokenAmountExceeds ''usdc'' 5)
     (example_context Devnet [token_transfer_ix ''usdc'' 3, token_transfer_ix ''sol'' 9,
                              token_transfer_ix ''usdc'' 2]) 0"
proof -
  let ?ctx = "example_context Devnet [token_transfer_ix ''usdc'' 3, token_transfer_ix ''sol'' 9,
                                      token_transfer_ix ''usdc'' 2]"
  have am: "map (unat \<circ> tt_amount) (filter (\<lambda>tt. tt_mint tt = ''usdc'') (token_transfers ?ctx)) = [3, 2]"
    by (simp add: token_transfers_def example_context_def token_transfer_ix_def List.map_filter_def)
  have "sum_list (map (unat \<circ> tt_amount)
          (filter (\<lambda>tt. tt_mint tt = ''usdc'') (token_transfers ?ctx))) < 2 ^ 64"
    unfolding am by simp
  from token_threshold_exact [OF this] show ?thesis unfolding am by simp
qed

section \<open>Where the token threshold wraps\<close>

definition token_amounts :: "string \<Rightarrow> policy_evaluation_context \<Rightarrow> nat list" where
  "token_amounts mint ctx = map (unat \<circ> tt_amount) (filter (\<lambda>tt. tt_mint tt = mint) (token_transfers ctx))"

definition with_instructions ::
    "policy_evaluation_context \<Rightarrow> instruction_summary list \<Rightarrow> policy_evaluation_context" where
  "with_instructions ctx ixs =
     ctx\<lparr>ctx_proposal := (ctx_proposal ctx)\<lparr>tp_instructions_summary :=
        tp_instructions_summary (ctx_proposal ctx) @ ixs\<rparr>\<rparr>"

lemma unat_sum_list: "unat (sum_list xs) = sum_list (map unat xs) mod 2 ^ LENGTH('a)" for xs :: "'a::len word list"
  by (induction xs) (simp_all add: unat_word_ariths(1) mod_simps)

lemma token_total_mod: "unat (token_total mint ctx) = sum_list (token_amounts mint ctx) mod 2 ^ 64"
  using unat_sum_list [of "map tt_amount (filter (\<lambda>tt. tt_mint tt = mint) (token_transfers ctx))"]
  by (simp add: token_total_def token_amounts_def comp_def)

lemma token_amounts_with:
  "token_amounts mint (with_instructions ctx (map (token_transfer_ix mint) amounts))
     = token_amounts mint ctx @ map unat amounts"
  by (simp add: token_amounts_def with_instructions_def token_transfers_def token_transfer_ix_def
      List.map_filter_def comp_def)

lemma unat_u64_of_nat: "r < 2 ^ 64 \<Longrightarrow> unat (word_of_nat r :: u64) = r"
  by (simp only: unat_of_nat take_bit_eq_mod len_num1 len_bit0 mult_1_right) (simp only: mod_less numeral_times_numeral semiring_norm)

lemma topping_up: "\<exists>amounts :: u64 list. length amounts \<le> 2 \<and> 2 ^ 64 \<le> n + sum_list (map unat amounts)
    \<and> (n + sum_list (map unat amounts)) mod 2 ^ 64 = 0"
proof (cases "n mod 2 ^ 64 = 0")
  case True
  let ?half = "2 ^ 63 :: u64"
  have sum: "n + sum_list (map unat [?half, ?half]) = n + 2 ^ 64" by simp
  show ?thesis
  proof (rule exI [of _ "[?half, ?half]"], intro conjI)
    show "length [?half, ?half] \<le> 2" by simp
    show "2 ^ 64 \<le> n + sum_list (map unat [?half, ?half])" unfolding sum by (rule le_add2)
    show "(n + sum_list (map unat [?half, ?half])) mod 2 ^ 64 = 0" unfolding sum using True by (simp only: mod_add_self2)
  qed
next
  case False
  define r where "r = 2 ^ 64 - n mod 2 ^ 64"
  have small: "n mod 2 ^ 64 < 2 ^ 64" by simp
  then have "r < 2 ^ 64" unfolding r_def using False by linarith
  then have u: "unat (word_of_nat r :: u64) = r" by (rule unat_u64_of_nat)
  have "n + r = (n div 2 ^ 64 + 1) * 2 ^ 64"
    using small div_mult_mod_eq [of n "2 ^ 64"] unfolding r_def distrib_right mult_1 by linarith
  then have sum: "n + sum_list (map unat [word_of_nat r :: u64]) = (n div 2 ^ 64 + 1) * 2 ^ 64"
    by (simp only: list.map sum_list.Cons sum_list.Nil u add_0_right)
  show ?thesis
  proof (rule exI [of _ "[word_of_nat r :: u64]"], intro conjI)
    show "length [word_of_nat r :: u64] \<le> 2" by simp
    show "2 ^ 64 \<le> n + sum_list (map unat [word_of_nat r :: u64])" unfolding sum by simp
    show "(n + sum_list (map unat [word_of_nat r :: u64])) mod 2 ^ 64 = 0"
      unfolding sum by (rule mod_mult_self2_is_0)
  qed
qed

text \<open>C36: The token threshold compares the sum of the transfers of its mint modulo 2^64, and so it can be
  evaded: for every proposal and every positive threshold, appending at most two more transfers of the
  same mint, which bring the amount that really leaves to 2^64 or more, gives a proposal for which the
  condition is not met, whatever it was before.\<close>

theorem token_threshold_wraps:
  "(condition_matches_at P ps (TokenAmountExceeds mint threshold) ctx now
      \<longleftrightarrow> unat threshold \<le> sum_list (token_amounts mint ctx) mod 2 ^ 64)
   \<and> (0 < threshold \<longrightarrow>
        (\<exists>amounts. length amounts \<le> 2
           \<and> (let ctx' = with_instructions ctx (map (token_transfer_ix mint) amounts) in
                2 ^ 64 \<le> sum_list (token_amounts mint ctx')
              \<and> \<not> condition_matches_at P ps (TokenAmountExceeds mint threshold) ctx' now)))"
proof -
  have exact: "condition_matches_at P ps (TokenAmountExceeds mint threshold) c now
      \<longleftrightarrow> unat threshold \<le> sum_list (token_amounts mint c) mod 2 ^ 64" for c
    by (simp only: condition_matches_at.simps word_le_nat_alt token_total_mod)
  obtain amounts :: "u64 list" where a: "length amounts \<le> 2"
    "2 ^ 64 \<le> sum_list (token_amounts mint ctx) + sum_list (map unat amounts)"
    "(sum_list (token_amounts mint ctx) + sum_list (map unat amounts)) mod 2 ^ 64 = 0"
    using topping_up [of "sum_list (token_amounts mint ctx)"] by (elim exE conjE)
  show ?thesis
  proof (rule conjI [OF exact], rule impI)
    assume "0 < threshold"
    then have "\<not> unat threshold \<le> 0" by (simp only: word_less_nat_alt unat_0 not_le)
    then have "\<not> unat threshold \<le> (sum_list (token_amounts mint ctx) + sum_list (map unat amounts)) mod 2 ^ 64"
      unfolding a(3) .
    then have b: "\<not> condition_matches_at P ps (TokenAmountExceeds mint threshold)
        (with_instructions ctx (map (token_transfer_ix mint) amounts)) now"
      unfolding exact token_amounts_with sum_list_append .
    have c: "2 ^ 64 \<le> sum_list (token_amounts mint (with_instructions ctx (map (token_transfer_ix mint) amounts)))"
      unfolding token_amounts_with sum_list_append by (rule a(2))
    show "\<exists>amounts. length amounts \<le> 2
        \<and> (let ctx' = with_instructions ctx (map (token_transfer_ix mint) amounts) in
             2 ^ 64 \<le> sum_list (token_amounts mint ctx')
           \<and> \<not> condition_matches_at P ps (TokenAmountExceeds mint threshold) ctx' now)"
      unfolding Let_def by (rule exI [of _ amounts], rule conjI [OF a(1) conjI [OF c b]])
  qed
qed

theorem token_threshold_wraps_witness:
  "condition_matches_at example_platform mainnet_safe_default (TokenAmountExceeds ''usdc'' 1)
     (example_context MainnetBeta [token_transfer_ix ''usdc'' 5]) 0
   \<and> (\<exists>amounts. length amounts \<le> 2
        \<and> \<not> condition_matches_at example_platform mainnet_safe_default (TokenAmountExceeds ''usdc'' 1)
             (with_instructions (example_context MainnetBeta [token_transfer_ix ''usdc'' 5])
                (map (token_transfer_ix ''usdc'') amounts)) 0)"
proof -
  let ?ctx = "example_context MainnetBeta [token_transfer_ix ''usdc'' 5]"
  have "token_amounts ''usdc'' ?ctx = [5]"
    by (simp add: token_amounts_def token_transfers_def example_context_def token_transfer_ix_def List.map_filter_def)
  then have "condition_matches_at example_platform mainnet_safe_default (TokenAmountExceeds ''usdc'' 1) ?ctx 0"
    using token_threshold_wraps [of example_platform mainnet_safe_default "''usdc''" 1 ?ctx 0] by simp
  moreover have "(0 :: u64) < 1" by simp
  with token_threshold_wraps [of example_platform mainnet_safe_default "''usdc''" 1 ?ctx 0]
  have "\<exists>amounts. length amounts \<le> 2
      \<and> \<not> condition_matches_at example_platform mainnet_safe_default (TokenAmountExceeds ''usdc'' 1)
           (with_instructions ?ctx (map (token_transfer_ix ''usdc'') amounts)) 0"
    unfolding Let_def by blast
  ultimately show ?thesis by blast
qed

section \<open>Allowed hours\<close>

lemma circular_interval:
  assumes "s < 24" and "e < 24" and "h < (24 :: nat)"
  shows "(if s \<le> e then s \<le> h \<and> h \<le> e else s \<le> h \<or> h \<le> e)
     \<longleftrightarrow> (int h - int s) mod 24 \<le> (int e - int s) mod 24"
proof -
  have m: "(int a - int b) mod 24 = (if b \<le> a then int a - int b else int a - int b + 24)"
    if "a < 24" "b < 24" for a b :: nat
  proof (cases "b \<le> a")
    case False
    have "(int a - int b) mod 24 = (int a - int b + 24) mod 24" by simp
    also have "\<dots> = int a - int b + 24"
      using False that by (intro mod_pos_pos_trivial) auto
    finally show ?thesis using False by simp
  qed (use that in \<open>simp add: mod_pos_pos_trivial\<close>)
  show ?thesis
    unfolding m [OF assms(3,1)] m [OF assms(2,1)] using assms by auto
qed

text \<open>The hour window is the circular interval from the start hour to the end hour, both
  inclusive: walking forward from the start around the clock, the hour is reached no later than
  the end. This covers the windows that wrap past midnight.\<close>

theorem hour_window_circular:
  assumes "unat start_hour < 24" and "unat end_hour < 24" and "unat hour < 24"
  shows "hour_allowed start_hour end_hour hour
     \<longleftrightarrow> (int (unat hour) - int (unat start_hour)) mod 24
          \<le> (int (unat end_hour) - int (unat start_hour)) mod 24"
  unfolding hour_allowed_def word_le_nat_alt by (rule circular_interval [OF assms])

theorem hour_window_circular_witness:
  "hour_allowed 22 6 3 \<and> \<not> hour_allowed 22 6 12 \<and> hour_allowed 9 17 17"
proof -
  have a: "unat (22 :: u8) < 24" "unat (6 :: u8) < 24" "unat (3 :: u8) < 24"
    "unat (12 :: u8) < 24" "unat (9 :: u8) < 24" "unat (17 :: u8) < 24" by simp_all
  show ?thesis
    using hour_window_circular [OF a(1,2,3)] hour_window_circular [OF a(1,2,4)]
      hour_window_circular [OF a(5,6,6)] by simp
qed

section \<open>Spend caps\<close>

text \<open>The cap check is exact: it reports an excess exactly when the true sum of the current and the
  proposed spend is above the cap, overflow included.\<close>

theorem exceeds_cap_exact:
  "exceeds_cap current_spend proposed cap \<longleftrightarrow> unat cap < unat current_spend + unat proposed"
proof (cases "checked_add current_spend proposed")
  case None
  then have "2 ^ LENGTH(64) \<le> unat current_spend + unat proposed" by (simp only: checked_add_None)
  with unat_less_exp [of cap] have "unat cap < unat current_spend + unat proposed" by linarith
  with None show ?thesis by (simp add: exceeds_cap_def)
next
  case (Some s)
  then have "unat s = unat current_spend + unat proposed" by (simp only: checked_add_Some)
  with Some show ?thesis by (simp add: exceeds_cap_def word_less_nat_alt)
qed

datatype spend_event = RecordSpend string string string u64 | ClearSession string

fun tracker_step :: "spend_tracker \<Rightarrow> spend_event \<Rightarrow> spend_tracker" where
  "tracker_step t (RecordSpend today session wallet amount) = record_spend t today session wallet amount"
| "tracker_step t (ClearSession session) = clear_session t session"

fun session_ledger :: "string \<Rightarrow> u64 \<Rightarrow> spend_event list \<Rightarrow> u64" where
  "session_ledger s acc [] = acc"
| "session_ledger s acc (RecordSpend today session wallet amount # es) =
     session_ledger s (if session = s then acc + amount else acc) es"
| "session_ledger s acc (ClearSession session # es) =
     session_ledger s (if session = s then 0 else acc) es"

fun daily_ledger :: "string \<Rightarrow> string \<Rightarrow> spend_event list \<Rightarrow> u64" where
  "daily_ledger d w [] = 0"
| "daily_ledger d w (RecordSpend today session wallet amount # es) =
     (if today = d \<and> wallet = w then amount else 0) + daily_ledger d w es"
| "daily_ledger d w (ClearSession session # es) = daily_ledger d w es"

lemma session_spend_step:
  "session_spend (record_spend t today session wallet amount) s
     = (if session = s then session_spend t s + amount else session_spend t s)"
  "session_spend (clear_session t session) s = (if session = s then 0 else session_spend t s)"
  by (simp_all add: session_spend_def record_spend_def clear_session_def unwrap_or_zero_def)

lemma daily_spend_step:
  "daily_spend (record_spend t today session wallet amount) d w
     = (if today = d \<and> wallet = w then amount else 0) + daily_spend t d w"
  "daily_spend (clear_session t session) d w = daily_spend t d w"
  by (simp_all add: daily_spend_def record_spend_def clear_session_def unwrap_or_zero_def)

lemma tracker_session_run:
  "session_spend (foldl tracker_step t es) s = session_ledger s (session_spend t s) es"
proof (induction es arbitrary: t)
  case (Cons e es)
  show ?case by (cases e) (simp_all add: Cons session_spend_step)
qed simp

lemma tracker_daily_run:
  "daily_spend (foldl tracker_step t es) d w = daily_spend t d w + daily_ledger d w es"
proof (induction es arbitrary: t)
  case (Cons e es)
  show ?case by (cases e) (simp_all add: Cons daily_spend_step)
qed simp

text \<open>The tracker is a ledger: after any sequence of recorded spends the session total is the sum of
  the amounts recorded for that session since it was last cleared, modulo 2^64, and the daily total
  is the sum recorded for that wallet on that day; clearing a session leaves daily totals alone.\<close>

theorem spend_tracker_is_ledger:
  "session_spend (foldl tracker_step spend_tracker_new es) s = session_ledger s 0 es
   \<and> daily_spend (foldl tracker_step spend_tracker_new es) d w = daily_ledger d w es"
  unfolding tracker_session_run tracker_daily_run
  by (simp add: spend_tracker_new_def session_spend_def daily_spend_def unwrap_or_zero_def)

end
