(* ===== verification/Interfaces.thy ===== *)
theory Interfaces
  imports Prelude
begin

text \<open>
  The contracts that several components share, as locales. \<open>status_codec\<close> is the contract of an
  enumeration stored as text (\<open>as_str\<close> or \<open>label\<close> with its \<open>parse\<close>); \<open>lifecycle\<close> that of an
  object with a state and terminal states; \<open>invariant_lifecycle\<close> adds an invariant kept by every
  operation; \<open>keyed_store\<close> is a table whose operations are updates guarded by one primary key.
  Each is interpreted on the model of the code in the theory of the component that provides it.
\<close>

section \<open>Enumerations stored as text\<close>

locale status_codec =
  fixes as_str :: "'s \<Rightarrow> string"
    and parse :: "string \<Rightarrow> 's option"
  assumes parse_as_str: "parse (as_str s) = Some s"
    and parse_sound: "parse t = Some s \<Longrightarrow> as_str s = t"
begin

lemma parse_iff: "parse t = Some s \<longleftrightarrow> t = as_str s"
  using parse_as_str parse_sound by auto

lemma as_str_inject: "as_str s = as_str s' \<longleftrightarrow> s = s'"
  by (metis parse_as_str option.inject)

lemma parse_None: "parse t = None \<longleftrightarrow> t \<notin> range as_str"
  by (metis not_None_eq parse_as_str parse_sound rangeE rangeI)

end

section \<open>Objects with a lifecycle\<close>

locale lifecycle =
  fixes state_of :: "'w \<Rightarrow> 's"
    and terminal :: "'s \<Rightarrow> bool"
    and step :: "'w \<Rightarrow> 'i \<Rightarrow> 'w"
  assumes terminal_stuck: "terminal (state_of w) \<Longrightarrow> state_of (step w i) = state_of w"
begin

lemma terminal_run: "terminal (state_of w) \<Longrightarrow> state_of (foldl step w is) = state_of w"
proof (induction "is" arbitrary: w)
  case (Cons i "is")
  then have "state_of (step w i) = state_of w" by (simp add: terminal_stuck)
  with Cons show ?case by simp
qed simp

lemma terminal_prefix:
  assumes "terminal (state_of (foldl step w is))"
  shows "state_of (foldl step w (is @ js)) = state_of (foldl step w is)"
  using terminal_run [OF assms] by simp

end

locale invariant_lifecycle = lifecycle +
  fixes invar :: "'w \<Rightarrow> bool"
  assumes invar_step: "invar w \<Longrightarrow> invar (step w i)"
begin

lemma invar_run: "invar w \<Longrightarrow> invar (foldl step w is)"
  by (induction "is" arbitrary: w) (auto simp: invar_step)

end

section \<open>Tables updated by primary key\<close>

text \<open>
  An operation is described by its guard and its rewrite of the row; it leaves the key alone. The
  client sees the row of a key through \<open>get\<close>.
\<close>

locale keyed_store =
  fixes key :: "'r \<Rightarrow> 'k"
    and guard :: "'op \<Rightarrow> 'r \<Rightarrow> bool"
    and rewrite :: "'op \<Rightarrow> 'r \<Rightarrow> 'r"
  assumes key_rewrite: "key (rewrite a r) = key r"
begin

definition exec :: "'r list \<Rightarrow> 'k \<times> 'op \<Rightarrow> 'r list" where
  "exec t ka = fst (sql_update (\<lambda>r. key r = fst ka \<and> guard (snd ka) r) (rewrite (snd ka)) t)"

definition affected :: "'r list \<Rightarrow> 'k \<times> 'op \<Rightarrow> nat" where
  "affected t ka = snd (sql_update (\<lambda>r. key r = fst ka \<and> guard (snd ka) r) (rewrite (snd ka)) t)"

lemma exec_keys: "map key (exec t ka) = map key t"
  by (simp add: exec_def sql_update_keys key_rewrite)

lemma get_exec:
  "sql_get key k (exec t ka) =
     map_option (\<lambda>r. if k = fst ka \<and> guard (snd ka) r then rewrite (snd ka) r else r) (sql_get key k t)"
proof (cases "sql_get key k t")
  case None
  then show ?thesis by (simp add: exec_def sql_update_get key_rewrite)
next
  case (Some r)
  then have "key r = k" by (auto dest: sql_get_Some_in)
  with Some show ?thesis by (auto simp: exec_def sql_update_get key_rewrite)
qed

lemma affected_le_1: "distinct (map key t) \<Longrightarrow> affected t ka \<le> 1"
  by (auto simp: affected_def sql_update_key_count split: option.splits)

lemma affected_iff:
  "distinct (map key t) \<Longrightarrow>
     affected t ka = 1 \<longleftrightarrow> (\<exists>r. sql_get key (fst ka) t = Some r \<and> guard (snd ka) r)"
  by (auto simp: affected_def sql_update_key_count split: option.splits)

lemma not_affected_unchanged: "affected t ka = 0 \<Longrightarrow> exec t ka = t"
  by (simp add: affected_def exec_def sql_update_none)

lemma exec_other: "k \<noteq> fst ka \<Longrightarrow> sql_get key k (exec t ka) = sql_get key k t"
  by (simp add: get_exec option.map_ident)

text \<open>The row of one key after any sequence of operations is the run of the operations on that key.\<close>

definition row_step :: "'r \<Rightarrow> 'op \<Rightarrow> 'r" where
  "row_step r a = (if guard a r then rewrite a r else r)"

lemma get_exec_run:
  "sql_get key k (foldl exec t kas) =
     map_option (\<lambda>r. foldl row_step r (map snd (filter (\<lambda>ka. fst ka = k) kas))) (sql_get key k t)"
proof (induction kas arbitrary: t)
  case Nil
  then show ?case by (simp add: option.map_ident)
next
  case (Cons ka kas)
  show ?case
    by (cases "sql_get key k t") (auto simp: Cons get_exec row_step_def)
qed

text \<open>
  How often the operations of a kind succeed on one key in a run. When success makes the row
  \<open>closed\<close> and a closed row stays closed and refuses the kind, they succeed at most once.
\<close>

fun wins :: "('op \<Rightarrow> bool) \<Rightarrow> 'k \<Rightarrow> 'r list \<Rightarrow> ('k \<times> 'op) list \<Rightarrow> nat" where
  "wins P k t [] = 0"
| "wins P k t (ka # kas) =
     (if fst ka = k \<and> P (snd ka) then affected t ka else 0) + wins P k (exec t ka) kas"

lemma wins_bound:
  assumes "distinct (map key t)"
    and "\<And>a. (k, a) \<in> set kas \<Longrightarrow> Q a"
    and refuse: "\<And>r a. Q a \<Longrightarrow> closed r \<Longrightarrow> guard a r \<Longrightarrow> \<not> P a"
    and close: "\<And>r a. Q a \<Longrightarrow> P a \<Longrightarrow> guard a r \<Longrightarrow> closed (rewrite a r)"
    and keep: "\<And>r a. Q a \<Longrightarrow> closed r \<Longrightarrow> guard a r \<Longrightarrow> closed (rewrite a r)"
  shows "wins P k t kas \<le> (case sql_get key k t of None \<Rightarrow> 0 | Some r \<Rightarrow> if closed r then 0 else 1)"
  using assms(1,2)
proof (induction kas arbitrary: t)
  case (Cons ka kas)
  have IH: "wins P k (exec t ka) kas \<le>
      (case sql_get key k (exec t ka) of None \<Rightarrow> 0 | Some r \<Rightarrow> if closed r then 0 else 1)"
    by (rule Cons.IH) (use Cons.prems in \<open>auto simp: exec_keys\<close>)
  have "Q (snd ka)" if "fst ka = k"
    using Cons.prems(2) [of "snd ka"] that by (cases ka) auto
  with IH show ?case
    using Cons.prems(1) refuse close keep
    by (cases "sql_get key k t")
       (fastforce simp: get_exec affected_def sql_update_key_count split: if_splits)+
qed simp

lemma wins_le_1:
  assumes "distinct (map key t)"
    and "\<And>a. (k, a) \<in> set kas \<Longrightarrow> Q a"
    and "\<And>r a. Q a \<Longrightarrow> closed r \<Longrightarrow> guard a r \<Longrightarrow> \<not> P a"
    and "\<And>r a. Q a \<Longrightarrow> P a \<Longrightarrow> guard a r \<Longrightarrow> closed (rewrite a r)"
    and "\<And>r a. Q a \<Longrightarrow> closed r \<Longrightarrow> guard a r \<Longrightarrow> closed (rewrite a r)"
  shows "wins P k t kas \<le> 1"
proof -
  have "wins P k t kas \<le> (case sql_get key k t of None \<Rightarrow> 0 | Some r \<Rightarrow> if closed r then 0 else 1)"
    by (rule wins_bound [where Q = Q]) (use assms in auto)
  then show ?thesis by (auto split: option.splits if_splits)
qed

lemma run_keys: "map key (foldl exec t kas) = map key t"
  by (induction kas arbitrary: t) (simp_all add: exec_keys)

end

end
