(* ===== verification/Approval.thy ===== *)
theory Approval
  imports Core_Types Interfaces
begin

text \<open>
  The approval request and the approval workflow of \<open>crates/types/src/approval.rs\<close>. Instants have
  the abstract ordered type \<open>'t\<close>; the clock reading \<open>Utc::now()\<close> and a fresh \<open>Uuid\<close> are arguments
  of the operation that takes them. A workflow is a list of stages with the decisions recorded for
  each; a decision goes to the first stage that still waits for one. The lemmas give its invariant,
  the finality of terminal states, and how many approvals make a workflow approved.
\<close>

section \<open>Requests and decisions\<close>

record 't approval_request =
  req_id :: string
  req_session_id :: string
  req_transaction_id :: string
  req_description :: string
  req_policy_verdict :: policy_verdict
  req_simulation :: simulation_result
  req_requested_at :: 't
  req_decided :: bool
  req_required_approver_role :: "string option"

definition approval_request_new ::
    "string \<Rightarrow> 't \<Rightarrow> string \<Rightarrow> string \<Rightarrow> string \<Rightarrow> policy_verdict \<Rightarrow> simulation_result \<Rightarrow> 't approval_request" where
  "approval_request_new fresh_id now session_id transaction_id description verdict simulation =
     \<lparr>req_id = fresh_id, req_session_id = session_id, req_transaction_id = transaction_id,
      req_description = description, req_policy_verdict = verdict, req_simulation = simulation,
      req_requested_at = now, req_decided = False,
      req_required_approver_role =
        (case verdict of VerdictRequiresHumanApproval _ _ role _ \<Rightarrow> role | _ \<Rightarrow> None)\<rparr>"

record 't approval_decision =
  dec_request_id :: string
  dec_approved :: bool
  dec_note :: "string option"
  dec_approver_role :: "string option"
  dec_operator_id :: "string option"
  dec_decided_at :: 't

definition decision_approve :: "'t \<Rightarrow> string \<Rightarrow> string option \<Rightarrow> 't approval_decision" where
  "decision_approve now request_id note =
     \<lparr>dec_request_id = request_id, dec_approved = True, dec_note = note,
      dec_approver_role = None, dec_operator_id = None, dec_decided_at = now\<rparr>"

definition decision_approve_as :: "'t \<Rightarrow> string \<Rightarrow> string option \<Rightarrow> string \<Rightarrow> 't approval_decision" where
  "decision_approve_as now request_id note role =
     \<lparr>dec_request_id = request_id, dec_approved = True, dec_note = note,
      dec_approver_role = Some role, dec_operator_id = None, dec_decided_at = now\<rparr>"

definition decision_reject :: "'t \<Rightarrow> string \<Rightarrow> string option \<Rightarrow> 't approval_decision" where
  "decision_reject now request_id note =
     \<lparr>dec_request_id = request_id, dec_approved = False, dec_note = note,
      dec_approver_role = None, dec_operator_id = None, dec_decided_at = now\<rparr>"

section \<open>The workflow\<close>

datatype approval_workflow_state = WfPending | WfApproved | WfRejected | WfExpired

fun wf_is_terminal :: "approval_workflow_state \<Rightarrow> bool" where
  "wf_is_terminal WfApproved = True"
| "wf_is_terminal WfRejected = True"
| "wf_is_terminal WfExpired = True"
| "wf_is_terminal WfPending = False"

fun wf_is_approved :: "approval_workflow_state \<Rightarrow> bool" where
  "wf_is_approved WfApproved = True"
| "wf_is_approved _ = False"

fun wf_label :: "approval_workflow_state \<Rightarrow> string" where
  "wf_label WfPending = ''pending''"
| "wf_label WfApproved = ''approved''"
| "wf_label WfRejected = ''rejected''"
| "wf_label WfExpired = ''expired''"

record 't stage_decision =
  sd_approved :: bool
  sd_operator_id :: "string option"
  sd_approver_role :: "string option"
  sd_decided_at :: 't

record 't approval_stage =
  stg_index :: nat
  stg_allowed_roles :: "string list"
  stg_min_approvals :: u32
  stg_decisions :: "'t stage_decision list"

definition approval_count :: "'t approval_stage \<Rightarrow> nat" where
  "approval_count s = length (filter sd_approved (stg_decisions s))"

definition quorum_met :: "'t approval_stage \<Rightarrow> bool" where
  "quorum_met s \<longleftrightarrow> unat (stg_min_approvals s) \<le> approval_count s"

definition has_rejection :: "'t approval_stage \<Rightarrow> bool" where
  "has_rejection s \<longleftrightarrow> (\<exists>d \<in> set (stg_decisions s). \<not> sd_approved d)"

definition is_pending :: "'t approval_stage \<Rightarrow> bool" where
  "is_pending s \<longleftrightarrow> \<not> quorum_met s \<and> \<not> has_rejection s"

definition has_operator_voted :: "'t approval_stage \<Rightarrow> string \<Rightarrow> bool" where
  "has_operator_voted s operator_id \<longleftrightarrow>
     (\<exists>d \<in> set (stg_decisions s). sd_operator_id d = Some operator_id)"

record 't approval_workflow =
  wf_request_id :: string
  wf_session_id :: string
  wf_state :: approval_workflow_state
  wf_stages :: "'t approval_stage list"
  wf_created_at :: 't
  wf_updated_at :: 't
  wf_expires_at :: "'t option"

definition single_stage :: "'t \<Rightarrow> string \<Rightarrow> string \<Rightarrow> string option \<Rightarrow> 't approval_workflow" where
  "single_stage now request_id session_id required_role =
     \<lparr>wf_request_id = request_id, wf_session_id = session_id, wf_state = WfPending,
      wf_stages = [\<lparr>stg_index = 0,
                    stg_allowed_roles = (case required_role of Some r \<Rightarrow> [r] | None \<Rightarrow> []),
                    stg_min_approvals = 1, stg_decisions = []\<rparr>],
      wf_created_at = now, wf_updated_at = now, wf_expires_at = None\<rparr>"

text \<open>
  \<open>plus_seconds\<close> is \<open>now + chrono::Duration::seconds(s)\<close>, \<open>None\<close> where \<open>chrono\<close> panics; the cast
  \<open>seconds as i64\<close> keeps the bits.
\<close>

definition with_lease_seconds ::
    "('t \<Rightarrow> i64 \<Rightarrow> 't option) \<Rightarrow> 't \<Rightarrow> 't approval_workflow \<Rightarrow> u64 \<Rightarrow> 't approval_workflow option" where
  "with_lease_seconds plus_seconds now w seconds =
     (if 0 < seconds
      then map_option (\<lambda>e. w\<lparr>wf_expires_at := Some e\<rparr>) (plus_seconds now seconds)
      else Some w)"

definition is_expired :: "'t::linorder \<Rightarrow> 't approval_workflow \<Rightarrow> bool" where
  "is_expired now w = (case wf_expires_at w of Some e \<Rightarrow> e < now | None \<Rightarrow> False)"

definition current_stage :: "'t approval_workflow \<Rightarrow> 't approval_stage option" where
  "current_stage w = find is_pending (wf_stages w)"

text \<open>\<open>self.stages.iter().position(|s| s.is_pending())\<close>\<close>

fun position :: "('a \<Rightarrow> bool) \<Rightarrow> 'a list \<Rightarrow> nat option" where
  "position Q [] = None"
| "position Q (x # xs) = (if Q x then Some 0 else map_option Suc (position Q xs))"

definition push_decision :: "'t stage_decision \<Rightarrow> 't approval_stage \<Rightarrow> 't approval_stage" where
  "push_decision d s = s\<lparr>stg_decisions := stg_decisions s @ [d]\<rparr>"

definition apply_decision ::
    "'t \<Rightarrow> 't approval_workflow \<Rightarrow> 't stage_decision \<Rightarrow> 't approval_workflow \<times> bool" where
  "apply_decision now w decision =
     (if wf_is_terminal (wf_state w) then (w, False)
      else case position is_pending (wf_stages w) of
        None \<Rightarrow> (w, False)
      | Some i \<Rightarrow>
          (let stages = (wf_stages w)[i := push_decision decision (wf_stages w ! i)];
               w' = w\<lparr>wf_stages := stages, wf_updated_at := now\<rparr>
           in if \<not> sd_approved decision then (w'\<lparr>wf_state := WfRejected\<rparr>, True)
              else if quorum_met (stages ! i) \<and> list_all quorum_met stages
                then (w'\<lparr>wf_state := WfApproved\<rparr>, True)
              else (w', True)))"

definition expire_workflow :: "'t \<Rightarrow> 't approval_workflow \<Rightarrow> 't approval_workflow \<times> bool" where
  "expire_workflow now w =
     (if wf_state w = WfPending
      then (w\<lparr>wf_state := WfExpired, wf_updated_at := now\<rparr>, True)
      else (w, False))"

datatype 't workflow_op = OpDecide "'t stage_decision" | OpExpire

fun workflow_step :: "'t approval_workflow \<Rightarrow> 't \<times> 't workflow_op \<Rightarrow> 't approval_workflow" where
  "workflow_step w (now, OpDecide d) = fst (apply_decision now w d)"
| "workflow_step w (now, OpExpire) = fst (expire_workflow now w)"

section \<open>The workflow invariant\<close>

lemma position_Some:
  "position Q xs = Some i \<longleftrightarrow> i < length xs \<and> Q (xs ! i) \<and> (\<forall>j < i. \<not> Q (xs ! j))"
proof (induction xs arbitrary: i)
  case (Cons x xs)
  show ?case by (cases i) (auto simp: Cons All_less_Suc2)
qed simp

lemma position_None: "position Q xs = None \<longleftrightarrow> (\<forall>x \<in> set xs. \<not> Q x)"
  by (induction xs) auto

lemma current_stage_position:
  "current_stage w = map_option (\<lambda>i. wf_stages w ! i) (position is_pending (wf_stages w))"
proof -
  have "find Q xs = map_option (\<lambda>i. xs ! i) (position Q xs)" for Q and xs :: "'b list"
    by (induction xs) (auto simp: option.map_comp comp_def)
  then show ?thesis by (simp add: current_stage_def)
qed

lemma push_decision_simps [simp]:
  "stg_min_approvals (push_decision d s) = stg_min_approvals s"
  "stg_decisions (push_decision d s) = stg_decisions s @ [d]"
  "approval_count (push_decision d s) = approval_count s + (if sd_approved d then 1 else 0)"
  "has_rejection (push_decision d s) \<longleftrightarrow> has_rejection s \<or> \<not> sd_approved d"
  by (auto simp: push_decision_def approval_count_def has_rejection_def)

text \<open>
  The stages are worked off in order: a stage holds decisions only when every earlier stage has its
  quorum. No stage collects more approvals than it asks for.
\<close>

definition stages_in_order :: "'t approval_stage list \<Rightarrow> bool" where
  "stages_in_order = sorted_wrt (\<lambda>a b. stg_decisions b \<noteq> [] \<longrightarrow> quorum_met a)"

definition workflow_inv :: "'t approval_workflow \<Rightarrow> bool" where
  "workflow_inv w \<longleftrightarrow>
     stages_in_order (wf_stages w)
   \<and> (\<forall>s \<in> set (wf_stages w). approval_count s \<le> unat (stg_min_approvals s))
   \<and> (wf_state w = WfApproved \<longrightarrow> list_all quorum_met (wf_stages w))
   \<and> (wf_state w = WfRejected \<longleftrightarrow> (\<exists>s \<in> set (wf_stages w). has_rejection s))"

lemma stages_in_order_push:
  assumes order: "stages_in_order ss" and i: "i < length ss" and pend: "is_pending (ss ! i)"
    and before: "\<forall>j < i. quorum_met (ss ! j)"
  shows "stages_in_order (ss[i := push_decision d (ss ! i)])"
  unfolding stages_in_order_def sorted_wrt_iff_nth_less
proof (intro allI impI)
  fix k l
  assume kl: "k < l" "l < length (ss[i := push_decision d (ss ! i)])"
    and ne: "stg_decisions (ss[i := push_decision d (ss ! i)] ! l) \<noteq> []"
  have old: "stg_decisions (ss ! l) \<noteq> [] \<Longrightarrow> quorum_met (ss ! k)"
    using order kl by (simp add: stages_in_order_def sorted_wrt_iff_nth_less)
  show "quorum_met (ss[i := push_decision d (ss ! i)] ! k)"
  proof (cases "l = i")
    case True
    with kl before show ?thesis by simp
  next
    case False
    with ne old have "quorum_met (ss ! k)" by simp
    with pend kl False show ?thesis by (cases "k = i") (auto simp: is_pending_def)
  qed
qed

lemma apply_decision_inv:
  assumes "workflow_inv w"
  shows "workflow_inv (fst (apply_decision now w d))"
proof (cases "wf_is_terminal (wf_state w) \<or> position is_pending (wf_stages w) = None")
  case True
  with assms show ?thesis by (auto simp: apply_decision_def)
next
  case False
  then obtain i where i: "position is_pending (wf_stages w) = Some i" by auto
  let ?ss = "wf_stages w" and ?ss' = "(wf_stages w)[i := push_decision d (wf_stages w ! i)]"
  from False have st: "wf_state w = WfPending" by (cases "wf_state w") auto
  from i have len: "i < length ?ss" and pend: "is_pending (?ss ! i)"
    and np: "\<forall>j < i. \<not> is_pending (?ss ! j)" by (auto simp: position_Some)
  from assms st have norej: "\<forall>s \<in> set ?ss. \<not> has_rejection s" by (auto simp: workflow_inv_def)
  with np len have before: "\<forall>j < i. quorum_met (?ss ! j)"
    by (auto simp: is_pending_def)
  have ord: "stages_in_order ?ss'"
    using assms len pend before by (intro stages_in_order_push) (auto simp: workflow_inv_def)
  have cnt: "\<forall>s \<in> set ?ss'. approval_count s \<le> unat (stg_min_approvals s)"
  proof
    fix s
    assume "s \<in> set ?ss'"
    then have "s = push_decision d (?ss ! i) \<or> s \<in> set ?ss"
      by (meson insertE set_update_subset_insert subsetD)
    then show "approval_count s \<le> unat (stg_min_approvals s)"
      using assms pend by (auto simp: workflow_inv_def is_pending_def quorum_met_def)
  qed
  have rej: "(\<exists>s \<in> set ?ss'. has_rejection s) \<longleftrightarrow> \<not> sd_approved d"
    using norej len by (auto simp: set_conv_nth nth_list_update)
  show ?thesis
    using i ord cnt rej st by (auto simp: apply_decision_def workflow_inv_def Let_def)
qed

lemma expire_workflow_inv: "workflow_inv w \<Longrightarrow> workflow_inv (fst (expire_workflow now w))"
  by (auto simp: expire_workflow_def workflow_inv_def)

lemma workflow_step_inv: "workflow_inv w \<Longrightarrow> workflow_inv (workflow_step w e)"
proof (cases e)
  case (Pair now opn)
  assume "workflow_inv w"
  with Pair show ?thesis
    by (cases opn) (simp_all add: apply_decision_inv expire_workflow_inv)
qed

lemma workflow_step_terminal:
  "wf_is_terminal (wf_state w) \<Longrightarrow> wf_state (workflow_step w e) = wf_state w"
  by (cases e; cases "snd e") (auto simp: apply_decision_def expire_workflow_def)

interpretation wf: invariant_lifecycle wf_state wf_is_terminal workflow_step workflow_inv
  by unfold_locales (simp_all add: workflow_step_terminal workflow_step_inv)

lemma single_stage_inv: "workflow_inv (single_stage now rid sid role)"
  by (auto simp: workflow_inv_def single_stage_def stages_in_order_def approval_count_def
      has_rejection_def)

text \<open>A fresh multi-stage workflow: no decisions yet, waiting.\<close>

definition fresh_workflow :: "'t approval_workflow \<Rightarrow> bool" where
  "fresh_workflow w \<longleftrightarrow> wf_state w = WfPending \<and> (\<forall>s \<in> set (wf_stages w). stg_decisions s = [])"

lemma sorted_wrt_all: "(\<forall>x \<in> set xs. \<forall>y \<in> set xs. R x y) \<Longrightarrow> sorted_wrt R xs"
  by (induction xs) auto

lemma fresh_workflow_inv: "fresh_workflow w \<Longrightarrow> workflow_inv w"
  by (auto simp: fresh_workflow_def workflow_inv_def stages_in_order_def approval_count_def
      has_rejection_def intro: sorted_wrt_all)

text \<open>C35: Whatever decisions and expiries arrive in whatever order, a workflow that ends up approved has
  in every stage exactly the number of approvals the stage asks for, and no rejection anywhere; one
  that ends up rejected holds a rejection. Terminal states are final: no later operation changes
  the state of a workflow that is approved, rejected or expired.\<close>

theorem workflow_runs_sound:
  assumes "fresh_workflow w"
  shows "(let w' = foldl workflow_step w es in
     (wf_state w' = WfApproved \<longrightarrow>
        (\<forall>s \<in> set (wf_stages w'). approval_count s = unat (stg_min_approvals s) \<and> \<not> has_rejection s))
   \<and> (wf_state w' = WfRejected \<longleftrightarrow> (\<exists>s \<in> set (wf_stages w'). has_rejection s))
   \<and> (wf_is_terminal (wf_state w') \<longrightarrow> wf_state (foldl workflow_step w' es') = wf_state w'))"
proof -
  let ?w = "foldl workflow_step w es"
  have "workflow_inv ?w" using assms by (intro wf.invar_run fresh_workflow_inv)
  then have "wf_state ?w = WfApproved \<longrightarrow>
        (\<forall>s \<in> set (wf_stages ?w). approval_count s = unat (stg_min_approvals s) \<and> \<not> has_rejection s)"
    and "wf_state ?w = WfRejected \<longleftrightarrow> (\<exists>s \<in> set (wf_stages ?w). has_rejection s)"
    by (auto simp: workflow_inv_def list_all_iff quorum_met_def le_antisym)
  then show ?thesis by (simp add: Let_def wf.terminal_run)
qed

theorem workflow_runs_sound_witness:
  "wf_state (foldl workflow_step (single_stage (0::nat) ''r'' ''s'' None)
      [(1, OpDecide \<lparr>sd_approved = True, sd_operator_id = None, sd_approver_role = None,
                     sd_decided_at = 1\<rparr>)]) = WfApproved
   \<and> (\<forall>es. wf_state (foldl workflow_step (foldl workflow_step (single_stage (0::nat) ''r'' ''s'' None)
      [(1, OpDecide \<lparr>sd_approved = True, sd_operator_id = None, sd_approver_role = None,
                     sd_decided_at = 1\<rparr>)]) es) = WfApproved)"
proof -
  let ?w = "single_stage (0::nat) ''r'' ''s'' None"
  let ?es = "[(1, OpDecide \<lparr>sd_approved = True, sd_operator_id = None, sd_approver_role = None,
                     sd_decided_at = 1\<rparr>)]"
  have fresh: "fresh_workflow ?w" by (simp add: fresh_workflow_def single_stage_def)
  have ok: "wf_state (foldl workflow_step ?w ?es) = WfApproved"
    by (simp add: single_stage_def apply_decision_def is_pending_def quorum_met_def
        approval_count_def has_rejection_def push_decision_def)
  with workflow_runs_sound [OF fresh, of ?es] show ?thesis by (simp add: Let_def)
qed

section \<open>How many approvals are enough\<close>

definition remaining_approvals :: "'t approval_workflow \<Rightarrow> nat" where
  "remaining_approvals w =
     sum_list (map (\<lambda>s. unat (stg_min_approvals s) - approval_count s) (wf_stages w))"

lemma remaining_zero: "remaining_approvals w = 0 \<longleftrightarrow> list_all quorum_met (wf_stages w)"
  by (auto simp: remaining_approvals_def list_all_iff quorum_met_def)

lemma sum_list_update_less:
  fixes f :: "'a \<Rightarrow> nat"
  assumes "i < length xs" and "f (xs ! i) = Suc (f y)"
  shows "Suc (sum_list (map f (xs[i := y]))) = sum_list (map f xs)"
  using assms
proof (induction xs arbitrary: i)
  case (Cons x xs)
  then show ?case by (cases i) auto
qed simp

lemma apply_approval:
  fixes w :: "'t approval_workflow" and now :: 't
  assumes inv: "workflow_inv w" and st: "wf_state w = WfPending"
    and rem: "remaining_approvals w = Suc n" and d: "sd_approved d"
  defines "w' \<equiv> fst (apply_decision now w d)"
  shows "remaining_approvals w' = n"
    and "wf_state w' = (if n = 0 then WfApproved else WfPending)"
proof -
  let ?ss = "wf_stages w"
  from inv st have norej: "\<forall>s \<in> set ?ss. \<not> has_rejection s" by (auto simp: workflow_inv_def)
  from rem have "\<not> list_all quorum_met ?ss" unfolding remaining_zero [symmetric] by simp
  with norej obtain i where i: "position is_pending ?ss = Some i"
    by (cases "position is_pending ?ss") (auto simp: position_None list_all_iff is_pending_def)
  then have len: "i < length ?ss" and nq: "\<not> quorum_met (?ss ! i)"
    by (auto simp: position_Some is_pending_def)
  let ?ss' = "?ss[i := push_decision d (?ss ! i)]"
  have stages: "wf_stages w' = ?ss'"
    using i st d by (simp add: w'_def apply_decision_def Let_def)
  have "Suc (remaining_approvals w') = remaining_approvals w"
    unfolding remaining_approvals_def stages
    using len nq d by (intro sum_list_update_less) (auto simp: quorum_met_def)
  with rem show n: "remaining_approvals w' = n" by simp
  then have all: "list_all quorum_met ?ss' \<longleftrightarrow> n = 0"
    using remaining_zero [of w'] stages by simp
  have "quorum_met (?ss' ! i)" if "list_all quorum_met ?ss'"
    using that len by (auto simp: list_all_length)
  with all show "wf_state w' = (if n = 0 then WfApproved else WfPending)"
    using i st d by (auto simp: w'_def apply_decision_def Let_def)
qed

lemma approvals_run:
  assumes "workflow_inv w" and "wf_state w = WfPending" and "\<forall>d \<in> set ds. sd_approved d"
    and "length ds \<le> remaining_approvals w" and "0 < remaining_approvals w"
  shows "wf_state (foldl workflow_step w (map (\<lambda>d. (now, OpDecide d)) ds))
           = (if length ds = remaining_approvals w then WfApproved else WfPending)"
  using assms
proof (induction ds arbitrary: w)
  case (Cons d ds)
  from Cons.prems(5) obtain n where n: "remaining_approvals w = Suc n" by (cases "remaining_approvals w") auto
  let ?w = "fst (apply_decision now w d)"
  have rem: "remaining_approvals ?w = n" and st: "wf_state ?w = (if n = 0 then WfApproved else WfPending)"
    using apply_approval [OF Cons.prems(1,2) n] Cons.prems(3) by simp_all
  have inv: "workflow_inv ?w" using Cons.prems(1) by (rule apply_decision_inv)
  show ?case
  proof (cases "n = 0")
    case True
    with Cons.prems(4) n have "ds = []" by simp
    with True st n show ?thesis by simp
  next
    case False
    with Cons.IH [OF inv] st rem n Cons.prems(3,4) show ?thesis by simp
  qed
qed simp

text \<open>A fresh approval chain is approved by exactly as many approvals as its stages ask for in
  total, no earlier and without any further condition: after fewer approvals it is still pending,
  after that many it is approved. The approvals may all come from one operator, and their roles are
  not looked at.\<close>

theorem enough_approvals_approve:
  assumes "fresh_workflow w" and "\<forall>d \<in> set ds. sd_approved d"
    and "needed = sum_list (map (\<lambda>s. unat (stg_min_approvals s)) (wf_stages w))"
    and "0 < needed" and "length ds \<le> needed"
  shows "wf_state (foldl workflow_step w (map (\<lambda>d. (now, OpDecide d)) ds))
           = (if length ds = needed then WfApproved else WfPending)"
proof -
  have "map (\<lambda>s. unat (stg_min_approvals s) - approval_count s) (wf_stages w)
          = map (\<lambda>s. unat (stg_min_approvals s)) (wf_stages w)"
    using assms(1) by (auto simp: fresh_workflow_def approval_count_def)
  then have "remaining_approvals w = needed"
    using assms(3) by (simp only: remaining_approvals_def)
  with assms show ?thesis
    by (subst approvals_run) (auto intro: fresh_workflow_inv simp: fresh_workflow_def)
qed

definition two_of_two_stage :: "nat approval_workflow" where
  "two_of_two_stage =
     \<lparr>wf_request_id = ''r'', wf_session_id = ''s'', wf_state = WfPending,
      wf_stages = [\<lparr>stg_index = 0, stg_allowed_roles = [''risk''], stg_min_approvals = 2,
                    stg_decisions = []\<rparr>],
      wf_created_at = 0, wf_updated_at = 0, wf_expires_at = None\<rparr>"

definition approval_by :: "string \<Rightarrow> nat stage_decision" where
  "approval_by op = \<lparr>sd_approved = True, sd_operator_id = Some op,
                     sd_approver_role = Some ''intern'', sd_decided_at = 0\<rparr>"

theorem enough_approvals_approve_witness:
  "wf_state (foldl workflow_step two_of_two_stage
       (map (\<lambda>d. (1, OpDecide d)) [approval_by ''alice'', approval_by ''alice''])) = WfApproved"
proof -
  let ?ds = "[approval_by ''alice'', approval_by ''alice'']"
  have "fresh_workflow two_of_two_stage" "\<forall>d \<in> set ?ds. sd_approved d"
    "2 = sum_list (map (\<lambda>s. unat (stg_min_approvals s)) (wf_stages two_of_two_stage))"
    by (simp_all add: fresh_workflow_def two_of_two_stage_def approval_by_def)
  from enough_approvals_approve [OF this, of 1] show ?thesis by simp
qed

end
