(* ===== verification/Watch_Rule.thy ===== *)
theory Watch_Rule
  imports Core_Types Interfaces
begin

text \<open>
  The two canonical schemas of \<open>crates/types\<close>: the one-off intent of \<open>canonical_intent.rs\<close> and the
  delegated watch rule of \<open>stage2_watch_rule.rs\<close>, with their projections, validation and
  metadata. A \<open>PubkeyBytes\<close> wraps its bytes; \<open>wf_pubkey\<close> is the length the Rust array type fixes.
  The crates \<open>borsh\<close>, \<open>sha2\<close> and \<open>bs58\<close> are not part of the repository: the derived serialization
  of each schema, SHA-256, and base-58 decoding are the fields of \<open>crypto\<close>.
\<close>

section \<open>Public keys\<close>

datatype pubkey_bytes = PubkeyBytes (pubkey_as_bytes: bytes)

definition wf_pubkey :: "pubkey_bytes \<Rightarrow> bool" where
  "wf_pubkey p \<longleftrightarrow> length (pubkey_as_bytes p) = 32"

datatype pubkey_parse_error = InvalidBase58 string | WrongLength nat

definition pubkey_from_base58 ::
    "(string \<Rightarrow> string + bytes) \<Rightarrow> string \<Rightarrow> pubkey_parse_error + pubkey_bytes" where
  "pubkey_from_base58 bs58_decode s =
     (case bs58_decode s of
        Inl e \<Rightarrow> Inl (InvalidBase58 e)
      | Inr v \<Rightarrow> if length v = 32 then Inr (PubkeyBytes v) else Inl (WrongLength (length v)))"

lemma pubkey_from_base58_wf: "pubkey_from_base58 d s = Inr p \<Longrightarrow> wf_pubkey p"
  by (auto simp: pubkey_from_base58_def wf_pubkey_def split: sum.splits if_splits)

section \<open>The canonical intent\<close>

datatype intent_action =
    IntentSolendDeposit pubkey_bytes pubkey_bytes pubkey_bytes pubkey_bytes u64 u8
      \<comment> \<open>wallet, input mint, reserve, lending market, raw amount, decimals\<close>
  | IntentSolendWithdrawAll pubkey_bytes pubkey_bytes pubkey_bytes pubkey_bytes
      \<comment> \<open>wallet, obligation, reserve, lending market\<close>
  | IntentJupiterSwap pubkey_bytes pubkey_bytes pubkey_bytes u64 u16
      \<comment> \<open>wallet, input mint, output mint, raw input amount, slippage\<close>

record canonical_intent =
  ci_schema_version :: u8
  ci_intent_id :: bytes
  ci_user :: pubkey_bytes
  ci_action :: intent_action
  ci_expires_at_slot :: u64

datatype canonical_intent_action_type =
    IntentTypeSolendDeposit | IntentTypeSolendWithdrawAll | IntentTypeJupiterSwap

fun intent_action_type_label :: "canonical_intent_action_type \<Rightarrow> string" where
  "intent_action_type_label IntentTypeSolendDeposit = ''solend_deposit''"
| "intent_action_type_label IntentTypeSolendWithdrawAll = ''solend_withdraw_all''"
| "intent_action_type_label IntentTypeJupiterSwap = ''jupiter_swap''"

fun intent_action_type :: "intent_action \<Rightarrow> canonical_intent_action_type" where
  "intent_action_type (IntentSolendDeposit _ _ _ _ _ _) = IntentTypeSolendDeposit"
| "intent_action_type (IntentSolendWithdrawAll _ _ _ _) = IntentTypeSolendWithdrawAll"
| "intent_action_type (IntentJupiterSwap _ _ _ _ _) = IntentTypeJupiterSwap"

datatype intent_validation_error = IntentExpired u64 u64   \<comment> \<open>current slot, expiry slot\<close>

definition intent_validate_not_expired ::
    "canonical_intent \<Rightarrow> u64 \<Rightarrow> intent_validation_error + unit" where
  "intent_validate_not_expired intent current_slot =
     (if current_slot < ci_expires_at_slot intent then Inr ()
      else Inl (IntentExpired current_slot (ci_expires_at_slot intent)))"

record canonical_intent_metadata =
  cim_schema_version :: u8
  cim_intent_id :: bytes
  cim_canonical_intent_hash :: bytes
  cim_expires_at_slot :: u64
  cim_action_type :: canonical_intent_action_type

section \<open>The watch rule\<close>

definition stage2_watch_rule_schema_v1 :: u8 where "stage2_watch_rule_schema_v1 = 1"
definition stage2_watch_rule_schema_v2 :: u8 where "stage2_watch_rule_schema_v2 = 2"
definition max_conditions :: nat where "max_conditions = 8"
definition min_conditions :: nat where "min_conditions = 1"

datatype condition_logic = LogicAll | LogicAny
datatype comparison = CmpLt | CmpLte | CmpGt | CmpGte
datatype verification_level = VerificationFull
datatype bound_mode = AdverseLowerForGt | AdverseUpperForLt | Midpoint
datatype rate_kind = RateApr | RateApy

record pyth_price_condition =
  pp_feed_id :: bytes
  pp_price_update_account :: pubkey_bytes
  pp_comparison :: comparison
  pp_threshold_mantissa :: i64
  pp_threshold_exponent :: i32
  pp_max_age_seconds :: u32
  pp_max_confidence_bps :: u16
  pp_verification_level_required :: verification_level
  pp_bound_mode :: bound_mode

record solend_rate_condition =
  sr_reserve_pubkey :: pubkey_bytes
  sr_lending_market :: pubkey_bytes
  sr_solend_program_id :: pubkey_bytes
  sr_comparison :: comparison
  sr_threshold_bps :: u32
  sr_rate_kind :: rate_kind
  sr_formula_version :: u8
  sr_max_reserve_staleness_slots :: u32
  sr_required_refresh_same_tx :: bool

datatype watch_condition =
    PythPrice pyth_price_condition
  | SolendReserveSupplyRate solend_rate_condition

datatype condition_kind = KindPythPrice | KindSolendReserveSupplyRate

fun condition_kind_of :: "watch_condition \<Rightarrow> condition_kind" where
  "condition_kind_of (PythPrice _) = KindPythPrice"
| "condition_kind_of (SolendReserveSupplyRate _) = KindSolendReserveSupplyRate"

datatype withdraw_mode = WithdrawAllDelegatedPosition
datatype jupiter_api_version = JupiterV1 | JupiterV2

record solend_withdraw_action =
  sw_target_obligation :: pubkey_bytes
  sw_reserve_pubkey :: pubkey_bytes
  sw_lending_market :: pubkey_bytes
  sw_destination_wallet :: pubkey_bytes
  sw_withdraw_mode :: withdraw_mode

record jupiter_buy_action =
  jb_input_mint :: pubkey_bytes
  jb_output_mint :: pubkey_bytes
  jb_input_amount_raw :: u64
  jb_min_output_amount_raw :: "u64 option"
  jb_jupiter_api_version :: jupiter_api_version
  jb_max_accounts_hint :: u8
  jb_require_pre_post_bracket :: bool

record solend_deposit_action =
  sd_target_obligation :: pubkey_bytes
  sd_reserve_pubkey :: pubkey_bytes
  sd_lending_market :: pubkey_bytes
  sd_solend_program_id :: pubkey_bytes
  sd_input_mint :: pubkey_bytes
  sd_input_amount_raw :: u64

datatype action_spec =
    SolendWithdrawAllDelegated solend_withdraw_action
  | JupiterBuySolWithUsdc jupiter_buy_action
  | SolendDeposit solend_deposit_action

datatype watch_rule_action_type =
    TypeSolendWithdrawAllDelegated | TypeJupiterBuySolWithUsdc | TypeSolendDeposit

fun action_type :: "action_spec \<Rightarrow> watch_rule_action_type" where
  "action_type (SolendWithdrawAllDelegated _) = TypeSolendWithdrawAllDelegated"
| "action_type (JupiterBuySolWithUsdc _) = TypeJupiterBuySolWithUsdc"
| "action_type (SolendDeposit _) = TypeSolendDeposit"

fun action_type_label :: "watch_rule_action_type \<Rightarrow> string" where
  "action_type_label TypeSolendWithdrawAllDelegated = ''solend_withdraw_all_delegated''"
| "action_type_label TypeJupiterBuySolWithUsdc = ''jupiter_buy_sol_with_usdc''"
| "action_type_label TypeSolendDeposit = ''solend_deposit''"

fun action_type_to_u8 :: "watch_rule_action_type \<Rightarrow> u8" where
  "action_type_to_u8 TypeSolendWithdrawAllDelegated = 1"
| "action_type_to_u8 TypeJupiterBuySolWithUsdc = 2"
| "action_type_to_u8 TypeSolendDeposit = 3"

definition action_type_from_u8 :: "u8 \<Rightarrow> watch_rule_action_type option" where
  "action_type_from_u8 v =
     (if v = 1 then Some TypeSolendWithdrawAllDelegated
      else if v = 2 then Some TypeJupiterBuySolWithUsdc
      else if v = 3 then Some TypeSolendDeposit
      else None)"

record watch_rule =
  wr_schema_version :: u8
  wr_rule_id :: bytes
  wr_user :: pubkey_bytes
  wr_executor :: pubkey_bytes
  wr_delegated_wallet :: pubkey_bytes
  wr_created_at_slot :: u64
  wr_expires_at_slot :: u64
  wr_one_shot :: bool
  wr_condition_logic :: condition_logic
  wr_conditions :: "watch_condition list"
  wr_action :: action_spec
  wr_max_input_amount_raw :: u64
  wr_used_amount_raw :: u64
  wr_destination :: pubkey_bytes
  wr_slippage_bps :: u16

section \<open>Canonical bytes and hashes\<close>

record crypto =
  borsh_intent :: "canonical_intent \<Rightarrow> bytes"     \<comment> \<open>\<open>borsh::to_vec\<close> of the derived layout\<close>
  borsh_rule :: "watch_rule \<Rightarrow> bytes"
  sha256 :: "bytes \<Rightarrow> bytes"
  hex_lower :: "bytes \<Rightarrow> string"                  \<comment> \<open>\<open>hex::encode\<close>\<close>
  pinned_pubkey :: "string \<Rightarrow> pubkey_bytes"
    \<comment> \<open>\<open>from_base58(..).expect(..)\<close> on a constant of the source\<close>

definition canonical_bytes :: "crypto \<Rightarrow> canonical_intent \<Rightarrow> bytes" where
  "canonical_bytes C intent = borsh_intent C intent"

definition canonical_hash :: "crypto \<Rightarrow> canonical_intent \<Rightarrow> bytes" where
  "canonical_hash C intent = sha256 C (canonical_bytes C intent)"

definition intent_metadata_from_intent :: "crypto \<Rightarrow> canonical_intent \<Rightarrow> canonical_intent_metadata" where
  "intent_metadata_from_intent C intent =
     \<lparr>cim_schema_version = ci_schema_version intent, cim_intent_id = ci_intent_id intent,
      cim_canonical_intent_hash = canonical_hash C intent,
      cim_expires_at_slot = ci_expires_at_slot intent,
      cim_action_type = intent_action_type (ci_action intent)\<rparr>"

definition intent_metadata_validate_not_expired ::
    "canonical_intent_metadata \<Rightarrow> u64 \<Rightarrow> intent_validation_error + unit" where
  "intent_metadata_validate_not_expired m current_slot =
     (if current_slot < cim_expires_at_slot m then Inr ()
      else Inl (IntentExpired current_slot (cim_expires_at_slot m)))"

definition canonical_rule_bytes :: "crypto \<Rightarrow> watch_rule \<Rightarrow> bytes" where
  "canonical_rule_bytes C rule = borsh_rule C rule"

definition canonical_rule_hash :: "crypto \<Rightarrow> watch_rule \<Rightarrow> bytes" where
  "canonical_rule_hash C rule = sha256 C (canonical_rule_bytes C rule)"

section \<open>Validation\<close>

datatype watch_rule_validation_error =
    RuleExpired u64 u64                 \<comment> \<open>current, expires\<close>
  | NoConditions nat                    \<comment> \<open>min\<close>
  | TooManyConditions nat nat           \<comment> \<open>got, max\<close>
  | UsedAmountOverMax u64 u64           \<comment> \<open>used, max\<close>
  | OneShotPartialAmount u64 u64

definition validate_not_expired :: "watch_rule \<Rightarrow> u64 \<Rightarrow> watch_rule_validation_error + unit" where
  "validate_not_expired rule current_slot =
     (if current_slot < wr_expires_at_slot rule then Inr ()
      else Inl (RuleExpired current_slot (wr_expires_at_slot rule)))"

definition validate_conditions_bounded :: "watch_rule \<Rightarrow> watch_rule_validation_error + unit" where
  "validate_conditions_bounded rule =
     (let n = length (wr_conditions rule) in
      if n < min_conditions then Inl (NoConditions min_conditions)
      else if max_conditions < n then Inl (TooManyConditions n max_conditions)
      else Inr ())"

definition validate_used_amount :: "watch_rule \<Rightarrow> watch_rule_validation_error + unit" where
  "validate_used_amount rule =
     (if wr_max_input_amount_raw rule < wr_used_amount_raw rule
      then Inl (UsedAmountOverMax (wr_used_amount_raw rule) (wr_max_input_amount_raw rule))
      else if wr_one_shot rule \<and> wr_used_amount_raw rule \<noteq> 0
              \<and> wr_used_amount_raw rule \<noteq> wr_max_input_amount_raw rule
      then Inl (OneShotPartialAmount (wr_used_amount_raw rule) (wr_max_input_amount_raw rule))
      else Inr ())"

record watch_rule_metadata =
  wrm_schema_version :: u8
  wrm_rule_id :: bytes
  wrm_user :: pubkey_bytes
  wrm_executor :: pubkey_bytes
  wrm_expires_at_slot :: u64
  wrm_action_type :: watch_rule_action_type
  wrm_canonical_rule_hash :: bytes

definition rule_metadata_from_rule :: "crypto \<Rightarrow> watch_rule \<Rightarrow> watch_rule_metadata" where
  "rule_metadata_from_rule C rule =
     \<lparr>wrm_schema_version = wr_schema_version rule, wrm_rule_id = wr_rule_id rule,
      wrm_user = wr_user rule, wrm_executor = wr_executor rule,
      wrm_expires_at_slot = wr_expires_at_slot rule,
      wrm_action_type = action_type (wr_action rule),
      wrm_canonical_rule_hash = canonical_rule_hash C rule\<rparr>"

definition rule_metadata_validate_not_expired ::
    "watch_rule_metadata \<Rightarrow> u64 \<Rightarrow> watch_rule_validation_error + unit" where
  "rule_metadata_validate_not_expired m current_slot =
     (if current_slot < wrm_expires_at_slot m then Inr ()
      else Inl (RuleExpired current_slot (wrm_expires_at_slot m)))"

section \<open>Facts\<close>

lemma action_type_u8_roundtrip:
  "action_type_from_u8 (action_type_to_u8 t) = Some t"
  by (cases t) (simp_all add: action_type_from_u8_def)

lemma action_type_from_u8_sound:
  "action_type_from_u8 v = Some t \<Longrightarrow> action_type_to_u8 t = v \<and> v \<noteq> 0"
  by (auto simp: action_type_from_u8_def split: if_splits)

lemma metadata_expiry_agrees:
  "rule_metadata_validate_not_expired (rule_metadata_from_rule C rule) slot = validate_not_expired rule slot"
  by (simp add: rule_metadata_validate_not_expired_def rule_metadata_from_rule_def
      validate_not_expired_def)

lemma intent_metadata_expiry_agrees:
  "intent_metadata_validate_not_expired (intent_metadata_from_intent C i) slot
     = intent_validate_not_expired i slot"
  by (simp add: intent_metadata_validate_not_expired_def intent_metadata_from_intent_def
      intent_validate_not_expired_def)

text \<open>The rules the schema admits, independent of the slot.\<close>

definition rule_well_formed :: "watch_rule \<Rightarrow> bool" where
  "rule_well_formed rule \<longleftrightarrow>
     1 \<le> length (wr_conditions rule) \<and> length (wr_conditions rule) \<le> 8
   \<and> unat (wr_used_amount_raw rule) \<le> unat (wr_max_input_amount_raw rule)
   \<and> (wr_one_shot rule \<longrightarrow>
        wr_used_amount_raw rule \<in> {0, wr_max_input_amount_raw rule})"

lemma validation_iff:
  "validate_conditions_bounded rule = Inr () \<and> validate_used_amount rule = Inr ()
     \<longleftrightarrow> rule_well_formed rule"
  by (auto simp: validate_conditions_bounded_def validate_used_amount_def rule_well_formed_def
      Let_def min_conditions_def max_conditions_def word_less_nat_alt Suc_le_eq)

section \<open>A concrete rule\<close>

text \<open>
  Used by the witnesses: a v2 deposit rule over small keys, and an instance of the crate functions
  that is easy to evaluate.
\<close>

definition example_key :: "u8 \<Rightarrow> pubkey_bytes" where
  "example_key n = PubkeyBytes (replicate 32 n)"

definition example_crypto :: crypto where
  "example_crypto =
     \<lparr>borsh_intent = (\<lambda>i. ci_intent_id i), borsh_rule = (\<lambda>r. wr_schema_version r # wr_rule_id r),
      sha256 = (\<lambda>bs. take 32 (bs @ replicate 32 0)), hex_lower = (\<lambda>bs. concat (map hex_byte bs)),
      pinned_pubkey = (\<lambda>s. example_key (of_char (last s)))\<rparr>"

definition example_rate_condition :: solend_rate_condition where
  "example_rate_condition =
     \<lparr>sr_reserve_pubkey = example_key 1, sr_lending_market = example_key 2,
      sr_solend_program_id = example_key (of_char (CHR ''o'')), sr_comparison = CmpGt,
      sr_threshold_bps = 50, sr_rate_kind = RateApr, sr_formula_version = 1,
      sr_max_reserve_staleness_slots = 16, sr_required_refresh_same_tx = True\<rparr>"

definition example_deposit :: solend_deposit_action where
  "example_deposit =
     \<lparr>sd_target_obligation = example_key 3, sd_reserve_pubkey = example_key 1,
      sd_lending_market = example_key 2, sd_solend_program_id = example_key (of_char (CHR ''o'')),
      sd_input_mint = example_key (of_char (CHR ''v'')), sd_input_amount_raw = 500000\<rparr>"

definition example_rule :: watch_rule where
  "example_rule =
     \<lparr>wr_schema_version = 2, wr_rule_id = replicate 16 7, wr_user = example_key 4,
      wr_executor = example_key 5, wr_delegated_wallet = example_key 5, wr_created_at_slot = 100,
      wr_expires_at_slot = 580, wr_one_shot = True, wr_condition_logic = LogicAll,
      wr_conditions = [SolendReserveSupplyRate example_rate_condition],
      wr_action = SolendDeposit example_deposit, wr_max_input_amount_raw = 500000,
      wr_used_amount_raw = 0, wr_destination = example_key 5, wr_slippage_bps = 0\<rparr>"

end
