(* ===== verification/Store_Support.thy ===== *)
theory Store_Support
  imports Watch_Rule
begin

text \<open>
  What the repositories of \<open>crates/state-store\<close> share: the error type of \<open>errors.rs\<close>, the hex codec
  of the row mappers, and the environment (base-58 display of a key and the JSON text of a rule, which
  the crates \<open>bs58\<close> and \<open>serde_json\<close> provide). An integrity failure is represented by the values its
  message interpolates instead of the formatted text.
\<close>

datatype integrity_failure =
    OddHexLength nat
  | InvalidHexChar u8
  | HashWrongLength nat
  | RuleHashMismatch string bytes bytes      \<comment> \<open>rule id, stored, recomputed\<close>
  | RuleIdColumnMismatch string string       \<comment> \<open>column, JSON\<close>
  | UnknownStatus string
  | UnknownActionType string
  | UnknownConditionLogic string
  | UnknownIntentStatus string string         \<comment> \<open>status, intent id\<close>
  | AmountOutOfRange i64

datatype store_error =
    Sqlx string
  | Migration string
  | Serialization string
  | NotFound string string
  | IntegrityCheckFailed integrity_failure

record store_env =
  se_to_base58 :: "pubkey_bytes \<Rightarrow> string"
  se_rule_to_json :: "watch_rule \<Rightarrow> string + string"
  se_rule_from_json :: "string \<Rightarrow> string + watch_rule"

section \<open>Hexadecimal columns\<close>

definition hex_encode :: "bytes \<Rightarrow> string" where
  "hex_encode bs = concat (map hex_byte bs)"

definition hex_nibble :: "char \<Rightarrow> store_error + u8" where
  "hex_nibble c =
     (let b = of_char c :: u8 in
      if 48 \<le> b \<and> b \<le> 57 then Inr (b - 48)
      else if 97 \<le> b \<and> b \<le> 102 then Inr (b - 97 + 10)
      else if 65 \<le> b \<and> b \<le> 70 then Inr (b - 65 + 10)
      else Inl (IntegrityCheckFailed (InvalidHexChar b)))"

text \<open>The loop over \<open>chunks_exact(2)\<close>; an odd remainder would be dropped, but is refused before.\<close>

fun hex_pairs :: "string \<Rightarrow> store_error + bytes" where
  "hex_pairs (c1 # c2 # cs) =
     try_bind (hex_nibble c1) (\<lambda>hi.
     try_bind (hex_nibble c2) (\<lambda>lo.
     try_bind (hex_pairs cs) (\<lambda>rest.
       Inr ((or (push_bit 4 hi) lo) # rest))))"
| "hex_pairs _ = Inr []"

definition hex_decode :: "string \<Rightarrow> store_error + bytes" where
  "hex_decode s =
     (if length s mod 2 \<noteq> 0 then Inl (IntegrityCheckFailed (OddHexLength (length s)))
      else hex_pairs s)"

definition rule_id_hex :: "bytes \<Rightarrow> string" where
  "rule_id_hex rule_id = hex_encode rule_id"

text \<open>The lowercase hexadecimal digits, in an ASCII text.\<close>

definition lower_hex_char :: "char \<Rightarrow> bool" where
  "lower_hex_char c =
     (let b = of_char c :: nat in (48 \<le> b \<and> b \<le> 57) \<or> (97 \<le> b \<and> b \<le> 102))"

text \<open>\<open>to_lowercase\<close> on text that is known to be ASCII.\<close>

definition ascii_lower :: "char \<Rightarrow> char" where
  "ascii_lower c = (let n = of_char c :: nat in
     if 65 \<le> n \<and> n \<le> 90 then char_of (n + 32) else c)"

fun condition_logic_str :: "condition_logic \<Rightarrow> string" where
  "condition_logic_str LogicAll = ''all''"
| "condition_logic_str LogicAny = ''any''"

definition parse_condition_logic :: "string \<Rightarrow> store_error + condition_logic" where
  "parse_condition_logic s =
     (if s = ''all'' then Inr LogicAll
      else if s = ''any'' then Inr LogicAny
      else Inl (IntegrityCheckFailed (UnknownConditionLogic s)))"

definition parse_action_type :: "string \<Rightarrow> store_error + watch_rule_action_type" where
  "parse_action_type s =
     (if s = ''solend_withdraw_all_delegated'' then Inr TypeSolendWithdrawAllDelegated
      else if s = ''jupiter_buy_sol_with_usdc'' then Inr TypeJupiterBuySolWithUsdc
      else if s = ''solend_deposit'' then Inr TypeSolendDeposit
      else Inl (IntegrityCheckFailed (UnknownActionType s)))"

section \<open>Facts about the codec\<close>

definition result_option :: "'e + 'a \<Rightarrow> 'a option" where
  "result_option r = (case r of Inl e \<Rightarrow> None | Inr a \<Rightarrow> Some a)"

interpretation logic_codec: status_codec condition_logic_str "\<lambda>s. result_option (parse_condition_logic s)"
proof
  fix c
  show "result_option (parse_condition_logic (condition_logic_str c)) = Some c"
    by (cases c) (simp_all add: parse_condition_logic_def result_option_def)
next
  fix t c
  assume "result_option (parse_condition_logic t) = Some c"
  then show "condition_logic_str c = t"
    by (auto simp: parse_condition_logic_def result_option_def split: if_splits)
qed

interpretation action_type_codec: status_codec action_type_label "\<lambda>s. result_option (parse_action_type s)"
proof
  fix a
  show "result_option (parse_action_type (action_type_label a)) = Some a"
    by (cases a) (simp_all add: parse_action_type_def result_option_def)
next
  fix t a
  assume "result_option (parse_action_type t) = Some a"
  then show "action_type_label a = t"
    by (auto simp: parse_action_type_def result_option_def split: if_splits)
qed

lemma hex_nibble_hex_chars: "n < 16 \<Longrightarrow> hex_nibble (hex_chars ! n) = Inr (word_of_nat n)"
proof -
  assume "n < 16"
  then have "n \<in> set [0..<16]" by simp
  moreover have "\<forall>k \<in> set [0..<16]. hex_nibble (hex_chars ! k) = Inr (word_of_nat k)"
    by code_simp
  ultimately show ?thesis by blast
qed

lemma or_push_bit_add:
  assumes "unat l < 16"
  shows "or (push_bit 4 h) l = 16 * h + (l :: u8)"
proof -
  have "take_bit 4 l = l"
    using assms by (simp add: word_unat_eq_iff unsigned_take_bit_eq take_bit_nat_eq_self)
  then have low: "\<not> bit l n" if "4 \<le> n" for n
    using that by (metis bit_take_bit_iff not_less)
  have "push_bit 4 h + l = or (push_bit 4 h) l"
    by (rule disjunctive_add) (use low in \<open>auto simp: bit_push_bit_iff\<close>)
  then show ?thesis by (simp add: push_bit_eq_mult mult.commute)
qed

lemma unat_div_16 [simp]: "unat (b :: u8) div 16 < 16"
  using unat_less_exp [of b] by (simp add: less_mult_imp_div_less)

lemma hex_byte_pairs:
  "hex_pairs (hex_byte b @ cs) = try_bind (hex_pairs cs) (\<lambda>rest. Inr (b # rest))"
proof -
  let ?h = "word_of_nat (unat b div 16) :: u8" and ?l = "word_of_nat (unat b mod 16) :: u8"
  have "unat ?l < 16" by (simp add: unat_of_nat)
  then have "or (push_bit 4 ?h) ?l = 16 * ?h + ?l" by (rule or_push_bit_add)
  also have "\<dots> = word_of_nat (16 * (unat b div 16) + unat b mod 16)"
    by (simp only: of_nat_add of_nat_mult of_nat_numeral)
  also have "\<dots> = b" by (simp only: mult_div_mod_eq) simp
  finally have "or (push_bit 4 ?h) ?l = b" .
  then show ?thesis by (simp add: hex_byte_def hex_nibble_hex_chars unat_div_16)
qed

lemma hex_decode_encode: "hex_decode (hex_encode bs) = Inr bs"
proof -
  have "hex_pairs (concat (map hex_byte bs)) = Inr bs"
    by (induction bs) (simp_all add: hex_byte_pairs)
  then show ?thesis by (simp add: hex_decode_def hex_encode_def)
qed

lemma hex_encode_inject [simp]: "hex_encode a = hex_encode b \<longleftrightarrow> a = b"
  by (metis hex_decode_encode sum.inject(2))

lemma length_hex_encode [simp]: "length (hex_encode bs) = 2 * length bs"
  by (simp add: hex_encode_def)

lemma ascii_lower_hex_chars: "n < 16 \<Longrightarrow> ascii_lower (hex_chars ! n) = hex_chars ! n"
proof -
  assume "n < 16"
  then have "n \<in> set [0..<16]" by simp
  moreover have "\<forall>k \<in> set [0..<16]. ascii_lower (hex_chars ! k) = hex_chars ! k"
    by code_simp
  ultimately show ?thesis by blast
qed

lemma ascii_lower_hex: "map ascii_lower (hex_encode bs) = hex_encode bs"
proof -
  have "map ascii_lower (hex_byte b) = hex_byte b" for b
    by (simp add: hex_byte_def ascii_lower_hex_chars)
  then show ?thesis by (induction bs) (simp_all add: hex_encode_def)
qed

end
