(* ===== verification/Watch_Rule_Store.thy ===== *)
theory Watch_Rule_Store
  imports Store_Support
begin

text \<open>
  The repository of watch rules, \<open>crates/state-store/src/stage2_watch_rules.rs\<close> over the table of
  \<open>migrations/0011\<close>. A row has the columns of the table; each method is its SQL statement on the list
  of rows, with the clock reading \<open>now_ms\<close> as an argument, and returns the rows affected. Reads go
  through \<open>row_to_stored\<close>, which recomputes the hash. \<open>ORDER BY created_at_ms\<close> is a stable sort, so rows with
  equal times stay in insertion order, which SQLite does not promise; no property depends on that.
  The lemmas give the lifecycle of a row under the guarded transitions and the one-lease property.
\<close>

section \<open>Statuses and rows\<close>

datatype watch_rule_status =
    WrActive | WrConditionMet | WrExecuting | WrCompleted | WrExpired | WrRevoked | WrFailed

fun watch_status_as_str :: "watch_rule_status \<Rightarrow> string" where
  "watch_status_as_str WrActive = ''active''"
| "watch_status_as_str WrConditionMet = ''condition_met''"
| "watch_status_as_str WrExecuting = ''executing''"
| "watch_status_as_str WrCompleted = ''completed''"
| "watch_status_as_str WrExpired = ''expired''"
| "watch_status_as_str WrRevoked = ''revoked''"
| "watch_status_as_str WrFailed = ''failed''"

definition watch_status_parse :: "string \<Rightarrow> watch_rule_status option" where
  "watch_status_parse s =
     (if s = ''active'' then Some WrActive
      else if s = ''condition_met'' then Some WrConditionMet
      else if s = ''executing'' then Some WrExecuting
      else if s = ''completed'' then Some WrCompleted
      else if s = ''expired'' then Some WrExpired
      else if s = ''revoked'' then Some WrRevoked
      else if s = ''failed'' then Some WrFailed
      else None)"

interpretation watch_status: status_codec watch_status_as_str watch_status_parse
proof
  fix s
  show "watch_status_parse (watch_status_as_str s) = Some s"
    by (cases s) (simp_all add: watch_status_parse_def)
next
  fix t s
  assume "watch_status_parse t = Some s"
  then show "watch_status_as_str s = t"
    by (auto simp: watch_status_parse_def split: if_splits)
qed

record watch_row =
  rw_rule_id :: string
  rw_user_pubkey :: string
  rw_executor_pubkey :: string
  rw_delegated_wallet_pubkey :: string
  rw_canonical_rule_hash :: string
  rw_canonical_rule_bytes_hex :: string
  rw_rule_json :: string
  rw_action_type :: string
  rw_condition_logic :: string
  rw_status :: string
  rw_max_input_amount_raw :: i64
  rw_used_amount_raw :: i64
  rw_destination_pubkey :: string
  rw_expires_at_slot :: i64
  rw_created_at_slot :: i64
  rw_last_checked_slot :: "i64 option"
  rw_last_successful_tick_at_ms :: "i64 option"
  rw_last_error :: "string option"
  rw_execution_nonce :: i64
  rw_completed :: i64
  rw_revoked :: i64
  rw_created_at_ms :: i64
  rw_updated_at_ms :: i64

record stored_watch_rule =
  swr_rule :: watch_rule
  swr_canonical_rule_hash :: bytes
  swr_canonical_rule_bytes :: bytes
  swr_status :: watch_rule_status
  swr_action_type :: watch_rule_action_type
  swr_condition_logic :: condition_logic
  swr_last_checked_slot :: "u64 option"
  swr_last_successful_tick_at_ms :: "i64 option"
  swr_last_error :: "string option"
  swr_execution_nonce :: u64
  swr_completed :: bool
  swr_revoked :: bool
  swr_created_at_ms :: i64
  swr_updated_at_ms :: i64

type_synonym watch_table = "watch_row list"

section \<open>Inserting and reading\<close>

definition new_watch_row :: "crypto \<Rightarrow> store_env \<Rightarrow> i64 \<Rightarrow> watch_rule \<Rightarrow> string \<Rightarrow> watch_row" where
  "new_watch_row C E now_ms rule rule_json =
     \<lparr>rw_rule_id = rule_id_hex (wr_rule_id rule),
      rw_user_pubkey = se_to_base58 E (wr_user rule),
      rw_executor_pubkey = se_to_base58 E (wr_executor rule),
      rw_delegated_wallet_pubkey = se_to_base58 E (wr_delegated_wallet rule),
      rw_canonical_rule_hash = hex_encode (canonical_rule_hash C rule),
      rw_canonical_rule_bytes_hex = hex_encode (canonical_rule_bytes C rule),
      rw_rule_json = rule_json,
      rw_action_type = action_type_label (action_type (wr_action rule)),
      rw_condition_logic = condition_logic_str (wr_condition_logic rule),
      rw_status = ''active'',
      rw_max_input_amount_raw = wr_max_input_amount_raw rule,
      rw_used_amount_raw = wr_used_amount_raw rule,
      rw_destination_pubkey = se_to_base58 E (wr_destination rule),
      rw_expires_at_slot = wr_expires_at_slot rule,
      rw_created_at_slot = wr_created_at_slot rule,
      rw_last_checked_slot = None, rw_last_successful_tick_at_ms = None, rw_last_error = None,
      rw_execution_nonce = 0, rw_completed = 0, rw_revoked = 0,
      rw_created_at_ms = now_ms, rw_updated_at_ms = now_ms\<rparr>"

definition watch_insert ::
    "crypto \<Rightarrow> store_env \<Rightarrow> i64 \<Rightarrow> watch_rule \<Rightarrow> watch_table \<Rightarrow> store_error + watch_table" where
  "watch_insert C E now_ms rule t =
     (case se_rule_to_json E rule of
        Inl e \<Rightarrow> Inl (Serialization e)
      | Inr rule_json \<Rightarrow>
          (case sql_insert rw_rule_id (new_watch_row C E now_ms rule rule_json) t of
             None \<Rightarrow> Inl (Sqlx ''UNIQUE constraint failed'')
           | Some t' \<Rightarrow> Inr t'))"

definition watch_row_to_stored ::
    "crypto \<Rightarrow> store_env \<Rightarrow> watch_row \<Rightarrow> store_error + stored_watch_rule" where
  "watch_row_to_stored C E row =
     try_bind (hex_decode (rw_rule_id row)) (\<lambda>_.
     try_bind (hex_decode (rw_canonical_rule_hash row)) (\<lambda>hash_vec.
     try_bind (ensure (length hash_vec = 32) (IntegrityCheckFailed (HashWrongLength (length hash_vec)))) (\<lambda>_.
     try_bind (hex_decode (rw_canonical_rule_bytes_hex row)) (\<lambda>rule_bytes.
     try_bind (case se_rule_from_json E (rw_rule_json row) of
                 Inl e \<Rightarrow> Inl (Serialization e) | Inr rule \<Rightarrow> Inr rule) (\<lambda>rule.
     (let recomputed = canonical_rule_hash C rule in
     try_bind (ensure (recomputed = hash_vec)
                 (IntegrityCheckFailed (RuleHashMismatch (rw_rule_id row) hash_vec recomputed))) (\<lambda>_.
     (let stored_id_lower = map ascii_lower (rw_rule_id row);
          rule_id_lower = hex_encode (wr_rule_id rule) in
     try_bind (ensure (stored_id_lower = rule_id_lower)
                 (IntegrityCheckFailed (RuleIdColumnMismatch stored_id_lower rule_id_lower))) (\<lambda>_.
     try_bind (ok_or (watch_status_parse (rw_status row))
                 (IntegrityCheckFailed (UnknownStatus (rw_status row)))) (\<lambda>status.
     try_bind (parse_action_type (rw_action_type row)) (\<lambda>action_type.
     try_bind (parse_condition_logic (rw_condition_logic row)) (\<lambda>logic.
       Inr \<lparr>swr_rule = rule, swr_canonical_rule_hash = hash_vec,
            swr_canonical_rule_bytes = rule_bytes, swr_status = status,
            swr_action_type = action_type, swr_condition_logic = logic,
            swr_last_checked_slot = rw_last_checked_slot row,
            swr_last_successful_tick_at_ms = rw_last_successful_tick_at_ms row,
            swr_last_error = rw_last_error row,
            swr_execution_nonce = rw_execution_nonce row,
            swr_completed = (rw_completed row \<noteq> 0), swr_revoked = (rw_revoked row \<noteq> 0),
            swr_created_at_ms = rw_created_at_ms row,
            swr_updated_at_ms = rw_updated_at_ms row\<rparr>))))))))))))"

definition watch_get ::
    "crypto \<Rightarrow> store_env \<Rightarrow> bytes \<Rightarrow> watch_table \<Rightarrow> store_error + stored_watch_rule option" where
  "watch_get C E rule_id t =
     (case sql_get rw_rule_id (rule_id_hex rule_id) t of
        None \<Rightarrow> Inr None
      | Some row \<Rightarrow> try_bind (watch_row_to_stored C E row) (\<lambda>s. Inr (Some s)))"

definition oldest_first :: "watch_table \<Rightarrow> watch_table" where
  "oldest_first t = sort_key (\<lambda>r. sint (rw_created_at_ms r)) t"

definition non_terminal_row :: "watch_row \<Rightarrow> bool" where
  "non_terminal_row r \<longleftrightarrow> rw_completed r = 0 \<and> rw_revoked r = 0
     \<and> rw_status r \<notin> {''completed'', ''expired'', ''revoked'', ''failed''}"

definition list_active ::
    "crypto \<Rightarrow> store_env \<Rightarrow> u64 \<Rightarrow> watch_table \<Rightarrow> store_error + stored_watch_rule list" where
  "list_active C E current_slot t =
     collect_results (map (watch_row_to_stored C E) (oldest_first
       (filter (\<lambda>r. sint current_slot < sint (rw_expires_at_slot r) \<and> non_terminal_row r) t)))"

definition list_active_limit ::
    "crypto \<Rightarrow> store_env \<Rightarrow> u64 \<Rightarrow> u32 \<Rightarrow> watch_table \<Rightarrow> store_error + stored_watch_rule list" where
  "list_active_limit C E current_slot limit t =
     (if limit = 0 then Inr []
      else collect_results (map (watch_row_to_stored C E) (take (unat limit) (oldest_first
        (filter (\<lambda>r. sint current_slot < sint (rw_expires_at_slot r) \<and> non_terminal_row r) t)))))"

definition list_pending_lifecycle_limit ::
    "crypto \<Rightarrow> store_env \<Rightarrow> u32 \<Rightarrow> watch_table \<Rightarrow> store_error + stored_watch_rule list" where
  "list_pending_lifecycle_limit C E limit t =
     (if limit = 0 then Inr []
      else collect_results (map (watch_row_to_stored C E)
             (take (unat limit) (oldest_first (filter non_terminal_row t)))))"

definition list_by_user ::
    "crypto \<Rightarrow> store_env \<Rightarrow> string \<Rightarrow> watch_table \<Rightarrow> store_error + stored_watch_rule list" where
  "list_by_user C E user_pubkey t =
     collect_results (map (watch_row_to_stored C E)
       (oldest_first (filter (\<lambda>r. rw_user_pubkey r = user_pubkey) t)))"

section \<open>Transitions\<close>

text \<open>Every statement names one rule id; the methods differ in the rest of their WHERE and in their SET.\<close>

definition watch_set_status :: "i64 \<Rightarrow> bytes \<Rightarrow> string \<Rightarrow> watch_table \<Rightarrow> watch_table \<times> nat" where
  "watch_set_status now_ms rule_id new_status =
     sql_update (\<lambda>r. rw_rule_id r = rule_id_hex rule_id)
       (\<lambda>r. r\<lparr>rw_status := new_status, rw_updated_at_ms := now_ms\<rparr>)"

definition mark_checked :: "i64 \<Rightarrow> bytes \<Rightarrow> u64 \<Rightarrow> i64 \<Rightarrow> watch_table \<Rightarrow> watch_table \<times> nat" where
  "mark_checked now_ms rule_id slot ts_ms =
     sql_update (\<lambda>r. rw_rule_id r = rule_id_hex rule_id)
       (\<lambda>r. r\<lparr>rw_last_checked_slot := Some slot, rw_last_successful_tick_at_ms := Some ts_ms,
              rw_updated_at_ms := now_ms\<rparr>)"

definition mark_condition_met :: "i64 \<Rightarrow> bytes \<Rightarrow> watch_table \<Rightarrow> watch_table \<times> nat" where
  "mark_condition_met now_ms rule_id = watch_set_status now_ms rule_id ''condition_met''"

definition mark_condition_met_if_active :: "i64 \<Rightarrow> bytes \<Rightarrow> watch_table \<Rightarrow> watch_table \<times> nat" where
  "mark_condition_met_if_active now_ms rule_id =
     sql_update (\<lambda>r. rw_rule_id r = rule_id_hex rule_id \<and> rw_status r = ''active'')
       (\<lambda>r. r\<lparr>rw_status := ''condition_met'', rw_updated_at_ms := now_ms\<rparr>)"

definition mark_executing :: "i64 \<Rightarrow> bytes \<Rightarrow> u64 \<Rightarrow> watch_table \<Rightarrow> watch_table \<times> nat" where
  "mark_executing now_ms rule_id nonce =
     sql_update (\<lambda>r. rw_rule_id r = rule_id_hex rule_id)
       (\<lambda>r. r\<lparr>rw_status := ''executing'', rw_execution_nonce := nonce, rw_updated_at_ms := now_ms\<rparr>)"

definition mark_executing_if_condition_met ::
    "i64 \<Rightarrow> bytes \<Rightarrow> u64 \<Rightarrow> watch_table \<Rightarrow> watch_table \<times> nat" where
  "mark_executing_if_condition_met now_ms rule_id nonce =
     sql_update (\<lambda>r. rw_rule_id r = rule_id_hex rule_id \<and> rw_status r = ''condition_met'')
       (\<lambda>r. r\<lparr>rw_status := ''executing'', rw_execution_nonce := nonce, rw_updated_at_ms := now_ms\<rparr>)"

definition mark_completed :: "i64 \<Rightarrow> bytes \<Rightarrow> u64 \<Rightarrow> u64 \<Rightarrow> watch_table \<Rightarrow> watch_table \<times> nat" where
  "mark_completed now_ms rule_id used_amount slot =
     sql_update (\<lambda>r. rw_rule_id r = rule_id_hex rule_id)
       (\<lambda>r. r\<lparr>rw_status := ''completed'', rw_completed := 1, rw_used_amount_raw := used_amount,
              rw_last_checked_slot := Some slot, rw_updated_at_ms := now_ms\<rparr>)"

definition mark_failed :: "i64 \<Rightarrow> bytes \<Rightarrow> string \<Rightarrow> watch_table \<Rightarrow> watch_table \<times> nat" where
  "mark_failed now_ms rule_id err =
     sql_update (\<lambda>r. rw_rule_id r = rule_id_hex rule_id)
       (\<lambda>r. r\<lparr>rw_status := ''failed'', rw_last_error := Some err, rw_updated_at_ms := now_ms\<rparr>)"

definition mark_failed_if_not_terminal ::
    "i64 \<Rightarrow> bytes \<Rightarrow> string \<Rightarrow> watch_table \<Rightarrow> watch_table \<times> nat" where
  "mark_failed_if_not_terminal now_ms rule_id err =
     sql_update (\<lambda>r. rw_rule_id r = rule_id_hex rule_id \<and> rw_status r \<in> {''active'', ''condition_met''})
       (\<lambda>r. r\<lparr>rw_status := ''failed'', rw_last_error := Some err, rw_updated_at_ms := now_ms\<rparr>)"

definition record_last_error :: "i64 \<Rightarrow> bytes \<Rightarrow> string \<Rightarrow> watch_table \<Rightarrow> watch_table \<times> nat" where
  "record_last_error now_ms rule_id err =
     sql_update (\<lambda>r. rw_rule_id r = rule_id_hex rule_id)
       (\<lambda>r. r\<lparr>rw_last_error := Some err, rw_updated_at_ms := now_ms\<rparr>)"

definition mark_expired :: "i64 \<Rightarrow> bytes \<Rightarrow> watch_table \<Rightarrow> watch_table \<times> nat" where
  "mark_expired now_ms rule_id = watch_set_status now_ms rule_id ''expired''"

definition mark_expired_if_not_terminal :: "i64 \<Rightarrow> bytes \<Rightarrow> watch_table \<Rightarrow> watch_table \<times> nat" where
  "mark_expired_if_not_terminal now_ms rule_id =
     sql_update (\<lambda>r. rw_rule_id r = rule_id_hex rule_id \<and> rw_status r \<in> {''active'', ''condition_met''})
       (\<lambda>r. r\<lparr>rw_status := ''expired'', rw_updated_at_ms := now_ms\<rparr>)"

definition mark_revoked :: "i64 \<Rightarrow> bytes \<Rightarrow> watch_table \<Rightarrow> watch_table \<times> nat" where
  "mark_revoked now_ms rule_id =
     sql_update (\<lambda>r. rw_rule_id r = rule_id_hex rule_id)
       (\<lambda>r. r\<lparr>rw_status := ''revoked'', rw_revoked := 1, rw_updated_at_ms := now_ms\<rparr>)"

definition update_health_tick :: "i64 \<Rightarrow> bytes \<Rightarrow> i64 \<Rightarrow> watch_table \<Rightarrow> watch_table \<times> nat" where
  "update_health_tick now_ms rule_id ts_ms =
     sql_update (\<lambda>r. rw_rule_id r = rule_id_hex rule_id)
       (\<lambda>r. r\<lparr>rw_last_successful_tick_at_ms := Some ts_ms, rw_updated_at_ms := now_ms\<rparr>)"

section \<open>The methods as operations on one key\<close>

datatype watch_op =
    OpMarkChecked u64 i64
  | OpConditionMet
  | OpConditionMetIfActive
  | OpExecuting u64
  | OpExecutingIfConditionMet u64
  | OpCompleted u64 u64
  | OpFailed string
  | OpFailedIfNotTerminal string
  | OpRecordLastError string
  | OpExpired
  | OpExpiredIfNotTerminal
  | OpRevoked
  | OpHealthTick i64

fun watch_apply :: "i64 \<Rightarrow> bytes \<Rightarrow> watch_op \<Rightarrow> watch_table \<Rightarrow> watch_table \<times> nat" where
  "watch_apply now i (OpMarkChecked slot ts) = mark_checked now i slot ts"
| "watch_apply now i OpConditionMet = mark_condition_met now i"
| "watch_apply now i OpConditionMetIfActive = mark_condition_met_if_active now i"
| "watch_apply now i (OpExecuting nonce) = mark_executing now i nonce"
| "watch_apply now i (OpExecutingIfConditionMet nonce) = mark_executing_if_condition_met now i nonce"
| "watch_apply now i (OpCompleted used slot) = mark_completed now i used slot"
| "watch_apply now i (OpFailed e) = mark_failed now i e"
| "watch_apply now i (OpFailedIfNotTerminal e) = mark_failed_if_not_terminal now i e"
| "watch_apply now i (OpRecordLastError e) = record_last_error now i e"
| "watch_apply now i OpExpired = mark_expired now i"
| "watch_apply now i OpExpiredIfNotTerminal = mark_expired_if_not_terminal now i"
| "watch_apply now i OpRevoked = mark_revoked now i"
| "watch_apply now i (OpHealthTick ts) = update_health_tick now i ts"

fun watch_guard :: "i64 \<times> watch_op \<Rightarrow> watch_row \<Rightarrow> bool" where
  "watch_guard (now, OpConditionMetIfActive) r \<longleftrightarrow> rw_status r = ''active''"
| "watch_guard (now, OpExecutingIfConditionMet nonce) r \<longleftrightarrow> rw_status r = ''condition_met''"
| "watch_guard (now, OpFailedIfNotTerminal e) r \<longleftrightarrow> rw_status r \<in> {''active'', ''condition_met''}"
| "watch_guard (now, OpExpiredIfNotTerminal) r \<longleftrightarrow> rw_status r \<in> {''active'', ''condition_met''}"
| "watch_guard (now, _) r \<longleftrightarrow> True"

definition watch_rewrite :: "i64 \<times> watch_op \<Rightarrow> watch_row \<Rightarrow> watch_row" where
  "watch_rewrite a r =
     (case snd a of
        OpMarkChecked slot ts \<Rightarrow>
          r\<lparr>rw_last_checked_slot := Some slot, rw_last_successful_tick_at_ms := Some ts\<rparr>
      | OpConditionMet \<Rightarrow> r\<lparr>rw_status := ''condition_met''\<rparr>
      | OpConditionMetIfActive \<Rightarrow> r\<lparr>rw_status := ''condition_met''\<rparr>
      | OpExecuting nonce \<Rightarrow> r\<lparr>rw_status := ''executing'', rw_execution_nonce := nonce\<rparr>
      | OpExecutingIfConditionMet nonce \<Rightarrow> r\<lparr>rw_status := ''executing'', rw_execution_nonce := nonce\<rparr>
      | OpCompleted used slot \<Rightarrow>
          r\<lparr>rw_status := ''completed'', rw_completed := 1, rw_used_amount_raw := used,
            rw_last_checked_slot := Some slot\<rparr>
      | OpFailed e \<Rightarrow> r\<lparr>rw_status := ''failed'', rw_last_error := Some e\<rparr>
      | OpFailedIfNotTerminal e \<Rightarrow> r\<lparr>rw_status := ''failed'', rw_last_error := Some e\<rparr>
      | OpRecordLastError e \<Rightarrow> r\<lparr>rw_last_error := Some e\<rparr>
      | OpExpired \<Rightarrow> r\<lparr>rw_status := ''expired''\<rparr>
      | OpExpiredIfNotTerminal \<Rightarrow> r\<lparr>rw_status := ''expired''\<rparr>
      | OpRevoked \<Rightarrow> r\<lparr>rw_status := ''revoked'', rw_revoked := 1\<rparr>
      | OpHealthTick ts \<Rightarrow> r\<lparr>rw_last_successful_tick_at_ms := Some ts\<rparr>)
     \<lparr>rw_updated_at_ms := fst a\<rparr>"

lemma watch_rewrite_key: "rw_rule_id (watch_rewrite a r) = rw_rule_id r"
  by (auto simp: watch_rewrite_def split: watch_op.splits)

interpretation watch: keyed_store rw_rule_id watch_guard watch_rewrite
  by unfold_locales (rule watch_rewrite_key)

lemmas watch_method_defs =
  mark_checked_def mark_condition_met_def mark_condition_met_if_active_def mark_executing_def
  mark_executing_if_condition_met_def mark_completed_def mark_failed_def
  mark_failed_if_not_terminal_def record_last_error_def mark_expired_def
  mark_expired_if_not_terminal_def mark_revoked_def update_health_tick_def watch_set_status_def

lemma watch_apply_exec:
  "watch_apply now i opn t
     = (watch.exec t (rule_id_hex i, (now, opn)), watch.affected t (rule_id_hex i, (now, opn)))"
  by (cases opn)
     (auto simp: watch_method_defs watch.exec_def watch.affected_def watch_rewrite_def sql_update_def)

declare watch_apply.simps [simp del]

definition watch_run :: "watch_table \<Rightarrow> (i64 \<times> bytes \<times> watch_op) list \<Rightarrow> watch_table" where
  "watch_run t ops = foldl (\<lambda>t (now, i, opn). fst (watch_apply now i opn t)) t ops"

section \<open>At most one execution lease\<close>

definition lease_phase :: "watch_row \<Rightarrow> nat" where
  "lease_phase r = (if rw_status r = ''active'' then 0 else if rw_status r = ''condition_met'' then 1 else 2)"

lemma lease_phase_mono:
  "opn \<noteq> OpConditionMet \<Longrightarrow> lease_phase r \<le> lease_phase (watch.row_step r (now, opn))"
  by (cases opn) (auto simp: watch.row_step_def watch_rewrite_def lease_phase_def)

text \<open>How many leases of one rule a run of operations wins: the rows affected of its lease calls.\<close>

fun lease_wins :: "bytes \<Rightarrow> watch_table \<Rightarrow> (i64 \<times> bytes \<times> watch_op) list \<Rightarrow> nat" where
  "lease_wins rid t [] = 0"
| "lease_wins rid t ((now, i, opn) # ops) =
     (case opn of OpExecutingIfConditionMet nonce \<Rightarrow> if i = rid then snd (watch_apply now i opn t) else 0
      | _ \<Rightarrow> 0)
     + lease_wins rid (fst (watch_apply now i opn t)) ops"

lemma rule_id_hex_inject [simp]: "rule_id_hex a = rule_id_hex b \<longleftrightarrow> a = b"
  by (simp add: rule_id_hex_def)

lemma lease_wins_bound:
  assumes "distinct (map rw_rule_id t)" and "\<forall>(now, i, opn) \<in> set ops. i = rid \<longrightarrow> opn \<noteq> OpConditionMet"
  shows "lease_wins rid t ops \<le>
           (case sql_get rw_rule_id (rule_id_hex rid) t of None \<Rightarrow> 0 | Some r \<Rightarrow> if lease_phase r < 2 then 1 else 0)"
  using assms
proof (induction ops arbitrary: t)
  case (Cons e ops)
  obtain now i opn where e: "e = (now, i, opn)" by (cases e)
  let ?k = "rule_id_hex rid" and ?t = "watch.exec t (rule_id_hex i, (now, opn))"
  have IH: "lease_wins rid ?t ops \<le>
      (case sql_get rw_rule_id ?k ?t of None \<Rightarrow> 0 | Some r \<Rightarrow> if lease_phase r < 2 then 1 else 0)"
    by (rule Cons.IH) (use Cons.prems in \<open>auto simp: watch.exec_keys\<close>)
  have get: "sql_get rw_rule_id ?k ?t =
      map_option (\<lambda>r. if i = rid then watch.row_step r (now, opn) else r) (sql_get rw_rule_id ?k t)"
    by (auto simp: watch.get_exec watch.row_step_def intro: map_option_cong)
  have mono: "i = rid \<Longrightarrow> lease_phase r \<le> lease_phase (watch.row_step r (now, opn))" for r
    using Cons.prems(2) e by (intro lease_phase_mono) auto
  show ?case
  proof (cases "\<exists>nonce. opn = OpExecutingIfConditionMet nonce \<and> i = rid")
    case True
    then obtain nonce where o: "opn = OpExecutingIfConditionMet nonce" "i = rid" by blast
    show ?thesis
    proof (cases "sql_get rw_rule_id ?k t")
      case None
      with IH get Cons.prems(1) o e show ?thesis
        by (simp add: watch_apply_exec watch.affected_def sql_update_key_count)
    next
      case (Some r)
      with IH get Cons.prems(1) o e show ?thesis
        by (auto simp: watch_apply_exec watch.affected_def sql_update_key_count
            watch.row_step_def watch_rewrite_def lease_phase_def split: if_splits)
    qed
  next
    case False
    then have "lease_wins rid t (e # ops) = lease_wins rid ?t ops"
      using e by (cases opn) (auto simp: watch_apply_exec)
    also have "\<dots> \<le> (case sql_get rw_rule_id ?k t of None \<Rightarrow> 0 | Some r \<Rightarrow> if lease_phase r < 2 then 1 else 0)"
      using IH get mono by (cases "sql_get rw_rule_id ?k t") (auto split: if_splits dest: order.strict_trans1)
    finally show ?thesis .
  qed
qed simp

text \<open>C31: A rule is leased for execution at most once in its life: in any interleaving of the
  repository's operations, on this rule and on others, at most one
  \<open>mark_executing_if_condition_met\<close> of the rule reports a row, provided nobody calls the unguarded
  \<open>mark_condition_met\<close> on it. The guarded transitions, revocations, failures, expiries and
  completions of any number of daemons may be mixed in any order.\<close>

theorem at_most_one_execution_lease:
  assumes "distinct (map rw_rule_id t)"
    and "\<forall>(now, i, opn) \<in> set ops. i = rid \<longrightarrow> opn \<noteq> OpConditionMet"
  shows "lease_wins rid t ops \<le> 1"
  using lease_wins_bound [OF assms] by (auto split: option.splits if_splits)

definition example_watch_row :: "string \<Rightarrow> watch_row" where
  "example_watch_row st =
     \<lparr>rw_rule_id = rule_id_hex [1], rw_user_pubkey = ''u'', rw_executor_pubkey = ''e'',
      rw_delegated_wallet_pubkey = ''d'', rw_canonical_rule_hash = ''00'',
      rw_canonical_rule_bytes_hex = ''00'', rw_rule_json = ''{}'',
      rw_action_type = ''solend_deposit'', rw_condition_logic = ''all'', rw_status = st,
      rw_max_input_amount_raw = 5, rw_used_amount_raw = 0, rw_destination_pubkey = ''d'',
      rw_expires_at_slot = 100, rw_created_at_slot = 1, rw_last_checked_slot = None,
      rw_last_successful_tick_at_ms = None, rw_last_error = None, rw_execution_nonce = 0,
      rw_completed = 0, rw_revoked = 0, rw_created_at_ms = 1, rw_updated_at_ms = 1\<rparr>"

theorem at_most_one_execution_lease_witness:
  "lease_wins [1] [example_watch_row ''active'']
     [(1, [1], OpConditionMetIfActive), (2, [1], OpExecutingIfConditionMet 7),
      (3, [1], OpExecutingIfConditionMet 8)] = 1"
proof -
  let ?ops = "[(1, [1], OpConditionMetIfActive), (2, [1], OpExecutingIfConditionMet 7),
      (3, [1], OpExecutingIfConditionMet 8)]"
  have "lease_wins [1] [example_watch_row ''active''] ?ops \<le> 1"
    by (rule at_most_one_execution_lease) simp_all
  moreover have "1 \<le> lease_wins [1] [example_watch_row ''active''] ?ops"
    by (simp add: watch_apply.simps watch_method_defs sql_update_def example_watch_row_def)
  ultimately show ?thesis by simp
qed

section \<open>Retired rules\<close>

definition retired_row :: "watch_row \<Rightarrow> bool" where
  "retired_row r \<longleftrightarrow> rw_completed r = 1 \<or> rw_revoked r = 1"

lemma retired_row_step: "retired_row r \<Longrightarrow> retired_row (watch.row_step r a)"
  by (cases a) (auto simp: retired_row_def watch.row_step_def watch_rewrite_def split: watch_op.splits)

lemma retired_row_run: "retired_row r \<Longrightarrow> retired_row (foldl watch.row_step r as)"
  by (induction as arbitrary: r) (simp_all add: retired_row_step)

lemma retired_not_listed: "retired_row r \<Longrightarrow> \<not> non_terminal_row r"
  by (auto simp: retired_row_def non_terminal_row_def)

lemma watch_run_exec:
  "watch_run t ops = foldl watch.exec t (map (\<lambda>(now, i, opn). (rule_id_hex i, (now, opn))) ops)"
  unfolding watch_run_def by (induction ops arbitrary: t) (auto simp: watch_apply_exec)

text \<open>Retirement is final for the watcher: once a rule has been completed or revoked, no sequence of
  later operations, unguarded ones included, brings it back into the rows that the active and the
  pending-lifecycle scans select.\<close>

theorem retired_rule_never_scanned:
  assumes "sql_get rw_rule_id (rule_id_hex rid) t = Some r"
    and "opn \<in> {OpRevoked, OpCompleted used slot}"
    and "sql_get rw_rule_id (rule_id_hex rid) (watch_run (fst (watch_apply now rid opn t)) ops) = Some r'"
  shows "\<not> non_terminal_row r'"
proof -
  let ?k = "rule_id_hex rid"
  let ?kas = "map (\<lambda>(now, i, opn). (rule_id_hex i, (now, opn))) ops"
  let ?r1 = "watch_rewrite (now, opn) r"
  have "sql_get rw_rule_id ?k (fst (watch_apply now rid opn t)) = Some ?r1"
    using assms(1,2) by (auto simp: watch_apply_exec watch.get_exec)
  then have "r' = foldl watch.row_step ?r1 (map snd (filter (\<lambda>ka. fst ka = ?k) ?kas))"
    using assms(3) by (simp add: watch_run_exec watch.get_exec_run)
  moreover have "retired_row ?r1"
    using assms(2) by (auto simp: retired_row_def watch_rewrite_def)
  ultimately show ?thesis using retired_row_run retired_not_listed by simp
qed

theorem retired_rule_never_scanned_witness:
  "\<not> non_terminal_row
      (hd (watch_run (fst (watch_apply 2 [1] OpRevoked [example_watch_row ''active'']))
             [(3, [1], OpConditionMet), (4, [1], OpExecuting 1)]))"
proof -
  let ?t = "fst (watch_apply 2 [1] OpRevoked [example_watch_row ''active''])"
  let ?t' = "watch_run ?t [(3, [1], OpConditionMet), (4, [1], OpExecuting 1)]"
  have 1: "sql_get rw_rule_id (rule_id_hex [1]) [example_watch_row ''active'']
             = Some (example_watch_row ''active'')"
    by (simp add: sql_get_def example_watch_row_def)
  have 2: "OpRevoked \<in> {OpRevoked, OpCompleted 0 0}" by simp
  have 3: "sql_get rw_rule_id (rule_id_hex [1]) ?t' = Some (hd ?t')"
    by (simp add: watch_run_def watch_apply.simps watch_method_defs sql_update_def sql_get_def
        example_watch_row_def)
  show ?thesis by (rule retired_rule_never_scanned [OF 1 2 3])
qed

section \<open>Reading back\<close>

lemma watch_row_to_stored_integrity:
  assumes "watch_row_to_stored C E row = Inr s"
  shows "swr_canonical_rule_hash s = canonical_rule_hash C (swr_rule s)"
    and "map ascii_lower (rw_rule_id row) = hex_encode (wr_rule_id (swr_rule s))"
    and "rw_status row = watch_status_as_str (swr_status s)"
  using assms by (auto simp: watch_row_to_stored_def Let_def watch_status.parse_iff)

text \<open>What is read back of a row just written.\<close>

definition fresh_rule :: "crypto \<Rightarrow> i64 \<Rightarrow> watch_rule \<Rightarrow> stored_watch_rule" where
  "fresh_rule C now rule =
     \<lparr>swr_rule = rule, swr_canonical_rule_hash = canonical_rule_hash C rule,
      swr_canonical_rule_bytes = canonical_rule_bytes C rule, swr_status = WrActive,
      swr_action_type = action_type (wr_action rule),
      swr_condition_logic = wr_condition_logic rule, swr_last_checked_slot = None,
      swr_last_successful_tick_at_ms = None, swr_last_error = None,
      swr_execution_nonce = 0, swr_completed = False, swr_revoked = False,
      swr_created_at_ms = now, swr_updated_at_ms = now\<rparr>"

lemma new_watch_row_stored:
  assumes "se_rule_from_json E j = Inr rule" "length (canonical_rule_hash C rule) = 32"
  shows "watch_row_to_stored C E (new_watch_row C E now rule j) = Inr (fresh_rule C now rule)"
proof -
  have acts: "parse_action_type (action_type_label a) = Inr a" for a
    by (cases a) (simp_all add: parse_action_type_def)
  have logic: "parse_condition_logic (condition_logic_str c) = Inr c" for c
    by (cases c) (simp_all add: parse_condition_logic_def)
  show ?thesis
    by (simp add: watch_row_to_stored_def new_watch_row_def rule_id_hex_def hex_decode_encode fresh_rule_def
        ensure_def assms Let_def ascii_lower_hex ok_or_def watch_status_parse_def acts logic)
qed

text \<open>A rule that was inserted is read back as it was written, active and unconsumed, with the hash
  recomputed from it; and whatever a row holds, a read that succeeds returns a rule whose hash is the
  stored one and whose id is the row's key. The JSON codec is assumed to read back what it wrote and
  SHA-256 to give 32 bytes.\<close>

theorem watch_insert_get_roundtrip:
  assumes json: "se_rule_to_json E rule = Inr j" "se_rule_from_json E j = Inr rule"
    and hash: "length (canonical_rule_hash C rule) = 32"
    and fresh: "rule_id_hex (wr_rule_id rule) \<notin> rw_rule_id ` set t"
  shows "\<exists>t'. watch_insert C E now rule t = Inr t'
       \<and> watch_get C E (wr_rule_id rule) t' = Inr (Some
           \<lparr>swr_rule = rule, swr_canonical_rule_hash = canonical_rule_hash C rule,
            swr_canonical_rule_bytes = canonical_rule_bytes C rule, swr_status = WrActive,
            swr_action_type = action_type (wr_action rule),
            swr_condition_logic = wr_condition_logic rule, swr_last_checked_slot = None,
            swr_last_successful_tick_at_ms = None, swr_last_error = None,
            swr_execution_nonce = 0, swr_completed = False, swr_revoked = False,
            swr_created_at_ms = now, swr_updated_at_ms = now\<rparr>)
       \<and> (\<forall>rid s. watch_get C E rid t' = Inr (Some s) \<longrightarrow>
            swr_canonical_rule_hash s = canonical_rule_hash C (swr_rule s) \<and> wr_rule_id (swr_rule s) = rid)"
proof -
  let ?r = "new_watch_row C E now rule j"
  have key: "rw_rule_id ?r = rule_id_hex (wr_rule_id rule)" by (simp add: new_watch_row_def)
  have ins: "watch_insert C E now rule t = Inr (t @ [?r])"
    using fresh by (simp add: watch_insert_def json sql_insert_def key)
  have "sql_get rw_rule_id (rule_id_hex (wr_rule_id rule)) t = None"
    using fresh by (simp add: sql_get_None)
  then have row: "sql_get rw_rule_id (rule_id_hex (wr_rule_id rule)) (t @ [?r]) = Some ?r"
    by (simp add: sql_get_append key)
  have stored: "watch_row_to_stored C E ?r = Inr (fresh_rule C now rule)"
    by (rule new_watch_row_stored [OF json(2) hash])
  have any: "swr_canonical_rule_hash s = canonical_rule_hash C (swr_rule s) \<and> wr_rule_id (swr_rule s) = rid"
    if "watch_get C E rid (t @ [?r]) = Inr (Some s)" for rid s
  proof -
    from that obtain row where row: "sql_get rw_rule_id (rule_id_hex rid) (t @ [?r]) = Some row"
      and s: "watch_row_to_stored C E row = Inr s"
      by (auto simp: watch_get_def split: option.splits)
    from row have "rw_rule_id row = hex_encode rid" by (auto dest: sql_get_Some_in simp: rule_id_hex_def)
    with watch_row_to_stored_integrity [OF s] show ?thesis by (simp add: ascii_lower_hex)
  qed
  show ?thesis
    using ins row stored any by (intro exI [of _ "t @ [?r]"]) (simp add: watch_get_def fresh_rule_def)
qed

definition example_store_env :: store_env where
  "example_store_env =
     \<lparr>se_to_base58 = (\<lambda>p. hex_encode (pubkey_as_bytes p)), se_rule_to_json = (\<lambda>_. Inr ''json''),
      se_rule_from_json = (\<lambda>_. Inr example_rule)\<rparr>"

theorem watch_insert_get_roundtrip_witness:
  "\<exists>t'. watch_insert example_crypto example_store_env 9 example_rule [example_watch_row ''active''] = Inr t'
     \<and> watch_get example_crypto example_store_env (replicate 16 7) t' \<noteq> Inr None"
proof -
  let ?t = "[example_watch_row ''active'']"
  have 1: "se_rule_to_json example_store_env example_rule = Inr ''json''"
    "se_rule_from_json example_store_env ''json'' = Inr example_rule"
    by (simp_all add: example_store_env_def)
  have 2: "length (canonical_rule_hash example_crypto example_rule) = 32"
    by (simp add: canonical_rule_hash_def canonical_rule_bytes_def example_crypto_def)
  have 3: "rule_id_hex (wr_rule_id example_rule) \<notin> rw_rule_id ` set ?t"
    by (simp add: example_rule_def example_watch_row_def hex_encode_inject rule_id_hex_def numeral_eq_Suc)
  have id: "wr_rule_id example_rule = replicate 16 7" by (simp add: example_rule_def)
  from watch_insert_get_roundtrip [OF 1 2 3, of 9] show ?thesis unfolding id by auto
qed

end
