(* ===== verification/Funding_Store.thy ===== *)
theory Funding_Store
  imports Store_Support
begin

text \<open>
  The repository of funding intents, \<open>crates/state-store/src/stage2_w5h_funding.rs\<close> over the table of
  \<open>migrations/0012\<close>. An intent holds one budget that is either spent by an execution or paid back by
  a refund; every transition is a compare-and-set on the status column. Methods that read the clock
  take its reading \<open>now_ms\<close> as an argument. The lemmas give the invariant of a row, the road
  to its final statuses, and that an intent settles at most once whatever is interleaved.
\<close>

section \<open>Statuses and rows\<close>

datatype w5h_intent_status =
    FundingRequired | FundingSubmitted | FundingInvalid | BudgetReserved | Executing
  | Completed | Expired | Refunding | Refunded | Failed

fun funding_status_as_str :: "w5h_intent_status \<Rightarrow> string" where
  "funding_status_as_str FundingRequired = ''funding_required''"
| "funding_status_as_str FundingSubmitted = ''funding_submitted''"
| "funding_status_as_str FundingInvalid = ''funding_invalid''"
| "funding_status_as_str BudgetReserved = ''budget_reserved''"
| "funding_status_as_str Executing = ''executing''"
| "funding_status_as_str Completed = ''completed''"
| "funding_status_as_str Expired = ''expired''"
| "funding_status_as_str Refunding = ''refunding''"
| "funding_status_as_str Refunded = ''refunded''"
| "funding_status_as_str Failed = ''failed''"

definition funding_status_parse :: "string \<Rightarrow> w5h_intent_status option" where
  "funding_status_parse s =
     (if s = ''funding_required'' then Some FundingRequired
      else if s = ''funding_submitted'' then Some FundingSubmitted
      else if s = ''funding_invalid'' then Some FundingInvalid
      else if s = ''budget_reserved'' then Some BudgetReserved
      else if s = ''executing'' then Some Executing
      else if s = ''completed'' then Some Completed
      else if s = ''expired'' then Some Expired
      else if s = ''refunding'' then Some Refunding
      else if s = ''refunded'' then Some Refunded
      else if s = ''failed'' then Some Failed
      else None)"

fun funding_is_terminal :: "w5h_intent_status \<Rightarrow> bool" where
  "funding_is_terminal s = (s \<in> {FundingInvalid, Completed, Refunded, Failed})"

interpretation funding_status: status_codec funding_status_as_str funding_status_parse
proof
  fix s
  show "funding_status_parse (funding_status_as_str s) = Some s"
    by (cases s) (simp_all add: funding_status_parse_def)
next
  fix t s
  assume "funding_status_parse t = Some s"
  then show "funding_status_as_str s = t"
    by (auto simp: funding_status_parse_def split: if_splits)
qed

record funding_row =
  fr_intent_id :: string
  fr_rule_id_hex :: string
  fr_canonical_rule_hash_hex :: string
  fr_user_wallet :: string
  fr_user_usdc_ata :: string
  fr_controlled_wallet :: string
  fr_controlled_usdc_ata :: string
  fr_amount_raw :: i64
  fr_threshold_bps :: i64
  fr_save_display_apy_bps :: i64
  fr_native_onchain_apr_bps :: i64
  fr_created_at_ms :: i64
  fr_expires_at_ms :: i64
  fr_status :: string
  fr_funding_signature :: "string option"
  fr_funding_finalized_slot :: "i64 option"
  fr_execution_signature :: "string option"
  fr_refund_signature :: "string option"
  fr_last_error :: "string option"
  fr_updated_at_ms :: i64

record w5h_funding_intent =
  fi_intent_id :: string
  fi_rule_id_hex :: string
  fi_canonical_rule_hash_hex :: string
  fi_user_wallet :: string
  fi_user_usdc_ata :: string
  fi_controlled_wallet :: string
  fi_controlled_usdc_ata :: string
  fi_amount_raw :: u64
  fi_threshold_bps :: u32
  fi_save_display_apy_bps :: u32
  fi_native_onchain_apr_bps :: u32
  fi_created_at_ms :: i64
  fi_expires_at_ms :: i64
  fi_status :: w5h_intent_status
  fi_funding_signature :: "string option"
  fi_funding_finalized_slot :: "u64 option"
  fi_execution_signature :: "string option"
  fi_refund_signature :: "string option"
  fi_last_error :: "string option"
  fi_updated_at_ms :: i64

record new_w5h_funding_intent =
  nfi_intent_id :: string
  nfi_rule_id_hex :: string
  nfi_canonical_rule_hash_hex :: string
  nfi_user_wallet :: string
  nfi_user_usdc_ata :: string
  nfi_controlled_wallet :: string
  nfi_controlled_usdc_ata :: string
  nfi_amount_raw :: u64
  nfi_threshold_bps :: u32
  nfi_save_display_apy_bps :: u32
  nfi_native_onchain_apr_bps :: u32
  nfi_created_at_ms :: i64
  nfi_expires_at_ms :: i64

type_synonym funding_table = "funding_row list"

section \<open>Inserting and reading\<close>

definition new_funding_row :: "i64 \<Rightarrow> new_w5h_funding_intent \<Rightarrow> funding_row" where
  "new_funding_row now_ms n =
     \<lparr>fr_intent_id = nfi_intent_id n, fr_rule_id_hex = nfi_rule_id_hex n,
      fr_canonical_rule_hash_hex = nfi_canonical_rule_hash_hex n,
      fr_user_wallet = nfi_user_wallet n, fr_user_usdc_ata = nfi_user_usdc_ata n,
      fr_controlled_wallet = nfi_controlled_wallet n,
      fr_controlled_usdc_ata = nfi_controlled_usdc_ata n,
      fr_amount_raw = nfi_amount_raw n, fr_threshold_bps = ucast (nfi_threshold_bps n),
      fr_save_display_apy_bps = ucast (nfi_save_display_apy_bps n),
      fr_native_onchain_apr_bps = ucast (nfi_native_onchain_apr_bps n),
      fr_created_at_ms = nfi_created_at_ms n, fr_expires_at_ms = nfi_expires_at_ms n,
      fr_status = ''funding_required'',
      fr_funding_signature = None, fr_funding_finalized_slot = None,
      fr_execution_signature = None, fr_refund_signature = None, fr_last_error = None,
      fr_updated_at_ms = now_ms\<rparr>"

definition funding_insert ::
    "i64 \<Rightarrow> new_w5h_funding_intent \<Rightarrow> funding_table \<Rightarrow> store_error + funding_table" where
  "funding_insert now_ms intent t =
     (case sql_insert fr_intent_id (new_funding_row now_ms intent) t of
        None \<Rightarrow> Inl (Sqlx ''UNIQUE constraint failed'')
      | Some t' \<Rightarrow> Inr t')"

text \<open>\<open>i64::try_into::<u64>\<close> refuses the negative values; \<open>as u32\<close> keeps the low bits.\<close>

definition row_to_intent :: "funding_row \<Rightarrow> store_error + w5h_funding_intent" where
  "row_to_intent r =
     try_bind (ok_or (funding_status_parse (fr_status r))
                 (IntegrityCheckFailed (UnknownIntentStatus (fr_status r) (fr_intent_id r)))) (\<lambda>st.
     try_bind (ok_or (if 0 \<le> sint (fr_amount_raw r) then Some (fr_amount_raw r) else None)
                 (IntegrityCheckFailed (AmountOutOfRange (fr_amount_raw r)))) (\<lambda>amount_raw.
       Inr \<lparr>fi_intent_id = fr_intent_id r, fi_rule_id_hex = fr_rule_id_hex r,
            fi_canonical_rule_hash_hex = fr_canonical_rule_hash_hex r,
            fi_user_wallet = fr_user_wallet r, fi_user_usdc_ata = fr_user_usdc_ata r,
            fi_controlled_wallet = fr_controlled_wallet r,
            fi_controlled_usdc_ata = fr_controlled_usdc_ata r,
            fi_amount_raw = amount_raw, fi_threshold_bps = ucast (fr_threshold_bps r),
            fi_save_display_apy_bps = ucast (fr_save_display_apy_bps r),
            fi_native_onchain_apr_bps = ucast (fr_native_onchain_apr_bps r),
            fi_created_at_ms = fr_created_at_ms r, fi_expires_at_ms = fr_expires_at_ms r,
            fi_status = st, fi_funding_signature = fr_funding_signature r,
            fi_funding_finalized_slot = fr_funding_finalized_slot r,
            fi_execution_signature = fr_execution_signature r,
            fi_refund_signature = fr_refund_signature r, fi_last_error = fr_last_error r,
            fi_updated_at_ms = fr_updated_at_ms r\<rparr>))"

definition funding_get :: "string \<Rightarrow> funding_table \<Rightarrow> store_error + w5h_funding_intent option" where
  "funding_get intent_id t =
     (case sql_get fr_intent_id intent_id t of
        None \<Rightarrow> Inr None
      | Some r \<Rightarrow> try_bind (row_to_intent r) (\<lambda>i. Inr (Some i)))"

lemma funding_get_intent_id: "funding_get i t = Inr (Some funding) \<Longrightarrow> fi_intent_id funding = i"
  using sql_get_Some_in [of fr_intent_id i t]
  by (auto simp: funding_get_def row_to_intent_def split: option.splits if_splits)

definition oldest_funding_first :: "funding_table \<Rightarrow> funding_table" where
  "oldest_funding_first t = sort_key (\<lambda>r. sint (fr_created_at_ms r)) t"

definition list_eligible_for_refund ::
    "i64 \<Rightarrow> u32 \<Rightarrow> funding_table \<Rightarrow> store_error + w5h_funding_intent list" where
  "list_eligible_for_refund now_ms limit t =
     (if limit = 0 then Inr []
      else collect_results (map row_to_intent (take (unat limit) (oldest_funding_first
             (filter (\<lambda>r. sint (fr_expires_at_ms r) \<le> sint now_ms
                        \<and> fr_status r \<in> {''budget_reserved'', ''expired''}) t)))))"

definition list_budget_reserved :: "u32 \<Rightarrow> funding_table \<Rightarrow> store_error + w5h_funding_intent list" where
  "list_budget_reserved limit t =
     (if limit = 0 then Inr []
      else collect_results (map row_to_intent (take (unat limit) (oldest_funding_first
             (filter (\<lambda>r. fr_status r = ''budget_reserved'') t)))))"

section \<open>Transitions\<close>

text \<open>A comparison with a NULL column is not true, so \<open>funding_signature = ?\<close> needs a stored value.\<close>

definition mark_funding_submitted_if_required ::
    "i64 \<Rightarrow> string \<Rightarrow> string \<Rightarrow> funding_table \<Rightarrow> funding_table \<times> nat" where
  "mark_funding_submitted_if_required now_ms intent_id signature =
     sql_update (\<lambda>r. fr_intent_id r = intent_id
           \<and> (fr_status r = ''funding_required''
              \<or> fr_status r = ''funding_submitted''
                \<and> (fr_funding_signature r = None \<or> fr_funding_signature r = Some signature)))
       (\<lambda>r. r\<lparr>fr_status := ''funding_submitted'', fr_funding_signature := Some signature,
              fr_updated_at_ms := now_ms\<rparr>)"

definition mark_budget_reserved_if_submitted ::
    "i64 \<Rightarrow> string \<Rightarrow> string \<Rightarrow> u64 \<Rightarrow> funding_table \<Rightarrow> funding_table \<times> nat" where
  "mark_budget_reserved_if_submitted now_ms intent_id expected_signature finalized_slot =
     sql_update (\<lambda>r. fr_intent_id r = intent_id \<and> fr_status r = ''funding_submitted''
           \<and> fr_funding_signature r = Some expected_signature)
       (\<lambda>r. r\<lparr>fr_status := ''budget_reserved'', fr_funding_finalized_slot := Some finalized_slot,
              fr_updated_at_ms := now_ms\<rparr>)"

definition mark_funding_invalid_if_submitted ::
    "i64 \<Rightarrow> string \<Rightarrow> string \<Rightarrow> string \<Rightarrow> funding_table \<Rightarrow> funding_table \<times> nat" where
  "mark_funding_invalid_if_submitted now_ms intent_id expected_signature reason =
     sql_update (\<lambda>r. fr_intent_id r = intent_id \<and> fr_status r = ''funding_submitted''
           \<and> fr_funding_signature r = Some expected_signature)
       (\<lambda>r. r\<lparr>fr_status := ''funding_invalid'', fr_last_error := Some reason,
              fr_updated_at_ms := now_ms\<rparr>)"

definition lease_execution_if_budget_reserved ::
    "i64 \<Rightarrow> string \<Rightarrow> funding_table \<Rightarrow> funding_table \<times> nat" where
  "lease_execution_if_budget_reserved now_ms intent_id =
     sql_update (\<lambda>r. fr_intent_id r = intent_id \<and> fr_status r = ''budget_reserved''
           \<and> sint now_ms < sint (fr_expires_at_ms r))
       (\<lambda>r. r\<lparr>fr_status := ''executing'', fr_updated_at_ms := now_ms\<rparr>)"

definition mark_completed_if_executing ::
    "i64 \<Rightarrow> string \<Rightarrow> string \<Rightarrow> funding_table \<Rightarrow> funding_table \<times> nat" where
  "mark_completed_if_executing now_ms intent_id execution_signature =
     sql_update (\<lambda>r. fr_intent_id r = intent_id \<and> fr_status r = ''executing'')
       (\<lambda>r. r\<lparr>fr_status := ''completed'', fr_execution_signature := Some execution_signature,
              fr_updated_at_ms := now_ms\<rparr>)"

definition release_execution_lease_to_budget_reserved ::
    "i64 \<Rightarrow> string \<Rightarrow> string \<Rightarrow> funding_table \<Rightarrow> funding_table \<times> nat" where
  "release_execution_lease_to_budget_reserved now_ms intent_id reason =
     sql_update (\<lambda>r. fr_intent_id r = intent_id \<and> fr_status r = ''executing'')
       (\<lambda>r. r\<lparr>fr_status := ''budget_reserved'', fr_last_error := Some reason,
              fr_updated_at_ms := now_ms\<rparr>)"

definition mark_expired_if_past :: "i64 \<Rightarrow> string \<Rightarrow> funding_table \<Rightarrow> funding_table \<times> nat" where
  "mark_expired_if_past now_ms intent_id =
     sql_update (\<lambda>r. fr_intent_id r = intent_id \<and> fr_status r = ''budget_reserved''
           \<and> sint (fr_expires_at_ms r) \<le> sint now_ms)
       (\<lambda>r. r\<lparr>fr_status := ''expired'', fr_updated_at_ms := now_ms\<rparr>)"

definition lease_refund_if_expired_or_past ::
    "i64 \<Rightarrow> string \<Rightarrow> funding_table \<Rightarrow> funding_table \<times> nat" where
  "lease_refund_if_expired_or_past now_ms intent_id =
     sql_update (\<lambda>r. fr_intent_id r = intent_id \<and> fr_status r \<in> {''budget_reserved'', ''expired''}
           \<and> sint (fr_expires_at_ms r) \<le> sint now_ms)
       (\<lambda>r. r\<lparr>fr_status := ''refunding'', fr_updated_at_ms := now_ms\<rparr>)"

definition mark_refunded_if_refunding ::
    "i64 \<Rightarrow> string \<Rightarrow> string \<Rightarrow> funding_table \<Rightarrow> funding_table \<times> nat" where
  "mark_refunded_if_refunding now_ms intent_id refund_signature =
     sql_update (\<lambda>r. fr_intent_id r = intent_id \<and> fr_status r = ''refunding'')
       (\<lambda>r. r\<lparr>fr_status := ''refunded'', fr_refund_signature := Some refund_signature,
              fr_updated_at_ms := now_ms\<rparr>)"

definition funding_mark_failed ::
    "i64 \<Rightarrow> string \<Rightarrow> string \<Rightarrow> funding_table \<Rightarrow> funding_table \<times> nat" where
  "funding_mark_failed now_ms intent_id reason =
     sql_update (\<lambda>r. fr_intent_id r = intent_id
           \<and> fr_status r \<notin> {''completed'', ''refunded'', ''failed'', ''funding_invalid''})
       (\<lambda>r. r\<lparr>fr_status := ''failed'', fr_last_error := Some reason, fr_updated_at_ms := now_ms\<rparr>)"

section \<open>The methods as operations on one key\<close>

datatype funding_op =
    FundSubmit string
  | FundReserve string u64
  | FundInvalidate string string
  | FundLeaseExecution
  | FundComplete string
  | FundReleaseExecution string
  | FundExpire
  | FundLeaseRefund
  | FundRefund string
  | FundFail string

fun funding_apply :: "i64 \<Rightarrow> string \<Rightarrow> funding_op \<Rightarrow> funding_table \<Rightarrow> funding_table \<times> nat" where
  "funding_apply now i (FundSubmit sg) = mark_funding_submitted_if_required now i sg"
| "funding_apply now i (FundReserve sg slot) = mark_budget_reserved_if_submitted now i sg slot"
| "funding_apply now i (FundInvalidate sg e) = mark_funding_invalid_if_submitted now i sg e"
| "funding_apply now i FundLeaseExecution = lease_execution_if_budget_reserved now i"
| "funding_apply now i (FundComplete sg) = mark_completed_if_executing now i sg"
| "funding_apply now i (FundReleaseExecution e) = release_execution_lease_to_budget_reserved now i e"
| "funding_apply now i FundExpire = mark_expired_if_past now i"
| "funding_apply now i FundLeaseRefund = lease_refund_if_expired_or_past now i"
| "funding_apply now i (FundRefund sg) = mark_refunded_if_refunding now i sg"
| "funding_apply now i (FundFail e) = funding_mark_failed now i e"

definition funding_guard :: "i64 \<times> funding_op \<Rightarrow> funding_row \<Rightarrow> bool" where
  "funding_guard a r =
     (case snd a of
        FundSubmit sg \<Rightarrow> fr_status r = ''funding_required''
          \<or> fr_status r = ''funding_submitted''
            \<and> (fr_funding_signature r = None \<or> fr_funding_signature r = Some sg)
      | FundReserve sg slot \<Rightarrow> fr_status r = ''funding_submitted'' \<and> fr_funding_signature r = Some sg
      | FundInvalidate sg e \<Rightarrow> fr_status r = ''funding_submitted'' \<and> fr_funding_signature r = Some sg
      | FundLeaseExecution \<Rightarrow> fr_status r = ''budget_reserved'' \<and> sint (fst a) < sint (fr_expires_at_ms r)
      | FundComplete sg \<Rightarrow> fr_status r = ''executing''
      | FundReleaseExecution e \<Rightarrow> fr_status r = ''executing''
      | FundExpire \<Rightarrow> fr_status r = ''budget_reserved'' \<and> sint (fr_expires_at_ms r) \<le> sint (fst a)
      | FundLeaseRefund \<Rightarrow> fr_status r \<in> {''budget_reserved'', ''expired''}
          \<and> sint (fr_expires_at_ms r) \<le> sint (fst a)
      | FundRefund sg \<Rightarrow> fr_status r = ''refunding''
      | FundFail e \<Rightarrow> fr_status r \<notin> {''completed'', ''refunded'', ''failed'', ''funding_invalid''})"

definition funding_rewrite :: "i64 \<times> funding_op \<Rightarrow> funding_row \<Rightarrow> funding_row" where
  "funding_rewrite a r =
     (case snd a of
        FundSubmit sg \<Rightarrow> r\<lparr>fr_status := ''funding_submitted'', fr_funding_signature := Some sg\<rparr>
      | FundReserve sg slot \<Rightarrow>
          r\<lparr>fr_status := ''budget_reserved'', fr_funding_finalized_slot := Some slot\<rparr>
      | FundInvalidate sg e \<Rightarrow> r\<lparr>fr_status := ''funding_invalid'', fr_last_error := Some e\<rparr>
      | FundLeaseExecution \<Rightarrow> r\<lparr>fr_status := ''executing''\<rparr>
      | FundComplete sg \<Rightarrow> r\<lparr>fr_status := ''completed'', fr_execution_signature := Some sg\<rparr>
      | FundReleaseExecution e \<Rightarrow> r\<lparr>fr_status := ''budget_reserved'', fr_last_error := Some e\<rparr>
      | FundExpire \<Rightarrow> r\<lparr>fr_status := ''expired''\<rparr>
      | FundLeaseRefund \<Rightarrow> r\<lparr>fr_status := ''refunding''\<rparr>
      | FundRefund sg \<Rightarrow> r\<lparr>fr_status := ''refunded'', fr_refund_signature := Some sg\<rparr>
      | FundFail e \<Rightarrow> r\<lparr>fr_status := ''failed'', fr_last_error := Some e\<rparr>)
     \<lparr>fr_updated_at_ms := fst a\<rparr>"

interpretation fund: keyed_store fr_intent_id funding_guard funding_rewrite
  by unfold_locales (simp add: funding_rewrite_def split: funding_op.splits)

lemmas funding_method_defs =
  mark_funding_submitted_if_required_def mark_budget_reserved_if_submitted_def
  mark_funding_invalid_if_submitted_def lease_execution_if_budget_reserved_def
  mark_completed_if_executing_def release_execution_lease_to_budget_reserved_def
  mark_expired_if_past_def lease_refund_if_expired_or_past_def mark_refunded_if_refunding_def
  funding_mark_failed_def

lemma funding_apply_exec:
  "funding_apply now i opn t = (fund.exec t (i, (now, opn)), fund.affected t (i, (now, opn)))"
  unfolding fund.exec_def fund.affected_def
  by (cases opn) (simp_all add: funding_method_defs funding_guard_def funding_rewrite_def [abs_def])

declare funding_apply.simps [simp del]

definition funding_run :: "funding_table \<Rightarrow> (i64 \<times> string \<times> funding_op) list \<Rightarrow> funding_table" where
  "funding_run t ops = foldl (\<lambda>t (now, i, opn). fst (funding_apply now i opn t)) t ops"

text \<open>How many operations of a kind report a row of one intent in a run.\<close>

fun funding_wins ::
    "(funding_op \<Rightarrow> bool) \<Rightarrow> string \<Rightarrow> funding_table \<Rightarrow> (i64 \<times> string \<times> funding_op) list \<Rightarrow> nat" where
  "funding_wins P i t [] = 0"
| "funding_wins P i t ((now, j, opn) # ops) =
     (if j = i \<and> P opn then snd (funding_apply now j opn t) else 0)
     + funding_wins P i (fst (funding_apply now j opn t)) ops"

abbreviation funding_events :: "(i64 \<times> string \<times> funding_op) list \<Rightarrow> (string \<times> i64 \<times> funding_op) list" where
  "funding_events ops \<equiv> map (\<lambda>(now, i, opn). (i, now, opn)) ops"

lemma funding_run_exec: "funding_run t ops = foldl fund.exec t (funding_events ops)"
  unfolding funding_run_def by (induction ops arbitrary: t) (auto simp: funding_apply_exec)

lemma funding_wins_eq: "funding_wins P i t ops = fund.wins (\<lambda>a. P (snd a)) i t (funding_events ops)"
  by (induction ops arbitrary: t) (auto simp: funding_apply_exec)

lemma funding_run_row:
  "sql_get fr_intent_id i (funding_run t ops) =
     map_option (\<lambda>r. foldl fund.row_step r (map snd (filter (\<lambda>ka. fst ka = i) (funding_events ops))))
       (sql_get fr_intent_id i t)"
  by (simp add: funding_run_exec fund.get_exec_run)

lemmas funding_step_defs = fund.row_step_def funding_guard_def funding_rewrite_def

section \<open>The lifecycle of an intent\<close>

definition funding_row_status :: "funding_row \<Rightarrow> w5h_intent_status option" where
  "funding_row_status r = funding_status_parse (fr_status r)"

lemma funding_row_status_iff: "funding_row_status r = Some s \<longleftrightarrow> fr_status r = funding_status_as_str s"
  by (simp add: funding_row_status_def funding_status.parse_iff)

lemma funding_status_literals:
  "funding_status_parse ''funding_required'' = Some FundingRequired"
  "funding_status_parse ''funding_submitted'' = Some FundingSubmitted"
  "funding_status_parse ''funding_invalid'' = Some FundingInvalid"
  "funding_status_parse ''budget_reserved'' = Some BudgetReserved"
  "funding_status_parse ''executing'' = Some Executing"
  "funding_status_parse ''completed'' = Some Completed"
  "funding_status_parse ''expired'' = Some Expired"
  "funding_status_parse ''refunding'' = Some Refunding"
  "funding_status_parse ''refunded'' = Some Refunded"
  "funding_status_parse ''failed'' = Some Failed"
  by (simp_all add: funding_status_parse_def)

definition funding_state_terminal :: "w5h_intent_status option \<Rightarrow> bool" where
  "funding_state_terminal so = (case so of None \<Rightarrow> False | Some s \<Rightarrow> funding_is_terminal s)"

definition funding_row_inv :: "funding_row \<Rightarrow> bool" where
  "funding_row_inv r \<longleftrightarrow>
     (case funding_row_status r of
        None \<Rightarrow> False
      | Some s \<Rightarrow>
          (fr_execution_signature r \<noteq> None \<longleftrightarrow> s = Completed)
        \<and> (fr_refund_signature r \<noteq> None \<longleftrightarrow> s = Refunded)
        \<and> (s \<notin> {FundingRequired, Failed} \<longrightarrow> fr_funding_signature r \<noteq> None)
        \<and> (s \<notin> {FundingRequired, FundingSubmitted, FundingInvalid, Failed} \<longrightarrow>
             fr_funding_finalized_slot r \<noteq> None))"

interpretation fund_life: invariant_lifecycle funding_row_status funding_state_terminal fund.row_step
  funding_row_inv
proof
  fix r a
  assume "funding_state_terminal (funding_row_status r)"
  then obtain s where s: "funding_row_status r = Some s" "funding_is_terminal s"
    by (auto simp: funding_state_terminal_def split: option.splits)
  then have "\<not> funding_guard a r"
    by (cases s; cases "snd a") (simp_all add: funding_guard_def funding_row_status_iff)
  then show "funding_row_status (fund.row_step r a) = funding_row_status r" by (simp add: fund.row_step_def)
next
  fix r a
  assume inv: "funding_row_inv r"
  then obtain s where s: "funding_row_status r = Some s"
    by (auto simp: funding_row_inv_def split: option.splits)
  have not_ended: "fr_execution_signature r = None \<and> fr_refund_signature r = None"
    if "fr_status r \<notin> {''completed'', ''refunded''}"
    using inv s that by (cases s) (simp_all add: funding_row_inv_def funding_row_status_iff)
  have signed: "\<exists>sg. fr_funding_signature r = Some sg"
    if "fr_status r \<notin> {''funding_required'', ''failed''}"
    using inv s that by (cases s) (simp_all add: funding_row_inv_def funding_row_status_iff)
  have slotted: "\<exists>sl. fr_funding_finalized_slot r = Some sl"
    if "fr_status r \<notin> {''funding_required'', ''funding_submitted'', ''funding_invalid'', ''failed''}"
    using inv s that by (cases s) (simp_all add: funding_row_inv_def funding_row_status_iff)
  note kept = not_ended signed slotted
  note defs = fund.row_step_def funding_guard_def funding_rewrite_def funding_row_inv_def
    funding_row_status_def funding_status_literals
  show "funding_row_inv (fund.row_step r a)"
  proof (cases "funding_guard a r")
    case True
    show ?thesis
    proof (cases "snd a")
      case (FundSubmit sg)
      with True have "fr_status r \<in> {''funding_required'', ''funding_submitted''}"
        by (auto simp: funding_guard_def)
      then have "fr_status r \<notin> {''completed'', ''refunded''}" by (elim insertE) simp_all
      with True FundSubmit show ?thesis using not_ended by (simp add: defs)
    next
      case FundLeaseRefund
      with True have "fr_status r \<in> {''budget_reserved'', ''expired''}"
        by (auto simp: funding_guard_def)
      then show ?thesis using True FundLeaseRefund kept by (elim insertE) (simp_all add: defs)
    next
      case (FundFail e)
      with True show ?thesis using not_ended by (simp add: defs)
    qed (use True kept in \<open>simp_all add: defs\<close>)
  qed (simp add: fund.row_step_def inv)
qed

lemma funding_insert_get_row:
  assumes "funding_insert now n t = Inr t'"
  shows "sql_get fr_intent_id (nfi_intent_id n) t' = Some (new_funding_row now n)"
proof -
  have "sql_insert fr_intent_id (new_funding_row now n) t = Some t'"
    using assms by (simp add: funding_insert_def split: option.splits)
  from sql_insert_get [OF this] show ?thesis by (simp add: new_funding_row_def)
qed

lemma new_funding_row_inv: "funding_row_inv (new_funding_row now n)"
  by (simp add: funding_row_inv_def new_funding_row_def funding_row_status_def funding_status_literals)

section \<open>The road of an intent\<close>

text \<open>The operations on an intent that report a row, in their order, with their clock readings.\<close>

fun funding_steps ::
    "string \<Rightarrow> funding_table \<Rightarrow> (i64 \<times> string \<times> funding_op) list \<Rightarrow> (i64 \<times> funding_op) list" where
  "funding_steps i t [] = []"
| "funding_steps i t ((now, j, opn) # ops) =
     (if j = i \<and> snd (funding_apply now j opn t) \<noteq> 0 then [(now, opn)] else [])
     @ funding_steps i (fst (funding_apply now j opn t)) ops"

text \<open>Submissions of one signature, at least one.\<close>

definition submissions :: "string \<Rightarrow> (i64 \<times> funding_op) list \<Rightarrow> bool" where
  "submissions sg h \<longleftrightarrow> h \<noteq> [] \<and> snd ` set h = {FundSubmit sg}"

text \<open>Execution leases, each taken before the expiry and given back before the next.\<close>

fun lease_loops :: "i64 \<Rightarrow> (i64 \<times> funding_op) list \<Rightarrow> bool" where
  "lease_loops expiry [] \<longleftrightarrow> True"
| "lease_loops expiry ((t, FundLeaseExecution) # (_, FundReleaseExecution _) # h) \<longleftrightarrow>
     sint t < sint expiry \<and> lease_loops expiry h"
| "lease_loops expiry _ \<longleftrightarrow> False"

lemma lease_loops_snoc:
  assumes "lease_loops expiry h" and "sint t < sint expiry"
  shows "lease_loops expiry (h @ [(t, FundLeaseExecution), (t', FundReleaseExecution e)])"
  using assms by (induction expiry h rule: lease_loops.induct) simp_all

lemma submissions_one: "submissions sg [(t, FundSubmit sg)]"
  by (simp add: submissions_def)

lemma submissions_more: "submissions sg h \<Longrightarrow> submissions sg (h @ [(t, FundSubmit sg)])"
  by (auto simp: submissions_def)

definition reserved_road :: "funding_row \<Rightarrow> (i64 \<times> funding_op) list \<Rightarrow> bool" where
  "reserved_road r h \<longleftrightarrow>
     (\<exists>sg slot subs t loops. fr_funding_signature r = Some sg \<and> fr_funding_finalized_slot r = Some slot
        \<and> h = subs @ (t, FundReserve sg slot) # loops
        \<and> submissions sg subs \<and> lease_loops (fr_expires_at_ms r) loops)"

definition leased_road :: "funding_row \<Rightarrow> (i64 \<times> funding_op) list \<Rightarrow> bool" where
  "leased_road r h \<longleftrightarrow>
     (\<exists>h' t. h = h' @ [(t, FundLeaseExecution)] \<and> sint t < sint (fr_expires_at_ms r) \<and> reserved_road r h')"

definition expired_road :: "funding_row \<Rightarrow> (i64 \<times> funding_op) list \<Rightarrow> bool" where
  "expired_road r h \<longleftrightarrow>
     (\<exists>h' t. h = h' @ [(t, FundExpire)] \<and> sint (fr_expires_at_ms r) \<le> sint t \<and> reserved_road r h')"

definition refund_road :: "funding_row \<Rightarrow> (i64 \<times> funding_op) list \<Rightarrow> bool" where
  "refund_road r h \<longleftrightarrow>
     (\<exists>h' t. h = h' @ [(t, FundLeaseRefund)] \<and> sint (fr_expires_at_ms r) \<le> sint t
        \<and> (reserved_road r h' \<or> expired_road r h'))"

fun intent_road :: "funding_row \<Rightarrow> w5h_intent_status \<Rightarrow> (i64 \<times> funding_op) list \<Rightarrow> bool" where
  "intent_road r FundingRequired h \<longleftrightarrow> h = []"
| "intent_road r FundingSubmitted h \<longleftrightarrow> (\<exists>sg. fr_funding_signature r = Some sg \<and> submissions sg h)"
| "intent_road r BudgetReserved h \<longleftrightarrow> reserved_road r h"
| "intent_road r Executing h \<longleftrightarrow> leased_road r h"
| "intent_road r Completed h \<longleftrightarrow>
     (\<exists>h' t x. h = h' @ [(t, FundComplete x)] \<and> fr_execution_signature r = Some x \<and> leased_road r h')"
| "intent_road r Expired h \<longleftrightarrow> expired_road r h"
| "intent_road r Refunding h \<longleftrightarrow> refund_road r h"
| "intent_road r Refunded h \<longleftrightarrow>
     (\<exists>h' t x. h = h' @ [(t, FundRefund x)] \<and> fr_refund_signature r = Some x \<and> refund_road r h')"
| "intent_road r FundingInvalid h \<longleftrightarrow> True"
| "intent_road r Failed h \<longleftrightarrow> True"

definition on_road :: "funding_row \<Rightarrow> (i64 \<times> funding_op) list \<Rightarrow> bool" where
  "on_road r h \<longleftrightarrow> (\<exists>s. funding_row_status r = Some s \<and> intent_road r s h)"

lemmas road_defs = reserved_road_def leased_road_def expired_road_def refund_road_def

lemma on_road_status:
  "on_road r h \<Longrightarrow> fr_status r = funding_status_as_str s \<Longrightarrow> intent_road r s h"
  by (auto simp: on_road_def funding_row_status_iff [symmetric])

lemma on_road_intro:
  "fr_status r = funding_status_as_str s \<Longrightarrow> intent_road r s h \<Longrightarrow> on_road r h"
  by (auto simp: on_road_def funding_row_status_iff)

lemma road_reserve:
  assumes "fr_funding_signature r = Some sg" "submissions sg h"
  shows "reserved_road (r\<lparr>fr_status := x, fr_funding_finalized_slot := Some slot, fr_updated_at_ms := t\<rparr>)
    (h @ [(t', FundReserve sg slot)])"
  unfolding reserved_road_def using assms
  by (intro exI [of _ sg] exI [of _ slot] exI [of _ h] exI [of _ t'] exI [of _ "[]"]) simp

lemma road_release:
  assumes "leased_road r h"
  shows "reserved_road r (h @ [(t, FundReleaseExecution e)])"
proof -
  obtain h' t1 sg slot subs t2 loops where h: "h = h' @ [(t1, FundLeaseExecution)]" "sint t1 < sint (fr_expires_at_ms r)"
    "fr_funding_signature r = Some sg" "fr_funding_finalized_slot r = Some slot"
    "h' = subs @ (t2, FundReserve sg slot) # loops" "submissions sg subs" "lease_loops (fr_expires_at_ms r) loops"
    using assms unfolding leased_road_def reserved_road_def by blast
  have "lease_loops (fr_expires_at_ms r) (loops @ [(t1, FundLeaseExecution), (t, FundReleaseExecution e)])"
    using h(7,2) by (rule lease_loops_snoc)
  then show ?thesis unfolding reserved_road_def using h by (metis append.assoc append_Cons append_Nil)
qed

lemma road_step:
  assumes road: "on_road r h" and guard: "funding_guard a r"
  shows "on_road (funding_rewrite a r) (h @ [a])"
proof -
  obtain now opn where a: "a = (now, opn)" by (cases a)
  note at = on_road_status [OF road]
  show ?thesis
  proof (cases opn)
    case (FundSubmit sg)
    then have "h = [] \<or> submissions sg h"
      using guard at [of FundingRequired] at [of FundingSubmitted] by (auto simp: a funding_guard_def)
    then have "submissions sg (h @ [a])"
      by (auto simp: a FundSubmit submissions_one intro: submissions_more)
    then show ?thesis
      by (intro on_road_intro [of _ FundingSubmitted]) (simp_all add: a FundSubmit funding_rewrite_def)
  next
    case (FundReserve sg slot)
    then have "fr_funding_signature r = Some sg" "submissions sg h"
      using guard at [of FundingSubmitted] by (simp_all add: a funding_guard_def)
    then show ?thesis
      by (intro on_road_intro [of _ BudgetReserved]) (simp_all add: a FundReserve funding_rewrite_def road_reserve)
  next
    case (FundInvalidate sg e)
    then show ?thesis by (intro on_road_intro [of _ FundingInvalid]) (simp_all add: a funding_rewrite_def)
  next
    case FundLeaseExecution
    then show ?thesis using guard at [of BudgetReserved]
      by (intro on_road_intro [of _ Executing]) (simp_all add: a funding_guard_def funding_rewrite_def road_defs)
  next
    case (FundComplete x)
    then show ?thesis using guard at [of Executing]
      by (intro on_road_intro [of _ Completed]) (simp_all add: a funding_guard_def funding_rewrite_def road_defs)
  next
    case (FundReleaseExecution e)
    then have "reserved_road r (h @ [a])"
      using guard at [of Executing] by (simp add: a funding_guard_def road_release)
    then show ?thesis
      by (intro on_road_intro [of _ BudgetReserved])
        (simp_all add: a FundReleaseExecution funding_rewrite_def reserved_road_def)
  next
    case FundExpire
    then show ?thesis using guard at [of BudgetReserved]
      by (intro on_road_intro [of _ Expired]) (simp_all add: a funding_guard_def funding_rewrite_def road_defs)
  next
    case FundLeaseRefund
    then have "reserved_road r h \<or> expired_road r h"
      using guard at [of BudgetReserved] at [of Expired] by (auto simp: a funding_guard_def)
    then show ?thesis using guard
      by (intro on_road_intro [of _ Refunding])
        (simp_all add: a FundLeaseRefund funding_guard_def funding_rewrite_def road_defs)
  next
    case (FundRefund x)
    then show ?thesis using guard at [of Refunding]
      by (intro on_road_intro [of _ Refunded]) (simp_all add: a funding_guard_def funding_rewrite_def road_defs)
  next
    case (FundFail e)
    then show ?thesis by (intro on_road_intro [of _ Failed]) (simp_all add: a funding_rewrite_def)
  qed
qed

lemma funding_steps_on_road:
  assumes "distinct (map fr_intent_id t)" "sql_get fr_intent_id i t = Some r" "on_road r h"
  shows "\<exists>r'. sql_get fr_intent_id i (funding_run t ops) = Some r' \<and> on_road r' (h @ funding_steps i t ops)
    \<and> fr_expires_at_ms r' = fr_expires_at_ms r"
  using assms
proof (induction ops arbitrary: t r h)
  case (Cons e ops)
  obtain now j opn where e: "e = (now, j, opn)" by (cases e)
  let ?t = "fund.exec t (j, (now, opn))"
  let ?won = "j = i \<and> funding_guard (now, opn) r"
  let ?r = "if ?won then funding_rewrite (now, opn) r else r"
  have won: "fund.affected t (i, (now, opn)) \<noteq> 0 \<longleftrightarrow> funding_guard (now, opn) r"
    using Cons.prems(1,2) by (simp add: fund.affected_def sql_update_key_count)
  have get: "sql_get fr_intent_id i ?t = Some ?r"
    using Cons.prems(2) by (auto simp: fund.get_exec)
  have road: "on_road ?r (h @ (if ?won then [(now, opn)] else []))"
    using Cons.prems(3) road_step by auto
  have "distinct (map fr_intent_id ?t)" using Cons.prems(1) by (simp add: fund.exec_keys)
  from Cons.IH [OF this get road] show ?case
    using won by (auto simp: e funding_apply_exec funding_run_def funding_rewrite_def split: funding_op.splits if_splits)
qed (simp add: funding_run_def)

lemma fresh_on_road: "on_road (new_funding_row now n) []"
  by (rule on_road_intro [of _ FundingRequired]) (simp_all add: new_funding_row_def)

lemma completed_history:
  assumes "intent_road r Completed h"
  shows "\<exists>sg slot x subs t1 loops t2 t3.
      h = subs @ (t1, FundReserve sg slot) # loops @ [(t2, FundLeaseExecution), (t3, FundComplete x)]
    \<and> submissions sg subs \<and> lease_loops (fr_expires_at_ms r) loops \<and> sint t2 < sint (fr_expires_at_ms r)
    \<and> fr_funding_signature r = Some sg \<and> fr_funding_finalized_slot r = Some slot
    \<and> fr_execution_signature r = Some x"
  using assms by (fastforce simp: leased_road_def reserved_road_def)

lemma refunded_history:
  assumes "intent_road r Refunded h"
  shows "\<exists>sg slot x subs t1 loops expiry t2 t3.
      h = subs @ (t1, FundReserve sg slot) # loops @ expiry @ [(t2, FundLeaseRefund), (t3, FundRefund x)]
    \<and> submissions sg subs \<and> lease_loops (fr_expires_at_ms r) loops
    \<and> (expiry = [] \<or> (\<exists>t0. expiry = [(t0, FundExpire)] \<and> sint (fr_expires_at_ms r) \<le> sint t0))
    \<and> sint (fr_expires_at_ms r) \<le> sint t2
    \<and> fr_funding_signature r = Some sg \<and> fr_funding_finalized_slot r = Some slot
    \<and> fr_refund_signature r = Some x"
proof -
  obtain h' t3 x h2 t2 where h: "h = h2 @ [(t2, FundLeaseRefund), (t3, FundRefund x)]"
    "fr_refund_signature r = Some x" "sint (fr_expires_at_ms r) \<le> sint t2" "reserved_road r h2 \<or> expired_road r h2"
    using assms by (auto simp: refund_road_def)
  obtain h1 expiry where e: "h2 = h1 @ expiry" "reserved_road r h1"
    "expiry = [] \<or> (\<exists>t0. expiry = [(t0, FundExpire)] \<and> sint (fr_expires_at_ms r) \<le> sint t0)"
    using h(4) unfolding expired_road_def by (metis append_Nil2)
  from e(2) obtain sg slot subs t1 loops where "fr_funding_signature r = Some sg"
    "fr_funding_finalized_slot r = Some slot" "h1 = subs @ (t1, FundReserve sg slot) # loops"
    "submissions sg subs" "lease_loops (fr_expires_at_ms r) loops"
    unfolding reserved_road_def by blast
  then show ?thesis using h e
    by (intro exI [of _ sg] exI [of _ slot] exI [of _ x] exI [of _ subs] exI [of _ t1] exI [of _ loops]
        exI [of _ expiry] exI [of _ t2] exI [of _ t3]) simp
qed

text \<open>C33: A status is earned: after any interleaving of the repository's operations on a table that a
  fresh intent was inserted into, the history of the operations that changed the intent's row tells how it
  came to its end. A completed intent was submitted under one signature, reserved at one slot for that
  signature, leased for execution any number of times and given back, leased a last time before it
  expired, and completed; a refunded one was submitted and reserved the same way, leased and given back
  any number of times, perhaps marked expired, leased for refund at or after its expiry, and refunded;
  nothing else ever changed such a row, and it carries exactly these signatures and this slot. An
  execution signature is recorded for no other intents than completed ones, a refund signature for no
  others than refunded ones, and an intent whose budget is reserved or beyond carries the funding
  signature and the slot.\<close>

theorem funding_intent_lifecycle:
  assumes "distinct (map fr_intent_id t)" and "funding_insert now n t = Inr t'"
  shows "\<exists>r s. sql_get fr_intent_id (nfi_intent_id n) (funding_run t' ops) = Some r
     \<and> funding_status_parse (fr_status r) = Some s
     \<and> (s = Completed \<longrightarrow>
          (\<exists>sg slot x subs t1 loops t2 t3.
             funding_steps (nfi_intent_id n) t' ops
               = subs @ (t1, FundReserve sg slot) # loops @ [(t2, FundLeaseExecution), (t3, FundComplete x)]
           \<and> submissions sg subs \<and> lease_loops (nfi_expires_at_ms n) loops
           \<and> sint t2 < sint (nfi_expires_at_ms n)
           \<and> fr_funding_signature r = Some sg \<and> fr_funding_finalized_slot r = Some slot
           \<and> fr_execution_signature r = Some x))
     \<and> (s = Refunded \<longrightarrow>
          (\<exists>sg slot x subs t1 loops expiry t2 t3.
             funding_steps (nfi_intent_id n) t' ops
               = subs @ (t1, FundReserve sg slot) # loops @ expiry @ [(t2, FundLeaseRefund), (t3, FundRefund x)]
           \<and> submissions sg subs \<and> lease_loops (nfi_expires_at_ms n) loops
           \<and> (expiry = [] \<or> (\<exists>t0. expiry = [(t0, FundExpire)] \<and> sint (nfi_expires_at_ms n) \<le> sint t0))
           \<and> sint (nfi_expires_at_ms n) \<le> sint t2
           \<and> fr_funding_signature r = Some sg \<and> fr_funding_finalized_slot r = Some slot
           \<and> fr_refund_signature r = Some x))
     \<and> (fr_execution_signature r \<noteq> None \<longleftrightarrow> s = Completed)
     \<and> (fr_refund_signature r \<noteq> None \<longleftrightarrow> s = Refunded)
     \<and> (s \<in> {BudgetReserved, Executing, Completed, Expired, Refunding, Refunded} \<longrightarrow>
          fr_funding_signature r \<noteq> None \<and> fr_funding_finalized_slot r \<noteq> None)"
proof -
  let ?r = "new_funding_row now n" and ?i = "nfi_intent_id n"
  have get: "sql_get fr_intent_id ?i t' = Some ?r" using assms(2) by (rule funding_insert_get_row)
  have "distinct (map fr_intent_id t')"
    using assms by (auto simp: funding_insert_def sql_insert_def split: option.splits if_splits)
  from funding_steps_on_road [OF this get fresh_on_road] obtain r where
    r: "sql_get fr_intent_id ?i (funding_run t' ops) = Some r" "on_road r (funding_steps ?i t' ops)"
      "fr_expires_at_ms r = nfi_expires_at_ms n"
    by (auto simp: new_funding_row_def)
  then obtain s where s: "funding_row_status r = Some s" "intent_road r s (funding_steps ?i t' ops)"
    by (auto simp: on_road_def)
  obtain as where "r = foldl fund.row_step ?r as"
    using r(1) get by (auto simp: funding_run_row)
  then have "funding_row_inv r" by (simp add: fund_life.invar_run new_funding_row_inv)
  then have "(fr_execution_signature r \<noteq> None \<longleftrightarrow> s = Completed) \<and> (fr_refund_signature r \<noteq> None \<longleftrightarrow> s = Refunded)
     \<and> (s \<in> {BudgetReserved, Executing, Completed, Expired, Refunding, Refunded} \<longrightarrow>
          fr_funding_signature r \<noteq> None \<and> fr_funding_finalized_slot r \<noteq> None)"
    using s(1) by (auto simp: funding_row_inv_def)
  then show ?thesis
    using r(1) s completed_history [of r] refunded_history [of r] unfolding funding_row_status_def r(3) [symmetric] by blast
qed

definition example_intent :: new_w5h_funding_intent where
  "example_intent =
     \<lparr>nfi_intent_id = ''07'', nfi_rule_id_hex = ''07'', nfi_canonical_rule_hash_hex = ''00'',
      nfi_user_wallet = ''user'', nfi_user_usdc_ata = ''ua'', nfi_controlled_wallet = ''daemon'',
      nfi_controlled_usdc_ata = ''da'', nfi_amount_raw = 250000, nfi_threshold_bps = 50,
      nfi_save_display_apy_bps = 60, nfi_native_onchain_apr_bps = 55,
      nfi_created_at_ms = 0, nfi_expires_at_ms = 180000\<rparr>"

theorem funding_intent_lifecycle_witness:
  "\<exists>r. sql_get fr_intent_id ''07''
       (funding_run [new_funding_row 1 example_intent]
          [(2, ''07'', FundSubmit ''s1''), (3, ''07'', FundReserve ''s1'' 9), (4, ''07'', FundLeaseExecution),
           (5, ''07'', FundReleaseExecution ''retry''), (6, ''07'', FundRefund ''s3''), (7, ''07'', FundLeaseExecution),
           (8, ''07'', FundComplete ''s2'')]) = Some r
     \<and> funding_status_parse (fr_status r) = Some Completed
     \<and> (\<exists>sg slot x subs t1 loops t2 t3.
          subs @ (t1, FundReserve sg slot) # loops @ [(t2, FundLeaseExecution), (t3, FundComplete x)]
            = [(2, FundSubmit ''s1''), (3, FundReserve ''s1'' 9), (4, FundLeaseExecution),
               (5, FundReleaseExecution ''retry''), (7, FundLeaseExecution), (8, FundComplete ''s2'')]
        \<and> lease_loops 180000 loops
        \<and> fr_funding_signature r = Some sg \<and> fr_execution_signature r = Some x)"
proof -
  let ?t = "[new_funding_row 1 example_intent]"
  let ?ops = "[(2, ''07'', FundSubmit ''s1''), (3, ''07'', FundReserve ''s1'' 9), (4, ''07'', FundLeaseExecution),
      (5, ''07'', FundReleaseExecution ''retry''), (6, ''07'', FundRefund ''s3''), (7, ''07'', FundLeaseExecution),
      (8, ''07'', FundComplete ''s2'')]"
  have ins: "funding_insert 1 example_intent [] = Inr ?t" by (simp add: funding_insert_def sql_insert_def)
  have id: "nfi_intent_id example_intent = ''07''" "nfi_expires_at_ms example_intent = 180000"
    by (simp_all add: example_intent_def)
  have dist: "distinct (map fr_intent_id [])" by simp
  have steps: "funding_steps ''07'' ?t ?ops
      = [(2, FundSubmit ''s1''), (3, FundReserve ''s1'' 9), (4, FundLeaseExecution),
         (5, FundReleaseExecution ''retry''), (7, FundLeaseExecution), (8, FundComplete ''s2'')]"
    by (simp add: funding_apply.simps funding_method_defs sql_update_def new_funding_row_def example_intent_def)
  have ended: "map_option fr_status (sql_get fr_intent_id ''07'' (funding_run ?t ?ops)) = Some ''completed''"
    by (simp add: funding_run_def funding_apply.simps funding_method_defs sql_update_def sql_get_def
        new_funding_row_def example_intent_def)
  from funding_intent_lifecycle [OF dist ins, of ?ops, unfolded id steps] obtain r s where
    r: "sql_get fr_intent_id ''07'' (funding_run ?t ?ops) = Some r" "funding_status_parse (fr_status r) = Some s"
    and road: "s = Completed \<longrightarrow>
          (\<exists>sg slot x subs t1 loops t2 t3.
             [(2, FundSubmit ''s1''), (3, FundReserve ''s1'' 9), (4, FundLeaseExecution),
               (5, FundReleaseExecution ''retry''), (7, FundLeaseExecution), (8, FundComplete ''s2'')]
               = subs @ (t1, FundReserve sg slot) # loops @ [(t2, FundLeaseExecution), (t3, FundComplete x)]
           \<and> submissions sg subs \<and> lease_loops 180000 loops \<and> sint t2 < sint (180000 :: i64)
           \<and> fr_funding_signature r = Some sg \<and> fr_funding_finalized_slot r = Some slot
           \<and> fr_execution_signature r = Some x)"
    by blast
  have "s = Completed" using ended r by (simp add: funding_status_literals)
  with r road show ?thesis by metis
qed

section \<open>One budget, one settlement\<close>

fun is_settlement :: "funding_op \<Rightarrow> bool" where
  "is_settlement (FundComplete sg) = True"
| "is_settlement (FundRefund sg) = True"
| "is_settlement _ = False"

text \<open>C11: A budget is settled at most once: in any interleaving of operations on any intents, the
  completions and the refunds of one intent that report a row number at most one in all, so that no
  intent is both executed and refunded, and none is completed or refunded twice.\<close>

theorem intent_settles_at_most_once:
  assumes "distinct (map fr_intent_id t)"
  shows "funding_wins is_settlement i t ops \<le> 1"
  unfolding funding_wins_eq
proof (rule fund.wins_le_1 [where Q = "\<lambda>_. True" and closed = "\<lambda>r. fr_status r \<in> {''completed'', ''refunded''}"])
  fix r and a :: "i64 \<times> funding_op"
  assume "is_settlement (snd a)"
  then show "fr_status (funding_rewrite a r) \<in> {''completed'', ''refunded''}"
    by (cases "snd a") (simp_all add: funding_rewrite_def)
next
  fix r and a :: "i64 \<times> funding_op"
  assume "fr_status r \<in> {''completed'', ''refunded''}" "funding_guard a r"
  then have "False" by (elim insertE; cases "snd a") (simp_all add: funding_guard_def)
  then show "\<not> is_settlement (snd a)" "fr_status (funding_rewrite a r) \<in> {''completed'', ''refunded''}"
    by blast+
qed (use assms in simp_all)

theorem intent_settles_at_most_once_witness:
  "funding_wins is_settlement ''07'' [new_funding_row 1 example_intent]
     [(2, ''07'', FundSubmit ''s1''), (3, ''07'', FundReserve ''s1'' 9), (4, ''07'', FundLeaseExecution),
      (5, ''07'', FundComplete ''s2''), (6, ''07'', FundRefund ''s3'')] = 1"
proof -
  let ?ops = "[(2, ''07'', FundSubmit ''s1''), (3, ''07'', FundReserve ''s1'' 9), (4, ''07'', FundLeaseExecution),
      (5, ''07'', FundComplete ''s2''), (6, ''07'', FundRefund ''s3'')]"
  have "funding_wins is_settlement ''07'' [new_funding_row 1 example_intent] ?ops \<le> 1"
    by (rule intent_settles_at_most_once) simp
  moreover have "1 \<le> funding_wins is_settlement ''07'' [new_funding_row 1 example_intent] ?ops"
    by (simp add: funding_apply.simps funding_method_defs sql_update_def new_funding_row_def
        example_intent_def)
  ultimately show ?thesis by simp
qed

section \<open>The two leases exclude each other\<close>

lemma funding_wins_zero:
  assumes "distinct (map fr_intent_id t)" "sql_get fr_intent_id i t = Some r" "closed r"
    and "\<And>now opn. (now, i, opn) \<in> set ops \<Longrightarrow> Q opn"
    and "\<And>r a. Q (snd a) \<Longrightarrow> closed r \<Longrightarrow> funding_guard a r \<Longrightarrow> \<not> P (snd a)"
    and "\<And>r a. Q (snd a) \<Longrightarrow> closed r \<Longrightarrow> funding_guard a r \<Longrightarrow> closed (funding_rewrite a r)"
  shows "funding_wins P i t ops = 0"
  using assms(1-4)
proof (induction ops arbitrary: t r)
  case (Cons e ops)
  obtain now j opn where e: "e = (now, j, opn)" by (cases e)
  let ?t = "fund.exec t (j, (now, opn))"
  have get: "sql_get fr_intent_id i ?t = Some (if i = j then fund.row_step r (now, opn) else r)"
    using Cons.prems(2) by (simp add: fund.get_exec fund.row_step_def)
  have Q: "i = j \<Longrightarrow> Q opn" using Cons.prems(4) e by auto
  have "closed (if i = j then fund.row_step r (now, opn) else r)"
    using Cons.prems(3) Q assms(6) [of "(now, opn)" r] by (auto simp: fund.row_step_def)
  with get have "funding_wins P i ?t ops = 0"
    by (rule Cons.IH [rotated]) (use Cons.prems in \<open>auto simp: fund.exec_keys e\<close>)
  moreover have "(if j = i \<and> P opn then fund.affected t (j, (now, opn)) else 0) = 0"
    using Cons.prems Q assms(5) [of "(now, opn)" r]
    by (auto simp: fund.affected_def sql_update_key_count)
  ultimately show ?case by (auto simp: e funding_apply_exec split: if_splits)
qed simp

fun is_execution_step :: "funding_op \<Rightarrow> bool" where
  "is_execution_step FundLeaseExecution = True"
| "is_execution_step (FundComplete sg) = True"
| "is_execution_step _ = False"

fun is_refund_step :: "funding_op \<Rightarrow> bool" where
  "is_refund_step FundLeaseRefund = True"
| "is_refund_step (FundRefund sg) = True"
| "is_refund_step _ = False"

lemma funding_win_row:
  assumes "distinct (map fr_intent_id t)" "snd (funding_apply now i opn t) = 1"
  obtains r where "sql_get fr_intent_id i t = Some r" "funding_guard (now, opn) r"
    "sql_get fr_intent_id i (fst (funding_apply now i opn t)) = Some (funding_rewrite (now, opn) r)"
proof -
  have "fund.affected t (i, (now, opn)) = 1" using assms(2) by (simp add: funding_apply_exec)
  then obtain r where "sql_get fr_intent_id i t = Some r" "funding_guard (now, opn) r"
    using fund.affected_iff [OF assms(1), of "(i, (now, opn))"] by auto
  with that show thesis by (simp add: funding_apply_exec fund.get_exec)
qed

text \<open>A refund lease shuts the execution path for good: once \<open>lease_refund_if_expired_or_past\<close>
  has reported a row for an intent, no execution lease and no completion of that intent ever
  reports a row again, whatever operations follow and whatever clock readings they carry.\<close>

theorem refund_lease_excludes_execution:
  assumes "distinct (map fr_intent_id t)"
    and "snd (lease_refund_if_expired_or_past now i t) = 1"
  shows "funding_wins is_execution_step i (fst (lease_refund_if_expired_or_past now i t)) ops = 0"
proof -
  let ?closed = "\<lambda>r. fr_status r \<in> {''refunding'', ''refunded'', ''failed''}"
  have ap: "lease_refund_if_expired_or_past now i t = funding_apply now i FundLeaseRefund t"
    by (simp add: funding_apply.simps)
  from assms obtain r where
    row: "sql_get fr_intent_id i (fst (funding_apply now i FundLeaseRefund t))
            = Some (funding_rewrite (now, FundLeaseRefund) r)"
    unfolding ap by (elim funding_win_row)
  have keep: "\<not> is_execution_step (snd a) \<and> ?closed (funding_rewrite a r)"
    if "?closed r" "funding_guard a r" for r a
    using that by (elim insertE; cases "snd a") (simp_all add: funding_guard_def funding_rewrite_def)
  show ?thesis unfolding ap
    by (rule funding_wins_zero [where closed = ?closed and Q = "\<lambda>_. True", OF _ row])
       (use assms(1) keep in \<open>auto simp: funding_apply_exec fund.exec_keys funding_rewrite_def\<close>)
qed

theorem refund_lease_excludes_execution_witness:
  "funding_wins is_execution_step ''07''
     (fst (lease_refund_if_expired_or_past 180000 ''07''
        [(new_funding_row 1 example_intent)\<lparr>fr_status := ''budget_reserved''\<rparr>]))
     [(1, ''07'', FundLeaseExecution), (2, ''07'', FundComplete ''s'')] = 0"
  by (rule refund_lease_excludes_execution)
     (simp_all add: lease_refund_if_expired_or_past_def sql_update_def new_funding_row_def
        example_intent_def)

text \<open>An execution lease holds the refund path off until it is given back: it is granted only
  strictly before the intent's expiry, and from then on no refund lease and no refund of the intent
  reports a row, however late the clock reads, as long as nobody calls
  \<open>release_execution_lease_to_budget_reserved\<close> on it.\<close>

theorem execution_lease_excludes_refund:
  assumes "distinct (map fr_intent_id t)"
    and "snd (lease_execution_if_budget_reserved now i t) = 1"
    and "\<forall>(now', j, opn) \<in> set ops. j = i \<longrightarrow> (\<forall>e. opn \<noteq> FundReleaseExecution e)"
  shows "(\<exists>r. sql_get fr_intent_id i t = Some r \<and> sint now < sint (fr_expires_at_ms r))
     \<and> funding_wins is_refund_step i (fst (lease_execution_if_budget_reserved now i t)) ops = 0"
proof -
  let ?closed = "\<lambda>r. fr_status r \<in> {''executing'', ''completed'', ''failed''}"
  let ?Q = "\<lambda>opn. \<forall>e. opn \<noteq> FundReleaseExecution e"
  have ap: "lease_execution_if_budget_reserved now i t = funding_apply now i FundLeaseExecution t"
    by (simp add: funding_apply.simps)
  from assms(1,2) obtain r where r: "sql_get fr_intent_id i t = Some r"
      "funding_guard (now, FundLeaseExecution) r"
    and row: "sql_get fr_intent_id i (fst (funding_apply now i FundLeaseExecution t))
            = Some (funding_rewrite (now, FundLeaseExecution) r)"
    unfolding ap by (elim funding_win_row)
  have keep: "\<not> is_refund_step (snd a) \<and> ?closed (funding_rewrite a r)"
    if "?Q (snd a)" "?closed r" "funding_guard a r" for r a
    using that(2,1,3) by (elim insertE; cases "snd a") (simp_all add: funding_guard_def funding_rewrite_def)
  have "funding_wins is_refund_step i (fst (funding_apply now i FundLeaseExecution t)) ops = 0"
    by (rule funding_wins_zero [where closed = ?closed and Q = ?Q, OF _ row])
       (use assms keep in \<open>auto simp: funding_apply_exec fund.exec_keys funding_rewrite_def\<close>)
  with r show ?thesis unfolding ap by (auto simp: funding_guard_def)
qed

theorem execution_lease_excludes_refund_witness:
  "funding_wins is_refund_step ''07''
     (fst (lease_execution_if_budget_reserved 179999 ''07''
        [(new_funding_row 1 example_intent)\<lparr>fr_status := ''budget_reserved''\<rparr>]))
     [(200000, ''07'', FundLeaseRefund), (200001, ''07'', FundRefund ''s'')] = 0"
proof -
  let ?t = "[(new_funding_row 1 example_intent)\<lparr>fr_status := ''budget_reserved''\<rparr>]"
  have 1: "distinct (map fr_intent_id ?t)" by simp
  have 2: "snd (lease_execution_if_budget_reserved 179999 ''07'' ?t) = 1"
    by (simp add: lease_execution_if_budget_reserved_def sql_update_def new_funding_row_def
        example_intent_def)
  have 3: "\<forall>(now', j, opn) \<in> set [(200000 :: i64, ''07'', FundLeaseRefund), (200001, ''07'', FundRefund ''s'')].
      j = ''07'' \<longrightarrow> (\<forall>e. opn \<noteq> FundReleaseExecution e)" by simp
  from execution_lease_excludes_refund [OF 1 2 3] show ?thesis by blast
qed

section \<open>Terminal intents and the stored amount\<close>

text \<open>The funding repository reads back what was inserted, with one boundary: the amount column is a
  signed 64-bit integer, so an intent whose amount is below 2^63 is returned as it was given, in
  status \<open>funding_required\<close> with no signatures, and one whose amount is 2^63 or more is stored but
  can never be read, every \<open>get\<close> failing with an integrity error instead of a wrong amount.\<close>

theorem funding_insert_get:
  assumes "funding_insert now n t = Inr t'"
  shows "funding_get (nfi_intent_id n) t' =
     (if unat (nfi_amount_raw n) < 2 ^ 63
      then Inr (Some
        \<lparr>fi_intent_id = nfi_intent_id n, fi_rule_id_hex = nfi_rule_id_hex n,
         fi_canonical_rule_hash_hex = nfi_canonical_rule_hash_hex n,
         fi_user_wallet = nfi_user_wallet n, fi_user_usdc_ata = nfi_user_usdc_ata n,
         fi_controlled_wallet = nfi_controlled_wallet n,
         fi_controlled_usdc_ata = nfi_controlled_usdc_ata n,
         fi_amount_raw = nfi_amount_raw n, fi_threshold_bps = nfi_threshold_bps n,
         fi_save_display_apy_bps = nfi_save_display_apy_bps n,
         fi_native_onchain_apr_bps = nfi_native_onchain_apr_bps n,
         fi_created_at_ms = nfi_created_at_ms n, fi_expires_at_ms = nfi_expires_at_ms n,
         fi_status = FundingRequired, fi_funding_signature = None,
         fi_funding_finalized_slot = None, fi_execution_signature = None,
         fi_refund_signature = None, fi_last_error = None, fi_updated_at_ms = now\<rparr>)
      else Inl (IntegrityCheckFailed (AmountOutOfRange (nfi_amount_raw n))))"
proof -
  have sign: "0 \<le> sint (nfi_amount_raw n) \<longleftrightarrow> unat (nfi_amount_raw n) < 2 ^ 63"
    by (rule sint_nonneg_iff)
  have [simp]: "ucast (ucast (w :: u32) :: i64) = w" for w
    by (rule bit_word_eqI) (auto simp: bit_unsigned_iff)
  show ?thesis
    using funding_insert_get_row [OF assms] sign
    by (simp add: funding_get_def row_to_intent_def new_funding_row_def funding_status_literals
        ok_or_def)
qed

theorem funding_insert_get_witness:
  "\<exists>i. funding_get ''07'' [new_funding_row 1 example_intent] = Inr (Some i) \<and> fi_amount_raw i = 250000"
proof -
  have 1: "funding_insert 1 example_intent [] = Inr [new_funding_row 1 example_intent]"
    by (simp add: funding_insert_def sql_insert_def)
  have 2: "nfi_intent_id example_intent = ''07''" "unat (nfi_amount_raw example_intent) < 2 ^ 63"
    "nfi_amount_raw example_intent = 250000"
    by (simp_all add: example_intent_def)
  show ?thesis using funding_insert_get [OF 1] 2 by simp
qed

end
