(* ===== verification/Candidate.thy ===== *)
theory Candidate
  imports Watch_Rule
begin

text \<open>
  The executor's admission check, \<open>crates/executor\<close>: the facts (\<open>facts.rs\<close>), the finding codes, the
  report and its classification (\<open>report.rs\<close>), the full-precision rate comparison
  (\<open>condition.rs\<close>), and the two gates of \<open>candidate.rs\<close>, \<open>preflight_candidate\<close> before any chain read and
  \<open>validate_chain\<close> after. Findings accumulate in the order of the code. The lemmas characterise both
  gates exactly: what is let through is what the stated requirements admit.
\<close>

section \<open>Facts\<close>

record clock_snapshot =
  ck_now_ms :: i64
  ck_current_confirmed_slot :: u64

record preflight_clock_snapshot =
  pk_now_ms :: i64
  pk_current_confirmed_slot :: "u64 option"

definition preflight_clocks :: "clock_snapshot \<Rightarrow> preflight_clock_snapshot" where
  "preflight_clocks c =
     \<lparr>pk_now_ms = ck_now_ms c, pk_current_confirmed_slot = Some (ck_current_confirmed_slot c)\<rparr>"

record reserve_facts =
  rf_address :: pubkey_bytes
  rf_account_owner :: pubkey_bytes
  rf_last_update_slot :: u64
  rf_last_update_stale :: bool
  rf_lending_market :: pubkey_bytes
  rf_liquidity_mint :: pubkey_bytes
  rf_liquidity_mint_decimals :: u8
  rf_liquidity_supply :: pubkey_bytes
  rf_pyth_oracle :: pubkey_bytes
  rf_switchboard_oracle :: pubkey_bytes
  rf_collateral_mint :: pubkey_bytes
  rf_collateral_supply :: pubkey_bytes

record obligation_facts =
  of_address :: pubkey_bytes
  of_account_owner :: pubkey_bytes
  of_lending_market :: pubkey_bytes
  of_obligation_owner :: pubkey_bytes

record token_account_facts =
  tf_address :: pubkey_bytes
  tf_account_owner :: pubkey_bytes
  tf_mint :: pubkey_bytes
  tf_token_owner :: pubkey_bytes
  tf_amount_raw :: u64
  tf_initialized :: bool
  tf_frozen :: bool

record derived_accounts =
  da_token_program :: pubkey_bytes
  da_source_liquidity_ata :: pubkey_bytes
  da_collateral_ata :: pubkey_bytes

record chain_facts =
  cf_reserve :: reserve_facts
  cf_obligation :: obligation_facts
  cf_source_liquidity :: "token_account_facts option"
  cf_collateral :: "token_account_facts option"
  cf_derived :: derived_accounts
  cf_native_supply_apr_wad :: u128

section \<open>The rate comparison\<close>

definition bps_wad :: u128 where "bps_wad = 100000000000000"

definition compare_wad :: "u128 \<Rightarrow> comparison \<Rightarrow> u32 \<Rightarrow> bool" where
  "compare_wad observed_wad cmp threshold_bps =
     (let threshold_wad = ucast threshold_bps * bps_wad in
      case cmp of
        CmpLt \<Rightarrow> observed_wad < threshold_wad
      | CmpLte \<Rightarrow> observed_wad \<le> threshold_wad
      | CmpGt \<Rightarrow> threshold_wad < observed_wad
      | CmpGte \<Rightarrow> threshold_wad \<le> observed_wad)"

section \<open>Findings and reports\<close>

datatype candidate_classification =
    ClsReady | ClsOrphanFundingOnly | ClsOrphanRuleOnly | ClsEmptyCandidate
  | ClsUnsupportedAction | ClsUnsupportedRuleEnvelope | ClsUnsupportedCondition
  | ClsHashMismatch | ClsIdentityMismatch | ClsAmountMismatch | ClsWallClockExpired
  | ClsSlotExpired | ClsClockUnavailable | ClsReserveStale | ClsAtaMissing
  | ClsAccountMissing | ClsAccountMismatch | ClsSourceBalanceInsufficient | ClsConditionNotMet

datatype finding_code =
    OrphanFundingOnly | OrphanRuleOnly | EmptyCandidate | UnsupportedAction
  | UnsupportedSchemaVersion | MultiUseRule | UsedAmountNonZero | ThresholdOutOfRange
  | ControlledWalletEnvelopeMismatch | UnsupportedConditionShape | UnsupportedFormulaVersion
  | UnsupportedRateKind | RefreshNotRequired | ConditionActionMismatch
  | ConditionFundingMismatch | ControlledWalletMismatch | RuleIdMismatch
  | CanonicalHashMismatch | AmountMismatch | AmountZero | WallClockExpired | SlotExpired
  | ConfirmedSlotUnavailable | ReserveExplicitlyStale | ReserveSlotAhead | ReserveTooOld
  | AccountMissing | AtaMissing | ReserveIdentityMismatch | ObligationIdentityMismatch
  | SourceAtaMismatch | SourceTokenMismatch | SourceBalanceInsufficient
  | CollateralAtaMismatch | CollateralTokenMismatch | UnsupportedMintDecimals
  | UnsupportedSolendProgram | UnsupportedInputMint | UnsupportedTokenProgram | ConditionNotMet

record candidate_finding =
  cfg_code :: finding_code
  cfg_detail :: string

definition finding :: "finding_code \<Rightarrow> string \<Rightarrow> candidate_finding" where
  "finding code detail = \<lparr>cfg_code = code, cfg_detail = detail\<rparr>"

record clock_report =
  kr_now_ms :: i64
  kr_funding_expires_at_ms :: "i64 option"
  kr_wall_clock_eligible :: "bool option"
  kr_current_confirmed_slot :: "u64 option"
  kr_rule_expires_at_slot :: "u64 option"
  kr_slot_clock_eligible :: "bool option"
  kr_reserve_last_update_slot :: "u64 option"
  kr_reserve_age_slots :: "u64 option"
  kr_max_reserve_staleness_slots :: "u32 option"

record amount_report =
  am_action_input_amount_raw :: "string option"
  am_rule_max_input_amount_raw :: "string option"
  am_funding_amount_raw :: "string option"
  am_all_equal_and_nonzero :: bool

record condition_report =
  cr_comparison :: string
  cr_threshold_bps :: u32
  cr_threshold_wad :: string
  cr_observed_apr_wad :: "string option"
  cr_observed_apr_floor_bps :: "string option"
  cr_met :: "bool option"

record candidate_report =
  cd_classification :: candidate_classification
  cd_intent_id :: "string option"
  cd_rule_id_hex :: "string option"
  cd_findings :: "candidate_finding list"
  cd_clocks :: clock_report
  cd_amounts :: "amount_report option"
  cd_condition :: "condition_report option"

definition bare_report ::
    "candidate_classification \<Rightarrow> candidate_finding list \<Rightarrow> i64 \<Rightarrow> u64 option \<Rightarrow> candidate_report" where
  "bare_report cls findings now_ms current_confirmed_slot =
     \<lparr>cd_classification = cls, cd_intent_id = None, cd_rule_id_hex = None, cd_findings = findings,
      cd_clocks =
        \<lparr>kr_now_ms = now_ms, kr_funding_expires_at_ms = None, kr_wall_clock_eligible = None,
         kr_current_confirmed_slot = current_confirmed_slot, kr_rule_expires_at_slot = None,
         kr_slot_clock_eligible = None, kr_reserve_last_update_slot = None,
         kr_reserve_age_slots = None, kr_max_reserve_staleness_slots = None\<rparr>,
      cd_amounts = None, cd_condition = None\<rparr>"

definition has_code :: "candidate_finding list \<Rightarrow> finding_code \<Rightarrow> bool" where
  "has_code findings needle = (\<exists>f \<in> set findings. cfg_code f = needle)"

definition has_any_code :: "candidate_finding list \<Rightarrow> finding_code list \<Rightarrow> bool" where
  "has_any_code findings codes = (\<exists>f \<in> set findings. cfg_code f \<in> set codes)"

definition primary_classification :: "candidate_finding list \<Rightarrow> candidate_classification" where
  "primary_classification findings =
     (if has_code findings OrphanFundingOnly then ClsOrphanFundingOnly
      else if has_code findings OrphanRuleOnly then ClsOrphanRuleOnly
      else if has_code findings EmptyCandidate then ClsEmptyCandidate
      else if has_code findings UnsupportedAction then ClsUnsupportedAction
      else if has_any_code findings
          [UnsupportedSchemaVersion, MultiUseRule, UsedAmountNonZero, ThresholdOutOfRange,
           ControlledWalletEnvelopeMismatch, UnsupportedSolendProgram, UnsupportedInputMint]
        then ClsUnsupportedRuleEnvelope
      else if has_any_code findings
          [UnsupportedConditionShape, UnsupportedFormulaVersion, UnsupportedRateKind,
           RefreshNotRequired]
        then ClsUnsupportedCondition
      else if has_code findings CanonicalHashMismatch then ClsHashMismatch
      else if has_any_code findings
          [RuleIdMismatch, ConditionActionMismatch, ConditionFundingMismatch,
           ControlledWalletMismatch]
        then ClsIdentityMismatch
      else if has_any_code findings [AmountMismatch, AmountZero] then ClsAmountMismatch
      else if has_code findings WallClockExpired then ClsWallClockExpired
      else if has_code findings SlotExpired then ClsSlotExpired
      else if has_code findings ConfirmedSlotUnavailable then ClsClockUnavailable
      else if has_any_code findings [ReserveExplicitlyStale, ReserveSlotAhead, ReserveTooOld]
        then ClsReserveStale
      else if has_code findings AtaMissing then ClsAtaMissing
      else if has_code findings AccountMissing then ClsAccountMissing
      else if has_any_code findings
          [ReserveIdentityMismatch, ObligationIdentityMismatch, SourceAtaMismatch,
           SourceTokenMismatch, CollateralAtaMismatch, CollateralTokenMismatch,
           UnsupportedMintDecimals, UnsupportedTokenProgram]
        then ClsAccountMismatch
      else if has_code findings SourceBalanceInsufficient then ClsSourceBalanceInsufficient
      else if has_code findings ConditionNotMet then ClsConditionNotMet
      else ClsReady)"

definition set_classification_from_findings :: "candidate_report \<Rightarrow> candidate_report" where
  "set_classification_from_findings r =
     r\<lparr>cd_classification := primary_classification (cd_findings r)\<rparr>"

section \<open>Candidates\<close>

definition supported_formula_version :: u8 where "supported_formula_version = 1"
definition required_max_reserve_staleness_slots :: u32 where
  "required_max_reserve_staleness_slots = 16"
definition required_liquidity_mint_decimals :: u8 where "required_liquidity_mint_decimals = 6"
definition max_supported_threshold_bps :: u32 where "max_supported_threshold_bps = 10000"

definition audited_solend_program :: "crypto \<Rightarrow> pubkey_bytes" where
  "audited_solend_program C = pinned_pubkey C ''So1endDq2YkqhipRh3WViPa8hdiSpxWy6z3Z6tMCpAo''"

definition classic_token_program :: "crypto \<Rightarrow> pubkey_bytes" where
  "classic_token_program C = pinned_pubkey C ''TokenkegQfeZyiNwAJbNbGKPFXCWuBvf9Ss623VQ5DA''"

definition usdc_mint :: "crypto \<Rightarrow> pubkey_bytes" where
  "usdc_mint C = pinned_pubkey C ''EPjFWdd5AufqSSqeM2qN1xzybapC8G4wEGGkZwyTDt1v''"

record funding_snapshot =
  fs_intent_id :: string
  fs_rule_id_hex :: string
  fs_canonical_rule_hash_hex :: string
  fs_controlled_wallet :: pubkey_bytes
  fs_controlled_usdc_ata :: pubkey_bytes
  fs_amount_raw :: u64
  fs_threshold_bps :: u32
  fs_expires_at_ms :: i64

record candidate_input =
  cin_funding :: "funding_snapshot option"
  cin_rule :: "watch_rule option"

record canonical_deposit_action =
  ca_target_obligation :: pubkey_bytes
  ca_reserve_pubkey :: pubkey_bytes
  ca_lending_market :: pubkey_bytes
  ca_solend_program_id :: pubkey_bytes
  ca_input_mint :: pubkey_bytes
  ca_input_amount_raw :: u64

record supported_rate_condition =
  sc_comparison :: comparison
  sc_threshold_bps :: u32
  sc_max_reserve_staleness_slots :: u32

record prepared_deposit =
  pd_funding :: funding_snapshot
  pd_delegated_wallet :: pubkey_bytes
  pd_action :: canonical_deposit_action
  pd_condition :: supported_rate_condition
  pd_report :: candidate_report

record plan_read_request =
  prr_reserve_pubkey :: pubkey_bytes
  prr_target_obligation :: pubkey_bytes
  prr_input_mint :: pubkey_bytes
  prr_delegated_wallet :: pubkey_bytes
  prr_source_liquidity_ata :: pubkey_bytes

definition read_request :: "prepared_deposit \<Rightarrow> plan_read_request" where
  "read_request p =
     \<lparr>prr_reserve_pubkey = ca_reserve_pubkey (pd_action p),
      prr_target_obligation = ca_target_obligation (pd_action p),
      prr_input_mint = ca_input_mint (pd_action p),
      prr_delegated_wallet = pd_delegated_wallet p,
      prr_source_liquidity_ata = fs_controlled_usdc_ata (pd_funding p)\<rparr>"

datatype preflight_outcome = PreflightBlocked candidate_report | NeedsChain prepared_deposit

record validated_plan_inputs =
  vi_solend_program_id :: pubkey_bytes
  vi_input_mint :: pubkey_bytes
  vi_input_amount_raw :: u64
  vi_source_liquidity :: pubkey_bytes
  vi_user_collateral :: pubkey_bytes
  vi_reserve :: pubkey_bytes
  vi_reserve_liquidity_supply :: pubkey_bytes
  vi_reserve_collateral_mint :: pubkey_bytes
  vi_lending_market :: pubkey_bytes
  vi_destination_deposit_collateral :: pubkey_bytes
  vi_obligation :: pubkey_bytes
  vi_obligation_owner :: pubkey_bytes
  vi_pyth_oracle :: pubkey_bytes
  vi_switchboard_oracle :: pubkey_bytes
  vi_user_transfer_authority :: pubkey_bytes
  vi_token_program :: pubkey_bytes
  vi_report :: candidate_report

datatype chain_outcome = ChainBlocked candidate_report | ChainReady validated_plan_inputs

fun comparison_label :: "comparison \<Rightarrow> string" where
  "comparison_label CmpLt = ''lt''"
| "comparison_label CmpLte = ''lte''"
| "comparison_label CmpGt = ''gt''"
| "comparison_label CmpGte = ''gte''"

text \<open>\<open>if c { findings.push(..) }\<close>.\<close>

definition flag :: "bool \<Rightarrow> finding_code \<Rightarrow> string \<Rightarrow> candidate_finding list" where
  "flag c code detail = (if c then [finding code detail] else [])"

text \<open>The findings passed in are those pushed so far; the result carries them and the new ones.\<close>

definition supported_condition ::
    "watch_rule \<Rightarrow> canonical_deposit_action \<Rightarrow> candidate_finding list \<Rightarrow>
     supported_rate_condition option \<times> candidate_finding list" where
  "supported_condition rule action findings =
     (if wr_condition_logic rule \<noteq> LogicAll \<or> length (wr_conditions rule) \<noteq> 1
      then (None, findings @ [finding UnsupportedConditionShape
              ''dry-run supports exactly one ALL-combined Solend reserve-rate condition''])
      else case wr_conditions rule ! 0 of
        PythPrice _ \<Rightarrow>
          (None, findings @ [finding UnsupportedConditionShape
              ''dry-run supports only SolendReserveSupplyRate''])
      | SolendReserveSupplyRate c \<Rightarrow>
          (let findings = findings
             @ flag (sr_reserve_pubkey c \<noteq> ca_reserve_pubkey action
                     \<or> sr_lending_market c \<noteq> ca_lending_market action
                     \<or> sr_solend_program_id c \<noteq> ca_solend_program_id action)
                 ConditionActionMismatch
                 ''condition reserve, market, or program differs from the canonical action''
             @ flag (sr_rate_kind c \<noteq> RateApr) UnsupportedRateKind
                 ''only the native Solend APR condition is supported''
             @ flag (sr_formula_version c \<noteq> supported_formula_version) UnsupportedFormulaVersion
                 ''condition formula_version is not the reviewed WAD formula v1''
             @ flag (sr_max_reserve_staleness_slots c \<noteq> required_max_reserve_staleness_slots)
                 UnsupportedConditionShape
                 ''max_reserve_staleness_slots must equal the reviewed value 16''
             @ flag (\<not> sr_required_refresh_same_tx c) RefreshNotRequired
                 ''canonical deposit must require RefreshReserve in the same transaction''
           in if has_any_code findings
                  [UnsupportedConditionShape, UnsupportedFormulaVersion, UnsupportedRateKind,
                   RefreshNotRequired, ConditionActionMismatch]
              then (None, findings)
              else (Some \<lparr>sc_comparison = sr_comparison c, sc_threshold_bps = sr_threshold_bps c,
                          sc_max_reserve_staleness_slots = sr_max_reserve_staleness_slots c\<rparr>,
                    findings)))"

section \<open>Before the chain is read\<close>

definition orphan_funding_report :: "preflight_clock_snapshot \<Rightarrow> funding_snapshot \<Rightarrow> candidate_report" where
  "orphan_funding_report clocks funding =
     (bare_report ClsOrphanFundingOnly
        [finding OrphanFundingOnly ''budget_reserved funding row has no corresponding WatchRule'']
        (pk_now_ms clocks) (pk_current_confirmed_slot clocks))
     \<lparr>cd_intent_id := Some (fs_intent_id funding), cd_rule_id_hex := Some (fs_rule_id_hex funding)\<rparr>"

definition orphan_rule_report ::
    "crypto \<Rightarrow> preflight_clock_snapshot \<Rightarrow> watch_rule \<Rightarrow> candidate_report" where
  "orphan_rule_report C clocks rule =
     (bare_report ClsOrphanRuleOnly
        [finding OrphanRuleOnly ''WatchRule has no corresponding funding row'']
        (pk_now_ms clocks) (pk_current_confirmed_slot clocks))
     \<lparr>cd_rule_id_hex := Some (hex_lower C (wr_rule_id rule))\<rparr>"

definition deposit_action :: "solend_deposit_action \<Rightarrow> canonical_deposit_action" where
  "deposit_action d =
     \<lparr>ca_target_obligation = sd_target_obligation d, ca_reserve_pubkey = sd_reserve_pubkey d,
      ca_lending_market = sd_lending_market d, ca_solend_program_id = sd_solend_program_id d,
      ca_input_mint = sd_input_mint d, ca_input_amount_raw = sd_input_amount_raw d\<rparr>"

fun canonical_deposit_of :: "action_spec \<Rightarrow> canonical_deposit_action option" where
  "canonical_deposit_of (SolendDeposit d) = Some (deposit_action d)"
| "canonical_deposit_of _ = None"

definition option_holds :: "('a \<Rightarrow> bool) \<Rightarrow> 'a option \<Rightarrow> bool" where
  "option_holds P x = (case x of None \<Rightarrow> False | Some a \<Rightarrow> P a)"

definition amounts_equal ::
    "funding_snapshot \<Rightarrow> watch_rule \<Rightarrow> canonical_deposit_action option \<Rightarrow> bool" where
  "amounts_equal funding rule action =
     option_holds (\<lambda>a. ca_input_amount_raw a = wr_max_input_amount_raw rule
                      \<and> wr_max_input_amount_raw rule = fs_amount_raw funding) action"

text \<open>The findings pushed before the condition is looked at.\<close>

definition preflight_findings ::
    "crypto \<Rightarrow> preflight_clock_snapshot \<Rightarrow> funding_snapshot \<Rightarrow> watch_rule \<Rightarrow> candidate_finding list" where
  "preflight_findings C clocks funding rule =
     (let rid = hex_lower C (wr_rule_id rule);
          hash = hex_lower C (canonical_rule_hash C rule);
          action = canonical_deposit_of (wr_action rule) in
      flag (wr_schema_version rule \<noteq> stage2_watch_rule_schema_v2) UnsupportedSchemaVersion
        ''dry-run supports only canonical WatchRule schema v2''
    @ flag (\<not> wr_one_shot rule) MultiUseRule ''dry-run supports one-shot rules only''
    @ flag (wr_used_amount_raw rule \<noteq> 0) UsedAmountNonZero
        ''a dry-run candidate must have used_amount_raw == 0''
    @ flag (wr_executor rule \<noteq> wr_delegated_wallet rule
            \<or> wr_destination rule \<noteq> wr_delegated_wallet rule) ControlledWalletEnvelopeMismatch
        ''executor and destination must equal the fingerprint-bound delegated wallet''
    @ flag (fs_intent_id funding \<noteq> rid \<or> fs_rule_id_hex funding \<noteq> rid) RuleIdMismatch
        ''funding intent/rule id is not the exact canonical lowercase rule id''
    @ flag (fs_canonical_rule_hash_hex funding \<noteq> hash) CanonicalHashMismatch
        ''funding canonical_rule_hash_hex is not the exact recomputed lowercase hash''
    @ flag (fs_controlled_wallet funding \<noteq> wr_delegated_wallet rule) ControlledWalletMismatch
        ''funding controlled wallet differs from the fingerprint-bound delegated wallet''
    @ flag (action = None) UnsupportedAction
        ''WatchRule action is not ActionSpec::SolendDeposit''
    @ flag (action \<noteq> None \<and> \<not> amounts_equal funding rule action) AmountMismatch
        ''action, WatchRule maximum, and funding amounts are not exactly equal''
    @ flag (action \<noteq> None
            \<and> (option_holds (\<lambda>a. ca_input_amount_raw a = 0) action
               \<or> wr_max_input_amount_raw rule = 0 \<or> fs_amount_raw funding = 0)) AmountZero
        ''deposit amount must be non-zero''
    @ flag (option_holds (\<lambda>a. ca_solend_program_id a \<noteq> audited_solend_program C) action)
        UnsupportedSolendProgram
        ''canonical action does not pin the audited mainnet Solend program''
    @ flag (option_holds (\<lambda>a. ca_input_mint a \<noteq> usdc_mint C) action) UnsupportedInputMint
        ''canonical action input mint is not mainnet USDC''
    @ flag (\<not> sint (pk_now_ms clocks) < sint (fs_expires_at_ms funding)) WallClockExpired
        ''now_ms is at or beyond funding.expires_at_ms''
    @ flag (option_holds (\<lambda>slot. \<not> slot < wr_expires_at_slot rule) (pk_current_confirmed_slot clocks))
        SlotExpired ''current_confirmed_slot is at or beyond WatchRule.expires_at_slot''
    @ flag (pk_current_confirmed_slot clocks = None) ConfirmedSlotUnavailable
        ''confirmed slot is unavailable; candidate cannot advance to account reads'')"

definition condition_findings ::
    "funding_snapshot \<Rightarrow> supported_rate_condition option \<Rightarrow> candidate_finding list" where
  "condition_findings funding condition =
     flag (option_holds (\<lambda>c. sc_threshold_bps c \<noteq> fs_threshold_bps funding) condition)
       ConditionFundingMismatch
       ''funding threshold differs from the fingerprint-bound condition threshold''
   @ flag (option_holds (\<lambda>c. \<not> (1 \<le> sc_threshold_bps c
                              \<and> sc_threshold_bps c \<le> max_supported_threshold_bps)) condition)
       ThresholdOutOfRange
       ''threshold_bps must be in the inclusive supported range 1..=10000''"

definition condition_report_of :: "supported_rate_condition \<Rightarrow> condition_report" where
  "condition_report_of c =
     \<lparr>cr_comparison = comparison_label (sc_comparison c), cr_threshold_bps = sc_threshold_bps c,
      cr_threshold_wad = decimal (unat (ucast (sc_threshold_bps c) * bps_wad :: u128)),
      cr_observed_apr_wad = None, cr_observed_apr_floor_bps = None, cr_met = None\<rparr>"

definition preflight_report ::
    "crypto \<Rightarrow> preflight_clock_snapshot \<Rightarrow> funding_snapshot \<Rightarrow> watch_rule \<Rightarrow>
     supported_rate_condition option \<Rightarrow> candidate_finding list \<Rightarrow> candidate_report" where
  "preflight_report C clocks funding rule condition findings =
     (let action = canonical_deposit_of (wr_action rule) in
      \<lparr>cd_classification = primary_classification findings,
       cd_intent_id = Some (fs_intent_id funding),
       cd_rule_id_hex = Some (hex_lower C (wr_rule_id rule)),
       cd_findings = findings,
       cd_clocks =
         \<lparr>kr_now_ms = pk_now_ms clocks,
          kr_funding_expires_at_ms = Some (fs_expires_at_ms funding),
          kr_wall_clock_eligible = Some (sint (pk_now_ms clocks) < sint (fs_expires_at_ms funding)),
          kr_current_confirmed_slot = pk_current_confirmed_slot clocks,
          kr_rule_expires_at_slot = Some (wr_expires_at_slot rule),
          kr_slot_clock_eligible =
            map_option (\<lambda>slot. slot < wr_expires_at_slot rule) (pk_current_confirmed_slot clocks),
          kr_reserve_last_update_slot = None, kr_reserve_age_slots = None,
          kr_max_reserve_staleness_slots =
            map_option sc_max_reserve_staleness_slots condition\<rparr>,
       cd_amounts = Some
         \<lparr>am_action_input_amount_raw =
            map_option (\<lambda>a. decimal (unat (ca_input_amount_raw a))) action,
          am_rule_max_input_amount_raw = Some (decimal (unat (wr_max_input_amount_raw rule))),
          am_funding_amount_raw = Some (decimal (unat (fs_amount_raw funding))),
          am_all_equal_and_nonzero =
            (amounts_equal funding rule action \<and> fs_amount_raw funding \<noteq> 0)\<rparr>,
       cd_condition = map_option condition_report_of condition\<rparr>)"

definition preflight_pair ::
    "crypto \<Rightarrow> preflight_clock_snapshot \<Rightarrow> funding_snapshot \<Rightarrow> watch_rule \<Rightarrow> preflight_outcome" where
  "preflight_pair C clocks funding rule =
     (let action = canonical_deposit_of (wr_action rule);
          findings = preflight_findings C clocks funding rule;
          (condition, findings) =
            (case action of None \<Rightarrow> (None, findings)
             | Some a \<Rightarrow> supported_condition rule a findings);
          findings = findings @ condition_findings funding condition;
          report = preflight_report C clocks funding rule condition findings
      in case (findings = [], action, condition) of
           (True, Some a, Some c) \<Rightarrow>
             NeedsChain \<lparr>pd_funding = funding, pd_delegated_wallet = wr_delegated_wallet rule,
                         pd_action = a, pd_condition = c, pd_report = report\<rparr>
         | _ \<Rightarrow> PreflightBlocked report)"

fun preflight_candidate ::
    "crypto \<Rightarrow> candidate_input \<Rightarrow> preflight_clock_snapshot \<Rightarrow> preflight_outcome" where
  "preflight_candidate C inp clocks =
     (case (cin_funding inp, cin_rule inp) of
        (Some funding, Some rule) \<Rightarrow> preflight_pair C clocks funding rule
      | (Some funding, None) \<Rightarrow> PreflightBlocked (orphan_funding_report clocks funding)
      | (None, Some rule) \<Rightarrow> PreflightBlocked (orphan_rule_report C clocks rule)
      | (None, None) \<Rightarrow>
          PreflightBlocked (bare_report ClsEmptyCandidate
            [finding EmptyCandidate ''candidate contains neither a funding row nor a WatchRule'']
            (pk_now_ms clocks) (pk_current_confirmed_slot clocks)))"

section \<open>After the chain is read\<close>

definition source_findings ::
    "pubkey_bytes \<Rightarrow> canonical_deposit_action \<Rightarrow> derived_accounts \<Rightarrow> token_account_facts option \<Rightarrow>
     candidate_finding list" where
  "source_findings wallet action derived source_liquidity =
     (case source_liquidity of
        None \<Rightarrow> [finding AccountMissing ''source liquidity token account is missing'']
      | Some source \<Rightarrow>
          flag (tf_address source \<noteq> da_source_liquidity_ata derived) SourceAtaMismatch
            ''source token account address differs from the derived ATA''
        @ flag (tf_account_owner source \<noteq> da_token_program derived
                \<or> tf_mint source \<noteq> ca_input_mint action \<or> tf_token_owner source \<noteq> wallet
                \<or> \<not> tf_initialized source \<or> tf_frozen source) SourceTokenMismatch
            ''source token account program, mint, authority, or state is invalid''
        @ flag (tf_amount_raw source < ca_input_amount_raw action) SourceBalanceInsufficient
            ''source token account balance is smaller than the canonical deposit amount'')"

definition collateral_findings ::
    "pubkey_bytes \<Rightarrow> reserve_facts \<Rightarrow> derived_accounts \<Rightarrow> token_account_facts option \<Rightarrow>
     candidate_finding list" where
  "collateral_findings wallet reserve derived collateral =
     (case collateral of
        None \<Rightarrow> [finding AtaMissing
          ''controlled-wallet collateral ATA does not exist; dry-run never creates it'']
      | Some c \<Rightarrow>
          flag (tf_address c \<noteq> da_collateral_ata derived) CollateralAtaMismatch
            ''collateral token account address differs from the derived ATA''
        @ flag (tf_account_owner c \<noteq> da_token_program derived
                \<or> tf_mint c \<noteq> rf_collateral_mint reserve \<or> tf_token_owner c \<noteq> wallet
                \<or> \<not> tf_initialized c \<or> tf_frozen c) CollateralTokenMismatch
            ''collateral token account program, mint, authority, or state is invalid'')"

definition reserve_age :: "reserve_facts \<Rightarrow> clock_snapshot \<Rightarrow> u64 option" where
  "reserve_age reserve clocks =
     (if rf_last_update_slot reserve \<le> ck_current_confirmed_slot clocks
      then Some (saturating_sub (ck_current_confirmed_slot clocks) (rf_last_update_slot reserve))
      else None)"

text \<open>The findings of the chain gate up to the rate condition, after those the report carried.\<close>

definition chain_findings ::
    "crypto \<Rightarrow> prepared_deposit \<Rightarrow> i64 \<Rightarrow> u64 \<Rightarrow> chain_facts \<Rightarrow> clock_snapshot \<Rightarrow>
     candidate_finding list" where
  "chain_findings C prepared funding_expires_at_ms rule_expires_at_slot facts clocks =
     (let action = pd_action prepared; wallet = pd_delegated_wallet prepared;
          reserve = cf_reserve facts; obl = cf_obligation facts; derived = cf_derived facts in
      cd_findings (pd_report prepared)
    @ flag (\<not> sint (ck_now_ms clocks) < sint funding_expires_at_ms) WallClockExpired
        ''final now_ms is at or beyond funding.expires_at_ms''
    @ flag (\<not> ck_current_confirmed_slot clocks < rule_expires_at_slot) SlotExpired
        ''final confirmed slot is at or beyond WatchRule.expires_at_slot''
    @ flag (rf_address reserve \<noteq> ca_reserve_pubkey action
            \<or> rf_account_owner reserve \<noteq> ca_solend_program_id action
            \<or> rf_lending_market reserve \<noteq> ca_lending_market action
            \<or> rf_liquidity_mint reserve \<noteq> ca_input_mint action) ReserveIdentityMismatch
        ''decoded reserve identity differs from the fingerprint-bound action''
    @ flag (rf_liquidity_mint_decimals reserve \<noteq> required_liquidity_mint_decimals)
        UnsupportedMintDecimals
        ''the reviewed USDC rail requires reserve liquidity decimals == 6''
    @ flag (of_address obl \<noteq> ca_target_obligation action
            \<or> of_account_owner obl \<noteq> ca_solend_program_id action
            \<or> of_lending_market obl \<noteq> ca_lending_market action
            \<or> of_obligation_owner obl \<noteq> wallet) ObligationIdentityMismatch
        ''decoded obligation identity, market, or owner does not match the rule''
    @ flag (da_source_liquidity_ata derived \<noteq> fs_controlled_usdc_ata (pd_funding prepared))
        SourceAtaMismatch ''derived source ATA differs from the funding row''
    @ flag (da_token_program derived \<noteq> classic_token_program C) UnsupportedTokenProgram
        ''derived token program is not the pinned classic SPL Token program''
    @ source_findings wallet action derived (cf_source_liquidity facts)
    @ collateral_findings wallet reserve derived (cf_collateral facts)
    @ flag (reserve_age reserve clocks = None) ReserveSlotAhead
        ''reserve last_update_slot is newer than the confirmed-slot observation''
    @ flag (rf_last_update_stale reserve) ReserveExplicitlyStale
        ''reserve LastUpdate stale flag is set''
    @ flag (option_holds (\<lambda>age. ucast (sc_max_reserve_staleness_slots (pd_condition prepared)) < age)
              (reserve_age reserve clocks)) ReserveTooOld
        ''reserve age exceeds max_reserve_staleness_slots'')"

definition chain_condition_met ::
    "prepared_deposit \<Rightarrow> chain_facts \<Rightarrow> candidate_finding list \<Rightarrow> bool option" where
  "chain_condition_met prepared facts findings =
     (if \<not> has_any_code findings
            [ReserveIdentityMismatch, UnsupportedMintDecimals, ReserveExplicitlyStale,
             ReserveSlotAhead, ReserveTooOld]
      then Some (compare_wad (cf_native_supply_apr_wad facts)
             (sc_comparison (pd_condition prepared)) (sc_threshold_bps (pd_condition prepared)))
      else None)"

definition chain_report ::
    "prepared_deposit \<Rightarrow> i64 \<Rightarrow> u64 \<Rightarrow> chain_facts \<Rightarrow> clock_snapshot \<Rightarrow> candidate_finding list \<Rightarrow>
     bool option \<Rightarrow> candidate_report" where
  "chain_report prepared funding_expires_at_ms rule_expires_at_slot facts clocks findings met =
     (let report = pd_report prepared;
          clk = (cd_clocks report)
            \<lparr>kr_now_ms := ck_now_ms clocks,
             kr_wall_clock_eligible := Some (sint (ck_now_ms clocks) < sint funding_expires_at_ms),
             kr_current_confirmed_slot := Some (ck_current_confirmed_slot clocks),
             kr_slot_clock_eligible := Some (ck_current_confirmed_slot clocks < rule_expires_at_slot),
             kr_reserve_last_update_slot := Some (rf_last_update_slot (cf_reserve facts)),
             kr_reserve_age_slots := reserve_age (cf_reserve facts) clocks\<rparr>;
          cond = (case (cd_condition report, met) of
             (Some c, Some m) \<Rightarrow> Some (c
               \<lparr>cr_observed_apr_wad := Some (decimal (unat (cf_native_supply_apr_wad facts))),
                cr_observed_apr_floor_bps :=
                  Some (decimal (unat (cf_native_supply_apr_wad facts div bps_wad))),
                cr_met := Some m\<rparr>)
           | _ \<Rightarrow> cd_condition report)
      in set_classification_from_findings
           (report\<lparr>cd_findings := findings, cd_clocks := clk, cd_condition := cond\<rparr>))"

text \<open>\<open>None\<close> is the panic of the two \<open>expect\<close>s, which a prepared candidate never meets.\<close>

definition validate_chain ::
    "crypto \<Rightarrow> prepared_deposit \<Rightarrow> chain_facts \<Rightarrow> clock_snapshot \<Rightarrow> chain_outcome option" where
  "validate_chain C prepared facts final_clocks =
     (case (kr_funding_expires_at_ms (cd_clocks (pd_report prepared)),
            kr_rule_expires_at_slot (cd_clocks (pd_report prepared))) of
        (Some fexp, Some rexp) \<Rightarrow>
          (let action = pd_action prepared; wallet = pd_delegated_wallet prepared;
               reserve = cf_reserve facts; derived = cf_derived facts;
               findings = chain_findings C prepared fexp rexp facts final_clocks;
               met = chain_condition_met prepared facts findings;
               findings = findings
                 @ flag (met = Some False) ConditionNotMet
                     ''full-precision native supply APR does not satisfy the canonical condition'';
               report = chain_report prepared fexp rexp facts final_clocks findings met
           in Some (if findings \<noteq> [] then ChainBlocked report
              else ChainReady
                \<lparr>vi_solend_program_id = ca_solend_program_id action,
                 vi_input_mint = ca_input_mint action,
                 vi_input_amount_raw = ca_input_amount_raw action,
                 vi_source_liquidity = da_source_liquidity_ata derived,
                 vi_user_collateral = da_collateral_ata derived,
                 vi_reserve = ca_reserve_pubkey action,
                 vi_reserve_liquidity_supply = rf_liquidity_supply reserve,
                 vi_reserve_collateral_mint = rf_collateral_mint reserve,
                 vi_lending_market = ca_lending_market action,
                 vi_destination_deposit_collateral = rf_collateral_supply reserve,
                 vi_obligation = ca_target_obligation action, vi_obligation_owner = wallet,
                 vi_pyth_oracle = rf_pyth_oracle reserve,
                 vi_switchboard_oracle = rf_switchboard_oracle reserve,
                 vi_user_transfer_authority = wallet,
                 vi_token_program = da_token_program derived, vi_report = report\<rparr>))
      | _ \<Rightarrow> None)"

section \<open>Classification\<close>

lemma flag_Nil [simp]: "flag c code d = [] \<longleftrightarrow> \<not> c"
  by (simp add: flag_def)

lemma flag_False [simp]: "flag False code d = []"
  by (simp add: flag_def)

lemma has_code_Nil [simp]: "\<not> has_code [] c" "\<not> has_any_code [] cs"
  by (simp_all add: has_code_def has_any_code_def)

lemma if_classification_Ready:
  "cls \<noteq> ClsReady \<Longrightarrow> (if c then cls else rest) = ClsReady \<longleftrightarrow> \<not> c \<and> rest = ClsReady"
  by simp

lemma primary_classification_Ready:
  "primary_classification findings = ClsReady \<longleftrightarrow>
     findings = []"
proof
  assume ready: "primary_classification findings = ClsReady"
  show "findings = []"
  proof (rule ccontr)
    assume "findings \<noteq> []"
    then obtain f where f: "f \<in> set findings" by (cases findings) auto
    then have code: "has_code findings (cfg_code f)"
      and any: "cfg_code f \<in> set cs \<Longrightarrow> has_any_code findings cs" for cs
      by (auto simp: has_code_def has_any_code_def)
    note none = ready [unfolded primary_classification_def,       simplified if_classification_Ready candidate_classification.distinct simp_thms]
    show False
      using none code any by (cases "cfg_code f") simp_all
  qed
qed (simp add: primary_classification_def)

lemma compare_wad_nat:
  "compare_wad w cmp t \<longleftrightarrow>
     (let obs = unat w; thr = unat t * 10 ^ 14 in
      case cmp of CmpLt \<Rightarrow> obs < thr | CmpLte \<Rightarrow> obs \<le> thr | CmpGt \<Rightarrow> thr < obs | CmpGte \<Rightarrow> thr \<le> obs)"
proof -
  have "unat t < 2 ^ 32" using unat_less_exp [of t] by simp
  then have "unat (ucast t * bps_wad :: u128) = unat t * 10 ^ 14"
    by (simp add: unat_mult_no_wrap unat_ucast_up bps_wad_def)
  then show ?thesis
    by (cases cmp) (simp_all add: compare_wad_def Let_def word_less_nat_alt word_le_nat_alt)
qed

text \<open>The rate comparison is exact: with the threshold scaled by 10^14 the 128-bit product never
  wraps, so the decision is the comparison of the true values, with no rounding to basis points.\<close>

theorem compare_wad_exact:
  "compare_wad observed_wad cmp threshold_bps =
     (let obs = unat observed_wad; thr = unat threshold_bps * 10 ^ 14 in
      case cmp of CmpLt \<Rightarrow> obs < thr | CmpLte \<Rightarrow> obs \<le> thr | CmpGt \<Rightarrow> thr < obs | CmpGte \<Rightarrow> thr \<le> obs)"
  by (rule compare_wad_nat)

section \<open>What the gates admit\<close>

text \<open>
  The requirements in their own terms: the rule's envelope and action, its pairing with the funding
  row, its condition, and the two deadlines.
\<close>

definition envelope_ok :: "crypto \<Rightarrow> watch_rule \<Rightarrow> solend_deposit_action \<Rightarrow> bool" where
  "envelope_ok C rule d \<longleftrightarrow>
     wr_schema_version rule = 2 \<and> wr_one_shot rule \<and> wr_used_amount_raw rule = 0
   \<and> wr_executor rule = wr_delegated_wallet rule \<and> wr_destination rule = wr_delegated_wallet rule
   \<and> wr_action rule = SolendDeposit d
   \<and> sd_solend_program_id d = audited_solend_program C \<and> sd_input_mint d = usdc_mint C"

definition funded_by :: "crypto \<Rightarrow> funding_snapshot \<Rightarrow> watch_rule \<Rightarrow> solend_deposit_action \<Rightarrow> bool" where
  "funded_by C funding rule d \<longleftrightarrow>
     fs_intent_id funding = hex_lower C (wr_rule_id rule)
   \<and> fs_rule_id_hex funding = hex_lower C (wr_rule_id rule)
   \<and> fs_canonical_rule_hash_hex funding = hex_lower C (canonical_rule_hash C rule)
   \<and> fs_controlled_wallet funding = wr_delegated_wallet rule
   \<and> sd_input_amount_raw d = wr_max_input_amount_raw rule
   \<and> wr_max_input_amount_raw rule = fs_amount_raw funding \<and> fs_amount_raw funding \<noteq> 0"

definition condition_ok ::
    "funding_snapshot \<Rightarrow> watch_rule \<Rightarrow> solend_deposit_action \<Rightarrow> solend_rate_condition \<Rightarrow> bool" where
  "condition_ok funding rule d c \<longleftrightarrow>
     wr_condition_logic rule = LogicAll \<and> wr_conditions rule = [SolendReserveSupplyRate c]
   \<and> sr_reserve_pubkey c = sd_reserve_pubkey d \<and> sr_lending_market c = sd_lending_market d
   \<and> sr_solend_program_id c = sd_solend_program_id d
   \<and> sr_rate_kind c = RateApr \<and> sr_formula_version c = 1
   \<and> sr_max_reserve_staleness_slots c = 16 \<and> sr_required_refresh_same_tx c
   \<and> sr_threshold_bps c = fs_threshold_bps funding
   \<and> 1 \<le> unat (sr_threshold_bps c) \<and> unat (sr_threshold_bps c) \<le> 10000"

definition before_deadlines :: "funding_snapshot \<Rightarrow> watch_rule \<Rightarrow> i64 \<Rightarrow> u64 \<Rightarrow> bool" where
  "before_deadlines funding rule now slot \<longleftrightarrow>
     sint now < sint (fs_expires_at_ms funding) \<and> unat slot < unat (wr_expires_at_slot rule)"

lemma deposit_action_sel [simp]:
  "ca_target_obligation (deposit_action d) = sd_target_obligation d"
  "ca_reserve_pubkey (deposit_action d) = sd_reserve_pubkey d"
  "ca_lending_market (deposit_action d) = sd_lending_market d"
  "ca_solend_program_id (deposit_action d) = sd_solend_program_id d"
  "ca_input_mint (deposit_action d) = sd_input_mint d"
  "ca_input_amount_raw (deposit_action d) = sd_input_amount_raw d"
  by (simp_all add: deposit_action_def)

lemma supported_condition_prefix:
  "snd (supported_condition rule a findings) = [] \<Longrightarrow> findings = []"
  by (auto simp: supported_condition_def Let_def split: if_splits watch_condition.splits)

lemma supported_condition_clean:
  "supported_condition rule a [] = (Some sc, []) \<longleftrightarrow>
     (\<exists>c. wr_condition_logic rule = LogicAll \<and> wr_conditions rule = [SolendReserveSupplyRate c]
        \<and> sr_reserve_pubkey c = ca_reserve_pubkey a \<and> sr_lending_market c = ca_lending_market a
        \<and> sr_solend_program_id c = ca_solend_program_id a
        \<and> sr_rate_kind c = RateApr \<and> sr_formula_version c = 1
        \<and> sr_max_reserve_staleness_slots c = 16 \<and> sr_required_refresh_same_tx c
        \<and> sc = \<lparr>sc_comparison = sr_comparison c, sc_threshold_bps = sr_threshold_bps c,
                sc_max_reserve_staleness_slots = sr_max_reserve_staleness_slots c\<rparr>)"
proof (cases "\<exists>x. wr_conditions rule = [x]")
  case True
  then obtain x where x: "wr_conditions rule = [x]" by blast
  show ?thesis
  proof (cases x)
    case (PythPrice p)
    with x show ?thesis by (simp add: supported_condition_def)
  next
    case (SolendReserveSupplyRate c)
    with x show ?thesis
      by (auto simp: supported_condition_def Let_def supported_formula_version_def
          required_max_reserve_staleness_slots_def)
  qed
next
  case False
  then have "length (wr_conditions rule) \<noteq> 1" by (auto simp: length_Suc_conv)
  with False show ?thesis by (auto simp: supported_condition_def)
qed

lemma supported_condition_None:
  "supported_condition rule a [] \<noteq> (None, [])"
  by (auto simp: supported_condition_def Let_def has_any_code_def flag_def finding_def
      split: if_splits watch_condition.splits)

lemma preflight_findings_Nil:
  "preflight_findings C clocks funding rule = [] \<longleftrightarrow>
     (\<exists>d slot. envelope_ok C rule d \<and> funded_by C funding rule d
        \<and> pk_current_confirmed_slot clocks = Some slot
        \<and> before_deadlines funding rule (pk_now_ms clocks) slot)"
proof (cases "wr_action rule")
  case (SolendDeposit d)
  show ?thesis
    by (cases "pk_current_confirmed_slot clocks")
       (auto simp: preflight_findings_def Let_def SolendDeposit envelope_ok_def funded_by_def
          before_deadlines_def amounts_equal_def option_holds_def stage2_watch_rule_schema_v2_def
          word_less_nat_alt)
qed (simp_all add: preflight_findings_def Let_def envelope_ok_def)

lemma condition_findings_Nil:
  "condition_findings funding (Some sc) = [] \<longleftrightarrow>
     sc_threshold_bps sc = fs_threshold_bps funding
     \<and> 1 \<le> unat (sc_threshold_bps sc) \<and> unat (sc_threshold_bps sc) \<le> 10000"
  by (auto simp: condition_findings_def option_holds_def max_supported_threshold_bps_def
      word_le_nat_alt)

definition prepared_for ::
    "crypto \<Rightarrow> preflight_clock_snapshot \<Rightarrow> funding_snapshot \<Rightarrow> watch_rule \<Rightarrow> solend_deposit_action \<Rightarrow>
     solend_rate_condition \<Rightarrow> prepared_deposit" where
  "prepared_for C clocks funding rule d c =
     (let sc = \<lparr>sc_comparison = sr_comparison c, sc_threshold_bps = sr_threshold_bps c,
               sc_max_reserve_staleness_slots = sr_max_reserve_staleness_slots c\<rparr> in
      \<lparr>pd_funding = funding, pd_delegated_wallet = wr_delegated_wallet rule,
       pd_action = deposit_action d, pd_condition = sc,
       pd_report = preflight_report C clocks funding rule (Some sc) []\<rparr>)"

lemma preflight_pair_NeedsChain:
  "preflight_pair C clocks funding rule = NeedsChain p \<longleftrightarrow>
     (\<exists>d c slot. envelope_ok C rule d \<and> funded_by C funding rule d \<and> condition_ok funding rule d c
        \<and> pk_current_confirmed_slot clocks = Some slot
        \<and> before_deadlines funding rule (pk_now_ms clocks) slot
        \<and> p = prepared_for C clocks funding rule d c)"
proof (cases "wr_action rule")
  case (SolendDeposit d)
  let ?a = "deposit_action d"
  let ?fs = "preflight_findings C clocks funding rule"
  have "preflight_pair C clocks funding rule = NeedsChain p \<longleftrightarrow>
      (\<exists>sc. ?fs = [] \<and> supported_condition rule ?a [] = (Some sc, []) \<and> condition_findings funding (Some sc) = []
         \<and> p = \<lparr>pd_funding = funding, pd_delegated_wallet = wr_delegated_wallet rule,
                pd_action = ?a, pd_condition = sc,
                pd_report = preflight_report C clocks funding rule (Some sc) []\<rparr>)"
    using supported_condition_prefix [of rule ?a ?fs]
    by (auto simp: preflight_pair_def Let_def SolendDeposit split: prod.splits option.splits bool.splits)
  also have "\<dots> \<longleftrightarrow> (\<exists>d c slot. envelope_ok C rule d \<and> funded_by C funding rule d \<and> condition_ok funding rule d c
        \<and> pk_current_confirmed_slot clocks = Some slot
        \<and> before_deadlines funding rule (pk_now_ms clocks) slot
        \<and> p = prepared_for C clocks funding rule d c)"
    unfolding preflight_findings_Nil supported_condition_clean
    by (auto simp: condition_findings_Nil condition_ok_def prepared_for_def Let_def envelope_ok_def
        SolendDeposit)
  finally show ?thesis .
qed (auto simp: preflight_pair_def Let_def envelope_ok_def split: bool.splits)

lemma preflight_candidate_NeedsChain:
  "preflight_candidate C inp clocks = NeedsChain p \<longleftrightarrow>
     (\<exists>funding rule. cin_funding inp = Some funding \<and> cin_rule inp = Some rule
        \<and> preflight_pair C clocks funding rule = NeedsChain p)"
  by (auto split: option.splits)

text \<open>The preflight gate is exact: a candidate is passed on to the chain reads if and only if it
  joins a funding row with a version-2, one-shot, unused rule whose wallets are one, whose deposit
  action pins the audited program and the USDC mint, whose id, hash, wallet and non-zero amount are
  those of the funding row, whose single reserve-rate condition is about the action's reserve with
  the funded threshold in 1..10000, and both deadlines still lie ahead of known clocks.\<close>

theorem preflight_gate_exact:
  "(\<exists>p. preflight_candidate C inp clocks = NeedsChain p) \<longleftrightarrow>
     (\<exists>funding rule d c slot. inp = \<lparr>cin_funding = Some funding, cin_rule = Some rule\<rparr>
        \<and> envelope_ok C rule d \<and> funded_by C funding rule d \<and> condition_ok funding rule d c
        \<and> pk_current_confirmed_slot clocks = Some slot
        \<and> before_deadlines funding rule (pk_now_ms clocks) slot)"
  unfolding preflight_candidate_NeedsChain preflight_pair_NeedsChain by (cases inp) fastforce

lemma primary_orphans:
  "primary_classification [finding OrphanFundingOnly d] = ClsOrphanFundingOnly"
  "primary_classification [finding OrphanRuleOnly d] = ClsOrphanRuleOnly"
  "primary_classification [finding EmptyCandidate d] = ClsEmptyCandidate"
  by (simp_all add: primary_classification_def has_code_def finding_def)

lemma preflight_report_blocked:
  "preflight_candidate C inp clocks = PreflightBlocked r \<Longrightarrow> cd_findings r \<noteq> []
     \<and> cd_classification r = primary_classification (cd_findings r)"
proof (cases "cin_funding inp"; cases "cin_rule inp")
  fix funding rule
  assume r: "preflight_candidate C inp clocks = PreflightBlocked r"
    and inp: "cin_funding inp = Some funding" "cin_rule inp = Some rule"
  let ?fs = "preflight_findings C clocks funding rule"
  have "?fs \<noteq> []" if "canonical_deposit_of (wr_action rule) = None"
    using that by (simp add: preflight_findings_def Let_def)
  moreover have "supported_condition rule a ?fs \<noteq> (None, [])" for a
    using supported_condition_prefix [of rule a ?fs] supported_condition_None [of rule a]
    by (cases "?fs = []") auto
  ultimately show ?thesis
    using r inp
    by (auto simp: preflight_pair_def preflight_report_def Let_def split: prod.splits option.splits bool.splits)
qed (auto simp: orphan_funding_report_def orphan_rule_report_def bare_report_def primary_orphans)

section \<open>The chain gate\<close>

definition source_ok ::
    "pubkey_bytes \<Rightarrow> canonical_deposit_action \<Rightarrow> derived_accounts \<Rightarrow> token_account_facts \<Rightarrow> bool" where
  "source_ok wallet action derived t \<longleftrightarrow>
     tf_address t = da_source_liquidity_ata derived \<and> tf_account_owner t = da_token_program derived
   \<and> tf_mint t = ca_input_mint action \<and> tf_token_owner t = wallet \<and> tf_initialized t \<and> \<not> tf_frozen t
   \<and> unat (ca_input_amount_raw action) \<le> unat (tf_amount_raw t)"

definition collateral_ok ::
    "pubkey_bytes \<Rightarrow> reserve_facts \<Rightarrow> derived_accounts \<Rightarrow> token_account_facts \<Rightarrow> bool" where
  "collateral_ok wallet reserve derived t \<longleftrightarrow>
     tf_address t = da_collateral_ata derived \<and> tf_account_owner t = da_token_program derived
   \<and> tf_mint t = rf_collateral_mint reserve \<and> tf_token_owner t = wallet
   \<and> tf_initialized t \<and> \<not> tf_frozen t"

definition accounts_ok ::
    "crypto \<Rightarrow> pubkey_bytes \<Rightarrow> canonical_deposit_action \<Rightarrow> pubkey_bytes \<Rightarrow> chain_facts \<Rightarrow> bool" where
  "accounts_ok C wallet a funding_ata facts \<longleftrightarrow>
     (let reserve = cf_reserve facts; obl = cf_obligation facts; derived = cf_derived facts in
      rf_address reserve = ca_reserve_pubkey a \<and> rf_account_owner reserve = ca_solend_program_id a
    \<and> rf_lending_market reserve = ca_lending_market a \<and> rf_liquidity_mint reserve = ca_input_mint a
    \<and> rf_liquidity_mint_decimals reserve = 6
    \<and> of_address obl = ca_target_obligation a \<and> of_account_owner obl = ca_solend_program_id a
    \<and> of_lending_market obl = ca_lending_market a \<and> of_obligation_owner obl = wallet
    \<and> da_source_liquidity_ata derived = funding_ata
    \<and> da_token_program derived = classic_token_program C
    \<and> (\<exists>t. cf_source_liquidity facts = Some t \<and> source_ok wallet a derived t)
    \<and> (\<exists>t. cf_collateral facts = Some t \<and> collateral_ok wallet reserve derived t))"

definition reserve_fresh :: "chain_facts \<Rightarrow> u64 \<Rightarrow> nat \<Rightarrow> bool" where
  "reserve_fresh facts slot max_age \<longleftrightarrow>
     \<not> rf_last_update_stale (cf_reserve facts)
   \<and> unat (rf_last_update_slot (cf_reserve facts)) \<le> unat slot
   \<and> unat slot - unat (rf_last_update_slot (cf_reserve facts)) \<le> max_age"

lemma source_findings_Nil:
  "source_findings wallet a derived s = [] \<longleftrightarrow> (\<exists>t. s = Some t \<and> source_ok wallet a derived t)"
  by (cases s) (auto simp: source_findings_def source_ok_def word_less_nat_alt)

lemma collateral_findings_Nil:
  "collateral_findings wallet r derived s = [] \<longleftrightarrow> (\<exists>t. s = Some t \<and> collateral_ok wallet r derived t)"
  by (cases s) (auto simp: collateral_findings_def collateral_ok_def)

lemma reserve_age_ok:
  "reserve_age r clocks \<noteq> None \<and> \<not> option_holds (\<lambda>age. ucast (m :: u32) < age) (reserve_age r clocks) \<longleftrightarrow>
     unat (rf_last_update_slot r) \<le> unat (ck_current_confirmed_slot clocks)
   \<and> unat (ck_current_confirmed_slot clocks) - unat (rf_last_update_slot r) \<le> unat m"
  by (auto simp: reserve_age_def option_holds_def word_less_nat_alt word_le_nat_alt
      unat_saturating_sub unat_ucast_up)

lemma chain_findings_Nil:
  "chain_findings C p fexp rexp facts clocks = [] \<longleftrightarrow>
     cd_findings (pd_report p) = [] \<and> sint (ck_now_ms clocks) < sint fexp
   \<and> unat (ck_current_confirmed_slot clocks) < unat rexp \<and> accounts_ok C (pd_delegated_wallet p) (pd_action p) (fs_controlled_usdc_ata (pd_funding p)) facts
   \<and> reserve_fresh facts (ck_current_confirmed_slot clocks)
       (unat (sc_max_reserve_staleness_slots (pd_condition p)))"
proof -
  let ?m = "sc_max_reserve_staleness_slots (pd_condition p)"
  have "chain_findings C p fexp rexp facts clocks = [] \<longleftrightarrow>
     cd_findings (pd_report p) = [] \<and> sint (ck_now_ms clocks) < sint fexp
   \<and> unat (ck_current_confirmed_slot clocks) < unat rexp \<and> accounts_ok C (pd_delegated_wallet p) (pd_action p) (fs_controlled_usdc_ata (pd_funding p)) facts
   \<and> \<not> rf_last_update_stale (cf_reserve facts)
   \<and> (reserve_age (cf_reserve facts) clocks \<noteq> None
      \<and> \<not> option_holds (\<lambda>age. ucast ?m < age) (reserve_age (cf_reserve facts) clocks))"
    by (simp add: chain_findings_def Let_def accounts_ok_def source_findings_Nil
        collateral_findings_Nil required_liquidity_mint_decimals_def word_less_nat_alt) blast
  then show ?thesis unfolding reserve_fresh_def using reserve_age_ok [of "cf_reserve facts" clocks ?m] by blast
qed

definition admit ::
    "crypto \<Rightarrow> candidate_input \<Rightarrow> preflight_clock_snapshot \<Rightarrow> chain_facts \<Rightarrow> clock_snapshot \<Rightarrow>
     validated_plan_inputs option" where
  "admit C inp clocks facts final_clocks =
     (case preflight_candidate C inp clocks of
        PreflightBlocked r \<Rightarrow> None
      | NeedsChain p \<Rightarrow>
          (case validate_chain C p facts final_clocks of
             Some (ChainReady v) \<Rightarrow> Some v
           | _ \<Rightarrow> None))"

lemma prepared_for_report:
  "cd_findings (pd_report (prepared_for C clocks f r d c)) = []"
  "kr_funding_expires_at_ms (cd_clocks (pd_report (prepared_for C clocks f r d c))) = Some (fs_expires_at_ms f)"
  "kr_rule_expires_at_slot (cd_clocks (pd_report (prepared_for C clocks f r d c))) = Some (wr_expires_at_slot r)"
  by (simp_all add: prepared_for_def preflight_report_def Let_def)

lemma prepared_for_sel [simp]:
  "pd_funding (prepared_for C clocks f r d c) = f"
  "pd_delegated_wallet (prepared_for C clocks f r d c) = wr_delegated_wallet r"
  "pd_action (prepared_for C clocks f r d c) = deposit_action d"
  "sc_comparison (pd_condition (prepared_for C clocks f r d c)) = sr_comparison c"
  "sc_threshold_bps (pd_condition (prepared_for C clocks f r d c)) = sr_threshold_bps c"
  "sc_max_reserve_staleness_slots (pd_condition (prepared_for C clocks f r d c))
     = sr_max_reserve_staleness_slots c"
  by (simp_all add: prepared_for_def Let_def)

definition rate_satisfied :: "chain_facts \<Rightarrow> solend_rate_condition \<Rightarrow> bool" where
  "rate_satisfied facts c \<longleftrightarrow>
     (let obs = unat (cf_native_supply_apr_wad facts); thr = unat (sr_threshold_bps c) * 10 ^ 14 in
      case sr_comparison c of
        CmpLt \<Rightarrow> obs < thr | CmpLte \<Rightarrow> obs \<le> thr | CmpGt \<Rightarrow> thr < obs | CmpGte \<Rightarrow> thr \<le> obs)"

lemma validate_chain_prepared:
  "\<exists>out. validate_chain C (prepared_for C clocks f r d c) facts fin = Some out
     \<and> (case out of
          ChainBlocked rep \<Rightarrow> cd_findings rep \<noteq> [] \<and> cd_classification rep = primary_classification (cd_findings rep)
        | ChainReady v \<Rightarrow> cd_findings (vi_report v) = [] \<and> cd_classification (vi_report v) = ClsReady)"
  by (simp add: validate_chain_def prepared_for_report Let_def chain_report_def
      set_classification_from_findings_def primary_classification_Ready)

lemma validate_chain_Ready:
  "validate_chain C p facts fin = Some (ChainReady v) \<longleftrightarrow>
     (\<exists>fexp rexp. kr_funding_expires_at_ms (cd_clocks (pd_report p)) = Some fexp
        \<and> kr_rule_expires_at_slot (cd_clocks (pd_report p)) = Some rexp
        \<and> chain_findings C p fexp rexp facts fin = []
        \<and> compare_wad (cf_native_supply_apr_wad facts) (sc_comparison (pd_condition p))
             (sc_threshold_bps (pd_condition p))
        \<and> v = \<lparr>vi_solend_program_id = ca_solend_program_id (pd_action p),
                 vi_input_mint = ca_input_mint (pd_action p),
                 vi_input_amount_raw = ca_input_amount_raw (pd_action p),
                 vi_source_liquidity = da_source_liquidity_ata (cf_derived facts),
                 vi_user_collateral = da_collateral_ata (cf_derived facts),
                 vi_reserve = ca_reserve_pubkey (pd_action p),
                 vi_reserve_liquidity_supply = rf_liquidity_supply (cf_reserve facts),
                 vi_reserve_collateral_mint = rf_collateral_mint (cf_reserve facts),
                 vi_lending_market = ca_lending_market (pd_action p),
                 vi_destination_deposit_collateral = rf_collateral_supply (cf_reserve facts),
                 vi_obligation = ca_target_obligation (pd_action p),
                 vi_obligation_owner = pd_delegated_wallet p,
                 vi_pyth_oracle = rf_pyth_oracle (cf_reserve facts),
                 vi_switchboard_oracle = rf_switchboard_oracle (cf_reserve facts),
                 vi_user_transfer_authority = pd_delegated_wallet p,
                 vi_token_program = da_token_program (cf_derived facts),
                 vi_report = chain_report p fexp rexp facts fin [] (Some True)\<rparr>)"
  by (auto simp: validate_chain_def Let_def chain_condition_met_def split: option.splits if_splits)

lemma admit_iff:
  "(\<exists>v. admit C inp clocks facts fin = Some v) \<longleftrightarrow>
     (\<exists>f r d c slot. inp = \<lparr>cin_funding = Some f, cin_rule = Some r\<rparr>
        \<and> envelope_ok C r d \<and> funded_by C f r d \<and> condition_ok f r d c
        \<and> pk_current_confirmed_slot clocks = Some slot \<and> before_deadlines f r (pk_now_ms clocks) slot
        \<and> before_deadlines f r (ck_now_ms fin) (ck_current_confirmed_slot fin)
        \<and> accounts_ok C (wr_delegated_wallet r) (deposit_action d) (fs_controlled_usdc_ata f) facts
        \<and> reserve_fresh facts (ck_current_confirmed_slot fin) 16 \<and> rate_satisfied facts c)"
  (is "?L \<longleftrightarrow> ?R")
proof -
  have chain: "(\<exists>v. validate_chain C (prepared_for C clocks f r d c) facts fin = Some (ChainReady v)) \<longleftrightarrow>
      before_deadlines f r (ck_now_ms fin) (ck_current_confirmed_slot fin)
    \<and> accounts_ok C (wr_delegated_wallet r) (deposit_action d) (fs_controlled_usdc_ata f) facts
    \<and> reserve_fresh facts (ck_current_confirmed_slot fin) 16 \<and> rate_satisfied facts c"
    if "condition_ok f r d c" for f r d c
    using that
    by (auto simp: validate_chain_Ready prepared_for_report chain_findings_Nil before_deadlines_def
        compare_wad_nat rate_satisfied_def condition_ok_def)
  have "?L \<longleftrightarrow> (\<exists>p. preflight_candidate C inp clocks = NeedsChain p
                 \<and> (\<exists>v. validate_chain C p facts fin = Some (ChainReady v)))"
    by (auto simp: admit_def simp del: preflight_candidate.simps
        split: preflight_outcome.splits option.splits chain_outcome.splits)
  also have "\<dots> \<longleftrightarrow> ?R"
    unfolding preflight_candidate_NeedsChain preflight_pair_NeedsChain
    using chain by (cases inp) fastforce
  finally show ?thesis .
qed

text \<open>C15: Admission is exact end to end: the two gates together hand inputs to the plan builder if and
  only if the candidate joins a matching funding row and rule, the deadlines lie ahead both when the
  candidate was picked up and when the chain had been read, every decoded account is the one the
  fingerprinted action, the wallet and the funding row name, the reserve is at most 16 slots old, and
  the exact native rate satisfies the rule's condition.\<close>

theorem admission_exact:
  "(\<exists>v. admit C inp clocks facts fin = Some v) \<longleftrightarrow>
     (\<exists>f r d c slot. inp = \<lparr>cin_funding = Some f, cin_rule = Some r\<rparr>
        \<and> envelope_ok C r d \<and> funded_by C f r d \<and> condition_ok f r d c
        \<and> pk_current_confirmed_slot clocks = Some slot \<and> before_deadlines f r (pk_now_ms clocks) slot
        \<and> before_deadlines f r (ck_now_ms fin) (ck_current_confirmed_slot fin)
        \<and> accounts_ok C (wr_delegated_wallet r) (deposit_action d) (fs_controlled_usdc_ata f) facts
        \<and> reserve_fresh facts (ck_current_confirmed_slot fin) 16 \<and> rate_satisfied facts c)"
  by (rule admit_iff)

text \<open>Reports do not contradict outcomes: every blocked candidate, at either gate, carries at least
  one finding and a classification other than ready; a candidate that passes the preflight gate never
  panics at the chain gate, and what that gate lets through carries no finding and is classified ready.\<close>

theorem reports_match_outcomes:
  "case preflight_candidate C inp clocks of
     PreflightBlocked r \<Rightarrow> cd_findings r \<noteq> [] \<and> cd_classification r \<noteq> ClsReady
   | NeedsChain p \<Rightarrow>
       (case validate_chain C p facts fin of
          None \<Rightarrow> False
        | Some (ChainBlocked r) \<Rightarrow> cd_findings r \<noteq> [] \<and> cd_classification r \<noteq> ClsReady
        | Some (ChainReady v) \<Rightarrow> cd_findings (vi_report v) = [] \<and> cd_classification (vi_report v) = ClsReady)"
proof (cases "preflight_candidate C inp clocks")
  case (PreflightBlocked r)
  from preflight_report_blocked [OF this] PreflightBlocked show ?thesis
    by (simp add: primary_classification_Ready)
next
  case (NeedsChain p)
  then obtain f r d c where "p = prepared_for C clocks f r d c"
    unfolding preflight_candidate_NeedsChain preflight_pair_NeedsChain by blast
  with validate_chain_prepared [of C clocks f r d c facts fin] obtain out
    where "validate_chain C p facts fin = Some out"
      and "case out of
          ChainBlocked rep \<Rightarrow> cd_findings rep \<noteq> [] \<and> cd_classification rep = primary_classification (cd_findings rep)
        | ChainReady v \<Rightarrow> cd_findings (vi_report v) = [] \<and> cd_classification (vi_report v) = ClsReady"
    by blast
  with NeedsChain show ?thesis
    by (cases out) (simp_all add: primary_classification_Ready del: preflight_candidate.simps)
qed

lemma admitted_plan:
  assumes "admit C inp clocks facts fin = Some v"
  shows "\<exists>f r d. cin_funding inp = Some f \<and> cin_rule inp = Some r \<and> wr_action r = SolendDeposit d
     \<and> vi_solend_program_id v = sd_solend_program_id d \<and> vi_input_mint v = sd_input_mint d
     \<and> vi_reserve v = sd_reserve_pubkey d \<and> vi_lending_market v = sd_lending_market d
     \<and> vi_obligation v = sd_target_obligation d
     \<and> vi_input_amount_raw v = fs_amount_raw f \<and> vi_source_liquidity v = fs_controlled_usdc_ata f
     \<and> vi_obligation_owner v = wr_delegated_wallet r \<and> vi_user_transfer_authority v = wr_delegated_wallet r
     \<and> vi_token_program v = classic_token_program C
     \<and> vi_solend_program_id v = audited_solend_program C \<and> vi_input_mint v = usdc_mint C
     \<and> vi_input_amount_raw v \<noteq> 0"
proof -
  from assms obtain p where p: "preflight_candidate C inp clocks = NeedsChain p"
    and v: "validate_chain C p facts fin = Some (ChainReady v)"
    by (auto simp: admit_def simp del: preflight_candidate.simps
        split: preflight_outcome.splits option.splits chain_outcome.splits)
  from p obtain f r d c where inp: "cin_funding inp = Some f" "cin_rule inp = Some r"
    and ok: "envelope_ok C r d" "funded_by C f r d" and "p = prepared_for C clocks f r d c"
    unfolding preflight_candidate_NeedsChain preflight_pair_NeedsChain by blast
  with v have "accounts_ok C (wr_delegated_wallet r) (deposit_action d) (fs_controlled_usdc_ata f) facts"
    and "vi_solend_program_id v = sd_solend_program_id d" "vi_input_mint v = sd_input_mint d"
      "vi_reserve v = sd_reserve_pubkey d" "vi_lending_market v = sd_lending_market d"
      "vi_obligation v = sd_target_obligation d" "vi_input_amount_raw v = sd_input_amount_raw d"
      "vi_source_liquidity v = da_source_liquidity_ata (cf_derived facts)"
      "vi_obligation_owner v = wr_delegated_wallet r"
      "vi_user_transfer_authority v = wr_delegated_wallet r"
      "vi_token_program v = da_token_program (cf_derived facts)"
    by (auto simp: validate_chain_Ready chain_findings_Nil)
  with inp ok show ?thesis
    by (auto simp: accounts_ok_def Let_def envelope_ok_def funded_by_def)
qed

text \<open>The plan carries exactly what was approved: when a candidate is admitted, the inputs of the
  transaction builder name the program, mint, reserve, market and obligation of the rule's action, the
  amount is the funded one, the tokens come from the funding row's account, and the only authority is
  the rule's delegated wallet.\<close>

theorem admitted_plan_is_the_rules:
  assumes "admit C inp clocks facts fin = Some v"
  shows "\<exists>f r d. cin_funding inp = Some f \<and> cin_rule inp = Some r \<and> wr_action r = SolendDeposit d
     \<and> vi_solend_program_id v = sd_solend_program_id d \<and> vi_input_mint v = sd_input_mint d
     \<and> vi_reserve v = sd_reserve_pubkey d \<and> vi_lending_market v = sd_lending_market d
     \<and> vi_obligation v = sd_target_obligation d
     \<and> vi_input_amount_raw v = fs_amount_raw f \<and> vi_source_liquidity v = fs_controlled_usdc_ata f
     \<and> vi_obligation_owner v = wr_delegated_wallet r \<and> vi_user_transfer_authority v = wr_delegated_wallet r
     \<and> vi_token_program v = classic_token_program C"
  using admitted_plan [OF assms] by blast

definition example_funding :: funding_snapshot where
  "example_funding =
     \<lparr>fs_intent_id = hex_lower example_crypto (replicate 16 7),
      fs_rule_id_hex = hex_lower example_crypto (replicate 16 7),
      fs_canonical_rule_hash_hex = hex_lower example_crypto (canonical_rule_hash example_crypto example_rule),
      fs_controlled_wallet = example_key 5, fs_controlled_usdc_ata = example_key 6,
      fs_amount_raw = 500000, fs_threshold_bps = 50, fs_expires_at_ms = 180000\<rparr>"

definition example_token_account :: "pubkey_bytes \<Rightarrow> pubkey_bytes \<Rightarrow> u64 \<Rightarrow> token_account_facts" where
  "example_token_account addr mint amount =
     \<lparr>tf_address = addr, tf_account_owner = classic_token_program example_crypto, tf_mint = mint,
      tf_token_owner = example_key 5, tf_amount_raw = amount, tf_initialized = True, tf_frozen = False\<rparr>"

definition example_facts :: chain_facts where
  "example_facts =
     \<lparr>cf_reserve = \<lparr>rf_address = example_key 1,
        rf_account_owner = audited_solend_program example_crypto,
        rf_last_update_slot = 200, rf_last_update_stale = False, rf_lending_market = example_key 2,
        rf_liquidity_mint = usdc_mint example_crypto, rf_liquidity_mint_decimals = 6,
        rf_liquidity_supply = example_key 8, rf_pyth_oracle = example_key 9,
        rf_switchboard_oracle = example_key 10, rf_collateral_mint = example_key 11,
        rf_collateral_supply = example_key 12\<rparr>,
      cf_obligation = \<lparr>of_address = example_key 3,
        of_account_owner = audited_solend_program example_crypto,
        of_lending_market = example_key 2, of_obligation_owner = example_key 5\<rparr>,
      cf_source_liquidity = Some (example_token_account (example_key 6) (usdc_mint example_crypto) 500000),
      cf_collateral = Some (example_token_account (example_key 13) (example_key 11) 0),
      cf_derived = \<lparr>da_token_program = classic_token_program example_crypto,
        da_source_liquidity_ata = example_key 6, da_collateral_ata = example_key 13\<rparr>,
      cf_native_supply_apr_wad = 50 * bps_wad + 1\<rparr>"

definition example_input :: candidate_input where
  "example_input = \<lparr>cin_funding = Some example_funding, cin_rule = Some example_rule\<rparr>"

lemma example_admitted:
  "\<exists>v. admit example_crypto example_input
      (preflight_clocks \<lparr>ck_now_ms = 1000, ck_current_confirmed_slot = 210\<rparr>)
      example_facts \<lparr>ck_now_ms = 2000, ck_current_confirmed_slot = 216\<rparr> = Some v"
proof -
  have "envelope_ok example_crypto example_rule example_deposit"
    by (simp add: envelope_ok_def example_rule_def example_deposit_def audited_solend_program_def
        usdc_mint_def example_crypto_def)
  moreover have "funded_by example_crypto example_funding example_rule example_deposit"
    by (simp add: funded_by_def example_funding_def) (simp add: example_rule_def example_deposit_def)
  moreover have "condition_ok example_funding example_rule example_deposit example_rate_condition"
    by (simp add: condition_ok_def example_funding_def example_rule_def example_deposit_def
        example_rate_condition_def)
  moreover have "before_deadlines example_funding example_rule now slot"
    if "now \<in> {1000, 2000}" "slot \<in> {210, 216}" for now slot
    using that by (auto simp: before_deadlines_def example_funding_def example_rule_def)
  moreover have "accounts_ok example_crypto (wr_delegated_wallet example_rule) (deposit_action example_deposit)
      (fs_controlled_usdc_ata example_funding) example_facts"
    by (simp add: accounts_ok_def Let_def source_ok_def collateral_ok_def example_facts_def
        example_token_account_def example_funding_def example_rule_def example_deposit_def
        audited_solend_program_def usdc_mint_def classic_token_program_def example_crypto_def)
  moreover have "reserve_fresh example_facts 216 16" by (simp add: reserve_fresh_def example_facts_def)
  moreover have "rate_satisfied example_facts example_rate_condition"
    by (simp add: rate_satisfied_def example_facts_def example_rate_condition_def bps_wad_def)
  ultimately show ?thesis
    unfolding admit_iff by (simp add: example_input_def preflight_clocks_def) blast
qed

theorem admitted_plan_is_the_rules_witness:
  "\<exists>v. admit example_crypto example_input
      (preflight_clocks \<lparr>ck_now_ms = 1000, ck_current_confirmed_slot = 210\<rparr>)
      example_facts \<lparr>ck_now_ms = 2000, ck_current_confirmed_slot = 216\<rparr> = Some v
    \<and> vi_input_amount_raw v = 500000 \<and> vi_user_transfer_authority v = example_key 5"
proof -
  from example_admitted obtain v where v: "admit example_crypto example_input
      (preflight_clocks \<lparr>ck_now_ms = 1000, ck_current_confirmed_slot = 210\<rparr>)
      example_facts \<lparr>ck_now_ms = 2000, ck_current_confirmed_slot = 216\<rparr> = Some v" by blast
  from admitted_plan_is_the_rules [OF v] v show ?thesis
    by (auto simp: example_input_def example_funding_def example_rule_def)
qed

end
