(* ===== verification/Solend_Raw.thy ===== *)
theory Solend_Raw
  imports Prelude
begin

text \<open>
  The account decoders of \<open>crates/protocols/src/solend/raw.rs\<close>. An index out of the slice is a panic
  of the Rust code and the value \<open>IndexPanic\<close> here, so that staying in bounds is a property of the
  decoder and not of the model. A Solana \<open>Pubkey\<close> is its bytes. The lemmas decode the documented
  layouts: each account is described as the concatenation of its fields, independently of the
  offsets the decoder uses.
\<close>

type_synonym pubkey = bytes

datatype decode_error =
    WrongSize nat
  | PaddingNonZero
  | ArrayOverflow u8 u8
  | StaleBitInvalid u8
  | BoolInvalid nat u8 string
  | ReserveWrongSize nat
  | ReserveStaleBitInvalid u8

datatype decode_failure = DecodeErr decode_error | IndexPanic

section \<open>Layout constants\<close>

definition obligation_len :: nat where "obligation_len = 1300"
definition obligation_owner_offset :: nat where "obligation_owner_offset = 42"
definition obligation_collateral_len :: nat where "obligation_collateral_len = 88"
definition obligation_liquidity_len :: nat where "obligation_liquidity_len = 112"
definition obl_data_flat_off :: nat where "obl_data_flat_off = 204"
definition obl_data_flat_len :: nat where "obl_data_flat_len = obligation_len - obl_data_flat_off"
definition reserve_len :: nat where "reserve_len = 619"

record solend_obligation_collateral =
  oc_deposit_reserve :: pubkey
  oc_deposited_amount :: u64

record solend_obligation_liquidity =
  ol_borrow_reserve :: pubkey
  ol_borrowed_amount_wads :: u128

record solend_obligation =
  so_version :: u8
  so_last_update_slot :: u64
  so_last_update_stale :: bool
  so_lending_market :: pubkey
  so_owner :: pubkey
  so_deposits :: "solend_obligation_collateral list"
  so_borrows :: "solend_obligation_liquidity list"
  so_borrowed_value_upper_bound_wads :: u128
  so_borrowing_isolated_asset :: bool
  so_super_unhealthy_borrow_value_wads :: u128
  so_unweighted_borrowed_value_wads :: u128
  so_closeable :: bool

record solend_reserve =
  sv_last_update_slot :: u64
  sv_last_update_stale :: bool
  sv_lending_market :: pubkey
  sv_liquidity_mint :: pubkey
  sv_liquidity_mint_decimals :: u8
  sv_liquidity_supply :: pubkey
  sv_pyth_oracle :: pubkey
  sv_switchboard_oracle :: pubkey
  sv_collateral_mint :: pubkey
  sv_collateral_supply :: pubkey

section \<open>Reads\<close>

definition read_slice :: "bytes \<Rightarrow> nat \<Rightarrow> nat \<Rightarrow> decode_failure + bytes" where
  "read_slice data off n =
     (if off + n \<le> length data then Inr (take n (drop off data)) else Inl IndexPanic)"

definition read_byte :: "bytes \<Rightarrow> nat \<Rightarrow> decode_failure + u8" where
  "read_byte data off = (if off < length data then Inr (data ! off) else Inl IndexPanic)"

definition read_u64_le :: "bytes \<Rightarrow> nat \<Rightarrow> decode_failure + u64" where
  "read_u64_le data off = try_bind (read_slice data off 8) (\<lambda>bs. Inr (from_le_bytes bs))"

definition read_u128_le :: "bytes \<Rightarrow> nat \<Rightarrow> decode_failure + u128" where
  "read_u128_le data off = try_bind (read_slice data off 16) (\<lambda>bs. Inr (from_le_bytes bs))"

definition read_pubkey :: "bytes \<Rightarrow> nat \<Rightarrow> decode_failure + pubkey" where
  "read_pubkey data off = read_slice data off 32"

definition read_bool :: "bytes \<Rightarrow> nat \<Rightarrow> decode_failure + bool option" where
  "read_bool data off =
     try_bind (read_byte data off) (\<lambda>b.
       Inr (if b = 0 then Some False else if b = 1 then Some True else None))"

text \<open>\<open>read_bool(data, off).ok_or(e)?\<close>, where the error names the byte.\<close>

definition read_bool_or :: "bytes \<Rightarrow> nat \<Rightarrow> (u8 \<Rightarrow> decode_error) \<Rightarrow> decode_failure + bool" where
  "read_bool_or data off e =
     try_bind (read_bool data off) (\<lambda>b.
     try_bind (read_byte data off) (\<lambda>v. ok_or b (DecodeErr (e v))))"

section \<open>The obligation\<close>

definition read_deposit :: "bytes \<Rightarrow> nat \<Rightarrow> decode_failure + solend_obligation_collateral" where
  "read_deposit data index =
     (let base = obl_data_flat_off + index * obligation_collateral_len in
      try_bind (read_pubkey data (base + 0)) (\<lambda>reserve.
      try_bind (read_u64_le data (base + 32)) (\<lambda>amount.
        Inr \<lparr>oc_deposit_reserve = reserve, oc_deposited_amount = amount\<rparr>)))"

definition read_borrow :: "bytes \<Rightarrow> nat \<Rightarrow> nat \<Rightarrow> decode_failure + solend_obligation_liquidity" where
  "read_borrow data borrows_start index =
     (let base = borrows_start + index * obligation_liquidity_len in
      try_bind (read_pubkey data (base + 0)) (\<lambda>reserve.
      try_bind (read_u128_le data (base + 48)) (\<lambda>amount.
        Inr \<lparr>ol_borrow_reserve = reserve, ol_borrowed_amount_wads = amount\<rparr>)))"

definition decode_obligation :: "bytes \<Rightarrow> decode_failure + solend_obligation" where
  "decode_obligation data =
     try_bind (ensure (length data = obligation_len) (DecodeErr (WrongSize (length data)))) (\<lambda>_.
     try_bind (read_slice data 188 14) (\<lambda>padding.
     try_bind (ensure (\<forall>b \<in> set padding. b = 0) (DecodeErr PaddingNonZero)) (\<lambda>_.
     try_bind (read_bool_or data 9 StaleBitInvalid) (\<lambda>last_update_stale.
     try_bind (read_bool_or data 154 (\<lambda>v. BoolInvalid 154 v ''borrowing_isolated_asset'')) (\<lambda>isolated.
     try_bind (read_bool_or data 187 (\<lambda>v. BoolInvalid 187 v ''closeable'')) (\<lambda>closeable.
     try_bind (read_byte data 202) (\<lambda>deposits_len.
     try_bind (read_byte data 203) (\<lambda>borrows_len.
     try_bind (ensure (unat deposits_len * obligation_collateral_len
                        + unat borrows_len * obligation_liquidity_len \<le> obl_data_flat_len)
                 (DecodeErr (ArrayOverflow deposits_len borrows_len))) (\<lambda>_.
     try_bind (collect_results (map (read_deposit data) [0..<unat deposits_len])) (\<lambda>deposits.
     (let borrows_start = obl_data_flat_off + unat deposits_len * obligation_collateral_len in
     try_bind (collect_results (map (read_borrow data borrows_start) [0..<unat borrows_len])) (\<lambda>borrows.
     try_bind (read_byte data 0) (\<lambda>version.
     try_bind (read_u64_le data 1) (\<lambda>slot.
     try_bind (read_pubkey data 10) (\<lambda>market.
     try_bind (read_pubkey data obligation_owner_offset) (\<lambda>owner.
     try_bind (read_u128_le data 138) (\<lambda>upper.
     try_bind (read_u128_le data 155) (\<lambda>super_unhealthy.
     try_bind (read_u128_le data 171) (\<lambda>unweighted.
       Inr \<lparr>so_version = version, so_last_update_slot = slot,
            so_last_update_stale = last_update_stale, so_lending_market = market, so_owner = owner,
            so_deposits = deposits, so_borrows = borrows,
            so_borrowed_value_upper_bound_wads = upper,
            so_borrowing_isolated_asset = isolated,
            so_super_unhealthy_borrow_value_wads = super_unhealthy,
            so_unweighted_borrowed_value_wads = unweighted,
            so_closeable = closeable\<rparr>)))))))))))))))))))"

section \<open>The reserve\<close>

definition decode_reserve :: "bytes \<Rightarrow> decode_failure + solend_reserve" where
  "decode_reserve data =
     try_bind (ensure (length data = reserve_len) (DecodeErr (ReserveWrongSize (length data)))) (\<lambda>_.
     try_bind (read_bool_or data 9 ReserveStaleBitInvalid) (\<lambda>last_update_stale.
     try_bind (read_u64_le data 1) (\<lambda>slot.
     try_bind (read_pubkey data 10) (\<lambda>market.
     try_bind (read_pubkey data 42) (\<lambda>liquidity_mint.
     try_bind (read_byte data 74) (\<lambda>decimals.
     try_bind (read_pubkey data 75) (\<lambda>liquidity_supply.
     try_bind (read_pubkey data 107) (\<lambda>pyth.
     try_bind (read_pubkey data 139) (\<lambda>switchboard.
     try_bind (read_pubkey data 227) (\<lambda>collateral_mint.
     try_bind (read_pubkey data 267) (\<lambda>collateral_supply.
       Inr \<lparr>sv_last_update_slot = slot, sv_last_update_stale = last_update_stale,
            sv_lending_market = market, sv_liquidity_mint = liquidity_mint,
            sv_liquidity_mint_decimals = decimals, sv_liquidity_supply = liquidity_supply,
            sv_pyth_oracle = pyth, sv_switchboard_oracle = switchboard,
            sv_collateral_mint = collateral_mint, sv_collateral_supply = collateral_supply\<rparr>)))))))))))"

section \<open>No read leaves the account\<close>

lemma read_in_bounds [simp]:
  "off + n \<le> length data \<Longrightarrow> read_slice data off n = Inr (take n (drop off data))"
  "off < length data \<Longrightarrow> read_byte data off = Inr (data ! off)"
  "off + 8 \<le> length data \<Longrightarrow> read_u64_le data off = Inr (from_le_bytes (take 8 (drop off data)))"
  "off + 16 \<le> length data \<Longrightarrow> read_u128_le data off = Inr (from_le_bytes (take 16 (drop off data)))"
  "off + 32 \<le> length data \<Longrightarrow> read_pubkey data off = Inr (take 32 (drop off data))"
  by (simp_all add: read_slice_def read_byte_def read_u64_le_def read_u128_le_def read_pubkey_def)

lemma read_bool_or_in_bounds:
  "off < length data \<Longrightarrow> read_bool_or data off e =
     (if data ! off \<in> {0, 1} then Inr (data ! off = 1) else Inl (DecodeErr (e (data ! off))))"
  by (simp add: read_bool_or_def read_bool_def ok_or_def)

lemma collect_results_ok:
  "(\<And>x. x \<in> set xs \<Longrightarrow> f x = Inr (g x)) \<Longrightarrow> collect_results (map f xs) = Inr (map g xs)"
  by (simp add: collect_results_Inr)

definition deposit_at :: "bytes \<Rightarrow> nat \<Rightarrow> solend_obligation_collateral" where
  "deposit_at data index =
     \<lparr>oc_deposit_reserve = take 32 (drop (204 + index * 88) data),
      oc_deposited_amount = from_le_bytes (take 8 (drop (236 + index * 88) data))\<rparr>"

definition borrow_at :: "bytes \<Rightarrow> nat \<Rightarrow> nat \<Rightarrow> solend_obligation_liquidity" where
  "borrow_at data deposits index =
     \<lparr>ol_borrow_reserve = take 32 (drop (204 + deposits * 88 + index * 112) data),
      ol_borrowed_amount_wads = from_le_bytes (take 16 (drop (252 + deposits * 88 + index * 112) data))\<rparr>"

lemmas obligation_constants =
  obligation_len_def obligation_owner_offset_def obligation_collateral_len_def
  obligation_liquidity_len_def obl_data_flat_off_def obl_data_flat_len_def

lemma read_deposit_at:
  assumes "length data = 1300" "index < d" "d * 88 \<le> 1096"
  shows "read_deposit data index = Inr (deposit_at data index)"
proof -
  have "Suc index * 88 \<le> d * 88" using assms(2) by (intro mult_le_mono1) simp
  with assms have "204 + index * 88 + 40 \<le> length data" by simp
  then show ?thesis by (simp add: read_deposit_def deposit_at_def obligation_constants add.commute add.left_commute)
qed

lemma read_borrow_at:
  assumes "length data = 1300" "index < b" "d * 88 + b * 112 \<le> 1096"
  shows "read_borrow data (204 + d * 88) index = Inr (borrow_at data d index)"
proof -
  have "Suc index * 112 \<le> b * 112" using assms(2) by (intro mult_le_mono1) simp
  with assms have "204 + d * 88 + index * 112 + 64 \<le> length data" by simp
  then show ?thesis by (simp add: read_borrow_def borrow_at_def obligation_constants add.commute add.left_commute)
qed

lemma set_take_drop:
  assumes "off + n \<le> length xs"
  shows "(\<forall>x \<in> set (take n (drop off xs)). P x) \<longleftrightarrow> (\<forall>i. off \<le> i \<and> i < off + n \<longrightarrow> P (xs ! i))"
proof
  assume L: "\<forall>x \<in> set (take n (drop off xs)). P x"
  show "\<forall>i. off \<le> i \<and> i < off + n \<longrightarrow> P (xs ! i)"
  proof (intro allI impI)
    fix i
    assume "off \<le> i \<and> i < off + n"
    then obtain k where "i = off + k" "k < n" by (auto simp: le_iff_add)
    with assms have "take n (drop off xs) ! k = xs ! i" "k < length (take n (drop off xs))"
      by simp_all
    with L show "P (xs ! i)" by (metis nth_mem)
  qed
next
  assume "\<forall>i. off \<le> i \<and> i < off + n \<longrightarrow> P (xs ! i)"
  then show "\<forall>x \<in> set (take n (drop off xs)). P x"
    using assms by (auto simp: in_set_conv_nth)
qed

definition obligation_well_formed :: "bytes \<Rightarrow> bool" where
  "obligation_well_formed data \<longleftrightarrow>
     length data = 1300 \<and> (\<forall>i. 188 \<le> i \<and> i < 202 \<longrightarrow> data ! i = 0)
   \<and> data ! 9 \<in> {0, 1} \<and> data ! 154 \<in> {0, 1} \<and> data ! 187 \<in> {0, 1}
   \<and> unat (data ! 202) * 88 + unat (data ! 203) * 112 \<le> 1096"

definition obligation_of :: "bytes \<Rightarrow> solend_obligation" where
  "obligation_of data =
     \<lparr>so_version = data ! 0, so_last_update_slot = from_le_bytes (take 8 (drop 1 data)),
      so_last_update_stale = (data ! 9 = 1), so_lending_market = take 32 (drop 10 data),
      so_owner = take 32 (drop 42 data),
      so_deposits = map (deposit_at data) [0..<unat (data ! 202)],
      so_borrows = map (borrow_at data (unat (data ! 202))) [0..<unat (data ! 203)],
      so_borrowed_value_upper_bound_wads = from_le_bytes (take 16 (drop 138 data)),
      so_borrowing_isolated_asset = (data ! 154 = 1),
      so_super_unhealthy_borrow_value_wads = from_le_bytes (take 16 (drop 155 data)),
      so_unweighted_borrowed_value_wads = from_le_bytes (take 16 (drop 171 data)),
      so_closeable = (data ! 187 = 1)\<rparr>"

lemma decode_obligation_ok:
  assumes "obligation_well_formed data"
  shows "decode_obligation data = Inr (obligation_of data)"
proof -
  let ?d = "unat (data ! 202)" and ?b = "unat (data ! 203)"
  have len: "length data = 1300" and arrays: "?d * 88 + ?b * 112 \<le> 1096"
    using assms by (auto simp: obligation_well_formed_def)
  have D: "collect_results (map (read_deposit data) [0..<?d]) = Inr (map (deposit_at data) [0..<?d])"
    by (rule collect_results_ok) (rule read_deposit_at [OF len, of _ ?d]; use arrays in auto)
  have B: "collect_results (map (read_borrow data (204 + ?d * 88)) [0..<?b])
             = Inr (map (borrow_at data ?d) [0..<?b])"
    by (rule collect_results_ok) (rule read_borrow_at [OF len, of _ ?b]; use arrays in auto)
  have pad: "\<forall>b \<in> set (take 14 (drop 188 data)). b = 0"
    using assms set_take_drop [of 188 14 data "\<lambda>b. b = 0"] by (simp add: obligation_well_formed_def)
  have bits: "data ! 9 \<in> {0, 1}" "data ! 154 \<in> {0, 1}" "data ! 187 \<in> {0, 1}"
    using assms by (simp_all only: obligation_well_formed_def)
  show ?thesis
    using len arrays D B pad bits
    by (simp add: decode_obligation_def obligation_of_def obligation_constants
        read_bool_or_in_bounds ensure_def del: insert_iff)
qed

lemma decode_obligation_refused:
  assumes "\<not> obligation_well_formed data"
  shows "\<exists>e. decode_obligation data = Inl (DecodeErr e)"
proof (cases "length data = 1300")
  case len: True
  show ?thesis
  proof (cases "\<forall>i. 188 \<le> i \<and> i < 202 \<longrightarrow> data ! i = 0")
    case True
    then have "\<forall>b \<in> set (take 14 (drop 188 data)). b = 0"
      using set_take_drop [of 188 14 data "\<lambda>b. b = 0"] len by simp
    with assms len True show ?thesis
      by (cases "data ! 9 \<in> {0, 1}"; cases "data ! 154 \<in> {0, 1}"; cases "data ! 187 \<in> {0, 1}")
         (simp_all add: decode_obligation_def obligation_well_formed_def obligation_constants
          read_bool_or_in_bounds ensure_def del: insert_iff)
  next
    case False
    then have "\<not> (\<forall>b \<in> set (take 14 (drop 188 data)). b = 0)"
      using set_take_drop [of 188 14 data "\<lambda>b. b = 0"] len by simp
    then show ?thesis by (simp add: decode_obligation_def obligation_constants ensure_def len) blast
  qed
qed (simp add: decode_obligation_def obligation_constants ensure_def)

text \<open>The obligation decoder never reads outside the account data, whatever bytes it is given, and
  it accepts exactly the well-formed ones: 1300 bytes, zero padding at 188..202, boolean bytes that are
  0 or 1, and deposit and borrow counts whose arrays fit the flat data area. Everything else is a
  decode error, never a panic.\<close>

theorem obligation_decoder_exact:
  "decode_obligation data \<noteq> Inl IndexPanic
   \<and> ((\<exists>obl. decode_obligation data = Inr obl) \<longleftrightarrow> obligation_well_formed data)"
proof (cases "obligation_well_formed data")
  case True
  with decode_obligation_ok [OF this] show ?thesis by simp
next
  case False
  from decode_obligation_refused [OF this] False show ?thesis by auto
qed

section \<open>Decoding the documented layouts\<close>

text \<open>
  The layout tables of the source as concatenations. Bytes the decoder does not read are free.
\<close>

definition bool_byte :: "bool \<Rightarrow> u8" where "bool_byte b = (if b then 1 else 0)"

definition collateral_bytes :: "solend_obligation_collateral \<times> bytes \<Rightarrow> bytes" where
  "collateral_bytes d =
     oc_deposit_reserve (fst d) @ to_le_bytes 8 (oc_deposited_amount (fst d)) @ snd d"

definition liquidity_bytes :: "solend_obligation_liquidity \<times> bytes \<times> bytes \<Rightarrow> bytes" where
  "liquidity_bytes b =
     ol_borrow_reserve (fst b) @ fst (snd b) @ to_le_bytes 16 (ol_borrowed_amount_wads (fst b)) @ snd (snd b)"

definition collateral_entry_ok :: "solend_obligation_collateral \<times> bytes \<Rightarrow> bool" where
  "collateral_entry_ok d \<longleftrightarrow> length (oc_deposit_reserve (fst d)) = 32 \<and> length (snd d) = 48"

definition liquidity_entry_ok :: "solend_obligation_liquidity \<times> bytes \<times> bytes \<Rightarrow> bool" where
  "liquidity_entry_ok b \<longleftrightarrow> length (ol_borrow_reserve (fst b)) = 32 \<and> length (fst (snd b)) = 16
     \<and> length (snd (snd b)) = 48"

definition obligation_prefix :: "solend_obligation \<Rightarrow> bytes \<Rightarrow> bytes" where
  "obligation_prefix obl value_fields =
     [so_version obl] @ to_le_bytes 8 (so_last_update_slot obl) @ [bool_byte (so_last_update_stale obl)]
     @ so_lending_market obl @ so_owner obl @ value_fields
     @ to_le_bytes 16 (so_borrowed_value_upper_bound_wads obl)
     @ [bool_byte (so_borrowing_isolated_asset obl)]
     @ to_le_bytes 16 (so_super_unhealthy_borrow_value_wads obl)
     @ to_le_bytes 16 (so_unweighted_borrowed_value_wads obl)
     @ [bool_byte (so_closeable obl)] @ replicate 14 0
     @ [word_of_nat (length (so_deposits obl)), word_of_nat (length (so_borrows obl))]"

definition obligation_bytes ::
    "solend_obligation \<Rightarrow> bytes \<Rightarrow> bytes list \<Rightarrow> (bytes \<times> bytes) list \<Rightarrow> bytes \<Rightarrow> bytes" where
  "obligation_bytes obl value_fields dtails btails rest =
     obligation_prefix obl value_fields
     @ concat (map collateral_bytes (zip (so_deposits obl) dtails))
     @ concat (map liquidity_bytes (zip (so_borrows obl) btails)) @ rest"

lemma length_bool_byte: "bool_byte b \<in> {0, 1}" "(bool_byte b = 1) = b"
  by (simp_all add: bool_byte_def)

lemma length_concat_uniform: "\<forall>x \<in> set xs. length x = n \<Longrightarrow> length (concat xs) = length xs * n"
  by (induction xs) simp_all

lemma drop_concat_uniform:
  assumes "\<forall>x \<in> set xs. length x = n" "i < length xs"
  shows "drop (i * n) (concat xs @ ys) = xs ! i @ concat (drop (Suc i) xs) @ ys"
  using assms
proof (induction xs arbitrary: i)
  case (Cons x xs)
  then show ?case by (cases i) simp_all
qed simp

lemma prefix_fields:
  assumes "length (so_lending_market obl) = 32" "length (so_owner obl) = 32" "length v = 64"
  defines "p \<equiv> obligation_prefix obl v"
  shows "length p = 204"
    and "p ! 0 = so_version obl" and "take 8 (drop 1 p) = to_le_bytes 8 (so_last_update_slot obl)"
    and "p ! 9 = bool_byte (so_last_update_stale obl)" and "take 32 (drop 10 p) = so_lending_market obl"
    and "take 32 (drop 42 p) = so_owner obl"
    and "take 16 (drop 138 p) = to_le_bytes 16 (so_borrowed_value_upper_bound_wads obl)"
    and "p ! 154 = bool_byte (so_borrowing_isolated_asset obl)"
    and "take 16 (drop 155 p) = to_le_bytes 16 (so_super_unhealthy_borrow_value_wads obl)"
    and "take 16 (drop 171 p) = to_le_bytes 16 (so_unweighted_borrowed_value_wads obl)"
    and "p ! 187 = bool_byte (so_closeable obl)" and "take 14 (drop 188 p) = replicate 14 0"
    and "p ! 202 = word_of_nat (length (so_deposits obl))"
    and "p ! 203 = word_of_nat (length (so_borrows obl))"
  using assms(1-3) unfolding p_def obligation_prefix_def by (simp_all add: nth_append nth_Cons')

definition obligation_layout_ok ::
    "solend_obligation \<Rightarrow> bytes \<Rightarrow> bytes list \<Rightarrow> (bytes \<times> bytes) list \<Rightarrow> bytes \<Rightarrow> bool" where
  "obligation_layout_ok obl v dtails btails rest \<longleftrightarrow>
     length (so_lending_market obl) = 32 \<and> length (so_owner obl) = 32 \<and> length v = 64
   \<and> length dtails = length (so_deposits obl) \<and> length btails = length (so_borrows obl)
   \<and> (\<forall>d \<in> set (zip (so_deposits obl) dtails). collateral_entry_ok d)
   \<and> (\<forall>b \<in> set (zip (so_borrows obl) btails). liquidity_entry_ok b)
   \<and> 204 + length (so_deposits obl) * 88 + length (so_borrows obl) * 112 + length rest = 1300"

lemma decode_obligation_layout:
  assumes "obligation_layout_ok obl v dtails btails rest"
  shows "decode_obligation (obligation_bytes obl v dtails btails rest) = Inr obl"
proof -
  let ?p = "obligation_prefix obl v"
  let ?D = "map collateral_bytes (zip (so_deposits obl) dtails)"
  let ?B = "map liquidity_bytes (zip (so_borrows obl) btails)"
  let ?data = "obligation_bytes obl v dtails btails rest"
  let ?nd = "length (so_deposits obl)" and ?nb = "length (so_borrows obl)"
  have data: "?data = ?p @ concat ?D @ concat ?B @ rest" by (simp add: obligation_bytes_def)
  have ok: "length (so_lending_market obl) = 32" "length (so_owner obl) = 32" "length v = 64"
    and lens: "length dtails = ?nd" "length btails = ?nb"
    and sum: "204 + ?nd * 88 + ?nb * 112 + length rest = 1300"
    using assms by (auto simp: obligation_layout_ok_def)
  note p = prefix_fields [OF ok]
  have D: "\<forall>x \<in> set ?D. length x = 88" and B: "\<forall>x \<in> set ?B. length x = 112"
    using assms
    by (auto simp: obligation_layout_ok_def collateral_entry_ok_def liquidity_entry_ok_def
        collateral_bytes_def liquidity_bytes_def)
  have lD: "length ?D = ?nd" "length ?B = ?nb" using lens by simp_all
  have cD: "length (concat ?D) = ?nd * 88" "length (concat ?B) = ?nb * 112"
    using length_concat_uniform [OF D] length_concat_uniform [OF B] lD by simp_all
  have nd: "unat (?data ! 202) = ?nd" and nb: "unat (?data ! 203) = ?nb"
    using sum p by (simp_all add: data nth_append unat_of_nat)
  have wf: "obligation_well_formed ?data"
  proof -
    have "\<forall>b \<in> set (take 14 (drop 188 ?data)). b = 0" using p by (simp add: data)
    then have "\<forall>i. 188 \<le> i \<and> i < 202 \<longrightarrow> ?data ! i = 0"
      using set_take_drop [of 188 14 ?data "\<lambda>b. b = 0"] p by (simp add: data)
    moreover have "?data ! 9 \<in> {0, 1}" "?data ! 154 \<in> {0, 1}" "?data ! 187 \<in> {0, 1}"
      using p length_bool_byte(1) by (simp_all add: data nth_append del: insert_iff)
    ultimately show ?thesis
      unfolding obligation_well_formed_def nd nb using sum p cD by (simp add: data del: insert_iff)
  qed
  have past_prefix: "drop (204 + n) (?p @ ys) = drop n ys" for n ys by (simp add: p(1))
  have dep: "deposit_at ?data i = so_deposits obl ! i" if i: "i < ?nd" for i
  proof -
    let ?d = "(so_deposits obl ! i, dtails ! i)"
    have "?d \<in> set (zip (so_deposits obl) dtails)" using i lens by (metis in_set_zip fst_conv snd_conv)
    then have e: "collateral_entry_ok ?d" using assms unfolding obligation_layout_ok_def by blast
    have "?D ! i = collateral_bytes ?d" using i lens by simp
    then have d: "drop (204 + i * 88) ?data = collateral_bytes ?d @ concat (drop (Suc i) ?D) @ concat ?B @ rest"
      unfolding data past_prefix using drop_concat_uniform [OF D, of i "concat ?B @ rest"] i lD by simp
    have "drop (236 + i * 88) ?data = drop 32 (drop (204 + i * 88) ?data)"
      by (simp add: add.commute add.left_commute)
    with d e show ?thesis by (simp add: deposit_at_def collateral_bytes_def collateral_entry_ok_def)
  qed
  have bor: "borrow_at ?data ?nd i = so_borrows obl ! i" if i: "i < ?nb" for i
  proof -
    let ?b = "(so_borrows obl ! i, btails ! i)"
    have "?b \<in> set (zip (so_borrows obl) btails)" using i lens by (metis in_set_zip fst_conv snd_conv)
    then have e: "liquidity_entry_ok ?b" using assms unfolding obligation_layout_ok_def by blast
    have "?B ! i = liquidity_bytes ?b" using i lens by simp
    then have d: "drop (204 + ?nd * 88 + i * 112) ?data = liquidity_bytes ?b @ concat (drop (Suc i) ?B) @ rest"
      unfolding data add.assoc past_prefix
      using drop_concat_uniform [OF B, of i rest] i lD cD by simp
    have "drop (252 + ?nd * 88 + i * 112) ?data = drop 48 (drop (204 + ?nd * 88 + i * 112) ?data)"
      by (simp add: add.commute add.left_commute)
    with d e show ?thesis by (simp add: borrow_at_def liquidity_bytes_def liquidity_entry_ok_def)
  qed
  have deps: "map (deposit_at ?data) [0..<?nd] = so_deposits obl"
    by (rule nth_equalityI) (simp_all add: dep)
  have bors: "map (borrow_at ?data ?nd) [0..<?nb] = so_borrows obl"
    by (rule nth_equalityI) (simp_all add: bor)
  have "obligation_of ?data = obl"
    unfolding obligation_of_def nd nb deps bors
    using p length_bool_byte(2) by (simp add: data nth_append)
  with decode_obligation_ok [OF wf] show ?thesis by simp
qed

text \<open>C34: The obligation decoder reads the documented layout: bytes laid out field after field as the
  layout table of the source says, with any deposits and borrows that fit and any content in the
  fields the tool does not consume, decode to exactly the obligation they were laid out from.\<close>

theorem obligation_layout_roundtrip:
  assumes "obligation_layout_ok obl value_fields dtails btails rest"
  shows "decode_obligation (obligation_bytes obl value_fields dtails btails rest) = Inr obl"
  by (rule decode_obligation_layout) (rule assms)

definition example_obligation :: solend_obligation where
  "example_obligation =
     \<lparr>so_version = 1, so_last_update_slot = 77, so_last_update_stale = True,
      so_lending_market = replicate 32 2, so_owner = replicate 32 3,
      so_deposits = [\<lparr>oc_deposit_reserve = replicate 32 4, oc_deposited_amount = 1000\<rparr>],
      so_borrows = [\<lparr>ol_borrow_reserve = replicate 32 5, ol_borrowed_amount_wads = 9\<rparr>],
      so_borrowed_value_upper_bound_wads = 1, so_borrowing_isolated_asset = False,
      so_super_unhealthy_borrow_value_wads = 2, so_unweighted_borrowed_value_wads = 3,
      so_closeable = False\<rparr>"

theorem obligation_layout_roundtrip_witness:
  "decode_obligation (obligation_bytes example_obligation (replicate 64 9) [replicate 48 9]
     [(replicate 16 9, replicate 48 9)] (replicate 896 9)) = Inr example_obligation"
  by (rule obligation_layout_roundtrip)
     (simp add: obligation_layout_ok_def example_obligation_def collateral_entry_ok_def
        liquidity_entry_ok_def)

definition reserve_bytes :: "u8 \<Rightarrow> solend_reserve \<Rightarrow> bytes \<Rightarrow> bytes \<Rightarrow> bytes \<Rightarrow> bytes" where
  "reserve_bytes version r between mint_supply rest =
     [version] @ to_le_bytes 8 (sv_last_update_slot r) @ [bool_byte (sv_last_update_stale r)]
     @ sv_lending_market r @ sv_liquidity_mint r @ [sv_liquidity_mint_decimals r]
     @ sv_liquidity_supply r @ sv_pyth_oracle r @ sv_switchboard_oracle r @ between
     @ sv_collateral_mint r @ mint_supply @ sv_collateral_supply r @ rest"

definition reserve_layout_ok :: "solend_reserve \<Rightarrow> bytes \<Rightarrow> bytes \<Rightarrow> bytes \<Rightarrow> bool" where
  "reserve_layout_ok r between mint_supply rest \<longleftrightarrow>
     length (sv_lending_market r) = 32 \<and> length (sv_liquidity_mint r) = 32
   \<and> length (sv_liquidity_supply r) = 32 \<and> length (sv_pyth_oracle r) = 32
   \<and> length (sv_switchboard_oracle r) = 32 \<and> length (sv_collateral_mint r) = 32
   \<and> length (sv_collateral_supply r) = 32
   \<and> length between = 56 \<and> length mint_supply = 8 \<and> length rest = 320"

text \<open>The reserve decoder is total and reads the documented layout: bytes of another length or with a
  stale byte above 1 are refused with the matching error, and the layout of a reserve, with any content
  in the bytes outside the projection, decodes to exactly that reserve.\<close>

theorem reserve_decoder_exact:
  "(length data \<noteq> 619 \<longrightarrow> decode_reserve data = Inl (DecodeErr (ReserveWrongSize (length data))))
   \<and> (length data = 619 \<longrightarrow> data ! 9 \<notin> {0, 1} \<longrightarrow>
        decode_reserve data = Inl (DecodeErr (ReserveStaleBitInvalid (data ! 9))))
   \<and> (length data = 619 \<longrightarrow> data ! 9 \<in> {0, 1} \<longrightarrow> (\<exists>r. decode_reserve data = Inr r))
   \<and> (reserve_layout_ok r between mint_supply rest \<longrightarrow>
        decode_reserve (reserve_bytes version r between mint_supply rest) = Inr r)"
proof (intro conjI impI)
  assume ok: "reserve_layout_ok r between mint_supply rest"
  let ?d = "reserve_bytes version r between mint_supply rest"
  note parts = ok [unfolded reserve_layout_ok_def]
  have len: "length ?d = 619" using parts by (simp add: reserve_bytes_def)
  have b9: "?d ! 9 = bool_byte (sv_last_update_stale r)"
    by (simp add: reserve_bytes_def nth_append nth_Cons')
  have "decode_reserve ?d = Inr
      \<lparr>sv_last_update_slot = from_le_bytes (take 8 (drop 1 ?d)), sv_last_update_stale = (?d ! 9 = 1),
       sv_lending_market = take 32 (drop 10 ?d), sv_liquidity_mint = take 32 (drop 42 ?d),
       sv_liquidity_mint_decimals = ?d ! 74, sv_liquidity_supply = take 32 (drop 75 ?d),
       sv_pyth_oracle = take 32 (drop 107 ?d), sv_switchboard_oracle = take 32 (drop 139 ?d),
       sv_collateral_mint = take 32 (drop 227 ?d), sv_collateral_supply = take 32 (drop 267 ?d)\<rparr>"
    using length_bool_byte(1) [of "sv_last_update_stale r"]
    by (simp add: decode_reserve_def reserve_len_def len ensure_def read_bool_or_in_bounds b9 del: insert_iff)
  moreover have "take 8 (drop 1 ?d) = to_le_bytes 8 (sv_last_update_slot r)"
    "take 32 (drop 10 ?d) = sv_lending_market r" "take 32 (drop 42 ?d) = sv_liquidity_mint r"
    "?d ! 74 = sv_liquidity_mint_decimals r" "take 32 (drop 75 ?d) = sv_liquidity_supply r"
    "take 32 (drop 107 ?d) = sv_pyth_oracle r" "take 32 (drop 139 ?d) = sv_switchboard_oracle r"
    "take 32 (drop 227 ?d) = sv_collateral_mint r" "take 32 (drop 267 ?d) = sv_collateral_supply r"
    using parts by (simp_all add: reserve_bytes_def nth_append nth_Cons')
  ultimately show "decode_reserve ?d = Inr r"
    using length_bool_byte(2) by (simp add: b9)
qed (simp_all add: decode_reserve_def reserve_len_def ensure_def read_bool_or_in_bounds del: insert_iff)

theorem reserve_decoder_exact_witness:
  "decode_reserve (replicate 9 0 @ [2] @ replicate 609 0) = Inl (DecodeErr (ReserveStaleBitInvalid 2))
   \<and> decode_reserve [] = Inl (DecodeErr (ReserveWrongSize 0))"
proof -
  have l: "length (replicate 9 0 @ [2 :: u8] @ replicate 609 0) = 619" by simp
  have b: "(replicate 9 0 @ [2 :: u8] @ replicate 609 0) ! 9 = 2" by (simp add: nth_append)
  show ?thesis
    using reserve_decoder_exact [of "replicate 9 0 @ [2] @ replicate 609 0"]
      reserve_decoder_exact [of "[]"] unfolding l b by simp
qed

end
