(* ===== verification/Submission.thy ===== *)
theory Submission
  imports Prelude
begin

text \<open>
  One-shot submission and finalized-only observation: \<open>submit_transaction\<close> of
  \<open>crates/solana-core/src/submission.rs\<close> and \<open>bins/solfrontier-mcp/src/watch_submission.rs\<close>. The RPC node,
  the decoder of the signed bytes and the base-58 text of a signature are fields of \<open>network\<close>; a poll
  round of the node carries what the client call gave and how much time passed beyond the requested
  sleep, so the clock only moves forward and a sleep lasts at least its duration, as \<open>tokio\<close>
  documents. Times are in milliseconds. The lemmas show that nothing is sent twice, which outcomes a
  send can have, that only finalized observations decide, and that polling ends within 17 rounds.
\<close>

type_synonym signature = bytes

section \<open>Submission\<close>

datatype submission_error =
    RpcError string | HeightFetchError string | DeserializationError string

record submission_result =
  sub_signature :: signature
  sub_last_valid_block_height :: u64
  sub_submission_block_height :: u64

datatype confirmation_status = StatusProcessed | StatusConfirmed | StatusFinalized

record transaction_status =
  ts_slot :: u64
  ts_err :: "string option"
  ts_confirmation_status :: "confirmation_status option"

record poll_round =
  pr_delay :: nat       \<comment> \<open>time from the previous round to the top of the loop\<close>
  pr_oversleep :: nat   \<comment> \<open>time slept beyond the backoff\<close>
  pr_client :: bool     \<comment> \<open>\<open>read_client()\<close> is \<open>Ok\<close>\<close>
  pr_statuses :: "unit + transaction_status option list"

datatype commitment_config = CommitmentProcessed | CommitmentConfirmed | CommitmentFinalized

text \<open>What a send asks of the node, the fields of \<open>RpcSendTransactionConfig\<close> that are not left at their default.\<close>

record send_config =
  snc_skip_preflight :: bool
  snc_preflight_commitment :: "commitment_config option"
  snc_max_retries :: "nat option"

record 'tx network =
  net_write_client :: bool
  net_deserialize :: "bytes \<Rightarrow> string + 'tx"
  net_send :: "'tx \<Rightarrow> send_config \<Rightarrow> string + signature"
  net_block_height :: "string + u64"
  net_poll :: "nat \<Rightarrow> poll_round"
  net_signature_text :: "signature \<Rightarrow> string"

text \<open>The node does no preflight and, with no retries, forwards the transaction once.\<close>

definition submission_config :: send_config where
  "submission_config =
     \<lparr>snc_skip_preflight = True, snc_preflight_commitment = Some CommitmentProcessed, snc_max_retries = Some 0\<rparr>"

text \<open>The second component is what was handed to \<open>sendTransaction\<close>.\<close>

definition submit_transaction ::
    "'tx network \<Rightarrow> bytes \<Rightarrow> signature \<Rightarrow> u64 \<Rightarrow> (submission_error + submission_result) \<times> 'tx list" where
  "submit_transaction N signed_tx_bytes sg last_valid_block_height =
     (case net_deserialize N signed_tx_bytes of
        Inl e \<Rightarrow> (Inl (DeserializationError (''failed to deserialize signed transaction: '' @ e)), [])
      | Inr tx \<Rightarrow>
          (case net_send N tx submission_config of
             Inl e \<Rightarrow> (Inl (RpcError e), [tx])
           | Inr rpc_signature \<Rightarrow>
               (case net_block_height N of
                  Inl e \<Rightarrow> (Inl (HeightFetchError e), [tx])
                | Inr height \<Rightarrow>
                    (Inr \<lparr>sub_signature = rpc_signature,
                          sub_last_valid_block_height = last_valid_block_height,
                          sub_submission_block_height = height\<rparr>, [tx]))))"

section \<open>Observation\<close>

record reviewed_signed_payload =
  rsp_signed_transaction_bytes :: bytes
  rsp_signature :: signature
  rsp_last_valid_block_height :: u64

datatype network_outcome =
    PreBroadcastFailure string
  | OutcomeFinalized string u64
  | OnChainFailed string string
  | OutcomeUnknown string string

datatype poll_decision = PollPending | PollFinalized u64 | PollOnChainFailed

fun classify_status :: "transaction_status option \<Rightarrow> poll_decision" where
  "classify_status None = PollPending"
| "classify_status (Some st) =
     (case ts_confirmation_status st of
        Some StatusFinalized \<Rightarrow>
          (if ts_err st \<noteq> None then PollOnChainFailed else PollFinalized (ts_slot st))
      | Some StatusConfirmed \<Rightarrow> PollPending
      | Some StatusProcessed \<Rightarrow> PollPending
      | None \<Rightarrow> PollPending)"

definition observe :: "string \<Rightarrow> transaction_status option \<Rightarrow> network_outcome option" where
  "observe sg st =
     (case classify_status st of
        PollPending \<Rightarrow> None
      | PollFinalized slot \<Rightarrow> Some (OutcomeFinalized sg slot)
      | PollOnChainFailed \<Rightarrow> Some (OnChainFailed sg ''transaction_failed_on_chain''))"

definition initial_poll_backoff :: nat where "initial_poll_backoff = 2000"
definition max_poll_backoff :: nat where "max_poll_backoff = 8000"
definition total_poll_timeout :: nat where "total_poll_timeout = 120000"
definition transient_error_tolerance :: u32 where "transient_error_tolerance = 3"

definition next_backoff :: "nat \<Rightarrow> nat" where
  "next_backoff current = min (current * 2) max_poll_backoff"

text \<open>The backoff of round \<open>k\<close>: every round that continues applies \<open>next_backoff\<close> once.\<close>

definition poll_backoff :: "nat \<Rightarrow> nat" where
  "poll_backoff k = (next_backoff ^^ k) initial_poll_backoff"

lemma next_backoff_pos: "0 < b \<Longrightarrow> 0 < next_backoff b"
  by (simp add: next_backoff_def max_poll_backoff_def)

lemma poll_backoff_pos: "0 < poll_backoff k"
  by (induction k) (simp_all add: poll_backoff_def initial_poll_backoff_def next_backoff_pos)

definition first_status :: "transaction_status option list \<Rightarrow> transaction_status option" where
  "first_status v = (case v of [] \<Rightarrow> None | st # _ \<Rightarrow> st)"

text \<open>The loop of \<open>poll_finalized\<close>: round \<open>k\<close> begins at time \<open>t\<close>. Also returns the rounds begun.\<close>

function poll_loop ::
    "(nat \<Rightarrow> poll_round) \<Rightarrow> string \<Rightarrow> nat \<Rightarrow> nat \<Rightarrow> nat \<Rightarrow> u32 \<Rightarrow> network_outcome \<times> nat" where
  "poll_loop env sg deadline k t consecutive_errors =
     (let r = env k;
          top = t + pr_delay r;
          woken = top + poll_backoff k + pr_oversleep r in
      if deadline \<le> top then (OutcomeUnknown sg ''finality_timeout'', k + 1)
      else if deadline \<le> woken then (OutcomeUnknown sg ''finality_timeout'', k + 1)
      else if \<not> pr_client r then
        (let errs = saturating_add consecutive_errors 1 in
         if transient_error_tolerance < errs
         then (OutcomeUnknown sg ''confirmation_rpc_unavailable'', k + 1)
         else poll_loop env sg deadline (k + 1) woken errs)
      else case pr_statuses r of
        Inr v \<Rightarrow>
          (case observe sg (first_status v) of
             Some outcome \<Rightarrow> (outcome, k + 1)
           | None \<Rightarrow> poll_loop env sg deadline (k + 1) woken 0)
      | Inl _ \<Rightarrow>
          (let errs = saturating_add consecutive_errors 1 in
           if transient_error_tolerance < errs
           then (OutcomeUnknown sg ''confirmation_result_unknown'', k + 1)
           else poll_loop env sg deadline (k + 1) woken errs))"
  by pat_completeness auto

termination
  by (relation "measure (\<lambda>(env, sg, deadline, k, t, errs). deadline - t)")
     (use poll_backoff_pos in \<open>auto intro!: diff_less_mono2\<close>)

declare poll_loop.simps [simp del]

definition poll_finalized :: "'tx network \<Rightarrow> signature \<Rightarrow> network_outcome" where
  "poll_finalized N sg =
     fst (poll_loop (net_poll N) (net_signature_text N sg) total_poll_timeout 0 0 0)"

definition submit_once_and_observe ::
    "'tx network \<Rightarrow> reviewed_signed_payload \<Rightarrow> network_outcome \<times> 'tx list" where
  "submit_once_and_observe N payload =
     (if \<not> net_write_client N then (PreBroadcastFailure ''rpc_write_client_unavailable'', [])
      else
        (let text = net_signature_text N (rsp_signature payload);
             (result, sent) = submit_transaction N (rsp_signed_transaction_bytes payload)
               (rsp_signature payload) (rsp_last_valid_block_height payload)
         in (case result of
               Inr submitted \<Rightarrow>
                 (if sub_signature submitted \<noteq> rsp_signature payload
                  then OutcomeUnknown text ''rpc_signature_mismatch''
                  else poll_finalized N (rsp_signature payload))
             | Inl (DeserializationError _) \<Rightarrow>
                 PreBroadcastFailure ''signed_transaction_deserialize_failed''
             | Inl (RpcError _) \<Rightarrow> OutcomeUnknown text ''send_result_unknown''
             | Inl (HeightFetchError _) \<Rightarrow> poll_finalized N (rsp_signature payload),
             sent)))"

section \<open>Polling\<close>

definition final_outcome :: "string \<Rightarrow> transaction_status \<Rightarrow> network_outcome" where
  "final_outcome sg s =
     (case ts_err s of None \<Rightarrow> OutcomeFinalized sg (ts_slot s)
      | Some _ \<Rightarrow> OnChainFailed sg ''transaction_failed_on_chain'')"

lemma observe_Some:
  "observe sg st = Some out \<longleftrightarrow>
     (\<exists>s. st = Some s \<and> ts_confirmation_status s = Some StatusFinalized
        \<and> out = final_outcome sg s)"
  by (cases st) (auto simp: observe_def final_outcome_def split: option.splits confirmation_status.splits)

text \<open>What polling may answer: an unknown result, or what a finalized observation of some round says.\<close>

definition supported_by_poll :: "(nat \<Rightarrow> poll_round) \<Rightarrow> string \<Rightarrow> network_outcome \<Rightarrow> bool" where
  "supported_by_poll env sg out \<longleftrightarrow>
     (\<exists>e. out = OutcomeUnknown sg e)
   \<or> (\<exists>k v s. pr_client (env k) \<and> pr_statuses (env k) = Inr v \<and> first_status v = Some s
        \<and> ts_confirmation_status s = Some StatusFinalized
        \<and> out = final_outcome sg s)"

lemma poll_loop_supported: "supported_by_poll env sg (fst (poll_loop env sg deadline k t errs))"
proof (induction env sg deadline k t errs rule: poll_loop.induct)
  case (1 env sg deadline k t errs)
  let ?r = "env k"
  let ?top = "t + pr_delay ?r"
  let ?woken = "?top + poll_backoff k + pr_oversleep ?r"
  show ?case
  proof (cases "deadline \<le> ?top \<or> deadline \<le> ?woken")
    case True
    then show ?thesis
      by (subst poll_loop.simps) (auto simp: Let_def supported_by_poll_def)
  next
    case live: False
    show ?thesis
    proof (cases "\<exists>v out. pr_client ?r \<and> pr_statuses ?r = Inr v \<and> observe sg (first_status v) = Some out")
      case True
      then obtain v out where v: "pr_client ?r" "pr_statuses ?r = Inr v"
        "observe sg (first_status v) = Some out" by blast
      then have "poll_loop env sg deadline k t errs = (out, k + 1)"
        using live by (subst poll_loop.simps) (simp add: Let_def)
      with v show ?thesis unfolding supported_by_poll_def observe_Some by auto
    next
      case False
      then show ?thesis
        using live "1.IH" [OF refl refl refl]
        by (subst poll_loop.simps)
           (auto simp: Let_def supported_by_poll_def [of env sg "OutcomeUnknown sg e" for e]
              split: sum.splits option.splits)
    qed
  qed
qed

text \<open>Time spent sleeping in the rounds from \<open>k\<close> on, \<open>n\<close> of them.\<close>

fun backoff_sum :: "nat \<Rightarrow> nat \<Rightarrow> nat" where
  "backoff_sum k 0 = 0"
| "backoff_sum k (Suc n) = poll_backoff k + backoff_sum (Suc k) n"

lemma poll_loop_rounds:
  assumes "deadline \<le> t + backoff_sum k n"
  shows "snd (poll_loop env sg deadline k t errs) \<le> k + max 1 n"
  using assms
proof (induction n arbitrary: k t errs)
  case 0
  then show ?case by (subst poll_loop.simps) (simp add: Let_def)
next
  case (Suc n)
  let ?woken = "t + pr_delay (env k) + poll_backoff k + pr_oversleep (env k)"
  have IH: "snd (poll_loop env sg deadline (k + 1) ?woken errs') \<le> k + 1 + max 1 n" for errs'
    using Suc.IH [of ?woken "k + 1" errs'] Suc.prems by simp
  show ?case
  proof (cases n)
    case 0
    with Suc.prems have "deadline \<le> ?woken" by simp
    then show ?thesis by (subst poll_loop.simps) (simp add: Let_def)
  next
    case (Suc m)
    with IH have "snd (poll_loop env sg deadline (k + 1) ?woken errs') \<le> Suc (k + n)" for errs' by simp
    then show ?thesis
      by (subst poll_loop.simps) (auto simp: Let_def split: sum.splits option.splits)
  qed
qed

lemma poll_backoff_values:
  "poll_backoff 0 = 2000" "poll_backoff (Suc 0) = 4000" "poll_backoff (Suc (Suc k)) = 8000"
proof -
  show "poll_backoff 0 = 2000" "poll_backoff (Suc 0) = 4000"
    by (simp_all add: poll_backoff_def initial_poll_backoff_def next_backoff_def max_poll_backoff_def)
  show "poll_backoff (Suc (Suc k)) = 8000"
    by (induction k)
       (simp_all add: poll_backoff_def initial_poll_backoff_def next_backoff_def max_poll_backoff_def)
qed

text \<open>C21: Polling always ends, and soon: whatever the node answers and however little time its answers
  take, the exponential backoff spends the 120 seconds within seventeen rounds, so the loop returns an
  outcome after at most seventeen status queries.\<close>

theorem polling_ends_within_17_rounds:
  "snd (poll_loop env sg total_poll_timeout 0 0 errs) \<le> 17"
proof -
  have late: "backoff_sum (Suc (Suc k)) n = n * 8000" for k n
    by (induction n arbitrary: k) (simp_all add: poll_backoff_values)
  have "backoff_sum 0 (Suc (Suc 15)) = 126000"
    unfolding backoff_sum.simps late by (simp add: poll_backoff_values)
  moreover have "Suc (Suc 15) = 17" by simp
  ultimately have "backoff_sum 0 17 = 126000" by (simp only:)
  then have "total_poll_timeout \<le> 0 + backoff_sum 0 17" by (simp add: total_poll_timeout_def)
  then show ?thesis using poll_loop_rounds [of total_poll_timeout 0 0 17 env sg errs] by simp
qed

section \<open>One send\<close>

lemma submit_once_cases:
  "submit_once_and_observe N payload =
     (if \<not> net_write_client N then (PreBroadcastFailure ''rpc_write_client_unavailable'', [])
      else case net_deserialize N (rsp_signed_transaction_bytes payload) of
        Inl e \<Rightarrow> (PreBroadcastFailure ''signed_transaction_deserialize_failed'', [])
      | Inr tx \<Rightarrow>
          (case net_send N tx submission_config of
             Inl e \<Rightarrow> OutcomeUnknown (net_signature_text N (rsp_signature payload)) ''send_result_unknown''
           | Inr sg \<Rightarrow>
               (case net_block_height N of
                  Inl e \<Rightarrow> poll_finalized N (rsp_signature payload)
                | Inr h \<Rightarrow> if sg \<noteq> rsp_signature payload
                    then OutcomeUnknown (net_signature_text N (rsp_signature payload)) ''rpc_signature_mismatch''
                    else poll_finalized N (rsp_signature payload)),
           [tx]))"
  by (simp add: submit_once_and_observe_def submit_transaction_def split: sum.splits)

text \<open>C19: A signed transaction is broadcast at most once, and the outcome never hides a broadcast: it is
  pre-broadcast exactly when nothing was sent; after a send it is unknown, or it is the final result
  that a finalized observation of some poll reported for the payload's own signature. A processed or
  confirmed status, an error on a fork, a lost reply or a timeout never counts as a result.\<close>

theorem broadcast_once_and_never_hidden:
  assumes "submit_once_and_observe N payload = (out, sent)"
  shows "length sent \<le> 1 \<and> ((\<exists>e. out = PreBroadcastFailure e) \<longleftrightarrow> sent = [])
     \<and> (\<forall>tx \<in> set sent. net_deserialize N (rsp_signed_transaction_bytes payload) = Inr tx)
     \<and> (sent \<noteq> [] \<longrightarrow>
          supported_by_poll (net_poll N) (net_signature_text N (rsp_signature payload)) out)"
proof -
  let ?sg = "net_signature_text N (rsp_signature payload)"
  have polled: "supported_by_poll (net_poll N) ?sg (poll_finalized N (rsp_signature payload))"
    by (simp add: poll_finalized_def poll_loop_supported)
  then have "poll_finalized N (rsp_signature payload) \<noteq> PreBroadcastFailure e" for e
    by (auto simp: supported_by_poll_def final_outcome_def split: option.splits)
  moreover have "supported_by_poll (net_poll N) ?sg (OutcomeUnknown ?sg e)" for e
    by (simp add: supported_by_poll_def)
  ultimately show ?thesis
    using assms polled unfolding submit_once_cases by (auto split: if_splits sum.splits)
qed

definition example_network :: "bytes network" where
  "example_network =
     \<lparr>net_write_client = True, net_deserialize = Inr, net_send = (\<lambda>tx cfg. Inr [1]),
      net_block_height = Inl ''height unavailable'',
      net_poll = (\<lambda>k. \<lparr>pr_delay = 0, pr_oversleep = 0, pr_client = True,
        pr_statuses = Inr [Some \<lparr>ts_slot = 5, ts_err = Some ''fork'',
          ts_confirmation_status = Some (if k = 0 then StatusProcessed else StatusFinalized)\<rparr>]\<rparr>),
      net_signature_text = (\<lambda>sg. ''sig'')\<rparr>"

definition example_payload :: reviewed_signed_payload where
  "example_payload = \<lparr>rsp_signed_transaction_bytes = [9], rsp_signature = [1],
     rsp_last_valid_block_height = 100\<rparr>"

theorem broadcast_once_and_never_hidden_witness:
  "\<exists>out. submit_once_and_observe example_network example_payload = (out, [[9]])
     \<and> supported_by_poll (net_poll example_network) ''sig'' out"
proof -
  have 1: "submit_once_and_observe example_network example_payload
      = (poll_finalized example_network [1], [[9]])"
    by (simp add: submit_once_cases example_network_def example_payload_def)
  have 2: "net_signature_text example_network (rsp_signature example_payload) = ''sig''"
    by (simp add: example_network_def)
  from broadcast_once_and_never_hidden [OF 1] 1 show ?thesis unfolding 2 by auto
qed

end
