(* ===== verification/Solana_Sdk.thy ===== *)
theory Solana_Sdk
  imports Solend_Raw Submission
begin

text \<open>
  The part of the Solana SDK that the transaction code is written against: its public data types, and,
  as the fields of \<open>sdk\<close>, the functions of the crates \<open>solana-sdk\<close>, \<open>spl-token\<close>, \<open>bincode\<close> and
  \<open>base64\<close> that the source calls. A result that the crate reports as an error is \<open>None\<close>.
\<close>

record account_meta =
  am_pubkey :: pubkey
  am_is_signer :: bool
  am_is_writable :: bool

definition meta_new :: "pubkey \<Rightarrow> bool \<Rightarrow> account_meta" where
  "meta_new k is_signer = \<lparr>am_pubkey = k, am_is_signer = is_signer, am_is_writable = True\<rparr>"

definition meta_new_readonly :: "pubkey \<Rightarrow> bool \<Rightarrow> account_meta" where
  "meta_new_readonly k is_signer = \<lparr>am_pubkey = k, am_is_signer = is_signer, am_is_writable = False\<rparr>"

record instruction =
  in_program_id :: pubkey
  in_accounts :: "account_meta list"
  in_data :: bytes

record compiled_instruction =
  ci_program_id_index :: u8
  ci_accounts :: bytes
  ci_data :: bytes

record message_header =
  mh_num_required_signatures :: u8
  mh_num_readonly_signed_accounts :: u8
  mh_num_readonly_unsigned_accounts :: u8

type_synonym blockhash = bytes

record message =
  msg_header :: message_header
  msg_account_keys :: "pubkey list"
  msg_recent_blockhash :: blockhash
  msg_instructions :: "compiled_instruction list"

record transaction =
  tx_signatures :: "signature list"
  tx_message :: message

definition default_blockhash :: blockhash where "default_blockhash = replicate 32 0"
definition default_signature :: signature where "default_signature = replicate 64 0"

record sdk =
  sdk_find_program_address :: "bytes list \<Rightarrow> pubkey \<Rightarrow> pubkey"
  sdk_pubkey :: "string \<Rightarrow> pubkey"          \<comment> \<open>\<open>parse\<close> of a well-known constant\<close>
  sdk_pubkey_text :: "pubkey \<Rightarrow> string"
  sdk_signature_text :: "signature \<Rightarrow> string"
  sdk_blockhash_text :: "blockhash \<Rightarrow> string"
  sdk_clock_id :: pubkey
  sdk_rent_id :: pubkey
  sdk_compute_budget_id :: pubkey
  sdk_associated_token_address :: "pubkey \<Rightarrow> pubkey \<Rightarrow> pubkey \<Rightarrow> pubkey"
  sdk_create_ata_idempotent :: "pubkey \<Rightarrow> pubkey \<Rightarrow> pubkey \<Rightarrow> pubkey \<Rightarrow> instruction"
  sdk_create_account :: "pubkey \<Rightarrow> pubkey \<Rightarrow> u64 \<Rightarrow> u64 \<Rightarrow> pubkey \<Rightarrow> instruction"
  sdk_set_compute_unit_limit :: "u32 \<Rightarrow> instruction"
  sdk_set_compute_unit_price :: "u64 \<Rightarrow> instruction"
  sdk_message_new :: "instruction list \<Rightarrow> pubkey option \<Rightarrow> message"
  sdk_message_bytes :: "message \<Rightarrow> bytes"   \<comment> \<open>\<open>Message::serialize\<close>, what is signed\<close>
  sdk_is_signer :: "message \<Rightarrow> nat \<Rightarrow> bool"
  sdk_is_maybe_writable :: "message \<Rightarrow> nat \<Rightarrow> bool"
  sdk_bincode :: "transaction \<Rightarrow> bytes option"
  sdk_bincode_parse :: "bytes \<Rightarrow> string + transaction"
  sdk_verify :: "transaction \<Rightarrow> bool"
  sdk_base64 :: "bytes \<Rightarrow> string"

text \<open>\<open>Transaction::new_unsigned\<close>: one default signature for every required signer.\<close>

definition new_unsigned :: "message \<Rightarrow> transaction" where
  "new_unsigned m =
     \<lparr>tx_signatures = replicate (unat (mh_num_required_signatures (msg_header m))) default_signature,
      tx_message = m\<rparr>"

text \<open>The account key behind an index: \<open>account_keys.get(index)\<close>.\<close>

definition key_at :: "message \<Rightarrow> u8 \<Rightarrow> pubkey option" where
  "key_at m i = (if unat i < length (msg_account_keys m) then Some (msg_account_keys m ! unat i) else None)"

end
