(* ===== verification/Compute_Budget.thy ===== *)
theory Compute_Budget
  imports Solana_Sdk Core_Types
begin

text \<open>
  What \<open>crates/solana-core\<close> does to an unsigned transaction before it is signed: the compute budget
  helpers (\<open>compute.rs\<close>), the priority fee strategies (\<open>fees.rs\<close>), the simulation client
  (\<open>simulation.rs\<close>) and the blockhash cache (\<open>blockhash.rs\<close>). An index out of range panics in the
  source and is \<open>None\<close> here. The 64-bit floating-point operations of \<open>compute.rs\<close> are the IEEE ones on
  the non-negative values they are used on, written out with rounding to nearest, ties to even.
\<close>

section \<open>Double precision on non-negative values\<close>

text \<open>\<open>round53 n\<close>: the natural number closest to \<open>n\<close> with a significand of 53 bits. A scaled value
  \<open>n / 2 ^ k\<close> rounds to \<open>round53 n / 2 ^ k\<close>.\<close>

fun bit_count :: "nat \<Rightarrow> nat" where
  "bit_count n = (if n = 0 then 0 else 1 + bit_count (n div 2))"

declare bit_count.simps [simp del]

definition round_shift :: "nat \<Rightarrow> nat \<Rightarrow> nat" where
  "round_shift s n =
     (let q = n div 2 ^ s; r = n mod 2 ^ s; half = 2 ^ s div 2 in
      if half < r \<or> (half = r \<and> odd q) then q + 1 else q)"

definition round53 :: "nat \<Rightarrow> nat" where
  "round53 n =
     (let s = bit_count n - 53 in if s = 0 then n else round_shift s n * 2 ^ s)"

text \<open>The double nearest to 1.1 is \<open>4953959590107546 / 2 ^ 52\<close>, that nearest to 0.10 is
  \<open>7205759403792794 / 2 ^ 56\<close>.\<close>

definition cu_headroom_factor :: nat where "cu_headroom_factor = 4953959590107546"
definition two_pass_threshold :: nat where "two_pass_threshold = 7205759403792794"

section \<open>Compute budget instructions\<close>

definition default_compute_units :: u32 where "default_compute_units = 200000"

text \<open>\<open>(simulated_units as f64 * 1.1) as u64\<close>, clamped.\<close>

definition compute_limit_from_simulation :: "u64 \<Rightarrow> u32" where
  "compute_limit_from_simulation simulated_units =
     (let product = round53 (round53 (unat simulated_units) * cu_headroom_factor);
          with_headroom = min (product div 2 ^ 52) (2 ^ 64 - 1)
      in word_of_nat (max 1000 (min with_headroom 1400000)))"

text \<open>A quotient of two \<open>u32\<close> values below one, as a significand of 53 bits over \<open>2 ^ s\<close>.\<close>

definition quotient_scale :: "nat \<Rightarrow> nat \<Rightarrow> nat" where
  "quotient_scale a b =
     (case find (\<lambda>s. b * 2 ^ 52 \<le> a * 2 ^ s) [0..<96] of Some s \<Rightarrow> s | None \<Rightarrow> 0)"

definition should_tighten :: "u32 \<Rightarrow> u32 \<Rightarrow> bool" where
  "should_tighten current_limit derived_limit =
     (let a = unat (saturating_sub current_limit derived_limit);
          b = unat current_limit;
          s = quotient_scale a b;
          q = (a * 2 ^ s) div b; r = (a * 2 ^ s) mod b;
          significand = (if b < 2 * r \<or> (b = 2 * r \<and> odd q) then q + 1 else q)
      in 0 < a \<and> 0 < b \<and> two_pass_threshold * 2 ^ s < significand * 2 ^ 56)"

definition is_set_compute_unit_limit_data :: "bytes \<Rightarrow> bool" where
  "is_set_compute_unit_limit_data data \<longleftrightarrow> length data = 5 \<and> data ! 0 = 2"

text \<open>The decompiled form of one compiled instruction.\<close>

definition decompile_instruction :: "sdk \<Rightarrow> message \<Rightarrow> compiled_instruction \<Rightarrow> instruction option" where
  "decompile_instruction S m ix =
     (case key_at m (ci_program_id_index ix) of
        None \<Rightarrow> None
      | Some program_id \<Rightarrow>
          (case those (map (\<lambda>idx. map_option (\<lambda>k.
                  \<lparr>am_pubkey = k, am_is_signer = sdk_is_signer S m (unat idx),
                   am_is_writable = sdk_is_maybe_writable S m (unat idx)\<rparr>) (key_at m idx))
                (ci_accounts ix)) of
             None \<Rightarrow> None
           | Some accounts \<Rightarrow>
               Some \<lparr>in_program_id = program_id, in_accounts = accounts, in_data = ci_data ix\<rparr>))"

definition first_key :: "message \<Rightarrow> pubkey option" where
  "first_key m = (case msg_account_keys m of [] \<Rightarrow> None | k # _ \<Rightarrow> Some k)"

definition is_limit_instruction :: "sdk \<Rightarrow> message \<Rightarrow> compiled_instruction \<Rightarrow> bool" where
  "is_limit_instruction S m ix \<longleftrightarrow>
     key_at m (ci_program_id_index ix) = Some (sdk_compute_budget_id S)
   \<and> is_set_compute_unit_limit_data (ci_data ix)"

definition replace_compute_unit_limit ::
    "sdk \<Rightarrow> transaction \<Rightarrow> u32 \<Rightarrow> (bool \<times> transaction) option" where
  "replace_compute_unit_limit S tx new_limit =
     (let m = tx_message tx;
          found = (\<exists>ix \<in> set (msg_instructions m). is_limit_instruction S m ix)
      in case those (map (\<lambda>ix. if is_limit_instruction S m ix
                               then Some (sdk_set_compute_unit_limit S new_limit)
                               else decompile_instruction S m ix) (msg_instructions m)) of
           None \<Rightarrow> None
         | Some new_instructions \<Rightarrow>
             Some (if found
                   then (True, tx\<lparr>tx_message :=
                     (sdk_message_new S new_instructions (first_key m))
                       \<lparr>msg_recent_blockhash := msg_recent_blockhash m\<rparr>\<rparr>)
                   else (False, tx)))"

definition has_compute_budget_instructions :: "sdk \<Rightarrow> transaction \<Rightarrow> bool" where
  "has_compute_budget_instructions S tx \<longleftrightarrow>
     (\<exists>ix \<in> set (msg_instructions (tx_message tx)).
        key_at (tx_message tx) (ci_program_id_index ix) = Some (sdk_compute_budget_id S))"

definition prepend_compute_budget ::
    "sdk \<Rightarrow> transaction \<Rightarrow> u32 \<Rightarrow> u64 \<Rightarrow> (bool \<times> transaction) option" where
  "prepend_compute_budget S tx compute_unit_limit priority_fee_microlamports =
     (if has_compute_budget_instructions S tx then Some (False, tx)
      else
        (let m = tx_message tx;
             budget = sdk_set_compute_unit_limit S compute_unit_limit
               # (if 0 < priority_fee_microlamports
                  then [sdk_set_compute_unit_price S priority_fee_microlamports] else [])
         in case those (map (decompile_instruction S m) (msg_instructions m)) of
              None \<Rightarrow> None
            | Some original_instructions \<Rightarrow>
                Some (True, tx\<lparr>tx_message :=
                  sdk_message_new S (budget @ original_instructions) (first_key m)\<rparr>)))"

section \<open>Priority fees\<close>

datatype priority_fee_strategy =
    FeeNone
  | FeeFixed u64
  | FeePercentile u8 "string list"
  | FeeDynamic u64

definition estimate_percentile :: "u64 list \<Rightarrow> u8 \<Rightarrow> u64" where
  "estimate_percentile fees percentile =
     (if fees = [] then 0
      else
        (let values = sort fees; idx = (unat percentile * length values) div 100
         in values ! min idx (length values - 1)))"

text \<open>\<open>fees\<close> is \<open>get_recent_prioritization_fees\<close> of the RPC client.\<close>

fun resolve_priority_fee ::
    "(string list \<Rightarrow> 'e + u64 list) \<Rightarrow> priority_fee_strategy \<Rightarrow> string list \<Rightarrow> 'e + u64" where
  "resolve_priority_fee fees FeeNone relevant_accounts = Inr 0"
| "resolve_priority_fee fees (FeeFixed fee) relevant_accounts = Inr fee"
| "resolve_priority_fee fees (FeePercentile percentile accounts) relevant_accounts =
     try_bind (fees accounts) (\<lambda>fs. Inr (estimate_percentile fs percentile))"
| "resolve_priority_fee fees (FeeDynamic max_microlamports) relevant_accounts =
     try_bind (fees relevant_accounts) (\<lambda>fs. Inr (min (estimate_percentile fs 75) max_microlamports))"

section \<open>Simulation\<close>

record rpc_simulation =
  rs_err :: "string option"          \<comment> \<open>the \<open>Debug\<close> text of the error\<close>
  rs_logs :: "string list option"
  rs_return_data :: "string option"

text \<open>\<open>split_whitespace\<close> and \<open>contains\<close> on the ASCII text of a log line.\<close>

definition is_whitespace :: "char \<Rightarrow> bool" where
  "is_whitespace c = (let n = of_char c :: nat in (9 \<le> n \<and> n \<le> 13) \<or> n = 32)"

fun split_words :: "string \<Rightarrow> string \<Rightarrow> string list" where
  "split_words word [] = (if word = [] then [] else [rev word])"
| "split_words word (c # cs) =
     (if is_whitespace c then (if word = [] then split_words [] cs else rev word # split_words [] cs)
      else split_words (c # word) cs)"

definition split_whitespace :: "string \<Rightarrow> string list" where
  "split_whitespace s = split_words [] s"

fun str_contains :: "string \<Rightarrow> string \<Rightarrow> bool" where
  "str_contains [] p = (p = [])"
| "str_contains (c # cs) p = (take (length p) (c # cs) = p \<or> str_contains cs p)"

definition digit_value :: "char \<Rightarrow> nat option" where
  "digit_value c = (let n = of_char c :: nat in if 48 \<le> n \<and> n \<le> 57 then Some (n - 48) else None)"

text \<open>\<open>str::parse::<u64>\<close>: an optional plus sign, at least one digit, no overflow.\<close>

definition parse_u64 :: "string \<Rightarrow> u64 option" where
  "parse_u64 s =
     (let ds = (case s of CHR ''+'' # cs \<Rightarrow> cs | _ \<Rightarrow> s) in
      if ds = [] then None
      else case those (map digit_value ds) of
        None \<Rightarrow> None
      | Some vs \<Rightarrow>
          (let n = foldl (\<lambda>acc d. acc * 10 + d) 0 vs in
           if n < 2 ^ 64 then Some (word_of_nat n) else None))"

fun word_after :: "string \<Rightarrow> string list \<Rightarrow> string option" where
  "word_after w [] = None"
| "word_after w (x # xs) = (if x = w then (case xs of [] \<Rightarrow> None | y # _ \<Rightarrow> Some y) else word_after w xs)"

definition consumed_units :: "string \<Rightarrow> u64 option" where
  "consumed_units log =
     (if str_contains log ''consumed'' \<and> str_contains log ''compute units''
      then Option.bind (word_after ''consumed'' (split_whitespace log)) parse_u64
      else None)"

fun find_map :: "('a \<Rightarrow> 'b option) \<Rightarrow> 'a list \<Rightarrow> 'b option" where
  "find_map f [] = None"
| "find_map f (x # xs) = (case f x of Some y \<Rightarrow> Some y | None \<Rightarrow> find_map f xs)"

text \<open>The output structure has the fields of \<open>simulation_result\<close>; \<open>into_result\<close> copies them.\<close>

definition simulation_output :: "rpc_simulation \<Rightarrow> simulation_result" where
  "simulation_output v =
     (let logs = (case rs_logs v of None \<Rightarrow> [] | Some ls \<Rightarrow> ls) in
      \<lparr>sim_success = (rs_err v = None), sim_error = rs_err v,
       sim_compute_units_used = find_map consumed_units (rev logs), sim_logs = logs,
       sim_return_data = rs_return_data v, sim_account_diffs = [], sim_fee_lamports = None\<rparr>)"

section \<open>The blockhash cache\<close>

record blockhash_entry =
  be_hash :: blockhash
  be_last_valid_block_height :: u64
  be_fetched_at :: nat              \<comment> \<open>monotonic clock, milliseconds\<close>

definition stale_slot_buffer :: u64 where "stale_slot_buffer = 20"

definition entry_is_valid :: "blockhash_entry \<Rightarrow> u64 \<Rightarrow> bool" where
  "entry_is_valid e current_block_height =
     (current_block_height + stale_slot_buffer < be_last_valid_block_height e)"

definition blockhash_ttl :: nat where "blockhash_ttl = 30000"

text \<open>\<open>fetch\<close> is \<open>fetch_fresh\<close>: the node's answer, stamped with the time it arrived.\<close>

definition get_fresh ::
    "nat \<Rightarrow> ('e + blockhash_entry) \<Rightarrow> blockhash_entry option \<Rightarrow>
     ('e + (blockhash \<times> u64)) \<times> blockhash_entry option" where
  "get_fresh now fetch cache =
     (case cache of
        Some entry \<Rightarrow>
          (if now - be_fetched_at entry < blockhash_ttl
           then (Inr (be_hash entry, be_last_valid_block_height entry), cache)
           else case fetch of
             Inl e \<Rightarrow> (Inl e, cache)
           | Inr f \<Rightarrow> (Inr (be_hash f, be_last_valid_block_height f), Some f))
      | None \<Rightarrow>
          (case fetch of
             Inl e \<Rightarrow> (Inl e, None)
           | Inr f \<Rightarrow> (Inr (be_hash f, be_last_valid_block_height f), Some f)))"

end
