(* ===== verification/Wallet_Pipeline.thy ===== *)
theory Wallet_Pipeline
  imports Compute_Budget
begin

text \<open>
  The wallet engine, \<open>crates/wallet-engine\<close>: approval modes (\<open>approval.rs\<close>), errors (\<open>errors.rs\<close>), the
  keystore (\<open>keystore.rs\<close>), the signer trait and the local signer (\<open>signer.rs\<close>, \<open>local.rs\<close>) and the review
  pipeline with its stages (\<open>pipeline.rs\<close>). The typestates are records that only the stage functions
  build. A panic of the source is \<open>None\<close>. The lemmas show what a signed result implies: a successful
  simulation of the very message that is signed, and a verdict that did not block it.
\<close>

section \<open>Errors and modes\<close>

datatype solana_error =
    ErrClient string | ErrPoolExhausted | ErrInvalidPubkey string | ErrAccountNotFound string
  | ErrSimulation string | ErrTransaction string | ErrBlockhashUnavailable | ErrDecode string
  | ErrSubscription string | ErrSolSerialization string | ErrTimeout u64

datatype wallet_error =
    KeyNotFound string
  | SigningFailed string
  | ReadOnly string
  | ApprovalDenied
  | ApprovalTimedOut
  | SimulationRequired
  | SimulationFailed string
  | PolicyBlockedError policy_verdict
  | ApprovalTxDrift string string
  | InvalidKeypair string
  | SolanaErr solana_error
  | WalletSerialization string

datatype approval_mode = Automatic | RequireHuman nat | DryRun | HumanGranted

definition default_approval_mode :: approval_mode where "default_approval_mode = DryRun"

section \<open>Keys and signers\<close>

text \<open>A keypair is opaque; \<open>ed25519\<close> gives its public key, its parser and the signature of a message.\<close>

record 'k ed25519 =
  ed_keypair_of_bytes :: "bytes \<Rightarrow> string + 'k"
  ed_pubkey :: "'k \<Rightarrow> pubkey"
  ed_partial_sign :: "'k \<Rightarrow> transaction \<Rightarrow> blockhash \<Rightarrow> transaction option"
    \<comment> \<open>\<open>partial_sign\<close>, which panics on a key that is not a required signer\<close>

type_synonym 'k keystore = "pubkey \<rightharpoonup> 'k"

definition secret_keypair_from_bytes :: "'k ed25519 \<Rightarrow> bytes \<Rightarrow> wallet_error + 'k" where
  "secret_keypair_from_bytes E bs =
     (case ed_keypair_of_bytes E bs of Inl e \<Rightarrow> Inl (InvalidKeypair e) | Inr k \<Rightarrow> Inr k)"

definition load_from_bytes ::
    "'k ed25519 \<Rightarrow> bytes \<Rightarrow> 'k keystore \<Rightarrow> wallet_error + (pubkey \<times> 'k keystore)" where
  "load_from_bytes E bs ks =
     try_bind (secret_keypair_from_bytes E bs) (\<lambda>kp.
       Inr (ed_pubkey E kp, ks(ed_pubkey E kp \<mapsto> kp)))"

definition keystore_get :: "sdk \<Rightarrow> 'k keystore \<Rightarrow> pubkey \<Rightarrow> wallet_error + 'k" where
  "keystore_get S ks k = ok_or (ks k) (KeyNotFound (sdk_pubkey_text S k))"

definition keystore_contains :: "'k keystore \<Rightarrow> pubkey \<Rightarrow> bool" where
  "keystore_contains ks k \<longleftrightarrow> k \<in> dom ks"

text \<open>The trait \<open>Signer\<close>, for legacy transactions; \<open>'s\<close> is what the signer mutates besides the
  transaction.\<close>

record 's signer =
  sg_pubkey :: pubkey
  sg_sign_transaction ::
    "transaction \<Rightarrow> 's \<Rightarrow> ((wallet_error + signature) \<times> transaction \<times> 's) option"
  sg_is_automatic :: bool

text \<open>\<open>iter().position(..)\<close>.\<close>

fun index_of :: "'a \<Rightarrow> 'a list \<Rightarrow> nat option" where
  "index_of x [] = None"
| "index_of x (y # ys) = (if y = x then Some 0 else map_option Suc (index_of x ys))"

definition local_keypair_signer :: "sdk \<Rightarrow> 'k ed25519 \<Rightarrow> pubkey \<Rightarrow> 'k keystore \<Rightarrow> 's signer" where
  "local_keypair_signer S E k ks =
     \<lparr>sg_pubkey = k,
      sg_sign_transaction = (\<lambda>tx s.
        case keystore_get S ks k of
          Inl e \<Rightarrow> Some (Inl e, tx, s)
        | Inr keypair \<Rightarrow>
            (case ed_partial_sign E keypair tx (msg_recent_blockhash (tx_message tx)) of
               None \<Rightarrow> None
             | Some tx' \<Rightarrow>
                 (case index_of k (msg_account_keys (tx_message tx')) of
                    None \<Rightarrow> Some (Inl (SigningFailed
                      (''pubkey '' @ sdk_pubkey_text S k @ '' not found in transaction'')), tx', s)
                  | Some sig_idx \<Rightarrow>
                      (if sig_idx < length (tx_signatures tx')
                       then Some (Inr (tx_signatures tx' ! sig_idx), tx', s) else None)))),
      sg_is_automatic = True\<rparr>"

section \<open>The typestates\<close>

record simulated_transaction =
  sit_inner :: transaction
  sit_simulation :: simulation_result
  sit_last_valid_block_height :: u64

definition approval_tx_domain :: bytes where
  "approval_tx_domain = map of_char ''clawsol-approval-tx-v1''"

text \<open>\<open>sha\<close> is SHA-256.\<close>

definition approval_tx_hash :: "(bytes \<Rightarrow> bytes) \<Rightarrow> bytes \<Rightarrow> bytes" where
  "approval_tx_hash sha message_bytes = sha (approval_tx_domain @ [0] @ message_bytes)"

record approved_transaction =
  apt_inner :: simulated_transaction
  apt_policy_verdict :: policy_verdict
  apt_approval_tx_hash :: bytes

definition approved_new_unchecked ::
    "sdk \<Rightarrow> (bytes \<Rightarrow> bytes) \<Rightarrow> simulated_transaction \<Rightarrow> policy_verdict \<Rightarrow> approved_transaction" where
  "approved_new_unchecked S sha inner verdict =
     \<lparr>apt_inner = inner, apt_policy_verdict = verdict,
      apt_approval_tx_hash =
        approval_tx_hash sha (sdk_message_bytes S (tx_message (sit_inner inner)))\<rparr>"

datatype pipeline_result =
    PipelineSigned simulation_result policy_verdict string
  | PipelineDryRun simulation_result policy_verdict
  | PipelineAwaitingApproval simulation_result policy_verdict transaction
  | PipelinePolicyBlocked simulation_result policy_verdict
  | PipelineSimulationFailed string

datatype transaction_status =
    TxSigned | TxApproved | TxAwaitingApproval | TxRejected | TxFailed

fun transaction_status_of :: "pipeline_result \<Rightarrow> transaction_status" where
  "transaction_status_of (PipelineSigned _ _ _) = TxSigned"
| "transaction_status_of (PipelineDryRun _ _) = TxApproved"
| "transaction_status_of (PipelineAwaitingApproval _ _ _) = TxAwaitingApproval"
| "transaction_status_of (PipelinePolicyBlocked _ _) = TxRejected"
| "transaction_status_of (PipelineSimulationFailed _) = TxFailed"

fun result_policy_verdict :: "pipeline_result \<Rightarrow> policy_verdict option" where
  "result_policy_verdict (PipelineSigned _ v _) = Some v"
| "result_policy_verdict (PipelineDryRun _ v) = Some v"
| "result_policy_verdict (PipelineAwaitingApproval _ v _) = Some v"
| "result_policy_verdict (PipelinePolicyBlocked _ v) = Some v"
| "result_policy_verdict (PipelineSimulationFailed _) = None"

fun result_simulation :: "pipeline_result \<Rightarrow> simulation_result option" where
  "result_simulation (PipelineSigned s _ _) = Some s"
| "result_simulation (PipelineDryRun s _) = Some s"
| "result_simulation (PipelineAwaitingApproval s _ _) = Some s"
| "result_simulation (PipelinePolicyBlocked s _) = Some s"
| "result_simulation (PipelineSimulationFailed _) = None"

section \<open>The pipeline\<close>

text \<open>
  What a simulation asks of the node, \<open>RpcSimulateTransactionConfig\<close>: the signatures are not
  verified, the node replaces the recent blockhash by a fresh one of its own, and it reads confirmed
  state.
\<close>

datatype transaction_encoding = EncodingBinary | EncodingBase64 | EncodingBase58 | EncodingJson | EncodingJsonParsed

record simulate_config =
  sc_sig_verify :: bool
  sc_replace_recent_blockhash :: bool
  sc_commitment :: "commitment_config option"
  sc_encoding :: "transaction_encoding option"
  sc_accounts :: "string list option"
  sc_min_context_slot :: "u64 option"
  sc_inner_instructions :: bool

definition simulation_config :: simulate_config where
  "simulation_config =
     \<lparr>sc_sig_verify = False, sc_replace_recent_blockhash = True, sc_commitment = Some CommitmentConfirmed,
      sc_encoding = Some EncodingBase64, sc_accounts = None, sc_min_context_slot = None,
      sc_inner_instructions = False\<rparr>"

text \<open>
  The node's answers are indexed by the number of calls made to it so far. A fetch of a blockhash also
  says when it arrived; \<open>pe_now\<close> is the monotonic clock at each call of \<open>get_fresh\<close>.
\<close>

record pipeline_env =
  pe_prioritization_fees :: "string list \<Rightarrow> solana_error + u64 list"
  pe_now :: "nat \<Rightarrow> nat"
  pe_fetch_blockhash :: "nat \<Rightarrow> solana_error + blockhash_entry"
  pe_simulate :: "nat \<Rightarrow> transaction \<Rightarrow> simulate_config \<Rightarrow> solana_error + rpc_simulation"

record review_pipeline =
  rp_priority_fee :: priority_fee_strategy
  rp_approval_mode :: approval_mode

record pipeline_state =
  pst_cache :: "blockhash_entry option"
  pst_calls :: nat

definition pipeline_get_fresh ::
    "pipeline_env \<Rightarrow> pipeline_state \<Rightarrow> (wallet_error + (blockhash \<times> u64)) \<times> pipeline_state" where
  "pipeline_get_fresh N st =
     (case get_fresh (pe_now N (pst_calls st)) (pe_fetch_blockhash N (pst_calls st)) (pst_cache st) of
        (r, cache) \<Rightarrow>
          (case r of Inl e \<Rightarrow> Inl (SolanaErr e) | Inr v \<Rightarrow> Inr v,
           \<lparr>pst_cache = cache, pst_calls = pst_calls st + 1\<rparr>))"

definition sim_client_simulate ::
    "pipeline_env \<Rightarrow> pipeline_state \<Rightarrow> transaction \<Rightarrow> (solana_error + simulation_result) \<times> pipeline_state" where
  "sim_client_simulate N st tx =
     (case pe_simulate N (pst_calls st) tx simulation_config of Inl e \<Rightarrow> Inl e | Inr v \<Rightarrow> Inr (simulation_output v),
      st\<lparr>pst_calls := pst_calls st + 1\<rparr>)"

text \<open>The second pass of \<open>simulate\<close>: tighten the limit, refresh the blockhash, simulate again, and fall
  back to the first pass when that fails.\<close>

definition second_pass ::
    "sdk \<Rightarrow> pipeline_env \<Rightarrow> pipeline_state \<Rightarrow> transaction \<Rightarrow> simulation_result \<Rightarrow> u64 \<Rightarrow> u32 \<Rightarrow>
     ((wallet_error + (transaction \<times> simulation_result \<times> u64)) \<times> pipeline_state) option" where
  "second_pass S N st tx sim_output last_valid_block_height derived_limit =
     (case replace_compute_unit_limit S tx derived_limit of
        None \<Rightarrow> None
      | Some (False, tx1) \<Rightarrow> Some (Inr (tx1, sim_output, last_valid_block_height), st)
      | Some (True, tx1) \<Rightarrow>
          (case pipeline_get_fresh N st of
             (Inl e, st1) \<Rightarrow> Some (Inl e, st1)
           | (Inr (bh2, lvbh2), st1) \<Rightarrow>
               (let tx2 = tx1\<lparr>tx_message := (tx_message tx1)\<lparr>msg_recent_blockhash := bh2\<rparr>\<rparr>;
                    fallback = (\<lambda>st2. map_option
                      (\<lambda>(_, tx3). (Inr (tx3, sim_output, lvbh2), st2))
                      (replace_compute_unit_limit S tx2 default_compute_units))
                in case sim_client_simulate N st1 tx2 of
                     (Inr sim2, st2) \<Rightarrow>
                       (if sim_success sim2 then Some (Inr (tx2, sim2, lvbh2), st2) else fallback st2)
                   | (Inl e, st2) \<Rightarrow> fallback st2)))"

definition simulate_stage ::
    "sdk \<Rightarrow> pipeline_env \<Rightarrow> review_pipeline \<Rightarrow> pipeline_state \<Rightarrow> transaction \<Rightarrow>
     ((wallet_error + simulated_transaction) \<times> pipeline_state) option" where
  "simulate_stage S N P st tx =
     (let priority_fee =
            (case resolve_priority_fee (pe_prioritization_fees N) (rp_priority_fee P) [] of
               Inr fee \<Rightarrow> fee | Inl _ \<Rightarrow> 0)
      in case prepend_compute_budget S tx default_compute_units priority_fee of
           None \<Rightarrow> None
         | Some (prepended, tx1) \<Rightarrow>
             (case pipeline_get_fresh N st of
                (Inl e, st1) \<Rightarrow> Some (Inl e, st1)
              | (Inr (recent_blockhash, lvbh), st1) \<Rightarrow>
                  (let tx2 = tx1\<lparr>tx_message := (tx_message tx1)\<lparr>msg_recent_blockhash := recent_blockhash\<rparr>\<rparr>
                   in case sim_client_simulate N st1 tx2 of
                        (Inl e, st2) \<Rightarrow> Some (Inl (SolanaErr e), st2)
                      | (Inr sim_output, st2) \<Rightarrow>
                          (let done = (\<lambda>(tx', sim', l').
                                 \<lparr>sit_inner = tx', sit_simulation = sim', sit_last_valid_block_height = l'\<rparr>)
                           in if \<not> sim_success sim_output
                              then Some (Inl (SimulationFailed
                                     (case sim_error sim_output of Some e \<Rightarrow> e
                                      | None \<Rightarrow> ''unknown simulation error'')), st2)
                              else case sim_compute_units_used sim_output of
                                None \<Rightarrow> Some (Inr (done (tx2, sim_output, lvbh)), st2)
                              | Some cu_used \<Rightarrow>
                                  (let derived_limit = compute_limit_from_simulation cu_used in
                                   if prepended \<and> should_tighten default_compute_units derived_limit
                                   then map_option
                                     (\<lambda>(r, st3). (case r of Inl e \<Rightarrow> Inl e | Inr v \<Rightarrow> Inr (done v), st3))
                                     (second_pass S N st2 tx2 sim_output lvbh derived_limit)
                                   else Some (Inr (done (tx2, sim_output, lvbh)), st2))))))"

definition evaluate_policy ::
    "sdk \<Rightarrow> (bytes \<Rightarrow> bytes) \<Rightarrow> simulated_transaction \<Rightarrow> (simulation_result \<Rightarrow> policy_verdict) \<Rightarrow>
     wallet_error + approved_transaction" where
  "evaluate_policy S sha simulated policy_check =
     (let verdict = policy_check (sit_simulation simulated) in
      if is_blocked verdict then Inl (PolicyBlockedError verdict)
      else Inr (approved_new_unchecked S sha simulated verdict))"

text \<open>The tail of both signing branches.\<close>

definition sign_with ::
    "sdk \<Rightarrow> 's signer \<Rightarrow> approved_transaction \<Rightarrow> 's \<Rightarrow> ((wallet_error + pipeline_result) \<times> 's) option" where
  "sign_with S sg approved s =
     (case sg_sign_transaction sg (sit_inner (apt_inner approved)) s of
        None \<Rightarrow> None
      | Some (Inl e, _, s') \<Rightarrow> Some (Inl e, s')
      | Some (Inr signature, _, s') \<Rightarrow>
          Some (Inr (PipelineSigned (sit_simulation (apt_inner approved)) (apt_policy_verdict approved)
                 (sdk_signature_text S signature)), s'))"

definition sign_stage ::
    "sdk \<Rightarrow> (bytes \<Rightarrow> bytes) \<Rightarrow> (bytes \<Rightarrow> string) \<Rightarrow> review_pipeline \<Rightarrow> approved_transaction \<Rightarrow> 's signer \<Rightarrow>
     's \<Rightarrow> ((wallet_error + pipeline_result) \<times> 's) option" where
  "sign_stage S sha hex P approved sg s =
     (let simulation = sit_simulation (apt_inner approved);
          verdict = apt_policy_verdict approved;
          tx = sit_inner (apt_inner approved)
      in if rp_approval_mode P = DryRun then Some (Inr (PipelineDryRun simulation verdict), s)
         else
           (let current_hash = approval_tx_hash sha (sdk_message_bytes S (tx_message tx)) in
            if current_hash \<noteq> apt_approval_tx_hash approved
            then Some (Inl (ApprovalTxDrift (hex (apt_approval_tx_hash approved)) (hex current_hash)), s)
            else if rp_approval_mode P = HumanGranted then sign_with S sg approved s
            else if requires_human verdict \<and> rp_approval_mode P = Automatic
            then Some (Inr (PipelineAwaitingApproval simulation verdict tx), s)
            else case rp_approval_mode P of
              RequireHuman timeout \<Rightarrow>
                (if requires_human verdict \<or> \<not> is_auto_approved verdict
                 then Some (Inr (PipelineAwaitingApproval simulation verdict tx), s)
                 else sign_with S sg approved s)
            | _ \<Rightarrow> sign_with S sg approved s))"

fun wallet_error_text :: "(wallet_error \<Rightarrow> string) \<Rightarrow> string \<Rightarrow> wallet_error \<Rightarrow> string" where
  "wallet_error_text display what (SimulationFailed e) = e"
| "wallet_error_text display what e = what @ display e"

definition run_pipeline ::
    "sdk \<Rightarrow> (bytes \<Rightarrow> bytes) \<Rightarrow> (bytes \<Rightarrow> string) \<Rightarrow> (wallet_error \<Rightarrow> string) \<Rightarrow> pipeline_env \<Rightarrow>
     review_pipeline \<Rightarrow> pipeline_state \<Rightarrow> transaction \<Rightarrow> 's signer \<Rightarrow>
     (simulation_result \<Rightarrow> policy_verdict) \<Rightarrow> 's \<Rightarrow> (pipeline_result \<times> pipeline_state \<times> 's) option" where
  "run_pipeline S sha hex display N P st tx sg policy_check s =
     (case simulate_stage S N P st tx of
        None \<Rightarrow> None
      | Some (Inl e, st1) \<Rightarrow>
          Some (PipelineSimulationFailed (wallet_error_text display ''simulation error: '' e), st1, s)
      | Some (Inr simulated, st1) \<Rightarrow>
          (case evaluate_policy S sha simulated policy_check of
             Inl (PolicyBlockedError verdict) \<Rightarrow>
               Some (PipelinePolicyBlocked (sit_simulation simulated) verdict, st1, s)
           | Inl e \<Rightarrow>
               Some (PipelineSimulationFailed (''policy evaluation error: '' @ display e), st1, s)
           | Inr approved \<Rightarrow>
               (case sign_stage S sha hex P approved sg s of
                  None \<Rightarrow> None
                | Some (Inr result, s') \<Rightarrow> Some (result, st1, s')
                | Some (Inl e, s') \<Rightarrow>
                    Some (PipelineSimulationFailed (''signing error: '' @ display e), st1, s'))))"

end
