(* ===== verification/Controlled_Wallet.thy ===== *)
theory Controlled_Wallet
  imports Wallet_Pipeline Policy_Engine
begin

text \<open>
  The controlled wallet of the executor, \<open>bins/solfrontier-mcp/src/watch_wallet.rs\<close>: loading the pinned key,
  the canonical shape that a transaction must have, the risk policy built for it, the signer that
  captures exactly what it signed, and \<open>review_and_sign\<close>, which drives the wallet pipeline. The lemmas
  read back what signed bytes imply.
\<close>

section \<open>Errors and constants\<close>

datatype watch_wallet_error =
    KeypairConfigMissing | KeypairReadFailed | KeypairFormatInvalid | ControlledWalletMismatch
  | TransactionShapeRejected | SerializationFailed | AuditOutputFailed | AuditIntegrityFailed
  | PipelineSimFailed | PolicyRejected | PolicyNotAutoApproved | WalletSigningFailed
  | SignedCaptureMissing | CaptureUnavailable | MessageBytesChanged | SignatureInvalid

fun watch_wallet_error_class :: "watch_wallet_error \<Rightarrow> string" where
  "watch_wallet_error_class KeypairConfigMissing = ''controlled_keypair_config_missing''"
| "watch_wallet_error_class KeypairReadFailed = ''controlled_keypair_read_failed''"
| "watch_wallet_error_class KeypairFormatInvalid = ''controlled_keypair_format_invalid''"
| "watch_wallet_error_class ControlledWalletMismatch = ''controlled_wallet_mismatch''"
| "watch_wallet_error_class TransactionShapeRejected = ''transaction_shape_rejected''"
| "watch_wallet_error_class SerializationFailed = ''transaction_serialization_failed''"
| "watch_wallet_error_class AuditOutputFailed =
     ''execute_transaction_review_serialization_failed_before_signing''"
| "watch_wallet_error_class AuditIntegrityFailed =
     ''execute_transaction_review_integrity_failed_before_signing''"
| "watch_wallet_error_class PipelineSimFailed = ''wallet_pipeline_simulation_failed''"
| "watch_wallet_error_class PolicyRejected = ''risk_policy_rejected''"
| "watch_wallet_error_class PolicyNotAutoApproved = ''risk_policy_not_auto_approved''"
| "watch_wallet_error_class WalletSigningFailed = ''controlled_wallet_signing_failed''"
| "watch_wallet_error_class SignedCaptureMissing = ''signed_transaction_capture_missing''"
| "watch_wallet_error_class CaptureUnavailable = ''signed_transaction_capture_unavailable''"
| "watch_wallet_error_class MessageBytesChanged = ''reviewed_message_bytes_changed''"
| "watch_wallet_error_class SignatureInvalid = ''signed_transaction_signature_invalid''"

definition audited_solend_program_bs58 :: string where
  "audited_solend_program_bs58 = ''So1endDq2YkqhipRh3WViPa8hdiSpxWy6z3Z6tMCpAo''"

definition classic_token_program_bs58 :: string where
  "classic_token_program_bs58 = ''TokenkegQfeZyiNwAJbNbGKPFXCWuBvf9Ss623VQ5DA''"

definition mainnet_usdc_mint_bs58 :: string where
  "mainnet_usdc_mint_bs58 = ''EPjFWdd5AufqSSqeM2qN1xzybapC8G4wEGGkZwyTDt1v''"

definition solend_refresh_reserve_tag :: u8 where "solend_refresh_reserve_tag = 3"
definition solend_deposit_and_obligation_tag :: u8 where "solend_deposit_and_obligation_tag = 14"
definition expected_instruction_count :: nat where "expected_instruction_count = 4"
definition expected_deposit_account_count :: nat where "expected_deposit_account_count = 14"

definition reviewed_compute_unit_limit_data :: bytes where
  "reviewed_compute_unit_limit_data = [2, 0x80, 0x1a, 0x06, 0]"

definition reviewed_compute_unit_price_data :: bytes where
  "reviewed_compute_unit_price_data = [3, 0x50, 0xc3, 0, 0, 0, 0, 0, 0]"

record canonical_execution_policy =
  cep_solend_program_id :: pubkey
  cep_input_mint :: pubkey
  cep_input_amount_raw :: u64
  cep_source_liquidity :: pubkey
  cep_reserve_liquidity_supply :: pubkey
  cep_expected_message_bytes :: bytes

section \<open>Loading the key\<close>

record 's loaded_controlled_wallet =
  lcw_pubkey :: pubkey
  lcw_signer :: "'s signer"

text \<open>
  \<open>file\<close> is what reading the path gave, \<open>json\<close> the JSON parser of a byte array. Besides the result: the
  contents of the two buffers when the function returns, the file buffer and the parsed key.
\<close>

definition load_controlled_wallet ::
    "sdk \<Rightarrow> 'k ed25519 \<Rightarrow> (bytes \<Rightarrow> bytes option) \<Rightarrow> bytes option \<Rightarrow> pubkey \<Rightarrow>
     (watch_wallet_error + 's loaded_controlled_wallet) \<times> bytes \<times> bytes" where
  "load_controlled_wallet S E json file pinned_pubkey =
     (case file of
        None \<Rightarrow> (Inl KeypairReadFailed, [], [])
      | Some key_file_bytes \<Rightarrow>
          (let cleared = map (\<lambda>_. 0) key_file_bytes in
           case json key_file_bytes of
             None \<Rightarrow> (Inl KeypairFormatInvalid, cleared, [])
           | Some parsed_key_bytes \<Rightarrow>
               (case load_from_bytes E parsed_key_bytes Map.empty of
                  Inl _ \<Rightarrow> Inl KeypairFormatInvalid
                | Inr (loaded_pubkey, keystore) \<Rightarrow>
                    (if loaded_pubkey \<noteq> pinned_pubkey then Inl ControlledWalletMismatch
                     else Inr \<lparr>lcw_pubkey = loaded_pubkey,
                               lcw_signer = local_keypair_signer S E loaded_pubkey keystore\<rparr>),
                cleared, map (\<lambda>_. 0) parsed_key_bytes)))"

section \<open>What was signed\<close>

record reviewed_signed_transaction =
  rst_signature :: signature
  rst_signer_pubkey :: pubkey
  rst_last_valid_block_height :: u64
  rst_approved_message_bytes :: bytes
  rst_signed_message_bytes :: bytes
  rst_signed_transaction_bytes :: bytes

definition submission_bytes :: "sdk \<Rightarrow> reviewed_signed_transaction \<Rightarrow> watch_wallet_error + bytes" where
  "submission_bytes S r =
     (if rst_approved_message_bytes r \<noteq> rst_signed_message_bytes r then Inl MessageBytesChanged
      else
        try_bind (map_err (\<lambda>_. SerializationFailed) (sdk_bincode_parse S (rst_signed_transaction_bytes r))) (\<lambda>tx.
          let pre_submit_message_bytes = sdk_message_bytes S (tx_message tx) in
          if pre_submit_message_bytes \<noteq> rst_approved_message_bytes r
             \<or> pre_submit_message_bytes \<noteq> rst_signed_message_bytes r
          then Inl MessageBytesChanged
          else
            try_bind (ok_or (index_of (rst_signer_pubkey r) (msg_account_keys (tx_message tx)))
                        SignatureInvalid) (\<lambda>signer_index.
            try_bind (ok_or (if signer_index < length (tx_signatures tx)
                             then Some (tx_signatures tx ! signer_index) else None)
                        SignatureInvalid) (\<lambda>signature.
              if rst_signature r = default_signature \<or> signature \<noteq> rst_signature r
              then Inl SignatureInvalid
              else if \<not> sdk_verify S tx then Inl SignatureInvalid
              else Inr (rst_signed_transaction_bytes r)))))"

record signed_capture =
  sc_signature :: signature
  sc_message_bytes :: bytes
  sc_transaction_bytes :: bytes

text \<open>The wrapper around the wallet's signer; its state is that of the signer and the capture slot.\<close>

definition capturing_signer :: "sdk \<Rightarrow> 's signer \<Rightarrow> ('s \<times> signed_capture option) signer" where
  "capturing_signer S inner =
     \<lparr>sg_pubkey = sg_pubkey inner,
      sg_sign_transaction = (\<lambda>tx (s, slot).
        let before = sdk_message_bytes S (tx_message tx) in
        case sg_sign_transaction inner tx s of
          None \<Rightarrow> None
        | Some (Inl e, tx', s') \<Rightarrow> Some (Inl e, tx', (s', slot))
        | Some (Inr signature, tx', s') \<Rightarrow>
            (let after = sdk_message_bytes S (tx_message tx') in
             if before \<noteq> after
             then Some (Inl (SigningFailed ''capturing_signer_message_changed''), tx', (s', slot))
             else case sdk_bincode S tx' of
               None \<Rightarrow> Some (Inl (WalletSerialization ''signed_capture_failed''), tx', (s', slot))
             | Some transaction_bytes \<Rightarrow>
                 (case slot of
                    Some _ \<Rightarrow>
                      Some (Inl (SigningFailed ''signed_capture_already_present''), tx', (s', slot))
                  | None \<Rightarrow>
                      Some (Inr signature, tx',
                        (s', Some \<lparr>sc_signature = signature, sc_message_bytes = after,
                                   sc_transaction_bytes = transaction_bytes\<rparr>))))),
      sg_is_automatic = sg_is_automatic inner\<rparr>"

section \<open>The policy\<close>

definition reject_rule :: "string \<Rightarrow> string \<Rightarrow> 'f policy_condition \<Rightarrow> string \<Rightarrow> 'f policy_rule" where
  "reject_rule name description condition reason =
     \<lparr>pr_name = name, pr_description = description, pr_condition = condition,
      pr_action = ActionReject reason\<rparr>"

definition execution_policy ::
    "sdk \<Rightarrow> canonical_execution_policy \<Rightarrow> watch_wallet_error + 'f policy_set" where
  "execution_policy S canonical =
     try_bind (ok_or (checked_add (cep_input_amount_raw canonical) 1) TransactionShapeRejected)
       (\<lambda>approved_limit. Inr
         \<lparr>ps_rules =
            [reject_rule ''simulation-required'' ''Reject transactions without a successful simulation''
               SimulationNotPassed ''simulation did not pass'',
             reject_rule ''program-allowlist'' ''Reject programs outside ComputeBudget and pinned Solend''
               ProgramNotInAllowlist ''program outside executor allowlist'',
             reject_rule ''legacy-token-transfer'' ''Reject opaque legacy token transfers''
               LegacyTokenTransferPresent ''legacy token transfer is not reviewable'',
             reject_rule ''usdc-only'' ''Reject any non-USDC token movement''
               (MintNotInAllowlist [mainnet_usdc_mint_bs58]) ''executor permits only mainnet USDC'',
             reject_rule ''canonical-amount-cap'' ''Reject token movement above the fingerprint-bound amount''
               (TokenAmountExceeds mainnet_usdc_mint_bs58 approved_limit) ''amount exceeds canonical intent'',
             \<lparr>pr_name = ''canonical-solend-deposit'',
              pr_description = ''Approve the fully validated canonical Solend deposit'',
              pr_condition = Always, pr_action = ActionApprove\<rparr>],
          ps_program_allowlist =
            [sdk_pubkey_text S (sdk_compute_budget_id S), audited_solend_program_bs58],
          ps_destination_denylist = []\<rparr>)"

section \<open>The canonical shape\<close>

definition normalized_message :: "transaction \<Rightarrow> message" where
  "normalized_message tx = (tx_message tx)\<lparr>msg_recent_blockhash := default_blockhash\<rparr>"

definition message_matches_builder_template :: "sdk \<Rightarrow> transaction \<Rightarrow> bytes \<Rightarrow> bool" where
  "message_matches_builder_template S tx expected_placeholder_message_bytes \<longleftrightarrow>
     sdk_message_bytes S (normalized_message tx) = expected_placeholder_message_bytes"

definition instruction_account ::
    "transaction \<Rightarrow> compiled_instruction \<Rightarrow> nat \<Rightarrow> watch_wallet_error + pubkey" where
  "instruction_account tx ix position =
     try_bind (ok_or (if position < length (ci_accounts ix) then Some (ci_accounts ix ! position) else None)
                 TransactionShapeRejected) (\<lambda>account_index.
       ok_or (key_at (tx_message tx) account_index) TransactionShapeRejected)"

fun step_description :: "nat \<Rightarrow> string" where
  "step_description n =
     (if n = 0 then ''set compute unit limit''
      else if n = 1 then ''set compute unit price''
      else if n = 2 then ''refresh the fingerprint-bound Solend reserve''
      else if n = 3 then ''deposit the fingerprint-bound USDC amount''
      else ''unsupported instruction'')"

definition summarize_instruction ::
    "sdk \<Rightarrow> transaction \<Rightarrow> canonical_execution_policy \<Rightarrow> nat \<Rightarrow> pubkey \<Rightarrow> compiled_instruction \<Rightarrow>
     watch_wallet_error + instruction_summary" where
  "summarize_instruction S tx canonical instruction_index program_id ix =
     try_bind (collect_results (map (\<lambda>account_index.
         try_bind (ok_or (key_at (tx_message tx) account_index) TransactionShapeRejected) (\<lambda>k.
           Inr \<lparr>ar_pubkey = sdk_pubkey_text S k, ar_label = None,
                ar_is_signer = sdk_is_signer S (tx_message tx) (unat account_index),
                ar_is_writable = sdk_is_maybe_writable S (tx_message tx) (unat account_index)\<rparr>))
       (ci_accounts ix))) (\<lambda>accounts.
     Inr \<lparr>ix_program_id = sdk_pubkey_text S program_id,
          ix_program_name = Some (if program_id = sdk_compute_budget_id S then ''ComputeBudget'' else ''Solend''),
          ix_description = step_description instruction_index,
          ix_transfer_lamports = None,
          ix_token_transfer =
            (if instruction_index = 3
             then Some \<lparr>tt_mint = sdk_pubkey_text S (cep_input_mint canonical),
                        tt_amount = cep_input_amount_raw canonical, tt_decimals = Some 6,
                        tt_source = sdk_pubkey_text S (cep_source_liquidity canonical),
                        tt_destination = sdk_pubkey_text S (cep_reserve_liquidity_supply canonical)\<rparr>
             else None),
          ix_is_legacy_token_transfer = False, ix_accounts = accounts\<rparr>)"

definition validate_and_summarize ::
    "sdk \<Rightarrow> transaction \<Rightarrow> pubkey \<Rightarrow> canonical_execution_policy \<Rightarrow>
     watch_wallet_error + instruction_summary list" where
  "validate_and_summarize S tx controlled_wallet canonical =
     (let audited_solend = sdk_pubkey S audited_solend_program_bs58;
          usdc = sdk_pubkey S mainnet_usdc_mint_bs58;
          token_program = sdk_pubkey S classic_token_program_bs58;
          m = tx_message tx; ixs = msg_instructions m;
          account = (\<lambda>ix position. instruction_account tx ix position)
      in if cep_solend_program_id canonical \<noteq> audited_solend
            \<or> cep_input_mint canonical \<noteq> usdc
            \<or> cep_input_amount_raw canonical = 0
            \<or> \<not> message_matches_builder_template S tx (cep_expected_message_bytes canonical)
            \<or> length ixs \<noteq> expected_instruction_count
            \<or> first_key m \<noteq> Some controlled_wallet
            \<or> mh_num_required_signatures (msg_header m) \<noteq> 1
            \<or> length (tx_signatures tx) \<noteq> 1
            \<or> (\<exists>signature \<in> set (tx_signatures tx). signature \<noteq> default_signature)
         then Inl TransactionShapeRejected
         else
           try_bind (collect_results (map (\<lambda>ix.
               ok_or (key_at m (ci_program_id_index ix)) TransactionShapeRejected) ixs)) (\<lambda>program_ids.
           if program_ids \<noteq> [sdk_compute_budget_id S, sdk_compute_budget_id S, audited_solend, audited_solend]
              \<or> ci_data (ixs ! 0) \<noteq> reviewed_compute_unit_limit_data
              \<or> ci_data (ixs ! 1) \<noteq> reviewed_compute_unit_price_data
           then Inl TransactionShapeRejected
           else if ci_data (ixs ! 2) \<noteq> [solend_refresh_reserve_tag] then Inl TransactionShapeRejected
           else
             (let deposit = ixs ! 3 in
              if length (ci_data deposit) \<noteq> 9
                 \<or> ci_data deposit ! 0 \<noteq> solend_deposit_and_obligation_tag
                 \<or> length (ci_accounts deposit) \<noteq> expected_deposit_account_count
              then Inl TransactionShapeRejected
              else if from_le_bytes (take 8 (drop 1 (ci_data deposit))) \<noteq> cep_input_amount_raw canonical
              then Inl TransactionShapeRejected
              else
                try_bind (account deposit 0) (\<lambda>a0.
                if a0 \<noteq> cep_source_liquidity canonical then Inl TransactionShapeRejected else
                try_bind (account deposit 3) (\<lambda>a3.
                if a3 \<noteq> cep_reserve_liquidity_supply canonical then Inl TransactionShapeRejected else
                try_bind (account deposit 9) (\<lambda>a9.
                if a9 \<noteq> controlled_wallet then Inl TransactionShapeRejected else
                try_bind (account deposit 12) (\<lambda>a12.
                if a12 \<noteq> controlled_wallet then Inl TransactionShapeRejected else
                try_bind (account deposit 13) (\<lambda>a13.
                if a13 \<noteq> token_program then Inl TransactionShapeRejected
                else collect_results (map (\<lambda>(i, ix).
                       summarize_instruction S tx canonical i (program_ids ! i) ix)
                     (enumerate 0 ixs))))))))))"

section \<open>Review and signing\<close>

record ('f, 'o, 'now) wallet_world =
  ww_sdk :: sdk
  ww_sha256 :: "bytes \<Rightarrow> bytes"
  ww_hex :: "bytes \<Rightarrow> string"
  ww_platform :: "('f, 'o, 'now) platform"
  ww_now :: 'now                      \<comment> \<open>the clock of the policy evaluation\<close>
  ww_node :: pipeline_env
  ww_proposal_id :: string
  ww_session_id :: string
  ww_created_at :: i64

definition watch_wallet_pipeline :: review_pipeline where
  "watch_wallet_pipeline = \<lparr>rp_priority_fee = FeeNone, rp_approval_mode = Automatic\<rparr>"

definition execution_proposal ::
    "('f, 'o, 'now) wallet_world \<Rightarrow> pubkey \<Rightarrow> string \<Rightarrow> bytes \<Rightarrow> instruction_summary list \<Rightarrow>
     transaction_proposal" where
  "execution_proposal W wallet intent_id transaction_bytes summaries =
     \<lparr>tp_id = ww_proposal_id W, tp_session_id = ww_session_id W,
      tp_wallet_pubkey = sdk_pubkey_text (ww_sdk W) wallet, tp_network = MainnetBeta,
      tp_description = ''execute canonical Solend deposit for intent '' @ intent_id,
      tp_transaction_b64 = sdk_base64 (ww_sdk W) transaction_bytes,
      tp_instructions_summary = summaries, tp_created_at = ww_created_at W\<rparr>"

text \<open>
  From the simulated transaction on: the audit, the second shape check, the policy, the typestate and
  the signature. \<open>audit\<close> is the continuation that prints the exact message.
\<close>

definition review_simulated ::
    "('f, 'o, 'now) wallet_world \<Rightarrow> 's loaded_controlled_wallet \<Rightarrow> string \<Rightarrow>
     canonical_execution_policy \<Rightarrow> (transaction \<Rightarrow> watch_wallet_error + unit) \<Rightarrow>
     simulated_transaction \<Rightarrow> watch_wallet_error + approved_transaction" where
  "review_simulated W wallet intent_id canonical audit simulated =
     (let S = ww_sdk W; tx = sit_inner simulated in
      try_bind (audit tx) (\<lambda>_.
      try_bind (ok_or (sdk_bincode S tx) SerializationFailed) (\<lambda>finalized_unsigned_bytes.
      try_bind (validate_and_summarize S tx (lcw_pubkey wallet) canonical) (\<lambda>summaries.
      try_bind (execution_policy S canonical) (\<lambda>policy.
        let proposal = execution_proposal W (lcw_pubkey wallet) intent_id finalized_unsigned_bytes summaries;
            evaluation = evaluate_at (ww_platform W) policy
              \<lparr>ctx_proposal = proposal, ctx_simulation_result = Some (sit_simulation simulated),
               ctx_network = MainnetBeta, ctx_session_id = ww_session_id W,
               ctx_session_spend_lamports = 0, ctx_wallet_daily_spend_lamports = 0\<rparr> (ww_now W)
        in case evaluate_policy S (ww_sha256 W) simulated (\<lambda>_. per_verdict evaluation) of
             Inl _ \<Rightarrow> Inl PolicyRejected
           | Inr approved \<Rightarrow>
               (if is_auto_approved (apt_policy_verdict approved) then Inr approved
                else Inl PolicyNotAutoApproved))))))"

definition reviewed_transaction ::
    "sdk \<Rightarrow> 's loaded_controlled_wallet \<Rightarrow> approved_transaction \<Rightarrow> signed_capture \<Rightarrow>
     reviewed_signed_transaction" where
  "reviewed_transaction S wallet approved captured =
     \<lparr>rst_signature = sc_signature captured, rst_signer_pubkey = lcw_pubkey wallet,
      rst_last_valid_block_height = sit_last_valid_block_height (apt_inner approved),
      rst_approved_message_bytes = sdk_message_bytes S (tx_message (sit_inner (apt_inner approved))),
      rst_signed_message_bytes = sc_message_bytes captured,
      rst_signed_transaction_bytes = sc_transaction_bytes captured\<rparr>"

definition sign_reviewed ::
    "('f, 'o, 'now) wallet_world \<Rightarrow> 's loaded_controlled_wallet \<Rightarrow> approved_transaction \<Rightarrow> 's \<Rightarrow>
     ((watch_wallet_error + reviewed_signed_transaction) \<times> 's) option" where
  "sign_reviewed W wallet approved s =
     (let S = ww_sdk W
      in case sign_stage S (ww_sha256 W) (ww_hex W) watch_wallet_pipeline approved
                (capturing_signer S (lcw_signer wallet)) (s, None) of
           None \<Rightarrow> None
         | Some (Inr (PipelineSigned _ _ pipeline_signature), (s', slot)) \<Rightarrow>
             Some (try_bind (ok_or slot SignedCaptureMissing) (\<lambda>captured.
                 if pipeline_signature \<noteq> sdk_signature_text S (sc_signature captured)
                 then Inl SignatureInvalid
                 else
                   (let reviewed = reviewed_transaction S wallet approved captured
                    in try_bind (submission_bytes S reviewed) (\<lambda>_. Inr reviewed))), s')
         | Some (_, (s', slot)) \<Rightarrow> Some (Inl WalletSigningFailed, s'))"

definition review_and_sign ::
    "('f, 'o, 'now) wallet_world \<Rightarrow> 's loaded_controlled_wallet \<Rightarrow> string \<Rightarrow> transaction \<Rightarrow>
     canonical_execution_policy \<Rightarrow> (transaction \<Rightarrow> watch_wallet_error + unit) \<Rightarrow>
     pipeline_state \<Rightarrow> 's \<Rightarrow>
     ((watch_wallet_error + reviewed_signed_transaction) \<times> pipeline_state \<times> 's) option" where
  "review_and_sign W wallet intent_id unsigned_transaction canonical audit st s =
     (let S = ww_sdk W in
      case validate_and_summarize S unsigned_transaction (lcw_pubkey wallet) canonical of
        Inl e \<Rightarrow> Some (Inl e, st, s)
      | Inr summaries \<Rightarrow>
          (if sdk_bincode S unsigned_transaction = None then Some (Inl SerializationFailed, st, s)
           else case simulate_stage S (ww_node W) watch_wallet_pipeline st unsigned_transaction of
             None \<Rightarrow> None
           | Some (Inl _, st1) \<Rightarrow> Some (Inl PipelineSimFailed, st1, s)
           | Some (Inr simulated, st1) \<Rightarrow>
               (case review_simulated W wallet intent_id canonical audit simulated of
                  Inl e \<Rightarrow> Some (Inl e, st1, s)
                | Inr approved \<Rightarrow>
                    map_option (\<lambda>(r, s'). (r, st1, s')) (sign_reviewed W wallet approved s))))"

section \<open>What a passed shape check says\<close>

text \<open>The canonical deposit, read off a message.\<close>

definition canonical_shape :: "sdk \<Rightarrow> message \<Rightarrow> pubkey \<Rightarrow> canonical_execution_policy \<Rightarrow> bool" where
  "canonical_shape S m wallet canonical \<longleftrightarrow>
     (\<exists>limit price refresh deposit.
        msg_instructions m = [limit, price, refresh, deposit]
      \<and> key_at m (ci_program_id_index limit) = Some (sdk_compute_budget_id S)
      \<and> ci_data limit = reviewed_compute_unit_limit_data
      \<and> key_at m (ci_program_id_index price) = Some (sdk_compute_budget_id S)
      \<and> ci_data price = reviewed_compute_unit_price_data
      \<and> key_at m (ci_program_id_index refresh) = Some (sdk_pubkey S audited_solend_program_bs58)
      \<and> ci_data refresh = [solend_refresh_reserve_tag]
      \<and> key_at m (ci_program_id_index deposit) = Some (sdk_pubkey S audited_solend_program_bs58)
      \<and> ci_data deposit = solend_deposit_and_obligation_tag # to_le_bytes 8 (cep_input_amount_raw canonical)
      \<and> length (ci_accounts deposit) = 14
      \<and> key_at m (ci_accounts deposit ! 0) = Some (cep_source_liquidity canonical)
      \<and> key_at m (ci_accounts deposit ! 3) = Some (cep_reserve_liquidity_supply canonical)
      \<and> key_at m (ci_accounts deposit ! 9) = Some wallet
      \<and> key_at m (ci_accounts deposit ! 12) = Some wallet
      \<and> key_at m (ci_accounts deposit ! 13) = Some (sdk_pubkey S classic_token_program_bs58))
   \<and> first_key m = Some wallet \<and> mh_num_required_signatures (msg_header m) = 1
   \<and> cep_solend_program_id canonical = sdk_pubkey S audited_solend_program_bs58
   \<and> cep_input_mint canonical = sdk_pubkey S mainnet_usdc_mint_bs58
   \<and> cep_input_amount_raw canonical \<noteq> 0
   \<and> sdk_message_bytes S (m\<lparr>msg_recent_blockhash := default_blockhash\<rparr>)
       = cep_expected_message_bytes canonical"

lemma canonical_shape_blockhash [simp]:
  "canonical_shape S (m\<lparr>msg_recent_blockhash := bh\<rparr>) w c = canonical_shape S m w c"
  by (simp add: canonical_shape_def key_at_def first_key_def)

lemma length_4_cases: "length xs = 4 \<longleftrightarrow> (\<exists>a b c d. xs = [a, b, c, d])"
  by (auto simp: length_Suc_conv eval_nat_numeral)

lemma le_data:
  assumes "length d = 9" "d ! 0 = t" "from_le_bytes (take 8 (drop 1 d)) = (a :: u64)"
  shows "d = t # to_le_bytes 8 a"
proof -
  obtain rest where d: "d = t # rest" "length rest = 8"
    using assms(1,2) by (cases d) auto
  have "to_le_bytes 8 a = to_le_bytes 8 (from_le_bytes rest :: u64)" using assms(3) d by simp
  also have "\<dots> = rest"
    using le_nat_less [of rest] nat_to_le_le_nat [of rest] d(2)
    by (simp add: to_le_bytes_def from_le_bytes_def unat_of_nat)
  finally show ?thesis using d by simp
qed

lemma instruction_account_Inr:
  "instruction_account tx ix p = Inr k \<longleftrightarrow>
     p < length (ci_accounts ix) \<and> key_at (tx_message tx) (ci_accounts ix ! p) = Some k"
  by (auto simp: instruction_account_def split: if_splits)

lemma validate_shape:
  assumes "validate_and_summarize S tx w c = Inr ss"
  shows "canonical_shape S (tx_message tx) w c" "tx_signatures tx = [default_signature]"
proof -
  note v = assms [unfolded validate_and_summarize_def Let_def]
  let ?m = "tx_message tx"
  from v have "length (msg_instructions ?m) = 4" and sigs: "length (tx_signatures tx) = 1"
      "\<forall>s \<in> set (tx_signatures tx). s = default_signature"
    by (auto simp: expected_instruction_count_def split: if_splits)
  then obtain i0 i1 i2 i3 where ixs: "msg_instructions ?m = [i0, i1, i2, i3]"
    by (auto simp: length_4_cases)
  show "tx_signatures tx = [default_signature]"
    using sigs by (cases "tx_signatures tx") auto
  have n: "[i0, i1, i2, i3] ! 0 = i0" "[i0, i1, i2, i3] ! 1 = i1" "[i0, i1, i2, i3] ! 2 = i2"
    "[i0, i1, i2, i3] ! 3 = i3" by simp_all
  have data: "ci_data i3 = solend_deposit_and_obligation_tag # to_le_bytes 8 (cep_input_amount_raw c)"
    by (rule le_data) (use v in \<open>simp_all add: ixs split: if_splits\<close>)
  show "canonical_shape S ?m w c"
    using v unfolding ixs n
    by (simp add: instruction_account_Inr message_matches_builder_template_def normalized_message_def
        expected_deposit_account_count_def canonical_shape_def ixs collect_results_Inr data
        split: if_splits)
qed

section \<open>What signed bytes imply\<close>

abbreviation with_blockhash :: "transaction \<Rightarrow> blockhash \<Rightarrow> transaction" where
  "with_blockhash tx bh \<equiv> tx\<lparr>tx_message := (tx_message tx)\<lparr>msg_recent_blockhash := bh\<rparr>\<rparr>"

lemma shape_has_budget: "canonical_shape S (tx_message tx) w c \<Longrightarrow> has_compute_budget_instructions S tx"
  by (auto simp: canonical_shape_def has_compute_budget_instructions_def)

text \<open>A transaction that brings its own compute budget goes through simulation unchanged, but for the
  blockhash.\<close>

lemma simulate_budgeted:
  assumes "has_compute_budget_instructions S tx" "simulate_stage S N P st tx = Some (Inr sim, st')"
  shows "\<exists>bh k v. sit_inner sim = with_blockhash tx bh \<and> pe_simulate N k (with_blockhash tx bh) simulation_config = Inr v
    \<and> rs_err v = None \<and> sit_simulation sim = simulation_output v"
proof -
  obtain r st1 where f: "pipeline_get_fresh N st = (r, st1)" by (cases "pipeline_get_fresh N st")
  obtain bh h where r: "r = Inr (bh, h)"
    using assms f by (cases r) (auto simp: simulate_stage_def prepend_compute_budget_def Let_def)
  obtain x st2 where s: "sim_client_simulate N st1 (with_blockhash tx bh) = (x, st2)"
    by (cases "sim_client_simulate N st1 (with_blockhash tx bh)")
  obtain out where x: "x = Inr out"
    using assms f r s by (cases x) (auto simp: simulate_stage_def prepend_compute_budget_def Let_def)
  then obtain v where v: "pe_simulate N (pst_calls st1) (with_blockhash tx bh) simulation_config = Inr v"
      "out = simulation_output v"
    using s by (auto simp: sim_client_simulate_def split: sum.splits)
  have "sit_inner sim = with_blockhash tx bh \<and> sit_simulation sim = out \<and> sim_success out"
    using assms f r s x
    by (auto simp: simulate_stage_def prepend_compute_budget_def Let_def split: if_splits option.splits)
  moreover from this v have "rs_err v = None" by (simp add: simulation_output_def Let_def)
  ultimately show ?thesis using v by blast
qed

lemma review_simulated_Inr:
  assumes "review_simulated W wallet i c audit simulated = Inr approved"
  shows "apt_inner approved = simulated" "audit (sit_inner simulated) = Inr ()"
    "canonical_shape (ww_sdk W) (tx_message (sit_inner simulated)) (lcw_pubkey wallet) c"
    "is_auto_approved (apt_policy_verdict approved)"
  using assms
  by (auto simp: review_simulated_def evaluate_policy_def approved_new_unchecked_def Let_def
      split: if_splits dest: validate_shape)

lemma submission_bytes_Inr:
  assumes "submission_bytes S r = Inr bs"
  shows "bs = rst_signed_transaction_bytes r" "rst_signed_message_bytes r = rst_approved_message_bytes r"
    "\<exists>tx i. sdk_bincode_parse S bs = Inr tx \<and> sdk_message_bytes S (tx_message tx) = rst_approved_message_bytes r
      \<and> index_of (rst_signer_pubkey r) (msg_account_keys (tx_message tx)) = Some i
      \<and> i < length (tx_signatures tx) \<and> tx_signatures tx ! i = rst_signature r
      \<and> rst_signature r \<noteq> default_signature \<and> sdk_verify S tx"
  using assms by (auto simp: submission_bytes_def Let_def split: if_splits)

lemma sign_reviewed_Inr:
  assumes "sign_reviewed W wallet approved s = Some (Inr r, s')"
  shows "submission_bytes (ww_sdk W) r = Inr (rst_signed_transaction_bytes r)"
    "rst_approved_message_bytes r = sdk_message_bytes (ww_sdk W) (tx_message (sit_inner (apt_inner approved)))"
    "rst_signer_pubkey r = lcw_pubkey wallet"
    "rst_last_valid_block_height r = sit_last_valid_block_height (apt_inner approved)"
proof -
  obtain bs captured where r: "submission_bytes (ww_sdk W) r = Inr bs"
    "r = reviewed_transaction (ww_sdk W) wallet approved captured"
    using assms
    by (auto simp: sign_reviewed_def Let_def
        split: option.splits sum.splits pipeline_result.splits if_splits)
  from submission_bytes_Inr(1) [OF r(1)] r(1)
  show "submission_bytes (ww_sdk W) r = Inr (rst_signed_transaction_bytes r)" by simp
  show "rst_approved_message_bytes r = sdk_message_bytes (ww_sdk W) (tx_message (sit_inner (apt_inner approved)))"
    "rst_signer_pubkey r = lcw_pubkey wallet"
    "rst_last_valid_block_height r = sit_last_valid_block_height (apt_inner approved)"
    by (simp_all add: r(2) reviewed_transaction_def)
qed

text \<open>The whole review, from the unsigned transaction to the bytes.\<close>

lemma review_and_sign_Inr:
  assumes "review_and_sign W wallet i tx c audit st s = Some (Inr r, st', s')"
  shows "\<exists>bh k v signed idx.
     canonical_shape (ww_sdk W) (tx_message tx) (lcw_pubkey wallet) c
   \<and> pe_simulate (ww_node W) k (with_blockhash tx bh) simulation_config = Inr v \<and> rs_err v = None
   \<and> audit (with_blockhash tx bh) = Inr ()
   \<and> submission_bytes (ww_sdk W) r = Inr (rst_signed_transaction_bytes r)
   \<and> sdk_bincode_parse (ww_sdk W) (rst_signed_transaction_bytes r) = Inr signed
   \<and> sdk_message_bytes (ww_sdk W) (tx_message signed)
       = sdk_message_bytes (ww_sdk W) ((tx_message tx)\<lparr>msg_recent_blockhash := bh\<rparr>)
   \<and> index_of (lcw_pubkey wallet) (msg_account_keys (tx_message signed)) = Some idx
   \<and> idx < length (tx_signatures signed) \<and> tx_signatures signed ! idx = rst_signature r
   \<and> rst_signature r \<noteq> default_signature \<and> sdk_verify (ww_sdk W) signed"
proof -
  let ?S = "ww_sdk W"
  obtain simulated approved st1 where
    v: "\<exists>ss. validate_and_summarize ?S tx (lcw_pubkey wallet) c = Inr ss"
    and sim: "simulate_stage ?S (ww_node W) watch_wallet_pipeline st tx = Some (Inr simulated, st1)"
    and rv: "review_simulated W wallet i c audit simulated = Inr approved"
    and sg: "sign_reviewed W wallet approved s = Some (Inr r, s')"
    using assms by (auto simp: review_and_sign_def Let_def split: sum.splits if_splits option.splits)
  from v have shape: "canonical_shape ?S (tx_message tx) (lcw_pubkey wallet) c"
    by (auto dest: validate_shape)
  from simulate_budgeted [OF shape_has_budget [OF shape] sim] obtain bh k v where
    sm: "sit_inner simulated = with_blockhash tx bh" "pe_simulate (ww_node W) k (with_blockhash tx bh) simulation_config = Inr v"
      "rs_err v = None" by blast
  note RV = review_simulated_Inr [OF rv] and SG = sign_reviewed_Inr [OF sg]
  from submission_bytes_Inr(3) [OF SG(1)] obtain signed idx where
    t: "sdk_bincode_parse ?S (rst_signed_transaction_bytes r) = Inr signed"
      "sdk_message_bytes ?S (tx_message signed) = rst_approved_message_bytes r"
      "index_of (rst_signer_pubkey r) (msg_account_keys (tx_message signed)) = Some idx"
      "idx < length (tx_signatures signed)" "tx_signatures signed ! idx = rst_signature r"
      "rst_signature r \<noteq> default_signature" "sdk_verify ?S signed" by blast
  show ?thesis
    by (rule exI [of _ bh], rule exI [of _ k], rule exI [of _ v], rule exI [of _ signed], rule exI [of _ idx])
       (use shape sm RV(1,2) SG t in simp)
qed

end
