(* ===== verification/Solend_Builders.thy ===== *)
theory Solend_Builders
  imports Solana_Sdk
begin

text \<open>
  The instruction builders of \<open>crates/protocols/src/solend\<close>: \<open>amount.rs\<close>, \<open>ata.rs\<close>, \<open>deposit.rs\<close>,
  \<open>withdraw.rs\<close>, \<open>refresh.rs\<close> and \<open>init_obligation.rs\<close>. The lemmas read the instruction data back:
  which tag and which amount an instruction carries, who has to sign it, and which accounts it may write.
\<close>

section \<open>Amounts and associated accounts\<close>

datatype underlying_amount = UnderlyingAmount (underlying_raw: u64)

datatype collateral_token_amount = CollateralTokenAmount (collateral_raw: u64)

definition derive_associated_token_address :: "sdk \<Rightarrow> pubkey \<Rightarrow> pubkey \<Rightarrow> pubkey \<Rightarrow> pubkey" where
  "derive_associated_token_address S wallet mint token_program =
     sdk_associated_token_address S wallet mint token_program"

definition build_create_ata_idempotent_instruction ::
    "sdk \<Rightarrow> pubkey \<Rightarrow> pubkey \<Rightarrow> pubkey \<Rightarrow> pubkey \<Rightarrow> instruction" where
  "build_create_ata_idempotent_instruction S funder wallet mint token_program =
     sdk_create_ata_idempotent S funder wallet mint token_program"

section \<open>Deposit\<close>

definition deposit_tag :: u8 where "deposit_tag = 14"

definition spl_token_program_id :: "sdk \<Rightarrow> pubkey" where
  "spl_token_program_id S = sdk_pubkey S ''TokenkegQfeZyiNwAJbNbGKPFXCWuBvf9Ss623VQ5DA''"

record deposit_instruction_inputs =
  di_solend_program_id :: pubkey
  di_amount :: underlying_amount
  di_source_liquidity :: pubkey
  di_user_collateral :: pubkey
  di_reserve :: pubkey
  di_reserve_liquidity_supply :: pubkey
  di_reserve_collateral_mint :: pubkey
  di_lending_market :: pubkey
  di_destination_deposit_collateral :: pubkey
  di_obligation :: pubkey
  di_obligation_owner :: pubkey
  di_pyth_oracle :: pubkey
  di_switchboard_oracle :: pubkey
  di_user_transfer_authority :: pubkey

datatype deposit_build_error = DepositZeroAmount

definition build_deposit_reserve_liquidity_and_obligation_collateral_instruction ::
    "sdk \<Rightarrow> deposit_instruction_inputs \<Rightarrow> deposit_build_error + instruction" where
  "build_deposit_reserve_liquidity_and_obligation_collateral_instruction S inputs =
     (if underlying_raw (di_amount inputs) = 0 then Inl DepositZeroAmount
      else
       (let lending_market_authority =
              sdk_find_program_address S [di_lending_market inputs] (di_solend_program_id inputs)
        in Inr
          \<lparr>in_program_id = di_solend_program_id inputs,
           in_accounts =
             [meta_new (di_source_liquidity inputs) False,
              meta_new (di_user_collateral inputs) False,
              meta_new (di_reserve inputs) False,
              meta_new (di_reserve_liquidity_supply inputs) False,
              meta_new (di_reserve_collateral_mint inputs) False,
              meta_new_readonly (di_lending_market inputs) False,
              meta_new_readonly lending_market_authority False,
              meta_new (di_destination_deposit_collateral inputs) False,
              meta_new (di_obligation inputs) False,
              meta_new (di_obligation_owner inputs) True,
              meta_new_readonly (di_pyth_oracle inputs) False,
              meta_new_readonly (di_switchboard_oracle inputs) False,
              meta_new_readonly (di_user_transfer_authority inputs) True,
              meta_new_readonly (spl_token_program_id S) False],
           in_data = deposit_tag # to_le_bytes 8 (underlying_raw (di_amount inputs))\<rparr>))"

section \<open>Withdraw\<close>

definition withdraw_tag :: u8 where "withdraw_tag = 15"

definition withdraw_all_collateral_amount_sentinel_raw :: u64 where
  "withdraw_all_collateral_amount_sentinel_raw = - 1"

record withdraw_instruction_inputs =
  wi_solend_program_id :: pubkey
  wi_collateral_amount :: collateral_token_amount
  wi_source_collateral :: pubkey
  wi_destination_collateral :: pubkey
  wi_reserve :: pubkey
  wi_obligation :: pubkey
  wi_lending_market :: pubkey
  wi_destination_liquidity :: pubkey
  wi_reserve_collateral_mint :: pubkey
  wi_reserve_liquidity_supply :: pubkey
  wi_obligation_owner :: pubkey
  wi_user_transfer_authority :: pubkey
  wi_deposit_reserves_in_order :: "pubkey list"

datatype withdraw_build_error = WithdrawZeroAmount

definition build_withdraw_obligation_collateral_and_redeem_reserve_collateral_instruction ::
    "sdk \<Rightarrow> withdraw_instruction_inputs \<Rightarrow> withdraw_build_error + instruction" where
  "build_withdraw_obligation_collateral_and_redeem_reserve_collateral_instruction S inputs =
     (if collateral_raw (wi_collateral_amount inputs) = 0 then Inl WithdrawZeroAmount
      else
       (let lending_market_authority =
              sdk_find_program_address S [wi_lending_market inputs] (wi_solend_program_id inputs)
        in Inr
          \<lparr>in_program_id = wi_solend_program_id inputs,
           in_accounts =
             [meta_new (wi_source_collateral inputs) False,
              meta_new (wi_destination_collateral inputs) False,
              meta_new (wi_reserve inputs) False,
              meta_new (wi_obligation inputs) False,
              meta_new (wi_lending_market inputs) False,
              meta_new_readonly lending_market_authority False,
              meta_new (wi_destination_liquidity inputs) False,
              meta_new (wi_reserve_collateral_mint inputs) False,
              meta_new (wi_reserve_liquidity_supply inputs) False,
              meta_new_readonly (wi_obligation_owner inputs) True,
              meta_new_readonly (wi_user_transfer_authority inputs) True,
              meta_new_readonly (spl_token_program_id S) False]
             @ map (\<lambda>reserve. meta_new reserve False) (wi_deposit_reserves_in_order inputs),
           in_data = withdraw_tag # to_le_bytes 8 (collateral_raw (wi_collateral_amount inputs))\<rparr>))"

section \<open>Refresh\<close>

definition refresh_reserve_tag :: u8 where "refresh_reserve_tag = 3"
definition refresh_obligation_tag :: u8 where "refresh_obligation_tag = 7"

record reserve_refresh_input =
  rri_reserve_pubkey :: pubkey
  rri_pyth_oracle :: pubkey
  rri_switchboard_oracle :: pubkey

record obligation_refresh_input =
  ori_obligation_pubkey :: pubkey
  ori_referenced_reserves_in_order :: "pubkey list"

record refresh_plan_inputs =
  rpi_solend_program_id :: pubkey
  rpi_reserves :: "reserve_refresh_input list"
  rpi_obligation :: "obligation_refresh_input option"

record refresh_plan =
  rp_instructions :: "instruction list"
  rp_reserves_refreshed :: "pubkey list"
  rp_obligation_refreshed :: "pubkey option"

definition build_refresh_instructions :: "sdk \<Rightarrow> refresh_plan_inputs \<Rightarrow> refresh_plan" where
  "build_refresh_instructions S inputs =
     (let program = rpi_solend_program_id inputs;
          refresh = map (\<lambda>reserve.
            \<lparr>in_program_id = program,
             in_accounts =
               [meta_new (rri_reserve_pubkey reserve) False,
                meta_new_readonly (rri_pyth_oracle reserve) False,
                meta_new_readonly (rri_switchboard_oracle reserve) False,
                meta_new_readonly (sdk_clock_id S) False],
             in_data = [refresh_reserve_tag]\<rparr>) (rpi_reserves inputs)
      in \<lparr>rp_instructions =
            (case rpi_obligation inputs of
               None \<Rightarrow> refresh
             | Some obligation \<Rightarrow> refresh @
                 [\<lparr>in_program_id = program,
                   in_accounts = meta_new (ori_obligation_pubkey obligation) False
                     # map (\<lambda>reserve. meta_new reserve False) (ori_referenced_reserves_in_order obligation),
                   in_data = [refresh_obligation_tag]\<rparr>]),
          rp_reserves_refreshed = map rri_reserve_pubkey (rpi_reserves inputs),
          rp_obligation_refreshed = map_option ori_obligation_pubkey (rpi_obligation inputs)\<rparr>)"

section \<open>Obligation accounts\<close>

definition init_obligation_tag :: u8 where "init_obligation_tag = 6"

record init_obligation_inputs =
  ioi_solend_program_id :: pubkey
  ioi_obligation :: pubkey
  ioi_lending_market :: pubkey
  ioi_obligation_owner :: pubkey

definition build_init_obligation_instruction :: "sdk \<Rightarrow> init_obligation_inputs \<Rightarrow> instruction" where
  "build_init_obligation_instruction S inputs =
     \<lparr>in_program_id = ioi_solend_program_id inputs,
      in_accounts =
        [meta_new (ioi_obligation inputs) False,
         meta_new_readonly (ioi_lending_market inputs) False,
         meta_new_readonly (ioi_obligation_owner inputs) True,
         meta_new_readonly (sdk_rent_id S) False,
         meta_new_readonly (spl_token_program_id S) False],
      in_data = [init_obligation_tag]\<rparr>"

record create_obligation_account_inputs =
  coi_funder :: pubkey
  coi_new_obligation :: pubkey
  coi_rent_exempt_lamports :: u64
  coi_solend_program_id :: pubkey

definition build_create_obligation_account_instruction ::
    "sdk \<Rightarrow> create_obligation_account_inputs \<Rightarrow> instruction" where
  "build_create_obligation_account_instruction S inputs =
     sdk_create_account S (coi_funder inputs) (coi_new_obligation inputs)
       (coi_rent_exempt_lamports inputs) (word_of_nat obligation_len) (coi_solend_program_id inputs)"

end
