(* ===== verification/Execution.thy ===== *)
theory Execution
  imports Candidate Funding_Store Watch_Rule_Store Submission
begin

text \<open>
  The execution state machine of the watcher: the persistence adapter
  (\<open>bins/solfrontier-mcp/src/watch_execution_state.rs\<close>) and the attempt on one revalidated candidate
  (\<open>execute_revalidated_candidate\<close> of \<open>watch_execute.rs\<close>). The trait \<open>ExecutionStatePort\<close> is a record
  of operations on a state; its contract, with that of the signing and submitting backend, is the locale
  \<open>execution_world\<close>, in which the facts about attempts are proved. The production port, the two
  repositories behind fallible database calls, and the production backend interpret it.
\<close>

section \<open>The persistence adapter\<close>

text \<open>\<open>Result<u64, StateStoreUnavailable>\<close>: the error carries no information.\<close>

type_synonym port_result = "unit + nat"

record 's execution_state_port =
  sp_lease_funding :: "string \<Rightarrow> i64 \<Rightarrow> 's \<Rightarrow> port_result \<times> 's"
  sp_release_funding :: "string \<Rightarrow> string \<Rightarrow> 's \<Rightarrow> port_result \<times> 's"
  sp_fail_funding :: "string \<Rightarrow> string \<Rightarrow> 's \<Rightarrow> port_result \<times> 's"
  sp_complete_watch_rule :: "bytes \<Rightarrow> u64 \<Rightarrow> u64 \<Rightarrow> 's \<Rightarrow> port_result \<times> 's"
  sp_complete_funding :: "string \<Rightarrow> string \<Rightarrow> 's \<Rightarrow> port_result \<times> 's"

datatype lease_outcome = LeaseAcquired | LeaseNotAcquired string | LeaseStoreUnavailable string

datatype state_write_outcome = WriteApplied | WriteNotApplied string | WriteStoreUnavailable string

datatype finalized_write_outcome =
    FinalizedCompleted
  | WatchRuleNotCompleted string
  | WatchRuleStoreUnavailable string
  | FundingNotCompletedAfterRule string bool
  | FundingStoreUnavailableAfterRule string bool

definition lease_after_final_revalidation ::
    "'s execution_state_port \<Rightarrow> string \<Rightarrow> i64 \<Rightarrow> 's \<Rightarrow> lease_outcome \<times> 's" where
  "lease_after_final_revalidation P intent_id now_ms s =
     (case sp_lease_funding P intent_id now_ms s of
        (Inr n, s') \<Rightarrow>
          (if n = 1 then LeaseAcquired else LeaseNotAcquired ''execution_lease_not_acquired'', s')
      | (Inl _, s') \<Rightarrow> (LeaseStoreUnavailable ''execution_lease_store_unavailable'', s'))"

definition release_prebroadcast_failure ::
    "'s execution_state_port \<Rightarrow> string \<Rightarrow> 's \<Rightarrow> state_write_outcome \<times> 's" where
  "release_prebroadcast_failure P intent_id s =
     (case sp_release_funding P intent_id ''execution_prebroadcast_failed'' s of
        (Inr n, s') \<Rightarrow>
          (if n = 1 then WriteApplied else WriteNotApplied ''execution_release_not_applied'', s')
      | (Inl _, s') \<Rightarrow> (WriteStoreUnavailable ''execution_release_store_unavailable'', s'))"

definition mark_onchain_failed ::
    "'s execution_state_port \<Rightarrow> string \<Rightarrow> 's \<Rightarrow> state_write_outcome \<times> 's" where
  "mark_onchain_failed P intent_id s =
     (case sp_fail_funding P intent_id ''execution_onchain_failed'' s of
        (Inr n, s') \<Rightarrow>
          (if n = 1 then WriteApplied else WriteNotApplied ''execution_failure_not_recorded'', s')
      | (Inl _, s') \<Rightarrow> (WriteStoreUnavailable ''execution_failure_store_unavailable'', s'))"

text \<open>The watch rule first, the funding row second.\<close>

definition mark_finalized ::
    "'s execution_state_port \<Rightarrow> string \<Rightarrow> bytes \<Rightarrow> u64 \<Rightarrow> u64 \<Rightarrow> string \<Rightarrow> 's \<Rightarrow>
     finalized_write_outcome \<times> 's" where
  "mark_finalized P intent_id rule_id used_amount_raw finalized_slot execution_signature s =
     (case sp_complete_watch_rule P rule_id used_amount_raw finalized_slot s of
        (Inl _, s1) \<Rightarrow> (WatchRuleStoreUnavailable ''watch_rule_completion_store_unavailable'', s1)
      | (Inr n, s1) \<Rightarrow>
          (if n \<noteq> 1 then (WatchRuleNotCompleted ''watch_rule_completion_not_applied'', s1)
           else case sp_complete_funding P intent_id execution_signature s1 of
             (Inr m, s2) \<Rightarrow>
               (if m = 1 then FinalizedCompleted
                else FundingNotCompletedAfterRule
                       ''funding_completion_not_applied_after_rule_completed'' True, s2)
           | (Inl _, s2) \<Rightarrow>
               (FundingStoreUnavailableAfterRule
                  ''funding_completion_store_unavailable_after_rule_completed'' True, s2)))"

section \<open>One attempt\<close>

record revalidated_execution_candidate =
  rc_intent_id :: string
  rc_rule_id :: bytes
  rc_amount_raw :: u64
  rc_plan :: validated_plan_inputs

record 's execution_backend =
  eb_review_and_sign ::
    "revalidated_execution_candidate \<Rightarrow> 's \<Rightarrow> (string + reviewed_signed_payload) option \<times> 's"
    \<comment> \<open>\<open>None\<close>: the review panics\<close>
  eb_submit_and_observe :: "reviewed_signed_payload \<Rightarrow> 's \<Rightarrow> network_outcome \<times> 's"

record execution_attempt_report =
  ear_intent_id :: string
  ear_amount_raw :: string
  ear_status :: string
  ear_signature :: "string option"
  ear_finalized_slot :: "u64 option"
  ear_error_class :: "string option"
  ear_funding_state :: string
  ear_watch_rule_state :: string
  ear_abort_remaining_cycle :: bool

definition transaction_review_serialization_failed :: string where
  "transaction_review_serialization_failed =
     ''execute_transaction_review_serialization_failed_before_signing''"

definition transaction_review_integrity_failed :: string where
  "transaction_review_integrity_failed =
     ''execute_transaction_review_integrity_failed_before_signing''"

definition base_report :: "revalidated_execution_candidate \<Rightarrow> execution_attempt_report" where
  "base_report candidate =
     \<lparr>ear_intent_id = rc_intent_id candidate,
      ear_amount_raw = decimal (unat (rc_amount_raw candidate)), ear_status = ''internal'',
      ear_signature = None, ear_finalized_slot = None, ear_error_class = None,
      ear_funding_state = ''budget_reserved'', ear_watch_rule_state = ''unchanged'',
      ear_abort_remaining_cycle = False\<rparr>"

fun state_write_report ::
    "state_write_outcome \<Rightarrow> string \<Rightarrow> string \<Rightarrow> string \<times> string option" where
  "state_write_report WriteApplied applied_status failure_status = (applied_status, None)"
| "state_write_report (WriteNotApplied e) applied_status failure_status = (failure_status, Some e)"
| "state_write_report (WriteStoreUnavailable e) applied_status failure_status =
     (failure_status, Some e)"

definition report_release ::
    "'s execution_state_port \<Rightarrow> revalidated_execution_candidate \<Rightarrow> string \<Rightarrow> string \<Rightarrow> bool \<Rightarrow>
     execution_attempt_report \<Rightarrow> 's \<Rightarrow> execution_attempt_report \<times> 's" where
  "report_release P candidate success_status original_error abort_remaining_cycle base s =
     (case release_prebroadcast_failure P (rc_intent_id candidate) s of
        (release, s') \<Rightarrow>
          (case state_write_report release success_status ''prebroadcast_release_failed'' of
             (status, write_error) \<Rightarrow>
               (base\<lparr>ear_status := status,
                     ear_error_class := (case write_error of Some e \<Rightarrow> Some e | None \<Rightarrow> Some original_error),
                     ear_funding_state := (if write_error = None then ''budget_reserved''
                                           else ''executing_or_budget_reserved_unknown''),
                     ear_abort_remaining_cycle := abort_remaining_cycle\<rparr>, s')))"

fun finalized_report ::
    "execution_attempt_report \<Rightarrow> string \<Rightarrow> u64 \<Rightarrow> finalized_write_outcome \<Rightarrow> execution_attempt_report" where
  "finalized_report base sg slot FinalizedCompleted =
     base\<lparr>ear_status := ''completed'', ear_signature := Some sg, ear_finalized_slot := Some slot,
          ear_funding_state := ''completed'', ear_watch_rule_state := ''completed''\<rparr>"
| "finalized_report base sg slot (WatchRuleNotCompleted e) =
     base\<lparr>ear_status := ''finalized_state_write_failed'', ear_signature := Some sg,
          ear_finalized_slot := Some slot, ear_error_class := Some e,
          ear_funding_state := ''executing'', ear_watch_rule_state := ''unchanged_or_unknown''\<rparr>"
| "finalized_report base sg slot (WatchRuleStoreUnavailable e) =
     base\<lparr>ear_status := ''finalized_state_write_failed'', ear_signature := Some sg,
          ear_finalized_slot := Some slot, ear_error_class := Some e,
          ear_funding_state := ''executing'', ear_watch_rule_state := ''unchanged_or_unknown''\<rparr>"
| "finalized_report base sg slot (FundingNotCompletedAfterRule e done) =
     (if done
      then base\<lparr>ear_status := ''completed_split_state_manual_reconciliation_required'',
                ear_signature := Some sg, ear_finalized_slot := Some slot, ear_error_class := Some e,
                ear_funding_state := ''executing_or_completed_unknown'',
                ear_watch_rule_state := ''completed''\<rparr>
      else base\<lparr>ear_status := ''finalized_state_invariant_broken'',
                ear_signature := Some sg, ear_finalized_slot := Some slot,
                ear_error_class := Some ''watch_rule_completion_evidence_missing'',
                ear_funding_state := ''executing_or_completed_unknown'',
                ear_watch_rule_state := ''unknown''\<rparr>)"
| "finalized_report base sg slot (FundingStoreUnavailableAfterRule e done) =
     (if done
      then base\<lparr>ear_status := ''completed_split_state_manual_reconciliation_required'',
                ear_signature := Some sg, ear_finalized_slot := Some slot, ear_error_class := Some e,
                ear_funding_state := ''executing_or_completed_unknown'',
                ear_watch_rule_state := ''completed''\<rparr>
      else base\<lparr>ear_status := ''finalized_state_invariant_broken'',
                ear_signature := Some sg, ear_finalized_slot := Some slot,
                ear_error_class := Some ''watch_rule_completion_evidence_missing'',
                ear_funding_state := ''executing_or_completed_unknown'',
                ear_watch_rule_state := ''unknown''\<rparr>)"

definition settle_attempt ::
    "'s execution_state_port \<Rightarrow> revalidated_execution_candidate \<Rightarrow> network_outcome \<Rightarrow> 's \<Rightarrow>
     execution_attempt_report \<times> 's" where
  "settle_attempt P candidate out s =
     (let base = base_report candidate in
      case out of
        PreBroadcastFailure e \<Rightarrow> report_release P candidate ''prebroadcast_failed'' e False base s
      | OutcomeUnknown sg e \<Rightarrow>
          (base\<lparr>ear_status := ''result_unknown_manual_reconciliation_required'',
                ear_signature := Some sg, ear_error_class := Some e,
                ear_funding_state := ''executing''\<rparr>, s)
      | OnChainFailed sg e \<Rightarrow>
          (case mark_onchain_failed P (rc_intent_id candidate) s of
             (write, s') \<Rightarrow>
               (case state_write_report write ''failed'' ''onchain_failure_state_write_failed'' of
                  (status, write_error) \<Rightarrow>
                    (base\<lparr>ear_status := status, ear_signature := Some sg,
                          ear_error_class := (case write_error of Some we \<Rightarrow> Some we | None \<Rightarrow> Some e),
                          ear_funding_state := (if write_error = None then ''failed''
                                                else ''executing_or_failed_unknown'')\<rparr>, s')))
      | OutcomeFinalized sg slot \<Rightarrow>
          (case mark_finalized P (rc_intent_id candidate) (rc_rule_id candidate)
                  (rc_amount_raw candidate) slot sg s of
             (write, s') \<Rightarrow> (finalized_report base sg slot write, s')))"

text \<open>\<open>lease_now_ms\<close> is the reading of \<open>lease_clock\<close>. No report, \<open>None\<close>, when the review panics: the
  process dies in the state reached.\<close>

definition execute_revalidated_candidate ::
    "'s execution_state_port \<Rightarrow> 's execution_backend \<Rightarrow> revalidated_execution_candidate \<Rightarrow> i64 \<Rightarrow> 's \<Rightarrow>
     execution_attempt_report option \<times> 's" where
  "execute_revalidated_candidate P B candidate lease_now_ms s =
     (let base = base_report candidate;
          not_leased = (\<lambda>e. base\<lparr>ear_status := ''lease_not_acquired'', ear_error_class := Some e,
                                ear_funding_state := ''unknown_or_not_budget_reserved''\<rparr>) in
      case lease_after_final_revalidation P (rc_intent_id candidate) lease_now_ms s of
        (LeaseNotAcquired e, s1) \<Rightarrow> (Some (not_leased e), s1)
      | (LeaseStoreUnavailable e, s1) \<Rightarrow> (Some (not_leased e), s1)
      | (LeaseAcquired, s1) \<Rightarrow>
          (case eb_review_and_sign B candidate s1 of
             (None, s2) \<Rightarrow> (None, s2)
           | (Some (Inl e), s2) \<Rightarrow>
               map_prod Some id (report_release P candidate ''prebroadcast_failed'' e
                 (e = transaction_review_serialization_failed
                  \<or> e = transaction_review_integrity_failed) base s2)
           | (Some (Inr payload), s2) \<Rightarrow>
               (case eb_submit_and_observe B payload s2 of
                  (out, s3) \<Rightarrow> map_prod Some id (settle_attempt P candidate out s3))))"

definition execution_attempt_aborts_cycle :: "execution_attempt_report \<Rightarrow> bool" where
  "execution_attempt_aborts_cycle report = ear_abort_remaining_cycle report"

section \<open>The contract of the port and the backend\<close>

text \<open>
  What an attempt relies on, in terms of the status an intent has in the state, of a rule being
  completed, and of the number of transactions broadcast so far. A call may report that the store is
  unavailable after its statement took effect, so errors leave the status old or new.
\<close>

definition budget_committed :: "w5h_intent_status option \<Rightarrow> bool" where
  "budget_committed st \<longleftrightarrow> st \<in> {Some Executing, Some Completed, Some Failed}"

locale execution_world =
  fixes P :: "'s execution_state_port" and B :: "'s execution_backend"
    and invar :: "'s \<Rightarrow> bool"
    and intent_status :: "'s \<Rightarrow> string \<Rightarrow> w5h_intent_status option"
    and rule_completed :: "'s \<Rightarrow> bytes \<Rightarrow> bool"
    and log :: "'s \<Rightarrow> 'm list"
    and signed_for :: "revalidated_execution_candidate \<Rightarrow> reviewed_signed_payload \<Rightarrow> bool"
    and carries :: "reviewed_signed_payload \<Rightarrow> 'm \<Rightarrow> bool"
  assumes lease: "\<lbrakk>invar s; sp_lease_funding P i now s = (r, s')\<rbrakk> \<Longrightarrow>
      invar s' \<and> log s' = log s \<and> (\<forall>j. j \<noteq> i \<longrightarrow> intent_status s' j = intent_status s j)
    \<and> (budget_committed (intent_status s i) \<longrightarrow> intent_status s' i = intent_status s i \<and> r \<noteq> Inr 1)
    \<and> (r = Inr 1 \<longrightarrow> intent_status s i = Some BudgetReserved \<and> intent_status s' i = Some Executing)"
    and release: "\<lbrakk>invar s; sp_release_funding P i e s = (r, s')\<rbrakk> \<Longrightarrow>
      invar s' \<and> log s' = log s \<and> (\<forall>j. j \<noteq> i \<longrightarrow> intent_status s' j = intent_status s j)
    \<and> (r = Inr 1 \<longrightarrow> intent_status s' i = Some BudgetReserved)"
    and fail: "\<lbrakk>invar s; sp_fail_funding P i e s = (r, s')\<rbrakk> \<Longrightarrow>
      invar s' \<and> log s' = log s \<and> (\<forall>j. j \<noteq> i \<longrightarrow> intent_status s' j = intent_status s j)
    \<and> intent_status s' i \<in> {intent_status s i, Some Failed}
    \<and> (r = Inr 1 \<longrightarrow> intent_status s' i = Some Failed)"
    and complete_rule: "\<lbrakk>invar s; sp_complete_watch_rule P rid u slot s = (r, s')\<rbrakk> \<Longrightarrow>
      invar s' \<and> log s' = log s \<and> intent_status s' = intent_status s
    \<and> (r = Inr 1 \<longrightarrow> rule_completed s' rid)"
    and complete_funding: "\<lbrakk>invar s; sp_complete_funding P i sg s = (r, s')\<rbrakk> \<Longrightarrow>
      invar s' \<and> log s' = log s \<and> (\<forall>j. j \<noteq> i \<longrightarrow> intent_status s' j = intent_status s j)
    \<and> intent_status s' i \<in> {intent_status s i, Some Completed} \<and> rule_completed s' = rule_completed s
    \<and> (r = Inr 1 \<longrightarrow> intent_status s' i = Some Completed)"
    and review: "\<lbrakk>invar s; eb_review_and_sign B c s = (x, s')\<rbrakk> \<Longrightarrow>
      invar s' \<and> log s' = log s \<and> intent_status s' = intent_status s
    \<and> (\<forall>p. x = Some (Inr p) \<longrightarrow> signed_for c p)"
    and submit: "\<lbrakk>invar s; eb_submit_and_observe B p s = (out, s')\<rbrakk> \<Longrightarrow>
      invar s' \<and> intent_status s' = intent_status s
    \<and> (\<exists>ms. log s' = log s @ ms \<and> length ms = (case out of PreBroadcastFailure e \<Rightarrow> 0 | _ \<Rightarrow> 1)
         \<and> (\<forall>m \<in> set ms. carries p m))"
begin

lemma lease_adapter:
  assumes "invar s" "lease_after_final_revalidation P i now s = (x, s')"
  shows "invar s'" "log s' = log s" "j \<noteq> i \<Longrightarrow> intent_status s' j = intent_status s j"
    "budget_committed (intent_status s i) \<Longrightarrow> intent_status s' i = intent_status s i \<and> x \<noteq> LeaseAcquired"
    "x = LeaseAcquired \<Longrightarrow> intent_status s i = Some BudgetReserved \<and> intent_status s' i = Some Executing"
  using lease [OF assms(1), of i now] assms(2)
  by (auto simp: lease_after_final_revalidation_def split: prod.splits sum.splits if_splits)

lemma release_report:
  assumes "invar s" "report_release P c st e ab base s = (rep, s')"
  shows "invar s'" "log s' = log s" "j \<noteq> rc_intent_id c \<Longrightarrow> intent_status s' j = intent_status s j"
    "ear_funding_state rep \<noteq> ''completed''" "ear_funding_state rep \<noteq> ''failed''"
    "ear_funding_state rep \<noteq> ''executing''"
    "ear_funding_state rep = ''budget_reserved'' \<Longrightarrow> intent_status s' (rc_intent_id c) = Some BudgetReserved"
  using release [OF assms(1), of "rc_intent_id c" "''execution_prebroadcast_failed''"] assms(2)
  by (auto simp: report_release_def release_prebroadcast_failure_def split: prod.splits sum.splits if_splits)

lemma finalized_adapter:
  assumes "invar s" "mark_finalized P i rid u slot sg s = (x, s')"
  shows "invar s'" "log s' = log s" "j \<noteq> i \<Longrightarrow> intent_status s' j = intent_status s j"
    "intent_status s' i \<in> {intent_status s i, Some Completed}"
    "x = FinalizedCompleted \<Longrightarrow> intent_status s' i = Some Completed \<and> rule_completed s' rid"
    "(\<exists>e. x = WatchRuleNotCompleted e \<or> x = WatchRuleStoreUnavailable e) \<Longrightarrow>
       intent_status s' i = intent_status s i"
proof -
  obtain r1 s1 where c1: "sp_complete_watch_rule P rid u slot s = (r1, s1)"
    by (cases "sp_complete_watch_rule P rid u slot s")
  note R = complete_rule [OF assms(1) c1]
  obtain r2 s2 where c2: "sp_complete_funding P i sg s1 = (r2, s2)"
    by (cases "sp_complete_funding P i sg s1")
  note F = complete_funding [OF conjunct1 [OF R] c2]
  show "invar s'" "log s' = log s" "j \<noteq> i \<Longrightarrow> intent_status s' j = intent_status s j"
    "intent_status s' i \<in> {intent_status s i, Some Completed}"
    "x = FinalizedCompleted \<Longrightarrow> intent_status s' i = Some Completed \<and> rule_completed s' rid"
    "(\<exists>e. x = WatchRuleNotCompleted e \<or> x = WatchRuleStoreUnavailable e) \<Longrightarrow>
       intent_status s' i = intent_status s i"
    using assms(2) R F by (auto simp: mark_finalized_def c1 c2 split: sum.splits if_splits)
qed

lemma settled:
  assumes "invar s" "settle_attempt P c out s = (rep, s')" "intent_status s (rc_intent_id c) = Some Executing"
  shows "invar s'" "log s' = log s" "j \<noteq> rc_intent_id c \<Longrightarrow> intent_status s' j = intent_status s j"
    "\<not> (\<exists>e. out = PreBroadcastFailure e) \<Longrightarrow> budget_committed (intent_status s' (rc_intent_id c))"
    "ear_funding_state rep = ''budget_reserved'' \<Longrightarrow> intent_status s' (rc_intent_id c) = Some BudgetReserved"
    "ear_funding_state rep = ''executing'' \<Longrightarrow> intent_status s' (rc_intent_id c) = Some Executing"
    "ear_funding_state rep = ''failed'' \<Longrightarrow> intent_status s' (rc_intent_id c) = Some Failed"
    "ear_funding_state rep = ''completed'' \<Longrightarrow>
       intent_status s' (rc_intent_id c) = Some Completed \<and> rule_completed s' (rc_rule_id c)"
proof -
  let ?i = "rc_intent_id c"
  have "invar s' \<and> log s' = log s \<and> (\<forall>j. j \<noteq> ?i \<longrightarrow> intent_status s' j = intent_status s j)
    \<and> (\<not> (\<exists>e. out = PreBroadcastFailure e) \<longrightarrow> budget_committed (intent_status s' ?i))
    \<and> (ear_funding_state rep = ''budget_reserved'' \<longrightarrow> intent_status s' ?i = Some BudgetReserved)
    \<and> (ear_funding_state rep = ''executing'' \<longrightarrow> intent_status s' ?i = Some Executing)
    \<and> (ear_funding_state rep = ''failed'' \<longrightarrow> intent_status s' ?i = Some Failed)
    \<and> (ear_funding_state rep = ''completed'' \<longrightarrow>
         intent_status s' ?i = Some Completed \<and> rule_completed s' (rc_rule_id c))"
  proof (cases out)
    case (PreBroadcastFailure e)
    then have "report_release P c ''prebroadcast_failed'' e False (base_report c) s = (rep, s')"
      using assms(2) by (simp add: settle_attempt_def)
    from release_report [OF assms(1) this] show ?thesis by (simp add: PreBroadcastFailure)
  next
    case (OutcomeUnknown sg e)
    with assms show ?thesis by (auto simp: settle_attempt_def budget_committed_def)
  next
    case (OnChainFailed sg e)
    obtain r s1 where f: "sp_fail_funding P ?i ''execution_onchain_failed'' s = (r, s1)"
      by (cases "sp_fail_funding P ?i ''execution_onchain_failed'' s")
    from fail [OF assms(1) f] assms(2,3) show ?thesis
      by (auto simp: settle_attempt_def OnChainFailed mark_onchain_failed_def f budget_committed_def
          split: sum.splits if_splits)
  next
    case (OutcomeFinalized sg slot)
    obtain x s1 where m: "mark_finalized P ?i (rc_rule_id c) (rc_amount_raw c) slot sg s = (x, s1)"
      by (cases "mark_finalized P ?i (rc_rule_id c) (rc_amount_raw c) slot sg s")
    note M = finalized_adapter [OF assms(1) m]
    have "rep = finalized_report (base_report c) sg slot x" "s' = s1"
      using assms(2) by (simp_all add: settle_attempt_def OutcomeFinalized m)
    with M assms(3) show ?thesis
      by (cases x) (auto simp: budget_committed_def OutcomeFinalized)
  qed
  then show "invar s'" "log s' = log s" "j \<noteq> ?i \<Longrightarrow> intent_status s' j = intent_status s j"
    "\<not> (\<exists>e. out = PreBroadcastFailure e) \<Longrightarrow> budget_committed (intent_status s' ?i)"
    "ear_funding_state rep = ''budget_reserved'' \<Longrightarrow> intent_status s' ?i = Some BudgetReserved"
    "ear_funding_state rep = ''executing'' \<Longrightarrow> intent_status s' ?i = Some Executing"
    "ear_funding_state rep = ''failed'' \<Longrightarrow> intent_status s' ?i = Some Failed"
    "ear_funding_state rep = ''completed'' \<Longrightarrow>
       intent_status s' ?i = Some Completed \<and> rule_completed s' (rc_rule_id c)"
    by blast+
qed

end

datatype 'f executor_event = Attempt revalidated_execution_candidate i64 | Foreign 'f

text \<open>How many transactions the attempts on one intent broadcast, other actors' steps interleaved.\<close>

fun broadcasts ::
    "'s execution_state_port \<Rightarrow> 's execution_backend \<Rightarrow> ('f \<Rightarrow> 's \<Rightarrow> 's) \<Rightarrow> ('s \<Rightarrow> 'm list) \<Rightarrow> string \<Rightarrow>
     's \<Rightarrow> 'f executor_event list \<Rightarrow> nat" where
  "broadcasts P B foreign log i s [] = 0"
| "broadcasts P B foreign log i s (Attempt c now # es) =
     (let s' = snd (execute_revalidated_candidate P B c now s) in
      (if rc_intent_id c = i then length (log s') - length (log s) else 0) + broadcasts P B foreign log i s' es)"
| "broadcasts P B foreign log i s (Foreign f # es) =
     broadcasts P B foreign log i (foreign f s) es"

text \<open>The state after a sequence of events.\<close>

fun event_step ::
    "'s execution_state_port \<Rightarrow> 's execution_backend \<Rightarrow> ('f \<Rightarrow> 's \<Rightarrow> 's) \<Rightarrow> 's \<Rightarrow> 'f executor_event \<Rightarrow> 's" where
  "event_step P B foreign s (Attempt c now) = snd (execute_revalidated_candidate P B c now s)"
| "event_step P B foreign s (Foreign f) = foreign f s"

context execution_world
begin

lemma attempt:
  assumes inv: "invar s" and ex: "execute_revalidated_candidate P B c now s = (out, s')"
  shows "invar s' \<and> (\<forall>j. j \<noteq> rc_intent_id c \<longrightarrow> intent_status s' j = intent_status s j)
    \<and> (\<exists>ms. log s' = log s @ ms \<and> length ms \<le> 1 \<and> (\<forall>m \<in> set ms. \<exists>p. signed_for c p \<and> carries p m))
    \<and> (budget_committed (intent_status s (rc_intent_id c)) \<longrightarrow>
         intent_status s' (rc_intent_id c) = intent_status s (rc_intent_id c) \<and> log s' = log s)
    \<and> (log s' \<noteq> log s \<longrightarrow> intent_status s (rc_intent_id c) = Some BudgetReserved
         \<and> budget_committed (intent_status s' (rc_intent_id c)))
    \<and> (out = None \<longrightarrow> intent_status s' (rc_intent_id c) = Some Executing \<and> log s' = log s)
    \<and> (\<forall>rep. out = Some rep \<longrightarrow>
         (ear_funding_state rep = ''budget_reserved'' \<longrightarrow> intent_status s' (rc_intent_id c) = Some BudgetReserved)
       \<and> (ear_funding_state rep = ''executing'' \<longrightarrow> intent_status s' (rc_intent_id c) = Some Executing)
       \<and> (ear_funding_state rep = ''failed'' \<longrightarrow> intent_status s' (rc_intent_id c) = Some Failed)
       \<and> (ear_funding_state rep = ''completed'' \<longrightarrow>
            intent_status s' (rc_intent_id c) = Some Completed \<and> rule_completed s' (rc_rule_id c)))"
proof -
  let ?i = "rc_intent_id c"
  obtain l s1 where l: "lease_after_final_revalidation P ?i now s = (l, s1)"
    by (cases "lease_after_final_revalidation P ?i now s")
  note L = lease_adapter [OF inv l]
  show ?thesis
  proof (cases l)
    case LeaseAcquired
    note held = L(5) [OF LeaseAcquired]
    obtain x s2 where rv: "eb_review_and_sign B c s1 = (x, s2)" by (cases "eb_review_and_sign B c s1")
    note R = review [OF L(1) rv]
    have free: "\<not> budget_committed (intent_status s ?i)" using L(4) LeaseAcquired by blast
    consider "x = None" | e where "x = Some (Inl e)" | payload where "x = Some (Inr payload)"
      by (metis not_None_eq sum.exhaust)
    then show ?thesis
    proof cases
      case 1
      then have "out = None" "s' = s2"
        using ex l rv LeaseAcquired by (simp_all add: execute_revalidated_candidate_def Let_def)
      with R L free held show ?thesis by auto
    next
      case (2 e)
      obtain rep where rr: "out = Some rep"
        "report_release P c ''prebroadcast_failed'' e
          (e = transaction_review_serialization_failed \<or> e = transaction_review_integrity_failed)
          (base_report c) s2 = (rep, s')"
        using ex l rv LeaseAcquired 2
        by (auto simp: execute_revalidated_candidate_def Let_def map_prod_def split: prod.splits)
      from release_report [OF conjunct1 [OF R] rr(2)] L R free rr(1) show ?thesis by auto
    next
      case (3 payload)
      obtain net s3 where sb: "eb_submit_and_observe B payload s2 = (net, s3)"
        by (cases "eb_submit_and_observe B payload s2")
      note S = submit [OF conjunct1 [OF R] sb]
      obtain rep where st: "out = Some rep" "settle_attempt P c net s3 = (rep, s')"
        using ex l rv sb LeaseAcquired 3
        by (auto simp: execute_revalidated_candidate_def Let_def map_prod_def split: prod.splits)
      have "intent_status s3 ?i = Some Executing" using held R S by simp
      note T = settled [OF conjunct1 [OF S] st(2) this]
      obtain ms where ms: "log s' = log s @ ms"
        "length ms = (case net of PreBroadcastFailure e \<Rightarrow> 0 | _ \<Rightarrow> 1)" "\<forall>m \<in> set ms. carries payload m"
        using S T(2) R L(2) by auto
      have "log s' \<noteq> log s \<Longrightarrow> \<not> (\<exists>e. net = PreBroadcastFailure e)" using ms by auto
      moreover have "\<exists>ms. log s' = log s @ ms \<and> length ms \<le> 1 \<and> (\<forall>m \<in> set ms. \<exists>p. signed_for c p \<and> carries p m)"
        using ms R 3 by (intro exI [of _ ms]) (cases net; auto)
      ultimately show ?thesis using T L R S free held st(1) by auto
    qed
  next
    case (LeaseNotAcquired e)
    then have "s' = s1" "\<exists>rep. out = Some rep \<and> ear_funding_state rep = ''unknown_or_not_budget_reserved''"
      using ex l by (auto simp: execute_revalidated_candidate_def Let_def)
    with L show ?thesis by (auto simp: LeaseNotAcquired)
  next
    case (LeaseStoreUnavailable e)
    then have "s' = s1" "\<exists>rep. out = Some rep \<and> ear_funding_state rep = ''unknown_or_not_budget_reserved''"
      using ex l by (auto simp: execute_revalidated_candidate_def Let_def)
    with L show ?thesis by (auto simp: LeaseStoreUnavailable)
  qed
qed

end

locale execution_environment = execution_world +
  fixes foreign :: "'f \<Rightarrow> 's \<Rightarrow> 's" and foreign_ok :: "'f \<Rightarrow> string \<Rightarrow> bool"
  assumes foreign: "invar s \<Longrightarrow>
      invar (foreign f s) \<and> log (foreign f s) = log s
    \<and> (foreign_ok f i \<longrightarrow> budget_committed (intent_status s i) \<longrightarrow>
         budget_committed (intent_status (foreign f s) i))"
begin

lemma broadcasts_bound:
  assumes "invar s" "\<And>f. Foreign f \<in> set es \<Longrightarrow> foreign_ok f i"
  shows "broadcasts P B foreign log i s es \<le> (if budget_committed (intent_status s i) then 0 else 1)"
  using assms
proof (induction es arbitrary: s)
  case (Cons e es)
  show ?case
  proof (cases e)
    case (Foreign f)
    with Cons.prems foreign [of s f i] have "broadcasts P B foreign log i (foreign f s) es
        \<le> (if budget_committed (intent_status (foreign f s) i) then 0 else 1)"
      by (intro Cons.IH) auto
    with Cons.prems foreign [of s f i] Foreign show ?thesis by (auto split: if_splits)
  next
    case (Attempt c now)
    obtain rep s' where ex: "execute_revalidated_candidate P B c now s = (rep, s')"
      by (cases "execute_revalidated_candidate P B c now s")
    note A = attempt [OF Cons.prems(1) ex]
    have "broadcasts P B foreign log i s' es \<le> (if budget_committed (intent_status s' i) then 0 else 1)"
      using A Cons.prems by (intro Cons.IH) auto
    with A show ?thesis by (cases "rc_intent_id c = i") (auto simp: Attempt ex split: if_splits)
  qed
qed simp

end

end
