(* ===== verification/Watch_Transaction.thy ===== *)
theory Watch_Transaction
  imports Controlled_Wallet Solend_Builders Candidate Execution
begin

text \<open>
  From a validated plan to the signed payload: the assembly of the one audited transaction and its
  reports (\<open>build_unsigned_transaction\<close> and \<open>report_for_fresh_unsigned_transaction\<close> of
  \<open>bins/solfrontier-mcp/src/watch.rs\<close>), and \<open>ProductionExecutionBackend::review_and_sign\<close> of
  \<open>watch_execute.rs\<close>. Whether a report can be serialized and printed is the parameter \<open>emit\<close>.
\<close>

section \<open>Reports\<close>

record account_meta_report =
  amr_position :: nat
  amr_pubkey :: string
  amr_is_signer :: bool
  amr_is_writable :: bool

record instruction_report =
  irp_instruction_index :: nat
  irp_label :: string
  irp_program_id :: string
  irp_data_hex :: string
  irp_accounts :: "account_meta_report list"

record unsigned_transaction_report =
  utr_kind :: string
  utr_sendable :: bool
  utr_fee_payer :: string
  utr_recent_blockhash :: "string option"
  utr_transaction_base64 :: string
  utr_signature_slots :: nat
  utr_all_signature_slots_default :: bool
  utr_input_amount_raw :: string
  utr_solend_program_id :: string
  utr_input_mint :: string
  utr_source_liquidity :: string
  utr_reserve_liquidity_supply :: string
  utr_compute_unit_limit :: u32
  utr_compute_unit_price_micro_lamports :: u64
  utr_instructions :: "instruction_report list"

definition compute_unit_limit :: u32 where "compute_unit_limit = 400000"
definition compute_unit_price_micro_lamports :: u64 where "compute_unit_price_micro_lamports = 50000"

text \<open>\<open>hex\<close> is \<open>hex::encode\<close>.\<close>

definition instruction_report_of ::
    "sdk \<Rightarrow> (bytes \<Rightarrow> string) \<Rightarrow> nat \<Rightarrow> string \<Rightarrow> instruction \<Rightarrow> instruction_report" where
  "instruction_report_of S hex instruction_index label ix =
     \<lparr>irp_instruction_index = instruction_index, irp_label = label,
      irp_program_id = sdk_pubkey_text S (in_program_id ix), irp_data_hex = hex (in_data ix),
      irp_accounts = map (\<lambda>(index, account).
          \<lparr>amr_position = index + 1, amr_pubkey = sdk_pubkey_text S (am_pubkey account),
           amr_is_signer = am_is_signer account, amr_is_writable = am_is_writable account\<rparr>)
        (enumerate 0 (in_accounts ix))\<rparr>"

section \<open>Assembly\<close>

abbreviation to_pubkey :: "pubkey_bytes \<Rightarrow> pubkey" where
  "to_pubkey \<equiv> pubkey_as_bytes"

definition plan_refresh :: "validated_plan_inputs \<Rightarrow> refresh_plan_inputs" where
  "plan_refresh plan =
     \<lparr>rpi_solend_program_id = to_pubkey (vi_solend_program_id plan),
      rpi_reserves =
        [\<lparr>rri_reserve_pubkey = to_pubkey (vi_reserve plan),
          rri_pyth_oracle = to_pubkey (vi_pyth_oracle plan),
          rri_switchboard_oracle = to_pubkey (vi_switchboard_oracle plan)\<rparr>],
      rpi_obligation = None\<rparr>"

definition plan_deposit :: "validated_plan_inputs \<Rightarrow> deposit_instruction_inputs" where
  "plan_deposit plan =
     \<lparr>di_solend_program_id = to_pubkey (vi_solend_program_id plan),
      di_amount = UnderlyingAmount (vi_input_amount_raw plan),
      di_source_liquidity = to_pubkey (vi_source_liquidity plan),
      di_user_collateral = to_pubkey (vi_user_collateral plan),
      di_reserve = to_pubkey (vi_reserve plan),
      di_reserve_liquidity_supply = to_pubkey (vi_reserve_liquidity_supply plan),
      di_reserve_collateral_mint = to_pubkey (vi_reserve_collateral_mint plan),
      di_lending_market = to_pubkey (vi_lending_market plan),
      di_destination_deposit_collateral = to_pubkey (vi_destination_deposit_collateral plan),
      di_obligation = to_pubkey (vi_obligation plan),
      di_obligation_owner = to_pubkey (vi_obligation_owner plan),
      di_pyth_oracle = to_pubkey (vi_pyth_oracle plan),
      di_switchboard_oracle = to_pubkey (vi_switchboard_oracle plan),
      di_user_transfer_authority = to_pubkey (vi_user_transfer_authority plan)\<rparr>"

definition build_unsigned_transaction ::
    "sdk \<Rightarrow> (bytes \<Rightarrow> string) \<Rightarrow> validated_plan_inputs \<Rightarrow>
     string + (transaction \<times> unsigned_transaction_report)" where
  "build_unsigned_transaction S hex plan =
     try_bind (case rp_instructions (build_refresh_instructions S (plan_refresh plan)) of
                 [] \<Rightarrow> Inl ''refresh_plan_empty'' | ix # _ \<Rightarrow> Inr ix) (\<lambda>refresh_reserve.
     try_bind (map_err (\<lambda>_. ''deposit_builder_rejected'')
         (build_deposit_reserve_liquidity_and_obligation_collateral_instruction S (plan_deposit plan))) (\<lambda>deposit.
       let instructions =
             [(''set_compute_unit_limit'', sdk_set_compute_unit_limit S compute_unit_limit),
              (''set_compute_unit_price'', sdk_set_compute_unit_price S compute_unit_price_micro_lamports),
              (''refresh_reserve'', refresh_reserve),
              (''deposit_reserve_liquidity_and_obligation_collateral'', deposit)];
           fee_payer = to_pubkey (vi_obligation_owner plan);
           tx = new_unsigned (sdk_message_new S (map snd instructions) (Some fee_payer))
       in try_bind (ok_or (sdk_bincode S tx) ''unsigned_transaction_serialize_failed'') (\<lambda>transaction_bytes.
            Inr (tx,
              \<lparr>utr_kind = ''unsigned_transaction_with_placeholder_blockhash'', utr_sendable = False,
               utr_fee_payer = sdk_pubkey_text S fee_payer, utr_recent_blockhash = None,
               utr_transaction_base64 = sdk_base64 S transaction_bytes,
               utr_signature_slots = length (tx_signatures tx),
               utr_all_signature_slots_default = (\<forall>sg \<in> set (tx_signatures tx). sg = default_signature),
               utr_input_amount_raw = decimal (unat (vi_input_amount_raw plan)),
               utr_solend_program_id = sdk_pubkey_text S (to_pubkey (vi_solend_program_id plan)),
               utr_input_mint = sdk_pubkey_text S (to_pubkey (vi_input_mint plan)),
               utr_source_liquidity = sdk_pubkey_text S (to_pubkey (vi_source_liquidity plan)),
               utr_reserve_liquidity_supply = sdk_pubkey_text S (to_pubkey (vi_reserve_liquidity_supply plan)),
               utr_compute_unit_limit = compute_unit_limit,
               utr_compute_unit_price_micro_lamports = compute_unit_price_micro_lamports,
               utr_instructions = map (\<lambda>(i, label, ix). instruction_report_of S hex i label ix)
                 (enumerate 0 instructions)\<rparr>))))"

definition report_for_fresh_unsigned_transaction ::
    "sdk \<Rightarrow> unsigned_transaction_report \<Rightarrow> bytes \<Rightarrow> transaction \<Rightarrow> string + unsigned_transaction_report" where
  "report_for_fresh_unsigned_transaction S report expected_placeholder_message_bytes tx =
     (if sdk_message_bytes S (normalized_message tx) \<noteq> expected_placeholder_message_bytes
         \<or> length (tx_signatures tx) \<noteq> utr_signature_slots report
         \<or> (\<exists>sg \<in> set (tx_signatures tx). sg \<noteq> default_signature)
      then Inl ''fresh_unsigned_transaction_drifted''
      else
        try_bind (ok_or (sdk_bincode S tx) ''fresh_unsigned_transaction_serialize_failed'') (\<lambda>transaction_bytes.
          Inr (report\<lparr>utr_kind := ''fresh_unsigned_transaction_immediately_before_signing'',
                      utr_recent_blockhash :=
                        Some (sdk_blockhash_text S (msg_recent_blockhash (tx_message tx))),
                      utr_transaction_base64 := sdk_base64 S transaction_bytes,
                      utr_all_signature_slots_default := True\<rparr>)))"

section \<open>Review by the production backend\<close>

definition emit_json_report :: "('r \<Rightarrow> bool) \<Rightarrow> 'r \<Rightarrow> string \<Rightarrow> string + unit" where
  "emit_json_report emit report failure_class = (if emit report then Inr () else Inl failure_class)"

definition transaction_after_visible_review ::
    "sdk \<Rightarrow> (bytes \<Rightarrow> string) \<Rightarrow> revalidated_execution_candidate \<Rightarrow>
     (unsigned_transaction_report \<Rightarrow> string + unit) \<Rightarrow>
     string + (transaction \<times> unsigned_transaction_report)" where
  "transaction_after_visible_review S hex candidate emit =
     try_bind (build_unsigned_transaction S hex (rc_plan candidate)) (\<lambda>(tx, report).
     try_bind (emit report) (\<lambda>_. Inr (tx, report)))"

definition plan_policy :: "validated_plan_inputs \<Rightarrow> bytes \<Rightarrow> canonical_execution_policy" where
  "plan_policy plan expected_message_bytes =
     \<lparr>cep_solend_program_id = to_pubkey (vi_solend_program_id plan),
      cep_input_mint = to_pubkey (vi_input_mint plan),
      cep_input_amount_raw = vi_input_amount_raw plan,
      cep_source_liquidity = to_pubkey (vi_source_liquidity plan),
      cep_reserve_liquidity_supply = to_pubkey (vi_reserve_liquidity_supply plan),
      cep_expected_message_bytes = expected_message_bytes\<rparr>"

text \<open>The closure that \<open>review_and_sign\<close> runs on the exact message before signing.\<close>

definition signing_audit ::
    "sdk \<Rightarrow> (unsigned_transaction_report \<Rightarrow> bool) \<Rightarrow> unsigned_transaction_report \<Rightarrow> bytes \<Rightarrow> transaction \<Rightarrow>
     watch_wallet_error + unit" where
  "signing_audit S emit placeholder_report expected_message_bytes fresh_unsigned =
     (case report_for_fresh_unsigned_transaction S placeholder_report expected_message_bytes fresh_unsigned of
        Inl e \<Rightarrow>
          Inl (if e = ''fresh_unsigned_transaction_drifted'' then AuditIntegrityFailed else AuditOutputFailed)
      | Inr fresh_report \<Rightarrow>
          (case emit_json_report emit fresh_report transaction_review_serialization_failed of
             Inl _ \<Rightarrow> Inl AuditOutputFailed
           | Inr _ \<Rightarrow> Inr ()))"

definition production_review ::
    "('f, 'o, 'now) wallet_world \<Rightarrow> 's loaded_controlled_wallet \<Rightarrow>
     (unsigned_transaction_report \<Rightarrow> bool) \<Rightarrow> revalidated_execution_candidate \<Rightarrow> pipeline_state \<Rightarrow> 's \<Rightarrow>
     ((string + reviewed_signed_payload) \<times> pipeline_state \<times> 's) option" where
  "production_review W wallet emit candidate st s =
     (let S = ww_sdk W in
      case transaction_after_visible_review S (ww_hex W) candidate
             (\<lambda>report. emit_json_report emit report transaction_review_serialization_failed) of
        Inl e \<Rightarrow> Some (Inl e, st, s)
      | Inr (unsigned_transaction, placeholder_report) \<Rightarrow>
          (let expected_message_bytes = sdk_message_bytes S (tx_message unsigned_transaction) in
           case review_and_sign W wallet (rc_intent_id candidate) unsigned_transaction
                  (plan_policy (rc_plan candidate) expected_message_bytes)
                  (signing_audit S emit placeholder_report expected_message_bytes) st s of
             None \<Rightarrow> None
           | Some (Inl e, st', s') \<Rightarrow> Some (Inl (watch_wallet_error_class e), st', s')
           | Some (Inr reviewed, st', s') \<Rightarrow>
               Some (case submission_bytes S reviewed of
                   Inl e \<Rightarrow> Inl (watch_wallet_error_class e)
                 | Inr bs \<Rightarrow> Inr
                     \<lparr>rsp_signed_transaction_bytes = bs, rsp_signature = rst_signature reviewed,
                      rsp_last_valid_block_height = rst_last_valid_block_height reviewed\<rparr>,
                 st', s')))"

section \<open>What a signed payload is\<close>

lemma signed_payload:
  assumes "production_review W wallet emit c st s = Some (Inr p, st', s')"
  shows "\<exists>unsigned report bh fresh k v signed idx.
     build_unsigned_transaction (ww_sdk W) (ww_hex W) (rc_plan c) = Inr (unsigned, report)
   \<and> emit report
   \<and> canonical_shape (ww_sdk W) (tx_message unsigned) (lcw_pubkey wallet)
       (plan_policy (rc_plan c) (sdk_message_bytes (ww_sdk W) (tx_message unsigned)))
   \<and> pe_simulate (ww_node W) k (with_blockhash unsigned bh) simulation_config = Inr v \<and> rs_err v = None
   \<and> report_for_fresh_unsigned_transaction (ww_sdk W) report
       (sdk_message_bytes (ww_sdk W) (tx_message unsigned)) (with_blockhash unsigned bh) = Inr fresh
   \<and> emit fresh
   \<and> sdk_bincode_parse (ww_sdk W) (rsp_signed_transaction_bytes p) = Inr signed
   \<and> sdk_message_bytes (ww_sdk W) (tx_message signed)
       = sdk_message_bytes (ww_sdk W) ((tx_message unsigned)\<lparr>msg_recent_blockhash := bh\<rparr>)
   \<and> sdk_verify (ww_sdk W) signed
   \<and> index_of (lcw_pubkey wallet) (msg_account_keys (tx_message signed)) = Some idx
   \<and> idx < length (tx_signatures signed) \<and> tx_signatures signed ! idx = rsp_signature p
   \<and> rsp_signature p \<noteq> default_signature"
proof -
  let ?S = "ww_sdk W"
  obtain unsigned report reviewed where
    b: "build_unsigned_transaction ?S (ww_hex W) (rc_plan c) = Inr (unsigned, report)" "emit report"
    and rv: "review_and_sign W wallet (rc_intent_id c) unsigned
        (plan_policy (rc_plan c) (sdk_message_bytes ?S (tx_message unsigned)))
        (signing_audit ?S emit report (sdk_message_bytes ?S (tx_message unsigned))) st s
        = Some (Inr reviewed, st', s')"
    and p: "submission_bytes ?S reviewed = Inr (rsp_signed_transaction_bytes p)"
      "rsp_signature p = rst_signature reviewed"
    using assms
    by (auto simp: production_review_def transaction_after_visible_review_def emit_json_report_def Let_def
        split: sum.splits option.splits if_splits)
  from submission_bytes_Inr(1) [OF p(1)] have
    bytes: "rsp_signed_transaction_bytes p = rst_signed_transaction_bytes reviewed" .
  have audit: "\<exists>fresh. report_for_fresh_unsigned_transaction ?S report bs tx = Inr fresh \<and> emit fresh"
    if "signing_audit ?S emit report bs tx = Inr ()" for bs tx
    using that by (auto simp: signing_audit_def emit_json_report_def split: sum.splits if_splits)
  from review_and_sign_Inr [OF rv] audit b bytes p(2) show ?thesis by (metis (no_types, lifting))
qed

end
