(* ===== verification/Signing_Liveness.thy ===== *)
theory Signing_Liveness
  imports Watch_Transaction
begin

text \<open>
  The executor, the transaction builder, the risk policy and the wallet agree: a plan the executor admits
  passes every check between assembly and signature. What this relies on in the SDK is stated as
  \<open>sdk_laws\<close> (the documented behaviour of \<open>Message::new\<close>, \<open>bincode\<close>, the compute budget instructions and
  the text of a key), in the key crate as \<open>partial_sign_law\<close>, in the node as \<open>healthy_node\<close>.
  That the wallet signs what it is given (\<open>signer_signs\<close>) is proved, of every wallet that
  \<open>load_controlled_wallet\<close> returns.
\<close>

section \<open>Documented behaviour of the SDK\<close>

text \<open>A compiled instruction stands for an instruction under the key table of its message.\<close>

definition resolves :: "message \<Rightarrow> compiled_instruction \<Rightarrow> instruction \<Rightarrow> bool" where
  "resolves m ci ix \<longleftrightarrow>
     key_at m (ci_program_id_index ci) = Some (in_program_id ix) \<and> ci_data ci = in_data ix
   \<and> map (key_at m) (ci_accounts ci) = map (\<lambda>a. Some (am_pubkey a)) (in_accounts ix)"

definition instruction_keys :: "instruction \<Rightarrow> pubkey list" where
  "instruction_keys ix = in_program_id ix # map am_pubkey (in_accounts ix)"

definition signer_keys :: "pubkey \<Rightarrow> instruction list \<Rightarrow> pubkey set" where
  "signer_keys payer ixs =
     insert payer (\<Union>ix \<in> set ixs. am_pubkey ` {a \<in> set (in_accounts ix). am_is_signer a})"

definition message_new_law :: "sdk \<Rightarrow> instruction list \<Rightarrow> pubkey \<Rightarrow> bool" where
  "message_new_law S ixs payer \<longleftrightarrow>
     (let m = sdk_message_new S ixs (Some payer) in
        msg_recent_blockhash m = default_blockhash \<and> first_key m = Some payer
      \<and> unat (mh_num_required_signatures (msg_header m)) = card (signer_keys payer ixs)
      \<and> list_all2 (resolves m) (msg_instructions m) ixs)"

definition sdk_laws :: "sdk \<Rightarrow> bool" where
  "sdk_laws S \<longleftrightarrow>
     (\<forall>ixs payer. length (payer # concat (map instruction_keys ixs)) < 256 \<longrightarrow> message_new_law S ixs payer)
   \<and> (\<forall>tx. \<exists>bs. sdk_bincode S tx = Some bs \<and> sdk_bincode_parse S bs = Inr tx)
   \<and> (\<forall>n. sdk_set_compute_unit_limit S n =
        \<lparr>in_program_id = sdk_compute_budget_id S, in_accounts = [], in_data = 2 # to_le_bytes 4 n\<rparr>)
   \<and> (\<forall>n. sdk_set_compute_unit_price S n =
        \<lparr>in_program_id = sdk_compute_budget_id S, in_accounts = [], in_data = 3 # to_le_bytes 8 n\<rparr>)
   \<and> (\<forall>t \<in> {audited_solend_program_bs58, mainnet_usdc_mint_bs58}. sdk_pubkey_text S (sdk_pubkey S t) = t)"

section \<open>The built transaction has the canonical shape\<close>

text \<open>The plan names the pinned program and mint, and the wallet as owner and authority.\<close>

definition plan_for_wallet :: "sdk \<Rightarrow> pubkey \<Rightarrow> validated_plan_inputs \<Rightarrow> bool" where
  "plan_for_wallet S wallet plan \<longleftrightarrow>
     to_pubkey (vi_solend_program_id plan) = sdk_pubkey S audited_solend_program_bs58
   \<and> to_pubkey (vi_input_mint plan) = sdk_pubkey S mainnet_usdc_mint_bs58
   \<and> to_pubkey (vi_obligation_owner plan) = wallet \<and> to_pubkey (vi_user_transfer_authority plan) = wallet
   \<and> vi_input_amount_raw plan \<noteq> 0"

text \<open>Every account index of the message is in its key table.\<close>

definition accounts_resolve :: "message \<Rightarrow> bool" where
  "accounts_resolve m \<longleftrightarrow> (\<forall>ix \<in> set (msg_instructions m). \<forall>a \<in> set (ci_accounts ix). \<exists>k. key_at m a = Some k)"

lemma accounts_resolve_blockhash [simp]:
  "accounts_resolve (m\<lparr>msg_recent_blockhash := bh\<rparr>) = accounts_resolve m"
  by (simp add: accounts_resolve_def key_at_def)

lemma compute_data:
  "2 # to_le_bytes 4 compute_unit_limit = reviewed_compute_unit_limit_data"
  "3 # to_le_bytes 8 compute_unit_price_micro_lamports = reviewed_compute_unit_price_data"
proof -
  have "to_le_bytes (Suc (Suc (Suc (Suc 0)))) compute_unit_limit = [0x80, 0x1a, 0x06, 0]"
    unfolding to_le_bytes_def compute_unit_limit_def nat_to_le.simps by simp
  moreover have "Suc (Suc (Suc (Suc 0))) = 4" by simp
  ultimately show "2 # to_le_bytes 4 compute_unit_limit = reviewed_compute_unit_limit_data"
    unfolding reviewed_compute_unit_limit_data_def by (simp only:)
  have "to_le_bytes (Suc (Suc (Suc (Suc (Suc (Suc (Suc (Suc 0)))))))) compute_unit_price_micro_lamports
      = [0x50, 0xc3, 0, 0, 0, 0, 0, 0]"
    unfolding to_le_bytes_def compute_unit_price_micro_lamports_def nat_to_le.simps by simp
  moreover have "Suc (Suc (Suc (Suc (Suc (Suc (Suc (Suc 0))))))) = 8" by simp
  ultimately show "3 # to_le_bytes 8 compute_unit_price_micro_lamports = reviewed_compute_unit_price_data"
    unfolding reviewed_compute_unit_price_data_def by (simp only:)
qed

lemma resolves_nth:
  assumes "resolves m ci ix" "n < length (in_accounts ix)"
  shows "key_at m (ci_accounts ci ! n) = Some (am_pubkey (in_accounts ix ! n))"
    "length (ci_accounts ci) = length (in_accounts ix)"
proof -
  from assms(1) have "map (key_at m) (ci_accounts ci) = map (\<lambda>a. Some (am_pubkey a)) (in_accounts ix)"
    by (simp add: resolves_def)
  then show len: "length (ci_accounts ci) = length (in_accounts ix)" by (metis length_map)
  from assms(2) len \<open>map (key_at m) _ = _\<close>
  show "key_at m (ci_accounts ci ! n) = Some (am_pubkey (in_accounts ix ! n))"
    by (metis nth_map)
qed

lemma list_all2_four:
  "list_all2 P xs [a, b, c, d] \<longleftrightarrow> (\<exists>w x y z. xs = [w, x, y, z] \<and> P w a \<and> P x b \<and> P y c \<and> P z d)"
  by (auto simp: list_all2_Cons2)

lemma resolves_account: "resolves m ci ix \<Longrightarrow> a \<in> set (ci_accounts ci) \<Longrightarrow> \<exists>k. key_at m a = Some k"
proof -
  assume "resolves m ci ix" "a \<in> set (ci_accounts ci)"
  then have "key_at m a \<in> set (map (\<lambda>a. Some (am_pubkey a)) (in_accounts ix))"
    unfolding resolves_def by (metis image_eqI image_set)
  then show ?thesis by auto
qed

lemma shape_of_instructions:
  assumes ixs: "msg_instructions m = [i0, i1, i2, i3]"
    and "resolves m i0 \<lparr>in_program_id = sdk_compute_budget_id S, in_accounts = [],
           in_data = 2 # to_le_bytes 4 compute_unit_limit\<rparr>"
      "resolves m i1 \<lparr>in_program_id = sdk_compute_budget_id S, in_accounts = [],
           in_data = 3 # to_le_bytes 8 compute_unit_price_micro_lamports\<rparr>"
      "resolves m i2 refresh" and dep: "resolves m i3 deposit"
    and "in_program_id refresh = sdk_pubkey S audited_solend_program_bs58"
      "in_data refresh = [solend_refresh_reserve_tag]"
    and "in_program_id deposit = sdk_pubkey S audited_solend_program_bs58"
      "in_data deposit = solend_deposit_and_obligation_tag # to_le_bytes 8 (cep_input_amount_raw c)"
      "length (in_accounts deposit) = 14"
      "am_pubkey (in_accounts deposit ! 0) = cep_source_liquidity c"
      "am_pubkey (in_accounts deposit ! 3) = cep_reserve_liquidity_supply c"
      "am_pubkey (in_accounts deposit ! 9) = w" "am_pubkey (in_accounts deposit ! 12) = w"
      "am_pubkey (in_accounts deposit ! 13) = sdk_pubkey S classic_token_program_bs58"
    and "first_key m = Some w" "mh_num_required_signatures (msg_header m) = 1"
    and "cep_solend_program_id c = sdk_pubkey S audited_solend_program_bs58"
      "cep_input_mint c = sdk_pubkey S mainnet_usdc_mint_bs58" "cep_input_amount_raw c \<noteq> 0"
    and bh: "msg_recent_blockhash m = default_blockhash" "cep_expected_message_bytes c = sdk_message_bytes S m"
  shows "canonical_shape S m w c"
proof -
  note a = resolves_nth [OF dep]
  have n: "length (ci_accounts i3) = 14" using a(2) [of 0] assms by simp
  have "m\<lparr>msg_recent_blockhash := default_blockhash\<rparr> = m" using bh(1) by (cases m) simp
  then have "sdk_message_bytes S (m\<lparr>msg_recent_blockhash := default_blockhash\<rparr>) = sdk_message_bytes S m"
    by (simp only:)
  moreover have "key_at m (ci_accounts i3 ! 0) = Some (cep_source_liquidity c)"
    "key_at m (ci_accounts i3 ! 3) = Some (cep_reserve_liquidity_supply c)"
    "key_at m (ci_accounts i3 ! 9) = Some w" "key_at m (ci_accounts i3 ! 12) = Some w"
    "key_at m (ci_accounts i3 ! 13) = Some (sdk_pubkey S classic_token_program_bs58)"
    using a(1) [of 0] a(1) [of 3] a(1) [of 9] a(1) [of 12] a(1) [of 13] assms by simp_all
  ultimately show ?thesis
    using assms n by (simp add: canonical_shape_def resolves_def compute_data)
qed

lemma built_transaction:
  assumes laws: "sdk_laws S" and plan: "plan_for_wallet S w plan"
  obtains tx report where
    "build_unsigned_transaction S hex plan = Inr (tx, report)"
    "tx_signatures tx = [default_signature]" "utr_signature_slots report = 1"
    "canonical_shape S (tx_message tx) w (plan_policy plan (sdk_message_bytes S (tx_message tx)))"
    "accounts_resolve (tx_message tx)" "msg_recent_blockhash (tx_message tx) = default_blockhash"
proof -
  obtain refresh where r: "rp_instructions (build_refresh_instructions S (plan_refresh plan)) = [refresh]"
    and refresh: "in_program_id refresh = sdk_pubkey S audited_solend_program_bs58"
      "in_data refresh = [solend_refresh_reserve_tag]" "length (in_accounts refresh) = 4"
      "\<forall>a \<in> set (in_accounts refresh). \<not> am_is_signer a"
    using plan
    by (simp add: build_refresh_instructions_def plan_refresh_def Let_def plan_for_wallet_def
        refresh_reserve_tag_def solend_refresh_reserve_tag_def meta_new_def meta_new_readonly_def)
  obtain deposit where d: "build_deposit_reserve_liquidity_and_obligation_collateral_instruction S (plan_deposit plan)
        = Inr deposit"
    and deposit: "in_program_id deposit = sdk_pubkey S audited_solend_program_bs58"
      "in_data deposit = solend_deposit_and_obligation_tag # to_le_bytes 8 (vi_input_amount_raw plan)"
      "length (in_accounts deposit) = 14"
      "am_pubkey (in_accounts deposit ! 0) = to_pubkey (vi_source_liquidity plan)"
      "am_pubkey (in_accounts deposit ! 3) = to_pubkey (vi_reserve_liquidity_supply plan)"
      "am_pubkey (in_accounts deposit ! 9) = w" "am_pubkey (in_accounts deposit ! 12) = w"
      "am_pubkey (in_accounts deposit ! 13) = sdk_pubkey S classic_token_program_bs58"
      "\<forall>a \<in> set (in_accounts deposit). am_is_signer a \<longrightarrow> am_pubkey a = w"
    using plan
    by (simp add: build_deposit_reserve_liquidity_and_obligation_collateral_instruction_def plan_deposit_def
        Let_def plan_for_wallet_def deposit_tag_def solend_deposit_and_obligation_tag_def
        meta_new_def meta_new_readonly_def spl_token_program_id_def classic_token_program_bs58_def)
  let ?ixs = "[sdk_set_compute_unit_limit S compute_unit_limit,
      sdk_set_compute_unit_price S compute_unit_price_micro_lamports, refresh, deposit]"
  let ?m = "sdk_message_new S ?ixs (Some w)"
  have budget: "sdk_set_compute_unit_limit S n =
        \<lparr>in_program_id = sdk_compute_budget_id S, in_accounts = [], in_data = 2 # to_le_bytes 4 n\<rparr>"
      "sdk_set_compute_unit_price S n' =
        \<lparr>in_program_id = sdk_compute_budget_id S, in_accounts = [], in_data = 3 # to_le_bytes 8 n'\<rparr>" for n n'
    using laws by (simp_all add: sdk_laws_def)
  have "signer_keys w ?ixs = {w}"
    using refresh(4) deposit(9) by (auto simp: signer_keys_def budget)
  moreover have "length (w # concat (map instruction_keys ?ixs)) < 256"
    using refresh(3) deposit(3) by (simp add: instruction_keys_def budget)
  then have law: "message_new_law S ?ixs w" using laws unfolding sdk_laws_def by blast
  ultimately have one: "mh_num_required_signatures (msg_header ?m) = 1"
    by (simp add: message_new_law_def Let_def word_unat_eq_iff)
  have all: "list_all2 (resolves ?m) (msg_instructions ?m) ?ixs"
    using law by (simp add: message_new_law_def Let_def)
  then obtain i0 i1 i2 i3 where ixs: "msg_instructions ?m = [i0, i1, i2, i3]"
    and res: "resolves ?m i0 (?ixs ! 0)" "resolves ?m i1 (?ixs ! 1)" "resolves ?m i2 refresh"
      "resolves ?m i3 deposit"
    by (auto simp: list_all2_four)
  obtain bs where bs: "sdk_bincode S (new_unsigned ?m) = Some bs" using laws unfolding sdk_laws_def by blast
  have owner: "to_pubkey (vi_obligation_owner plan) = w" using plan by (simp add: plan_for_wallet_def)
  have sigs: "tx_signatures (new_unsigned ?m) = [default_signature]"
    by (simp add: new_unsigned_def one)
  obtain report where b: "build_unsigned_transaction S hex plan = Inr (new_unsigned ?m, report)"
    and "utr_signature_slots report = 1"
    using bs sigs by (simp add: build_unsigned_transaction_def r d Let_def owner)
  moreover have "msg_recent_blockhash ?m = default_blockhash" "first_key ?m = Some w"
    using law by (simp_all add: message_new_law_def Let_def)
  moreover have "accounts_resolve ?m"
    using resolves_account [OF res(1)] resolves_account [OF res(2)] resolves_account [OF res(3)]
      resolves_account [OF res(4)] by (auto simp: accounts_resolve_def ixs)
  moreover have "canonical_shape S ?m w (plan_policy plan (sdk_message_bytes S ?m))"
    by (rule shape_of_instructions [OF ixs])
       (use res deposit refresh one plan \<open>first_key ?m = _\<close> \<open>msg_recent_blockhash ?m = _\<close> in
         \<open>simp_all add: budget plan_policy_def plan_for_wallet_def\<close>)
  ultimately show thesis using that [OF b sigs] by (simp add: new_unsigned_def)
qed

section \<open>Every check passes\<close>

lemma collect_results_all:
  assumes "\<And>x. x \<in> set xs \<Longrightarrow> f x = Inr (g x)"
  shows "collect_results (map f xs) = Inr (map g xs)"
  using assms by (induction xs) auto

lemma summarize_ok:
  assumes "\<forall>a \<in> set (ci_accounts ix). \<exists>k. key_at (tx_message tx) a = Some k"
  shows "\<exists>accounts. summarize_instruction S tx c n program ix = Inr
     \<lparr>ix_program_id = sdk_pubkey_text S program,
      ix_program_name = Some (if program = sdk_compute_budget_id S then ''ComputeBudget'' else ''Solend''),
      ix_description = step_description n, ix_transfer_lamports = None,
      ix_token_transfer =
        (if n = 3
         then Some \<lparr>tt_mint = sdk_pubkey_text S (cep_input_mint c), tt_amount = cep_input_amount_raw c,
                    tt_decimals = Some 6, tt_source = sdk_pubkey_text S (cep_source_liquidity c),
                    tt_destination = sdk_pubkey_text S (cep_reserve_liquidity_supply c)\<rparr>
         else None),
      ix_is_legacy_token_transfer = False, ix_accounts = accounts\<rparr>"
proof -
  have "\<exists>as. collect_results (map (\<lambda>account_index.
         try_bind (ok_or (key_at (tx_message tx) account_index) TransactionShapeRejected) (\<lambda>k.
           Inr \<lparr>ar_pubkey = sdk_pubkey_text S k, ar_label = None,
                ar_is_signer = sdk_is_signer S (tx_message tx) (unat account_index),
                ar_is_writable = sdk_is_maybe_writable S (tx_message tx) (unat account_index)\<rparr>))
       (ci_accounts ix)) = Inr as"
    by (rule exI, rule collect_results_all
          [where g = "\<lambda>a. \<lparr>ar_pubkey = sdk_pubkey_text S (the (key_at (tx_message tx) a)), ar_label = None,
                ar_is_signer = sdk_is_signer S (tx_message tx) (unat a),
                ar_is_writable = sdk_is_maybe_writable S (tx_message tx) (unat a)\<rparr>"])
       (use assms in \<open>auto simp: ok_or_def\<close>)
  then show ?thesis by (auto simp: summarize_instruction_def)
qed

text \<open>What the policy looks at in the summaries of the canonical transaction.\<close>

definition canonical_summaries :: "sdk \<Rightarrow> canonical_execution_policy \<Rightarrow> instruction_summary list \<Rightarrow> bool" where
  "canonical_summaries S c ss \<longleftrightarrow>
     (\<forall>x \<in> set ss. ix_program_id x \<in> {sdk_pubkey_text S (sdk_compute_budget_id S),
          sdk_pubkey_text S (sdk_pubkey S audited_solend_program_bs58)}
        \<and> \<not> ix_is_legacy_token_transfer x)
   \<and> map (\<lambda>t. (tt_mint t, tt_amount t)) (List.map_filter ix_token_transfer ss)
       = [(sdk_pubkey_text S (cep_input_mint c), cep_input_amount_raw c)]"

lemma validate_canonical:
  assumes "canonical_shape S (tx_message tx) w c" "accounts_resolve (tx_message tx)"
    "tx_signatures tx = [default_signature]"
  obtains ss where "validate_and_summarize S tx w c = Inr ss" "canonical_summaries S c ss"
proof -
  let ?m = "tx_message tx"
  obtain i0 i1 i2 i3 where ixs: "msg_instructions ?m = [i0, i1, i2, i3]"
    and k: "key_at ?m (ci_program_id_index i0) = Some (sdk_compute_budget_id S)"
      "key_at ?m (ci_program_id_index i1) = Some (sdk_compute_budget_id S)"
      "key_at ?m (ci_program_id_index i2) = Some (sdk_pubkey S audited_solend_program_bs58)"
      "key_at ?m (ci_program_id_index i3) = Some (sdk_pubkey S audited_solend_program_bs58)"
    and d: "ci_data i0 = reviewed_compute_unit_limit_data" "ci_data i1 = reviewed_compute_unit_price_data"
      "ci_data i2 = [solend_refresh_reserve_tag]"
      "ci_data i3 = solend_deposit_and_obligation_tag # to_le_bytes 8 (cep_input_amount_raw c)"
    and a: "length (ci_accounts i3) = 14"
      "key_at ?m (ci_accounts i3 ! 0) = Some (cep_source_liquidity c)"
      "key_at ?m (ci_accounts i3 ! 3) = Some (cep_reserve_liquidity_supply c)"
      "key_at ?m (ci_accounts i3 ! 9) = Some w" "key_at ?m (ci_accounts i3 ! 12) = Some w"
      "key_at ?m (ci_accounts i3 ! 13) = Some (sdk_pubkey S classic_token_program_bs58)"
    and rest: "first_key ?m = Some w" "mh_num_required_signatures (msg_header ?m) = 1"
      "cep_solend_program_id c = sdk_pubkey S audited_solend_program_bs58"
      "cep_input_mint c = sdk_pubkey S mainnet_usdc_mint_bs58" "cep_input_amount_raw c \<noteq> 0"
      "sdk_message_bytes S (?m\<lparr>msg_recent_blockhash := default_blockhash\<rparr>) = cep_expected_message_bytes c"
    using assms(1) by (auto simp: canonical_shape_def)
  note s = summarize_ok [of _ tx S c]
  obtain s0 s1 s2 s3 where
    s0: "summarize_instruction S tx c 0 (sdk_compute_budget_id S) i0 = Inr s0"
      "ix_program_id s0 = sdk_pubkey_text S (sdk_compute_budget_id S)" "ix_token_transfer s0 = None"
      "\<not> ix_is_legacy_token_transfer s0"
    and s1: "summarize_instruction S tx c 1 (sdk_compute_budget_id S) i1 = Inr s1"
      "ix_program_id s1 = sdk_pubkey_text S (sdk_compute_budget_id S)" "ix_token_transfer s1 = None"
      "\<not> ix_is_legacy_token_transfer s1"
    and s2: "summarize_instruction S tx c 2 (sdk_pubkey S audited_solend_program_bs58) i2 = Inr s2"
      "ix_program_id s2 = sdk_pubkey_text S (sdk_pubkey S audited_solend_program_bs58)"
      "ix_token_transfer s2 = None" "\<not> ix_is_legacy_token_transfer s2"
    and s3: "summarize_instruction S tx c 3 (sdk_pubkey S audited_solend_program_bs58) i3 = Inr s3"
      "ix_program_id s3 = sdk_pubkey_text S (sdk_pubkey S audited_solend_program_bs58)"
      "\<exists>t. ix_token_transfer s3 = Some t \<and> tt_mint t = sdk_pubkey_text S (cep_input_mint c)
         \<and> tt_amount t = cep_input_amount_raw c" "\<not> ix_is_legacy_token_transfer s3"
    using s [of i0 0 "sdk_compute_budget_id S"] s [of i1 1 "sdk_compute_budget_id S"]
      s [of i2 2 "sdk_pubkey S audited_solend_program_bs58"]
      s [of i3 3 "sdk_pubkey S audited_solend_program_bs58"] assms(2)
    by (auto simp: accounts_resolve_def ixs)
  have acc: "instruction_account tx i3 n = Inr v" if "key_at ?m (ci_accounts i3 ! n) = Some v" "n < 14" for n v
    using that a(1) by (simp add: instruction_account_Inr)
  have "validate_and_summarize S tx w c = Inr [s0, s1, s2, s3]"
    unfolding validate_and_summarize_def Let_def ixs
    using k d a rest s0(1) s1(1) s2(1) s3(1) assms(3)
    by (simp add: expected_instruction_count_def expected_deposit_account_count_def ok_or_def acc
        message_matches_builder_template_def normalized_message_def numeral_2_eq_2 numeral_3_eq_3)
  moreover have "canonical_summaries S c [s0, s1, s2, s3]"
    using s0 s1 s2 s3 by (auto simp: canonical_summaries_def List.map_filter_def)
  ultimately show thesis by (rule that)
qed

text \<open>The risk policy approves the canonical deposit.\<close>

lemma policy_approves:
  assumes laws: "sdk_laws S" and ss: "canonical_summaries S c (tp_instructions_summary (ctx_proposal ctx))"
    and c: "cep_input_mint c = sdk_pubkey S mainnet_usdc_mint_bs58" "cep_input_amount_raw c \<noteq> - 1"
    and sim: "ctx_simulation_result ctx = Some sim" "sim_success sim"
  obtains ps where "execution_policy S c = Inr ps"
    "per_verdict (evaluate_at P ps ctx now) = VerdictApproved ''canonical-solend-deposit''"
proof -
  let ?ss = "tp_instructions_summary (ctx_proposal ctx)"
  have t: "sdk_pubkey_text S (sdk_pubkey S audited_solend_program_bs58) = audited_solend_program_bs58"
    "sdk_pubkey_text S (sdk_pubkey S mainnet_usdc_mint_bs58) = mainnet_usdc_mint_bs58"
    using laws by (simp_all add: sdk_laws_def)
  have max: "unat (cep_input_amount_raw c) + 1 < 2 ^ 64"
  proof -
    have "unat (cep_input_amount_raw c) \<noteq> unat (- 1 :: u64)" using c(2) by (simp add: word_unat_eq_iff)
    then show ?thesis using unat_less_exp [of "cep_input_amount_raw c"] by (simp add: unat_minus_one_word_max)
  qed
  then have add: "checked_add (cep_input_amount_raw c) 1 = Some (cep_input_amount_raw c + 1)"
    by (simp add: checked_add_def)
  have less: "cep_input_amount_raw c < cep_input_amount_raw c + 1"
    using max by (simp add: word_less_nat_alt unat_add_no_wrap)
  obtain tr where tr: "token_transfers ctx = [tr]" "tt_mint tr = mainnet_usdc_mint_bs58"
    "tt_amount tr = cep_input_amount_raw c"
    using ss c(1) t(2) by (auto simp: canonical_summaries_def token_transfers_def)
  then have total: "token_total mainnet_usdc_mint_bs58 ctx = cep_input_amount_raw c"
    by (simp add: token_total_def)
  have programs: "\<forall>x \<in> set ?ss. ix_program_id x \<in> {sdk_pubkey_text S (sdk_compute_budget_id S), audited_solend_program_bs58}
      \<and> \<not> ix_is_legacy_token_transfer x"
    using ss t(1) by (simp add: canonical_summaries_def)
  show thesis
  proof (rule that)
    show "execution_policy S c = Inr (the (result_option (execution_policy S c)))"
      by (simp add: execution_policy_def add ok_or_def result_option_def)
    show "per_verdict (evaluate_at P (the (result_option (execution_policy S c))) ctx now)
        = VerdictApproved ''canonical-solend-deposit''"
      using sim programs tr total less
      by (auto simp: execution_policy_def add ok_or_def result_option_def evaluate_at_def reject_rule_def)
  qed
qed

definition healthy_node :: "pipeline_env \<Rightarrow> bool" where
  "healthy_node N \<longleftrightarrow>
     (\<forall>k. \<exists>f. pe_fetch_blockhash N k = Inr f) \<and> (\<forall>k tx. \<exists>v. pe_simulate N k tx simulation_config = Inr v \<and> rs_err v = None)"

text \<open>
  The documented behaviour of \<open>partial_sign\<close> for one keypair: when its public key is the first account
  and the only required signer, and the blockhash is the one of the message, it fills the empty slot with
  the signature of that message, and the signature verifies.
\<close>

definition partial_sign_law :: "sdk \<Rightarrow> 'k ed25519 \<Rightarrow> bool" where
  "partial_sign_law S E \<longleftrightarrow>
     (\<forall>kp tx. first_key (tx_message tx) = Some (ed_pubkey E kp)
         \<and> mh_num_required_signatures (msg_header (tx_message tx)) = 1 \<and> tx_signatures tx = [default_signature] \<longrightarrow>
       (\<exists>sig. ed_partial_sign E kp tx (msg_recent_blockhash (tx_message tx)) = Some (tx\<lparr>tx_signatures := [sig]\<rparr>)
          \<and> sig \<noteq> default_signature \<and> sdk_verify S (tx\<lparr>tx_signatures := [sig]\<rparr>)))"

text \<open>What the wallet needs of its signer; it is proved of every loaded wallet below.\<close>

definition signer_signs :: "sdk \<Rightarrow> pubkey \<Rightarrow> 's signer \<Rightarrow> bool" where
  "signer_signs S w sg \<longleftrightarrow>
     (\<forall>tx s. first_key (tx_message tx) = Some w
         \<and> mh_num_required_signatures (msg_header (tx_message tx)) = 1 \<and> tx_signatures tx = [default_signature] \<longrightarrow>
       (\<exists>sig s'. sg_sign_transaction sg tx s = Some (Inr sig, tx\<lparr>tx_signatures := [sig]\<rparr>, s')
          \<and> sig \<noteq> default_signature \<and> sdk_verify S (tx\<lparr>tx_signatures := [sig]\<rparr>)))"

lemma simulate_healthy:
  assumes "healthy_node N" "has_compute_budget_instructions S tx"
  obtains bh sim st' where "simulate_stage S N P st tx = Some (Inr sim, st')"
    "sit_inner sim = with_blockhash tx bh" "sim_success (sit_simulation sim)"
proof -
  obtain bh h st1 where f: "pipeline_get_fresh N st = (Inr (bh, h), st1)"
  proof -
    from assms(1) obtain f where "pe_fetch_blockhash N (pst_calls st) = Inr f"
      unfolding healthy_node_def by blast
    then have "\<exists>bh h st1. pipeline_get_fresh N st = (Inr (bh, h), st1)"
      by (auto simp: pipeline_get_fresh_def get_fresh_def split: option.splits prod.splits if_splits)
    then show thesis using that by blast
  qed
  obtain v where v: "pe_simulate N (pst_calls st1) (with_blockhash tx bh) simulation_config = Inr v" "rs_err v = None"
    using assms(1) unfolding healthy_node_def by blast
  have ok: "sim_success (simulation_output v)" using v(2) by (simp add: simulation_output_def Let_def)
  let ?sim = "\<lparr>sit_inner = with_blockhash tx bh, sit_simulation = simulation_output v,
      sit_last_valid_block_height = h\<rparr>"
  have "simulate_stage S N P st tx = Some (Inr ?sim, st1\<lparr>pst_calls := pst_calls st1 + 1\<rparr>)"
    using assms(2) v ok
    by (simp add: simulate_stage_def prepend_compute_budget_def f sim_client_simulate_def Let_def
        split: option.splits)
  then show thesis by (rule that) (simp_all add: ok)
qed

lemma index_of_first: "first_key m = Some w \<Longrightarrow> index_of w (msg_account_keys m) = Some 0"
  by (auto simp: first_key_def split: list.splits)

text \<open>A wallet that was loaded holds the keypair of its public key, and signs with it.\<close>

lemma loaded_wallet_keypair:
  assumes "fst (load_controlled_wallet S E json file pinned) = Inr wallet"
  obtains kp where "ed_pubkey E kp = pinned" "lcw_pubkey wallet = pinned"
    "lcw_signer wallet = local_keypair_signer S E pinned [pinned \<mapsto> kp]"
  using assms
  by (auto simp: load_controlled_wallet_def load_from_bytes_def secret_keypair_from_bytes_def Let_def
      split: option.splits sum.splits if_splits)

lemma local_keypair_signs:
  assumes "partial_sign_law S E" "ed_pubkey E kp = w"
  shows "signer_signs S w (local_keypair_signer S E w [w \<mapsto> kp])"
  unfolding signer_signs_def
proof (intro allI impI, elim conjE)
  fix tx :: transaction and s
  assume tx: "first_key (tx_message tx) = Some w" "mh_num_required_signatures (msg_header (tx_message tx)) = 1"
    "tx_signatures tx = [default_signature]"
  with assms obtain sig where sig:
    "ed_partial_sign E kp tx (msg_recent_blockhash (tx_message tx)) = Some (tx\<lparr>tx_signatures := [sig]\<rparr>)"
    "sig \<noteq> default_signature" "sdk_verify S (tx\<lparr>tx_signatures := [sig]\<rparr>)"
    unfolding partial_sign_law_def by blast
  then show "\<exists>sig s'. sg_sign_transaction (local_keypair_signer S E w [w \<mapsto> kp]) tx s
        = Some (Inr sig, tx\<lparr>tx_signatures := [sig]\<rparr>, s')
      \<and> sig \<noteq> default_signature \<and> sdk_verify S (tx\<lparr>tx_signatures := [sig]\<rparr>)"
    using index_of_first [OF tx(1)] by (simp add: local_keypair_signer_def keystore_get_def ok_or_def)
qed

lemma loaded_wallet_signs:
  assumes "partial_sign_law S E" "fst (load_controlled_wallet S E json file pinned) = Inr wallet"
  shows "signer_signs S (lcw_pubkey wallet) (lcw_signer wallet)"
proof -
  from assms(2) obtain kp where kp: "ed_pubkey E kp = pinned" "lcw_pubkey wallet = pinned"
    "lcw_signer wallet = local_keypair_signer S E pinned [pinned \<mapsto> kp]" by (rule loaded_wallet_keypair)
  show ?thesis unfolding kp(2,3) by (rule local_keypair_signs [OF assms(1) kp(1)])
qed

lemma sign_reviewed_signs:
  assumes laws: "sdk_laws (ww_sdk W)" and sg: "signer_signs (ww_sdk W) w (lcw_signer wallet)"
    and w: "lcw_pubkey wallet = w"
    and a: "apt_approval_tx_hash approved = approval_tx_hash (ww_sha256 W)
        (sdk_message_bytes (ww_sdk W) (tx_message (sit_inner (apt_inner approved))))"
      "is_auto_approved (apt_policy_verdict approved)"
    and tx: "first_key (tx_message (sit_inner (apt_inner approved))) = Some w"
      "mh_num_required_signatures (msg_header (tx_message (sit_inner (apt_inner approved)))) = 1"
      "tx_signatures (sit_inner (apt_inner approved)) = [default_signature]"
  obtains r s' where "sign_reviewed W wallet approved s = Some (Inr r, s')"
proof -
  let ?S = "ww_sdk W" and ?tx = "sit_inner (apt_inner approved)"
  obtain sig s' where sig: "sg_sign_transaction (lcw_signer wallet) ?tx s =
      Some (Inr sig, ?tx\<lparr>tx_signatures := [sig]\<rparr>, s')" "sig \<noteq> default_signature"
      "sdk_verify ?S (?tx\<lparr>tx_signatures := [sig]\<rparr>)"
    using sg tx unfolding signer_signs_def by blast
  obtain bs where bs: "sdk_bincode ?S (?tx\<lparr>tx_signatures := [sig]\<rparr>) = Some bs"
      "sdk_bincode_parse ?S bs = Inr (?tx\<lparr>tx_signatures := [sig]\<rparr>)"
    using laws unfolding sdk_laws_def by blast
  have human: "\<not> requires_human (apt_policy_verdict approved)"
    using a(2) by (cases "apt_policy_verdict approved") auto
  let ?cap = "\<lparr>sc_signature = sig, sc_message_bytes = sdk_message_bytes ?S (tx_message ?tx),
      sc_transaction_bytes = bs\<rparr>"
  have stage: "sign_stage ?S (ww_sha256 W) (ww_hex W) watch_wallet_pipeline approved
      (capturing_signer ?S (lcw_signer wallet)) (s, None)
      = Some (Inr (PipelineSigned (sit_simulation (apt_inner approved)) (apt_policy_verdict approved)
          (sdk_signature_text ?S sig)), (s', Some ?cap))"
    using a human sig bs
    by (simp add: sign_stage_def watch_wallet_pipeline_def sign_with_def capturing_signer_def Let_def)
  have "submission_bytes ?S (reviewed_transaction ?S wallet approved ?cap) = Inr bs"
    using bs sig index_of_first [OF tx(1)] w
    by (simp add: submission_bytes_def reviewed_transaction_def ok_or_def map_err_def)
  then have "sign_reviewed W wallet approved s = Some (Inr (reviewed_transaction ?S wallet approved ?cap), s')"
    by (simp add: sign_reviewed_def stage ok_or_def Let_def)
  then show thesis by (rule that)
qed

lemma production_review_signs:
  assumes laws: "sdk_laws (ww_sdk W)" and plan: "plan_for_wallet (ww_sdk W) w (rc_plan c)"
    and amount: "vi_input_amount_raw (rc_plan c) \<noteq> - 1"
    and node: "healthy_node (ww_node W)" and sg: "signer_signs (ww_sdk W) w (lcw_signer wallet)"
    and w: "lcw_pubkey wallet = w" and emit: "\<And>r. emit r"
  obtains p st' s' where "production_review W wallet emit c st s = Some (Inr p, st', s')"
proof -
  let ?S = "ww_sdk W" and ?plan = "rc_plan c"
  obtain tx report where b: "build_unsigned_transaction ?S (ww_hex W) ?plan = Inr (tx, report)"
      "tx_signatures tx = [default_signature]" "utr_signature_slots report = 1"
    and shape: "canonical_shape ?S (tx_message tx) w (plan_policy ?plan (sdk_message_bytes ?S (tx_message tx)))"
    and res: "accounts_resolve (tx_message tx)" and bh0: "msg_recent_blockhash (tx_message tx) = default_blockhash"
    using built_transaction [OF laws plan] by metis
  define bytes where "bytes = sdk_message_bytes ?S (tx_message tx)"
  define c' where "c' = plan_policy ?plan bytes"
  have shape: "canonical_shape ?S (tx_message tx) w c'" using shape by (simp add: c'_def bytes_def)
  obtain bh sim st1 where sim: "simulate_stage ?S (ww_node W) watch_wallet_pipeline st tx = Some (Inr sim, st1)"
      "sit_inner sim = with_blockhash tx bh" "sim_success (sit_simulation sim)"
    using simulate_healthy [OF node shape_has_budget [OF shape]] by metis
  let ?tx = "with_blockhash tx bh"
  have shape': "canonical_shape ?S (tx_message ?tx) w c'" using shape by simp
  have res': "accounts_resolve (tx_message ?tx)" using res by simp
  obtain ss where v: "validate_and_summarize ?S tx w c' = Inr ss"
    using validate_canonical [OF shape res b(2)] by metis
  obtain ss' where v': "validate_and_summarize ?S ?tx w c' = Inr ss'" "canonical_summaries ?S c' ss'"
    using validate_canonical [OF shape' res'] b(2) by (metis transaction.select_convs(1) transaction.surjective transaction.update_convs(2))
  have enc: "\<exists>bs. sdk_bincode ?S t = Some bs" for t using laws unfolding sdk_laws_def by blast
  obtain fb where fb: "sdk_bincode ?S ?tx = Some fb" using enc by blast
  define ctx where "ctx = \<lparr>ctx_proposal = execution_proposal W w (rc_intent_id c) fb ss',
      ctx_simulation_result = Some (sit_simulation sim), ctx_network = MainnetBeta,
      ctx_session_id = ww_session_id W, ctx_session_spend_lamports = 0, ctx_wallet_daily_spend_lamports = 0\<rparr>"
  obtain ps where ps: "execution_policy ?S c' = Inr ps"
      "per_verdict (evaluate_at (ww_platform W) ps ctx (ww_now W)) = VerdictApproved ''canonical-solend-deposit''"
  proof (rule policy_approves [OF laws])
    show "canonical_summaries ?S c' (tp_instructions_summary (ctx_proposal ctx))"
      using v'(2) by (simp add: ctx_def execution_proposal_def)
    show "cep_input_mint c' = sdk_pubkey ?S mainnet_usdc_mint_bs58" "cep_input_amount_raw c' \<noteq> - 1"
      using plan amount by (simp_all add: c'_def plan_policy_def plan_for_wallet_def)
    show "ctx_simulation_result ctx = Some (sit_simulation sim)" "sim_success (sit_simulation sim)"
      by (simp_all add: ctx_def sim(3))
  qed
  let ?audit = "signing_audit ?S emit report bytes"
  have normal: "sdk_message_bytes ?S (normalized_message ?tx) = bytes"
  proof -
    have "normalized_message ?tx = tx_message tx"
      using bh0 by (cases "tx_message tx") (simp add: normalized_message_def)
    then show ?thesis by (simp add: bytes_def)
  qed
  have audit: "?audit ?tx = Inr ()"
    using fb emit b(2,3) normal
    by (simp add: signing_audit_def report_for_fresh_unsigned_transaction_def emit_json_report_def ok_or_def)
  let ?approved = "approved_new_unchecked ?S (ww_sha256 W) sim (VerdictApproved ''canonical-solend-deposit'')"
  have rv: "review_simulated W wallet (rc_intent_id c) c' ?audit sim = Inr ?approved"
    using audit fb v'(1) ps
    by (simp add: review_simulated_def sim(2) w ok_or_def evaluate_policy_def ctx_def [symmetric] Let_def)
      (simp add: approved_new_unchecked_def)
  obtain r s1 where r: "sign_reviewed W wallet ?approved s = Some (Inr r, s1)"
    by (rule sign_reviewed_signs [OF laws sg w])
       (use shape b(2) in \<open>auto simp: approved_new_unchecked_def sim(2) canonical_shape_def first_key_def\<close>)
  have "review_and_sign W wallet (rc_intent_id c) tx c' ?audit st s = Some (Inr r, st1, s1)"
    using v enc [of tx] sim rv r by (auto simp: review_and_sign_def w Let_def)
  then have "production_review W wallet emit c st s = Some (Inr
      \<lparr>rsp_signed_transaction_bytes = rst_signed_transaction_bytes r, rsp_signature = rst_signature r,
       rsp_last_valid_block_height = rst_last_valid_block_height r\<rparr>, st1, s1)"
    using b(1) emit sign_reviewed_Inr(1) [OF r]
    by (simp add: production_review_def transaction_after_visible_review_def emit_json_report_def
        bytes_def [symmetric] c'_def [symmetric] Let_def)
  then show thesis by (rule that)
qed

end
