(* ===== verification/Sdk_Instance.thy ===== *)
theory Sdk_Instance
  imports Signing_Liveness
begin

text \<open>
  A concrete instance of the SDK parameters, with which the properties that rest on \<open>sdk_laws\<close> are applied
  to concrete transactions. Byte strings and lists are written with a length prefix in unary, keys are
  numbered in order of appearance; nothing else of the development depends on these choices.
\<close>

section \<open>A prefix code for transactions\<close>

definition put_bytes :: "bytes \<Rightarrow> bytes" where
  "put_bytes bs = replicate (length bs) 1 @ 0 # bs"

definition put_list :: "('a \<Rightarrow> bytes) \<Rightarrow> 'a list \<Rightarrow> bytes" where
  "put_list f xs = replicate (length xs) 1 @ 0 # concat (map f xs)"

definition unary_prefix :: "bytes \<Rightarrow> nat" where
  "unary_prefix s = length (takeWhile (\<lambda>b. b = 1) s)"

definition get_bytes :: "bytes \<Rightarrow> bytes \<times> bytes" where
  "get_bytes s = (let n = unary_prefix s; rest = drop (n + 1) s in (take n rest, drop n rest))"

fun get_many :: "(bytes \<Rightarrow> 'a \<times> bytes) \<Rightarrow> nat \<Rightarrow> bytes \<Rightarrow> 'a list \<times> bytes" where
  "get_many g 0 s = ([], s)"
| "get_many g (Suc n) s =
     (case g s of (x, s') \<Rightarrow> (case get_many g n s' of (xs, s'') \<Rightarrow> (x # xs, s'')))"

definition get_list :: "(bytes \<Rightarrow> 'a \<times> bytes) \<Rightarrow> bytes \<Rightarrow> 'a list \<times> bytes" where
  "get_list g s = (let n = unary_prefix s in get_many g n (drop (n + 1) s))"

lemma unary_prefix_put [simp]: "unary_prefix (replicate n 1 @ 0 # s) = n"
  by (simp add: unary_prefix_def takeWhile_append)

lemma get_put_bytes [simp]: "get_bytes (put_bytes bs @ r) = (bs, r)"
  by (simp add: get_bytes_def put_bytes_def Let_def)

lemma get_many_put:
  "(\<And>x r. x \<in> set xs \<Longrightarrow> g (f x @ r) = (x, r)) \<Longrightarrow> get_many g (length xs) (concat (map f xs) @ r) = (xs, r)"
  by (induction xs) auto

lemma get_put_list:
  "(\<And>x r. x \<in> set xs \<Longrightarrow> g (f x @ r) = (x, r)) \<Longrightarrow> get_list g (put_list f xs @ r) = (xs, r)"
  by (simp add: get_list_def put_list_def get_many_put Let_def)

definition put_compiled :: "compiled_instruction \<Rightarrow> bytes" where
  "put_compiled ix = [ci_program_id_index ix] @ put_bytes (ci_accounts ix) @ put_bytes (ci_data ix)"

definition get_compiled :: "bytes \<Rightarrow> compiled_instruction \<times> bytes" where
  "get_compiled s =
     (case get_bytes (tl s) of (as, s1) \<Rightarrow> (case get_bytes s1 of (d, s2) \<Rightarrow>
        (\<lparr>ci_program_id_index = hd s, ci_accounts = as, ci_data = d\<rparr>, s2)))"

lemma get_put_compiled [simp]: "get_compiled (put_compiled ix @ r) = (ix, r)"
  by (simp add: get_compiled_def put_compiled_def)

definition put_message :: "message \<Rightarrow> bytes" where
  "put_message m =
     [mh_num_required_signatures (msg_header m), mh_num_readonly_signed_accounts (msg_header m),
      mh_num_readonly_unsigned_accounts (msg_header m)]
     @ put_list put_bytes (msg_account_keys m) @ put_bytes (msg_recent_blockhash m)
     @ put_list put_compiled (msg_instructions m)"

definition get_message :: "bytes \<Rightarrow> message \<times> bytes" where
  "get_message s =
     (case get_list get_bytes (drop 3 s) of (ks, s1) \<Rightarrow> (case get_bytes s1 of (bh, s2) \<Rightarrow>
       (case get_list get_compiled s2 of (ixs, s3) \<Rightarrow>
         (\<lparr>msg_header = \<lparr>mh_num_required_signatures = s ! 0, mh_num_readonly_signed_accounts = s ! 1,
              mh_num_readonly_unsigned_accounts = s ! 2\<rparr>,
           msg_account_keys = ks, msg_recent_blockhash = bh, msg_instructions = ixs\<rparr>, s3))))"

lemma get_put_message [simp]: "get_message (put_message m @ r) = (m, r)"
  by (simp add: get_message_def put_message_def get_put_list numeral_3_eq_3 numeral_2_eq_2)

definition put_transaction :: "transaction \<Rightarrow> bytes" where
  "put_transaction tx = put_list put_bytes (tx_signatures tx) @ put_message (tx_message tx)"

definition get_transaction :: "bytes \<Rightarrow> transaction" where
  "get_transaction s =
     (case get_list get_bytes s of (sigs, s1) \<Rightarrow>
        \<lparr>tx_signatures = sigs, tx_message = fst (get_message s1)\<rparr>)"

lemma get_put_transaction [simp]: "get_transaction (put_transaction tx) = tx"
  using get_put_message [of "tx_message tx" "[]"]
  by (simp add: get_transaction_def put_transaction_def get_put_list)

section \<open>Compiling a message\<close>

definition instance_keys :: "instruction list \<Rightarrow> pubkey \<Rightarrow> pubkey list" where
  "instance_keys ixs payer = payer # filter (\<lambda>k. k \<noteq> payer) (remdups (concat (map instruction_keys ixs)))"

definition instance_index :: "pubkey list \<Rightarrow> pubkey \<Rightarrow> u8" where
  "instance_index keys k = (case index_of k keys of Some i \<Rightarrow> word_of_nat i | None \<Rightarrow> 0)"

definition instance_signers :: "instruction list \<Rightarrow> pubkey \<Rightarrow> pubkey list" where
  "instance_signers ixs payer =
     remdups (payer # map am_pubkey (filter am_is_signer (concat (map in_accounts ixs))))"

definition compile_instruction :: "(pubkey \<Rightarrow> u8) \<Rightarrow> instruction \<Rightarrow> compiled_instruction" where
  "compile_instruction idx ix =
     \<lparr>ci_program_id_index = idx (in_program_id ix),
      ci_accounts = map (\<lambda>a. idx (am_pubkey a)) (in_accounts ix), ci_data = in_data ix\<rparr>"

definition instance_message_new :: "instruction list \<Rightarrow> pubkey option \<Rightarrow> message" where
  "instance_message_new ixs payer_option =
     (let payer = (case payer_option of Some k \<Rightarrow> k | None \<Rightarrow> []); keys = instance_keys ixs payer in
      \<lparr>msg_header = \<lparr>mh_num_required_signatures = word_of_nat (length (instance_signers ixs payer)),
         mh_num_readonly_signed_accounts = 0, mh_num_readonly_unsigned_accounts = 0\<rparr>,
       msg_account_keys = keys, msg_recent_blockhash = default_blockhash,
       msg_instructions = map (compile_instruction (instance_index keys)) ixs\<rparr>)"

lemma resolves_compile:
  assumes "\<And>k. k \<in> set (instruction_keys ix) \<Longrightarrow> key_at m (idx k) = Some k"
  shows "resolves m (compile_instruction idx ix) ix"
  using assms by (simp add: resolves_def compile_instruction_def instruction_keys_def)

lemma list_all2_compile:
  assumes "\<And>k ix. k \<in> set (instruction_keys ix) \<Longrightarrow> ix \<in> set ixs \<Longrightarrow> key_at m (idx k) = Some k"
  shows "list_all2 (resolves m) (map (compile_instruction idx) ixs) ixs"
  using assms by (auto simp: list_all2_conv_all_nth intro!: resolves_compile)

lemma index_of_set: "k \<in> set ks \<Longrightarrow> \<exists>i < length ks. index_of k ks = Some i \<and> ks ! i = k"
proof (induction ks)
  case (Cons x ks)
  show ?case
  proof (cases "x = k")
    case False
    with Cons obtain i where "i < length ks" "index_of k ks = Some i" "ks ! i = k" by auto
    with False show ?thesis by (intro exI [of _ "Suc i"]) auto
  qed auto
qed simp

lemma instance_key_at:
  assumes "k \<in> set (msg_account_keys m)" "length (msg_account_keys m) < 256"
  shows "key_at m (instance_index (msg_account_keys m) k) = Some k"
  using index_of_set [OF assms(1)] assms(2)
  by (auto simp: key_at_def instance_index_def unat_of_nat)

lemma instance_message_new_law:
  assumes "length (payer # concat (map instruction_keys ixs)) < 256" "sdk_message_new S = instance_message_new"
  shows "message_new_law S ixs payer"
proof -
  let ?m = "instance_message_new ixs (Some payer)"
  have keys: "msg_account_keys ?m = instance_keys ixs payer" by (simp add: instance_message_new_def Let_def)
  have "length (filter (\<lambda>k. k \<noteq> payer) (remdups (concat (map instruction_keys ixs))))
      \<le> length (remdups (concat (map instruction_keys ixs)))" by (rule length_filter_le)
  also have "\<dots> \<le> length (concat (map instruction_keys ixs))" by (rule length_remdups_leq)
  finally have len: "length (instance_keys ixs payer) < 256" using assms(1) by (simp add: instance_keys_def)
  have at: "key_at ?m (instance_index (instance_keys ixs payer) k) = Some k"
    if "k \<in> set (instruction_keys ix)" "ix \<in> set ixs" for k ix
    using instance_key_at [of k ?m] that len by (auto simp: keys instance_keys_def)
  have "list_all2 (resolves ?m) (map (compile_instruction (instance_index (instance_keys ixs payer))) ixs) ixs"
    by (rule list_all2_compile) (rule at)
  then have "list_all2 (resolves ?m) (msg_instructions ?m) ixs" by (simp add: instance_message_new_def Let_def)
  moreover have "set (instance_signers ixs payer) = signer_keys payer ixs"
    by (auto simp: instance_signers_def signer_keys_def)
  then have "card (signer_keys payer ixs) = length (instance_signers ixs payer)"
    by (metis distinct_card distinct_remdups instance_signers_def)
  moreover have "length (instance_signers ixs payer) < 256"
  proof -
    have "set (instance_signers ixs payer) \<subseteq> set (instance_keys ixs payer)"
      by (auto simp: instance_signers_def instance_keys_def instruction_keys_def)
    then have "length (instance_signers ixs payer) \<le> card (set (instance_keys ixs payer))"
      by (metis List.finite_set card_mono distinct_card distinct_remdups instance_signers_def)
    with len card_length [of "instance_keys ixs payer"] show ?thesis by linarith
  qed
  ultimately show ?thesis
    by (simp add: message_new_law_def assms(2) Let_def)
      (simp add: instance_message_new_def Let_def first_key_def instance_keys_def unat_of_nat)
qed

section \<open>The instance\<close>

text \<open>Keys are those of \<open>example_crypto\<close>; a signature is one fixed non-default byte string.\<close>

definition instance_pubkey :: "string \<Rightarrow> pubkey" where
  "instance_pubkey t = pubkey_as_bytes (pinned_pubkey example_crypto t)"

definition instance_pubkey_text :: "pubkey \<Rightarrow> string" where
  "instance_pubkey_text k =
     (if k = instance_pubkey audited_solend_program_bs58 then audited_solend_program_bs58
      else if k = instance_pubkey mainnet_usdc_mint_bs58 then mainnet_usdc_mint_bs58
      else concat (map hex_byte k))"

definition instance_signature :: signature where "instance_signature = replicate 64 7"

definition instance_budget_id :: pubkey where "instance_budget_id = replicate 32 99"

definition no_accounts :: "pubkey \<Rightarrow> bytes \<Rightarrow> instruction" where
  "no_accounts program data = \<lparr>in_program_id = program, in_accounts = [], in_data = data\<rparr>"

definition instance_sdk :: sdk where
  "instance_sdk =
     \<lparr>sdk_find_program_address = (\<lambda>seeds program. concat seeds @ program),
      sdk_pubkey = instance_pubkey, sdk_pubkey_text = instance_pubkey_text,
      sdk_signature_text = (\<lambda>sg. concat (map hex_byte sg)),
      sdk_blockhash_text = (\<lambda>bh. concat (map hex_byte bh)),
      sdk_clock_id = replicate 32 97, sdk_rent_id = replicate 32 98,
      sdk_compute_budget_id = instance_budget_id,
      sdk_associated_token_address = (\<lambda>owner mint program. mint),
      sdk_create_ata_idempotent = (\<lambda>payer owner mint program. no_accounts program []),
      sdk_create_account = (\<lambda>from to lamports space owner. no_accounts owner []),
      sdk_set_compute_unit_limit = (\<lambda>n. no_accounts instance_budget_id (2 # to_le_bytes 4 n)),
      sdk_set_compute_unit_price = (\<lambda>n. no_accounts instance_budget_id (3 # to_le_bytes 8 n)),
      sdk_message_new = instance_message_new, sdk_message_bytes = put_message,
      sdk_is_signer = (\<lambda>m i. i < unat (mh_num_required_signatures (msg_header m))),
      sdk_is_maybe_writable = (\<lambda>m i. True),
      sdk_bincode = (\<lambda>tx. Some (put_transaction tx)), sdk_bincode_parse = (\<lambda>bs. Inr (get_transaction bs)),
      sdk_verify = (\<lambda>tx. tx_signatures tx = [instance_signature]),
      sdk_base64 = (\<lambda>bs. concat (map hex_byte bs))\<rparr>"

lemma instance_sdk_laws: "sdk_laws instance_sdk"
proof -
  have "message_new_law instance_sdk ixs payer" if "length (payer # concat (map instruction_keys ixs)) < 256"
    for ixs payer
    by (rule instance_message_new_law [OF that]) (simp add: instance_sdk_def)
  moreover have "instance_pubkey audited_solend_program_bs58 \<noteq> instance_pubkey mainnet_usdc_mint_bs58"
    by (simp add: instance_pubkey_def example_crypto_def example_key_def audited_solend_program_bs58_def
        mainnet_usdc_mint_bs58_def)
  then have "instance_pubkey_text (instance_pubkey t) = t"
    if "t \<in> {audited_solend_program_bs58, mainnet_usdc_mint_bs58}" for t
    using that by (auto simp: instance_pubkey_text_def)
  ultimately show ?thesis
    unfolding sdk_laws_def by (simp add: instance_sdk_def no_accounts_def)
qed

definition instance_ed25519 :: "pubkey ed25519" where
  "instance_ed25519 =
     \<lparr>ed_keypair_of_bytes = (\<lambda>bs. if length bs = 64 then Inr (drop 32 bs) else Inl ''length''),
      ed_pubkey = (\<lambda>k. k),
      ed_partial_sign = (\<lambda>k tx bh. Some (tx\<lparr>tx_signatures := [instance_signature]\<rparr>))\<rparr>"

definition instance_wallet :: "unit loaded_controlled_wallet" where
  "instance_wallet =
     \<lparr>lcw_pubkey = replicate 32 5,
      lcw_signer = local_keypair_signer instance_sdk instance_ed25519 (replicate 32 5)
        [replicate 32 5 \<mapsto> replicate 32 5]\<rparr>"

lemma instance_partial_sign: "partial_sign_law instance_sdk instance_ed25519"
proof -
  have "instance_signature \<noteq> default_signature"
    by (simp add: instance_signature_def default_signature_def)
  then show ?thesis by (simp add: partial_sign_law_def instance_ed25519_def instance_sdk_def)
qed

text \<open>The wallet that is loaded from a file of 64 bytes: a secret and its public key.\<close>

lemma instance_wallet_loaded:
  "fst (load_controlled_wallet instance_sdk instance_ed25519 Some (Some (replicate 64 5)) (replicate 32 5))
     = Inr instance_wallet"
  by (simp add: load_controlled_wallet_def load_from_bytes_def secret_keypair_from_bytes_def
      instance_ed25519_def instance_wallet_def Let_def)

lemma instance_signer_signs: "signer_signs instance_sdk (replicate 32 5) (lcw_signer instance_wallet)"
  using loaded_wallet_signs [OF instance_partial_sign instance_wallet_loaded] by (simp add: instance_wallet_def)

text \<open>A node that answers every call, and knows no prioritization fees.\<close>

definition instance_node :: pipeline_env where
  "instance_node =
     \<lparr>pe_prioritization_fees = (\<lambda>_. Inr []), pe_now = (\<lambda>k. 1000 * k),
      pe_fetch_blockhash = (\<lambda>k. Inr \<lparr>be_hash = replicate 32 8, be_last_valid_block_height = 900,
         be_fetched_at = 1000 * k\<rparr>),
      pe_simulate = (\<lambda>k tx cfg. Inr \<lparr>rs_err = None, rs_logs = Some [], rs_return_data = None\<rparr>)\<rparr>"

lemma instance_node_healthy: "healthy_node instance_node"
  by (simp add: healthy_node_def instance_node_def)

definition instance_platform :: "(unit, unit, unit) platform" where
  "instance_platform =
     \<lparr>f64_sol_to_lamports = (\<lambda>_. 0), east_opt = (\<lambda>_. Some ()), utc_offset = (),
      hour_of = (\<lambda>_ _. 12), day_of_week = (\<lambda>_ _. 1)\<rparr>"

definition instance_world :: "(unit, unit, unit) wallet_world" where
  "instance_world =
     \<lparr>ww_sdk = instance_sdk, ww_sha256 = (\<lambda>bs. bs), ww_hex = (\<lambda>bs. concat (map hex_byte bs)),
      ww_platform = instance_platform, ww_now = (), ww_node = instance_node,
      ww_proposal_id = ''proposal'', ww_session_id = ''session'', ww_created_at = 0\<rparr>"

lemma instance_world_sel [simp]:
  "ww_sdk instance_world = instance_sdk" "ww_node instance_world = instance_node"
  by (simp_all add: instance_world_def)

lemma instance_wallet_pubkey [simp]: "lcw_pubkey instance_wallet = replicate 32 5"
  by (simp add: instance_wallet_def)

end
