(* ===== verification/Signing.thy ===== *)
theory Signing
  imports Sdk_Instance
begin

text \<open>
  What the production backend signs and when it signs: the two properties of the path from an admitted
  candidate to a signed payload, with the concrete run of \<open>Sdk_Instance\<close> as their witness.
\<close>

text \<open>C12: Nothing is signed but the plan's own deposit, and nothing unseen: when the production backend
  hands over a payload, its bytes parse to a transaction whose signed message is the one assembled from
  the validated plan with only the blockhash replaced; that message has the canonical four-instruction
  shape (the deposit carries the plan's amount, source and reserve, and the wallet is payer, owner and
  authority); its reports were printed both with the placeholder and with the fresh blockhash; the node
  was asked to simulate exactly this transaction, with signatures unchecked and the blockhash replaced,
  and reported no error; and it carries a valid, non-default signature in
  the controlled wallet's own slot.\<close>

theorem signed_payload_is_the_plans_deposit:
  assumes "production_review W wallet emit c st s = Some (Inr p, st', s')"
  shows "\<exists>unsigned report bh fresh k v signed idx.
     build_unsigned_transaction (ww_sdk W) (ww_hex W) (rc_plan c) = Inr (unsigned, report)
   \<and> emit report
   \<and> canonical_shape (ww_sdk W) (tx_message unsigned) (lcw_pubkey wallet)
       (plan_policy (rc_plan c) (sdk_message_bytes (ww_sdk W) (tx_message unsigned)))
   \<and> pe_simulate (ww_node W) k (with_blockhash unsigned bh) simulation_config = Inr v \<and> rs_err v = None
   \<and> report_for_fresh_unsigned_transaction (ww_sdk W) report
       (sdk_message_bytes (ww_sdk W) (tx_message unsigned)) (with_blockhash unsigned bh) = Inr fresh
   \<and> emit fresh
   \<and> sdk_bincode_parse (ww_sdk W) (rsp_signed_transaction_bytes p) = Inr signed
   \<and> sdk_message_bytes (ww_sdk W) (tx_message signed)
       = sdk_message_bytes (ww_sdk W) ((tx_message unsigned)\<lparr>msg_recent_blockhash := bh\<rparr>)
   \<and> sdk_verify (ww_sdk W) signed
   \<and> index_of (lcw_pubkey wallet) (msg_account_keys (tx_message signed)) = Some idx
   \<and> idx < length (tx_signatures signed) \<and> tx_signatures signed ! idx = rsp_signature p
   \<and> rsp_signature p \<noteq> default_signature"
  by (rule signed_payload [OF assms])

section \<open>An admitted candidate is signed\<close>

text \<open>The two crates pin the same program and mint.\<close>

definition same_pins :: "crypto \<Rightarrow> sdk \<Rightarrow> bool" where
  "same_pins C S \<longleftrightarrow>
     to_pubkey (audited_solend_program C) = sdk_pubkey S audited_solend_program_bs58
   \<and> to_pubkey (usdc_mint C) = sdk_pubkey S mainnet_usdc_mint_bs58"

lemma admitted_plan_for_wallet:
  assumes "admit C inp clocks facts fin = Some v" "same_pins C S"
    and "\<forall>r. cin_rule inp = Some r \<longrightarrow> to_pubkey (wr_delegated_wallet r) = w"
  shows "plan_for_wallet S w v"
  using admitted_plan [OF assms(1)] assms(2,3) by (auto simp: plan_for_wallet_def same_pins_def)

text \<open>C14: The gates of the executor, the transaction builder and the checks of the wallet fit together: a
  candidate that the executor admits, for an amount below the largest 64-bit value and the key that
  \<open>load_controlled_wallet\<close> loaded for the rule's delegated wallet, is signed by the production backend
  whenever the node answers, the simulation reports no error and the reports can be printed; no shape
  check, policy rule, keystore lookup or integrity check in between refuses it. Assumed of the crates is
  their documented behaviour: of the transaction library (\<open>sdk_laws\<close>) and of the signature of a keypair
  (\<open>partial_sign_law\<close>).\<close>

theorem admitted_plans_are_signed:
  assumes "admit C inp clocks facts fin = Some v" "same_pins C (ww_sdk W)"
    and "fst (load_controlled_wallet (ww_sdk W) E json file pinned) = Inr wallet"
    and "\<forall>r. cin_rule inp = Some r \<longrightarrow> to_pubkey (wr_delegated_wallet r) = lcw_pubkey wallet"
    and "vi_input_amount_raw v \<noteq> - 1" "rc_plan c = v"
    and "sdk_laws (ww_sdk W)" "partial_sign_law (ww_sdk W) E" "healthy_node (ww_node W)" "\<And>r. emit r"
  shows "\<exists>p st' s'. production_review W wallet emit c st s = Some (Inr p, st', s')"
proof -
  have "plan_for_wallet (ww_sdk W) (lcw_pubkey wallet) (rc_plan c)"
    using admitted_plan_for_wallet [OF assms(1,2,4)] assms(6) by simp
  then obtain p st' s' where "production_review W wallet emit c st s = Some (Inr p, st', s')"
    using production_review_signs [OF assms(7) _ _ assms(9) loaded_wallet_signs [OF assms(8,3)], of c emit st s]
      assms(5,6,10) by metis
  then show ?thesis by blast
qed

section \<open>A concrete run\<close>

lemma example_pins: "same_pins example_crypto instance_sdk"
  by (simp add: same_pins_def instance_sdk_def instance_pubkey_def audited_solend_program_def usdc_mint_def
      audited_solend_program_bs58_def mainnet_usdc_mint_bs58_def example_crypto_def)

theorem admitted_plans_are_signed_witness:
  "fst (load_controlled_wallet instance_sdk instance_ed25519 Some (Some (replicate 64 5)) (replicate 32 5))
      = Inr instance_wallet
   \<and> (\<exists>v p st' s'. admit example_crypto example_input
      (preflight_clocks \<lparr>ck_now_ms = 1000, ck_current_confirmed_slot = 210\<rparr>)
      example_facts \<lparr>ck_now_ms = 2000, ck_current_confirmed_slot = 216\<rparr> = Some v
    \<and> production_review instance_world instance_wallet (\<lambda>_. True)
        \<lparr>rc_intent_id = ''07'', rc_rule_id = [7], rc_amount_raw = 500000, rc_plan = v\<rparr>
        \<lparr>pst_cache = None, pst_calls = 0\<rparr> () = Some (Inr p, st', s'))"
proof -
  from example_admitted obtain v where v: "admit example_crypto example_input
      (preflight_clocks \<lparr>ck_now_ms = 1000, ck_current_confirmed_slot = 210\<rparr>)
      example_facts \<lparr>ck_now_ms = 2000, ck_current_confirmed_slot = 216\<rparr> = Some v" by blast
  have "vi_input_amount_raw v = 500000"
    using admitted_plan [OF v] by (auto simp: example_input_def example_funding_def)
  then have "\<exists>p st' s'. production_review instance_world instance_wallet (\<lambda>_. True)
        \<lparr>rc_intent_id = ''07'', rc_rule_id = [7], rc_amount_raw = 500000, rc_plan = v\<rparr>
        \<lparr>pst_cache = None, pst_calls = 0\<rparr> () = Some (Inr p, st', s')"
    by (intro admitted_plans_are_signed [OF v _ _ _ _ _ _ instance_partial_sign [folded instance_world_sel(1)],
          of Some "Some (replicate 64 5)" "replicate 32 5"])
       (simp_all add: example_pins instance_sdk_laws instance_node_healthy instance_wallet_loaded
         example_input_def example_rule_def example_key_def)
  with v instance_wallet_loaded show ?thesis by blast
qed

text \<open>A plan over the example keys.\<close>

definition example_plan :: validated_plan_inputs where
  "example_plan =
     \<lparr>vi_solend_program_id = example_key (of_char (CHR ''o'')), vi_input_mint = example_key (of_char (CHR ''v'')),
      vi_input_amount_raw = 250000,
      vi_source_liquidity = example_key 3, vi_user_collateral = example_key 4, vi_reserve = example_key 6,
      vi_reserve_liquidity_supply = example_key 7, vi_reserve_collateral_mint = example_key 8, vi_lending_market = example_key 9,
      vi_destination_deposit_collateral = example_key 10, vi_obligation = example_key 11, vi_obligation_owner = example_key 5,
      vi_pyth_oracle = example_key 12, vi_switchboard_oracle = example_key 13, vi_user_transfer_authority = example_key 5,
      vi_token_program = example_key 15, vi_report = bare_report ClsReady [] 0 None\<rparr>"

definition example_candidate :: revalidated_execution_candidate where
  "example_candidate =
     \<lparr>rc_intent_id = ''07'', rc_rule_id = [7], rc_amount_raw = 250000, rc_plan = example_plan\<rparr>"

lemma example_review:
  obtains p st' s' where
    "production_review instance_world instance_wallet (\<lambda>_. True) example_candidate st () = Some (Inr p, st', s')"
proof -
  have "plan_for_wallet (ww_sdk instance_world) (replicate 32 5) (rc_plan example_candidate)"
    by (simp add: plan_for_wallet_def example_candidate_def example_plan_def instance_sdk_def
        instance_pubkey_def example_crypto_def example_key_def audited_solend_program_bs58_def
        mainnet_usdc_mint_bs58_def)
  from production_review_signs [OF _ this, of instance_wallet "\<lambda>_. True" st "()"] that
  show thesis
    by (auto simp: instance_sdk_laws instance_node_healthy instance_signer_signs example_candidate_def
        example_plan_def)
qed

theorem signed_payload_is_the_plans_deposit_witness:
  "\<exists>p st' s' signed. production_review instance_world instance_wallet (\<lambda>_. True) example_candidate
       \<lparr>pst_cache = None, pst_calls = 0\<rparr> () = Some (Inr p, st', s')
     \<and> sdk_bincode_parse instance_sdk (rsp_signed_transaction_bytes p) = Inr signed
     \<and> sdk_verify instance_sdk signed \<and> rsp_signature p \<noteq> default_signature"
proof -
  obtain p st' s' where r:
    "production_review instance_world instance_wallet (\<lambda>_. True) example_candidate
       \<lparr>pst_cache = None, pst_calls = 0\<rparr> () = Some (Inr p, st', s')"
    by (rule example_review)
  from signed_payload_is_the_plans_deposit [OF r] r show ?thesis
    unfolding instance_world_sel by blast
qed

end
