(* ===== verification/Execution_Store.thy ===== *)
theory Execution_Store
  imports Signing
begin

text \<open>
  The production side of the execution contract: \<open>RepositoryExecutionState\<close> of
  \<open>watch_execution_state.rs\<close>, whose operations are single statements of the two repositories behind a
  fallible database, and \<open>ProductionExecutionBackend\<close> of \<open>watch_execute.rs\<close>. The database may refuse a
  statement, or run it and lose the reply; what the outside world answers to the wallet pipeline and to
  the submission is indexed by the number of calls made so far, so it may answer differently every time.
  The locales of \<open>Execution\<close> are interpreted here, and the properties are those of the interpretation.
\<close>

section \<open>The repositories behind a fallible database\<close>

datatype db_fault = NoFault | FailBefore | FailAfter

record db_env =
  db_clock :: "nat \<Rightarrow> i64"
  db_fault_at :: "nat \<Rightarrow> db_fault"

record 's execution_state =
  es_funding :: funding_table
  es_rules :: watch_table
  es_calls :: nat
  es_sent :: "transaction list"      \<comment> \<open>what was handed to the network\<close>
  es_pipeline :: pipeline_state
  es_signer :: 's

definition run_statement ::
    "db_env \<Rightarrow> nat \<Rightarrow> ('t \<Rightarrow> 't \<times> nat) \<Rightarrow> 't \<Rightarrow> port_result \<times> 't" where
  "run_statement D k stmt t =
     (case db_fault_at D k of
        NoFault \<Rightarrow> (Inr (snd (stmt t)), fst (stmt t))
      | FailBefore \<Rightarrow> (Inl (), t)
      | FailAfter \<Rightarrow> (Inl (), fst (stmt t)))"

definition on_funding ::
    "db_env \<Rightarrow> (funding_table \<Rightarrow> funding_table \<times> nat) \<Rightarrow> 's execution_state \<Rightarrow>
     port_result \<times> 's execution_state" where
  "on_funding D stmt s =
     (case run_statement D (es_calls s) stmt (es_funding s) of
        (r, t) \<Rightarrow> (r, s\<lparr>es_funding := t, es_calls := es_calls s + 1\<rparr>))"

definition on_rules ::
    "db_env \<Rightarrow> (watch_table \<Rightarrow> watch_table \<times> nat) \<Rightarrow> 's execution_state \<Rightarrow>
     port_result \<times> 's execution_state" where
  "on_rules D stmt s =
     (case run_statement D (es_calls s) stmt (es_rules s) of
        (r, t) \<Rightarrow> (r, s\<lparr>es_rules := t, es_calls := es_calls s + 1\<rparr>))"

text \<open>The repository methods that are not given a time read the clock themselves.\<close>

definition repository_execution_state :: "db_env \<Rightarrow> 's execution_state execution_state_port" where
  "repository_execution_state D =
     \<lparr>sp_lease_funding = (\<lambda>i now. on_funding D (lease_execution_if_budget_reserved now i)),
      sp_release_funding = (\<lambda>i reason s.
        on_funding D (release_execution_lease_to_budget_reserved (db_clock D (es_calls s)) i reason) s),
      sp_fail_funding = (\<lambda>i reason s.
        on_funding D (funding_mark_failed (db_clock D (es_calls s)) i reason) s),
      sp_complete_watch_rule = (\<lambda>rid used slot s.
        on_rules D (mark_completed (db_clock D (es_calls s)) rid used slot) s),
      sp_complete_funding = (\<lambda>i sg s.
        on_funding D (mark_completed_if_executing (db_clock D (es_calls s)) i sg) s)\<rparr>"

text \<open>The parts of \<open>ProductionExecutionBackend\<close> and the answers of the outside world.\<close>

record ('f, 'o, 'now, 's) executor =
  ex_world :: "nat \<Rightarrow> ('f, 'o, 'now) wallet_world"
  ex_wallet :: "'s loaded_controlled_wallet"
  ex_emit :: "nat \<Rightarrow> unsigned_transaction_report \<Rightarrow> bool"
  ex_network :: "nat \<Rightarrow> transaction network"

definition production_backend ::
    "('f, 'o, 'now, 's) executor \<Rightarrow> 's execution_state execution_backend" where
  "production_backend X =
     \<lparr>eb_review_and_sign = (\<lambda>c s.
        let k = es_calls s; s1 = s\<lparr>es_calls := k + 1\<rparr> in
        case production_review (ex_world X k) (ex_wallet X) (ex_emit X k) c (es_pipeline s) (es_signer s) of
          None \<Rightarrow> (None, s1)
        | Some (r, st, sg) \<Rightarrow> (Some r, s1\<lparr>es_pipeline := st, es_signer := sg\<rparr>)),
      eb_submit_and_observe = (\<lambda>p s.
        case submit_once_and_observe (ex_network X (es_calls s)) p of
          (out, txs) \<Rightarrow> (out, s\<lparr>es_sent := es_sent s @ txs, es_calls := es_calls s + 1\<rparr>))\<rparr>"

text \<open>A payload the backend hands over for a candidate, and the transaction its bytes stand for.\<close>

definition signed_by ::
    "('f, 'o, 'now, 's) executor \<Rightarrow> revalidated_execution_candidate \<Rightarrow> reviewed_signed_payload \<Rightarrow> bool" where
  "signed_by X c p \<longleftrightarrow>
     (\<exists>k st s st' s'. production_review (ex_world X k) (ex_wallet X) (ex_emit X k) c st s = Some (Inr p, st', s'))"

definition carried_by ::
    "('f, 'o, 'now, 's) executor \<Rightarrow> reviewed_signed_payload \<Rightarrow> transaction \<Rightarrow> bool" where
  "carried_by X p tx \<longleftrightarrow>
     (\<exists>k. net_deserialize (ex_network X k) (rsp_signed_transaction_bytes p) = Inr tx)"

section \<open>The abstract view of the state\<close>

definition execution_state_inv :: "'s execution_state \<Rightarrow> bool" where
  "execution_state_inv s \<longleftrightarrow>
     distinct (map fr_intent_id (es_funding s)) \<and> distinct (map rw_rule_id (es_rules s))"

definition funded_status :: "funding_table \<Rightarrow> string \<Rightarrow> w5h_intent_status option" where
  "funded_status t i = Option.bind (sql_get fr_intent_id i t) funding_row_status"

definition rule_row_completed :: "watch_table \<Rightarrow> bytes \<Rightarrow> bool" where
  "rule_row_completed t rid =
     (case sql_get rw_rule_id (rule_id_hex rid) t of None \<Rightarrow> False | Some r \<Rightarrow> rw_completed r = 1)"

abbreviation state_intent_status :: "'s execution_state \<Rightarrow> string \<Rightarrow> w5h_intent_status option" where
  "state_intent_status s \<equiv> funded_status (es_funding s)"

abbreviation state_rule_completed :: "'s execution_state \<Rightarrow> bytes \<Rightarrow> bool" where
  "state_rule_completed s \<equiv> rule_row_completed (es_rules s)"

lemma funding_apply_distinct:
  "distinct (map fr_intent_id t) \<Longrightarrow> distinct (map fr_intent_id (fst (funding_apply now i opn t)))"
  by (simp add: funding_apply_exec fund.exec_keys)

lemma watch_apply_distinct:
  "distinct (map rw_rule_id t) \<Longrightarrow> distinct (map rw_rule_id (fst (watch_apply now i opn t)))"
  by (simp add: watch_apply_exec watch.exec_keys)

lemma funded_status_other:
  "j \<noteq> i \<Longrightarrow> funded_status (fst (funding_apply now i opn t)) j = funded_status t j"
  by (simp add: funded_status_def funding_apply_exec fund.exec_other)

lemma funded_status_step:
  "funded_status (fst (funding_apply now i opn t)) i =
     Option.bind (sql_get fr_intent_id i t) (\<lambda>r. funding_row_status (fund.row_step r (now, opn)))"
  by (cases "sql_get fr_intent_id i t")
     (simp_all add: funded_status_def funding_apply_exec fund.get_exec fund.row_step_def)

lemma funded_status_won:
  assumes "distinct (map fr_intent_id t)" "snd (funding_apply now i opn t) = 1"
  shows "\<exists>r. sql_get fr_intent_id i t = Some r \<and> funding_guard (now, opn) r
    \<and> funded_status t i = funding_row_status r
    \<and> funded_status (fst (funding_apply now i opn t)) i = funding_row_status (funding_rewrite (now, opn) r)"
  using funding_win_row [OF assms] by (metis bind.bind_lunit funded_status_def)

lemma funded_status_lost:
  assumes "distinct (map fr_intent_id t)" "\<not> (\<exists>r. sql_get fr_intent_id i t = Some r \<and> funding_guard (now, opn) r)"
  shows "snd (funding_apply now i opn t) = 0" "fst (funding_apply now i opn t) = t"
proof -
  have "fund.affected t (i, (now, opn)) = 0"
    using fund.affected_iff [OF assms(1), of "(i, (now, opn))"] fund.affected_le_1 [OF assms(1), of "(i, (now, opn))"]
      assms(2) by auto
  then show "snd (funding_apply now i opn t) = 0" "fst (funding_apply now i opn t) = t"
    by (simp_all add: funding_apply_exec fund.not_affected_unchanged)
qed

text \<open>What one statement on an intent does: the guarded rewrite, or nothing and then no row reported.\<close>

lemma on_funding_effect:
  assumes "execution_state_inv s" "on_funding D (funding_apply now i opn) s = (r, s')"
  shows "execution_state_inv s'" "es_sent s' = es_sent s" "es_rules s' = es_rules s"
    "j \<noteq> i \<Longrightarrow> state_intent_status s' j = state_intent_status s j"
    "(\<exists>row. funding_guard (now, opn) row \<and> state_intent_status s i = funding_row_status row
        \<and> state_intent_status s' i = funding_row_status (funding_rewrite (now, opn) row))
     \<or> state_intent_status s' i = state_intent_status s i \<and> r \<noteq> Inr 1"
proof -
  let ?t = "es_funding s" and ?t' = "fst (funding_apply now i opn (es_funding s))"
  have d: "distinct (map fr_intent_id ?t)" using assms(1) by (simp add: execution_state_inv_def)
  have f: "es_funding s' = ?t \<and> r = Inl () \<or> es_funding s' = ?t' \<and> r = Inl ()
      \<or> es_funding s' = ?t' \<and> r = Inr (snd (funding_apply now i opn ?t))"
    and o: "es_rules s' = es_rules s" "es_sent s' = es_sent s"
    using assms(2) by (auto simp: on_funding_def run_statement_def split: db_fault.splits)
  show "execution_state_inv s'"
    using assms(1) f o funding_apply_distinct [OF d] by (auto simp: execution_state_inv_def)
  show "es_sent s' = es_sent s" "es_rules s' = es_rules s" by (fact o)+
  show "j \<noteq> i \<Longrightarrow> state_intent_status s' j = state_intent_status s j"
    using f funded_status_other by auto
  show "(\<exists>row. funding_guard (now, opn) row \<and> state_intent_status s i = funding_row_status row
        \<and> state_intent_status s' i = funding_row_status (funding_rewrite (now, opn) row))
     \<or> state_intent_status s' i = state_intent_status s i \<and> r \<noteq> Inr 1"
  proof (cases "\<exists>row. sql_get fr_intent_id i ?t = Some row \<and> funding_guard (now, opn) row")
    case True
    then obtain row where row: "sql_get fr_intent_id i ?t = Some row" "funding_guard (now, opn) row" by blast
    then have "funded_status ?t' i = funding_row_status (funding_rewrite (now, opn) row)"
      "funded_status ?t i = funding_row_status row"
      by (simp_all add: funded_status_step fund.row_step_def) (simp add: funded_status_def)
    with f row show ?thesis by auto
  next
    case False
    from f funded_status_lost [OF d this] show ?thesis by auto
  qed
qed

lemma on_rules_effect:
  assumes "execution_state_inv s" "on_rules D (watch_apply now rid opn) s = (r, s')"
  shows "execution_state_inv s'" "es_sent s' = es_sent s" "es_funding s' = es_funding s"
    "r = Inr 1 \<Longrightarrow> \<exists>row. sql_get rw_rule_id (rule_id_hex rid) (es_rules s') = Some (watch_rewrite (now, opn) row)"
proof -
  let ?t = "es_rules s" and ?t' = "fst (watch_apply now rid opn (es_rules s))"
  have d: "distinct (map rw_rule_id ?t)" using assms(1) by (simp add: execution_state_inv_def)
  have f: "es_rules s' = ?t \<and> r = Inl () \<or> es_rules s' = ?t' \<and> r = Inl ()
      \<or> es_rules s' = ?t' \<and> r = Inr (snd (watch_apply now rid opn ?t))"
    and o: "es_funding s' = es_funding s" "es_sent s' = es_sent s"
    using assms(2) by (auto simp: on_rules_def run_statement_def split: db_fault.splits)
  show "execution_state_inv s'"
    using assms(1) f o watch_apply_distinct [OF d] by (auto simp: execution_state_inv_def)
  show "es_sent s' = es_sent s" "es_funding s' = es_funding s" by (fact o)+
  assume "r = Inr 1"
  with f have won: "es_rules s' = ?t'" "snd (watch_apply now rid opn ?t) = 1" by auto
  then have "watch.affected ?t (rule_id_hex rid, (now, opn)) = 1" by (simp add: watch_apply_exec)
  with watch.affected_iff [OF d, of "(rule_id_hex rid, (now, opn))"]
  obtain row where "sql_get rw_rule_id (rule_id_hex rid) ?t = Some row" "watch_guard (now, opn) row" by auto
  then have "sql_get rw_rule_id (rule_id_hex rid) ?t' = Some (watch_rewrite (now, opn) row)"
    by (simp add: watch_apply_exec watch.get_exec)
  with won show "\<exists>row. sql_get rw_rule_id (rule_id_hex rid) (es_rules s') = Some (watch_rewrite (now, opn) row)"
    by auto
qed

section \<open>The contract holds of the production code\<close>

text \<open>The steps of other actors: the repositories' operations, whoever calls them.\<close>

datatype foreign_step =
    FundingStep i64 string funding_op
  | RuleStep i64 bytes watch_op

fun foreign_apply :: "foreign_step \<Rightarrow> 's execution_state \<Rightarrow> 's execution_state" where
  "foreign_apply (FundingStep now i opn) s = s\<lparr>es_funding := fst (funding_apply now i opn (es_funding s))\<rparr>"
| "foreign_apply (RuleStep now i opn) s = s\<lparr>es_rules := fst (watch_apply now i opn (es_rules s))\<rparr>"

text \<open>Nobody else gives the execution lease of the intent back.\<close>

fun keeps_lease :: "foreign_step \<Rightarrow> string \<Rightarrow> bool" where
  "keeps_lease (FundingStep now j (FundReleaseExecution e)) i = (j \<noteq> i)"
| "keeps_lease _ i = True"

lemma budget_committed_row:
  "budget_committed (funding_row_status r) \<longleftrightarrow> fr_status r \<in> {''executing'', ''completed'', ''failed''}"
  by (auto simp: budget_committed_def funding_row_status_iff)

lemma keeps_lease_op: "keeps_lease (FundingStep now i opn) i \<longleftrightarrow> (\<forall>e. opn \<noteq> FundReleaseExecution e)"
  by (cases opn) auto

lemma foreign_keeps_committed:
  assumes "keeps_lease f i" "budget_committed (state_intent_status s i)"
  shows "budget_committed (state_intent_status (foreign_apply f s) i)"
proof (cases f)
  case (FundingStep now j opn)
  show ?thesis
  proof (cases "j = i")
    case True
    from assms(2) obtain r where r: "sql_get fr_intent_id i (es_funding s) = Some r"
      "fr_status r \<in> {''executing'', ''completed'', ''failed''}"
      by (cases "sql_get fr_intent_id i (es_funding s)")
         (auto simp: funded_status_def budget_committed_row, simp add: budget_committed_def)
    have opn: "\<forall>e. opn \<noteq> FundReleaseExecution e"
      using assms(1) True by (simp add: FundingStep keeps_lease_op)
    have "fr_status (fund.row_step r (now, opn)) \<in> {''executing'', ''completed'', ''failed''}"
      using r(2) opn
      by (elim insertE; cases opn) (simp_all add: fund.row_step_def funding_guard_def funding_rewrite_def)
    with r True show ?thesis
      by (simp add: FundingStep funded_status_step budget_committed_row)
  next
    case False
    with assms(2) show ?thesis by (simp add: FundingStep funded_status_other)
  qed
next
  case (RuleStep now j opn)
  with assms(2) show ?thesis by simp
qed

lemma repository_ops:
  "sp_lease_funding (repository_execution_state D) i now s = on_funding D (funding_apply now i FundLeaseExecution) s"
  "sp_release_funding (repository_execution_state D) i e s =
     on_funding D (funding_apply (db_clock D (es_calls s)) i (FundReleaseExecution e)) s"
  "sp_fail_funding (repository_execution_state D) i e s =
     on_funding D (funding_apply (db_clock D (es_calls s)) i (FundFail e)) s"
  "sp_complete_watch_rule (repository_execution_state D) rid u slot s =
     on_rules D (watch_apply (db_clock D (es_calls s)) rid (OpCompleted u slot)) s"
  "sp_complete_funding (repository_execution_state D) i sg s =
     on_funding D (funding_apply (db_clock D (es_calls s)) i (FundComplete sg)) s"
  by (simp_all add: repository_execution_state_def funding_apply.simps watch_apply.simps)

lemma execution_guards:
  "funding_guard (now, FundLeaseExecution) r \<Longrightarrow> funding_row_status r = Some BudgetReserved"
  "funding_row_status (funding_rewrite (now, FundLeaseExecution) r) = Some Executing"
  "funding_row_status (funding_rewrite (now, FundReleaseExecution e) r) = Some BudgetReserved"
  "funding_row_status (funding_rewrite (now, FundFail e) r) = Some Failed"
  "funding_row_status (funding_rewrite (now, FundComplete sg) r) = Some Completed"
  by (simp_all add: funding_guard_def funding_rewrite_def funding_row_status_def funding_status_literals)

lemma completed_rule_row: "rw_completed (watch_rewrite (now, OpCompleted u slot) r) = 1"
  by (simp add: watch_rewrite_def)

lemma sent_by_outcome:
  assumes "submit_once_and_observe N p = (out, txs)"
  shows "length txs = (case out of PreBroadcastFailure e \<Rightarrow> 0 | _ \<Rightarrow> 1)"
    "tx \<in> set txs \<Longrightarrow> net_deserialize N (rsp_signed_transaction_bytes p) = Inr tx"
proof -
  have polled: "poll_finalized N sg \<noteq> PreBroadcastFailure e" for sg e
    using poll_loop_supported [of "net_poll N" "net_signature_text N sg" total_poll_timeout 0 0 0]
    by (auto simp: poll_finalized_def supported_by_poll_def final_outcome_def split: option.splits)
  show "length txs = (case out of PreBroadcastFailure e \<Rightarrow> 0 | _ \<Rightarrow> 1)"
    using assms polled [symmetric] unfolding submit_once_cases
    by (cases out) (auto split: if_splits sum.splits simp: polled)
  show "tx \<in> set txs \<Longrightarrow> net_deserialize N (rsp_signed_transaction_bytes p) = Inr tx"
    using assms unfolding submit_once_cases by (auto split: if_splits sum.splits)
qed

interpretation production: execution_environment "repository_execution_state D" "production_backend X"
  execution_state_inv state_intent_status state_rule_completed es_sent "signed_by X" "carried_by X"
  foreign_apply keeps_lease
  for D and X :: "('f, 'o, 'now, 's) executor"
proof
  fix s s' :: "'s execution_state" and i now r
  assume "execution_state_inv s" "sp_lease_funding (repository_execution_state D) i now s = (r, s')"
  note E = on_funding_effect [OF this [unfolded repository_ops]]
  show "execution_state_inv s' \<and> es_sent s' = es_sent s
    \<and> (\<forall>j. j \<noteq> i \<longrightarrow> state_intent_status s' j = state_intent_status s j)
    \<and> (budget_committed (state_intent_status s i) \<longrightarrow>
         state_intent_status s' i = state_intent_status s i \<and> r \<noteq> Inr 1)
    \<and> (r = Inr 1 \<longrightarrow> state_intent_status s i = Some BudgetReserved \<and> state_intent_status s' i = Some Executing)"
    using E execution_guards(1,2) [of now] by (auto simp: budget_committed_def)
next
  fix s s' :: "'s execution_state" and i e r
  assume "execution_state_inv s" "sp_release_funding (repository_execution_state D) i e s = (r, s')"
  note E = on_funding_effect [OF this [unfolded repository_ops]]
  show "execution_state_inv s' \<and> es_sent s' = es_sent s
    \<and> (\<forall>j. j \<noteq> i \<longrightarrow> state_intent_status s' j = state_intent_status s j)
    \<and> (r = Inr 1 \<longrightarrow> state_intent_status s' i = Some BudgetReserved)"
    using E by (auto simp: execution_guards)
next
  fix s s' :: "'s execution_state" and i e r
  assume "execution_state_inv s" "sp_fail_funding (repository_execution_state D) i e s = (r, s')"
  note E = on_funding_effect [OF this [unfolded repository_ops]]
  show "execution_state_inv s' \<and> es_sent s' = es_sent s
    \<and> (\<forall>j. j \<noteq> i \<longrightarrow> state_intent_status s' j = state_intent_status s j)
    \<and> state_intent_status s' i \<in> {state_intent_status s i, Some Failed}
    \<and> (r = Inr 1 \<longrightarrow> state_intent_status s' i = Some Failed)"
    using E by (auto simp: execution_guards)
next
  fix s s' :: "'s execution_state" and rid u slot r
  assume "execution_state_inv s"
    "sp_complete_watch_rule (repository_execution_state D) rid u slot s = (r, s')"
  note E = on_rules_effect [OF this [unfolded repository_ops]]
  show "execution_state_inv s' \<and> es_sent s' = es_sent s \<and> state_intent_status s' = state_intent_status s
    \<and> (r = Inr 1 \<longrightarrow> state_rule_completed s' rid)"
    using E by (auto simp: rule_row_completed_def completed_rule_row)
next
  fix s s' :: "'s execution_state" and i sg r
  assume "execution_state_inv s" "sp_complete_funding (repository_execution_state D) i sg s = (r, s')"
  note E = on_funding_effect [OF this [unfolded repository_ops]]
  show "execution_state_inv s' \<and> es_sent s' = es_sent s
    \<and> (\<forall>j. j \<noteq> i \<longrightarrow> state_intent_status s' j = state_intent_status s j)
    \<and> state_intent_status s' i \<in> {state_intent_status s i, Some Completed}
    \<and> state_rule_completed s' = state_rule_completed s
    \<and> (r = Inr 1 \<longrightarrow> state_intent_status s' i = Some Completed)"
    using E by (auto simp: execution_guards)
next
  fix s s' :: "'s execution_state" and c x
  assume "execution_state_inv s" "eb_review_and_sign (production_backend X) c s = (x, s')"
  then show "execution_state_inv s' \<and> es_sent s' = es_sent s \<and> state_intent_status s' = state_intent_status s
    \<and> (\<forall>p. x = Some (Inr p) \<longrightarrow> signed_by X c p)"
    by (auto simp: production_backend_def execution_state_inv_def Let_def signed_by_def
        split: option.splits prod.splits) blast
next
  fix s s' :: "'s execution_state" and p out
  assume "execution_state_inv s" "eb_submit_and_observe (production_backend X) p s = (out, s')"
  then obtain txs where "submit_once_and_observe (ex_network X (es_calls s)) p = (out, txs)"
    "es_sent s' = es_sent s @ txs" "execution_state_inv s'" "es_funding s' = es_funding s"
    by (auto simp: production_backend_def execution_state_inv_def split: prod.splits)
  with sent_by_outcome [OF this(1)]
  show "execution_state_inv s' \<and> state_intent_status s' = state_intent_status s
    \<and> (\<exists>ms. es_sent s' = es_sent s @ ms \<and> length ms = (case out of PreBroadcastFailure e \<Rightarrow> 0 | _ \<Rightarrow> 1)
         \<and> (\<forall>m \<in> set ms. carried_by X p m))"
    by (auto simp: carried_by_def)
next
  fix s :: "'s execution_state" and f i
  assume "execution_state_inv s"
  then show "execution_state_inv (foreign_apply f s) \<and> es_sent (foreign_apply f s) = es_sent s
    \<and> (keeps_lease f i \<longrightarrow> budget_committed (state_intent_status s i) \<longrightarrow>
         budget_committed (state_intent_status (foreign_apply f s) i))"
    using foreign_keeps_committed [of f i s]
    by (cases f) (auto simp: execution_state_inv_def funding_apply_distinct watch_apply_distinct)
qed

section \<open>What a history broadcasts\<close>

text \<open>The transaction is the plan's own deposit, signed for the wallet.\<close>

definition plan_deposit_transaction ::
    "sdk \<Rightarrow> pubkey \<Rightarrow> validated_plan_inputs \<Rightarrow> transaction \<Rightarrow> bool" where
  "plan_deposit_transaction S w plan tx \<longleftrightarrow>
     (\<exists>hex unsigned report bh idx.
        build_unsigned_transaction S hex plan = Inr (unsigned, report)
      \<and> canonical_shape S (tx_message unsigned) w (plan_policy plan (sdk_message_bytes S (tx_message unsigned)))
      \<and> sdk_message_bytes S (tx_message tx)
          = sdk_message_bytes S ((tx_message unsigned)\<lparr>msg_recent_blockhash := bh\<rparr>)
      \<and> sdk_verify S tx
      \<and> index_of w (msg_account_keys (tx_message tx)) = Some idx \<and> idx < length (tx_signatures tx)
      \<and> tx_signatures tx ! idx \<noteq> default_signature)"

text \<open>All parts use one SDK: the wallet's, and the parser of the submission.\<close>

definition one_sdk :: "sdk \<Rightarrow> ('f, 'o, 'now, 's) executor \<Rightarrow> bool" where
  "one_sdk S X \<longleftrightarrow>
     (\<forall>k. ww_sdk (ex_world X k) = S) \<and> (\<forall>k. net_deserialize (ex_network X k) = sdk_bincode_parse S)"

lemma carried_deposit:
  assumes "one_sdk S X" "signed_by X c p" "carried_by X p tx"
  shows "plan_deposit_transaction S (lcw_pubkey (ex_wallet X)) (rc_plan c) tx"
proof -
  from assms(2) obtain k st s st' s' where
    r: "production_review (ex_world X k) (ex_wallet X) (ex_emit X k) c st s = Some (Inr p, st', s')"
    by (auto simp: signed_by_def)
  have S: "ww_sdk (ex_world X k) = S" and parse: "sdk_bincode_parse S (rsp_signed_transaction_bytes p) = Inr tx"
    using assms(1,3) by (auto simp: one_sdk_def carried_by_def)
  from signed_payload [OF r] parse show ?thesis
    unfolding S plan_deposit_transaction_def by force
qed

abbreviation production_step ::
    "db_env \<Rightarrow> ('f, 'o, 'now, 's) executor \<Rightarrow> 's execution_state \<Rightarrow> foreign_step executor_event \<Rightarrow>
     's execution_state" where
  "production_step D X \<equiv> event_step (repository_execution_state D) (production_backend X) foreign_apply"

lemma history_log:
  assumes "execution_state_inv s"
  shows "execution_state_inv (foldl (production_step D X) s es)
    \<and> (\<exists>ms. es_sent (foldl (production_step D X) s es) = es_sent s @ ms
         \<and> (\<forall>m \<in> set ms. \<exists>c now p. Attempt c now \<in> set es \<and> signed_by X c p \<and> carried_by X p m))"
  using assms
proof (induction es arbitrary: s)
  case (Cons e es)
  have step: "execution_state_inv (production_step D X s e)
    \<and> (\<exists>ms. es_sent (production_step D X s e) = es_sent s @ ms
         \<and> (\<forall>m \<in> set ms. \<exists>c now p. e = Attempt c now \<and> signed_by X c p \<and> carried_by X p m))"
  proof (cases e)
    case (Attempt c now)
    obtain r s' where ex: "execute_revalidated_candidate (repository_execution_state D) (production_backend X) c now s
        = (r, s')" by (cases "execute_revalidated_candidate (repository_execution_state D) (production_backend X) c now s")
    from production.attempt [OF Cons.prems ex] ex show ?thesis by (auto simp: Attempt)
  next
    case (Foreign f)
    with production.foreign [OF Cons.prems, of f] show ?thesis by auto
  qed
  then obtain ms where ms: "es_sent (production_step D X s e) = es_sent s @ ms"
    "\<forall>m \<in> set ms. \<exists>c now p. e = Attempt c now \<and> signed_by X c p \<and> carried_by X p m" by blast
  from Cons.IH [of "production_step D X s e"] step obtain ms' where
    IH: "execution_state_inv (foldl (production_step D X) s (e # es))"
      "es_sent (foldl (production_step D X) s (e # es)) = es_sent (production_step D X s e) @ ms'"
      "\<forall>m \<in> set ms'. \<exists>c now p. Attempt c now \<in> set es \<and> signed_by X c p \<and> carried_by X p m"
    by auto
  have "es_sent (foldl (production_step D X) s (e # es)) = es_sent s @ (ms @ ms')" using ms(1) IH(2) by simp
  moreover have "\<forall>m \<in> set (ms @ ms'). \<exists>c now p. Attempt c now \<in> set (e # es) \<and> signed_by X c p \<and> carried_by X p m"
    using ms(2) IH(3) by fastforce
  ultimately show ?case using IH(1) by blast
qed simp

section \<open>The properties of an attempt\<close>

text \<open>C18: The report of an execution attempt does not misstate the funding row: with the database failing
  or losing replies at any statement, the wallet failing and the network answering anything, a report
  that says \<open>budget_reserved\<close>, \<open>executing\<close>, \<open>failed\<close> or \<open>completed\<close> is made when the row is in exactly
  that status, \<open>completed\<close> only when the watch rule is recorded as completed as well, and the rows of
  other intents are not touched. When the process dies in the review there is no report, the row is left
  \<open>executing\<close> and nothing has been sent.\<close>

theorem attempt_reports_are_truthful:
  assumes "execution_state_inv s"
    and "execute_revalidated_candidate (repository_execution_state D) (production_backend X) c now s = (out, s')"
  shows "(\<forall>rep. out = Some rep \<longrightarrow>
           (\<forall>st \<in> {BudgetReserved, Executing, Failed, Completed}.
              ear_funding_state rep = funding_status_as_str st \<longrightarrow>
                state_intent_status s' (rc_intent_id c) = Some st)
         \<and> (ear_funding_state rep = ''completed'' \<longrightarrow> state_rule_completed s' (rc_rule_id c)))
     \<and> (out = None \<longrightarrow> state_intent_status s' (rc_intent_id c) = Some Executing \<and> es_sent s' = es_sent s)
     \<and> (\<forall>j. j \<noteq> rc_intent_id c \<longrightarrow> state_intent_status s' j = state_intent_status s j)"
  using production.attempt [OF assms] by simp

text \<open>C17: Money moves only under a lease that was held: an attempt hands at most one transaction to the
  network; when it does, the intent's budget was reserved before and is committed afterwards (executing,
  completed or failed), whatever the database, the wallet and the network did; and an attempt on an
  intent whose budget is committed sends nothing and leaves the row as it was.\<close>

theorem broadcast_commits_the_budget:
  assumes "execution_state_inv s"
    and "execute_revalidated_candidate (repository_execution_state D) (production_backend X) c now s = (out, s')"
  shows "(es_sent s' = es_sent s \<or> (\<exists>tx. es_sent s' = es_sent s @ [tx]))
     \<and> (es_sent s' \<noteq> es_sent s \<longrightarrow>
          state_intent_status s (rc_intent_id c) = Some BudgetReserved
          \<and> budget_committed (state_intent_status s' (rc_intent_id c)))
     \<and> (budget_committed (state_intent_status s (rc_intent_id c)) \<longrightarrow>
          es_sent s' = es_sent s
          \<and> state_intent_status s' (rc_intent_id c) = state_intent_status s (rc_intent_id c))"
proof -
  note A = production.attempt [OF assms]
  then obtain ms where "es_sent s' = es_sent s @ ms" "length ms \<le> 1" by blast
  then have "es_sent s' = es_sent s \<or> (\<exists>tx. es_sent s' = es_sent s @ [tx])"
    by (cases ms) auto
  with A show ?thesis by blast
qed

text \<open>C2: A budget is broadcast at most once: over any sequence of execution attempts on any intents,
  interleaved with any operations of the two repositories by other actors (refunds, expiry, rule
  updates, crashes between attempts), and with database replies lost at will, the attempts on one
  intent hand at most one transaction to the network in all, provided no other actor gives back that
  intent's execution lease.\<close>

theorem at_most_one_broadcast_per_intent:
  assumes "execution_state_inv s"
    and "\<forall>f. Foreign f \<in> set es \<longrightarrow> keeps_lease f i"
  shows "broadcasts (repository_execution_state D) (production_backend X) foreign_apply es_sent i s es \<le> 1"
proof -
  have "broadcasts (repository_execution_state D) (production_backend X) foreign_apply es_sent i s es
      \<le> (if budget_committed (state_intent_status s i) then 0 else 1)"
    by (rule production.broadcasts_bound) (use assms in auto)
  then show ?thesis by (simp split: if_splits)
qed

text \<open>Nothing reaches the network but reviewed deposits: over any sequence of attempts and of other
  actors' steps, every transaction that is handed to the network is the canonical deposit assembled from
  the validated plan of one of the attempted candidates (the same message up to the blockhash, of the
  audited program, mint, amount, source and reserve), verified and signed in the controlled wallet's
  slot.\<close>

theorem only_plan_deposits_are_broadcast:
  assumes "execution_state_inv s" "one_sdk S X"
    and "foldl (production_step D X) s es = s'"
  shows "\<exists>txs. es_sent s' = es_sent s @ txs
     \<and> (\<forall>tx \<in> set txs. \<exists>c now. Attempt c now \<in> set es
          \<and> plan_deposit_transaction S (lcw_pubkey (ex_wallet X)) (rc_plan c) tx)"
proof -
  from history_log [OF assms(1), of D X es] obtain txs where
    "es_sent s' = es_sent s @ txs"
    "\<forall>m \<in> set txs. \<exists>c now p. Attempt c now \<in> set es \<and> signed_by X c p \<and> carried_by X p m"
    using assms(3) by blast
  with carried_deposit [OF assms(2)] show ?thesis by blast
qed

section \<open>Attempts on concrete intents\<close>

definition example_db :: db_env where
  "example_db = \<lparr>db_clock = (\<lambda>k. 100000), db_fault_at = (\<lambda>k. if k = 0 then NoFault else FailAfter)\<rparr>"

text \<open>A node that accepts the bytes and loses the reply to the send.\<close>

definition example_lossy_network :: "transaction network" where
  "example_lossy_network =
     \<lparr>net_write_client = True, net_deserialize = sdk_bincode_parse instance_sdk,
      net_send = (\<lambda>tx cfg. Inl ''timeout''), net_block_height = Inl ''unavailable'',
      net_poll = (\<lambda>k. \<lparr>pr_delay = 0, pr_oversleep = 0, pr_client = False, pr_statuses = Inl ()\<rparr>),
      net_signature_text = (\<lambda>sg. ''sig'')\<rparr>"

definition example_executor :: "(unit, unit, unit, unit) executor" where
  "example_executor =
     \<lparr>ex_world = (\<lambda>k. instance_world), ex_wallet = instance_wallet, ex_emit = (\<lambda>k r. True),
      ex_network = (\<lambda>k. example_lossy_network)\<rparr>"

definition example_execution_state :: "unit execution_state" where
  "example_execution_state =
     \<lparr>es_funding = [(new_funding_row 1 example_intent)\<lparr>fr_status := ''budget_reserved''\<rparr>],
      es_rules = [], es_calls = 0, es_sent = [], es_pipeline = \<lparr>pst_cache = None, pst_calls = 0\<rparr>,
      es_signer = ()\<rparr>"

lemma example_execution_inv: "execution_state_inv example_execution_state"
  by (simp add: execution_state_inv_def example_execution_state_def)

lemma example_one_sdk: "one_sdk instance_sdk example_executor"
  by (simp add: one_sdk_def example_executor_def example_lossy_network_def)

lemma example_attempt:
  obtains rep s' tx where
    "execute_revalidated_candidate (repository_execution_state example_db) (production_backend example_executor)
       example_candidate 5 example_execution_state = (Some rep, s')"
    "ear_funding_state rep = ''executing''" "es_sent s' = [tx]"
proof -
  obtain p st' s' where rv: "production_review instance_world instance_wallet (\<lambda>_. True) example_candidate
      \<lparr>pst_cache = None, pst_calls = 0\<rparr> () = Some (Inr p, st', s')"
    by (rule example_review)
  obtain tx where tx: "sdk_bincode_parse instance_sdk (rsp_signed_transaction_bytes p) = Inr tx"
    using signed_payload [OF rv] by auto
  let ?run = "execute_revalidated_candidate (repository_execution_state example_db)
       (production_backend example_executor) example_candidate 5 example_execution_state"
  have "\<exists>rep. fst ?run = Some rep \<and> ear_funding_state rep = ''executing'' \<and> es_sent (snd ?run) = [tx]"
    using rv tx
    by (simp add: execute_revalidated_candidate_def lease_after_final_revalidation_def Let_def
        repository_execution_state_def production_backend_def on_funding_def run_statement_def example_db_def
        example_execution_state_def lease_execution_if_budget_reserved_def sql_update_def
        new_funding_row_def example_intent_def example_candidate_def submit_once_cases example_executor_def
        example_lossy_network_def settle_attempt_def base_report_def)
  then show thesis using that [of _ "snd ?run" tx] by (metis prod.collapse)
qed

theorem attempt_reports_are_truthful_witness:
  "\<exists>rep s' tx. execution_state_inv example_execution_state
     \<and> execute_revalidated_candidate (repository_execution_state example_db) (production_backend example_executor)
         example_candidate 5 example_execution_state = (Some rep, s')
     \<and> ear_funding_state rep = ''executing'' \<and> es_sent s' = [tx]
     \<and> state_intent_status s' (rc_intent_id example_candidate) = Some Executing"
proof -
  obtain rep s' tx where ex: "execute_revalidated_candidate (repository_execution_state example_db)
       (production_backend example_executor) example_candidate 5 example_execution_state = (Some rep, s')"
    and r: "ear_funding_state rep = ''executing''" "es_sent s' = [tx]"
    by (rule example_attempt)
  from attempt_reports_are_truthful [OF example_execution_inv ex] r(1)
  have "state_intent_status s' (rc_intent_id example_candidate) = Some Executing" by auto
  with ex r example_execution_inv show ?thesis by blast
qed

theorem broadcast_commits_the_budget_witness:
  "\<exists>rep s' tx. execution_state_inv example_execution_state
     \<and> execute_revalidated_candidate (repository_execution_state example_db) (production_backend example_executor)
         example_candidate 5 example_execution_state = (Some rep, s')
     \<and> es_sent example_execution_state = [] \<and> es_sent s' = [tx]
     \<and> state_intent_status example_execution_state (rc_intent_id example_candidate) = Some BudgetReserved
     \<and> budget_committed (state_intent_status s' (rc_intent_id example_candidate))"
proof -
  obtain rep s' tx where ex: "execute_revalidated_candidate (repository_execution_state example_db)
       (production_backend example_executor) example_candidate 5 example_execution_state = (Some rep, s')"
    and r: "ear_funding_state rep = ''executing''" "es_sent s' = [tx]"
    by (rule example_attempt)
  have e: "es_sent example_execution_state = []" by (simp add: example_execution_state_def)
  then have "es_sent s' \<noteq> es_sent example_execution_state" using r(2) by simp
  with broadcast_commits_the_budget [OF example_execution_inv ex]
  have "state_intent_status example_execution_state (rc_intent_id example_candidate) = Some BudgetReserved"
    "budget_committed (state_intent_status s' (rc_intent_id example_candidate))" by blast+
  with ex r e example_execution_inv show ?thesis by blast
qed

theorem at_most_one_broadcast_per_intent_witness:
  "broadcasts (repository_execution_state example_db) (production_backend example_executor)
     foreign_apply es_sent ''07'' example_execution_state
     [Attempt example_candidate 5, Foreign (FundingStep 200000 ''07'' FundLeaseRefund),
      Attempt example_candidate 6] = 1"
    (is "?n = 1")
proof -
  have "?n \<le> 1"
    by (rule at_most_one_broadcast_per_intent) (auto simp: example_execution_inv)
  moreover have "1 \<le> ?n"
  proof -
    obtain rep s' tx where ex: "execute_revalidated_candidate (repository_execution_state example_db)
         (production_backend example_executor) example_candidate 5 example_execution_state = (Some rep, s')"
      and r: "ear_funding_state rep = ''executing''" "es_sent s' = [tx]"
      by (rule example_attempt)
    then show ?thesis by (simp add: example_candidate_def example_execution_state_def)
  qed
  ultimately show ?thesis by simp
qed

theorem only_plan_deposits_are_broadcast_witness:
  "\<exists>s' tx. foldl (production_step example_db example_executor) example_execution_state
        [Attempt example_candidate 5] = s'
     \<and> es_sent s' = [tx] \<and> plan_deposit_transaction instance_sdk (replicate 32 5) example_plan tx"
proof -
  obtain rep s' tx where ex: "execute_revalidated_candidate (repository_execution_state example_db)
       (production_backend example_executor) example_candidate 5 example_execution_state = (Some rep, s')"
    and r: "ear_funding_state rep = ''executing''" "es_sent s' = [tx]"
    by (rule example_attempt)
  have run: "foldl (production_step example_db example_executor) example_execution_state
      [Attempt example_candidate 5] = s'" by (simp add: ex)
  from only_plan_deposits_are_broadcast [OF example_execution_inv example_one_sdk run] r run show ?thesis
    by (auto simp: example_execution_state_def example_candidate_def example_executor_def)
qed

end
