(* ===== verification/Market_Rate.thy ===== *)
theory Market_Rate
  imports Solend_Raw
begin

text \<open>
  The native supply rate of a Solend reserve, the numeric half of
  \<open>bins/solfrontier-mcp/src/finalize_market.rs\<close>: the rate snapshot read from the 619-byte account, the
  three-segment borrow rate curve in 18-decimal fixed point over \<open>u128\<close>, and the floor of a 256-bit product
  over a divisor, computed by schoolbook multiplication and long division. The lemmas show that the
  machine arithmetic computes the exact floors.
\<close>

unbundle bit_operations_syntax

section \<open>Multiply and divide\<close>

datatype apr_math_error = InvalidConfig | AprOverflow | DivisionByZero

definition solend_wad :: u128 where "solend_wad = 1000000000000000000"
definition market_bps_wad :: u128 where "market_bps_wad = 100000000000000"

definition bit_of_u256 :: "u128 \<Rightarrow> u128 \<Rightarrow> nat \<Rightarrow> u128" where
  "bit_of_u256 high low index =
     (if index < 128 then drop_bit index low AND 1 else drop_bit (index - 128) high AND 1)"

text \<open>One round of the long division; the state is the quotient, its overflow flag and the remainder.\<close>

fun division_round :: "u128 \<Rightarrow> u128 \<Rightarrow> u128 \<Rightarrow> u128 \<times> bool \<times> u128 \<Rightarrow> nat \<Rightarrow> u128 \<times> bool \<times> u128" where
  "division_round high low divisor (quot, quotient_overflow, remainder) index =
     (let remainder_overflow = (drop_bit 127 remainder AND 1 = 1);
          shifted = push_bit 1 remainder OR bit_of_u256 high low index;
          subtract = (remainder_overflow \<or> divisor \<le> shifted)
      in (push_bit 1 quot OR (if subtract then 1 else 0),
          (if drop_bit 127 quot AND 1 = 1 then True else quotient_overflow),
          (if subtract then shifted - divisor else shifted)))"

definition divide_u256 :: "u128 \<Rightarrow> u128 \<Rightarrow> u128 \<Rightarrow> u128 \<times> bool \<times> u128" where
  "divide_u256 high low divisor = foldl (division_round high low divisor) (0, False, 0) (rev [0..<256])"

definition overflowing_add :: "u128 \<Rightarrow> u128 \<Rightarrow> u128 \<times> bool" where
  "overflowing_add a b = (a + b, a + b < a)"

definition wide_product :: "u128 \<Rightarrow> u128 \<Rightarrow> apr_math_error + (u128 \<times> u128)" where
  "wide_product left right =
     (let left_low = ucast (ucast left :: u64); left_high = drop_bit 64 left;
          right_low = ucast (ucast right :: u64); right_high = drop_bit 64 right;
          low_low = left_low * right_low; low_high = left_low * right_high;
          high_low = left_high * right_low; high_high = left_high * right_high;
          middle = low_high + high_low;
          middle_carry = (if middle < low_high then push_bit 64 1 else 0);
          middle_low = push_bit 64 middle; middle_high = drop_bit 64 middle
      in case overflowing_add low_low middle_low of
           (low, low_carry) \<Rightarrow>
             try_bind (ok_or (checked_add high_high middle_high) AprOverflow) (\<lambda>h1.
             try_bind (ok_or (checked_add h1 (if low_carry then 1 else 0)) AprOverflow) (\<lambda>h2.
             try_bind (ok_or (checked_add h2 middle_carry) AprOverflow) (\<lambda>high.
               Inr (high, low)))))"

definition mul_div_floor_u128 :: "u128 \<Rightarrow> u128 \<Rightarrow> u128 \<Rightarrow> apr_math_error + u128" where
  "mul_div_floor_u128 left right divisor =
     (if divisor = 0 then Inl DivisionByZero
      else case checked_mul left right of
        Some product \<Rightarrow> Inr (product div divisor)
      | None \<Rightarrow>
          try_bind (wide_product left right) (\<lambda>(high, low).
            case divide_u256 high low divisor of
              (quot, quotient_overflow, remainder) \<Rightarrow>
                (if quotient_overflow then Inl AprOverflow else Inr quot)))"

subsection \<open>The long division computes quotient and remainder\<close>

text \<open>\<open>division_state p d s\<close>: the state after the bits of the prefix \<open>p\<close> of the dividend.\<close>

definition division_state :: "nat \<Rightarrow> u128 \<Rightarrow> u128 \<times> bool \<times> u128 \<Rightarrow> bool" where
  "division_state p d s \<longleftrightarrow>
     (case s of (q, qo, r) \<Rightarrow>
        unat r = p mod unat d \<and> unat q = p div unat d mod 2 ^ 128 \<and> (qo \<longleftrightarrow> 2 ^ 128 \<le> p div unat d))"

lemma shift_in_bit:
  fixes r b :: u128
  assumes "unat b < 2"
  shows "push_bit 1 r OR b = word_of_nat (2 * unat r + unat b)"
proof -
  have "b = 0 \<or> b = 1" using assms by (auto simp: word_unat_eq_iff less_2_cases_iff)
  then have "push_bit 1 r OR b = 2 * r + b" by (auto simp: or_one_eq push_bit_eq_mult)
  then show ?thesis by simp
qed

lemma unat_and_one: "unat (drop_bit n w AND 1) = unat w div 2 ^ n mod 2" for w :: u128
proof -
  have "unat (x AND 1) = unat x mod 2" for x :: u128
    by (simp add: and_one_eq unat_mod)
  moreover have "unat (drop_bit n w) = unat w div 2 ^ n" unfolding unat_drop_bit_eq by (rule drop_bit_eq_div)
  ultimately show ?thesis by (simp only:)
qed

lemma top_bit: "drop_bit 127 r AND 1 = 1 \<longleftrightarrow> 2 ^ 127 \<le> unat r" for r :: u128
proof -
  have "unat r < 2 * 2 ^ 127" using unat_less_exp [of r] by simp
  then have less: "unat r div 2 ^ 127 < 2" by (rule less_mult_imp_div_less)
  then have "unat (drop_bit 127 r AND 1) = unat r div 2 ^ 127"
    by (simp add: unat_and_one del: power_numeral)
  moreover have "unat r div 2 ^ 127 = 1 \<longleftrightarrow> 2 ^ 127 \<le> unat r"
  proof (cases "2 ^ 127 \<le> unat r")
    case True
    then have "0 < unat r div 2 ^ 127" by (simp add: div_greater_zero_iff)
    with less True show ?thesis by linarith
  qed simp
  ultimately show ?thesis by (simp add: word_unat_eq_iff)
qed

lemma doubled_div_mod:
  fixes p d b :: nat
  assumes "0 < d" "b < 2"
  shows "(2 * p + b) div d = 2 * (p div d) + (if d \<le> 2 * (p mod d) + b then 1 else 0)"
    "(2 * p + b) mod d = 2 * (p mod d) + b - (if d \<le> 2 * (p mod d) + b then d else 0)"
proof -
  let ?t = "2 * (p mod d) + b"
  have "2 * p + b = ?t + (2 * (p div d)) * d"
    using div_mult_mod_eq [of p d] by (metis (no_types, lifting) add.commute add.left_commute add_mult_distrib2 mult.assoc)
  moreover have "(?t + (2 * (p div d)) * d) div d = 2 * (p div d) + ?t div d"
    "(?t + (2 * (p div d)) * d) mod d = ?t mod d"
    using assms(1) by simp_all
  ultimately have e: "(2 * p + b) div d = 2 * (p div d) + ?t div d" "(2 * p + b) mod d = ?t mod d"
    by metis+
  have "?t < 2 * d" using mod_less_divisor [OF assms(1), of p] assms(2) by linarith
  then have "?t div d = (if d \<le> ?t then 1 else 0)" "?t mod d = ?t - (if d \<le> ?t then d else 0)"
    using assms(1) by (auto simp: le_mod_geq intro: div_nat_eqI)
  with e show "(2 * p + b) div d = 2 * (p div d) + (if d \<le> ?t then 1 else 0)"
    "(2 * p + b) mod d = ?t - (if d \<le> ?t then d else 0)" by simp_all
qed

lemma doubled_mod: "(2 * (n mod m) + c) mod m = (2 * n + c) mod m" for n m c :: nat
  by (metis mod_add_left_eq mod_mult_right_eq)

lemma unat_of_small: "n < 2 ^ 128 \<Longrightarrow> unat (word_of_nat n :: u128) = n"
  by (simp add: unat_of_nat)

lemma unat_of_any: "unat (word_of_nat n :: u128) = n mod 2 ^ 128"
  by (simp add: unat_of_nat)

lemma division_round_state:
  assumes d: "d \<noteq> 0" and st: "division_state p d s"
    and b: "unat (bit_of_u256 high low i) < 2"
  shows "division_state (2 * p + unat (bit_of_u256 high low i)) d (division_round high low d s i)"
proof -
  obtain q qo r where s: "s = (q, qo, r)" by (cases s)
  let ?b = "unat (bit_of_u256 high low i)" and ?D = "unat d"
  let ?t = "2 * unat r + ?b"
  from st have r: "unat r = p mod ?D" and q: "unat q = p div ?D mod 2 ^ 128"
    and qo: "qo \<longleftrightarrow> 2 ^ 128 \<le> p div ?D" by (simp_all add: division_state_def s)
  have D: "0 < ?D" "?D < 2 ^ 128" using d unat_less_exp [of d] by (simp_all add: unat_gt_0)
  have rD: "unat r < ?D" using D(1) by (simp add: r)
  let ?sub = "drop_bit 127 r AND 1 = 1 \<or> d \<le> push_bit 1 r OR bit_of_u256 high low i"
  have sub: "?sub \<longleftrightarrow> ?D \<le> ?t"
  proof (cases "2 ^ 127 \<le> unat r")
    case True
    then have "?D \<le> ?t" using D(2) by simp
    with True show ?thesis unfolding top_bit by simp
  next
    case False
    then have "?t < 2 ^ 128" using b by simp
    then have "unat (push_bit 1 r OR bit_of_u256 high low i) = ?t"
      unfolding shift_in_bit [OF b] by (rule unat_of_small)
    with False show ?thesis unfolding top_bit word_le_nat_alt by simp
  qed
  let ?x = "push_bit 1 r OR bit_of_u256 high low i"
  have rest: "unat (if ?sub then ?x - d else ?x) = (2 * p + ?b) mod ?D"
  proof (cases "?D \<le> ?t")
    case True
    have "word_of_nat ?t - d = word_of_nat ?t - (word_of_nat ?D :: u128)" by simp
    also have "\<dots> = word_of_nat (?t - ?D)" using True by (rule of_nat_diff [symmetric])
    finally have "?x - d = word_of_nat (?t - ?D)" unfolding shift_in_bit [OF b] .
    moreover have "?t - ?D < 2 ^ 128" using rD b D(2) by linarith
    ultimately have "unat (?x - d) = ?t - ?D" by (simp only: unat_of_small)
    with True show ?thesis
      unfolding doubled_div_mod(2) [OF D(1) b] sub r [symmetric] by (simp only: if_True)
  next
    case False
    then have "unat ?x = ?t" using D(2) unfolding shift_in_bit [OF b] by (intro unat_of_small) linarith
    with False show ?thesis
      unfolding doubled_div_mod(2) [OF D(1) b] sub r [symmetric] by (simp only: if_False diff_zero)
  qed
  let ?c = "(if ?sub then 1 else 0) :: u128"
  have c: "unat ?c < 2" "unat ?c = (if ?D \<le> ?t then 1 else 0)" using sub by simp_all
  have Q: "(2 * p + ?b) div ?D = 2 * (p div ?D) + unat ?c"
    unfolding doubled_div_mod(1) [OF D(1) b] c(2) by (simp add: r)
  have "unat (push_bit 1 q OR ?c) = (2 * p + ?b) div ?D mod 2 ^ 128"
    unfolding shift_in_bit [OF c(1)] Q q unat_of_any by (rule doubled_mod)
  moreover have "(drop_bit 127 q AND 1 = 1 \<or> qo) \<longleftrightarrow> 2 ^ 128 \<le> (2 * p + ?b) div ?D"
  proof (cases qo)
    case True
    with qo have "2 ^ 128 \<le> p div ?D" by simp
    then have "2 ^ 128 \<le> 2 * (p div ?D) + unat ?c" by linarith
    with True show ?thesis unfolding Q by simp
  next
    case False
    then have "unat q = p div ?D" using q qo by simp
    then show ?thesis unfolding Q top_bit using False c(1) by auto
  qed
  moreover have "(if drop_bit 127 q AND 1 = 1 then True else qo) \<longleftrightarrow> drop_bit 127 q AND 1 = 1 \<or> qo" by simp
  ultimately show ?thesis
    using rest unfolding s division_round.simps Let_def division_state_def prod.case by blast
qed

lemma concat_div:
  fixes H L :: nat
  assumes "L < 2 ^ K"
  shows "i < K \<Longrightarrow> (H * 2 ^ K + L) div 2 ^ i mod 2 = L div 2 ^ i mod 2"
    "K \<le> i \<Longrightarrow> (H * 2 ^ K + L) div 2 ^ i = H div 2 ^ (i - K)"
proof -
  assume "i < K"
  then obtain k where k: "K = i + Suc k" by (metis less_imp_Suc_add add_Suc_right)
  have "(H * 2 ^ K + L) div 2 ^ i = (2 * (H * 2 ^ k)) + L div 2 ^ i"
  proof -
    have e: "H * 2 ^ K + L = L + (2 * (H * 2 ^ k)) * 2 ^ i" unfolding k by (simp add: power_add)
    have "(L + (2 * (H * 2 ^ k)) * 2 ^ i) div 2 ^ i = 2 * (H * 2 ^ k) + L div 2 ^ i" by simp
    then show ?thesis unfolding e .
  qed
  then show "(H * 2 ^ K + L) div 2 ^ i mod 2 = L div 2 ^ i mod 2"
    by (simp only: mod_mult_self4)
next
  assume "K \<le> i"
  then have "(2::nat) ^ i = 2 ^ K * 2 ^ (i - K)" by (simp flip: power_add)
  then show "(H * 2 ^ K + L) div 2 ^ i = H div 2 ^ (i - K)"
    using assms by (simp add: div_mult2_eq)
qed

lemma bit_of_u256_value:
  "unat (bit_of_u256 high low i) = (unat high * 2 ^ 128 + unat low) div 2 ^ i mod 2"
  using concat_div [OF unat_less_exp [of low], of i "unat high"]
  by (simp add: bit_of_u256_def unat_and_one del: power_numeral)

lemma division_rounds:
  assumes "d \<noteq> 0" "n \<le> 256" "division_state ((unat high * 2 ^ 128 + unat low) div 2 ^ n) d s"
  shows "division_state (unat high * 2 ^ 128 + unat low) d (foldl (division_round high low d) s (rev [0..<n]))"
  using assms(2,3)
proof (induction n arbitrary: s)
  case (Suc n)
  let ?N = "unat high * 2 ^ 128 + unat low"
  note bit = bit_of_u256_value [of high low n]
  have "?N div 2 ^ n = 2 * (?N div 2 ^ n div 2) + ?N div 2 ^ n mod 2" by simp
  moreover have "?N div 2 ^ n div 2 = ?N div 2 ^ Suc n"
    by (simp only: div_mult2_eq [symmetric] power_Suc2)
  ultimately have "?N div 2 ^ n = 2 * (?N div 2 ^ Suc n) + unat (bit_of_u256 high low n)"
    unfolding bit by metis
  moreover have "unat (bit_of_u256 high low n) < 2" unfolding bit by simp
  ultimately have "division_state (?N div 2 ^ n) d (division_round high low d s n)"
    using division_round_state [OF assms(1) Suc.prems(2)] by metis
  then show ?case using Suc.IH [of "division_round high low d s n"] Suc.prems(1) by simp
qed simp

lemma divide_u256_state:
  assumes "d \<noteq> 0"
  shows "division_state (unat high * 2 ^ 128 + unat low) d (divide_u256 high low d)"
proof -
  let ?N = "unat high * 2 ^ 128 + unat low"
  have "?N div 2 ^ 128 = unat high" using concat_div(2) [OF unat_less_exp [of low], of 128 "unat high"] by simp
  then have "?N div 2 ^ (128 + 128) = unat high div 2 ^ 128" by (simp only: power_add div_mult2_eq)
  moreover have "unat high div 2 ^ 128 = 0" using unat_less_exp [of high] by simp
  ultimately have "?N div 2 ^ 256 = 0" by simp
  then have "division_state (?N div 2 ^ 256) d (0, False, 0)" by (simp add: division_state_def)
  from division_rounds [OF assms order_refl this] show ?thesis by (simp only: divide_u256_def)
qed

subsection \<open>The wide product\<close>

lemma schoolbook:
  fixes al ah bl bh B :: nat
  assumes "al < B" "ah < B" "bl < B" "bh < B"
  defines "M \<equiv> B * B" and "x \<equiv> al * bh + ah * bl"
  defines "m \<equiv> x mod M" and "cm \<equiv> x div M"
  defines "l \<equiv> al * bl + m mod B * B"
  shows "(ah * B + al) * (bh * B + bl) = (ah * bh + m div B + l div M + cm * B) * M + l mod M"
proof -
  have "x = cm * M + m" by (simp add: cm_def m_def)
  have e: "(ah * B + al) * (bh * B + bl) = ah * bh * M + x * B + al * bl"
    by (simp add: M_def x_def algebra_simps)
  have "x * B = cm * B * M + m * B" using \<open>x = cm * M + m\<close> by (simp add: algebra_simps)
  also have "m * B = m div B * M + m mod B * B"
    by (metis M_def add_mult_distrib div_mult_mod_eq mult.assoc)
  finally have "x * B = cm * B * M + m div B * M + m mod B * B" by (simp add: algebra_simps)
  then have "(ah * B + al) * (bh * B + bl) = (ah * bh + m div B + cm * B) * M + l"
    unfolding e by (simp add: l_def algebra_simps)
  also have "l = l div M * M + l mod M" by simp
  finally show ?thesis by (simp add: algebra_simps)
qed

lemma unat_low_half: "unat (ucast (ucast w :: u64) :: u128) = unat w mod 2 ^ 64" for w :: u128
proof -
  have "unat (ucast (ucast w :: u64) :: u128) = unat (ucast w :: u64)"
    by (rule unat_ucast_up) simp
  then show ?thesis by (simp add: unsigned_ucast_eq take_bit_eq_mod)
qed

lemma unat_high_half: "unat (drop_bit 64 w) = unat w div 2 ^ 64" for w :: u128
  unfolding unat_drop_bit_eq by (rule drop_bit_eq_div)

lemma unat_push_half: "unat (push_bit 64 w) = unat w mod 2 ^ 64 * 2 ^ 64" for w :: u128
proof -
  have "unat (push_bit 64 w) = unat w * 2 ^ 64 mod (2 ^ 64 * 2 ^ 64)"
    by (simp add: push_bit_eq_mult unat_word_ariths)
  then show ?thesis by (simp only: mult_mod_left)
qed

lemma overflowing_add_value:
  assumes "overflowing_add a b = (c, carry)"
  shows "unat c = (unat a + unat b) mod 2 ^ 128" "carry \<longleftrightarrow> 2 ^ 128 \<le> unat a + unat b"
proof -
  show c: "unat c = (unat a + unat b) mod 2 ^ 128"
    using assms by (auto simp: overflowing_add_def unat_word_ariths)
  have a: "unat a < 2 ^ 128" and b: "unat b < 2 ^ 128" using unat_less_exp [of a] unat_less_exp [of b] by simp_all
  have "carry \<longleftrightarrow> unat c < unat a" using assms by (auto simp: overflowing_add_def word_less_nat_alt)
  moreover have "unat c < unat a \<longleftrightarrow> 2 ^ 128 \<le> unat a + unat b"
  proof (cases "2 ^ 128 \<le> unat a + unat b")
    case True
    have "(unat a + unat b) mod 2 ^ 128 = unat a + unat b - 2 ^ 128"
      using True a b by (subst le_mod_geq) auto
    then have "unat c = unat a + unat b - 2 ^ 128" using c by simp
    with True a b show ?thesis by linarith
  next
    case False
    then have "unat c = unat a + unat b" using c by simp
    with False show ?thesis by linarith
  qed
  ultimately show "carry \<longleftrightarrow> 2 ^ 128 \<le> unat a + unat b" by simp
qed

lemma halves_mult: "a < B \<Longrightarrow> b < B \<Longrightarrow> a * b < B * B" for a b B :: nat
  by (rule mult_strict_mono) auto

lemma checked_add_small:
  fixes a b :: u128
  assumes "unat a + unat b < 2 ^ 128"
  shows "checked_add a b = Some (a + b)" "unat (a + b) = unat a + unat b"
  using assms by (simp_all add: checked_add_def unat_add_no_wrap)

lemma div_two: "x < 2 * m \<Longrightarrow> x div m = (if m \<le> x then 1 else 0)" for x m :: nat
  by (auto intro: div_nat_eqI)

lemma wide_product_exact:
  obtains high low where "wide_product left right = Inr (high, low)"
    "unat high * 2 ^ 128 + unat low = unat left * unat right"
proof -
  define B :: nat where "B = 2 ^ 64"
  have M: "B * B = 2 ^ 128" by (simp add: B_def)
  have B: "0 < B" by (simp add: B_def)
  let ?ll = "ucast (ucast left :: u64) :: u128" and ?lh = "drop_bit 64 left"
  let ?rl = "ucast (ucast right :: u64) :: u128" and ?rh = "drop_bit 64 right"
  have half: "unat (ucast (ucast w :: u64) :: u128) = unat w mod B" "unat (drop_bit 64 w) = unat w div B"
    "unat w mod B < B" "unat w div B < B" for w :: u128
  proof -
    show "unat (ucast (ucast w :: u64) :: u128) = unat w mod B" "unat (drop_bit 64 w) = unat w div B"
      unfolding B_def by (rule unat_low_half unat_high_half)+
    show "unat w mod B < B" using B by simp
    have "unat w < B * B" unfolding M using unat_less_exp [of w] by simp
    then show "unat w div B < B" by (rule less_mult_imp_div_less)
  qed
  define al ah bl bh where "al = unat left mod B" and "ah = unat left div B"
    and "bl = unat right mod B" and "bh = unat right div B"
  note small = half(3,4) [of left, folded al_def ah_def] half(3,4) [of right, folded bl_def bh_def]
  have mult: "unat (x * y) = unat x * unat y" if "unat x < B" "unat y < B" for x y :: u128
    using halves_mult [OF that] unfolding M by (simp add: unat_mult_no_wrap)
  have parts: "unat ?ll = al" "unat ?lh = ah" "unat ?rl = bl" "unat ?rh = bh"
    by (simp_all add: half al_def ah_def bl_def bh_def)
  have prods: "unat (?ll * ?rl) = al * bl" "unat (?ll * ?rh) = al * bh" "unat (?lh * ?rl) = ah * bl"
    "unat (?lh * ?rh) = ah * bh"
    using small by (simp_all add: mult parts)
  define x where "x = al * bh + ah * bl"
  let ?m = "?ll * ?rh + ?lh * ?rl"
  have "overflowing_add (?ll * ?rh) (?lh * ?rl) = (?m, ?m < ?ll * ?rh)" by (simp add: overflowing_add_def)
  from overflowing_add_value [OF this]
  have m: "unat ?m = x mod (B * B)" and mc: "?m < ?ll * ?rh \<longleftrightarrow> B * B \<le> x"
    by (simp_all only: prods x_def M)
  have x2: "x < 2 * (B * B)"
    using halves_mult [OF small(1,4)] halves_mult [OF small(2,3)] by (simp add: x_def)
  let ?mc = "(if ?m < ?ll * ?rh then push_bit 64 1 else 0) :: u128"
  have "unat (push_bit 64 1 :: u128) = B" by (simp add: unat_push_half B_def)
  then have mcv: "unat ?mc = x div (B * B) * B" unfolding mc div_two [OF x2] by simp
  define l where "l = al * bl + x mod (B * B) mod B * B"
  obtain low carry where lo: "overflowing_add (?ll * ?rl) (push_bit 64 ?m) = (low, carry)"
    by (cases "overflowing_add (?ll * ?rl) (push_bit 64 ?m)")
  have "unat (push_bit 64 ?m) = x mod (B * B) mod B * B" unfolding unat_push_half m B_def ..
  with overflowing_add_value [OF lo] have low: "unat low = l mod (B * B)" and carry: "carry \<longleftrightarrow> B * B \<le> l"
    by (simp_all only: prods l_def M)
  have "x mod (B * B) mod B * B < B * B" using B by simp
  with halves_mult [OF small(1,3)] have l2: "l < 2 * (B * B)" unfolding l_def by linarith
  define H where "H = ah * bh + x mod (B * B) div B + l div (B * B) + x div (B * B) * B"
  have "(ah * B + al) * (bh * B + bl) = H * (B * B) + l mod (B * B)"
    using schoolbook [OF small(1,2,3,4)] by (simp only: x_def l_def H_def)
  moreover have "ah * B + al = unat left" "bh * B + bl = unat right"
    by (simp_all add: al_def ah_def bl_def bh_def)
  ultimately have total: "H * (B * B) + l mod (B * B) = unat left * unat right" by metis
  have "unat left * unat right < (B * B) * (B * B)"
    by (rule halves_mult) (use unat_less_exp [of left] unat_less_exp [of right] in \<open>simp_all add: M\<close>)
  then have "H * (B * B) < (B * B) * (B * B)" using total by linarith
  then have Hless: "H < 2 ^ 128" by (simp add: M)
  let ?h0 = "?lh * ?rh" and ?mh = "drop_bit 64 ?m" and ?c = "(if carry then 1 else 0) :: u128"
  have mh: "unat ?mh = x mod (B * B) div B" by (simp only: half(2) m)
  have c: "unat ?c = l div (B * B)" unfolding carry div_two [OF l2] by simp
  have 1: "checked_add ?h0 ?mh = Some (?h0 + ?mh)" "unat (?h0 + ?mh) = ah * bh + x mod (B * B) div B"
    using checked_add_small [of ?h0 ?mh] Hless by (simp_all add: prods mh H_def)
  have 2: "checked_add (?h0 + ?mh) ?c = Some (?h0 + ?mh + ?c)"
    "unat (?h0 + ?mh + ?c) = ah * bh + x mod (B * B) div B + l div (B * B)"
    using checked_add_small [of "?h0 + ?mh" ?c] Hless by (simp_all only: 1 c H_def)
  have 3: "checked_add (?h0 + ?mh + ?c) ?mc = Some (?h0 + ?mh + ?c + ?mc)" "unat (?h0 + ?mh + ?c + ?mc) = H"
    using checked_add_small [of "?h0 + ?mh + ?c" ?mc] Hless by (simp_all only: 2 mcv H_def)
  have "wide_product left right = Inr (?h0 + ?mh + ?c + ?mc, low)"
    unfolding wide_product_def Let_def lo prod.case 1 2 3 ok_or_def option.case try_bind.simps ..
  then show thesis
    by (rule that) (use total in \<open>simp only: 3 low M\<close>)
qed

definition floor_result :: "nat \<Rightarrow> apr_math_error + u128" where
  "floor_result n = (if n < 2 ^ 128 then Inr (word_of_nat n) else Inl AprOverflow)"

lemma mul_div_floor:
  assumes "d \<noteq> 0"
  shows "mul_div_floor_u128 a b d = floor_result (unat a * unat b div unat d)"
proof (cases "checked_mul a b")
  case (Some product)
  then have p: "unat product = unat a * unat b" by (simp only: checked_mul_Some)
  have "unat (product div d) = unat a * unat b div unat d" by (simp only: unat_div_distrib p)
  moreover have "unat (product div d) < 2 ^ 128" using unat_less_exp [of "product div d"] by simp
  ultimately have "floor_result (unat a * unat b div unat d) = Inr (word_of_nat (unat (product div d)))"
    by (simp only: floor_result_def if_True)
  with assms Some show ?thesis by (simp add: mul_div_floor_u128_def)
next
  case None
  obtain high low where w: "wide_product a b = Inr (high, low)"
    and N: "unat high * 2 ^ 128 + unat low = unat a * unat b" by (rule wide_product_exact)
  obtain q qo r where e: "divide_u256 high low d = (q, qo, r)" by (cases "divide_u256 high low d")
  let ?n = "unat a * unat b div unat d"
  from divide_u256_state [OF assms, of high low] have
    q: "unat q = ?n mod 2 ^ 128" and qo: "qo \<longleftrightarrow> 2 ^ 128 \<le> ?n"
    by (simp_all only: e division_state_def prod.case N)
  have "mul_div_floor_u128 a b d = (if qo then Inl AprOverflow else Inr q)"
    using assms by (simp add: mul_div_floor_u128_def None w e)
  moreover have "\<not> qo \<Longrightarrow> q = word_of_nat ?n"
  proof -
    assume "\<not> qo"
    then have "unat q = ?n" using q qo by simp
    then have "word_of_nat ?n = (word_of_nat (unat q) :: u128)" by (simp only:)
    then show "q = word_of_nat ?n" by simp
  qed
  ultimately show ?thesis using qo by (simp add: floor_result_def not_le)
qed

text \<open>The 256-bit multiply-and-divide is exact: for every divisor but zero the routine (schoolbook
  product of 64-bit halves with explicit carries, then 256 rounds of long division) returns the floor of
  the unbounded product over the divisor when it fits 128 bits, reports an overflow exactly when it does
  not, and never reports one for an intermediate sum.\<close>

theorem mul_div_floor_is_exact:
  "mul_div_floor_u128 left right divisor =
     (if divisor = 0 then Inl DivisionByZero
      else let q = unat left * unat right div unat divisor in
        if q < 2 ^ 128 then Inr (word_of_nat q) else Inl AprOverflow)"
  using mul_div_floor [of divisor left right]
  by (simp add: mul_div_floor_u128_def floor_result_def Let_def)

section \<open>The rate snapshot\<close>

definition res_last_update_stale_off :: nat where "res_last_update_stale_off = 9"
definition res_liq_available_amount_off :: nat where "res_liq_available_amount_off = 171"
definition res_liq_borrowed_amount_wads_off :: nat where "res_liq_borrowed_amount_wads_off = 179"
definition res_config_optimal_utilization_rate_off :: nat where
  "res_config_optimal_utilization_rate_off = 299"
definition res_config_min_borrow_rate_off :: nat where "res_config_min_borrow_rate_off = 303"
definition res_config_optimal_borrow_rate_off :: nat where "res_config_optimal_borrow_rate_off = 304"
definition res_config_max_borrow_rate_off :: nat where "res_config_max_borrow_rate_off = 305"
definition res_config_protocol_take_rate_off :: nat where "res_config_protocol_take_rate_off = 372"
definition res_config_max_utilization_rate_off :: nat where "res_config_max_utilization_rate_off = 470"
definition res_config_super_max_borrow_rate_off :: nat where "res_config_super_max_borrow_rate_off = 471"

record reserve_rate_snapshot =
  rr_available_amount :: u64
  rr_borrowed_amount_wads :: u128
  rr_min_borrow_rate_pct :: u8
  rr_optimal_borrow_rate_pct :: u8
  rr_max_borrow_rate_pct :: u8
  rr_super_max_borrow_rate_pct :: u64
  rr_optimal_utilization_rate_pct :: u8
  rr_max_utilization_rate_pct :: u8
  rr_protocol_take_rate_pct :: u8

datatype reserve_decode_error = RateWrongSize | RateStaleBitInvalid

text \<open>The reads are in range once the length has been checked.\<close>

definition decode_reserve_rate_snapshot :: "bytes \<Rightarrow> reserve_decode_error + reserve_rate_snapshot" where
  "decode_reserve_rate_snapshot data =
     (if length data \<noteq> reserve_len then Inl RateWrongSize
      else if data ! res_last_update_stale_off \<notin> {0, 1} then Inl RateStaleBitInvalid
      else Inr
        \<lparr>rr_available_amount = from_le_bytes (take 8 (drop res_liq_available_amount_off data)),
         rr_borrowed_amount_wads = from_le_bytes (take 16 (drop res_liq_borrowed_amount_wads_off data)),
         rr_min_borrow_rate_pct = data ! res_config_min_borrow_rate_off,
         rr_optimal_borrow_rate_pct = data ! res_config_optimal_borrow_rate_off,
         rr_max_borrow_rate_pct = data ! res_config_max_borrow_rate_off,
         rr_super_max_borrow_rate_pct =
           from_le_bytes (take 8 (drop res_config_super_max_borrow_rate_off data)),
         rr_optimal_utilization_rate_pct = data ! res_config_optimal_utilization_rate_off,
         rr_max_utilization_rate_pct = data ! res_config_max_utilization_rate_off,
         rr_protocol_take_rate_pct = data ! res_config_protocol_take_rate_off\<rparr>)"

section \<open>The rate curve\<close>

definition pct_to_wad :: "u64 \<Rightarrow> apr_math_error + u128" where
  "pct_to_wad percent = ok_or (checked_mul (ucast percent) (10 ^ 16)) AprOverflow"

definition mul_wad :: "u128 \<Rightarrow> u128 \<Rightarrow> apr_math_error + u128" where
  "mul_wad left right = mul_div_floor_u128 left right solend_wad"

definition div_wad :: "u128 \<Rightarrow> u128 \<Rightarrow> apr_math_error + u128" where
  "div_wad numerator denominator =
     (if denominator = 0 then Inl DivisionByZero
      else mul_div_floor_u128 numerator solend_wad denominator)"

definition is_reserve_config_valid :: "reserve_rate_snapshot \<Rightarrow> bool" where
  "is_reserve_config_valid r =
     (let least = ucast (rr_min_borrow_rate_pct r) :: u64;
          optimal = ucast (rr_optimal_borrow_rate_pct r) :: u64;
          most = ucast (rr_max_borrow_rate_pct r) :: u64
      in if \<not> (least \<le> optimal \<and> optimal \<le> most \<and> most \<le> rr_super_max_borrow_rate_pct r) then False
         else if \<not> (rr_optimal_utilization_rate_pct r \<le> rr_max_utilization_rate_pct r
                   \<and> rr_max_utilization_rate_pct r \<le> 100) then False
         else rr_protocol_take_rate_pct r \<le> 100)"

definition utilization_wad :: "reserve_rate_snapshot \<Rightarrow> apr_math_error + u128" where
  "utilization_wad r =
     (if rr_borrowed_amount_wads r = 0 then Inr 0
      else
        try_bind (ok_or (checked_mul (ucast (rr_available_amount r)) solend_wad) AprOverflow) (\<lambda>available_wads.
        try_bind (ok_or (checked_add (rr_borrowed_amount_wads r) available_wads) AprOverflow) (\<lambda>denominator.
          if denominator = 0 then Inr 0 else div_wad (rr_borrowed_amount_wads r) denominator)))"

text \<open>The rate between two percentages at a weight, as the upper two segments compute it.\<close>

definition interpolate :: "u128 \<Rightarrow> u128 \<Rightarrow> u64 \<Rightarrow> u64 \<Rightarrow> apr_math_error + u128" where
  "interpolate weight_numerator weight_denominator low high =
     try_bind (div_wad weight_numerator weight_denominator) (\<lambda>weight.
     try_bind (pct_to_wad low) (\<lambda>low_rate.
     try_bind (pct_to_wad high) (\<lambda>high_rate.
     try_bind (ok_or (checked_sub high_rate low_rate) AprOverflow) (\<lambda>rate_range.
     try_bind (mul_wad weight rate_range) (\<lambda>scaled.
       ok_or (checked_add scaled low_rate) AprOverflow)))))"

text \<open>The segment below the optimal utilization, where the range is taken in percent.\<close>

definition interpolate_first :: "u128 \<Rightarrow> u128 \<Rightarrow> u64 \<Rightarrow> u64 \<Rightarrow> u128 \<Rightarrow> apr_math_error + u128" where
  "interpolate_first utilization optimal_utilization low high low_rate =
     try_bind (div_wad utilization optimal_utilization) (\<lambda>normalized.
     try_bind (ok_or (checked_sub high low) AprOverflow) (\<lambda>rate_range.
     try_bind (pct_to_wad rate_range) (\<lambda>range_wad.
     try_bind (mul_wad normalized range_wad) (\<lambda>scaled.
       ok_or (checked_add scaled low_rate) AprOverflow))))"

definition current_borrow_rate_wad :: "reserve_rate_snapshot \<Rightarrow> apr_math_error + u128" where
  "current_borrow_rate_wad r =
     try_bind (utilization_wad r) (\<lambda>utilization.
     try_bind (pct_to_wad (ucast (rr_optimal_utilization_rate_pct r))) (\<lambda>optimal_utilization.
     try_bind (pct_to_wad (ucast (rr_max_utilization_rate_pct r))) (\<lambda>max_utilization.
       if utilization \<le> optimal_utilization then
         try_bind (pct_to_wad (ucast (rr_min_borrow_rate_pct r))) (\<lambda>min_rate.
           if optimal_utilization = 0 then Inr min_rate
           else interpolate_first utilization optimal_utilization
                  (ucast (rr_min_borrow_rate_pct r)) (ucast (rr_optimal_borrow_rate_pct r)) min_rate)
       else if utilization \<le> max_utilization then
         try_bind (ok_or (checked_sub utilization optimal_utilization) AprOverflow) (\<lambda>weight_numerator.
         try_bind (ok_or (checked_sub max_utilization optimal_utilization) AprOverflow) (\<lambda>weight_denominator.
           if weight_denominator = 0 then pct_to_wad (ucast (rr_optimal_borrow_rate_pct r))
           else interpolate weight_numerator weight_denominator
                  (ucast (rr_optimal_borrow_rate_pct r)) (ucast (rr_max_borrow_rate_pct r))))
       else
         try_bind (ok_or (checked_sub utilization max_utilization) AprOverflow) (\<lambda>weight_numerator.
         try_bind (ok_or (checked_sub solend_wad max_utilization) AprOverflow) (\<lambda>weight_denominator.
           if weight_denominator = 0 then pct_to_wad (rr_super_max_borrow_rate_pct r)
           else interpolate weight_numerator weight_denominator
                  (ucast (rr_max_borrow_rate_pct r)) (rr_super_max_borrow_rate_pct r))))))"

definition supply_apr_wad :: "reserve_rate_snapshot \<Rightarrow> apr_math_error + u128" where
  "supply_apr_wad r =
     (if \<not> is_reserve_config_valid r then Inl InvalidConfig
      else
        try_bind (utilization_wad r) (\<lambda>utilization.
        try_bind (current_borrow_rate_wad r) (\<lambda>borrow_rate.
        try_bind (pct_to_wad (ucast (rr_protocol_take_rate_pct r))) (\<lambda>take_rate.
        try_bind (ok_or (checked_sub solend_wad take_rate) AprOverflow) (\<lambda>one_minus_take.
        try_bind (mul_wad utilization one_minus_take) (\<lambda>after_take.
          mul_wad borrow_rate after_take))))))"

definition apr_bps_from_wad :: "u128 \<Rightarrow> u64" where
  "apr_bps_from_wad wad =
     (let q = wad div market_bps_wad in if unat q < 2 ^ 64 then ucast q else - 1)"

section \<open>Reading a market\<close>

datatype finalize_market_read_error =
    RpcPoolUnavailable | SlotRequestFailed | ReserveRequestFailed | AccountRequestFailed
  | ReserveAccountMissing | ReserveDecodeFailed | AprComputationFailed | AprOutOfRange
  | SaveClientUnavailable | SaveTimeout | SaveRequestFailed | SaveHttpStatus u16
  | SaveInvalidResponse | SaveIdentityMismatch | SaveRateInvalid

fun category :: "finalize_market_read_error \<Rightarrow> string" where
  "category RpcPoolUnavailable = ''rpc_pool_unavailable''"
| "category SlotRequestFailed = ''slot_request_failed''"
| "category ReserveRequestFailed = ''reserve_request_failed''"
| "category AccountRequestFailed = ''account_request_failed''"
| "category ReserveAccountMissing = ''reserve_account_missing''"
| "category ReserveDecodeFailed = ''reserve_decode_failed''"
| "category AprComputationFailed = ''apr_computation_failed''"
| "category AprOutOfRange = ''apr_out_of_range''"
| "category SaveClientUnavailable = ''save_client_unavailable''"
| "category SaveTimeout = ''save_timeout''"
| "category SaveRequestFailed = ''save_request_failed''"
| "category (SaveHttpStatus _) = ''save_http_status''"
| "category SaveInvalidResponse = ''save_invalid_response''"
| "category SaveIdentityMismatch = ''save_identity_mismatch''"
| "category SaveRateInvalid = ''save_rate_invalid''"

definition apr_bps_sanity_max :: u64 where "apr_bps_sanity_max = 10000"

definition native_supply_apr_from_reserve_data :: "bytes \<Rightarrow> finalize_market_read_error + (u128 \<times> u32)" where
  "native_supply_apr_from_reserve_data reserve_data =
     try_bind (map_err (\<lambda>_. ReserveDecodeFailed) (decode_reserve_rate_snapshot reserve_data)) (\<lambda>reserve.
     try_bind (map_err (\<lambda>_. AprComputationFailed) (supply_apr_wad reserve)) (\<lambda>native_onchain_apr_wad.
       let native_onchain_apr_bps = apr_bps_from_wad native_onchain_apr_wad in
       if apr_bps_sanity_max < native_onchain_apr_bps then Inl AprOutOfRange
       else if 2 ^ 32 \<le> unat native_onchain_apr_bps then Inl AprOutOfRange
       else Inr (native_onchain_apr_wad, ucast native_onchain_apr_bps)))"

section \<open>The exact curve\<close>

text \<open>The same curve over the natural numbers: every quotient is the floor, nothing wraps.\<close>

abbreviation wad :: nat where "wad \<equiv> 10 ^ 18"
abbreviation pct :: nat where "pct \<equiv> 10 ^ 16"

definition exact_utilization :: "reserve_rate_snapshot \<Rightarrow> nat" where
  "exact_utilization r =
     unat (rr_borrowed_amount_wads r) * wad
       div (unat (rr_borrowed_amount_wads r) + unat (rr_available_amount r) * wad)"

text \<open>From \<open>lo\<close> to \<open>hi\<close> percent as \<open>num\<close> runs from 0 to \<open>den\<close>.\<close>

definition exact_line :: "nat \<Rightarrow> nat \<Rightarrow> nat \<Rightarrow> nat \<Rightarrow> nat" where
  "exact_line lo hi num den = (num * wad div den) * ((hi - lo) * pct) div wad + lo * pct"

definition exact_borrow_rate :: "reserve_rate_snapshot \<Rightarrow> nat" where
  "exact_borrow_rate r =
     (let u = exact_utilization r; opt = unat (rr_optimal_utilization_rate_pct r) * pct;
          most = unat (rr_max_utilization_rate_pct r) * pct;
          r0 = unat (rr_min_borrow_rate_pct r); r1 = unat (rr_optimal_borrow_rate_pct r);
          r2 = unat (rr_max_borrow_rate_pct r); r3 = unat (rr_super_max_borrow_rate_pct r)
      in if u \<le> opt then (if opt = 0 then r0 * pct else exact_line r0 r1 u opt)
         else if u \<le> most then exact_line r1 r2 (u - opt) (most - opt)
         else if most = wad then r3 * pct
         else exact_line r2 r3 (u - most) (wad - most))"

definition exact_supply_apr :: "reserve_rate_snapshot \<Rightarrow> nat" where
  "exact_supply_apr r =
     exact_borrow_rate r
       * (exact_utilization r * (wad - unat (rr_protocol_take_rate_pct r) * pct) div wad) div wad"

definition computes :: "apr_math_error + u128 \<Rightarrow> nat \<Rightarrow> bool" where
  "computes m n \<longleftrightarrow> (\<exists>w. m = Inr w \<and> unat w = n)"

lemma computes_bind:
  assumes "computes m n" "\<And>w. unat w = n \<Longrightarrow> computes (f w) k"
  shows "computes (try_bind m f) k"
  using assms by (auto simp: computes_def)

lemma computes_Inr [simp]: "computes (Inr w) n \<longleftrightarrow> unat w = n"
  by (simp add: computes_def)

lemma unat_wad [simp]: "unat solend_wad = wad"
  by (simp add: solend_wad_def)

lemma computes_floor: "computes (floor_result n) n \<longleftrightarrow> n < 2 ^ 128"
  using unat_of_small [of n] by (simp add: floor_result_def) (simp add: computes_def)

lemma computes_pct: "computes (pct_to_wad p) (unat p * pct)"
proof -
  have "unat p * pct < 2 ^ 128" using unat_less_exp [of p] by simp
  moreover have "unat (ucast p :: u128) = unat p" by (rule unat_ucast_up) simp
  moreover have "unat (10 ^ 16 :: u128) = pct" by simp
  ultimately have "checked_mul (ucast p) (10 ^ 16) = Some (ucast p * 10 ^ 16 :: u128)"
      "unat (ucast p * 10 ^ 16 :: u128) = unat p * pct"
    by (simp_all add: checked_mul_def unat_mult_no_wrap)
  then show ?thesis by (simp add: pct_to_wad_def ok_or_def)
qed

lemma computes_mul:
  "unat a * unat b div wad < 2 ^ 128 \<Longrightarrow> computes (mul_wad a b) (unat a * unat b div wad)"
proof -
  assume less: "unat a * unat b div wad < 2 ^ 128"
  have "solend_wad \<noteq> 0" by (simp add: solend_wad_def)
  from mul_div_floor [OF this] less show ?thesis by (simp only: mul_wad_def unat_wad computes_floor)
qed

lemma computes_div:
  "0 < unat d \<Longrightarrow> unat a * wad div unat d < 2 ^ 128 \<Longrightarrow> computes (div_wad a d) (unat a * wad div unat d)"
proof -
  assume d: "0 < unat d" and less: "unat a * wad div unat d < 2 ^ 128"
  from d have "d \<noteq> 0" by (simp add: unat_gt_0)
  from mul_div_floor [OF this, of a solend_wad] less this show ?thesis
    by (simp only: div_wad_def unat_wad computes_floor if_False)
qed

lemma computes_sub: "unat b \<le> unat a \<Longrightarrow> computes (ok_or (checked_sub a b) e) (unat a - unat b)"
  by (simp add: checked_sub_def word_le_nat_alt ok_or_def unat_sub)

lemma computes_add: "unat a + unat b < 2 ^ 128 \<Longrightarrow> computes (ok_or (checked_add a b) e) (unat a + unat b)"
  using checked_add_small [of a b] by (simp add: ok_or_def)

lemma weight_le: "num \<le> den \<Longrightarrow> num * wad div den \<le> wad" for num den :: nat
proof (cases "den = 0")
  case False
  assume "num \<le> den"
  then have "num * wad \<le> wad * den" by simp
  then have "num * wad div den \<le> wad * den div den" by (rule div_le_mono)
  with False show ?thesis by simp
qed simp

lemma scaled_le: "w \<le> wad \<Longrightarrow> w * n div wad \<le> n" for w n :: nat
proof -
  assume "w \<le> wad"
  then have "w * n \<le> wad * n" by (rule mult_le_mono1)
  then have "w * n div wad \<le> wad * n div wad" by (rule div_le_mono)
  then show ?thesis by simp
qed

lemma exact_line_bounds:
  assumes "num \<le> den" "lo \<le> hi"
  shows "lo * pct \<le> exact_line lo hi num den" "exact_line lo hi num den \<le> hi * pct"
proof -
  have "num * wad div den * ((hi - lo) * pct) div wad \<le> (hi - lo) * pct"
    by (rule scaled_le [OF weight_le [OF assms(1)]])
  moreover have "(hi - lo) * pct + lo * pct = hi * pct" using assms(2) by (simp flip: add_mult_distrib)
  ultimately show "lo * pct \<le> exact_line lo hi num den" "exact_line lo hi num den \<le> hi * pct"
    unfolding exact_line_def by linarith+
qed

text \<open>The tail of a segment: a weight, a range, the lower rate.\<close>

lemma computes_segment:
  assumes "num \<le> den" "0 < den" "lo \<le> hi" "hi < 2 ^ 64"
    and "unat weight = num * wad div den" "unat rng = (hi - lo) * pct" "unat low = lo * pct"
  shows "computes (try_bind (mul_wad weight rng) (\<lambda>scaled. ok_or (checked_add scaled low) e))
           (exact_line lo hi num den)"
proof (rule computes_bind)
  let ?s = "num * wad div den * ((hi - lo) * pct) div wad"
  have s: "?s \<le> (hi - lo) * pct" by (rule scaled_le [OF weight_le [OF assms(1)]])
  have "(hi - lo) * pct \<le> hi * pct" by simp
  also have "\<dots> < 2 ^ 128" using assms(4) by simp
  finally have "?s < 2 ^ 128" using s by linarith
  then show "computes (mul_wad weight rng) ?s" using computes_mul [of weight rng] by (simp only: assms)
  fix scaled :: u128 assume sc: "unat scaled = ?s"
  have "unat scaled + unat low = exact_line lo hi num den" by (simp only: exact_line_def sc assms)
  moreover have "exact_line lo hi num den < 2 ^ 128"
    using exact_line_bounds(2) [OF assms(1,3)] \<open>hi * pct < 2 ^ 128\<close> by linarith
  ultimately show "computes (ok_or (checked_add scaled low) e) (exact_line lo hi num den)"
    using computes_add [of scaled low] by metis
qed

lemma computes_weight:
  "num \<le> den \<Longrightarrow> 0 < den \<Longrightarrow> unat a = num \<Longrightarrow> unat d = den \<Longrightarrow>
     computes (div_wad a d) (num * wad div den)"
proof -
  assume a: "num \<le> den" "0 < den" "unat a = num" "unat d = den"
  have "wad < 2 ^ 128" by simp
  with weight_le [OF a(1)] have "num * wad div den < 2 ^ 128" by linarith
  with computes_div [of d a] a show ?thesis by simp
qed

text \<open>A valid configuration, over the naturals.\<close>

lemma config_valid:
  assumes "is_reserve_config_valid r"
  shows "unat (rr_min_borrow_rate_pct r) \<le> unat (rr_optimal_borrow_rate_pct r)"
    "unat (rr_optimal_borrow_rate_pct r) \<le> unat (rr_max_borrow_rate_pct r)"
    "unat (rr_max_borrow_rate_pct r) \<le> unat (rr_super_max_borrow_rate_pct r)"
    "unat (rr_optimal_utilization_rate_pct r) \<le> unat (rr_max_utilization_rate_pct r)"
    "unat (rr_max_utilization_rate_pct r) \<le> 100" "unat (rr_protocol_take_rate_pct r) \<le> 100"
proof -
  have u: "unat (ucast b :: u64) = unat b" for b :: u8 by (rule unat_ucast_up) simp
  show "unat (rr_min_borrow_rate_pct r) \<le> unat (rr_optimal_borrow_rate_pct r)"
    "unat (rr_optimal_borrow_rate_pct r) \<le> unat (rr_max_borrow_rate_pct r)"
    "unat (rr_max_borrow_rate_pct r) \<le> unat (rr_super_max_borrow_rate_pct r)"
    "unat (rr_optimal_utilization_rate_pct r) \<le> unat (rr_max_utilization_rate_pct r)"
    "unat (rr_max_utilization_rate_pct r) \<le> 100" "unat (rr_protocol_take_rate_pct r) \<le> 100"
    using assms by (simp_all add: is_reserve_config_valid_def word_le_nat_alt u Let_def split: if_splits)
qed

lemma computes_pct_u8: "computes (pct_to_wad (ucast b)) (unat b * pct)" for b :: u8
proof -
  have "unat (ucast b :: u64) = unat b" by (rule unat_ucast_up) simp
  with computes_pct [of "ucast b"] show ?thesis by simp
qed

lemma computes_utilization:
  assumes "unat (rr_borrowed_amount_wads r) + unat (rr_available_amount r) * wad < 2 ^ 128"
  shows "computes (utilization_wad r) (exact_utilization r)"
proof (cases "rr_borrowed_amount_wads r = 0")
  case True
  then show ?thesis by (simp add: utilization_wad_def exact_utilization_def)
next
  case False
  let ?b = "unat (rr_borrowed_amount_wads r)" and ?a = "unat (rr_available_amount r)"
  have b: "0 < ?b" using False by (simp add: unat_gt_0)
  have ua: "unat (ucast (rr_available_amount r) :: u128) = ?a" by (rule unat_ucast_up) simp
  have "?a * wad < 2 ^ 128" using assms by linarith
  then have av: "computes (ok_or (checked_mul (ucast (rr_available_amount r)) solend_wad) AprOverflow) (?a * wad)"
    by (simp add: checked_mul_def unat_mult_no_wrap ua ok_or_def)
  have "computes (try_bind (ok_or (checked_add (rr_borrowed_amount_wads r) w) AprOverflow) (\<lambda>denominator.
          if denominator = 0 then Inr 0 else div_wad (rr_borrowed_amount_wads r) denominator)) (exact_utilization r)"
    if w: "unat w = ?a * wad" for w
  proof (rule computes_bind)
    show "computes (ok_or (checked_add (rr_borrowed_amount_wads r) w) AprOverflow) (?b + ?a * wad)"
      using computes_add [of "rr_borrowed_amount_wads r" w] assms by (simp only: w)
    fix den :: u128 assume den: "unat den = ?b + ?a * wad"
    then have "den \<noteq> 0" using b by auto
    moreover have "computes (div_wad (rr_borrowed_amount_wads r) den) (?b * wad div (?b + ?a * wad))"
      by (rule computes_weight) (use b den in simp_all)
    ultimately show "computes (if den = 0 then Inr 0 else div_wad (rr_borrowed_amount_wads r) den) (exact_utilization r)"
      by (simp only: exact_utilization_def if_False)
  qed
  from computes_bind [OF av this] False show ?thesis by (simp add: utilization_wad_def)
qed

lemma exact_utilization_le: "exact_utilization r \<le> wad"
  unfolding exact_utilization_def by (rule weight_le) simp

lemma computes_interpolate:
  assumes "num \<le> den" "0 < den" "unat a = num" "unat d = den" "unat p \<le> unat q"
  shows "computes (interpolate a d p q) (exact_line (unat p) (unat q) num den)"
  unfolding interpolate_def
proof (rule computes_bind [OF computes_weight [OF assms(1-4)]], rule computes_bind [OF computes_pct],
    rule computes_bind [OF computes_pct])
  fix wt lo hi :: u128
  assume w: "unat wt = num * wad div den" "unat lo = unat p * pct" "unat hi = unat q * pct"
  have "unat lo \<le> unat hi" using assms(5) by (simp add: w)
  from computes_sub [OF this] have "computes (ok_or (checked_sub hi lo) AprOverflow) ((unat q - unat p) * pct)"
    by (simp only: w diff_mult_distrib)
  then show "computes (try_bind (ok_or (checked_sub hi lo) AprOverflow) (\<lambda>rate_range.
           try_bind (mul_wad wt rate_range) (\<lambda>scaled. ok_or (checked_add scaled lo) AprOverflow)))
         (exact_line (unat p) (unat q) num den)"
    by (rule computes_bind) (rule computes_segment, use assms w unat_less_exp [of q] in simp_all)
qed

lemma computes_interpolate_first:
  assumes "num \<le> den" "0 < den" "unat a = num" "unat d = den" "unat p \<le> unat q" "unat low = unat p * pct"
  shows "computes (interpolate_first a d p q low) (exact_line (unat p) (unat q) num den)"
proof -
  have sub: "ok_or (checked_sub q p) AprOverflow = Inr (q - p)" "unat (q - p) = unat q - unat p"
    using assms(5) by (simp_all add: checked_sub_def word_le_nat_alt ok_or_def unat_sub)
  have "computes (try_bind (pct_to_wad (q - p)) (\<lambda>range_wad. try_bind (mul_wad wt range_wad)
          (\<lambda>scaled. ok_or (checked_add scaled low) AprOverflow))) (exact_line (unat p) (unat q) num den)"
    if "unat wt = num * wad div den" for wt
    by (rule computes_bind [OF computes_pct], rule computes_segment)
       (use assms that unat_less_exp [of q] in \<open>simp_all add: sub(2)\<close>)
  then show ?thesis
    unfolding interpolate_first_def sub(1) try_bind.simps
    by (rule computes_bind [OF computes_weight [OF assms(1-4)]])
qed

lemma computes_borrow_rate:
  assumes v: "is_reserve_config_valid r"
    and fits: "unat (rr_borrowed_amount_wads r) + unat (rr_available_amount r) * wad < 2 ^ 128"
  shows "computes (current_borrow_rate_wad r) (exact_borrow_rate r)"
  unfolding current_borrow_rate_wad_def
proof (rule computes_bind [OF computes_utilization [OF fits]], rule computes_bind [OF computes_pct_u8],
    rule computes_bind [OF computes_pct_u8])
  let ?u = "exact_utilization r" and ?opt = "unat (rr_optimal_utilization_rate_pct r) * pct"
    and ?most = "unat (rr_max_utilization_rate_pct r) * pct"
  let ?p0 = "ucast (rr_min_borrow_rate_pct r) :: u64" and ?p1 = "ucast (rr_optimal_borrow_rate_pct r) :: u64"
    and ?p2 = "ucast (rr_max_borrow_rate_pct r) :: u64" and ?p3 = "rr_super_max_borrow_rate_pct r"
  have u8: "unat (ucast b :: u64) = unat b" for b :: u8 by (rule unat_ucast_up) simp
  note valid = config_valid [OF v] and util = exact_utilization_le [of r]
  fix u opt mx :: u128
  assume eq: "unat u = ?u" "unat opt = ?opt" "unat mx = ?most"
  have cmp: "u \<le> opt \<longleftrightarrow> ?u \<le> ?opt" "u \<le> mx \<longleftrightarrow> ?u \<le> ?most" "opt = 0 \<longleftrightarrow> ?opt = 0"
    by (simp_all only: word_le_nat_alt eq unat_eq_zero [symmetric])
  have most: "?opt \<le> ?most" "?most \<le> wad" using valid(4,5) by simp_all
  note rate = exact_borrow_rate_def [of r, unfolded Let_def, folded u8]
  consider "?u \<le> ?opt" | "?opt < ?u" "?u \<le> ?most" | "?opt < ?u" "?most < ?u" by linarith
  then show "computes (if u \<le> opt then try_bind (pct_to_wad ?p0) (\<lambda>min_rate.
        if opt = 0 then Inr min_rate else interpolate_first u opt ?p0 ?p1 min_rate)
      else if u \<le> mx then try_bind (ok_or (checked_sub u opt) AprOverflow) (\<lambda>n.
        try_bind (ok_or (checked_sub mx opt) AprOverflow) (\<lambda>d.
          if d = 0 then pct_to_wad ?p1 else interpolate n d ?p1 ?p2))
      else try_bind (ok_or (checked_sub u mx) AprOverflow) (\<lambda>n.
        try_bind (ok_or (checked_sub solend_wad mx) AprOverflow) (\<lambda>d.
          if d = 0 then pct_to_wad ?p3 else interpolate n d ?p2 ?p3))) (exact_borrow_rate r)"
  proof cases
    case 1
    have "computes (if opt = 0 then Inr low else interpolate_first u opt ?p0 ?p1 low) (exact_borrow_rate r)"
      if "unat low = unat ?p0 * pct" for low
      using computes_interpolate_first [of ?u ?opt u opt ?p0 ?p1 low] that eq valid(1) 1
      by (cases "?opt = 0") (simp_all add: cmp(3) rate u8)
    from computes_bind [OF computes_pct this] 1 show ?thesis by (simp add: cmp)
  next
    case 2
    have "computes (if d = 0 then pct_to_wad ?p1 else interpolate n d ?p1 ?p2) (exact_borrow_rate r)"
      if "unat n = unat u - unat opt" "unat d = unat mx - unat opt" for n d
      using computes_interpolate [of "?u - ?opt" "?most - ?opt" n d ?p1 ?p2] that eq valid(2) 2
      by (auto simp: rate u8 unat_gt_0 [symmetric])
    then have "computes (try_bind (ok_or (checked_sub u opt) AprOverflow) (\<lambda>n.
        try_bind (ok_or (checked_sub mx opt) AprOverflow) (\<lambda>d.
          if d = 0 then pct_to_wad ?p1 else interpolate n d ?p1 ?p2))) (exact_borrow_rate r)"
      using 2 most eq by (intro computes_bind [OF computes_sub]) simp_all
    with 2 show ?thesis by (simp add: cmp)
  next
    case 3
    have "computes (if d = 0 then pct_to_wad ?p3 else interpolate n d ?p2 ?p3) (exact_borrow_rate r)"
      if "unat n = unat u - unat mx" "unat d = unat solend_wad - unat mx" for n d
      using computes_interpolate [of "?u - ?most" "wad - ?most" n d ?p2 ?p3] that eq valid(3) 3 util
      by (auto simp: rate u8 unat_gt_0 [symmetric])
    then have "computes (try_bind (ok_or (checked_sub u mx) AprOverflow) (\<lambda>n.
        try_bind (ok_or (checked_sub solend_wad mx) AprOverflow) (\<lambda>d.
          if d = 0 then pct_to_wad ?p3 else interpolate n d ?p2 ?p3))) (exact_borrow_rate r)"
      using 3 most eq by (intro computes_bind [OF computes_sub]) simp_all
    with 3 show ?thesis by (simp add: cmp)
  qed
qed

lemma exact_borrow_rate_bounds:
  assumes "is_reserve_config_valid r"
  shows "unat (rr_min_borrow_rate_pct r) * pct \<le> exact_borrow_rate r"
    "exact_borrow_rate r \<le> unat (rr_super_max_borrow_rate_pct r) * pct"
proof -
  let ?u = "exact_utilization r" and ?opt = "unat (rr_optimal_utilization_rate_pct r) * pct"
    and ?most = "unat (rr_max_utilization_rate_pct r) * pct"
  note v = config_valid [OF assms] and rate = exact_borrow_rate_def [of r, unfolded Let_def]
  have le: "?opt \<le> ?most" "?u \<le> wad" using v(4) exact_utilization_le by simp_all
  consider "?u \<le> ?opt" | "?opt < ?u" "?u \<le> ?most" | "?opt < ?u" "?most < ?u" by linarith
  then have "unat (rr_min_borrow_rate_pct r) * pct \<le> exact_borrow_rate r
      \<and> exact_borrow_rate r \<le> unat (rr_super_max_borrow_rate_pct r) * pct"
  proof cases
    case 1
    with exact_line_bounds [OF 1 v(1)] v show ?thesis by (auto simp: rate)
  next
    case 2
    with exact_line_bounds [OF diff_le_mono [OF 2(2), of ?opt] v(2)] v show ?thesis by (auto simp: rate)
  next
    case 3
    with exact_line_bounds [OF diff_le_mono [OF le(2), of ?most] v(3)] v show ?thesis by (auto simp: rate)
  qed
  then show "unat (rr_min_borrow_rate_pct r) * pct \<le> exact_borrow_rate r"
    "exact_borrow_rate r \<le> unat (rr_super_max_borrow_rate_pct r) * pct" by simp_all
qed

lemma computes_supply:
  assumes v: "is_reserve_config_valid r"
    and fits: "unat (rr_borrowed_amount_wads r) + unat (rr_available_amount r) * wad < 2 ^ 128"
  shows "computes (supply_apr_wad r) (exact_supply_apr r)"
proof -
  let ?u = "exact_utilization r" and ?t = "unat (rr_protocol_take_rate_pct r) * pct"
  have t: "?t \<le> wad" using config_valid(6) [OF v] by simp
  have "wad - ?t \<le> wad" by simp
  then have after: "?u * (wad - ?t) div wad \<le> wad"
    using scaled_le [OF exact_utilization_le [of r], of "wad - ?t"] by linarith
  have "exact_borrow_rate r * (?u * (wad - ?t) div wad) div wad \<le> exact_borrow_rate r"
    using scaled_le [OF after, of "exact_borrow_rate r"] by (simp only: mult.commute)
  also have "\<dots> \<le> unat (rr_super_max_borrow_rate_pct r) * pct" by (rule exact_borrow_rate_bounds(2) [OF v])
  also have "\<dots> < 2 ^ 128" using unat_less_exp [of "rr_super_max_borrow_rate_pct r"] by simp
  finally have apr: "exact_supply_apr r < 2 ^ 128" by (simp only: exact_supply_apr_def)
  have tail: "computes (try_bind (ok_or (checked_sub solend_wad t) AprOverflow) (\<lambda>one_minus_take.
        try_bind (mul_wad u one_minus_take) (\<lambda>after_take. mul_wad b after_take))) (exact_supply_apr r)"
    if e: "unat u = ?u" "unat b = exact_borrow_rate r" "unat t = ?t" for u b t
  proof (rule computes_bind [OF computes_sub])
    show "unat t \<le> unat solend_wad" using t by (simp only: e unat_wad)
    fix m :: u128 assume m: "unat m = unat solend_wad - unat t"
    have "?u * (wad - ?t) div wad < 2 ^ 128" using after by simp
    with computes_mul [of u m] have "computes (mul_wad u m) (?u * (wad - ?t) div wad)"
      by (simp only: m e unat_wad)
    then show "computes (try_bind (mul_wad u m) (\<lambda>after_take. mul_wad b after_take)) (exact_supply_apr r)"
    proof (rule computes_bind)
      fix x :: u128 assume "unat x = ?u * (wad - ?t) div wad"
      with computes_mul [of b x] apr show "computes (mul_wad b x) (exact_supply_apr r)"
        by (simp only: e exact_supply_apr_def)
    qed
  qed
  show ?thesis
    using v unfolding supply_apr_wad_def
    by (simp, intro computes_bind [OF computes_utilization [OF fits]] computes_bind [OF computes_borrow_rate [OF v fits]]
        computes_bind [OF computes_pct_u8] tail) simp_all
qed

lemma utilization_overflow:
  assumes "2 ^ 128 \<le> unat (rr_borrowed_amount_wads r) + unat (rr_available_amount r) * wad"
  shows "utilization_wad r = Inl AprOverflow"
proof -
  have a: "unat (rr_available_amount r) * wad < 2 ^ 128" using unat_less_exp [of "rr_available_amount r"] by simp
  then have "rr_borrowed_amount_wads r \<noteq> 0" using assms by auto
  moreover have "unat (ucast (rr_available_amount r) :: u128) = unat (rr_available_amount r)"
    by (rule unat_ucast_up) simp
  moreover from this a have "checked_mul (ucast (rr_available_amount r)) solend_wad
      = Some (ucast (rr_available_amount r) * solend_wad)"
    "unat (ucast (rr_available_amount r) * solend_wad) = unat (rr_available_amount r) * wad"
    by (simp_all add: checked_mul_def unat_mult_no_wrap)
  ultimately show ?thesis using assms by (simp add: utilization_wad_def ok_or_def checked_add_def)
qed

text \<open>C37: The on-chain supply rate is computed exactly: for every reserve snapshot the checked 128-bit
  computation (utilization, three-segment borrow curve, protocol take rate) returns the value of the same
  curve over the unbounded natural numbers with one floor per multiplication and division; it refuses
  exactly the configurations that are not ordered or exceed 100 percent, and reports an overflow exactly
  when the reserve's total liquidity does not fit 128 bits.\<close>

theorem supply_apr_is_exact:
  "supply_apr_wad r =
     (if \<not> is_reserve_config_valid r then Inl InvalidConfig
      else if unat (rr_borrowed_amount_wads r) + unat (rr_available_amount r) * wad < 2 ^ 128
      then Inr (word_of_nat (exact_supply_apr r))
      else Inl AprOverflow)"
proof (cases "is_reserve_config_valid r")
  case v: True
  show ?thesis
  proof (cases "unat (rr_borrowed_amount_wads r) + unat (rr_available_amount r) * wad < 2 ^ 128")
    case True
    from computes_supply [OF v True] obtain w where "supply_apr_wad r = Inr w" "unat w = exact_supply_apr r"
      by (auto simp: computes_def)
    then have "supply_apr_wad r = Inr (word_of_nat (exact_supply_apr r))" by (simp flip: \<open>unat w = _\<close>)
    with v True show ?thesis by simp
  next
    case False
    with utilization_overflow [of r] v show ?thesis by (simp add: supply_apr_wad_def)
  qed
qed (simp add: supply_apr_wad_def)

lemma exact_supply_le_borrow:
  "is_reserve_config_valid r \<Longrightarrow> exact_supply_apr r \<le> exact_borrow_rate r"
proof -
  assume v: "is_reserve_config_valid r"
  have "exact_utilization r * (wad - unat (rr_protocol_take_rate_pct r) * pct) div wad \<le> wad"
    using scaled_le [OF exact_utilization_le [of r], of "wad - unat (rr_protocol_take_rate_pct r) * pct"]
    by linarith
  from scaled_le [OF this, of "exact_borrow_rate r"] show ?thesis
    by (simp only: exact_supply_apr_def mult.commute)
qed

text \<open>A rate that the market reader accepts is a rate of that very account: the 619 bytes decode to a
  valid snapshot, the wad value is the exact curve value of the snapshot (between zero and the borrow
  rate, which itself lies between the configured minimum and super maximum), and the basis points are its
  floor and at most 10000.\<close>

theorem accepted_market_rate:
  assumes "native_supply_apr_from_reserve_data data = Inr (w, bps)"
  shows "\<exists>r. decode_reserve_rate_snapshot data = Inr r \<and> length data = 619 \<and> is_reserve_config_valid r
     \<and> unat w = exact_supply_apr r \<and> exact_supply_apr r \<le> exact_borrow_rate r
     \<and> unat (rr_min_borrow_rate_pct r) * pct \<le> exact_borrow_rate r
     \<and> exact_borrow_rate r \<le> unat (rr_super_max_borrow_rate_pct r) * pct
     \<and> unat bps = exact_supply_apr r div 10 ^ 14 \<and> unat bps \<le> 10000"
proof -
  obtain r where r: "decode_reserve_rate_snapshot data = Inr r" and w: "supply_apr_wad r = Inr w"
    and max: "\<not> apr_bps_sanity_max < apr_bps_from_wad w" and bps: "bps = ucast (apr_bps_from_wad w)"
    using assms by (auto simp: native_supply_apr_from_reserve_data_def Let_def split: if_splits)
  have v: "is_reserve_config_valid r" using w by (auto simp: supply_apr_wad_def split: if_splits)
  have fits: "unat (rr_borrowed_amount_wads r) + unat (rr_available_amount r) * wad < 2 ^ 128"
    using w utilization_overflow [of r] v by (fastforce simp: supply_apr_wad_def)
  have uw: "unat w = exact_supply_apr r"
    using computes_supply [OF v fits] w by (simp add: computes_def)
  have "unat (w div market_bps_wad) = exact_supply_apr r div 10 ^ 14"
    by (simp add: unat_div_distrib uw market_bps_wad_def)
  moreover have b: "unat (apr_bps_from_wad w) \<le> 10000"
    using max by (simp add: apr_bps_sanity_max_def word_less_nat_alt not_less)
  moreover have "unat (w div market_bps_wad) < 2 ^ 64"
    using b by (rule contrapos_pp) (simp add: apr_bps_from_wad_def Let_def unat_minus_one_word_max)
  then have "unat (apr_bps_from_wad w) = unat (w div market_bps_wad)"
    by (simp add: apr_bps_from_wad_def Let_def unsigned_ucast_eq take_bit_nat_eq_self)
  moreover have "unat bps = unat (apr_bps_from_wad w)"
    unfolding bps using b by (simp add: unsigned_ucast_eq take_bit_nat_eq_self)
  moreover have "length data = 619"
    using r by (auto simp: decode_reserve_rate_snapshot_def reserve_len_def split: if_splits)
  ultimately show ?thesis
    using r v uw exact_supply_le_borrow [OF v] exact_borrow_rate_bounds [OF v] by (intro exI [of _ r]) simp
qed

text \<open>An account with one unit available and 0.94 borrowed, on the curve 0, 4, 30 percent.\<close>

definition example_reserve_account :: bytes where
  "example_reserve_account =
     replicate 171 0 @ to_le_bytes 8 (1 :: u64) @ to_le_bytes 16 (940000000000000000 :: u128)
     @ replicate 104 0 @ [80, 0, 0, 0, 0, 4, 30] @ replicate 66 0 @ [20] @ replicate 97 0 @ [90]
     @ to_le_bytes 8 (30 :: u64) @ replicate 140 0"

definition example_rates :: reserve_rate_snapshot where
  "example_rates =
     \<lparr>rr_available_amount = 1, rr_borrowed_amount_wads = 940000000000000000, rr_min_borrow_rate_pct = 0,
      rr_optimal_borrow_rate_pct = 4, rr_max_borrow_rate_pct = 30, rr_super_max_borrow_rate_pct = 30,
      rr_optimal_utilization_rate_pct = 80, rr_max_utilization_rate_pct = 90,
      rr_protocol_take_rate_pct = 20\<rparr>"

lemma example_rates_decoded: "decode_reserve_rate_snapshot example_reserve_account = Inr example_rates"
  by (simp add: decode_reserve_rate_snapshot_def example_reserve_account_def example_rates_def reserve_len_def
      res_last_update_stale_off_def res_liq_available_amount_off_def res_liq_borrowed_amount_wads_off_def
      res_config_optimal_utilization_rate_off_def res_config_min_borrow_rate_off_def
      res_config_optimal_borrow_rate_off_def res_config_max_borrow_rate_off_def
      res_config_protocol_take_rate_off_def res_config_max_utilization_rate_off_def
      res_config_super_max_borrow_rate_off_def nth_append)

lemma example_rates_apr: "exact_supply_apr example_rates = 9391008608778828"
  by (simp add: exact_supply_apr_def exact_borrow_rate_def exact_utilization_def exact_line_def example_rates_def)

theorem accepted_market_rate_witness:
  "\<exists>w. native_supply_apr_from_reserve_data example_reserve_account = Inr (w, 93) \<and> unat w = 9391008608778828"
proof -
  have v: "is_reserve_config_valid example_rates" by (simp add: is_reserve_config_valid_def example_rates_def)
  have "computes (supply_apr_wad example_rates) (exact_supply_apr example_rates)"
    by (rule computes_supply [OF v]) (simp add: example_rates_def)
  then obtain w where w: "supply_apr_wad example_rates = Inr w" "unat w = 9391008608778828"
    by (auto simp: computes_def example_rates_apr)
  then have w': "w = 9391008608778828" by (simp add: word_unat_eq_iff)
  have n: "native_supply_apr_from_reserve_data example_reserve_account = Inr (w, 93)"
    using w(1) unfolding w'
    by (simp add: native_supply_apr_from_reserve_data_def map_err_def example_rates_decoded apr_bps_from_wad_def
        market_bps_wad_def apr_bps_sanity_max_def)
  from accepted_market_rate [OF n] n w(2) show ?thesis by auto
qed

section \<open>Observations\<close>

record solana_account =
  sa_owner :: pubkey
  sa_data :: bytes

record confirmed_reserve_observation =
  cro_current_confirmed_slot :: u64
  cro_reserve_pubkey :: pubkey
  cro_reserve_account :: solana_account

record finalize_market_snapshot =
  fms_last_checked_slot :: u64
  fms_native_onchain_apr_bps :: u32
  fms_save_display_apy_bps :: u32

text \<open>The slot is read before the account; \<open>client\<close> is whether the pool has a read client.\<close>

definition fetch_confirmed_reserve_observation ::
    "bool \<Rightarrow> unit + u64 \<Rightarrow> unit + solana_account option \<Rightarrow> pubkey \<Rightarrow>
     finalize_market_read_error + confirmed_reserve_observation" where
  "fetch_confirmed_reserve_observation client slot account reserve_pubkey =
     (if \<not> client then Inl RpcPoolUnavailable
      else case slot of
        Inl _ \<Rightarrow> Inl SlotRequestFailed
      | Inr current_confirmed_slot \<Rightarrow>
          (case account of
             Inl _ \<Rightarrow> Inl ReserveRequestFailed
           | Inr None \<Rightarrow> Inl ReserveAccountMissing
           | Inr (Some reserve_account) \<Rightarrow>
               Inr \<lparr>cro_current_confirmed_slot = current_confirmed_slot,
                    cro_reserve_pubkey = reserve_pubkey, cro_reserve_account = reserve_account\<rparr>))"

text \<open>The displayed rate is asked for only after the native one was accepted.\<close>

definition fetch_snapshot ::
    "finalize_market_read_error + confirmed_reserve_observation \<Rightarrow> finalize_market_read_error + u32 \<Rightarrow>
     finalize_market_read_error + finalize_market_snapshot" where
  "fetch_snapshot observation save_display_apy =
     try_bind observation (\<lambda>obs.
     try_bind (native_supply_apr_from_reserve_data (sa_data (cro_reserve_account obs))) (\<lambda>(_, native_onchain_apr_bps).
     try_bind save_display_apy (\<lambda>save_display_apy_bps.
       Inr \<lparr>fms_last_checked_slot = cro_current_confirmed_slot obs,
            fms_native_onchain_apr_bps = native_onchain_apr_bps,
            fms_save_display_apy_bps = save_display_apy_bps\<rparr>)))"

end
