(* ===== verification/Watch_Scan.thy ===== *)
theory Watch_Scan
  imports Market_Rate Watch_Transaction Watch_Rule_Store Funding_Store
begin

text \<open>
  The watcher of \<open>bins/solfrontier-mcp/src/watch.rs\<close>: its reports, the inspection of one candidate (the two
  database rows, the lifecycle of the rule, the two gates of the executor around the chain reads), the
  scan of a cycle and the revalidation of one row; and what \<open>watch_execute.rs\<close> accepts from a report. The
  calls to the database, the node and the clock are numbered in the order of the code, and each answers
  by its number, so that the world may change between any two of them. A panic is \<open>None\<close>.
\<close>

section \<open>Modes and reports\<close>

datatype scan_mode = DryRunScan | ExecutePreflight

fun report_mode :: "scan_mode \<Rightarrow> string" where
  "report_mode DryRunScan = ''dry_run''"
| "report_mode ExecutePreflight = ''execute_preflight''"

fun database_access :: "scan_mode \<Rightarrow> string" where
  "database_access DryRunScan = ''sqlite_read_only_query_only''"
| "database_access ExecutePreflight = ''sqlite_read_only_preflight_with_execute_writer''"

fun assemble_unsigned :: "scan_mode \<Rightarrow> bool" where
  "assemble_unsigned DryRunScan = True"
| "assemble_unsigned ExecutePreflight = False"

definition watch_batch_limit :: nat where "watch_batch_limit = 128"
definition watch_fetch_limit :: u32 where "watch_fetch_limit = 129"

record rule_lifecycle_report =
  rl_status :: string
  rl_completed :: bool
  rl_revoked :: bool
  rl_execution_nonce :: u64

record watch_row_report =
  wrr_status :: string
  wrr_intent_id :: "string option"
  wrr_rule_id_hex :: "string option"
  wrr_rule_lifecycle :: "rule_lifecycle_report option"
  wrr_candidate :: "candidate_report option"
  wrr_error_class :: "string option"
  wrr_unsigned_transaction :: "unsigned_transaction_report option"

record watch_cycle_report =
  wcr_mode :: string
  wcr_database_access :: string
  wcr_current_confirmed_slot :: "u64 option"
  wcr_slot_error_class :: "string option"
  wcr_rows :: "watch_row_report list"
  wcr_summary :: "string \<rightharpoonup> nat"
  wcr_scan_errors :: "string list"

record candidate_inspection =
  ci_row :: watch_row_report
  ci_plan :: "validated_plan_inputs option"

definition inspection_blocked :: "watch_row_report \<Rightarrow> candidate_inspection" where
  "inspection_blocked row = \<lparr>ci_row = row, ci_plan = None\<rparr>"

definition inspection_ready :: "watch_row_report \<Rightarrow> validated_plan_inputs \<Rightarrow> candidate_inspection" where
  "inspection_ready row plan = \<lparr>ci_row = row, ci_plan = Some plan\<rparr>"

definition row_with_lifecycle :: "rule_lifecycle_report \<Rightarrow> watch_row_report \<Rightarrow> watch_row_report" where
  "row_with_lifecycle lc row = row\<lparr>wrr_rule_lifecycle := Some lc\<rparr>"

definition inspection_with_lifecycle ::
    "rule_lifecycle_report \<Rightarrow> candidate_inspection \<Rightarrow> candidate_inspection" where
  "inspection_with_lifecycle lc inspection =
     inspection\<lparr>ci_row := row_with_lifecycle lc (ci_row inspection)\<rparr>"

fun classification_label :: "candidate_classification \<Rightarrow> string" where
  "classification_label ClsReady = ''ready''"
| "classification_label ClsOrphanFundingOnly = ''orphan_funding_only''"
| "classification_label ClsOrphanRuleOnly = ''orphan_rule_only''"
| "classification_label ClsEmptyCandidate = ''empty_candidate''"
| "classification_label ClsUnsupportedAction = ''unsupported_action''"
| "classification_label ClsUnsupportedRuleEnvelope = ''unsupported_rule_envelope''"
| "classification_label ClsUnsupportedCondition = ''unsupported_condition''"
| "classification_label ClsHashMismatch = ''hash_mismatch''"
| "classification_label ClsIdentityMismatch = ''identity_mismatch''"
| "classification_label ClsAmountMismatch = ''amount_mismatch''"
| "classification_label ClsWallClockExpired = ''wall_clock_expired''"
| "classification_label ClsSlotExpired = ''slot_expired''"
| "classification_label ClsClockUnavailable = ''clock_unavailable''"
| "classification_label ClsReserveStale = ''reserve_stale''"
| "classification_label ClsAtaMissing = ''ata_missing''"
| "classification_label ClsAccountMissing = ''account_missing''"
| "classification_label ClsAccountMismatch = ''account_mismatch''"
| "classification_label ClsSourceBalanceInsufficient = ''source_balance_insufficient''"
| "classification_label ClsConditionNotMet = ''condition_not_met''"

definition row_from_candidate :: "candidate_report \<Rightarrow> watch_row_report" where
  "row_from_candidate report =
     \<lparr>wrr_status = classification_label (cd_classification report), wrr_intent_id = cd_intent_id report,
      wrr_rule_id_hex = cd_rule_id_hex report, wrr_rule_lifecycle = None, wrr_candidate = Some report,
      wrr_error_class = None, wrr_unsigned_transaction = None\<rparr>"

definition row_database_only :: "string \<Rightarrow> string option \<Rightarrow> string option \<Rightarrow> watch_row_report" where
  "row_database_only status intent_id rid =
     \<lparr>wrr_status = status, wrr_intent_id = intent_id, wrr_rule_id_hex = rid,
      wrr_rule_lifecycle = None, wrr_candidate = None, wrr_error_class = None,
      wrr_unsigned_transaction = None\<rparr>"

definition row_error :: "string \<Rightarrow> string \<Rightarrow> string option \<Rightarrow> string option \<Rightarrow> watch_row_report" where
  "row_error status error_class intent_id rid =
     \<lparr>wrr_status = status, wrr_intent_id = intent_id, wrr_rule_id_hex = rid,
      wrr_rule_lifecycle = None, wrr_candidate = None, wrr_error_class = Some error_class,
      wrr_unsigned_transaction = None\<rparr>"

definition row_candidate_error :: "string \<Rightarrow> string \<Rightarrow> candidate_report \<Rightarrow> watch_row_report" where
  "row_candidate_error status error_class candidate =
     \<lparr>wrr_status = status, wrr_intent_id = cd_intent_id candidate,
      wrr_rule_id_hex = cd_rule_id_hex candidate, wrr_rule_lifecycle = None,
      wrr_candidate = Some candidate, wrr_error_class = Some error_class,
      wrr_unsigned_transaction = None\<rparr>"

section \<open>The world of a scan\<close>

datatype token_account_state = TokenUninitialized | TokenInitialized | TokenFrozen

record spl_token_account =
  st_mint :: pubkey
  st_owner :: pubkey
  st_amount :: u64
  st_state :: token_account_state

text \<open>\<open>WatchChainSource\<close>, indexed by the number of the call.\<close>

record watch_chain_source =
  wcs_slot :: "nat \<Rightarrow> finalize_market_read_error + u64"
  wcs_reserve :: "nat \<Rightarrow> pubkey \<Rightarrow> finalize_market_read_error + confirmed_reserve_observation"
  wcs_account :: "nat \<Rightarrow> pubkey \<Rightarrow> finalize_market_read_error + solana_account option"

record scan_world =
  sw_crypto :: crypto
  sw_store :: store_env
  sw_sdk :: sdk
  sw_hex_decode :: "string \<Rightarrow> bytes option"              \<comment> \<open>\<open>hex::decode\<close>\<close>
  sw_bs58_decode :: "string \<Rightarrow> string + bytes"
  sw_unpack :: "bytes \<Rightarrow> spl_token_account option"        \<comment> \<open>\<open>SplTokenAccount::unpack\<close>\<close>
  sw_source :: "watch_chain_source option"
  sw_now :: "nat \<Rightarrow> i64"
  sw_funding :: "nat \<Rightarrow> store_error + funding_table"     \<comment> \<open>the table at a read, or its failure\<close>
  sw_rules :: "nat \<Rightarrow> store_error + watch_table"

text \<open>A clock before 1970 or beyond \<open>i64\<close> counts as the latest time.\<close>

definition unix_time_ms_or_fail_closed :: "int option \<Rightarrow> i64" where
  "unix_time_ms_or_fail_closed since_epoch_ms =
     (case since_epoch_ms of
        None \<Rightarrow> word_of_int (2 ^ 63 - 1)
      | Some ms \<Rightarrow> (if ms < 2 ^ 63 then word_of_int ms else word_of_int (2 ^ 63 - 1)))"

definition sw_hex :: "scan_world \<Rightarrow> bytes \<Rightarrow> string" where
  "sw_hex W = hex_lower (sw_crypto W)"

section \<open>Inspecting a candidate\<close>

definition lifecycle_report :: "stored_watch_rule \<Rightarrow> rule_lifecycle_report" where
  "lifecycle_report stored =
     \<lparr>rl_status = watch_status_as_str (swr_status stored), rl_completed = swr_completed stored,
      rl_revoked = swr_revoked stored, rl_execution_nonce = swr_execution_nonce stored\<rparr>"

definition ineligible_lifecycle :: "stored_watch_rule \<Rightarrow> string option" where
  "ineligible_lifecycle stored =
     (if swr_completed stored \<or> swr_revoked stored then Some ''rule_lifecycle_flags_terminal''
      else if swr_status stored \<notin> {WrActive, WrConditionMet}
      then Some ''rule_lifecycle_status_ineligible''
      else None)"

definition exact_rule_id :: "(string \<Rightarrow> bytes option) \<Rightarrow> string \<Rightarrow> bytes option" where
  "exact_rule_id hex_dec value =
     (if length value \<noteq> 32 \<or> (\<exists>c \<in> set value. \<not> lower_hex_char c) then None
      else case hex_dec value of
        None \<Rightarrow> None
      | Some bs \<Rightarrow> (if length bs = 16 then Some bs else None))"

definition funding_snapshot_of ::
    "(string \<Rightarrow> string + bytes) \<Rightarrow> w5h_funding_intent \<Rightarrow> string + funding_snapshot" where
  "funding_snapshot_of bs58 funding =
     try_bind (map_err (\<lambda>_. ''invalid_controlled_wallet'')
         (pubkey_from_base58 bs58 (fi_controlled_wallet funding))) (\<lambda>controlled_wallet.
     try_bind (map_err (\<lambda>_. ''invalid_controlled_usdc_ata'')
         (pubkey_from_base58 bs58 (fi_controlled_usdc_ata funding))) (\<lambda>controlled_usdc_ata.
       Inr \<lparr>fs_intent_id = fi_intent_id funding, fs_rule_id_hex = fi_rule_id_hex funding,
            fs_canonical_rule_hash_hex = fi_canonical_rule_hash_hex funding,
            fs_controlled_wallet = controlled_wallet, fs_controlled_usdc_ata = controlled_usdc_ata,
            fs_amount_raw = fi_amount_raw funding, fs_threshold_bps = fi_threshold_bps funding,
            fs_expires_at_ms = fi_expires_at_ms funding\<rparr>))"

definition decode_token_account ::
    "(bytes \<Rightarrow> spl_token_account option) \<Rightarrow> pubkey \<Rightarrow> solana_account option \<Rightarrow>
     string + token_account_facts option" where
  "decode_token_account unpack address account =
     (case account of
        None \<Rightarrow> Inr None
      | Some a \<Rightarrow>
          try_bind (ok_or (unpack (sa_data a)) ''token_account_decode_failed'') (\<lambda>decoded.
            Inr (Some \<lparr>tf_address = PubkeyBytes address, tf_account_owner = PubkeyBytes (sa_owner a),
                       tf_mint = PubkeyBytes (st_mint decoded), tf_token_owner = PubkeyBytes (st_owner decoded),
                       tf_amount_raw = st_amount decoded,
                       tf_initialized = (st_state decoded = TokenInitialized),
                       tf_frozen = (st_state decoded = TokenFrozen)\<rparr>)))"

definition reserve_facts_of :: "confirmed_reserve_observation \<Rightarrow> solend_reserve \<Rightarrow> reserve_facts" where
  "reserve_facts_of observation reserve =
     \<lparr>rf_address = PubkeyBytes (cro_reserve_pubkey observation),
      rf_account_owner = PubkeyBytes (sa_owner (cro_reserve_account observation)),
      rf_last_update_slot = sv_last_update_slot reserve, rf_last_update_stale = sv_last_update_stale reserve,
      rf_lending_market = PubkeyBytes (sv_lending_market reserve),
      rf_liquidity_mint = PubkeyBytes (sv_liquidity_mint reserve),
      rf_liquidity_mint_decimals = sv_liquidity_mint_decimals reserve,
      rf_liquidity_supply = PubkeyBytes (sv_liquidity_supply reserve),
      rf_pyth_oracle = PubkeyBytes (sv_pyth_oracle reserve),
      rf_switchboard_oracle = PubkeyBytes (sv_switchboard_oracle reserve),
      rf_collateral_mint = PubkeyBytes (sv_collateral_mint reserve),
      rf_collateral_supply = PubkeyBytes (sv_collateral_supply reserve)\<rparr>"

text \<open>
  What the reads of \<open>inspect_candidate\<close> gather: the facts and the final slot, or the status and error class
  of the row. The calls are \<open>k\<close> (reserve) to \<open>k + 4\<close> (slot). A decoder that panics gives \<open>None\<close>.
\<close>

definition decoded :: "decode_failure + 'a \<Rightarrow> 'e \<Rightarrow> ('e + 'a) option" where
  "decoded r e = (case r of Inr a \<Rightarrow> Some (Inr a) | Inl IndexPanic \<Rightarrow> None | Inl (DecodeErr _) \<Rightarrow> Some (Inl e))"

definition chain_read :: "finalize_market_read_error + 'a \<Rightarrow> (string \<times> string) + 'a" where
  "chain_read r = map_err (\<lambda>e. (''chain_read_error'', category e)) r"

definition gather_token_account ::
    "scan_world \<Rightarrow> watch_chain_source \<Rightarrow> nat \<Rightarrow> pubkey \<Rightarrow> (string \<times> string) + token_account_facts option" where
  "gather_token_account W src k address =
     try_bind (chain_read (wcs_account src k address)) (\<lambda>account.
       map_err (\<lambda>e. (''decode_error'', e)) (decode_token_account (sw_unpack W) address account))"

definition gather_accounts ::
    "scan_world \<Rightarrow> watch_chain_source \<Rightarrow> nat \<Rightarrow> plan_read_request \<Rightarrow> confirmed_reserve_observation \<Rightarrow>
     solend_reserve \<Rightarrow> u128 \<Rightarrow> solana_account \<Rightarrow> solend_obligation \<Rightarrow> (string \<times> string) + (chain_facts \<times> u64)" where
  "gather_accounts W src k request observation reserve native_supply_apr_wad obligation_account obligation =
     (let S = sw_sdk W; token_program = spl_token_program_id S;
          controlled_wallet = to_pubkey (prr_delegated_wallet request);
          input_mint = to_pubkey (prr_input_mint request);
          source_liquidity_ata = derive_associated_token_address S controlled_wallet input_mint token_program;
          collateral_ata =
            derive_associated_token_address S controlled_wallet (sv_collateral_mint reserve) token_program
      in try_bind (gather_token_account W src (k + 2) source_liquidity_ata) (\<lambda>source_liquidity.
         try_bind (gather_token_account W src (k + 3) collateral_ata) (\<lambda>collateral.
         try_bind (chain_read (wcs_slot src (k + 4))) (\<lambda>final_slot.
           Inr (\<lparr>cf_reserve = reserve_facts_of observation reserve,
                 cf_obligation =
                   \<lparr>of_address = prr_target_obligation request,
                    of_account_owner = PubkeyBytes (sa_owner obligation_account),
                    of_lending_market = PubkeyBytes (so_lending_market obligation),
                    of_obligation_owner = PubkeyBytes (so_owner obligation)\<rparr>,
                 cf_source_liquidity = source_liquidity, cf_collateral = collateral,
                 cf_derived =
                   \<lparr>da_token_program = PubkeyBytes token_program,
                    da_source_liquidity_ata = PubkeyBytes source_liquidity_ata,
                    da_collateral_ata = PubkeyBytes collateral_ata\<rparr>,
                 cf_native_supply_apr_wad = native_supply_apr_wad\<rparr>, final_slot)))))"

definition gather_facts ::
    "scan_world \<Rightarrow> watch_chain_source \<Rightarrow> nat \<Rightarrow> plan_read_request \<Rightarrow>
     ((string \<times> string) + (chain_facts \<times> u64)) option" where
  "gather_facts W src k request =
     (case chain_read (wcs_reserve src k (to_pubkey (prr_reserve_pubkey request))) of
        Inl e \<Rightarrow> Some (Inl e)
      | Inr observation \<Rightarrow>
          (case decoded (decode_reserve (sa_data (cro_reserve_account observation)))
                  (''decode_error'', ''reserve_decode_failed'') of
             None \<Rightarrow> None
           | Some (Inl e) \<Rightarrow> Some (Inl e)
           | Some (Inr reserve) \<Rightarrow>
               (case native_supply_apr_from_reserve_data (sa_data (cro_reserve_account observation)) of
                  Inl e \<Rightarrow> Some (Inl (''decode_error'', category e))
                | Inr (apr_wad, _) \<Rightarrow>
                    (case chain_read (wcs_account src (k + 1) (to_pubkey (prr_target_obligation request))) of
                       Inl e \<Rightarrow> Some (Inl e)
                     | Inr None \<Rightarrow> Some (Inl (''account_missing'', ''obligation_account_missing''))
                     | Inr (Some obligation_account) \<Rightarrow>
                         (case decoded (decode_obligation (sa_data obligation_account))
                                 (''decode_error'', ''obligation_decode_failed'') of
                            None \<Rightarrow> None
                          | Some (Inl e) \<Rightarrow> Some (Inl e)
                          | Some (Inr obligation) \<Rightarrow>
                              Some (gather_accounts W src k request observation reserve apr_wad
                                      obligation_account obligation))))))"

definition ready_row ::
    "validated_plan_inputs \<Rightarrow> unsigned_transaction_report option \<Rightarrow> watch_row_report" where
  "ready_row plan prepared =
     \<lparr>wrr_status = ''ready'', wrr_intent_id = cd_intent_id (vi_report plan),
      wrr_rule_id_hex = cd_rule_id_hex (vi_report plan), wrr_rule_lifecycle = None,
      wrr_candidate = Some (vi_report plan), wrr_error_class = None,
      wrr_unsigned_transaction = prepared\<rparr>"

definition inspect_candidate ::
    "scan_world \<Rightarrow> watch_chain_source \<Rightarrow> nat \<Rightarrow> prepared_deposit \<Rightarrow> bool \<Rightarrow> candidate_inspection option" where
  "inspect_candidate W src k prepared assemble =
     (let audit_candidate = pd_report prepared in
      case gather_facts W src k (read_request prepared) of
        None \<Rightarrow> None
      | Some (Inl (status, error_class)) \<Rightarrow>
          Some (inspection_blocked (row_candidate_error status error_class audit_candidate))
      | Some (Inr (facts, final_slot)) \<Rightarrow>
          (case validate_chain (sw_crypto W) prepared facts
                  \<lparr>ck_now_ms = sw_now W (k + 5), ck_current_confirmed_slot = final_slot\<rparr> of
             None \<Rightarrow> None
           | Some (ChainBlocked report) \<Rightarrow> Some (inspection_blocked (row_from_candidate report))
           | Some (ChainReady plan) \<Rightarrow>
               Some (if assemble
                 then (case build_unsigned_transaction (sw_sdk W) (sw_hex W) plan of
                     Inr (_, unsigned_transaction) \<Rightarrow>
                       inspection_ready (ready_row plan (Some unsigned_transaction)) plan
                   | Inl error_class \<Rightarrow>
                       inspection_blocked (row_candidate_error ''plan_build_error'' error_class (vi_report plan)))
                 else inspection_ready (ready_row plan None) plan)))"

text \<open>The rule is read at \<open>k\<close>, the clock at \<open>k + 1\<close>, the chain from \<open>k + 2\<close> to \<open>k + 7\<close>.\<close>

definition inspect_funding_candidate ::
    "scan_world \<Rightarrow> nat \<Rightarrow> w5h_funding_intent \<Rightarrow> u64 option \<Rightarrow> string option \<Rightarrow> bool \<Rightarrow>
     candidate_inspection option" where
  "inspect_funding_candidate W k funding current_confirmed_slot slot_error_class assemble =
     (let err = (\<lambda>status error_class.
            row_error status error_class (Some (fi_intent_id funding)) (Some (fi_rule_id_hex funding)))
      in if fi_intent_id funding \<noteq> fi_rule_id_hex funding
         then Some (inspection_blocked (err ''identity_mismatch'' ''funding_intent_rule_id_mismatch''))
         else case exact_rule_id (sw_hex_decode W) (fi_intent_id funding) of
           None \<Rightarrow> Some (inspection_blocked (err ''malformed_funding_row'' ''invalid_intent_id''))
         | Some lookup_id \<Rightarrow>
             (case try_bind (sw_rules W k) (watch_get (sw_crypto W) (sw_store W) lookup_id) of
                Inl _ \<Rightarrow> Some (inspection_blocked (err ''rule_read_error'' ''state_store_read_failed''))
              | Inr None \<Rightarrow>
                  Some (inspection_blocked (row_database_only ''orphan_funding_only''
                    (Some (fi_intent_id funding)) (Some (fi_rule_id_hex funding))))
              | Inr (Some stored) \<Rightarrow>
                  (let with = (\<lambda>row. inspection_blocked (row_with_lifecycle (lifecycle_report stored) row))
                   in case ineligible_lifecycle stored of
                     Some error_class \<Rightarrow> Some (with (err ''ineligible_rule_lifecycle'' error_class))
                   | None \<Rightarrow>
                       (case funding_snapshot_of (sw_bs58_decode W) funding of
                          Inl error_class \<Rightarrow> Some (with (err ''malformed_funding_row'' error_class))
                        | Inr snapshot \<Rightarrow>
                            (case preflight_candidate (sw_crypto W)
                                    \<lparr>cin_funding = Some snapshot, cin_rule = Some (swr_rule stored)\<rparr>
                                    \<lparr>pk_now_ms = sw_now W (k + 1),
                                     pk_current_confirmed_slot = current_confirmed_slot\<rparr> of
                               PreflightBlocked report \<Rightarrow> Some (with (row_from_candidate report))
                             | NeedsChain prepared \<Rightarrow>
                                 (case sw_source W of
                                    None \<Rightarrow> Some (with (err ''chain_unavailable''
                                      (case slot_error_class of Some e \<Rightarrow> e
                                       | None \<Rightarrow> ''confirmed_slot_unavailable'')))
                                  | Some src \<Rightarrow>
                                      map_option (inspection_with_lifecycle (lifecycle_report stored))
                                        (inspect_candidate W src (k + 2) prepared assemble)))))))"

section \<open>The scan\<close>

definition sample_slot :: "scan_world \<Rightarrow> nat \<Rightarrow> u64 option \<times> string option" where
  "sample_slot W k =
     (case sw_source W of
        None \<Rightarrow> (None, Some ''config_missing'')
      | Some src \<Rightarrow>
          (case wcs_slot src k of Inr slot \<Rightarrow> (Some slot, None) | Inl e \<Rightarrow> (None, Some (category e))))"

text \<open>A failed scan gives no rows, a full one is cut; both leave a mark.\<close>

definition bounded_scan :: "store_error + 'a list \<Rightarrow> string \<Rightarrow> string \<Rightarrow> 'a list \<times> string list" where
  "bounded_scan result failed truncated =
     (case result of
        Inl _ \<Rightarrow> ([], [failed])
      | Inr rows \<Rightarrow>
          (if watch_batch_limit < length rows then (take watch_batch_limit rows, [truncated])
           else (rows, [])))"

definition orphan_rule_row :: "scan_world \<Rightarrow> nat \<Rightarrow> stored_watch_rule \<Rightarrow> watch_row_report list" where
  "orphan_rule_row W k stored =
     (let rid = sw_hex W (wr_rule_id (swr_rule stored)) in
      case try_bind (sw_funding W k) (funding_get rid) of
        Inr (Some _) \<Rightarrow> []
      | Inr None \<Rightarrow>
          [row_with_lifecycle (lifecycle_report stored) (row_database_only ''orphan_rule_only'' None (Some rid))]
      | Inl _ \<Rightarrow>
          [row_with_lifecycle (lifecycle_report stored)
             (row_error ''funding_read_error'' ''state_store_read_failed'' None (Some rid))])"

definition summarize_rows :: "watch_row_report list \<Rightarrow> (string \<rightharpoonup> nat)" where
  "summarize_rows rows =
     foldl (\<lambda>m row. m(wrr_status row \<mapsto> (case m (wrr_status row) of None \<Rightarrow> 0 | Some n \<Rightarrow> n) + 1))
       [''total'' \<mapsto> length rows] rows"

definition scan_cycle :: "scan_world \<Rightarrow> scan_mode \<Rightarrow> nat \<Rightarrow> watch_cycle_report option" where
  "scan_cycle W mode k =
     (let (current_confirmed_slot, slot_error_class) = sample_slot W k;
          (funding_rows, errors1) =
            bounded_scan (try_bind (sw_funding W (k + 1)) (list_budget_reserved watch_fetch_limit))
              ''funding_scan_failed'' ''funding_scan_truncated''
      in case those (map (\<lambda>(i, funding).
                inspect_funding_candidate W (k + 2 + 8 * i) funding current_confirmed_slot slot_error_class
                  (assemble_unsigned mode)) (enumerate 0 funding_rows)) of
           None \<Rightarrow> None
         | Some inspections \<Rightarrow>
             (let p = k + 2 + 8 * length funding_rows;
                  (pending_rules, errors2) =
                    bounded_scan (try_bind (sw_rules W p)
                        (list_pending_lifecycle_limit (sw_crypto W) (sw_store W) watch_fetch_limit))
                      ''watch_rule_scan_failed'' ''watch_rule_scan_truncated'';
                  rows = map ci_row inspections
                    @ concat (map (\<lambda>(j, stored). orphan_rule_row W (p + 1 + j) stored)
                        (enumerate 0 pending_rules))
              in Some
                \<lparr>wcr_mode = report_mode mode, wcr_database_access = database_access mode,
                 wcr_current_confirmed_slot = current_confirmed_slot,
                 wcr_slot_error_class = slot_error_class, wcr_rows = rows,
                 wcr_summary = summarize_rows rows, wcr_scan_errors = errors1 @ errors2\<rparr>))"

definition revalidate_one :: "scan_world \<Rightarrow> nat \<Rightarrow> string \<Rightarrow> candidate_inspection option" where
  "revalidate_one W k intent_id =
     (let (current_confirmed_slot, slot_error_class) = sample_slot W k;
          err = (\<lambda>status error_class.
            inspection_blocked (row_error status error_class (Some intent_id) (Some intent_id)))
      in case try_bind (sw_funding W (k + 1)) (funding_get intent_id) of
           Inr (Some funding) \<Rightarrow>
             inspect_funding_candidate W (k + 2) funding current_confirmed_slot slot_error_class False
         | Inr None \<Rightarrow> Some (err ''candidate_missing'' ''funding_row_no_longer_budget_reserved'')
         | Inl _ \<Rightarrow> Some (err ''funding_read_error'' ''state_store_read_failed''))"

section \<open>From reports to candidates\<close>

datatype candidate_artifact_error = ScanUnsafe | DuplicateReadyIntent | ReadyRowMissing | ReadyRowMalformed

fun artifact_error_class :: "candidate_artifact_error \<Rightarrow> string" where
  "artifact_error_class ScanUnsafe = ''execute_scan_unsafe''"
| "artifact_error_class DuplicateReadyIntent = ''duplicate_ready_intent''"
| "artifact_error_class ReadyRowMissing = ''revalidated_candidate_not_ready''"
| "artifact_error_class ReadyRowMalformed = ''revalidated_candidate_malformed''"

text \<open>The loop over the ready rows; \<open>ids\<close> are those pushed so far, which is also the set seen.\<close>

fun collect_ready_ids :: "watch_row_report list \<Rightarrow> string list \<Rightarrow> candidate_artifact_error + string list" where
  "collect_ready_ids [] ids = Inr ids"
| "collect_ready_ids (row # rows) ids =
     (if wrr_status row \<noteq> ''ready'' then collect_ready_ids rows ids
      else case wrr_intent_id row of
        None \<Rightarrow> Inl ReadyRowMalformed
      | Some intent_id \<Rightarrow>
          (if intent_id \<in> set ids then Inl DuplicateReadyIntent
           else collect_ready_ids rows (ids @ [intent_id])))"

definition execute_ready_intent_ids :: "watch_cycle_report \<Rightarrow> candidate_artifact_error + string list" where
  "execute_ready_intent_ids report =
     (if wcr_scan_errors report \<noteq> [] then Inl ScanUnsafe else collect_ready_ids (wcr_rows report) [])"

definition revalidated_candidate ::
    "(string \<Rightarrow> bytes option) \<Rightarrow> candidate_inspection \<Rightarrow> string \<Rightarrow>
     candidate_artifact_error + revalidated_execution_candidate" where
  "revalidated_candidate hex_dec inspection expected_intent_id =
     (let row = ci_row inspection in
      if wrr_status row \<noteq> ''ready'' \<or> wrr_error_class row \<noteq> None then Inl ReadyRowMissing
      else
        try_bind (ok_or (wrr_intent_id row) ReadyRowMalformed) (\<lambda>intent_id.
        try_bind (ok_or (wrr_rule_id_hex row) ReadyRowMalformed) (\<lambda>rid.
          if intent_id \<noteq> rid then Inl ReadyRowMalformed
          else if intent_id \<noteq> expected_intent_id then Inl ReadyRowMissing
          else
            try_bind (ok_or (exact_rule_id hex_dec rid) ReadyRowMalformed) (\<lambda>rule_id.
            try_bind (ok_or (wrr_candidate row) ReadyRowMalformed) (\<lambda>candidate.
              if cd_classification candidate \<noteq> ClsReady
                 \<or> cd_intent_id candidate \<noteq> Some intent_id
                 \<or> cd_rule_id_hex candidate \<noteq> Some rid
                 \<or> kr_wall_clock_eligible (cd_clocks candidate) \<noteq> Some True
                 \<or> kr_slot_clock_eligible (cd_clocks candidate) \<noteq> Some True
              then Inl ReadyRowMalformed
              else
                try_bind (ok_or (ci_plan inspection) ReadyRowMalformed) (\<lambda>plan.
                  if vi_report plan \<noteq> candidate then Inl ReadyRowMalformed
                  else
                    try_bind (ok_or (cd_amounts candidate) ReadyRowMalformed) (\<lambda>amounts.
                      if \<not> am_all_equal_and_nonzero amounts then Inl ReadyRowMalformed
                      else
                        (let amount_raw = vi_input_amount_raw plan;
                             amount_text = decimal (unat amount_raw) in
                         if amount_raw = 0
                            \<or> am_action_input_amount_raw amounts \<noteq> Some amount_text
                            \<or> am_rule_max_input_amount_raw amounts \<noteq> Some amount_text
                            \<or> am_funding_amount_raw amounts \<noteq> Some amount_text
                         then Inl ReadyRowMalformed
                         else Inr \<lparr>rc_intent_id = intent_id, rc_rule_id = rule_id,
                                   rc_amount_raw = amount_raw, rc_plan = plan\<rparr>))))))))"

section \<open>Every inspection ends in a well-formed row\<close>

text \<open>
  A row that says \<open>ready\<close> carries a clean candidate and its identity; any other row carries no
  transaction and says why it is not ready.
\<close>

definition row_well_formed :: "watch_row_report \<Rightarrow> bool" where
  "row_well_formed row \<longleftrightarrow>
     wrr_status row \<noteq> ''total''
   \<and> (if wrr_status row = ''ready''
      then wrr_error_class row = None
         \<and> (\<exists>candidate intent_id. wrr_candidate row = Some candidate \<and> cd_classification candidate = ClsReady
              \<and> cd_findings candidate = [] \<and> wrr_intent_id row = Some intent_id \<and> cd_intent_id candidate = Some intent_id)
      else wrr_unsigned_transaction row = None
         \<and> (wrr_error_class row \<noteq> None
            \<or> (\<exists>candidate. wrr_candidate row = Some candidate \<and> cd_findings candidate \<noteq> []
                 \<and> wrr_status row = classification_label (cd_classification candidate))
            \<or> wrr_status row \<in> {''orphan_funding_only'', ''orphan_rule_only''}))"

definition inspection_well_formed :: "scan_mode \<Rightarrow> candidate_inspection \<Rightarrow> bool" where
  "inspection_well_formed mode insp \<longleftrightarrow>
     row_well_formed (ci_row insp) \<and> (ci_plan insp \<noteq> None \<longleftrightarrow> wrr_status (ci_row insp) = ''ready'')
   \<and> (wrr_status (ci_row insp) = ''ready'' \<longrightarrow>
        (wrr_unsigned_transaction (ci_row insp) \<noteq> None \<longleftrightarrow> assemble_unsigned mode)
      \<and> map_option vi_report (ci_plan insp) = wrr_candidate (ci_row insp))"

lemma classification_label_ready [simp]: "classification_label c = ''ready'' \<longleftrightarrow> c = ClsReady"
  by (cases c) simp_all

lemma classification_label_total [simp]: "classification_label c \<noteq> ''total''"
  by (cases c) simp_all

lemma row_with_lifecycle_sel [simp]:
  "wrr_status (row_with_lifecycle lc row) = wrr_status row"
  "wrr_error_class (row_with_lifecycle lc row) = wrr_error_class row"
  "wrr_candidate (row_with_lifecycle lc row) = wrr_candidate row"
  "wrr_intent_id (row_with_lifecycle lc row) = wrr_intent_id row"
  "wrr_rule_id_hex (row_with_lifecycle lc row) = wrr_rule_id_hex row"
  "wrr_unsigned_transaction (row_with_lifecycle lc row) = wrr_unsigned_transaction row"
  by (simp_all add: row_with_lifecycle_def)

lemma inspection_with_lifecycle_sel [simp]:
  "ci_row (inspection_with_lifecycle lc insp) = row_with_lifecycle lc (ci_row insp)"
  "ci_plan (inspection_with_lifecycle lc insp) = ci_plan insp"
  by (simp_all add: inspection_with_lifecycle_def)

lemma row_well_formed_lifecycle [simp]: "row_well_formed (row_with_lifecycle lc row) = row_well_formed row"
  by (simp add: row_well_formed_def)

lemma inspection_well_formed_lifecycle [simp]:
  "inspection_well_formed mode (inspection_with_lifecycle lc insp) = inspection_well_formed mode insp"
  by (simp add: inspection_well_formed_def)

lemma blocked_well_formed:
  "row_well_formed row \<Longrightarrow> wrr_status row \<noteq> ''ready'' \<Longrightarrow> inspection_well_formed mode (inspection_blocked row)"
  by (simp add: inspection_well_formed_def inspection_blocked_def)

lemma error_row:
  assumes "status \<noteq> ''ready''" "status \<noteq> ''total''"
  shows "inspection_well_formed mode (inspection_blocked (row_error status e i r))"
    "inspection_well_formed mode (inspection_blocked (row_candidate_error status e c))"
  using assms by (auto intro!: blocked_well_formed simp: row_well_formed_def row_error_def row_candidate_error_def)

lemma blocked_candidate_row:
  assumes "cd_findings report \<noteq> []" "cd_classification report = primary_classification (cd_findings report)"
  shows "inspection_well_formed mode (inspection_blocked (row_from_candidate report))"
  using assms
  by (auto intro!: blocked_well_formed simp: row_well_formed_def row_from_candidate_def primary_classification_Ready)

lemma decode_obligation_no_panic: "decode_obligation data \<noteq> Inl IndexPanic"
  using decode_obligation_ok decode_obligation_refused by (cases "obligation_well_formed data") fastforce+

lemma decode_reserve_no_panic: "decode_reserve data \<noteq> Inl IndexPanic"
proof (cases "length data = 619")
  case True
  then show ?thesis
    by (cases "data ! 9 \<in> {0, 1}")
      (simp_all add: decode_reserve_def reserve_len_def ensure_def read_bool_or_in_bounds del: insert_iff)
qed (simp add: decode_reserve_def reserve_len_def ensure_def)

lemma decoded_None: "decoded r e = None \<longleftrightarrow> r = Inl IndexPanic"
  by (cases r) (auto simp: decoded_def split: decode_failure.splits)

lemma gather_facts_total: "gather_facts W src k request \<noteq> None"
  by (auto simp: gather_facts_def decoded_None decode_reserve_no_panic decode_obligation_no_panic
      split: sum.splits option.splits prod.splits)

lemma gather_facts_error:
  assumes "gather_facts W src k request = Some (Inl (status, e))"
  shows "status \<noteq> ''ready''" "status \<noteq> ''total''"
  using assms
  by (auto simp: gather_facts_def gather_accounts_def gather_token_account_def chain_read_def decoded_def Let_def
      split: sum.splits option.splits prod.splits decode_failure.splits)

lemma prepared_outcome:
  assumes "preflight_candidate C \<lparr>cin_funding = Some f, cin_rule = Some r\<rparr> clocks = NeedsChain p"
  obtains report where "validate_chain C p facts fin = Some (ChainBlocked report)" "cd_findings report \<noteq> []"
      "cd_classification report = primary_classification (cd_findings report)"
  | plan where "validate_chain C p facts fin = Some (ChainReady plan)" "cd_findings (vi_report plan) = []"
      "cd_classification (vi_report plan) = ClsReady" "cd_intent_id (vi_report plan) = Some (fs_intent_id f)"
proof -
  from assms obtain d c where p: "p = prepared_for C clocks f r d c"
    unfolding preflight_candidate_NeedsChain preflight_pair_NeedsChain by auto
  then obtain out where out: "validate_chain C p facts fin = Some out"
    "case out of
       ChainBlocked rep \<Rightarrow> cd_findings rep \<noteq> [] \<and> cd_classification rep = primary_classification (cd_findings rep)
     | ChainReady v \<Rightarrow> cd_findings (vi_report v) = [] \<and> cd_classification (vi_report v) = ClsReady"
    using validate_chain_prepared [of C clocks f r d c facts fin] by blast
  show thesis
  proof (cases out)
    case (ChainBlocked rep)
    with out that(1) show ?thesis by simp
  next
    case (ChainReady v)
    with out(1) obtain fexp rexp where "vi_report v = chain_report p fexp rexp facts fin [] (Some True)"
      by (auto simp: validate_chain_Ready)
    then have "cd_intent_id (vi_report v) = Some (fs_intent_id f)"
      by (simp add: p chain_report_def Let_def set_classification_from_findings_def prepared_for_def preflight_report_def)
    with ChainReady out that(2) show ?thesis by simp
  qed
qed

lemma inspection_blocked_lifecycle:
  "inspection_blocked (row_with_lifecycle lc row) = inspection_with_lifecycle lc (inspection_blocked row)"
  by (simp add: inspection_blocked_def inspection_with_lifecycle_def)

lemma inspect_candidate_well_formed:
  assumes "preflight_candidate (sw_crypto W) \<lparr>cin_funding = Some f, cin_rule = Some r\<rparr> clocks = NeedsChain p"
  shows "\<exists>insp. inspect_candidate W src k p (assemble_unsigned mode) = Some insp \<and> inspection_well_formed mode insp"
proof (cases "gather_facts W src k (read_request p)")
  case None
  with gather_facts_total [of W src k "read_request p"] show ?thesis by simp
next
  case (Some gathered)
  show ?thesis
  proof (cases gathered)
    case (Inl e)
    obtain status ec where e: "e = (status, ec)" by (cases e)
    with Some Inl gather_facts_error [of W src k "read_request p" status ec] show ?thesis
      by (simp add: inspect_candidate_def Let_def error_row)
  next
    case (Inr g)
    obtain facts slot where g: "g = (facts, slot)" by (cases g)
    let ?fin = "\<lparr>ck_now_ms = sw_now W (k + 5), ck_current_confirmed_slot = slot\<rparr>"
    show ?thesis
    proof (rule prepared_outcome [OF assms, of facts ?fin])
      fix report
      assume "validate_chain (sw_crypto W) p facts ?fin = Some (ChainBlocked report)" "cd_findings report \<noteq> []"
        "cd_classification report = primary_classification (cd_findings report)"
      then show ?thesis by (simp add: inspect_candidate_def Let_def Some Inr g blocked_candidate_row)
    next
      fix plan
      assume v: "validate_chain (sw_crypto W) p facts ?fin = Some (ChainReady plan)"
        and plan: "cd_findings (vi_report plan) = []" "cd_classification (vi_report plan) = ClsReady"
          "cd_intent_id (vi_report plan) = Some (fs_intent_id f)"
      have ready: "inspection_well_formed mode (inspection_ready (ready_row plan u) plan)"
        if "u \<noteq> None \<longleftrightarrow> assemble_unsigned mode" for u
        using that plan
        by (simp add: inspection_well_formed_def row_well_formed_def inspection_ready_def ready_row_def)
      show ?thesis
        using v ready
        by (auto simp: inspect_candidate_def Let_def Some Inr g error_row split: sum.splits prod.splits)
    qed
  qed
qed

lemma inspect_funding_well_formed:
  "\<exists>insp. inspect_funding_candidate W k funding slot err (assemble_unsigned mode) = Some insp
     \<and> inspection_well_formed mode insp"
proof -
  have db: "inspection_well_formed mode (inspection_blocked (row_database_only ''orphan_funding_only'' i r))" for i r
    by (auto intro!: blocked_well_formed simp: row_well_formed_def row_database_only_def)
  have chain: "\<exists>insp. inspect_candidate W src (Suc (Suc k)) p (assemble_unsigned mode) = Some insp
        \<and> inspection_well_formed mode insp"
    if "preflight_candidate (sw_crypto W) \<lparr>cin_funding = Some f, cin_rule = Some r\<rparr> clocks = NeedsChain p"
    for src p f r clocks
    using inspect_candidate_well_formed [OF that, of src "Suc (Suc k)" mode] by auto
  show ?thesis
    unfolding inspect_funding_candidate_def Let_def
    by (auto simp: inspection_blocked_lifecycle error_row db blocked_candidate_row preflight_report_blocked
        simp del: preflight_candidate.simps
        split: option.splits sum.splits preflight_outcome.splits dest!: chain)
qed

section \<open>The report of a scan\<close>

lemma orphan_rule_row_well_formed:
  assumes "row \<in> set (orphan_rule_row W k stored)"
  shows "row_well_formed row" "wrr_status row \<noteq> ''ready''"
proof -
  from assms obtain r where r: "row = row_with_lifecycle (lifecycle_report stored) r"
    "r = row_database_only ''orphan_rule_only'' None (Some (sw_hex W (wr_rule_id (swr_rule stored))))
     \<or> r = row_error ''funding_read_error'' ''state_store_read_failed'' None (Some (sw_hex W (wr_rule_id (swr_rule stored))))"
    by (auto simp: orphan_rule_row_def Let_def split: sum.splits option.splits)
  then show "row_well_formed row" "wrr_status row \<noteq> ''ready''"
    by (auto simp: row_well_formed_def row_database_only_def row_error_def)
qed

lemma length_orphan_rule_row: "length (orphan_rule_row W k stored) \<le> 1"
  by (simp add: orphan_rule_row_def Let_def split: sum.splits option.splits)

lemma bounded_scan_rows:
  "length (fst (bounded_scan r failed truncated)) \<le> watch_batch_limit"
  "snd (bounded_scan r failed truncated) = [] \<longleftrightarrow> (\<exists>rows. r = Inr rows \<and> length rows \<le> watch_batch_limit)"
  by (auto simp: bounded_scan_def split: sum.splits)

lemma summary_counts:
  assumes "st \<noteq> ''total''"
  shows "summarize_rows rows st =
      (if \<exists>row \<in> set rows. wrr_status row = st then Some (length (filter (\<lambda>row. wrr_status row = st) rows)) else None)"
proof -
  let ?f = "\<lambda>m row. m(wrr_status row \<mapsto> (case m (wrr_status row) of None \<Rightarrow> 0 | Some n \<Rightarrow> n) + 1)"
  have "foldl ?f m rows st =
      (if \<exists>row \<in> set rows. wrr_status row = st
       then Some ((case m st of None \<Rightarrow> 0 | Some n \<Rightarrow> n) + length (filter (\<lambda>row. wrr_status row = st) rows))
       else m st)" for m :: "string \<rightharpoonup> nat"
    by (induction rows arbitrary: m) (auto split: option.splits)
  then show ?thesis using assms by (simp add: summarize_rows_def)
qed

lemma summary_total:
  assumes "\<forall>row \<in> set rows. wrr_status row \<noteq> ''total''"
  shows "summarize_rows rows ''total'' = Some (length rows)"
proof -
  let ?f = "\<lambda>m row. m(wrr_status row \<mapsto> (case m (wrr_status row) of None \<Rightarrow> 0 | Some n \<Rightarrow> n) + 1)"
  have "foldl ?f m rows ''total'' = m ''total''" for m :: "string \<rightharpoonup> nat"
    using assms by (induction rows arbitrary: m) auto
  then show ?thesis by (simp add: summarize_rows_def)
qed

lemma those_map_total:
  assumes "\<And>x. x \<in> set xs \<Longrightarrow> \<exists>y. f x = Some y \<and> P y"
  shows "\<exists>ys. those (map f xs) = Some ys \<and> length ys = length xs \<and> list_all P ys"
  using assms
proof (induction xs)
  case (Cons x xs)
  then obtain ys where "those (map f xs) = Some ys" "length ys = length xs" "list_all P ys" by auto
  moreover obtain y where "f x = Some y" "P y" using Cons.prems [of x] by auto
  ultimately show ?case by simp
qed simp

text \<open>The two bounded reads of a scan were complete.\<close>

definition scan_reads_complete :: "scan_world \<Rightarrow> nat \<Rightarrow> bool" where
  "scan_reads_complete W k \<longleftrightarrow>
     (\<exists>fs rs. try_bind (sw_funding W (k + 1)) (list_budget_reserved watch_fetch_limit) = Inr fs
        \<and> length fs \<le> watch_batch_limit
        \<and> try_bind (sw_rules W (k + 2 + 8 * length fs))
            (list_pending_lifecycle_limit (sw_crypto W) (sw_store W) watch_fetch_limit) = Inr rs
        \<and> length rs \<le> watch_batch_limit)"

definition row_of_mode :: "scan_mode \<Rightarrow> watch_row_report \<Rightarrow> bool" where
  "row_of_mode mode row \<longleftrightarrow>
     row_well_formed row
   \<and> (wrr_status row = ''ready'' \<longrightarrow> (wrr_unsigned_transaction row \<noteq> None \<longleftrightarrow> assemble_unsigned mode))"

abbreviation ready_rows :: "watch_row_report list \<Rightarrow> watch_row_report list" where
  "ready_rows rows \<equiv> filter (\<lambda>row. wrr_status row = ''ready'') rows"

lemma scan_cycle_report:
  "\<exists>report. scan_cycle W mode k = Some report
     \<and> list_all (row_of_mode mode) (wcr_rows report)
     \<and> length (wcr_rows report) \<le> 2 * watch_batch_limit
     \<and> length (ready_rows (wcr_rows report)) \<le> watch_batch_limit
     \<and> wcr_summary report = summarize_rows (wcr_rows report)
     \<and> (wcr_scan_errors report = [] \<longleftrightarrow> scan_reads_complete W k)"
proof -
  obtain slot slot_error where sl: "sample_slot W k = (slot, slot_error)" by (cases "sample_slot W k")
  let ?r1 = "try_bind (sw_funding W (k + 1)) (list_budget_reserved watch_fetch_limit)"
  obtain fs errors1 where b1: "bounded_scan ?r1 ''funding_scan_failed'' ''funding_scan_truncated'' = (fs, errors1)"
    by (cases "bounded_scan ?r1 ''funding_scan_failed'' ''funding_scan_truncated''")
  note fs = bounded_scan_rows [of ?r1 "''funding_scan_failed''" "''funding_scan_truncated''", unfolded b1 fst_conv snd_conv]
  let ?p = "k + 2 + 8 * length fs"
  let ?r2 = "try_bind (sw_rules W ?p) (list_pending_lifecycle_limit (sw_crypto W) (sw_store W) watch_fetch_limit)"
  obtain rs errors2 where b2: "bounded_scan ?r2 ''watch_rule_scan_failed'' ''watch_rule_scan_truncated'' = (rs, errors2)"
    by (cases "bounded_scan ?r2 ''watch_rule_scan_failed'' ''watch_rule_scan_truncated''")
  note rs = bounded_scan_rows [of ?r2 "''watch_rule_scan_failed''" "''watch_rule_scan_truncated''", unfolded b2 fst_conv snd_conv]
  let ?inspect = "\<lambda>(i, funding). inspect_funding_candidate W (k + 2 + 8 * i) funding slot slot_error (assemble_unsigned mode)"
  obtain insps where insps: "those (map ?inspect (enumerate 0 fs)) = Some insps" "length insps = length fs"
    "list_all (inspection_well_formed mode) insps"
    using those_map_total [of "enumerate 0 fs" ?inspect "inspection_well_formed mode"] inspect_funding_well_formed
    by (fastforce simp: split_beta)
  let ?orphans = "concat (map (\<lambda>(j, stored). orphan_rule_row W (?p + 1 + j) stored) (enumerate 0 rs))"
  let ?rows = "map ci_row insps @ ?orphans"
  have orphans: "row_well_formed row \<and> wrr_status row \<noteq> ''ready''" if "row \<in> set ?orphans" for row
    using that orphan_rule_row_well_formed by fastforce
  have "length ?orphans \<le> length (enumerate 0 rs) * 1"
    unfolding length_concat map_map comp_def
    by (rule order_trans [OF sum_list_mono [where g = "\<lambda>_. 1"]])
      (auto simp: length_orphan_rule_row [simplified] sum_list_triv split_beta)
  then have len: "length ?rows \<le> 2 * watch_batch_limit"
    using fs(1) rs(1) insps(2) by simp
  have "list_all (row_of_mode mode) (map ci_row insps)"
    using insps(3) by (auto simp: list_all_iff row_of_mode_def inspection_well_formed_def)
  moreover have "list_all (row_of_mode mode) ?orphans"
    unfolding list_all_iff row_of_mode_def using orphans by blast
  ultimately have rows: "list_all (row_of_mode mode) ?rows" by (simp only: list_all_append)
  have "ready_rows ?orphans = []" using orphans by (auto simp: filter_empty_conv)
  then have ready: "length (ready_rows ?rows) \<le> watch_batch_limit"
    using fs(1) insps(2) length_filter_le [of "\<lambda>row. wrr_status row = ''ready''" "map ci_row insps"] by simp
  have errors: "errors1 @ errors2 = [] \<longleftrightarrow> scan_reads_complete W k"
  proof -
    have "fst (bounded_scan ?r1 ''funding_scan_failed'' ''funding_scan_truncated'') = fs" unfolding b1 by (rule fst_conv)
    then have "?r1 = Inr xs \<Longrightarrow> length xs \<le> watch_batch_limit \<Longrightarrow> xs = fs" for xs
      unfolding bounded_scan_def by (simp del: try_bind_Inr)
    then show ?thesis using fs(2) rs(2) by (auto simp: scan_reads_complete_def)
  qed
  let ?rep = "\<lparr>wcr_mode = report_mode mode, wcr_database_access = database_access mode,
       wcr_current_confirmed_slot = slot, wcr_slot_error_class = slot_error, wcr_rows = ?rows,
       wcr_summary = summarize_rows ?rows, wcr_scan_errors = errors1 @ errors2\<rparr>"
  have "scan_cycle W mode k = Some ?rep"
    by (simp only: scan_cycle_def sl Let_def prod.case b1 insps(1) option.case b2)
  then show ?thesis
    by (intro exI [of _ ?rep] conjI) (simp_all only: watch_cycle_report.simps rows len ready errors)
qed

lemma collect_ready_ids_value:
  assumes "distinct ids" "\<forall>row \<in> set (ready_rows rows). \<exists>i. wrr_intent_id row = Some i"
  shows "collect_ready_ids rows ids =
     (let all = ids @ map (the \<circ> wrr_intent_id) (ready_rows rows) in
      if distinct all then Inr all else Inl DuplicateReadyIntent)"
  using assms
proof (induction rows arbitrary: ids)
  case (Cons row rows)
  show ?case
  proof (cases "wrr_status row = ''ready''")
    case True
    with Cons.prems(2) obtain i where i: "wrr_intent_id row = Some i" by auto
    show ?thesis
    proof (cases "i \<in> set ids")
      case False
      with True i Cons.IH [of "ids @ [i]"] Cons.prems show ?thesis by (simp add: Let_def)
    qed (simp add: True i Let_def)
  next
    case False
    with Cons show ?thesis by simp
  qed
qed simp

text \<open>C20: A scan always ends in a well-formed report: in either mode, whatever the node and the database
  answer, the scan does not panic; it reports at most 256 rows, at most 128 of them ready; every ready
  row carries a clean candidate with its identity, and an unsigned transaction exactly in the dry run;
  every other row carries none and says why; the summary counts the rows of each status; and the error
  list is empty exactly when both bounded reads were complete.\<close>

theorem scan_reports_are_well_formed:
  "\<exists>report. scan_cycle W mode k = Some report
     \<and> list_all (row_of_mode mode) (wcr_rows report)
     \<and> length (wcr_rows report) \<le> 256 \<and> length (ready_rows (wcr_rows report)) \<le> 128
     \<and> (\<forall>st. wcr_summary report st =
          (if st = ''total'' then Some (length (wcr_rows report))
           else if \<exists>row \<in> set (wcr_rows report). wrr_status row = st
           then Some (length (filter (\<lambda>row. wrr_status row = st) (wcr_rows report))) else None))
     \<and> (wcr_scan_errors report = [] \<longleftrightarrow> scan_reads_complete W k)"
proof -
  obtain report where r: "scan_cycle W mode k = Some report" "list_all (row_of_mode mode) (wcr_rows report)"
    "length (wcr_rows report) \<le> 2 * watch_batch_limit" "length (ready_rows (wcr_rows report)) \<le> watch_batch_limit"
    "wcr_summary report = summarize_rows (wcr_rows report)" "wcr_scan_errors report = [] \<longleftrightarrow> scan_reads_complete W k"
    using scan_cycle_report by blast
  have "\<forall>row \<in> set (wcr_rows report). wrr_status row \<noteq> ''total''"
    using r(2) by (auto simp: list_all_iff row_of_mode_def row_well_formed_def)
  with r show ?thesis by (auto simp: watch_batch_limit_def summary_total summary_counts)
qed

text \<open>The ready intents of a scan.\<close>

lemma ready_intents_of_scan:
  assumes "scan_cycle W mode k = Some report" "execute_ready_intent_ids report = Inr ids"
  shows "distinct ids" "length ids \<le> watch_batch_limit" "scan_reads_complete W k"
    "set ids = {i. \<exists>row \<in> set (wcr_rows report). wrr_status row = ''ready'' \<and> wrr_intent_id row = Some i}"
proof -
  from scan_cycle_report [of W mode k] assms(1) have r: "list_all (row_of_mode mode) (wcr_rows report)"
    "length (ready_rows (wcr_rows report)) \<le> watch_batch_limit" "wcr_scan_errors report = [] \<longleftrightarrow> scan_reads_complete W k"
    by auto
  from r(1) have some: "\<forall>row \<in> set (ready_rows (wcr_rows report)). \<exists>i. wrr_intent_id row = Some i"
    by (auto simp: list_all_iff row_of_mode_def dest!: bspec) (auto simp: row_well_formed_def)
  with assms(2) collect_ready_ids_value [of "[]" "wcr_rows report"]
  have "distinct ids" and ids: "ids = map (the \<circ> wrr_intent_id) (ready_rows (wcr_rows report))"
    and e: "wcr_scan_errors report = []"
    by (auto simp: execute_ready_intent_ids_def Let_def split: if_splits)
  show "distinct ids" by fact
  show "length ids \<le> watch_batch_limit" using r(2) by (simp add: ids)
  show "scan_reads_complete W k" using e r(3) by simp
  show "set ids = {i. \<exists>row \<in> set (wcr_rows report). wrr_status row = ''ready'' \<and> wrr_intent_id row = Some i}"
    using some by (force simp: ids)
qed

end
