(* ===== verification/Watch_Example.thy ===== *)
theory Watch_Example
  imports Watch_Scan Execution_Store
begin

text \<open>
  A world in which one intent is ready: a reserve account, an obligation and two token accounts laid out
  byte for byte, a funding row whose budget is reserved and the watch rule that belongs to it. The lemmas
  follow the scan, the revalidation and the attempt on this intent to the transaction that is sent; the
  witnesses of the executing watcher rest on them.
\<close>

section \<open>The accounts\<close>

definition ready_reserve :: solend_reserve where
  "ready_reserve =
     \<lparr>sv_last_update_slot = 200, sv_last_update_stale = False, sv_lending_market = replicate 32 2,
      sv_liquidity_mint = replicate 32 118, sv_liquidity_mint_decimals = 6,
      sv_liquidity_supply = replicate 32 8, sv_pyth_oracle = replicate 32 9,
      sv_switchboard_oracle = replicate 32 10, sv_collateral_mint = replicate 32 11,
      sv_collateral_supply = replicate 32 12\<rparr>"

text \<open>The rates are those of \<open>example_rates\<close>.\<close>

definition ready_reserve_bytes :: bytes where
  "ready_reserve_bytes = reserve_bytes 1 ready_reserve
     (to_le_bytes 8 (1 :: u64) @ to_le_bytes 16 (940000000000000000 :: u128) @ replicate 32 0) (replicate 8 0)
     ([80, 0, 0, 0, 0, 4, 30] @ replicate 66 0 @ [20] @ replicate 97 0 @ [90] @ to_le_bytes 8 (30 :: u64)
      @ replicate 140 0)"

definition ready_obligation :: solend_obligation where
  "ready_obligation =
     \<lparr>so_version = 1, so_last_update_slot = 200, so_last_update_stale = False,
      so_lending_market = replicate 32 2, so_owner = replicate 32 5, so_deposits = [], so_borrows = [],
      so_borrowed_value_upper_bound_wads = 0, so_borrowing_isolated_asset = False,
      so_super_unhealthy_borrow_value_wads = 0, so_unweighted_borrowed_value_wads = 0, so_closeable = False\<rparr>"

definition ready_obligation_bytes :: bytes where
  "ready_obligation_bytes = obligation_bytes ready_obligation (replicate 64 0) [] [] (replicate 1096 0)"

lemma ready_reserve_decoded: "decode_reserve ready_reserve_bytes = Inr ready_reserve"
  unfolding ready_reserve_bytes_def
  by (intro reserve_decoder_exact [THEN conjunct2, THEN conjunct2, THEN conjunct2, rule_format])
    (simp add: reserve_layout_ok_def ready_reserve_def)

lemma ready_obligation_decoded: "decode_obligation ready_obligation_bytes = Inr ready_obligation"
  unfolding ready_obligation_bytes_def
  by (rule decode_obligation_layout) (simp add: obligation_layout_ok_def ready_obligation_def)

lemma ready_rates_decoded: "decode_reserve_rate_snapshot ready_reserve_bytes = Inr example_rates"
  by (simp add: decode_reserve_rate_snapshot_def ready_reserve_bytes_def reserve_bytes_def ready_reserve_def
      bool_byte_def example_rates_def reserve_len_def
      res_last_update_stale_off_def res_liq_available_amount_off_def res_liq_borrowed_amount_wads_off_def
      res_config_optimal_utilization_rate_off_def res_config_min_borrow_rate_off_def
      res_config_optimal_borrow_rate_off_def res_config_max_borrow_rate_off_def
      res_config_protocol_take_rate_off_def res_config_max_utilization_rate_off_def
      res_config_super_max_borrow_rate_off_def nth_append nth_Cons')

lemma ready_rate: "native_supply_apr_from_reserve_data ready_reserve_bytes = Inr (9391008608778828, 93)"
proof -
  have v: "is_reserve_config_valid example_rates" by (simp add: is_reserve_config_valid_def example_rates_def)
  have "computes (supply_apr_wad example_rates) (exact_supply_apr example_rates)"
    by (rule computes_supply [OF v]) (simp add: example_rates_def)
  then obtain w where w: "supply_apr_wad example_rates = Inr w" "unat w = 9391008608778828"
    by (auto simp: computes_def example_rates_apr)
  then have w': "w = 9391008608778828" by (simp add: word_unat_eq_iff)
  show ?thesis
    using w(1) unfolding w'
    by (simp add: native_supply_apr_from_reserve_data_def map_err_def ready_rates_decoded apr_bps_from_wad_def
        market_bps_wad_def apr_bps_sanity_max_def)
qed

section \<open>The rows\<close>

definition ready_id :: string where "ready_id = hex_encode (replicate 16 7)"

definition ready_intent :: new_w5h_funding_intent where
  "ready_intent =
     \<lparr>nfi_intent_id = ready_id, nfi_rule_id_hex = ready_id,
      nfi_canonical_rule_hash_hex = hex_encode (canonical_rule_hash example_crypto example_rule),
      nfi_user_wallet = ''user'', nfi_user_usdc_ata = ''ua'', nfi_controlled_wallet = ''daemon'',
      nfi_controlled_usdc_ata = ''da'', nfi_amount_raw = 500000, nfi_threshold_bps = 50,
      nfi_save_display_apy_bps = 60, nfi_native_onchain_apr_bps = 93,
      nfi_created_at_ms = 0, nfi_expires_at_ms = 180000\<rparr>"

definition ready_funding_row :: funding_row where
  "ready_funding_row = (new_funding_row 1 ready_intent)
     \<lparr>fr_status := ''budget_reserved'', fr_funding_signature := Some ''s1'', fr_funding_finalized_slot := Some 9\<rparr>"

definition ready_funding :: w5h_funding_intent where
  "ready_funding =
     \<lparr>fi_intent_id = ready_id, fi_rule_id_hex = ready_id,
      fi_canonical_rule_hash_hex = hex_encode (canonical_rule_hash example_crypto example_rule),
      fi_user_wallet = ''user'', fi_user_usdc_ata = ''ua'', fi_controlled_wallet = ''daemon'',
      fi_controlled_usdc_ata = ''da'', fi_amount_raw = 500000, fi_threshold_bps = 50,
      fi_save_display_apy_bps = 60, fi_native_onchain_apr_bps = 93, fi_created_at_ms = 0,
      fi_expires_at_ms = 180000, fi_status = BudgetReserved, fi_funding_signature = Some ''s1'',
      fi_funding_finalized_slot = Some 9, fi_execution_signature = None, fi_refund_signature = None,
      fi_last_error = None, fi_updated_at_ms = 1\<rparr>"

lemma ready_row_read: "row_to_intent ready_funding_row = Inr ready_funding"
  by (simp add: row_to_intent_def ready_funding_row_def new_funding_row_def ready_intent_def ready_funding_def
      funding_status_literals ok_or_def)

definition ready_rule_row :: watch_row where
  "ready_rule_row = new_watch_row example_crypto example_store_env 9 example_rule ''json''"

lemma ready_rule_read:
  "watch_row_to_stored example_crypto example_store_env ready_rule_row = Inr (fresh_rule example_crypto 9 example_rule)"
  unfolding ready_rule_row_def
  by (rule new_watch_row_stored)
    (simp_all add: example_store_env_def canonical_rule_hash_def canonical_rule_bytes_def example_crypto_def)

definition ready_snapshot :: funding_snapshot where
  "ready_snapshot =
     \<lparr>fs_intent_id = ready_id, fs_rule_id_hex = ready_id,
      fs_canonical_rule_hash_hex = hex_encode (canonical_rule_hash example_crypto example_rule),
      fs_controlled_wallet = example_key 5, fs_controlled_usdc_ata = example_key 118,
      fs_amount_raw = 500000, fs_threshold_bps = 50, fs_expires_at_ms = 180000\<rparr>"

section \<open>The world\<close>

text \<open>The data of a token account is its mint, and the associated account of a mint has its key.\<close>

definition ready_source :: watch_chain_source where
  "ready_source =
     \<lparr>wcs_slot = (\<lambda>k. Inr 210),
      wcs_reserve = (\<lambda>k key. Inr \<lparr>cro_current_confirmed_slot = 210, cro_reserve_pubkey = key,
         cro_reserve_account = \<lparr>sa_owner = replicate 32 111, sa_data = ready_reserve_bytes\<rparr>\<rparr>),
      wcs_account = (\<lambda>k key. Inr (Some
         (if key = replicate 32 3 then \<lparr>sa_owner = replicate 32 111, sa_data = ready_obligation_bytes\<rparr>
          else \<lparr>sa_owner = replicate 32 65, sa_data = key\<rparr>)))\<rparr>"

definition ready_world :: scan_world where
  "ready_world =
     \<lparr>sw_crypto = example_crypto, sw_store = example_store_env, sw_sdk = instance_sdk,
      sw_hex_decode = (\<lambda>s. result_option (hex_decode s)),
      sw_bs58_decode = (\<lambda>s. if s = ''daemon'' then Inr (replicate 32 5) else Inr (replicate 32 118)),
      sw_unpack = (\<lambda>d. Some \<lparr>st_mint = d, st_owner = replicate 32 5, st_amount = 500000, st_state = TokenInitialized\<rparr>),
      sw_source = Some ready_source, sw_now = (\<lambda>k. 1000),
      sw_funding = (\<lambda>k. Inr [ready_funding_row]), sw_rules = (\<lambda>k. Inr [ready_rule_row])\<rparr>"

definition ready_facts :: chain_facts where
  "ready_facts =
     \<lparr>cf_reserve = \<lparr>rf_address = example_key 1, rf_account_owner = example_key 111,
        rf_last_update_slot = 200, rf_last_update_stale = False, rf_lending_market = example_key 2,
        rf_liquidity_mint = example_key 118, rf_liquidity_mint_decimals = 6,
        rf_liquidity_supply = example_key 8, rf_pyth_oracle = example_key 9,
        rf_switchboard_oracle = example_key 10, rf_collateral_mint = example_key 11,
        rf_collateral_supply = example_key 12\<rparr>,
      cf_obligation = \<lparr>of_address = example_key 3, of_account_owner = example_key 111,
        of_lending_market = example_key 2, of_obligation_owner = example_key 5\<rparr>,
      cf_source_liquidity = Some \<lparr>tf_address = example_key 118, tf_account_owner = example_key 65,
        tf_mint = example_key 118, tf_token_owner = example_key 5, tf_amount_raw = 500000,
        tf_initialized = True, tf_frozen = False\<rparr>,
      cf_collateral = Some \<lparr>tf_address = example_key 11, tf_account_owner = example_key 65,
        tf_mint = example_key 11, tf_token_owner = example_key 5, tf_amount_raw = 500000,
        tf_initialized = True, tf_frozen = False\<rparr>,
      cf_derived = \<lparr>da_token_program = example_key 65, da_source_liquidity_ata = example_key 118,
        da_collateral_ata = example_key 11\<rparr>,
      cf_native_supply_apr_wad = 9391008608778828\<rparr>"

section \<open>The reads\<close>

lemma ready_gathered:
  "gather_facts ready_world ready_source k
     \<lparr>prr_reserve_pubkey = example_key 1, prr_target_obligation = example_key 3, prr_input_mint = example_key 118,
      prr_delegated_wallet = example_key 5, prr_source_liquidity_ata = example_key 118\<rparr>
   = Some (Inr (ready_facts, 210))"
proof -
  have token: "spl_token_program_id instance_sdk = replicate 32 65"
    by (simp add: spl_token_program_id_def instance_sdk_def instance_pubkey_def example_crypto_def example_key_def)
  have ata: "derive_associated_token_address instance_sdk owner mint program = mint" for owner mint program
    by (simp add: derive_associated_token_address_def instance_sdk_def)
  have ne: "replicate 32 (118 :: u8) \<noteq> replicate 32 3" "replicate 32 (11 :: u8) \<noteq> replicate 32 3" by simp_all
  have acc: "gather_token_account ready_world ready_source k key = Inr (Some \<lparr>tf_address = PubkeyBytes key,
      tf_account_owner = example_key 65, tf_mint = PubkeyBytes key, tf_token_owner = example_key 5,
      tf_amount_raw = 500000, tf_initialized = True, tf_frozen = False\<rparr>)" if "key \<noteq> replicate 32 3" for k key
    using that
    by (simp add: gather_token_account_def chain_read_def map_err_def ready_source_def decode_token_account_def
        ready_world_def ok_or_def example_key_def)
  have reserve: "wcs_reserve ready_source k key = Inr \<lparr>cro_current_confirmed_slot = 210, cro_reserve_pubkey = key,
         cro_reserve_account = \<lparr>sa_owner = replicate 32 111, sa_data = ready_reserve_bytes\<rparr>\<rparr>" for k key
    by (simp add: ready_source_def)
  have obligation: "wcs_account ready_source k (replicate 32 3)
      = Inr (Some \<lparr>sa_owner = replicate 32 111, sa_data = ready_obligation_bytes\<rparr>)" for k
    by (simp add: ready_source_def)
  have slot: "wcs_slot ready_source k = Inr 210" for k by (simp add: ready_source_def)
  have keys: "to_pubkey (example_key n) = replicate 32 n" for n by (simp add: example_key_def)
  have sdk: "sw_sdk ready_world = instance_sdk" by (simp add: ready_world_def)
  have mints: "sv_collateral_mint ready_reserve = replicate 32 11" by (simp add: ready_reserve_def)
  have "gather_accounts ready_world ready_source k
     \<lparr>prr_reserve_pubkey = example_key 1, prr_target_obligation = example_key 3, prr_input_mint = example_key 118,
      prr_delegated_wallet = example_key 5, prr_source_liquidity_ata = example_key 118\<rparr>
     \<lparr>cro_current_confirmed_slot = 210, cro_reserve_pubkey = replicate 32 1,
         cro_reserve_account = \<lparr>sa_owner = replicate 32 111, sa_data = ready_reserve_bytes\<rparr>\<rparr>
     ready_reserve 9391008608778828 \<lparr>sa_owner = replicate 32 111, sa_data = ready_obligation_bytes\<rparr>
     ready_obligation = Inr (ready_facts, 210)" for k
    by (simp add: gather_accounts_def Let_def sdk token ata keys mints acc [OF ne(1)] acc [OF ne(2)] slot
        chain_read_def map_err_def ready_facts_def reserve_facts_of_def example_key_def)
      (simp add: ready_reserve_def ready_obligation_def)
  then show ?thesis
    by (simp add: gather_facts_def keys reserve obligation chain_read_def map_err_def ready_reserve_decoded
        ready_obligation_decoded ready_rate decoded_def)
qed

section \<open>The scan and the revalidation\<close>

definition ready_clocks :: preflight_clock_snapshot where
  "ready_clocks = \<lparr>pk_now_ms = 1000, pk_current_confirmed_slot = Some 210\<rparr>"

definition ready_final :: clock_snapshot where
  "ready_final = \<lparr>ck_now_ms = 1000, ck_current_confirmed_slot = 210\<rparr>"

lemma ready_admitted:
  obtains plan p where
    "preflight_candidate example_crypto \<lparr>cin_funding = Some ready_snapshot, cin_rule = Some example_rule\<rparr> ready_clocks
       = NeedsChain p"
    "read_request p = \<lparr>prr_reserve_pubkey = example_key 1, prr_target_obligation = example_key 3,
       prr_input_mint = example_key 118, prr_delegated_wallet = example_key 5,
       prr_source_liquidity_ata = example_key 118\<rparr>"
    "validate_chain example_crypto p ready_facts ready_final = Some (ChainReady plan)"
    "admit example_crypto \<lparr>cin_funding = Some ready_snapshot, cin_rule = Some example_rule\<rparr> ready_clocks
       ready_facts ready_final = Some plan"
proof -
  have env: "envelope_ok example_crypto example_rule example_deposit"
    by (simp add: envelope_ok_def example_rule_def example_deposit_def audited_solend_program_def
        usdc_mint_def example_crypto_def)
  have hex: "hex_lower example_crypto bs = hex_encode bs" for bs
    by (simp add: example_crypto_def hex_encode_def)
  have fund: "funded_by example_crypto ready_snapshot example_rule example_deposit"
    by (simp add: funded_by_def ready_snapshot_def hex) (simp add: example_rule_def example_deposit_def ready_id_def)
  have cond: "condition_ok ready_snapshot example_rule example_deposit example_rate_condition"
    by (simp add: condition_ok_def ready_snapshot_def example_rule_def example_deposit_def example_rate_condition_def)
  have time: "before_deadlines ready_snapshot example_rule 1000 210"
    by (simp add: before_deadlines_def ready_snapshot_def example_rule_def)
  let ?p = "prepared_for example_crypto ready_clocks ready_snapshot example_rule example_deposit example_rate_condition"
  have pre: "preflight_candidate example_crypto \<lparr>cin_funding = Some ready_snapshot, cin_rule = Some example_rule\<rparr>
      ready_clocks = NeedsChain ?p"
    unfolding preflight_candidate_NeedsChain preflight_pair_NeedsChain
    using env fund cond time by (simp add: ready_clocks_def) blast
  have accounts: "accounts_ok example_crypto (wr_delegated_wallet example_rule) (deposit_action example_deposit)
      (fs_controlled_usdc_ata ready_snapshot) ready_facts"
    by (simp add: accounts_ok_def Let_def source_ok_def collateral_ok_def ready_facts_def ready_snapshot_def
        example_rule_def example_deposit_def audited_solend_program_def usdc_mint_def classic_token_program_def
        example_crypto_def)
  have fresh: "reserve_fresh ready_facts 210 16" by (simp add: reserve_fresh_def ready_facts_def)
  have rate: "rate_satisfied ready_facts example_rate_condition"
    by (simp add: rate_satisfied_def ready_facts_def example_rate_condition_def)
  have "\<exists>plan. admit example_crypto \<lparr>cin_funding = Some ready_snapshot, cin_rule = Some example_rule\<rparr> ready_clocks
      ready_facts ready_final = Some plan"
    unfolding admit_iff using env fund cond time accounts fresh rate
    by (simp add: ready_clocks_def ready_final_def) blast
  then obtain plan where adm: "admit example_crypto \<lparr>cin_funding = Some ready_snapshot, cin_rule = Some example_rule\<rparr>
      ready_clocks ready_facts ready_final = Some plan" by blast
  then have val: "validate_chain example_crypto ?p ready_facts ready_final = Some (ChainReady plan)"
    unfolding admit_def pre by (simp split: option.splits chain_outcome.splits)
  have req: "read_request ?p = \<lparr>prr_reserve_pubkey = example_key 1, prr_target_obligation = example_key 3,
       prr_input_mint = example_key 118, prr_delegated_wallet = example_key 5,
       prr_source_liquidity_ata = example_key 118\<rparr>"
    by (simp add: read_request_def prepared_for_def Let_def example_deposit_def ready_snapshot_def example_rule_def)
  from that [OF pre req val adm] show thesis .
qed

lemma ready_world_sel [simp]:
  "sw_crypto ready_world = example_crypto" "sw_store ready_world = example_store_env" "sw_sdk ready_world = instance_sdk"
  "sw_source ready_world = Some ready_source" "sw_now ready_world k = 1000"
  "sw_funding ready_world k = Inr [ready_funding_row]" "sw_rules ready_world k = Inr [ready_rule_row]"
  by (simp_all add: ready_world_def)

lemma ready_rule_found:
  "watch_get example_crypto example_store_env (replicate 16 7) [ready_rule_row] = Inr (Some (fresh_rule example_crypto 9 example_rule))"
proof -
  have "rw_rule_id ready_rule_row = rule_id_hex (replicate 16 7)"
    by (simp add: ready_rule_row_def new_watch_row_def example_rule_def)
  then show ?thesis by (simp add: watch_get_def sql_get_def ready_rule_read)
qed

lemma ready_rule_id: "exact_rule_id (sw_hex_decode ready_world) ready_id = Some (replicate 16 7)"
proof -
  have "hex_decode ready_id = Inr (replicate 16 7)" by (simp add: ready_id_def hex_decode_encode)
  moreover have "length ready_id = 32" by (simp add: ready_id_def)
  moreover have "\<forall>c \<in> set ready_id. lower_hex_char c" by (simp add: ready_id_def hex_encode_def hex_byte_def lower_hex_char_def Let_def hex_chars_def)
  ultimately show ?thesis by (auto simp: exact_rule_id_def ready_world_def result_option_def)
qed

lemma ready_inspection:
  obtains insp plan where "inspect_funding_candidate ready_world k ready_funding (Some 210) None False = Some insp"
    "ci_plan insp = Some plan" "wrr_status (ci_row insp) = ''ready''" "wrr_intent_id (ci_row insp) = Some ready_id"
    "admit example_crypto \<lparr>cin_funding = Some ready_snapshot, cin_rule = Some example_rule\<rparr> ready_clocks
       ready_facts ready_final = Some plan"
proof -
  obtain plan p where p: "preflight_candidate example_crypto \<lparr>cin_funding = Some ready_snapshot, cin_rule = Some example_rule\<rparr>
      ready_clocks = NeedsChain p"
    and req: "read_request p = \<lparr>prr_reserve_pubkey = example_key 1, prr_target_obligation = example_key 3,
       prr_input_mint = example_key 118, prr_delegated_wallet = example_key 5,
       prr_source_liquidity_ata = example_key 118\<rparr>"
    and val: "validate_chain example_crypto p ready_facts ready_final = Some (ChainReady plan)"
    and adm: "admit example_crypto \<lparr>cin_funding = Some ready_snapshot, cin_rule = Some example_rule\<rparr> ready_clocks
       ready_facts ready_final = Some plan"
    by (rule ready_admitted)
  have snap: "funding_snapshot_of (sw_bs58_decode ready_world) ready_funding = Inr ready_snapshot"
    by (simp add: funding_snapshot_of_def ready_world_def ready_funding_def ready_snapshot_def pubkey_from_base58_def
        map_err_def example_key_def)
  have ids: "fi_intent_id ready_funding = ready_id" "fi_rule_id_hex ready_funding = ready_id"
    by (simp_all add: ready_funding_def)
  have rule: "swr_rule (fresh_rule example_crypto 9 example_rule) = example_rule"
    "ineligible_lifecycle (fresh_rule example_crypto 9 example_rule) = None"
    by (simp_all add: fresh_rule_def ineligible_lifecycle_def)
  let ?lc = "lifecycle_report (fresh_rule example_crypto 9 example_rule)"
  let ?insp = "inspection_with_lifecycle ?lc (inspection_ready (ready_row plan None) plan)"
  have chain: "inspect_candidate ready_world ready_source k p False = Some (inspection_ready (ready_row plan None) plan)" for k
    using val by (simp add: inspect_candidate_def req ready_gathered ready_final_def)
  have "inspect_funding_candidate ready_world k ready_funding (Some 210) None False = Some ?insp"
    using p chain
    by (simp add: inspect_funding_candidate_def Let_def ids ready_rule_id ready_rule_found rule snap ready_clocks_def
        del: preflight_candidate.simps)
  moreover have "cd_intent_id (vi_report plan) = Some ready_id"
    by (rule prepared_outcome [OF p, of ready_facts ready_final]) (use val in \<open>simp_all add: ready_snapshot_def\<close>)
  ultimately show thesis using that [of ?insp plan] adm by (simp add: inspection_ready_def ready_row_def)
qed

lemma ready_listed: "list_budget_reserved watch_fetch_limit [ready_funding_row] = Inr [ready_funding]"
  by (simp add: list_budget_reserved_def watch_fetch_limit_def oldest_funding_first_def ready_row_read)
    (simp add: ready_funding_row_def ready_row_read [unfolded ready_funding_row_def])

lemma ready_funding_found: "funding_get ready_id [ready_funding_row] = Inr (Some ready_funding)"
proof -
  have "fr_intent_id ready_funding_row = ready_id"
    by (simp add: ready_funding_row_def new_funding_row_def ready_intent_def)
  then show ?thesis by (simp add: funding_get_def sql_get_def ready_row_read)
qed

lemma ready_rules_listed:
  "list_pending_lifecycle_limit example_crypto example_store_env watch_fetch_limit [ready_rule_row]
     = Inr [fresh_rule example_crypto 9 example_rule]"
proof -
  have "non_terminal_row ready_rule_row"
    by (simp add: non_terminal_row_def ready_rule_row_def new_watch_row_def)
  then show ?thesis
    by (simp add: list_pending_lifecycle_limit_def watch_fetch_limit_def oldest_first_def ready_rule_read)
qed

lemma ready_scan:
  "\<exists>report. scan_cycle ready_world ExecutePreflight k = Some report \<and> execute_ready_intent_ids report = Inr [ready_id]"
proof -
  obtain insp plan where insp: "inspect_funding_candidate ready_world (Suc (Suc k)) ready_funding (Some 210) None False = Some insp"
    "ci_plan insp = Some plan" "wrr_status (ci_row insp) = ''ready''" "wrr_intent_id (ci_row insp) = Some ready_id"
    by (rule ready_inspection)
  have slot: "sample_slot ready_world k = (Some 210, None)"
    by (simp add: sample_slot_def ready_source_def)
  have orphan: "orphan_rule_row ready_world j (fresh_rule example_crypto 9 example_rule) = []" for j
  proof -
    have "sw_hex ready_world (wr_rule_id (swr_rule (fresh_rule example_crypto 9 example_rule))) = ready_id"
      by (simp add: sw_hex_def fresh_rule_def example_rule_def ready_id_def hex_encode_def example_crypto_def)
    then show ?thesis by (simp add: orphan_rule_row_def Let_def ready_funding_found)
  qed
  show ?thesis
    using insp
    by (simp add: scan_cycle_def slot Let_def ready_listed bounded_scan_def watch_batch_limit_def ready_rules_listed
        orphan execute_ready_intent_ids_def)
qed

lemma ready_revalidation:
  obtains insp plan where "revalidate_one ready_world k ready_id = Some insp" "ci_plan insp = Some plan"
    "admit example_crypto \<lparr>cin_funding = Some ready_snapshot, cin_rule = Some example_rule\<rparr> ready_clocks
       ready_facts ready_final = Some plan"
proof -
  obtain insp plan where insp: "inspect_funding_candidate ready_world (k + 2) ready_funding (Some 210) None False = Some insp"
    "ci_plan insp = Some plan"
    "admit example_crypto \<lparr>cin_funding = Some ready_snapshot, cin_rule = Some example_rule\<rparr> ready_clocks
       ready_facts ready_final = Some plan" by (rule ready_inspection)
  have slot: "sample_slot ready_world k = (Some 210, None)"
    by (simp add: sample_slot_def ready_source_def)
  have "revalidate_one ready_world k ready_id = Some insp"
    using insp(1) by (simp add: revalidate_one_def slot Let_def ready_funding_found)
  with insp(2,3) that show thesis by blast
qed

section \<open>The attempt\<close>

lemma ready_review:
  assumes "admit example_crypto \<lparr>cin_funding = Some ready_snapshot, cin_rule = Some example_rule\<rparr> ready_clocks
       ready_facts ready_final = Some plan" and "rc_plan c = plan"
  obtains p st' s' where "production_review instance_world instance_wallet (\<lambda>_. True) c st () = Some (Inr p, st', s')"
proof -
  have "vi_input_amount_raw plan = 500000"
    using admitted_plan [OF assms(1)] by (auto simp: ready_snapshot_def)
  moreover have "plan_for_wallet instance_sdk (replicate 32 5) plan"
    by (rule admitted_plan_for_wallet [OF assms(1) example_pins]) (simp add: example_rule_def example_key_def)
  ultimately show thesis
    using production_review_signs [of instance_world "replicate 32 5" c instance_wallet "\<lambda>_. True" st "()"] that assms(2)
    by (auto simp: instance_sdk_laws instance_node_healthy instance_signer_signs)
qed

text \<open>The node accepts the transaction and loses the reply; the intent stays in \<open>executing\<close>.\<close>

definition ready_state :: "unit execution_state" where
  "ready_state =
     \<lparr>es_funding = [ready_funding_row], es_rules = [ready_rule_row], es_calls = 0, es_sent = [],
      es_pipeline = \<lparr>pst_cache = None, pst_calls = 0\<rparr>, es_signer = ()\<rparr>"

lemma ready_state_inv: "execution_state_inv ready_state"
  by (simp add: execution_state_inv_def ready_state_def)

lemma ready_attempt:
  assumes "production_review instance_world instance_wallet (\<lambda>_. True) c \<lparr>pst_cache = None, pst_calls = 0\<rparr> ()
      = Some (Inr p, st', s')"
    and "rc_intent_id c = ready_id"
  shows "\<exists>rep tx s''. execute_revalidated_candidate (repository_execution_state example_db)
      (production_backend example_executor) c 1000 ready_state = (Some rep, s'') \<and> es_sent s'' = [tx]"
proof -
  obtain tx where tx: "sdk_bincode_parse instance_sdk (rsp_signed_transaction_bytes p) = Inr tx"
    using signed_payload [OF assms(1)] by auto
  let ?run = "execute_revalidated_candidate (repository_execution_state example_db)
       (production_backend example_executor) c 1000 ready_state"
  have "\<exists>rep. fst ?run = Some rep \<and> es_sent (snd ?run) = [tx]"
    using assms tx
    by (simp add: execute_revalidated_candidate_def lease_after_final_revalidation_def Let_def
        repository_execution_state_def production_backend_def on_funding_def run_statement_def example_db_def
        ready_state_def lease_execution_if_budget_reserved_def sql_update_def ready_funding_row_def
        new_funding_row_def ready_intent_def submit_once_cases example_executor_def
        example_lossy_network_def settle_attempt_def base_report_def)
  then show ?thesis by (metis prod.collapse)
qed

end
