(* ===== verification/Watch_Executor.thy ===== *)
theory Watch_Executor
  imports Watch_Example "HOL-Library.Sublist"
begin

text \<open>
  The executing watcher: \<open>execute_from_final_revalidation\<close> of \<open>watch_execute.rs\<close> and one round of
  \<open>run_execute_watch\<close> of \<open>watch.rs\<close>, from the scan through the report, the list of ready intents and, for
  each of them, the revalidation, the attempt and its report. Other actors may write to the database
  before every attempt. A round comes down to a sequence of attempts and foreign steps, so that the
  properties of attempts carry over to it; the plans attempted are those both gates admit from the rows
  and accounts read by the revalidation.
\<close>

section \<open>The round\<close>

definition execute_from_final_revalidation ::
    "'s execution_state_port \<Rightarrow> 's execution_backend \<Rightarrow> (string \<Rightarrow> bytes option) \<Rightarrow> candidate_inspection \<Rightarrow>
     string \<Rightarrow> i64 \<Rightarrow> 's \<Rightarrow> (candidate_artifact_error + execution_attempt_report option) \<times> 's" where
  "execute_from_final_revalidation P B hex_dec inspection expected_intent_id lease_clock s =
     (case revalidated_candidate hex_dec inspection expected_intent_id of
        Inl e \<Rightarrow> (Inl e, s)
      | Inr candidate \<Rightarrow> map_prod Inr id (execute_revalidated_candidate P B candidate lease_clock s))"

datatype round_end = RoundDone | RoundAborted string | RoundPanicked

text \<open>
  What a round meets besides the scan: whether the reports could be written, and the steps of other
  actors before an attempt. The numbers are those of the calls of the scan world.
\<close>

record round_world =
  rnd_emit_cycle :: "watch_cycle_report \<Rightarrow> bool"
  rnd_emit_attempt :: "nat \<Rightarrow> execution_attempt_report \<Rightarrow> bool"
  rnd_foreign :: "nat \<Rightarrow> foreign_step list"

definition calls_per_revalidation :: nat where "calls_per_revalidation = 11"

fun execute_intents ::
    "scan_world \<Rightarrow> round_world \<Rightarrow> 's execution_state execution_state_port \<Rightarrow>
     's execution_state execution_backend \<Rightarrow> nat \<Rightarrow> string list \<Rightarrow> 's execution_state \<Rightarrow>
     round_end \<times> execution_attempt_report list \<times> 's execution_state" where
  "execute_intents W R P B k [] s = (RoundDone, [], s)"
| "execute_intents W R P B k (intent_id # ids) s =
     (let s0 = foldl (\<lambda>s f. foreign_apply f s) s (rnd_foreign R k) in
      case revalidate_one W k intent_id of
        None \<Rightarrow> (RoundPanicked, [], s0)
      | Some final_inspection \<Rightarrow>
          (case execute_from_final_revalidation P B (sw_hex_decode W) final_inspection intent_id
                  (sw_now W (k + 10)) s0 of
             (Inl _, s1) \<Rightarrow> execute_intents W R P B (k + calls_per_revalidation) ids s1
           | (Inr None, s1) \<Rightarrow> (RoundPanicked, [], s1)
           | (Inr (Some attempt), s1) \<Rightarrow>
               (if \<not> rnd_emit_attempt R k attempt
                then (RoundAborted ''watch_execution_report_serialization_failed'', [attempt], s1)
                else if execution_attempt_aborts_cycle attempt
                then (RoundAborted ''cycle_fatal_prebroadcast_failure'', [attempt], s1)
                else case execute_intents W R P B (k + calls_per_revalidation) ids s1 of
                       (e, attempts, s2) \<Rightarrow> (e, attempt # attempts, s2))))"

text \<open>The calls of a scan are numbered below \<open>calls_per_scan\<close>.\<close>

definition calls_per_scan :: nat where "calls_per_scan = 3 + 9 * watch_batch_limit"

definition execute_round ::
    "scan_world \<Rightarrow> round_world \<Rightarrow> 's execution_state execution_state_port \<Rightarrow>
     's execution_state execution_backend \<Rightarrow> nat \<Rightarrow> 's execution_state \<Rightarrow>
     round_end \<times> execution_attempt_report list \<times> 's execution_state" where
  "execute_round W R P B k s =
     (case scan_cycle W ExecutePreflight k of
        None \<Rightarrow> (RoundPanicked, [], s)
      | Some report \<Rightarrow>
          (if \<not> rnd_emit_cycle R report
           then (RoundAborted ''watch_execute_preflight_report_serialization_failed'', [], s)
           else case execute_ready_intent_ids report of
             Inl e \<Rightarrow> (RoundAborted (artifact_error_class e), [], s)
           | Inr ready_intents \<Rightarrow> execute_intents W R P B (k + calls_per_scan) ready_intents s))"

section \<open>What an inspection reads\<close>

text \<open>The two rows of an intent, read one after the other, in a state that allows an execution.\<close>

definition rows_read :: "scan_world \<Rightarrow> nat \<Rightarrow> w5h_funding_intent \<Rightarrow> stored_watch_rule \<Rightarrow> bool" where
  "rows_read W k funding stored \<longleftrightarrow>
     (\<exists>rid t. exact_rule_id (sw_hex_decode W) (fi_intent_id funding) = Some rid
        \<and> fi_rule_id_hex funding = fi_intent_id funding
        \<and> sw_rules W k = Inr t \<and> watch_get (sw_crypto W) (sw_store W) rid t = Inr (Some stored)
        \<and> \<not> swr_completed stored \<and> \<not> swr_revoked stored \<and> swr_status stored \<in> {WrActive, WrConditionMet})"

text \<open>The plan is admitted by both gates from those rows, the facts gathered and clocks read in between.\<close>

definition admitted_from ::
    "scan_world \<Rightarrow> nat \<Rightarrow> u64 option \<Rightarrow> w5h_funding_intent \<Rightarrow> stored_watch_rule \<Rightarrow> validated_plan_inputs \<Rightarrow> bool" where
  "admitted_from W k slot funding stored plan \<longleftrightarrow>
     rows_read W k funding stored
   \<and> (\<exists>snapshot src request facts final_slot.
        funding_snapshot_of (sw_bs58_decode W) funding = Inr snapshot \<and> sw_source W = Some src
      \<and> gather_facts W src (k + 2) request = Some (Inr (facts, final_slot))
      \<and> admit (sw_crypto W) \<lparr>cin_funding = Some snapshot, cin_rule = Some (swr_rule stored)\<rparr>
          \<lparr>pk_now_ms = sw_now W (k + 1), pk_current_confirmed_slot = slot\<rparr> facts
          \<lparr>ck_now_ms = sw_now W (k + 7), ck_current_confirmed_slot = final_slot\<rparr> = Some plan)"

lemma inspect_candidate_ready:
  assumes "inspect_candidate W src k prepared assemble = Some insp" "ci_plan insp = Some plan"
  shows "\<exists>facts final_slot. gather_facts W src k (read_request prepared) = Some (Inr (facts, final_slot))
     \<and> validate_chain (sw_crypto W) prepared facts
         \<lparr>ck_now_ms = sw_now W (k + 5), ck_current_confirmed_slot = final_slot\<rparr> = Some (ChainReady plan)
     \<and> (\<exists>u. insp = inspection_ready (ready_row plan u) plan)"
  using assms
  by (auto simp: inspect_candidate_def inspection_blocked_def inspection_ready_def Let_def
      split: option.splits sum.splits chain_outcome.splits prod.splits if_splits)

lemma inspect_funding_ready:
  assumes insp: "inspect_funding_candidate W k funding slot err assemble = Some insp" "ci_plan insp = Some plan"
  shows "\<exists>stored u. admitted_from W k slot funding stored plan
     \<and> insp = inspection_with_lifecycle (lifecycle_report stored) (inspection_ready (ready_row plan u) plan)"
proof -
  from insp obtain rid t stored snapshot prepared src insp' where
    same: "fi_rule_id_hex funding = fi_intent_id funding"
    and rid: "exact_rule_id (sw_hex_decode W) (fi_intent_id funding) = Some rid"
    and t: "sw_rules W k = Inr t" "watch_get (sw_crypto W) (sw_store W) rid t = Inr (Some stored)"
    and el: "ineligible_lifecycle stored = None"
    and sn: "funding_snapshot_of (sw_bs58_decode W) funding = Inr snapshot"
    and pre: "preflight_candidate (sw_crypto W) \<lparr>cin_funding = Some snapshot, cin_rule = Some (swr_rule stored)\<rparr>
          \<lparr>pk_now_ms = sw_now W (k + 1), pk_current_confirmed_slot = slot\<rparr> = NeedsChain prepared"
    and src: "sw_source W = Some src"
    and ic: "inspect_candidate W src (k + 2) prepared assemble = Some insp'"
    and eq: "insp = inspection_with_lifecycle (lifecycle_report stored) insp'"
    by (auto simp: inspect_funding_candidate_def Let_def inspection_blocked_def
        simp del: preflight_candidate.simps
        split: if_splits option.splits sum.splits preflight_outcome.splits)
  from insp(2) eq have "ci_plan insp' = Some plan" by (simp add: inspection_with_lifecycle_def)
  from inspect_candidate_ready [OF ic this] obtain facts final_slot u where
    f: "gather_facts W src (k + 2) (read_request prepared) = Some (Inr (facts, final_slot))"
    and v: "validate_chain (sw_crypto W) prepared facts
         \<lparr>ck_now_ms = sw_now W (k + 2 + 5), ck_current_confirmed_slot = final_slot\<rparr> = Some (ChainReady plan)"
    and e: "insp' = inspection_ready (ready_row plan u) plan" by blast
  have "rows_read W k funding stored"
    using same rid t el by (auto simp: rows_read_def ineligible_lifecycle_def split: if_splits)
  moreover have sum7: "k + 2 + 5 = k + 7" by simp
  moreover have "admit (sw_crypto W) \<lparr>cin_funding = Some snapshot, cin_rule = Some (swr_rule stored)\<rparr>
      \<lparr>pk_now_ms = sw_now W (k + 1), pk_current_confirmed_slot = slot\<rparr> facts
      \<lparr>ck_now_ms = sw_now W (k + 7), ck_current_confirmed_slot = final_slot\<rparr> = Some plan"
    using v [unfolded sum7] unfolding admit_def pre by simp
  ultimately have "admitted_from W k slot funding stored plan"
    using sn src f unfolding admitted_from_def by blast
  with eq e show ?thesis by blast
qed

section \<open>What the executor accepts\<close>

lemma revalidated_Inr:
  assumes "revalidated_candidate hex_dec insp i = Inr c"
  shows "ci_plan insp = Some (rc_plan c) \<and> rc_intent_id c = i \<and> wrr_intent_id (ci_row insp) = Some i
    \<and> exact_rule_id hex_dec i = Some (rc_rule_id c) \<and> rc_amount_raw c = vi_input_amount_raw (rc_plan c)
    \<and> rc_amount_raw c \<noteq> 0"
  using assms by (auto simp: revalidated_candidate_def Let_def split: if_splits)

lemma revalidate_one_plan:
  assumes "revalidate_one W k i = Some insp" "ci_plan insp = Some plan"
  shows "\<exists>ft funding stored. sw_funding W (k + 1) = Inr ft \<and> funding_get i ft = Inr (Some funding)
     \<and> admitted_from W (k + 2) (fst (sample_slot W k)) funding stored plan"
proof -
  from assms obtain ft funding where ft: "sw_funding W (k + 1) = Inr ft" "funding_get i ft = Inr (Some funding)"
    and insp: "inspect_funding_candidate W (k + 2) funding (fst (sample_slot W k)) (snd (sample_slot W k)) False
      = Some insp"
    by (auto simp: revalidate_one_def Let_def inspection_blocked_def split: prod.splits sum.splits option.splits)
  from inspect_funding_ready [OF insp assms(2)] ft show ?thesis by blast
qed

text \<open>
  A plan admitted by the revalidation of the intent that starts at call \<open>k\<close>: from the slot sampled at \<open>k\<close>,
  the funding row read at \<open>k + 1\<close>, and the rule, the clocks and the accounts read after it.
\<close>

definition revalidated_plan :: "scan_world \<Rightarrow> nat \<Rightarrow> string \<Rightarrow> validated_plan_inputs \<Rightarrow> bool" where
  "revalidated_plan W k i plan \<longleftrightarrow>
     (\<exists>ft funding stored. sw_funding W (k + 1) = Inr ft \<and> funding_get i ft = Inr (Some funding)
        \<and> admitted_from W (k + 2) (fst (sample_slot W k)) funding stored plan)"

section \<open>A round is a sequence of attempts\<close>

fun attempted_intents :: "foreign_step executor_event list \<Rightarrow> string list" where
  "attempted_intents [] = []"
| "attempted_intents (Attempt c now # es) = rc_intent_id c # attempted_intents es"
| "attempted_intents (Foreign f # es) = attempted_intents es"

text \<open>
  An attempt of the loop over \<open>ids\<close> that starts at call \<open>k\<close>: it is for one of them, with the plan of this
  intent's own revalidation, and the lease is asked for at the clock read after it.
\<close>

definition sound_attempt ::
    "scan_world \<Rightarrow> round_world \<Rightarrow> nat \<Rightarrow> string list \<Rightarrow> foreign_step executor_event \<Rightarrow> bool" where
  "sound_attempt W R k ids e \<longleftrightarrow>
     (\<forall>c now. e = Attempt c now \<longrightarrow>
        (\<exists>n < length ids. ids ! n = rc_intent_id c
           \<and> revalidated_plan W (k + n * calls_per_revalidation) (rc_intent_id c) (rc_plan c)
           \<and> now = sw_now W (k + n * calls_per_revalidation + 10))
      \<and> rc_amount_raw c = vi_input_amount_raw (rc_plan c)
      \<and> exact_rule_id (sw_hex_decode W) (rc_intent_id c) = Some (rc_rule_id c))
   \<and> (\<forall>f. e = Foreign f \<longrightarrow> (\<exists>k. f \<in> set (rnd_foreign R k)))"

lemma sound_attempt_later:
  assumes "sound_attempt W R (k + calls_per_revalidation) ids e"
  shows "sound_attempt W R k (i # ids) e"
proof -
  have "\<exists>m < length (i # ids). (i # ids) ! m = j
      \<and> revalidated_plan W (k + m * calls_per_revalidation) j plan \<and> now = sw_now W (k + m * calls_per_revalidation + 10)"
    if "n < length ids" "ids ! n = j" "revalidated_plan W (k + calls_per_revalidation + n * calls_per_revalidation) j plan"
      "now = sw_now W (k + calls_per_revalidation + n * calls_per_revalidation + 10)" for n j plan now
    using that by (intro exI [of _ "Suc n"]) (simp add: add.assoc)
  with assms show ?thesis unfolding sound_attempt_def by blast
qed

lemma subseq_set: "subseq xs ys \<Longrightarrow> set xs \<subseteq> set ys"
  by (induction rule: list_emb.induct) auto

lemma subseq_distinct_sub: "subseq xs ys \<Longrightarrow> distinct ys \<Longrightarrow> distinct xs"
  by (induction rule: list_emb.induct) (auto dest: subseq_set)

lemma foreign_steps:
  "foldl (\<lambda>s f. foreign_apply f s) s fs = foldl (production_step D X) s (map Foreign fs)"
  by (induction fs arbitrary: s) simp_all

lemma attempted_append [simp]:
  "attempted_intents (es @ es') = attempted_intents es @ attempted_intents es'"
  by (induction es rule: attempted_intents.induct) simp_all

lemma attempted_foreign [simp]: "attempted_intents (map Foreign fs) = []"
  by (induction fs) simp_all

lemma one_intent_events:
  assumes "revalidate_one W k i = Some insp"
    and "execute_from_final_revalidation (repository_execution_state D) (production_backend X) (sw_hex_decode W)
           insp i (sw_now W (k + 10)) s = (r, s')"
  shows "\<exists>es. s' = foldl (production_step D X) s es \<and> list_all (sound_attempt W R k (i # ids)) es
     \<and> attempted_intents es = (case r of Inl _ \<Rightarrow> [] | Inr _ \<Rightarrow> [i])"
proof (cases "revalidated_candidate (sw_hex_decode W) insp i")
  case (Inl e)
  with assms(2) have "r = Inl e" "s' = s" by (auto simp: execute_from_final_revalidation_def)
  then show ?thesis by (intro exI [of _ "[]"]) simp
next
  case (Inr c)
  note c = revalidated_Inr [OF Inr]
  have "revalidated_plan W k i (rc_plan c)"
    using revalidate_one_plan [OF assms(1)] c unfolding revalidated_plan_def by blast
  with c have "sound_attempt W R k (i # ids) (Attempt c (sw_now W (k + 10)))"
    by (auto simp: sound_attempt_def intro!: exI [of _ 0])
  moreover have "s' = production_step D X s (Attempt c (sw_now W (k + 10)))" "\<exists>out. r = Inr out"
    using assms(2) Inr by (auto simp: execute_from_final_revalidation_def map_prod_def split: prod.splits)
  ultimately show ?thesis using c by (intro exI [of _ "[Attempt c (sw_now W (k + 10))]"]) auto
qed

lemma execute_intents_events:
  assumes "execute_intents W R (repository_execution_state D) (production_backend X) k ids s = (e, reps, s')"
  shows "\<exists>es. s' = foldl (production_step D X) s es \<and> list_all (sound_attempt W R k ids) es
     \<and> subseq (attempted_intents es) ids"
  using assms
proof (induction ids arbitrary: k s e reps s')
  case Nil
  then show ?case by (intro exI [of _ "[]"]) simp
next
  case (Cons i ids)
  let ?P = "repository_execution_state D" and ?B = "production_backend X"
  let ?F = "map Foreign (rnd_foreign R k)"
  let ?s0 = "foldl (production_step D X) s ?F"
  have F: "foldl (\<lambda>s f. foreign_apply f s) s (rnd_foreign R k) = ?s0" by (rule foreign_steps)
  have sound: "list_all (sound_attempt W R k (i # ids)) ?F" by (auto simp: list_all_iff sound_attempt_def)
  note run = Cons.prems [unfolded execute_intents.simps Let_def F]
  show ?case
  proof (cases "revalidate_one W k i")
    case None
    with run have "s' = ?s0" by simp
    with sound show ?thesis by (intro exI [of _ ?F]) (simp add: list_emb_Nil)
  next
    case (Some insp)
    obtain r s1 where x: "execute_from_final_revalidation ?P ?B (sw_hex_decode W) insp i (sw_now W (k + 10)) ?s0 = (r, s1)"
      by (cases "execute_from_final_revalidation ?P ?B (sw_hex_decode W) insp i (sw_now W (k + 10)) ?s0")
    obtain es where es: "s1 = foldl (production_step D X) ?s0 es" "list_all (sound_attempt W R k (i # ids)) es"
      "attempted_intents es = (case r of Inl _ \<Rightarrow> [] | Inr _ \<Rightarrow> [i])"
      using one_intent_events [OF Some x] by blast
    let ?E = "?F @ es"
    have E: "s1 = foldl (production_step D X) s ?E" "list_all (sound_attempt W R k (i # ids)) ?E"
      "attempted_intents ?E = (case r of Inl _ \<Rightarrow> [] | Inr _ \<Rightarrow> [i])"
      using es sound by simp_all
    show ?thesis
    proof (cases "s' = s1")
      case True
      moreover have "subseq (attempted_intents ?E) (i # ids)" unfolding E(3) by (simp split: sum.splits)
      ultimately show ?thesis using E(1,2) by blast
    next
      case False
      then obtain e2 reps2 where "execute_intents W R ?P ?B (k + calls_per_revalidation) ids s1 = (e2, reps2, s')"
        using run Some x by (auto split: sum.splits option.splits if_splits prod.splits)
      from Cons.IH [OF this] obtain es2 where es2: "s' = foldl (production_step D X) s1 es2"
        "list_all (sound_attempt W R (k + calls_per_revalidation) ids) es2" "subseq (attempted_intents es2) ids"
        by blast
      have later: "list_all (sound_attempt W R k (i # ids)) es2"
        using es2(2) by (rule list.pred_mono_strong) (rule sound_attempt_later)
      have "subseq (attempted_intents (?E @ es2)) (i # ids)"
        using es(3) es2(3) by (auto split: sum.splits)
      moreover have "s' = foldl (production_step D X) s (?E @ es2)" using E(1) es2(1) by simp
      moreover have "list_all (sound_attempt W R k (i # ids)) (?E @ es2)" using E(2) later by simp
      ultimately show ?thesis by blast
    qed
  qed
qed

text \<open>The intents that the scan of a round found ready.\<close>

definition round_intents :: "scan_world \<Rightarrow> nat \<Rightarrow> string list \<Rightarrow> bool" where
  "round_intents W k ids \<longleftrightarrow>
     (\<exists>report. scan_cycle W ExecutePreflight k = Some report \<and> execute_ready_intent_ids report = Inr ids)"

lemma execute_round_events:
  assumes "execute_round W R (repository_execution_state D) (production_backend X) k s = (e, reps, s')"
  shows "\<exists>es ids. s' = foldl (production_step D X) s es
     \<and> list_all (sound_attempt W R (k + calls_per_scan) ids) es \<and> subseq (attempted_intents es) ids
     \<and> distinct ids \<and> length ids \<le> watch_batch_limit
     \<and> (es \<noteq> [] \<longrightarrow> round_intents W k ids \<and> scan_reads_complete W k)"
proof -
  from scan_cycle_report [of W ExecutePreflight k] obtain report where
    scan: "scan_cycle W ExecutePreflight k = Some report" by blast
  note run = assms [unfolded execute_round_def scan option.case]
  show ?thesis
  proof (cases "rnd_emit_cycle R report")
    case False
    with run have "s' = s" by simp
    then show ?thesis by (intro exI [of _ "[]"] exI [of _ "[]"]) simp
  next
    case emit: True
    show ?thesis
    proof (cases "execute_ready_intent_ids report")
      case (Inl err)
      with run emit have "s' = s" by simp
      then show ?thesis by (intro exI [of _ "[]"] exI [of _ "[]"]) simp
    next
      case (Inr ids)
      note ids = ready_intents_of_scan [OF scan Inr]
      from run emit Inr have "execute_intents W R (repository_execution_state D) (production_backend X)
          (k + calls_per_scan) ids s = (e, reps, s')" by simp
      from execute_intents_events [OF this] obtain es where es: "s' = foldl (production_step D X) s es"
        "list_all (sound_attempt W R (k + calls_per_scan) ids) es" "subseq (attempted_intents es) ids" by blast
      have "round_intents W k ids" using scan Inr unfolding round_intents_def by blast
      with es ids show ?thesis by blast
    qed
  qed
qed

text \<open>What is sent over a sequence of events, with the intents it was sent for.\<close>

lemma history_pairs:
  assumes "execution_state_inv s"
  shows "\<exists>ps. es_sent (foldl (production_step D X) s es) = es_sent s @ map snd ps
     \<and> subseq (map fst ps) (attempted_intents es)
     \<and> (\<forall>(i, tx) \<in> set ps. \<exists>c now p. Attempt c now \<in> set es \<and> rc_intent_id c = i
          \<and> signed_by X c p \<and> carried_by X p tx)"
  using assms
proof (induction es arbitrary: s)
  case Nil
  then show ?case by (intro exI [of _ "[]"]) simp
next
  case (Cons e es)
  let ?s1 = "production_step D X s e"
  from history_log [OF Cons.prems, of D X "[e]"] have inv: "execution_state_inv ?s1" by simp
  from Cons.IH [OF this] obtain ps where ps: "es_sent (foldl (production_step D X) ?s1 es) = es_sent ?s1 @ map snd ps"
    "subseq (map fst ps) (attempted_intents es)"
    "\<forall>(i, tx) \<in> set ps. \<exists>c now p. Attempt c now \<in> set es \<and> rc_intent_id c = i \<and> signed_by X c p \<and> carried_by X p tx"
    by blast
  obtain qs where qs: "es_sent ?s1 = es_sent s @ map snd qs"
    "subseq (map fst qs) (attempted_intents [e])"
    "\<forall>(i, tx) \<in> set qs. \<exists>c now p. Attempt c now = e \<and> rc_intent_id c = i \<and> signed_by X c p \<and> carried_by X p tx"
  proof (cases e)
    case (Attempt c now)
    obtain out s' where ex: "execute_revalidated_candidate (repository_execution_state D) (production_backend X) c now s
        = (out, s')" by (cases "execute_revalidated_candidate (repository_execution_state D) (production_backend X) c now s")
    from production.attempt [OF Cons.prems ex] obtain ms where ms: "es_sent s' = es_sent s @ ms" "length ms \<le> 1"
      "\<forall>m \<in> set ms. \<exists>p. signed_by X c p \<and> carried_by X p m" by blast
    have "subseq (map fst (map (Pair (rc_intent_id c)) ms)) [rc_intent_id c]"
      using ms(2) by (cases ms) auto
    with ms ex Attempt that [of "map (Pair (rc_intent_id c)) ms"] show thesis by (fastforce simp: comp_def)
  next
    case (Foreign f)
    with production.foreign [OF Cons.prems, of f] that [of "[]"] show thesis by auto
  qed
  have "es_sent (foldl (production_step D X) s (e # es)) = es_sent s @ map snd (qs @ ps)"
    using ps(1) qs(1) by simp
  moreover have "subseq (map fst (qs @ ps)) (attempted_intents (e # es))"
    using list_emb_append_mono [OF qs(2) ps(2)] by (cases e) simp_all
  moreover have "\<forall>(i, tx) \<in> set (qs @ ps). \<exists>c now p. Attempt c now \<in> set (e # es) \<and> rc_intent_id c = i
      \<and> signed_by X c p \<and> carried_by X p tx"
    using ps(3) qs(3) by fastforce
  ultimately show ?case by blast
qed

text \<open>C3: A round of the executing watcher sends only what it has just validated: whatever the database,
  the node, the wallet and other actors do, every transaction a round hands to the network is sent for
  an intent that its own scan found ready, at most one per intent, in the order of the scan and at most
  128 in all. When the intent is the \<open>n\<close>-th of them, the transaction is the canonical deposit of a plan
  that both gates admitted in the \<open>n\<close>-th revalidation of this round, made after the scan, from the funding
  row of that intent, its unspent rule, the clocks and the accounts read by the calls of that
  revalidation, never from those of the scan or of an earlier round. A round whose scan was incomplete
  sends nothing and changes nothing.\<close>

theorem rounds_broadcast_revalidated_plans:
  assumes "execution_state_inv s" "one_sdk S X"
    and "execute_round W R (repository_execution_state D) (production_backend X) k s = (e, reps, s')"
  shows "(\<exists>ps ids. es_sent s' = es_sent s @ map snd ps \<and> (ps \<noteq> [] \<longrightarrow> round_intents W k ids)
       \<and> distinct ids \<and> length ids \<le> 128 \<and> subseq (map fst ps) ids
       \<and> (\<forall>(i, tx) \<in> set ps. \<exists>n plan. n < length ids \<and> ids ! n = i
            \<and> revalidated_plan W (k + calls_per_scan + n * calls_per_revalidation) i plan
            \<and> plan_deposit_transaction S (lcw_pubkey (ex_wallet X)) plan tx))
     \<and> (\<not> scan_reads_complete W k \<longrightarrow> s' = s)"
proof -
  obtain es ids where es: "s' = foldl (production_step D X) s es"
    "list_all (sound_attempt W R (k + calls_per_scan) ids) es" "subseq (attempted_intents es) ids"
    "distinct ids" "length ids \<le> watch_batch_limit" "es \<noteq> [] \<longrightarrow> round_intents W k ids \<and> scan_reads_complete W k"
    using execute_round_events [OF assms(3)] by blast
  obtain ps where ps: "es_sent s' = es_sent s @ map snd ps" "subseq (map fst ps) (attempted_intents es)"
    "\<forall>(i, tx) \<in> set ps. \<exists>c now p. Attempt c now \<in> set es \<and> rc_intent_id c = i \<and> signed_by X c p \<and> carried_by X p tx"
    using history_pairs [OF assms(1), of D X es] es(1) by blast
  have plans: "\<forall>(i, tx) \<in> set ps. \<exists>n plan. n < length ids \<and> ids ! n = i
      \<and> revalidated_plan W (k + calls_per_scan + n * calls_per_revalidation) i plan
      \<and> plan_deposit_transaction S (lcw_pubkey (ex_wallet X)) plan tx"
    using ps(3) es(2) carried_deposit [OF assms(2)] unfolding list_all_iff sound_attempt_def by fast
  have "subseq (map fst ps) ids" using ps(2) es(3) by (rule subseq_order.order_trans)
  moreover have "ps \<noteq> [] \<longrightarrow> round_intents W k ids"
  proof
    assume "ps \<noteq> []"
    then have "hd ps \<in> set ps" by simp
    with ps(3) have "es \<noteq> []" by (cases "hd ps") auto
    with es(6) show "round_intents W k ids" by simp
  qed
  moreover have "length ids \<le> 128" using es(5) by (simp add: watch_batch_limit_def)
  moreover have "\<not> scan_reads_complete W k \<longrightarrow> s' = s" using es(1,6) by auto
  ultimately show ?thesis using ps(1) plans es(4) by blast
qed

definition quiet_world :: scan_world where
  "quiet_world =
     \<lparr>sw_crypto = example_crypto, sw_store = example_store_env, sw_sdk = instance_sdk,
      sw_hex_decode = (\<lambda>s. result_option (hex_decode s)), sw_bs58_decode = (\<lambda>s. Inl s),
      sw_unpack = (\<lambda>d. None), sw_source = None, sw_now = (\<lambda>k. 0),
      sw_funding = (\<lambda>k. Inr [new_funding_row 1 example_intent]), sw_rules = (\<lambda>k. Inr [])\<rparr>"

section \<open>Revalidation decides\<close>

lemma preflight_identity:
  assumes "preflight_candidate C \<lparr>cin_funding = Some f, cin_rule = Some r\<rparr> clocks = NeedsChain p"
    and "validate_chain C p facts fin = Some (ChainReady plan)"
  shows "cd_rule_id_hex (vi_report plan) = Some (fs_rule_id_hex f)" "fs_rule_id_hex f = fs_intent_id f"
    "cd_intent_id (vi_report plan) = Some (fs_intent_id f)"
    "kr_wall_clock_eligible (cd_clocks (vi_report plan)) = Some True"
    "kr_slot_clock_eligible (cd_clocks (vi_report plan)) = Some True"
    "cd_classification (vi_report plan) = ClsReady"
    "vi_input_amount_raw plan \<noteq> 0"
    "\<exists>amounts. cd_amounts (vi_report plan) = Some amounts \<and> am_all_equal_and_nonzero amounts
       \<and> am_action_input_amount_raw amounts = Some (decimal (unat (vi_input_amount_raw plan)))
       \<and> am_rule_max_input_amount_raw amounts = Some (decimal (unat (vi_input_amount_raw plan)))
       \<and> am_funding_amount_raw amounts = Some (decimal (unat (vi_input_amount_raw plan)))"
proof -
  from assms(1) obtain d c slot where ok: "envelope_ok C r d" "funded_by C f r d" "condition_ok f r d c"
    and p: "p = prepared_for C clocks f r d c"
    unfolding preflight_candidate_NeedsChain preflight_pair_NeedsChain by auto
  from assms(2) obtain fexp rexp where exp: "kr_funding_expires_at_ms (cd_clocks (pd_report p)) = Some fexp"
    "kr_rule_expires_at_slot (cd_clocks (pd_report p)) = Some rexp"
    and none: "chain_findings C p fexp rexp facts fin = []"
    and rep: "vi_report plan = chain_report p fexp rexp facts fin [] (Some True)"
    and amount: "vi_input_amount_raw plan = ca_input_amount_raw (pd_action p)"
    by (auto simp: validate_chain_Ready)
  note report_defs = chain_report_def Let_def set_classification_from_findings_def prepared_for_def preflight_report_def
  from none have dl: "sint (ck_now_ms fin) < sint fexp" "ck_current_confirmed_slot fin < rexp"
    unfolding p chain_findings_Nil by (auto simp: word_less_nat_alt)
  show "cd_rule_id_hex (vi_report plan) = Some (fs_rule_id_hex f)" "fs_rule_id_hex f = fs_intent_id f"
    "cd_intent_id (vi_report plan) = Some (fs_intent_id f)"
    using ok(2) by (simp_all add: rep p report_defs funded_by_def)
  show "kr_wall_clock_eligible (cd_clocks (vi_report plan)) = Some True"
    "kr_slot_clock_eligible (cd_clocks (vi_report plan)) = Some True"
    using dl by (simp_all add: rep report_defs)
  show "cd_classification (vi_report plan) = ClsReady"
    by (simp add: rep report_defs primary_classification_Ready)
  show "vi_input_amount_raw plan \<noteq> 0" using ok(2) by (simp add: amount p funded_by_def)
  show "\<exists>amounts. cd_amounts (vi_report plan) = Some amounts \<and> am_all_equal_and_nonzero amounts
       \<and> am_action_input_amount_raw amounts = Some (decimal (unat (vi_input_amount_raw plan)))
       \<and> am_rule_max_input_amount_raw amounts = Some (decimal (unat (vi_input_amount_raw plan)))
       \<and> am_funding_amount_raw amounts = Some (decimal (unat (vi_input_amount_raw plan)))"
    using ok(1,2)
    by (simp add: rep amount p report_defs envelope_ok_def funded_by_def amounts_equal_def option_holds_def)
qed

lemma snapshot_intent_id:
  "funding_snapshot_of bs58 funding = Inr snap \<Longrightarrow> fs_intent_id snap = fi_intent_id funding"
  by (auto simp: funding_snapshot_of_def)

lemma admit_Some:
  "admit C inp clocks facts fin = Some v \<longleftrightarrow>
     (\<exists>p. preflight_candidate C inp clocks = NeedsChain p \<and> validate_chain C p facts fin = Some (ChainReady v))"
  by (simp add: admit_def del: preflight_candidate.simps
      split: preflight_outcome.split option.split chain_outcome.split)

lemma ready_plan_accepted:
  assumes insp: "revalidate_one W k i = Some insp" and plan: "ci_plan insp = Some plan"
  shows "\<exists>c. revalidated_candidate (sw_hex_decode W) insp i = Inr c \<and> rc_plan c = plan"
proof -
  from insp plan obtain ft funding where ft: "sw_funding W (k + 1) = Inr ft" "funding_get i ft = Inr (Some funding)"
    and inspect: "inspect_funding_candidate W (k + 2) funding (fst (sample_slot W k)) (snd (sample_slot W k)) False
      = Some insp"
    by (auto simp: revalidate_one_def Let_def inspection_blocked_def split: prod.splits sum.splits option.splits)
  from inspect_funding_ready [OF inspect plan] obtain stored u where
    adm: "admitted_from W (k + 2) (fst (sample_slot W k)) funding stored plan"
    and row: "insp = inspection_with_lifecycle (lifecycle_report stored) (inspection_ready (ready_row plan u) plan)"
    by blast
  from adm obtain rid snap facts fin clocks p where
    rid: "exact_rule_id (sw_hex_decode W) (fi_intent_id funding) = Some rid"
    and snap: "funding_snapshot_of (sw_bs58_decode W) funding = Inr snap"
    and pre: "preflight_candidate (sw_crypto W) \<lparr>cin_funding = Some snap, cin_rule = Some (swr_rule stored)\<rparr> clocks
      = NeedsChain p"
    and val: "validate_chain (sw_crypto W) p facts fin = Some (ChainReady plan)"
    unfolding admitted_from_def rows_read_def admit_Some by blast
  note id = preflight_identity [OF pre val]
  have i: "fs_intent_id snap = i" using funding_get_intent_id [OF ft(2)] snapshot_intent_id [OF snap] by simp
  have rid: "exact_rule_id (sw_hex_decode W) i = Some rid" using rid funding_get_intent_id [OF ft(2)] by simp
  from id(8) obtain amounts where amounts: "cd_amounts (vi_report plan) = Some amounts" "am_all_equal_and_nonzero amounts"
    "am_action_input_amount_raw amounts = Some (decimal (unat (vi_input_amount_raw plan)))"
    "am_rule_max_input_amount_raw amounts = Some (decimal (unat (vi_input_amount_raw plan)))"
    "am_funding_amount_raw amounts = Some (decimal (unat (vi_input_amount_raw plan)))" by blast
  have "revalidated_candidate (sw_hex_decode W) insp i =
      Inr \<lparr>rc_intent_id = i, rc_rule_id = rid, rc_amount_raw = vi_input_amount_raw plan, rc_plan = plan\<rparr>"
    using id(1-7) i rid amounts
    by (simp add: revalidated_candidate_def Let_def row inspection_ready_def ready_row_def ok_or_def)
  then show ?thesis by simp
qed

text \<open>C16: The checks between validation and lease agree with the validation: the revalidation of an intent
  never panics and gives a well-formed inspection, and the executor accepts it, with its plan, exactly
  when the inspection carries that plan; so no candidate both gates admitted is dropped as malformed, and
  no other candidate reaches the lease.\<close>

theorem revalidation_decides:
  "\<exists>insp. revalidate_one W k i = Some insp \<and> inspection_well_formed ExecutePreflight insp
     \<and> (\<forall>plan. ci_plan insp = Some plan \<longleftrightarrow>
          (\<exists>c. revalidated_candidate (sw_hex_decode W) insp i = Inr c \<and> rc_plan c = plan))"
proof -
  have "\<exists>insp. revalidate_one W k i = Some insp \<and> inspection_well_formed ExecutePreflight insp"
    using inspect_funding_well_formed [of W "k + 2" _ "fst (sample_slot W k)" "snd (sample_slot W k)" ExecutePreflight]
    by (auto simp: revalidate_one_def Let_def error_row split: prod.splits sum.splits option.splits)
  then obtain insp where insp: "revalidate_one W k i = Some insp" "inspection_well_formed ExecutePreflight insp" by blast
  moreover have "ci_plan insp = Some plan \<longleftrightarrow>
      (\<exists>c. revalidated_candidate (sw_hex_decode W) insp i = Inr c \<and> rc_plan c = plan)" for plan
    using ready_plan_accepted [OF insp(1)] revalidated_Inr by fastforce
  ultimately show ?thesis by blast
qed

section \<open>A round that sends\<close>

definition quiet_round :: round_world where
  "quiet_round = \<lparr>rnd_emit_cycle = (\<lambda>r. True), rnd_emit_attempt = (\<lambda>k r. True), rnd_foreign = (\<lambda>k. [])\<rparr>"

lemma ready_round:
  obtains e reps s' tx where "execute_round ready_world quiet_round (repository_execution_state example_db)
      (production_backend example_executor) k ready_state = (e, reps, s')" "es_sent s' = [tx]"
proof -
  obtain report where scan: "scan_cycle ready_world ExecutePreflight k = Some report"
    "execute_ready_intent_ids report = Inr [ready_id]" using ready_scan by blast
  obtain insp plan where insp: "revalidate_one ready_world (k + calls_per_scan) ready_id = Some insp"
    "ci_plan insp = Some plan"
    and adm: "admit example_crypto \<lparr>cin_funding = Some ready_snapshot, cin_rule = Some example_rule\<rparr> ready_clocks
       ready_facts ready_final = Some plan" by (rule ready_revalidation)
  from ready_plan_accepted [OF insp] obtain c where
    c: "revalidated_candidate (sw_hex_decode ready_world) insp ready_id = Inr c" "rc_plan c = plan" by blast
  obtain p st' sg where review: "production_review instance_world instance_wallet (\<lambda>_. True) c
      \<lparr>pst_cache = None, pst_calls = 0\<rparr> () = Some (Inr p, st', sg)" by (rule ready_review [OF adm c(2)])
  have "rc_intent_id c = ready_id" using revalidated_Inr [OF c(1)] by blast
  from ready_attempt [OF review this] obtain rep tx s1 where
    run: "execute_revalidated_candidate (repository_execution_state example_db) (production_backend example_executor)
      c 1000 ready_state = (Some rep, s1)" "es_sent s1 = [tx]" by blast
  let ?round = "execute_round ready_world quiet_round (repository_execution_state example_db)
      (production_backend example_executor) k ready_state"
  have "snd (snd ?round) = s1"
    using scan insp(1) c(1) run(1)
    by (simp add: execute_round_def quiet_round_def execute_from_final_revalidation_def)
  then have "?round = (fst ?round, fst (snd ?round), s1)" by (metis prod.collapse)
  from that [OF this run(2)] show thesis .
qed

theorem rounds_broadcast_revalidated_plans_witness:
  "\<exists>e reps s' tx plan. execute_round ready_world quiet_round (repository_execution_state example_db)
       (production_backend example_executor) 0 ready_state = (e, reps, s')
     \<and> es_sent ready_state = [] \<and> es_sent s' = [tx] \<and> round_intents ready_world 0 [ready_id]
     \<and> revalidated_plan ready_world calls_per_scan ready_id plan
     \<and> plan_deposit_transaction instance_sdk (replicate 32 5) plan tx"
proof -
  obtain e reps s' tx where r: "execute_round ready_world quiet_round (repository_execution_state example_db)
      (production_backend example_executor) 0 ready_state = (e, reps, s')" "es_sent s' = [tx]" by (rule ready_round)
  have start: "es_sent ready_state = []" by (simp add: ready_state_def)
  from rounds_broadcast_revalidated_plans [OF ready_state_inv example_one_sdk r(1)] obtain ps ids where
    ps: "es_sent s' = es_sent ready_state @ map snd ps" "ps \<noteq> [] \<longrightarrow> round_intents ready_world 0 ids"
      "\<forall>(i, tx) \<in> set ps. \<exists>n plan. n < length ids \<and> ids ! n = i
            \<and> revalidated_plan ready_world (0 + calls_per_scan + n * calls_per_revalidation) i plan
            \<and> plan_deposit_transaction instance_sdk (lcw_pubkey (ex_wallet example_executor)) plan tx" by blast
  from ps(1) r(2) start obtain i where one: "ps = [(i, tx)]" by (cases ps) auto
  with ps(2) have "round_intents ready_world 0 ids" by simp
  moreover have ids: "round_intents ready_world 0 [ready_id]"
    using ready_scan unfolding round_intents_def by blast
  ultimately have "ids = [ready_id]" unfolding round_intents_def by auto
  with ps(3) one have "\<exists>plan. revalidated_plan ready_world calls_per_scan ready_id plan
      \<and> plan_deposit_transaction instance_sdk (replicate 32 5) plan tx"
    by (auto simp: example_executor_def)
  with r start ids show ?thesis by blast
qed

end
