(* ===== verification/Tx_Lifecycle.thy ===== *)
theory Tx_Lifecycle
  imports Solana_Sdk
begin

text \<open>
  The lifecycle of a submitted transaction: the transition function of
  \<open>crates/solana-core/src/tx_lifecycle.rs\<close>, with its records, the closing rule and the events due, and
  the polling worker of \<open>crates/solana-core/src/tracker.rs\<close> that drives it. The worker's map of records
  is an association list with distinct signatures; what the RPC pool answers in a tick is a parameter.
  The lemmas give the transition graph, the precedence order, the bound on rebroadcasts and when a
  record is closed.
\<close>

section \<open>States and observations\<close>

datatype tx_state =
    TxSubmitted
  | TxDropped
  | TxConfirmed u64
  | TxFinalized u64
  | TxFailed string
  | TxExpired

fun precedence :: "tx_state \<Rightarrow> u8" where
  "precedence TxSubmitted = 0"
| "precedence TxDropped = 1"
| "precedence TxExpired = 1"
| "precedence (TxConfirmed _) = 2"
| "precedence (TxFailed _) = 3"
| "precedence (TxFinalized _) = 4"

fun tx_is_terminal :: "tx_state \<Rightarrow> bool" where
  "tx_is_terminal (TxFinalized _) = True"
| "tx_is_terminal (TxFailed _) = True"
| "tx_is_terminal TxExpired = True"
| "tx_is_terminal _ = False"

fun tx_is_success :: "tx_state \<Rightarrow> bool" where
  "tx_is_success (TxFinalized _) = True"
| "tx_is_success _ = False"

fun tx_is_failure :: "tx_state \<Rightarrow> bool" where
  "tx_is_failure (TxFailed _) = True"
| "tx_is_failure TxExpired = True"
| "tx_is_failure _ = False"

fun tx_slot :: "tx_state \<Rightarrow> u64 option" where
  "tx_slot (TxConfirmed slot) = Some slot"
| "tx_slot (TxFinalized slot) = Some slot"
| "tx_slot _ = None"

record rpc_observation =
  ob_status :: "string option"
  ob_err :: "string option"
  ob_slot :: "u64 option"

definition observation_is_null :: "rpc_observation \<Rightarrow> bool" where
  "observation_is_null ob \<longleftrightarrow> ob_status ob = None"

definition observation_has_error :: "rpc_observation \<Rightarrow> bool" where
  "observation_has_error ob \<longleftrightarrow> ob_err ob \<noteq> None"

record tracking_record =
  tk_signature :: string
  tk_transaction_id :: string
  tk_request_id :: string
  tk_session_id :: string
  tk_wallet_pubkey :: string
  tk_state :: tx_state
  tk_last_valid_block_height :: u64
  tk_submission_block_height :: u64
  tk_slot :: "u64 option"
  tk_err :: "string option"
  tk_confirmed_emitted :: bool
  tk_finalized_emitted :: bool
  tk_failed_emitted :: bool
  tk_dropped_emitted :: bool
  tk_expired_emitted :: bool
  tk_signed_tx_bytes :: "bytes option"
  tk_retry_count :: u32

definition tracking_with_bytes ::
    "string \<Rightarrow> string \<Rightarrow> string \<Rightarrow> string \<Rightarrow> string \<Rightarrow> u64 \<Rightarrow> u64 \<Rightarrow> bytes option \<Rightarrow> tracking_record" where
  "tracking_with_bytes sg transaction_id request_id session_id wallet_pubkey last_valid_block_height
     submission_block_height signed_tx_bytes =
     \<lparr>tk_signature = sg, tk_transaction_id = transaction_id, tk_request_id = request_id,
      tk_session_id = session_id, tk_wallet_pubkey = wallet_pubkey, tk_state = TxSubmitted,
      tk_last_valid_block_height = last_valid_block_height,
      tk_submission_block_height = submission_block_height, tk_slot = None, tk_err = None,
      tk_confirmed_emitted = False, tk_finalized_emitted = False, tk_failed_emitted = False,
      tk_dropped_emitted = False, tk_expired_emitted = False, tk_signed_tx_bytes = signed_tx_bytes,
      tk_retry_count = 0\<rparr>"

definition tracking_new ::
    "string \<Rightarrow> string \<Rightarrow> string \<Rightarrow> string \<Rightarrow> string \<Rightarrow> u64 \<Rightarrow> u64 \<Rightarrow> tracking_record" where
  "tracking_new sg transaction_id request_id session_id wallet_pubkey last_valid submission =
     tracking_with_bytes sg transaction_id request_id session_id wallet_pubkey last_valid submission None"

definition dropped_grace_blocks :: u64 where "dropped_grace_blocks = 50"
definition expiry_tracking_buffer :: u64 where "expiry_tracking_buffer = 32"

section \<open>The transition function\<close>

definition calculate_next_state :: "tx_state \<Rightarrow> rpc_observation \<Rightarrow> u64 \<Rightarrow> u64 \<Rightarrow> u64 \<Rightarrow> tx_state" where
  "calculate_next_state current ob current_block_height submission_height last_valid_height =
     (case current of
        TxFinalized _ \<Rightarrow> current
      | TxFailed _ \<Rightarrow> current
      | _ \<Rightarrow>
          (case ob_err ob of
             Some e \<Rightarrow> TxFailed e
           | None \<Rightarrow>
               (case ob_status ob of
                  Some status \<Rightarrow>
                    (if status = ''finalized'' then TxFinalized (case ob_slot ob of Some s \<Rightarrow> s | None \<Rightarrow> 0)
                     else if status = ''confirmed'' then
                       (if precedence current < precedence (TxConfirmed 0) \<or> current = TxExpired
                        then TxConfirmed (case ob_slot ob of Some s \<Rightarrow> s | None \<Rightarrow> 0) else current)
                     else if status = ''processed'' then current
                     else current)
                | None \<Rightarrow>
                    (if (case current of TxConfirmed _ \<Rightarrow> True | _ \<Rightarrow> False) then current
                     else if last_valid_height < current_block_height
                     then (if current = TxExpired then current else TxExpired)
                     else if dropped_grace_blocks \<le> saturating_sub current_block_height submission_height
                          \<and> current = TxSubmitted
                     then TxDropped
                     else current))))"

definition should_continue_tracking :: "tracking_record \<Rightarrow> u64 \<Rightarrow> bool" where
  "should_continue_tracking r current_block_height =
     (case tk_state r of
        TxFinalized _ \<Rightarrow> False
      | TxFailed _ \<Rightarrow> False
      | TxExpired \<Rightarrow> current_block_height \<le> tk_last_valid_block_height r + expiry_tracking_buffer
      | _ \<Rightarrow> True)"

datatype lifecycle_event_kind = EvConfirmed u64 | EvFinalized u64 | EvFailed string | EvDropped | EvExpired

definition pending_events :: "tracking_record \<Rightarrow> lifecycle_event_kind list" where
  "pending_events r =
     (case tk_state r of
        TxConfirmed slot \<Rightarrow> (if \<not> tk_confirmed_emitted r then [EvConfirmed slot] else [])
      | TxFinalized slot \<Rightarrow>
          (if \<not> tk_confirmed_emitted r then [EvConfirmed slot] else [])
          @ (if \<not> tk_finalized_emitted r then [EvFinalized slot] else [])
      | TxFailed e \<Rightarrow> (if \<not> tk_failed_emitted r then [EvFailed e] else [])
      | TxDropped \<Rightarrow> (if \<not> tk_dropped_emitted r then [EvDropped] else [])
      | TxExpired \<Rightarrow> (if \<not> tk_expired_emitted r then [EvExpired] else [])
      | TxSubmitted \<Rightarrow> [])"

section \<open>The polling worker\<close>

record state_change =
  sc_signature :: string
  sc_transaction_id :: string
  sc_request_id :: string
  sc_session_id :: string
  sc_wallet_pubkey :: string
  sc_from :: tx_state
  sc_to :: tx_state
  sc_block_height :: u64

datatype poll_tier = TierHot | TierWarm | TierCool | TierExpiryWatch

definition from_block_distance :: "u64 \<Rightarrow> poll_tier" where
  "from_block_distance distance =
     (if distance \<le> 30 then TierHot else if distance \<le> 100 then TierWarm
      else if distance \<le> 300 then TierCool else TierExpiryWatch)"

fun skip_ticks :: "poll_tier \<Rightarrow> u64" where
  "skip_ticks TierHot = 0"
| "skip_ticks TierWarm = 1"
| "skip_ticks TierCool = 4"
| "skip_ticks TierExpiryWatch = 14"

definition max_batch_size :: nat where "max_batch_size = 256"

definition default_max_retries :: u32 where "default_max_retries = 3"

datatype confirmation_status = StatusProcessed | StatusConfirmed | StatusFinalized

record tracker_status =
  ts_slot :: u64
  ts_err :: "string option"                                \<comment> \<open>the debug text of the error\<close>
  ts_confirmation_status :: "confirmation_status option"

fun confirmation_text :: "confirmation_status \<Rightarrow> string" where
  "confirmation_text StatusProcessed = ''processed''"
| "confirmation_text StatusConfirmed = ''confirmed''"
| "confirmation_text StatusFinalized = ''finalized''"

definition status_to_observation :: "tracker_status option \<Rightarrow> rpc_observation" where
  "status_to_observation status =
     (case status of
        None \<Rightarrow> \<lparr>ob_status = None, ob_err = None, ob_slot = None\<rparr>
      | Some s \<Rightarrow> \<lparr>ob_status = map_option confirmation_text (ts_confirmation_status s),
                   ob_err = ts_err s, ob_slot = Some (ts_slot s)\<rparr>)"

type_synonym tracker_map = "(signature \<times> tracking_record) list"

text \<open>The entry of a signature changed in place, \<open>get_mut\<close>.\<close>

definition update_entry :: "signature \<Rightarrow> (tracking_record \<Rightarrow> tracking_record) \<Rightarrow> tracker_map \<Rightarrow> tracker_map" where
  "update_entry sg f t = map (\<lambda>(k, r). (k, if k = sg then f r else r)) t"

definition track :: "signature \<Rightarrow> tracking_record \<Rightarrow> tracker_map \<Rightarrow> tracker_map" where
  "track sg r t = (if map_of t sg \<noteq> None then t else t @ [(sg, r)])"

text \<open>What the RPC pool answers in one tick: the height, the statuses of a batch, each rebroadcast.\<close>

record tracker_rpc =
  tr_block_height :: "u64 option"
  tr_statuses :: "signature list \<Rightarrow> tracker_status option list option"
  tr_rebroadcast :: "bytes \<Rightarrow> bool"

definition eligible :: "u64 \<Rightarrow> u64 \<Rightarrow> tracker_map \<Rightarrow> signature list" where
  "eligible tick_counter current_height t =
     map fst (filter (\<lambda>(sg, r).
       tick_counter mod (skip_ticks (from_block_distance
         (saturating_sub current_height (tk_submission_block_height r))) + 1) = 0) t)"

function chunks :: "nat \<Rightarrow> 'a list \<Rightarrow> 'a list list" where
  "chunks n xs = (if xs = [] \<or> n = 0 then [] else take n xs # chunks n (drop n xs))"
  by pat_completeness auto
termination by (relation "measure (\<lambda>(n, xs). length xs)") auto

declare chunks.simps [simp del]

definition observed_state :: "u64 \<Rightarrow> rpc_observation \<Rightarrow> tracking_record \<Rightarrow> tx_state" where
  "observed_state current_height ob r =
     calculate_next_state (tk_state r) ob current_height (tk_submission_block_height r)
       (tk_last_valid_block_height r)"

definition apply_observation :: "u64 \<Rightarrow> rpc_observation \<Rightarrow> tracking_record \<Rightarrow> tracking_record" where
  "apply_observation current_height ob r =
     (let new_state = observed_state current_height ob r in
      if new_state = tk_state r then r
      else r\<lparr>tk_slot := (case tx_slot new_state of Some s \<Rightarrow> Some s | None \<Rightarrow> tk_slot r),
             tk_err := (case new_state of TxFailed e \<Rightarrow> Some e | _ \<Rightarrow> tk_err r),
             tk_state := new_state\<rparr>)"

definition change_of :: "u64 \<Rightarrow> tracking_record \<Rightarrow> tx_state \<Rightarrow> state_change" where
  "change_of current_height r new_state =
     \<lparr>sc_signature = tk_signature r, sc_transaction_id = tk_transaction_id r,
      sc_request_id = tk_request_id r, sc_session_id = tk_session_id r,
      sc_wallet_pubkey = tk_wallet_pubkey r, sc_from = tk_state r, sc_to = new_state,
      sc_block_height = current_height\<rparr>"

text \<open>One status applied; a status missing from the answer counts as null.\<close>

definition apply_status ::
    "u64 \<Rightarrow> tracker_status option list \<Rightarrow> tracker_map \<times> state_change list \<Rightarrow> nat \<times> signature \<Rightarrow>
     tracker_map \<times> state_change list" where
  "apply_status current_height statuses tc isg =
     (case (tc, isg) of ((t, changes), (i, sg)) \<Rightarrow>
        let ob = status_to_observation (if i < length statuses then statuses ! i else None) in
        case map_of t sg of
          None \<Rightarrow> (t, changes)
        | Some r \<Rightarrow>
            (let new_state = observed_state current_height ob r in
             (update_entry sg (apply_observation current_height ob) t,
              if new_state = tk_state r then changes else changes @ [change_of current_height r new_state])))"

definition apply_batch ::
    "tracker_rpc \<Rightarrow> u64 \<Rightarrow> tracker_map \<times> state_change list \<Rightarrow> signature list \<Rightarrow> tracker_map \<times> state_change list" where
  "apply_batch rpc current_height tc sigs =
     (case tr_statuses rpc sigs of
        None \<Rightarrow> tc
      | Some statuses \<Rightarrow> foldl (apply_status current_height statuses) tc (enumerate 0 sigs))"

definition rebroadcast_candidates :: "u32 \<Rightarrow> u64 \<Rightarrow> tracker_map \<Rightarrow> (signature \<times> bytes) list" where
  "rebroadcast_candidates max_retries current_height t =
     List.map_filter (\<lambda>(sg, r).
       if tk_state r = TxDropped \<and> tk_retry_count r < max_retries
          \<and> current_height \<le> tk_last_valid_block_height r
       then map_option (Pair sg) (tk_signed_tx_bytes r) else None) t"

definition rebroadcast_step ::
    "tracker_rpc \<Rightarrow> u64 \<Rightarrow> tracker_map \<Rightarrow> signature \<times> bytes \<Rightarrow> tracker_map" where
  "rebroadcast_step rpc current_height t c =
     (case c of (sg, tx_bytes) \<Rightarrow>
        if tr_rebroadcast rpc tx_bytes
        then update_entry sg (\<lambda>r. r\<lparr>tk_retry_count := tk_retry_count r + 1, tk_state := TxSubmitted,
               tk_submission_block_height := current_height\<rparr>) t
        else update_entry sg (\<lambda>r. r\<lparr>tk_retry_count := tk_retry_count r + 1\<rparr>) t)"

definition remove_closed :: "u64 \<Rightarrow> tracker_map \<Rightarrow> tracker_map" where
  "remove_closed current_height t = filter (\<lambda>(sg, r). should_continue_tracking r current_height) t"

text \<open>One tick: the records after it, the changes sent to the persister, the bytes rebroadcast.\<close>

definition tracker_tick ::
    "u32 \<Rightarrow> tracker_rpc \<Rightarrow> u64 \<Rightarrow> tracker_map \<Rightarrow> tracker_map \<times> state_change list \<times> (signature \<times> bytes) list" where
  "tracker_tick max_retries rpc tick_counter t =
     (if t = [] then (t, [], [])
      else case tr_block_height rpc of
        None \<Rightarrow> (t, [], [])
      | Some current_height \<Rightarrow>
          (if eligible tick_counter current_height t = [] then (t, [], [])
           else case foldl (apply_batch rpc current_height) (t, [])
                  (chunks max_batch_size (eligible tick_counter current_height t)) of
             (t1, changes) \<Rightarrow>
               (let cs = rebroadcast_candidates max_retries current_height t1;
                    t2 = foldl (rebroadcast_step rpc current_height) t1 cs
                in (remove_closed current_height t2, changes, cs))))"

section \<open>The transition graph\<close>

inductive lifecycle_edge :: "tx_state \<Rightarrow> tx_state \<Rightarrow> bool" where
  drop: "lifecycle_edge TxSubmitted TxDropped"
| expire: "s \<in> {TxSubmitted, TxDropped} \<Longrightarrow> lifecycle_edge s TxExpired"
| confirm: "s \<in> {TxSubmitted, TxDropped, TxExpired} \<Longrightarrow> lifecycle_edge s (TxConfirmed slot)"
| finalize: "s \<in> {TxSubmitted, TxDropped, TxExpired, TxConfirmed c} \<Longrightarrow> lifecycle_edge s (TxFinalized slot)"
| fail: "s \<in> {TxSubmitted, TxDropped, TxExpired, TxConfirmed c} \<Longrightarrow> lifecycle_edge s (TxFailed e)"

inductive_simps lifecycle_edge_from [simp]:
  "lifecycle_edge TxSubmitted s" "lifecycle_edge TxDropped s" "lifecycle_edge TxExpired s"
  "lifecycle_edge (TxConfirmed c) s" "lifecycle_edge (TxFinalized c) s" "lifecycle_edge (TxFailed e) s"

inductive_cases lifecycle_edgeE: "lifecycle_edge s s'"

lemma next_state_cases:
  "calculate_next_state s ob h sub lv = s \<or> lifecycle_edge s (calculate_next_state s ob h sub lv)"
  by (cases s) (auto simp: calculate_next_state_def split: option.splits)

lemma next_state_expired:
  "calculate_next_state s ob h sub lv = TxExpired \<Longrightarrow>
     s = TxExpired \<or> (ob_err ob = None \<and> ob_status ob = None \<and> lv < h)"
  by (cases s) (auto simp: calculate_next_state_def split: option.splits if_splits)

lemma lifecycle_edge_precedence: "lifecycle_edge s s' \<Longrightarrow> precedence s \<le> precedence s'"
  by (erule lifecycle_edgeE) auto

lemma lifecycle_edges_settled:
  assumes "lifecycle_edge\<^sup>*\<^sup>* s s'"
  shows "precedence s \<le> precedence s'"
    "s = TxFinalized n \<Longrightarrow> s' = s" "s = TxFailed e \<Longrightarrow> s' = s"
    "s = TxConfirmed n \<Longrightarrow> s' \<in> range TxConfirmed \<union> range TxFinalized \<union> range TxFailed"
  using assms
proof (induction rule: rtranclp_induct)
  case (step y z)
  {
    case 1
    then show ?case using step.IH(1) lifecycle_edge_precedence [OF step.hyps(2)] by simp
  next
    case 2
    then show ?case using step.IH(2) step.hyps(2) by auto
  next
    case 3
    then show ?case using step.IH(3) step.hyps(2) by auto
  next
    case 4
    then show ?case using step.IH(4) step.hyps(2) by (auto elim: lifecycle_edgeE)
  }
qed auto

type_synonym observation_input = "rpc_observation \<times> u64 \<times> u64 \<times> u64"

definition observe_all :: "tx_state \<Rightarrow> observation_input list \<Rightarrow> tx_state" where
  "observe_all s obs = foldl (\<lambda>s (ob, h, sub, lv). calculate_next_state s ob h sub lv) s obs"

lemma observe_all_edges: "lifecycle_edge\<^sup>*\<^sup>* s (observe_all s obs)"
proof (induction obs rule: rev_induct)
  case (snoc o1 obs)
  obtain ob h sub lv where o1: "o1 = (ob, h, sub, lv)" by (metis prod_cases4)
  have "observe_all s (obs @ [o1]) = calculate_next_state (observe_all s obs) ob h sub lv"
    by (simp add: observe_all_def o1)
  with snoc.IH next_state_cases [of "observe_all s obs" ob h sub lv] show ?case by auto
qed (simp add: observe_all_def)

lemma observe_all_expired:
  assumes "observe_all s obs = TxExpired" "s \<noteq> TxExpired"
  shows "\<exists>(ob, h, sub, lv) \<in> set obs. ob_err ob = None \<and> ob_status ob = None \<and> lv < h"
  using assms
proof (induction obs rule: rev_induct)
  case (snoc o1 obs)
  obtain ob h sub lv where o1: "o1 = (ob, h, sub, lv)" by (metis prod_cases4)
  with snoc.prems have "calculate_next_state (observe_all s obs) ob h sub lv = TxExpired"
    by (simp add: observe_all_def)
  from next_state_expired [OF this] show ?case using snoc o1 by auto
qed (simp add: observe_all_def)

text \<open>C39: A transaction's state only progresses: whatever a sequence of RPC observations and block
  heights reports, in whatever order, the precedence never decreases; a finalized or failed transaction
  keeps its state and its data; a confirmed one is never again submitted, dropped or expired; and a
  transaction becomes expired only by an observation that did not know it, taken at a block height
  beyond its last valid one.\<close>

theorem lifecycle_never_regresses:
  assumes "observe_all s obs = s'"
  shows "precedence s \<le> precedence s'
     \<and> (s \<in> range TxFinalized \<union> range TxFailed \<longrightarrow> s' = s)
     \<and> (s \<in> range TxConfirmed \<longrightarrow> s' \<in> range TxConfirmed \<union> range TxFinalized \<union> range TxFailed)
     \<and> (s' = TxExpired \<longrightarrow> s = TxExpired
          \<or> (\<exists>(ob, h, sub, lv) \<in> set obs. ob_err ob = None \<and> ob_status ob = None \<and> lv < h))"
  using lifecycle_edges_settled [OF observe_all_edges [of s obs]] observe_all_expired [of s obs] assms
  by auto

theorem lifecycle_never_regresses_witness:
  "\<exists>s'. observe_all TxSubmitted
       [(\<lparr>ob_status = None, ob_err = None, ob_slot = None\<rparr>, 60, 10, 100),
        (\<lparr>ob_status = None, ob_err = None, ob_slot = None\<rparr>, 101, 10, 100),
        (\<lparr>ob_status = Some ''confirmed'', ob_err = None, ob_slot = Some 55\<rparr>, 102, 10, 100)] = s'
     \<and> s' = TxConfirmed 55 \<and> precedence TxSubmitted \<le> precedence s'"
proof -
  let ?obs = "[(\<lparr>ob_status = None, ob_err = None, ob_slot = None\<rparr>, 60, 10, 100),
        (\<lparr>ob_status = None, ob_err = None, ob_slot = None\<rparr>, 101, 10, 100),
        (\<lparr>ob_status = Some ''confirmed'', ob_err = None, ob_slot = Some 55\<rparr>, 102, 10, 100 :: u64)]"
  have s: "observe_all TxSubmitted ?obs = TxConfirmed 55"
    by (simp add: observe_all_def calculate_next_state_def dropped_grace_blocks_def saturating_sub_def)
  from lifecycle_never_regresses [OF s] s show ?thesis by simp
qed

section \<open>Rebroadcasts are bounded\<close>

abbreviation retries_left :: "u32 \<Rightarrow> tracking_record \<Rightarrow> nat" where
  "retries_left max_retries r \<equiv> unat max_retries - unat (tk_retry_count r)"

lemma map_of_update_entry:
  "map_of (update_entry sg f t) k = (if k = sg then map_option f (map_of t k) else map_of t k)"
  by (induction t) (auto simp: update_entry_def)

lemma update_entry_keys [simp]: "map fst (update_entry sg f t) = map fst t"
  by (induction t) (auto simp: update_entry_def)

lemma apply_observation_retry [simp]:
  "tk_retry_count (apply_observation h ob r) = tk_retry_count r"
  "tk_last_valid_block_height (apply_observation h ob r) = tk_last_valid_block_height r"
  "tk_submission_block_height (apply_observation h ob r) = tk_submission_block_height r"
  "tk_signed_tx_bytes (apply_observation h ob r) = tk_signed_tx_bytes r"
  by (simp_all add: apply_observation_def Let_def)

text \<open>What the observations of a tick leave alone.\<close>

abbreviation retained :: "tracking_record \<Rightarrow> u32 \<times> u64 \<times> bytes option" where
  "retained r \<equiv> (tk_retry_count r, tk_last_valid_block_height r, tk_signed_tx_bytes r)"

definition same_entries :: "tracker_map \<Rightarrow> tracker_map \<Rightarrow> bool" where
  "same_entries t t' \<longleftrightarrow>
     map fst t' = map fst t \<and> (\<forall>sg. map_option retained (map_of t' sg) = map_option retained (map_of t sg))"

lemma same_entries_refl: "same_entries t t"
  by (simp add: same_entries_def)

lemma same_entries_trans: "same_entries t u \<Longrightarrow> same_entries u v \<Longrightarrow> same_entries t v"
  by (simp add: same_entries_def)

lemma apply_status_same: "same_entries t (fst (apply_status h statuses (t, ch) isg))"
proof (cases isg)
  case (Pair i sg)
  then show ?thesis
    by (auto simp: apply_status_def Let_def same_entries_refl same_entries_def map_of_update_entry
        split: option.splits)
qed

lemma apply_batch_same: "same_entries t (fst (apply_batch rpc h (t, ch) sigs))"
proof -
  have "same_entries (fst tc) (fst (foldl (apply_status h statuses) tc xs))" for statuses tc xs
  proof (induction xs arbitrary: tc)
    case (Cons x xs)
    have "same_entries (fst tc) (fst (apply_status h statuses tc x))"
      using apply_status_same [of "fst tc" h statuses "snd tc" x] by simp
    with Cons.IH [of "apply_status h statuses tc x"] show ?case by (simp add: same_entries_trans)
  qed (simp add: same_entries_refl)
  from this [of "(t, ch)"] show ?thesis by (auto simp: apply_batch_def same_entries_refl split: option.splits)
qed

lemma batches_same: "same_entries (fst tc) (fst (foldl (apply_batch rpc h) tc bs))"
proof (induction bs arbitrary: tc)
  case (Cons b bs)
  have "same_entries (fst tc) (fst (apply_batch rpc h tc b))"
    using apply_batch_same [of "fst tc" rpc h "snd tc" b] by simp
  with Cons.IH [of "apply_batch rpc h tc b"] show ?case by (simp add: same_entries_trans)
qed (simp add: same_entries_refl)

lemma candidates_keys:
  assumes "distinct (map fst t)"
  shows "distinct (map fst (rebroadcast_candidates m h t))"
    "sg \<in> set (map fst (rebroadcast_candidates m h t)) \<Longrightarrow>
       \<exists>r. map_of t sg = Some r \<and> tk_retry_count r < m \<and> tk_state r = TxDropped \<and> h \<le> tk_last_valid_block_height r"
proof -
  have sub: "set (map fst (rebroadcast_candidates m h t)) \<subseteq> set (map fst t)" for t
    by (induction t) (auto simp: rebroadcast_candidates_def List.map_filter_simps split: option.splits if_splits)
  show "distinct (map fst (rebroadcast_candidates m h t))"
    using assms
  proof (induction t)
    case (Cons e t)
    with sub [of t] show ?case
      by (cases e) (auto simp: rebroadcast_candidates_def List.map_filter_simps split: option.splits if_splits)
  qed (simp add: rebroadcast_candidates_def List.map_filter_simps)
  show "\<exists>r. map_of t sg = Some r \<and> tk_retry_count r < m \<and> tk_state r = TxDropped \<and> h \<le> tk_last_valid_block_height r"
    if "sg \<in> set (map fst (rebroadcast_candidates m h t))"
    using that assms sub
  proof (induction t)
    case (Cons e t)
    obtain k r where e: "e = (k, r)" by (cases e)
    show ?case
    proof (cases "sg = k")
      case True
      then have "sg \<notin> set (map fst (rebroadcast_candidates m h t))" using Cons.prems(2) sub [of t] e by auto
      then show ?thesis using Cons.prems(1) True e
        by (auto simp: rebroadcast_candidates_def List.map_filter_simps split: option.splits if_splits)
    next
      case False
      then have "sg \<in> set (map fst (rebroadcast_candidates m h t))" using Cons.prems(1) e
        by (auto simp: rebroadcast_candidates_def List.map_filter_simps split: option.splits if_splits)
      with Cons.IH Cons.prems(2) sub False e show ?thesis by simp
    qed
  qed (simp add: rebroadcast_candidates_def List.map_filter_simps)
qed

lemma rebroadcast_step_retry:
  "map_option tk_retry_count (map_of (rebroadcast_step rpc h t c) sg) =
     map_option (\<lambda>r. if sg = fst c then tk_retry_count r + 1 else tk_retry_count r) (map_of t sg)"
  by (cases c; cases "map_of t sg") (auto simp: rebroadcast_step_def map_of_update_entry)

lemma rebroadcast_step_keys [simp]: "map fst (rebroadcast_step rpc h t c) = map fst t"
  by (cases c) (simp add: rebroadcast_step_def)

lemma rebroadcasts_retry:
  assumes "distinct (map fst cs)"
  shows "map_option tk_retry_count (map_of (foldl (rebroadcast_step rpc h) t cs) sg) =
     map_option (\<lambda>r. if sg \<in> set (map fst cs) then tk_retry_count r + 1 else tk_retry_count r) (map_of t sg)"
  using assms
proof (induction cs arbitrary: t)
  case (Cons c cs)
  have "map_option tk_retry_count (map_of (foldl (rebroadcast_step rpc h) t (c # cs)) sg) =
      map_option (\<lambda>n. if sg \<in> set (map fst cs) then n + 1 else n)
        (map_option tk_retry_count (map_of (rebroadcast_step rpc h t c) sg))"
    using Cons by (simp add: option.map_comp comp_def)
  then show ?case using Cons.prems
    unfolding rebroadcast_step_retry by (auto simp: option.map_comp comp_def intro!: option.map_cong)
qed (simp add: option.map_comp)

lemma rebroadcasts_keys [simp]: "map fst (foldl (rebroadcast_step rpc h) t cs) = map fst t"
  by (induction cs arbitrary: t) simp_all

definition sent_for :: "signature \<Rightarrow> (signature \<times> bytes) list \<Rightarrow> nat" where
  "sent_for sg cs = length (filter (\<lambda>c. fst c = sg) cs)"

lemma sent_for_distinct: "distinct (map fst cs) \<Longrightarrow> sent_for sg cs = (if sg \<in> set (map fst cs) then 1 else 0)"
  by (induction cs) (force simp: sent_for_def filter_empty_conv image_iff)+

lemma map_of_filter_distinct:
  "distinct (map fst t) \<Longrightarrow>
     map_of (filter P t) k = (case map_of t k of Some v \<Rightarrow> if P (k, v) then Some v else None | None \<Rightarrow> None)"
  by (induction t) (auto simp: map_of_eq_None_iff split: option.splits)

lemma retry_spent:
  assumes "tk_retry_count r < m"
  shows "1 + (unat m - unat (tk_retry_count r + 1)) = unat m - unat (tk_retry_count r)"
proof -
  have "unat (tk_retry_count r) < unat m" using assms by (simp add: word_less_nat_alt)
  moreover from this have "unat (tk_retry_count r + 1) = unat (tk_retry_count r) + 1"
    using unat_less_exp [of m] by (simp add: unat_word_ariths)
  ultimately show ?thesis by simp
qed

lemma tick_retries:
  assumes t: "distinct (map fst t)" "map_of t sg = Some r" and tick: "tracker_tick m rpc c t = (t', ch, cs)"
  shows "distinct (map fst t')"
    "sent_for sg cs + (case map_of t' sg of None \<Rightarrow> 0 | Some r' \<Rightarrow> retries_left m r') \<le> retries_left m r"
proof -
  have "distinct (map fst t') \<and>
    sent_for sg cs + (case map_of t' sg of None \<Rightarrow> 0 | Some r' \<Rightarrow> retries_left m r') \<le> retries_left m r"
  proof (cases "t' = t \<and> cs = []")
    case True
    with t show ?thesis by (simp add: sent_for_def)
  next
    case False
    then obtain h where h: "tr_block_height rpc = Some h"
      using tick by (auto simp: tracker_tick_def split: if_splits option.splits)
    define t1 where "t1 = fst (foldl (apply_batch rpc h) (t, []) (chunks max_batch_size (eligible c h t)))"
    have t': "cs = rebroadcast_candidates m h t1" "t' = remove_closed h (foldl (rebroadcast_step rpc h) t1 cs)"
      using tick False by (auto simp: tracker_tick_def h t1_def Let_def split: if_splits prod.splits)
    have same: "same_entries t t1" using batches_same [of "(t, [])" rpc h] by (simp add: t1_def)
    then have d1: "distinct (map fst t1)" using t(1) by (simp add: same_entries_def)
    from same t(2) have "map_option retained (map_of t1 sg) = Some (retained r)" by (simp add: same_entries_def)
    then obtain r1 where r1: "map_of t1 sg = Some r1" "tk_retry_count r1 = tk_retry_count r" by auto
    let ?t2 = "foldl (rebroadcast_step rpc h) t1 cs"
    note keys = candidates_keys [OF d1, where m = m and h = h, folded t'(1)]
    from rebroadcasts_retry [OF keys(1), of rpc h t1 sg] r1 obtain r2 where
      r2: "map_of ?t2 sg = Some r2" "tk_retry_count r2 = (if sg \<in> set (map fst cs) then tk_retry_count r + 1 else tk_retry_count r)"
      by auto
    have d2: "distinct (map fst ?t2)" using d1 by simp
    have "distinct (map fst t')" using d2 unfolding t'(2) remove_closed_def by (rule distinct_map_filter)
    moreover have "map_of t' sg = None \<or> map_of t' sg = Some r2"
      using r2(1) d2 by (simp add: t'(2) remove_closed_def map_of_filter_distinct)
    moreover have "sent_for sg cs + retries_left m r2 \<le> retries_left m r"
      unfolding sent_for_distinct [OF keys(1)] r2(2)
      using keys(2) [of sg] r1 retry_spent [of r m] by auto
    ultimately show ?thesis by (elim disjE) (simp_all del: map_of_eq_Some_iff)
  qed
  then show "distinct (map fst t')"
    "sent_for sg cs + (case map_of t' sg of None \<Rightarrow> 0 | Some r' \<Rightarrow> retries_left m r') \<le> retries_left m r" by simp_all
qed

datatype tracker_event = TrackTx signature tracking_record | TrackerTick tracker_rpc u64

text \<open>The rebroadcasts of a transaction until the worker closes its record.\<close>

fun rebroadcasts_of :: "u32 \<Rightarrow> signature \<Rightarrow> tracker_map \<Rightarrow> tracker_event list \<Rightarrow> nat" where
  "rebroadcasts_of m sg t [] = 0"
| "rebroadcasts_of m sg t (TrackTx k r # es) = rebroadcasts_of m sg (track k r t) es"
| "rebroadcasts_of m sg t (TrackerTick rpc c # es) =
     (case tracker_tick m rpc c t of
        (t', ch, cs) \<Rightarrow> sent_for sg cs + (if map_of t' sg = None then 0 else rebroadcasts_of m sg t' es))"

text \<open>C40: A dropped transaction is rebroadcast at most as often as the policy allows: from the moment its
  record exists until the worker closes it, over any ticks, answers and failures of the RPC pool and any
  transactions tracked meanwhile, even the same one again, the bytes of a transaction are sent again at
  most \<open>max_retries\<close> times less the retries already counted.\<close>

theorem rebroadcasts_bounded:
  assumes "distinct (map fst t)" "map_of t sg = Some r"
  shows "rebroadcasts_of m sg t es \<le> retries_left m r"
  using assms
proof (induction es arbitrary: t r)
  case (Cons e es)
  show ?case
  proof (cases e)
    case (TrackTx k r0)
    have "map_of (track k r0 t) sg = Some r" "distinct (map fst (track k r0 t))"
      using Cons.prems by (auto simp: track_def map_add_def map_of_eq_None_iff)
    with Cons.IH TrackTx show ?thesis by simp
  next
    case (TrackerTick rpc c)
    obtain t' ch cs where tick: "tracker_tick m rpc c t = (t', ch, cs)" by (cases "tracker_tick m rpc c t")
    note T = tick_retries [OF Cons.prems tick]
    show ?thesis
    proof (cases "map_of t' sg")
      case None
      with T TrackerTick tick show ?thesis by simp
    next
      case (Some r')
      with T Cons.IH [OF T(1) Some] TrackerTick tick show ?thesis by simp
    qed
  qed
qed simp

definition example_tracked :: tracking_record where
  "example_tracked = tracking_with_bytes ''s'' ''t'' ''r'' ''u'' ''w'' 200 10 (Some [1])"

definition silent_rpc :: "u64 \<Rightarrow> tracker_rpc" where
  "silent_rpc h = \<lparr>tr_block_height = Some h, tr_statuses = (\<lambda>sigs. Some []), tr_rebroadcast = (\<lambda>b. True)\<rparr>"

lemma silent_tick:
  "tracker_tick 3 (silent_rpc 60) 2 [([7], example_tracked)] =
     ([([7], example_tracked\<lparr>tk_retry_count := 1, tk_submission_block_height := 60\<rparr>)],
      [change_of 60 example_tracked TxDropped], [([7], [1])])"
proof -
  have e: "eligible 2 60 [([7], example_tracked)] = [[7]]"
    by (simp add: eligible_def example_tracked_def tracking_with_bytes_def from_block_distance_def saturating_sub_def)
  have c: "chunks max_batch_size [[7]] = [[[7 :: u8]]]"
    by (simp add: chunks.simps [of _ "[[7]]"] chunks.simps [of _ "[]"] max_batch_size_def)
  have o: "observed_state 60 \<lparr>ob_status = None, ob_err = None, ob_slot = None\<rparr> example_tracked = TxDropped"
    by (simp add: observed_state_def calculate_next_state_def example_tracked_def tracking_with_bytes_def
        saturating_sub_def dropped_grace_blocks_def)
  have a: "apply_observation 60 \<lparr>ob_status = None, ob_err = None, ob_slot = None\<rparr> example_tracked
      = example_tracked\<lparr>tk_state := TxDropped\<rparr>"
    by (simp add: apply_observation_def o Let_def)
  have st: "tk_state example_tracked = TxSubmitted" by (simp add: example_tracked_def tracking_with_bytes_def)
  show ?thesis
    by (simp add: tracker_tick_def silent_rpc_def e c apply_batch_def apply_status_def status_to_observation_def
        update_entry_def a o st Let_def rebroadcast_candidates_def List.map_filter_simps rebroadcast_step_def
        remove_closed_def should_continue_tracking_def)
      (simp add: example_tracked_def tracking_with_bytes_def rebroadcast_step_def update_entry_def)
qed

theorem rebroadcasts_bounded_witness:
  "rebroadcasts_of 3 [7] [([7], example_tracked)] [TrackerTick (silent_rpc 60) 2] = 1
   \<and> rebroadcasts_of 3 [7] [([7], example_tracked)] [TrackerTick (silent_rpc 60) 2] \<le> 3"
proof -
  have "rebroadcasts_of 3 [7] [([7], example_tracked)] [TrackerTick (silent_rpc 60) 2] \<le> retries_left 3 example_tracked"
    by (rule rebroadcasts_bounded) simp_all
  moreover have "tk_retry_count example_tracked = 0" by (simp add: example_tracked_def tracking_with_bytes_def)
  moreover have "rebroadcasts_of 3 [7] [([7], example_tracked)] [TrackerTick (silent_rpc 60) 2] = 1"
    by (simp add: silent_tick sent_for_def)
  ultimately show ?thesis by simp
qed

end
