(* ===== verification/Json.thy ===== *)
theory Json
  imports Prelude
begin

text \<open>
  The data type \<open>serde_json::Value\<close> and its accessors, as the crate documents them,
  \<open>str::parse::<u64>\<close> and \<open>str::trim\<close>: what the readers of JSON answers and of texts are written
  against. A number is a non-negative
  or a negative integer or a float, which the integer accessors refuse.
\<close>

datatype json =
    JNull
  | JBool bool
  | JPosInt u64
  | JNegInt i64
  | JFloat
  | JString string
  | JArray "json list"
  | JObject "(string \<times> json) list"

fun json_get :: "string \<Rightarrow> json \<Rightarrow> json option" where
  "json_get key (JObject fields) = map_of fields key"
| "json_get key _ = None"

fun as_array :: "json \<Rightarrow> json list option" where
  "as_array (JArray vs) = Some vs"
| "as_array _ = None"

fun as_str :: "json \<Rightarrow> string option" where
  "as_str (JString s) = Some s"
| "as_str _ = None"

fun as_bool :: "json \<Rightarrow> bool option" where
  "as_bool (JBool b) = Some b"
| "as_bool _ = None"

fun as_u64 :: "json \<Rightarrow> u64 option" where
  "as_u64 (JPosInt n) = Some n"
| "as_u64 _ = None"

fun as_i64 :: "json \<Rightarrow> i64 option" where
  "as_i64 (JPosInt n) = (if unat n < 2 ^ 63 then Some n else None)"
| "as_i64 (JNegInt i) = Some i"
| "as_i64 _ = None"

definition is_string :: "json \<Rightarrow> bool" where
  "is_string v \<longleftrightarrow> as_str v \<noteq> None"

definition get_str :: "string \<Rightarrow> json \<Rightarrow> string option" where
  "get_str key v = Option.bind (json_get key v) as_str"

text \<open>\<open>str::parse::<u64>\<close>: an optional plus sign, at least one digit, no overflow.\<close>

definition digit_of :: "char \<Rightarrow> nat option" where
  "digit_of c = (let b = of_char c :: nat in if 48 \<le> b \<and> b \<le> 57 then Some (b - 48) else None)"

fun digits_value :: "string \<Rightarrow> nat \<Rightarrow> nat option" where
  "digits_value [] acc = Some acc"
| "digits_value (c # cs) acc =
     (case digit_of c of None \<Rightarrow> None | Some d \<Rightarrow> digits_value cs (10 * acc + d))"

definition parse_digits :: "nat \<Rightarrow> string \<Rightarrow> nat option" where
  "parse_digits bound s =
     (if s = [] then None
      else case digits_value s 0 of
        None \<Rightarrow> None
      | Some n \<Rightarrow> (if n < bound then Some n else None))"

definition parse_unsigned :: "nat \<Rightarrow> string \<Rightarrow> nat option" where
  "parse_unsigned bound s =
     (case s of CHR ''+'' # cs \<Rightarrow> parse_digits bound cs | _ \<Rightarrow> parse_digits bound s)"

definition parse_u64 :: "string \<Rightarrow> u64 option" where
  "parse_u64 s = map_option word_of_nat (parse_unsigned (2 ^ 64) s)"

text \<open>
  \<open>str::trim\<close> on UTF-8 text: the code points of the Unicode property White_Space, by their encodings,
  are removed at both ends.
\<close>

definition whitespace_codes :: "nat list list" where
  "whitespace_codes =
     map (\<lambda>b. [b]) [9, 10, 11, 12, 13, 32]
     @ [[194, 133], [194, 160], [225, 154, 128], [226, 129, 159], [227, 128, 128],
        [226, 128, 168], [226, 128, 169], [226, 128, 175]]
     @ map (\<lambda>b. [226, 128, b]) [128, 129, 130, 131, 132, 133, 134, 135, 136, 137, 138]"

definition code_prefix :: "nat list \<Rightarrow> string \<Rightarrow> bool" where
  "code_prefix w s \<longleftrightarrow> take (length w) (map of_char s) = w"

fun strip_front :: "nat list list \<Rightarrow> nat \<Rightarrow> string \<Rightarrow> string" where
  "strip_front ws 0 s = s"
| "strip_front ws (Suc n) s =
     (case find (\<lambda>w. code_prefix w s) ws of
        None \<Rightarrow> s
      | Some w \<Rightarrow> strip_front ws n (drop (length w) s))"

text \<open>No code is empty, so \<open>length s\<close> rounds are enough.\<close>

definition trim :: "string \<Rightarrow> string" where
  "trim s =
     (let front = strip_front whitespace_codes (length s) s in
      rev (strip_front (map rev whitespace_codes) (length front) (rev front)))"

definition graphic :: "char \<Rightarrow> bool" where
  "graphic c \<longleftrightarrow> 33 \<le> (of_char c :: nat) \<and> (of_char c :: nat) \<le> 126"

lemma strip_front_graphic:
  assumes "s = [] \<or> graphic (hd s)" and "\<forall>w \<in> set ws. w \<noteq> [] \<and> (hd w < 33 \<or> 126 < hd w)"
  shows "strip_front ws n s = s"
proof -
  have "\<not> code_prefix w s" if "w \<in> set ws" for w
  proof
    assume p: "code_prefix w s"
    from that assms(2) have "w \<noteq> []" "hd w < 33 \<or> 126 < hd w" by blast+
    then obtain b bs where w: "w = b # bs" "b < 33 \<or> 126 < b" by (cases w) simp_all
    with p show False using assms(1)
      by (cases s) (auto simp: code_prefix_def graphic_def)
  qed
  then have "find (\<lambda>w. code_prefix w s) ws = None" by (simp add: find_None_iff)
  then show ?thesis by (cases n) simp_all
qed

lemma whitespace_codes_outer:
  "\<forall>w \<in> set whitespace_codes. w \<noteq> [] \<and> (hd w < 33 \<or> 126 < hd w)"
  "\<forall>w \<in> set (map rev whitespace_codes). w \<noteq> [] \<and> (hd w < 33 \<or> 126 < hd w)"
  by (simp_all add: whitespace_codes_def)

text \<open>Text that begins and ends with a visible ASCII character is not changed.\<close>

lemma trim_outer: "s = [] \<or> graphic (hd s) \<and> graphic (last s) \<Longrightarrow> trim s = s"
  by (auto simp: trim_def Let_def strip_front_graphic whitespace_codes_outer hd_rev)

lemma trim_id: "list_all graphic s \<Longrightarrow> trim s = s"
  by (rule trim_outer) (cases s; simp add: list_all_iff)

text \<open>Printing a number and parsing it gives it back.\<close>

lemma digits_value_append:
  "digits_value (s @ s') acc = Option.bind (digits_value s acc) (digits_value s')"
  by (induction s acc rule: digits_value.induct) (simp_all split: option.splits)

lemma digit_of_digit [simp]: "d < 10 \<Longrightarrow> digit_of (char_of (48 + d)) = Some d"
  by (simp add: digit_of_def Let_def of_char_of)

lemma digits_value_decimal [simp]: "digits_value (decimal n) 0 = Some n"
proof (induction n rule: decimal.induct)
  case (1 n)
  show ?case
  proof (cases "n < 10")
    case True
    then show ?thesis by (subst decimal.simps) simp
  next
    case False
    then have "digits_value (decimal (n div 10)) 0 = Some (n div 10)" by (rule 1)
    with False show ?thesis
      by (subst decimal.simps) (simp add: digits_value_append)
  qed
qed

lemma decimal_not_empty [simp]: "decimal n \<noteq> []"
  by (subst decimal.simps) simp

lemma decimal_no_plus: "decimal n \<noteq> CHR ''+'' # cs"
proof
  assume "decimal n = CHR ''+'' # cs"
  moreover have "digits_value (CHR ''+'' # cs) 0 = None" by (simp add: digit_of_def)
  ultimately show False by (metis digits_value_decimal option.distinct(1))
qed

lemma parse_u64_decimal [simp]: "parse_u64 (decimal (unat w)) = Some w"
proof -
  have "parse_digits (2 ^ 64) (decimal (unat w)) = Some (unat w)"
    using unat_less_exp [of w] by (simp add: parse_digits_def)
  moreover have "parse_unsigned b (decimal (unat w)) = parse_digits b (decimal (unat w))" for b
    using decimal_no_plus [of "unat w"] unfolding parse_unsigned_def
    by (cases "decimal (unat w)") (auto split: char.splits bool.splits list.splits)
  ultimately show ?thesis by (simp add: parse_u64_def)
qed

end
