(* ===== verification/Funding_Confirm.thy ===== *)
theory Funding_Confirm
  imports Json Execution_Store
begin

text \<open>
  The funding confirmation of \<open>bins/solfrontier-mcp/src/funding.rs\<close>: reading the RPC answers into a
  normalised observation, the verifier of a funding transaction, and \<open>confirm_funding_json\<close>, which moves
  an intent to \<open>budget_reserved\<close> only behind that proof. Texts are their UTF-8 bytes. The database may fail at
  every call and other actors may write before it; \<open>Pubkey::from_str\<close>, \<open>Signature::from_str\<close> and the
  associated token address are parameters.
\<close>

section \<open>Observations\<close>

definition usdc_mint_bs58 :: string where
  "usdc_mint_bs58 = ''EPjFWdd5AufqSSqeM2qN1xzybapC8G4wEGGkZwyTDt1v''"

definition memo_program_id_bs58 :: string where
  "memo_program_id_bs58 = ''MemoSq4gqABAXKb96qnH8TysNcWxMyWCqXgDLGmfcHr''"

definition token_program_id_bs58 :: string where
  "token_program_id_bs58 = ''TokenkegQfeZyiNwAJbNbGKPFXCWuBvf9Ss623VQ5DA''"

definition usdc_decimals :: u8 where "usdc_decimals = 6"

record confirm_funding_params =
  cfp_intent_id :: string
  cfp_tx_signature :: string

datatype confirmation_level = LevelConfirmed | LevelFinalized

fun confirmation_level_str :: "confirmation_level \<Rightarrow> string" where
  "confirmation_level_str LevelConfirmed = ''confirmed''"
| "confirmation_level_str LevelFinalized = ''finalized''"

record observed_token_balance =
  otb_account :: string
  otb_mint :: string
  otb_owner :: string
  otb_amount_raw :: u64
  otb_decimals :: u8

record observed_transfer_checked =
  otc_source :: string
  otc_mint :: string
  otc_destination :: string
  otc_authority :: string
  otc_amount_raw :: u64
  otc_decimals :: u8

record observed_funding_transaction =
  oft_slot :: u64
  oft_block_time_ms :: "i64 option"
  oft_confirmation :: confirmation_level
  oft_succeeded :: bool
  oft_signer_pubkeys :: "string list"
  oft_memos :: "string list"
  oft_transfer_checked :: "observed_transfer_checked list"
  oft_pre_token_balances :: "observed_token_balance list"
  oft_post_token_balances :: "observed_token_balance list"

datatype funding_transaction_read = ReadPending | ReadConfirmed observed_funding_transaction

datatype funding_read_error = PoolUnavailable | StatusRequestFailed | TransactionRequestFailed | ResponseDecodeFailed

fun funding_read_error_code :: "funding_read_error \<Rightarrow> string" where
  "funding_read_error_code PoolUnavailable = ''rpc_pool_unavailable''"
| "funding_read_error_code StatusRequestFailed = ''signature_status_request_failed''"
| "funding_read_error_code TransactionRequestFailed = ''transaction_request_failed''"
| "funding_read_error_code ResponseDecodeFailed = ''transaction_response_decode_failed''"

section \<open>Reading the RPC answers\<close>

abbreviation decode_or_fail :: "'a option \<Rightarrow> funding_read_error + 'a" where
  "decode_or_fail r \<equiv> ok_or r ResponseDecodeFailed"

definition parse_confirmation_level :: "json \<Rightarrow> funding_read_error + confirmation_level option" where
  "parse_confirmation_level response =
     try_bind (decode_or_fail (case Option.bind (json_get ''value'' response) as_array of
         Some (status # _) \<Rightarrow> Some status | _ \<Rightarrow> None)) (\<lambda>status.
       if status = JNull then Inr None
       else case get_str ''confirmationStatus'' status of
         Some s \<Rightarrow>
           (if s = ''confirmed'' then Inr (Some LevelConfirmed)
            else if s = ''finalized'' then Inr (Some LevelFinalized)
            else if s = ''processed'' then Inr None
            else Inl ResponseDecodeFailed)
       | None \<Rightarrow>
           (case json_get ''confirmations'' status of
              Some JNull \<Rightarrow> Inr (Some LevelFinalized)
            | Some v \<Rightarrow> (case as_u64 v of
                Some count \<Rightarrow> (if 1 < count then Inr (Some LevelConfirmed) else Inr None)
              | None \<Rightarrow> Inr None)
            | None \<Rightarrow> Inr None))"

definition account_key :: "nat \<Rightarrow> nat \<Rightarrow> json \<Rightarrow> funding_read_error + (string \<times> bool)" where
  "account_key required_signatures index v =
     (case as_str v of
        Some pubkey \<Rightarrow> Inr (pubkey, index < required_signatures)
      | None \<Rightarrow>
          try_bind (decode_or_fail (get_str ''pubkey'' v)) (\<lambda>pubkey.
          try_bind (decode_or_fail (Option.bind (json_get ''signer'' v) as_bool)) (\<lambda>signer.
            Inr (pubkey, signer))))"

definition loaded_keys :: "json \<Rightarrow> string \<Rightarrow> funding_read_error + string list" where
  "loaded_keys loaded field =
     (case Option.bind (json_get field loaded) as_array of
        None \<Rightarrow> Inr []
      | Some entries \<Rightarrow> collect_results (map (\<lambda>e. decode_or_fail (as_str e)) entries))"

definition parse_account_keys :: "json \<Rightarrow> json \<Rightarrow> funding_read_error + (string list \<times> string list)" where
  "parse_account_keys message meta =
     try_bind (decode_or_fail (Option.bind (json_get ''accountKeys'' message) as_array)) (\<lambda>values.
       let required_signatures =
         (case Option.bind (Option.bind (json_get ''header'' message) (json_get ''numRequiredSignatures'')) as_u64 of
            Some n \<Rightarrow> unat n | None \<Rightarrow> 0)
       in try_bind (collect_results (map (\<lambda>(index, v). account_key required_signatures index v)
              (enumerate 0 values))) (\<lambda>keyed.
          try_bind
            (if list_all is_string values then
               (case json_get ''loadedAddresses'' meta of
                  None \<Rightarrow> Inr []
                | Some loaded \<Rightarrow>
                    try_bind (loaded_keys loaded ''writable'') (\<lambda>ws.
                    try_bind (loaded_keys loaded ''readonly'') (\<lambda>rs. Inr (ws @ rs))))
             else Inr []) (\<lambda>extra.
            Inr (map fst keyed @ extra, map fst (filter snd keyed)))))"

definition required_string :: "json \<Rightarrow> string \<Rightarrow> funding_read_error + string" where
  "required_string v field = decode_or_fail (get_str field v)"

definition token_amount :: "json \<Rightarrow> funding_read_error + (u64 \<times> u8)" where
  "token_amount v =
     try_bind (decode_or_fail (Option.bind (get_str ''amount'' v) parse_u64)) (\<lambda>amount_raw.
     try_bind (decode_or_fail (Option.bind (Option.bind (json_get ''decimals'' v) as_u64)
         (\<lambda>d. if unat d < 256 then Some (ucast d) else None))) (\<lambda>decimals.
       Inr (amount_raw, decimals)))"

text \<open>What one outer instruction contributes: a memo, a transfer, or nothing.\<close>

definition outer_instruction ::
    "json \<Rightarrow> funding_read_error + (string list \<times> observed_transfer_checked list)" where
  "outer_instruction instr =
     (case get_str ''programId'' instr of
        None \<Rightarrow> Inr ([], [])
      | Some program_id \<Rightarrow>
          (if program_id = memo_program_id_bs58
           then Inr (case get_str ''parsed'' instr of Some memo \<Rightarrow> ([memo], []) | None \<Rightarrow> ([], []))
           else if program_id \<noteq> token_program_id_bs58 then Inr ([], [])
           else case json_get ''parsed'' instr of
             None \<Rightarrow> Inr ([], [])
           | Some parsed \<Rightarrow>
               (if get_str ''type'' parsed \<noteq> Some ''transferChecked'' then Inr ([], [])
                else
                  try_bind (decode_or_fail (json_get ''info'' parsed)) (\<lambda>info.
                  try_bind (decode_or_fail (json_get ''tokenAmount'' info)) (\<lambda>amount.
                  try_bind (token_amount amount) (\<lambda>(amount_raw, decimals).
                  try_bind (required_string info ''source'') (\<lambda>source.
                  try_bind (required_string info ''mint'') (\<lambda>mint.
                  try_bind (required_string info ''destination'') (\<lambda>destination.
                  try_bind (required_string info ''authority'') (\<lambda>authority.
                    Inr ([], [\<lparr>otc_source = source, otc_mint = mint, otc_destination = destination,
                               otc_authority = authority, otc_amount_raw = amount_raw,
                               otc_decimals = decimals\<rparr>])))))))))))"

definition parse_outer_instructions ::
    "json \<Rightarrow> funding_read_error + (string list \<times> observed_transfer_checked list)" where
  "parse_outer_instructions message =
     try_bind (decode_or_fail (Option.bind (json_get ''instructions'' message) as_array)) (\<lambda>instructions.
     try_bind (collect_results (map outer_instruction instructions)) (\<lambda>parts.
       Inr (concat (map fst parts), concat (map snd parts))))"

definition token_balance :: "string list \<Rightarrow> json \<Rightarrow> funding_read_error + observed_token_balance" where
  "token_balance account_keys balance =
     try_bind (decode_or_fail (Option.bind (json_get ''accountIndex'' balance) as_u64)) (\<lambda>account_index.
     try_bind (decode_or_fail (if unat account_index < length account_keys
         then Some (account_keys ! unat account_index) else None)) (\<lambda>account.
     try_bind (decode_or_fail (json_get ''uiTokenAmount'' balance)) (\<lambda>amount.
     try_bind (token_amount amount) (\<lambda>(amount_raw, decimals).
     try_bind (required_string balance ''mint'') (\<lambda>mint.
     try_bind (required_string balance ''owner'') (\<lambda>owner.
       Inr \<lparr>otb_account = account, otb_mint = mint, otb_owner = owner, otb_amount_raw = amount_raw,
            otb_decimals = decimals\<rparr>))))))"

definition parse_token_balances ::
    "json option \<Rightarrow> string list \<Rightarrow> funding_read_error + observed_token_balance list" where
  "parse_token_balances balances account_keys =
     (case Option.bind balances as_array of
        None \<Rightarrow> Inr []
      | Some bs \<Rightarrow> collect_results (map (token_balance account_keys) bs))"

definition block_time :: "json \<Rightarrow> funding_read_error + i64 option" where
  "block_time result =
     (case json_get ''blockTime'' result of
        None \<Rightarrow> Inr None
      | Some JNull \<Rightarrow> Inr None
      | Some v \<Rightarrow>
          try_bind (decode_or_fail (Option.bind (as_i64 v) (\<lambda>seconds.
              if 0 \<le> sint seconds \<and> sint seconds * 1000 < 2 ^ 63
              then Some (word_of_int (sint seconds * 1000)) else None))) (\<lambda>ms. Inr (Some ms)))"

definition parse_json_parsed_transaction ::
    "json \<Rightarrow> confirmation_level \<Rightarrow> funding_read_error + observed_funding_transaction" where
  "parse_json_parsed_transaction result confirmation =
     try_bind (decode_or_fail (Option.bind (json_get ''slot'' result) as_u64)) (\<lambda>slot.
     try_bind (block_time result) (\<lambda>block_time_ms.
     try_bind (decode_or_fail (json_get ''transaction'' result)) (\<lambda>transaction.
     try_bind (decode_or_fail (json_get ''message'' transaction)) (\<lambda>message.
     try_bind (decode_or_fail (json_get ''meta'' result)) (\<lambda>meta.
     try_bind (parse_account_keys message meta) (\<lambda>(account_keys, signer_pubkeys).
     try_bind (parse_outer_instructions message) (\<lambda>(memos, transfer_checked).
     try_bind (parse_token_balances (json_get ''preTokenBalances'' meta) account_keys) (\<lambda>pre.
     try_bind (parse_token_balances (json_get ''postTokenBalances'' meta) account_keys) (\<lambda>post.
       Inr \<lparr>oft_slot = slot, oft_block_time_ms = block_time_ms, oft_confirmation = confirmation,
            oft_succeeded = (json_get ''err'' meta = Some JNull), oft_signer_pubkeys = signer_pubkeys,
            oft_memos = memos, oft_transfer_checked = transfer_checked,
            oft_pre_token_balances = pre, oft_post_token_balances = post\<rparr>)))))))))"

text \<open>\<open>RpcFundingTransactionReader\<close>: the pool's client and the two answers.\<close>

definition read_funding_transaction ::
    "bool \<Rightarrow> (string \<Rightarrow> unit + json) \<Rightarrow> (string \<Rightarrow> unit + json) \<Rightarrow> string \<Rightarrow>
     funding_read_error + funding_transaction_read" where
  "read_funding_transaction read_client fetch_signature_statuses fetch_transaction sg =
     (if \<not> read_client then Inl PoolUnavailable
      else case fetch_signature_statuses sg of
        Inl _ \<Rightarrow> Inl StatusRequestFailed
      | Inr status_response \<Rightarrow>
          try_bind (parse_confirmation_level status_response) (\<lambda>confirmation.
            case confirmation of
              None \<Rightarrow> Inr ReadPending
            | Some level \<Rightarrow>
                (case fetch_transaction sg of
                   Inl _ \<Rightarrow> Inl TransactionRequestFailed
                 | Inr tx_response \<Rightarrow>
                     (if tx_response = JNull then Inr ReadPending
                      else try_bind (parse_json_parsed_transaction tx_response level)
                             (\<lambda>observed. Inr (ReadConfirmed observed))))))"

section \<open>The verifier\<close>

datatype verification_error =
    OnChainFailure | MemoMismatch | FunderNotSigner | TransferMissing | WrongMint | SourceAtaMismatch
  | ReceivingAtaMismatch | TransferAuthorityMismatch | TransferAmountMismatch | TokenDecimalsMismatch
  | SourceBalanceMissing | ReceivingBalanceMissing | SourceOwnerMismatch | ReceivingOwnerMismatch
  | SourceDeltaMismatch | ReceivingDeltaMismatch | StoredAtaMismatch

fun verification_error_code :: "verification_error \<Rightarrow> string" where
  "verification_error_code OnChainFailure = ''on_chain_failure''"
| "verification_error_code MemoMismatch = ''memo_mismatch''"
| "verification_error_code FunderNotSigner = ''funder_not_signer''"
| "verification_error_code TransferMissing = ''transfer_checked_missing''"
| "verification_error_code WrongMint = ''wrong_mint''"
| "verification_error_code SourceAtaMismatch = ''source_ata_mismatch''"
| "verification_error_code ReceivingAtaMismatch = ''receiving_ata_mismatch''"
| "verification_error_code TransferAuthorityMismatch = ''transfer_authority_mismatch''"
| "verification_error_code TransferAmountMismatch = ''transfer_amount_mismatch''"
| "verification_error_code TokenDecimalsMismatch = ''token_decimals_mismatch''"
| "verification_error_code SourceBalanceMissing = ''source_balance_missing''"
| "verification_error_code ReceivingBalanceMissing = ''receiving_balance_missing''"
| "verification_error_code SourceOwnerMismatch = ''source_owner_mismatch''"
| "verification_error_code ReceivingOwnerMismatch = ''receiving_owner_mismatch''"
| "verification_error_code SourceDeltaMismatch = ''source_delta_mismatch''"
| "verification_error_code ReceivingDeltaMismatch = ''receiving_delta_mismatch''"
| "verification_error_code StoredAtaMismatch = ''stored_ata_mismatch''"

fun verification_error_reason :: "verification_error \<Rightarrow> string" where
  "verification_error_reason OnChainFailure = ''the transaction failed on-chain''"
| "verification_error_reason MemoMismatch = ''the exact canonical funding memo is missing''"
| "verification_error_reason FunderNotSigner = ''the registered user wallet did not sign the transaction''"
| "verification_error_reason TransferMissing = ''no TransferChecked instruction was found''"
| "verification_error_reason WrongMint = ''the transfer or token balance mint is not mainnet USDC''"
| "verification_error_reason SourceAtaMismatch = ''TransferChecked did not debit the registered user ATA''"
| "verification_error_reason ReceivingAtaMismatch = ''TransferChecked did not credit the registered controlled ATA''"
| "verification_error_reason TransferAuthorityMismatch = ''TransferChecked authority is not the registered user wallet''"
| "verification_error_reason TransferAmountMismatch = ''TransferChecked amount does not exactly match intent''"
| "verification_error_reason TokenDecimalsMismatch = ''TransferChecked or token balance decimals are not 6''"
| "verification_error_reason SourceBalanceMissing = ''the registered user ATA balance proof is incomplete''"
| "verification_error_reason ReceivingBalanceMissing = ''the registered controlled ATA balance proof is incomplete''"
| "verification_error_reason SourceOwnerMismatch = ''the source ATA is not owned by the registered user''"
| "verification_error_reason ReceivingOwnerMismatch = ''the receiving ATA is not owned by the controlled wallet''"
| "verification_error_reason SourceDeltaMismatch = ''the registered user ATA did not decrease by the exact amount''"
| "verification_error_reason ReceivingDeltaMismatch = ''the controlled ATA did not increase by the exact amount''"
| "verification_error_reason StoredAtaMismatch = ''stored token accounts are not the owners' canonical USDC ATAs''"

record confirm_sdk =
  cs_pubkey_from_str :: "string \<Rightarrow> pubkey option"
  cs_ata_text :: "pubkey \<Rightarrow> pubkey \<Rightarrow> string"   \<comment> \<open>\<open>get_associated_token_address(..).to_string()\<close>\<close>
  cs_signature_ok :: "string \<Rightarrow> bool"

definition expected_memo :: "w5h_funding_intent \<Rightarrow> string" where
  "expected_memo intent =
     ''claw:w5h:'' @ fi_intent_id intent @ '':'' @ fi_canonical_rule_hash_hex intent"

definition validate_stored_atas :: "confirm_sdk \<Rightarrow> w5h_funding_intent \<Rightarrow> verification_error + unit" where
  "validate_stored_atas S intent =
     try_bind (ok_or (cs_pubkey_from_str S usdc_mint_bs58) StoredAtaMismatch) (\<lambda>mint.
     try_bind (ok_or (cs_pubkey_from_str S (fi_user_wallet intent)) StoredAtaMismatch) (\<lambda>user.
     try_bind (ok_or (cs_pubkey_from_str S (fi_controlled_wallet intent)) StoredAtaMismatch) (\<lambda>controlled.
       if cs_ata_text S user mint \<noteq> fi_user_usdc_ata intent
          \<or> cs_ata_text S controlled mint \<noteq> fi_controlled_usdc_ata intent
       then Inl StoredAtaMismatch else Inr ())))"

definition exact_transfer :: "w5h_funding_intent \<Rightarrow> observed_transfer_checked \<Rightarrow> bool" where
  "exact_transfer intent transfer \<longleftrightarrow>
     otc_source transfer = fi_user_usdc_ata intent \<and> otc_destination transfer = fi_controlled_usdc_ata intent
   \<and> otc_mint transfer = usdc_mint_bs58 \<and> otc_authority transfer = fi_user_wallet intent
   \<and> otc_amount_raw transfer = fi_amount_raw intent \<and> otc_decimals transfer = usdc_decimals"

definition diagnose_transfer_mismatch ::
    "observed_transfer_checked option \<Rightarrow> w5h_funding_intent \<Rightarrow> verification_error" where
  "diagnose_transfer_mismatch transfer intent =
     (case transfer of
        None \<Rightarrow> TransferMissing
      | Some t \<Rightarrow>
          (if otc_mint t \<noteq> usdc_mint_bs58 then WrongMint
           else if otc_source t \<noteq> fi_user_usdc_ata intent then SourceAtaMismatch
           else if otc_destination t \<noteq> fi_controlled_usdc_ata intent then ReceivingAtaMismatch
           else if otc_authority t \<noteq> fi_user_wallet intent then TransferAuthorityMismatch
           else if otc_amount_raw t \<noteq> fi_amount_raw intent then TransferAmountMismatch
           else if otc_decimals t \<noteq> usdc_decimals then TokenDecimalsMismatch
           else TransferMissing))"

definition find_balance :: "observed_token_balance list \<Rightarrow> string \<Rightarrow> observed_token_balance option" where
  "find_balance balances account = find (\<lambda>b. otb_account b = account) balances"

definition validate_balance_identity ::
    "observed_token_balance \<Rightarrow> string \<Rightarrow> bool \<Rightarrow> verification_error + unit" where
  "validate_balance_identity balance expected_owner source =
     (if otb_mint balance \<noteq> usdc_mint_bs58 then Inl WrongMint
      else if otb_decimals balance \<noteq> usdc_decimals then Inl TokenDecimalsMismatch
      else if otb_owner balance \<noteq> expected_owner
      then Inl (if source then SourceOwnerMismatch else ReceivingOwnerMismatch)
      else Inr ())"

definition verify_source :: "observed_funding_transaction \<Rightarrow> w5h_funding_intent \<Rightarrow> verification_error + unit" where
  "verify_source tx intent =
     try_bind (ok_or (find_balance (oft_pre_token_balances tx) (fi_user_usdc_ata intent)) SourceBalanceMissing) (\<lambda>pre.
     try_bind (ok_or (find_balance (oft_post_token_balances tx) (fi_user_usdc_ata intent)) SourceBalanceMissing) (\<lambda>post.
     try_bind (validate_balance_identity pre (fi_user_wallet intent) True) (\<lambda>_.
     try_bind (validate_balance_identity post (fi_user_wallet intent) True) (\<lambda>_.
     try_bind (ok_or (checked_sub (otb_amount_raw pre) (otb_amount_raw post)) SourceDeltaMismatch) (\<lambda>source_delta.
       if source_delta \<noteq> fi_amount_raw intent then Inl SourceDeltaMismatch else Inr ())))))"

definition verify_receiving :: "observed_funding_transaction \<Rightarrow> w5h_funding_intent \<Rightarrow> verification_error + unit" where
  "verify_receiving tx intent =
     (let receiving_pre = find_balance (oft_pre_token_balances tx) (fi_controlled_usdc_ata intent) in
      try_bind (ok_or (find_balance (oft_post_token_balances tx) (fi_controlled_usdc_ata intent))
          ReceivingBalanceMissing) (\<lambda>post.
      try_bind (case receiving_pre of
          Some pre \<Rightarrow> validate_balance_identity pre (fi_controlled_wallet intent) False
        | None \<Rightarrow> Inr ()) (\<lambda>_.
      try_bind (validate_balance_identity post (fi_controlled_wallet intent) False) (\<lambda>_.
        let pre_amount = (case receiving_pre of None \<Rightarrow> 0 | Some pre \<Rightarrow> otb_amount_raw pre) in
        try_bind (ok_or (checked_sub (otb_amount_raw post) pre_amount) ReceivingDeltaMismatch) (\<lambda>receiving_delta.
          if receiving_delta \<noteq> fi_amount_raw intent then Inl ReceivingDeltaMismatch else Inr ())))))"

definition verify_funding_transaction ::
    "confirm_sdk \<Rightarrow> observed_funding_transaction \<Rightarrow> w5h_funding_intent \<Rightarrow> verification_error + unit" where
  "verify_funding_transaction S tx intent =
     (if \<not> oft_succeeded tx then Inl OnChainFailure
      else if expected_memo intent \<notin> set (oft_memos tx) then Inl MemoMismatch
      else if fi_user_wallet intent \<notin> set (oft_signer_pubkeys tx) then Inl FunderNotSigner
      else
        try_bind (validate_stored_atas S intent) (\<lambda>_.
          if find (exact_transfer intent) (oft_transfer_checked tx) = None
          then Inl (diagnose_transfer_mismatch
                 (case oft_transfer_checked tx of [] \<Rightarrow> None | t # _ \<Rightarrow> Some t) intent)
          else
            try_bind (verify_source tx intent) (\<lambda>_. verify_receiving tx intent)))"

section \<open>Confirming\<close>

record watch_rule_deadline =
  wd_expires_at_slot :: u64
  wd_funding_transaction_slot :: "u64 option"
  wd_expired_at_funding_slot :: bool

record budget_reserved_response =
  brr_intent_id :: string
  brr_tx_signature :: string
  brr_funding_finalized_slot :: "u64 option"
  brr_confirmation_level :: string
  brr_idempotent :: bool
  brr_amount_raw :: string
  brr_funding_row_expires_at_ms :: i64
  brr_funding_arrival_time_ms :: i64
  brr_funding_arrival_time_source :: string
  brr_arrived_after_funding_deadline :: bool
  brr_watch_rule :: watch_rule_deadline
  brr_late_funding :: bool                  \<comment> \<open>whether the refund notice is attached\<close>

datatype confirm_response =
    InvalidIntentId
  | InvalidSignature
  | IntentNotFound string
  | RuleUnavailable string
  | IdentityMismatchResponse string
  | SignatureConflict string w5h_intent_status
  | StateConflict string w5h_intent_status
  | ConfigMissing string
  | PendingConfirmation string string
  | RpcErrorResponse string string
  | VerificationFailed string string verification_error
  | SlotMismatchResponse string
  | IntentDisappeared string
  | RecordedNotReserved string string
  | RaceConflict string w5h_intent_status
  | BudgetReservedResponse budget_reserved_response

fun confirm_status :: "confirm_response \<Rightarrow> string" where
  "confirm_status InvalidIntentId = ''invalid_input''"
| "confirm_status InvalidSignature = ''invalid_input''"
| "confirm_status (IntentNotFound _) = ''not_found''"
| "confirm_status (RuleUnavailable _) = ''rule_unavailable''"
| "confirm_status (IdentityMismatchResponse _) = ''intent_integrity_error''"
| "confirm_status (SignatureConflict _ _) = ''signature_conflict''"
| "confirm_status (StateConflict _ _) = ''state_conflict''"
| "confirm_status (ConfigMissing _) = ''config_missing''"
| "confirm_status (PendingConfirmation _ _) = ''pending_confirmation''"
| "confirm_status (RpcErrorResponse _ _) = ''rpc_error''"
| "confirm_status (VerificationFailed _ _ _) = ''verification_failed''"
| "confirm_status (SlotMismatchResponse _) = ''intent_integrity_error''"
| "confirm_status (IntentDisappeared _) = ''state_conflict''"
| "confirm_status (RecordedNotReserved _ _) = ''funding_submitted''"
| "confirm_status (RaceConflict _ _) = ''state_conflict''"
| "confirm_status (BudgetReservedResponse _) = ''budget_reserved''"

definition success_response ::
    "w5h_funding_intent \<Rightarrow> stored_watch_rule \<Rightarrow> string \<Rightarrow> u64 option \<Rightarrow> i64 option \<Rightarrow> string \<Rightarrow> i64 \<Rightarrow> bool \<Rightarrow>
     budget_reserved_response" where
  "success_response intent stored_rule tx_signature observed_slot observed_block_time_ms confirmation now_ms
     idempotent =
     (let (arrival, source) =
        (case observed_block_time_ms of
           Some block_time_ms \<Rightarrow> (block_time_ms, ''funding_transaction.blockTime'')
         | None \<Rightarrow> (now_ms, ''confirmation_clock_fallback''));
          late = (sint (fi_expires_at_ms intent) \<le> sint arrival)
      in \<lparr>brr_intent_id = fi_intent_id intent, brr_tx_signature = tx_signature,
          brr_funding_finalized_slot = observed_slot, brr_confirmation_level = confirmation,
          brr_idempotent = idempotent, brr_amount_raw = decimal (unat (fi_amount_raw intent)),
          brr_funding_row_expires_at_ms = fi_expires_at_ms intent,
          brr_funding_arrival_time_ms = arrival, brr_funding_arrival_time_source = source,
          brr_arrived_after_funding_deadline = late,
          brr_watch_rule =
            \<lparr>wd_expires_at_slot = wr_expires_at_slot (swr_rule stored_rule),
             wd_funding_transaction_slot = observed_slot,
             wd_expired_at_funding_slot =
               (case observed_slot of
                  Some slot \<Rightarrow> wr_expires_at_slot (swr_rule stored_rule) \<le> slot | None \<Rightarrow> False)\<rparr>,
          brr_late_funding = late\<rparr>)"

definition watch_rule_matches_intent :: "store_env \<Rightarrow> stored_watch_rule \<Rightarrow> w5h_funding_intent \<Rightarrow> bool" where
  "watch_rule_matches_intent E rule intent \<longleftrightarrow>
     hex_encode (wr_rule_id (swr_rule rule)) = fi_intent_id intent
   \<and> fi_rule_id_hex intent = fi_intent_id intent
   \<and> map ascii_lower (hex_encode (swr_canonical_rule_hash rule))
       = map ascii_lower (fi_canonical_rule_hash_hex intent)
   \<and> wr_max_input_amount_raw (swr_rule rule) = fi_amount_raw intent
   \<and> se_to_base58 E (wr_destination (swr_rule rule)) = fi_controlled_wallet intent"

definition decode_rule_id :: "string \<Rightarrow> bytes option" where
  "decode_rule_id value =
     (if length value \<noteq> 32 \<or> \<not> list_all lower_hex_char value then None
      else result_option (hex_decode value))"

text \<open>
  What a confirmation meets: the database, whose call number \<open>k\<close> may fail and is preceded by the
  steps of other actors; the rule table; the reader; the clock of the response.
\<close>

record confirm_world =
  cw_crypto :: crypto
  cw_store :: store_env
  cw_sdk :: confirm_sdk
  cw_reader :: "(string \<Rightarrow> funding_read_error + funding_transaction_read) option"
  cw_now :: i64
  cw_row_clock :: "nat \<Rightarrow> i64"
  cw_fault :: "nat \<Rightarrow> db_fault"
  cw_others :: "nat \<Rightarrow> (i64 \<times> string \<times> funding_op) list"
  cw_rules :: "store_error + watch_table"

definition read_intent ::
    "confirm_world \<Rightarrow> nat \<Rightarrow> string \<Rightarrow> funding_table \<Rightarrow>
     (store_error + w5h_funding_intent option) \<times> funding_table" where
  "read_intent W k intent_id t =
     (let t1 = funding_run t (cw_others W k) in
      (if cw_fault W k = NoFault then funding_get intent_id t1 else Inl (Sqlx ''database unavailable''), t1))"

definition write_intent ::
    "confirm_world \<Rightarrow> nat \<Rightarrow> (funding_table \<Rightarrow> funding_table \<times> nat) \<Rightarrow> funding_table \<Rightarrow>
     (store_error + nat) \<times> funding_table" where
  "write_intent W k stmt t =
     (let t1 = funding_run t (cw_others W k) in
      case cw_fault W k of
        NoFault \<Rightarrow> (Inr (snd (stmt t1)), fst (stmt t1))
      | FailBefore \<Rightarrow> (Inl (Sqlx ''database unavailable''), t1)
      | FailAfter \<Rightarrow> (Inl (Sqlx ''database unavailable''), fst (stmt t1)))"

definition resolve_transition_race ::
    "confirm_world \<Rightarrow> nat \<Rightarrow> stored_watch_rule \<Rightarrow> string \<Rightarrow> string \<Rightarrow> observed_funding_transaction \<Rightarrow>
     funding_table \<Rightarrow> (store_error + confirm_response) \<times> funding_table" where
  "resolve_transition_race W k stored_rule intent_id tx_signature observed t =
     (case read_intent W k intent_id t of
        (Inl e, t1) \<Rightarrow> (Inl e, t1)
      | (Inr None, t1) \<Rightarrow> (Inr (IntentDisappeared intent_id), t1)
      | (Inr (Some current), t1) \<Rightarrow>
          (Inr (if fi_status current = BudgetReserved \<and> fi_funding_signature current = Some tx_signature
             then BudgetReservedResponse (success_response current stored_rule tx_signature
                    (case fi_funding_finalized_slot current of Some s \<Rightarrow> Some s | None \<Rightarrow> Some (oft_slot observed))
                    (oft_block_time_ms observed) (confirmation_level_str (oft_confirmation observed))
                    (cw_now W) True)
             else if fi_status current = FundingSubmitted \<and> fi_funding_signature current = Some tx_signature
             then RecordedNotReserved intent_id tx_signature
             else RaceConflict intent_id (fi_status current)), t1))"

text \<open>The two transitions behind a verified observation; the calls are 1 to 3.\<close>

definition reserve_budget ::
    "confirm_world \<Rightarrow> stored_watch_rule \<Rightarrow> string \<Rightarrow> string \<Rightarrow> observed_funding_transaction \<Rightarrow> funding_table \<Rightarrow>
     (store_error + confirm_response) \<times> funding_table" where
  "reserve_budget W stored_rule intent_id tx_signature observed t =
     (case write_intent W 1 (mark_funding_submitted_if_required (cw_row_clock W 1) intent_id tx_signature) t of
        (Inl e, t1) \<Rightarrow> (Inl e, t1)
      | (Inr submitted, t1) \<Rightarrow>
          (if submitted = 0 then resolve_transition_race W 2 stored_rule intent_id tx_signature observed t1
           else case write_intent W 2
                  (mark_budget_reserved_if_submitted (cw_row_clock W 2) intent_id tx_signature (oft_slot observed)) t1 of
             (Inl e, t2) \<Rightarrow> (Inl e, t2)
           | (Inr reserved, t2) \<Rightarrow>
               (if reserved = 0 then resolve_transition_race W 3 stored_rule intent_id tx_signature observed t2
                else case read_intent W 3 intent_id t2 of
                  (Inl e, t3) \<Rightarrow> (Inl e, t3)
                | (Inr None, t3) \<Rightarrow> (Inr (IntentDisappeared intent_id), t3)
                | (Inr (Some current), t3) \<Rightarrow>
                    (Inr (BudgetReservedResponse (success_response current stored_rule tx_signature
                       (Some (oft_slot observed)) (oft_block_time_ms observed)
                       (confirmation_level_str (oft_confirmation observed)) (cw_now W) False)), t3))))"

text \<open>Which states accept the signature: already reserved, still to reserve, or a refusal.\<close>

definition funding_admission :: "w5h_funding_intent \<Rightarrow> string \<Rightarrow> confirm_response + bool" where
  "funding_admission intent tx_signature =
     (case fi_status intent of
        BudgetReserved \<Rightarrow>
          (if fi_funding_signature intent = Some tx_signature then Inr True
           else Inl (SignatureConflict (fi_intent_id intent) (fi_status intent)))
      | FundingRequired \<Rightarrow> Inr False
      | FundingSubmitted \<Rightarrow>
          (if fi_funding_signature intent = Some tx_signature then Inr False
           else Inl (SignatureConflict (fi_intent_id intent) (fi_status intent)))
      | _ \<Rightarrow> Inl (StateConflict (fi_intent_id intent) (fi_status intent)))"

definition confirm_observed ::
    "confirm_world \<Rightarrow> w5h_funding_intent \<Rightarrow> stored_watch_rule \<Rightarrow> bool \<Rightarrow> string \<Rightarrow> funding_table \<Rightarrow>
     (store_error + confirm_response) \<times> funding_table" where
  "confirm_observed W intent stored_rule already_reserved tx_signature t =
     (let intent_id = fi_intent_id intent in
      case cw_reader W of
        None \<Rightarrow> (Inr (ConfigMissing intent_id), t)
      | Some reader \<Rightarrow>
          (case reader tx_signature of
             Inr ReadPending \<Rightarrow> (Inr (PendingConfirmation intent_id tx_signature), t)
           | Inl e \<Rightarrow> (Inr (RpcErrorResponse intent_id (funding_read_error_code e)), t)
           | Inr (ReadConfirmed observed) \<Rightarrow>
               (case verify_funding_transaction (cw_sdk W) observed intent of
                  Inl e \<Rightarrow> (Inr (VerificationFailed intent_id tx_signature e), t)
                | Inr _ \<Rightarrow>
                    (if already_reserved then
                       (if \<exists>slot. fi_funding_finalized_slot intent = Some slot \<and> slot \<noteq> oft_slot observed
                        then (Inr (SlotMismatchResponse intent_id), t)
                        else (Inr (BudgetReservedResponse (success_response intent stored_rule tx_signature
                               (case fi_funding_finalized_slot intent of Some s \<Rightarrow> Some s | None \<Rightarrow> Some (oft_slot observed))
                               (oft_block_time_ms observed)
                               (confirmation_level_str (oft_confirmation observed)) (cw_now W) True)), t))
                     else reserve_budget W stored_rule intent_id tx_signature observed t))))"

text \<open>\<open>confirm_funding_json\<close>; the panic of the \<open>expect\<close> is unreachable and has no value here.\<close>

definition confirm_funding ::
    "confirm_world \<Rightarrow> confirm_funding_params \<Rightarrow> funding_table \<Rightarrow>
     (store_error + confirm_response) \<times> funding_table" where
  "confirm_funding W params t =
     (let intent_id = trim (cfp_intent_id params); tx_signature = trim (cfp_tx_signature params) in
      case decode_rule_id intent_id of
        None \<Rightarrow> (Inr InvalidIntentId, t)
      | Some rule_id \<Rightarrow>
          (if \<not> cs_signature_ok (cw_sdk W) tx_signature then (Inr InvalidSignature, t)
           else case read_intent W 0 intent_id t of
             (Inl e, t0) \<Rightarrow> (Inl e, t0)
           | (Inr None, t0) \<Rightarrow> (Inr (IntentNotFound intent_id), t0)
           | (Inr (Some intent), t0) \<Rightarrow>
               (case try_bind (cw_rules W) (watch_get (cw_crypto W) (cw_store W) rule_id) of
                  Inl e \<Rightarrow> (Inl e, t0)
                | Inr None \<Rightarrow> (Inr (RuleUnavailable intent_id), t0)
                | Inr (Some stored_rule) \<Rightarrow>
                    (if \<not> watch_rule_matches_intent (cw_store W) stored_rule intent
                     then (Inr (IdentityMismatchResponse intent_id), t0)
                     else case funding_admission intent tx_signature of
                       Inl r \<Rightarrow> (Inr r, t0)
                     | Inr already_reserved \<Rightarrow>
                         confirm_observed W intent stored_rule already_reserved tx_signature t0))))"

section \<open>What the verifier accepts\<close>

text \<open>A token account of the owner holding USDC.\<close>

definition usdc_account :: "observed_token_balance \<Rightarrow> string \<Rightarrow> bool" where
  "usdc_account b owner \<longleftrightarrow> otb_mint b = usdc_mint_bs58 \<and> otb_decimals b = usdc_decimals \<and> otb_owner b = owner"

definition canonical_atas :: "confirm_sdk \<Rightarrow> w5h_funding_intent \<Rightarrow> bool" where
  "canonical_atas S intent \<longleftrightarrow>
     (\<exists>mint user controlled. cs_pubkey_from_str S usdc_mint_bs58 = Some mint
        \<and> cs_pubkey_from_str S (fi_user_wallet intent) = Some user
        \<and> cs_pubkey_from_str S (fi_controlled_wallet intent) = Some controlled
        \<and> cs_ata_text S user mint = fi_user_usdc_ata intent
        \<and> cs_ata_text S controlled mint = fi_controlled_usdc_ata intent)"

text \<open>
  The payment of an intent: the transaction succeeded, names the intent and its rule in a memo, is
  signed by the user, transfers exactly the amount between the canonical accounts, and the balances of
  both accounts moved by exactly the amount.
\<close>

definition payment_proved :: "confirm_sdk \<Rightarrow> observed_funding_transaction \<Rightarrow> w5h_funding_intent \<Rightarrow> bool" where
  "payment_proved S tx intent \<longleftrightarrow>
     oft_succeeded tx \<and> expected_memo intent \<in> set (oft_memos tx)
   \<and> fi_user_wallet intent \<in> set (oft_signer_pubkeys tx) \<and> canonical_atas S intent
   \<and> (\<exists>transfer \<in> set (oft_transfer_checked tx). exact_transfer intent transfer)
   \<and> (\<exists>pre post. find_balance (oft_pre_token_balances tx) (fi_user_usdc_ata intent) = Some pre
        \<and> find_balance (oft_post_token_balances tx) (fi_user_usdc_ata intent) = Some post
        \<and> usdc_account pre (fi_user_wallet intent) \<and> usdc_account post (fi_user_wallet intent)
        \<and> unat (otb_amount_raw pre) = unat (otb_amount_raw post) + unat (fi_amount_raw intent))
   \<and> (\<exists>post. find_balance (oft_post_token_balances tx) (fi_controlled_usdc_ata intent) = Some post
        \<and> usdc_account post (fi_controlled_wallet intent)
        \<and> (case find_balance (oft_pre_token_balances tx) (fi_controlled_usdc_ata intent) of
             None \<Rightarrow> unat (otb_amount_raw post) = unat (fi_amount_raw intent)
           | Some pre \<Rightarrow> usdc_account pre (fi_controlled_wallet intent)
               \<and> unat (otb_amount_raw post) = unat (otb_amount_raw pre) + unat (fi_amount_raw intent)))"

lemma validate_balance_identity_ok [simp]:
  "validate_balance_identity b owner src = Inr () \<longleftrightarrow> usdc_account b owner"
  by (simp add: validate_balance_identity_def usdc_account_def)

lemma validate_stored_atas_ok: "validate_stored_atas S intent = Inr () \<longleftrightarrow> canonical_atas S intent"
  by (auto simp: validate_stored_atas_def canonical_atas_def split: if_splits)

lemma exact_delta:
  "(\<exists>d. checked_sub a b = Some d \<and> d = c) \<longleftrightarrow> unat a = unat b + unat c" for a b c :: u64
  by (simp add: checked_sub_Some)

lemma verify_source_ok:
  "verify_source tx intent = Inr () \<longleftrightarrow>
     (\<exists>pre post. find_balance (oft_pre_token_balances tx) (fi_user_usdc_ata intent) = Some pre
        \<and> find_balance (oft_post_token_balances tx) (fi_user_usdc_ata intent) = Some post
        \<and> usdc_account pre (fi_user_wallet intent) \<and> usdc_account post (fi_user_wallet intent)
        \<and> unat (otb_amount_raw pre) = unat (otb_amount_raw post) + unat (fi_amount_raw intent))"
  by (auto simp: verify_source_def checked_sub_Some split: if_splits)

lemma verify_receiving_ok:
  "verify_receiving tx intent = Inr () \<longleftrightarrow>
     (\<exists>post. find_balance (oft_post_token_balances tx) (fi_controlled_usdc_ata intent) = Some post
        \<and> usdc_account post (fi_controlled_wallet intent)
        \<and> (case find_balance (oft_pre_token_balances tx) (fi_controlled_usdc_ata intent) of
             None \<Rightarrow> unat (otb_amount_raw post) = unat (fi_amount_raw intent)
           | Some pre \<Rightarrow> usdc_account pre (fi_controlled_wallet intent)
               \<and> unat (otb_amount_raw post) = unat (otb_amount_raw pre) + unat (fi_amount_raw intent)))"
  by (cases "find_balance (oft_pre_token_balances tx) (fi_controlled_usdc_ata intent)")
    (auto simp: verify_receiving_def Let_def checked_sub_Some split: if_splits)

lemma verify_ok: "verify_funding_transaction S tx intent = Inr () \<longleftrightarrow> payment_proved S tx intent"
  by (auto simp: verify_funding_transaction_def payment_proved_def validate_stored_atas_ok verify_source_ok
      verify_receiving_ok find_None_iff)

text \<open>C13: The verifier is exact: it accepts a transaction for an intent if and only if the transaction
  succeeded, carries the intent's memo and the user's signature, transfers exactly the intent's amount
  of USDC from the user's canonical token account to the controlled one, and the observed balances of
  the two accounts, both of the right owner and mint, moved down and up by exactly that amount.\<close>

theorem funding_verifier_exact:
  "verify_funding_transaction S tx intent = Inr () \<longleftrightarrow> payment_proved S tx intent"
  by (rule verify_ok)

section \<open>The budget is reserved only behind a proof\<close>

definition confirmed_payment ::
    "confirm_world \<Rightarrow> confirm_funding_params \<Rightarrow> funding_table \<Rightarrow> observed_funding_transaction \<Rightarrow> bool" where
  "confirmed_payment W params t observed \<longleftrightarrow>
     (\<exists>intent rule_id rules stored reader.
        funding_get (trim (cfp_intent_id params)) (funding_run t (cw_others W 0)) = Inr (Some intent)
      \<and> decode_rule_id (trim (cfp_intent_id params)) = Some rule_id \<and> cw_rules W = Inr rules
      \<and> watch_get (cw_crypto W) (cw_store W) rule_id rules = Inr (Some stored)
      \<and> watch_rule_matches_intent (cw_store W) stored intent
      \<and> cw_reader W = Some reader \<and> reader (trim (cfp_tx_signature params)) = Inr (ReadConfirmed observed)
      \<and> payment_proved (cw_sdk W) observed intent)"

definition confirming_write ::
    "confirm_world \<Rightarrow> confirm_funding_params \<Rightarrow> observed_funding_transaction \<Rightarrow> i64 \<times> string \<times> funding_op \<Rightarrow> bool" where
  "confirming_write W params observed op \<longleftrightarrow>
     op \<in> {(cw_row_clock W 1, trim (cfp_intent_id params), FundSubmit (trim (cfp_tx_signature params))),
           (cw_row_clock W 2, trim (cfp_intent_id params),
            FundReserve (trim (cfp_tx_signature params)) (oft_slot observed))}"

lemma funding_run_append: "funding_run t (xs @ ys) = funding_run (funding_run t xs) ys"
  by (simp add: funding_run_def)

lemma read_intent_run:
  "read_intent W k i t = (r, t') \<Longrightarrow> t' = funding_run t (cw_others W k)"
  by (simp add: read_intent_def Let_def)

lemma write_intent_run:
  assumes "write_intent W k (funding_apply now i opn) t = (r, t')"
  shows "\<exists>ops. t' = funding_run t ops \<and> set ops \<subseteq> insert (now, i, opn) (set (cw_others W k))"
proof (cases "cw_fault W k")
  case FailBefore
  with assms show ?thesis by (intro exI [of _ "cw_others W k"]) (auto simp: write_intent_def Let_def)
next
  case NoFault
  with assms show ?thesis
    by (intro exI [of _ "cw_others W k @ [(now, i, opn)]"]) (auto simp: write_intent_def Let_def funding_run_def)
next
  case FailAfter
  with assms show ?thesis
    by (intro exI [of _ "cw_others W k @ [(now, i, opn)]"]) (auto simp: write_intent_def Let_def funding_run_def)
qed

definition runs_to :: "(i64 \<times> string \<times> funding_op) set \<Rightarrow> funding_table \<Rightarrow> funding_table \<Rightarrow> bool" where
  "runs_to A t t' \<longleftrightarrow> (\<exists>ops. t' = funding_run t ops \<and> set ops \<subseteq> A)"

lemma runs_to_refl: "runs_to A t t"
  unfolding runs_to_def by (intro exI [of _ "[]"]) (simp add: funding_run_def)

lemma runs_to_trans: "runs_to A t u \<Longrightarrow> runs_to A u v \<Longrightarrow> runs_to A t v"
  unfolding runs_to_def by (metis Un_least funding_run_append set_append)

lemma read_runs_to:
  "read_intent W k i t = (r, t') \<Longrightarrow> set (cw_others W k) \<subseteq> A \<Longrightarrow> runs_to A t t'"
  using read_intent_run unfolding runs_to_def by blast

lemma write_runs_to:
  "write_intent W k (funding_apply now i opn) t = (r, t') \<Longrightarrow>
     set (cw_others W k) \<subseteq> A \<Longrightarrow> (now, i, opn) \<in> A \<Longrightarrow> runs_to A t t'"
  using write_intent_run unfolding runs_to_def by blast

lemma resolve_runs_to:
  "resolve_transition_race W k rule i sg observed t = (r, t') \<Longrightarrow> set (cw_others W k) \<subseteq> A \<Longrightarrow> runs_to A t t'"
  using read_runs_to [of W k i t] unfolding resolve_transition_race_def
  by (auto split: prod.splits sum.splits option.splits)

lemma reserve_runs_to:
  assumes "reserve_budget W rule i sg observed t = (r, t')"
    and "(\<Union>k. set (cw_others W k)) \<subseteq> A"
    and "(cw_row_clock W 1, i, FundSubmit sg) \<in> A" "(cw_row_clock W 2, i, FundReserve sg (oft_slot observed)) \<in> A"
  shows "runs_to A t t'"
proof -
  note others = assms(2)
  let ?w1 = "write_intent W 1 (funding_apply (cw_row_clock W 1) i (FundSubmit sg)) t"
  obtain r1 t1 where w1: "?w1 = (r1, t1)" by (cases ?w1)
  then have run1: "runs_to A t t1" using others assms(3) by (auto intro!: write_runs_to)
  let ?w2 = "write_intent W 2 (funding_apply (cw_row_clock W 2) i (FundReserve sg (oft_slot observed))) t1"
  obtain r2 t2 where w2: "?w2 = (r2, t2)" by (cases ?w2)
  then have run2: "runs_to A t1 t2" using others assms(4) by (auto intro!: write_runs_to)
  note exec = assms(1) [unfolded reserve_budget_def, folded funding_apply.simps, unfolded w1 prod.case]
  show ?thesis
  proof (cases r1)
    case (Inl e)
    with exec run1 show ?thesis by simp
  next
    case n: (Inr n)
    show ?thesis
    proof (cases "n = 0")
      case True
      with exec n have "resolve_transition_race W 2 rule i sg observed t1 = (r, t')" by simp
      then have "runs_to A t1 t'" using others by (auto intro: resolve_runs_to)
      with run1 show ?thesis by (rule runs_to_trans)
    next
      case False
      note exec2 = exec [unfolded n sum.case if_not_P [OF False] w2 prod.case]
      have "runs_to A t2 t'"
      proof (cases r2)
        case (Inl e)
        with exec2 show ?thesis by (simp add: runs_to_refl)
      next
        case m: (Inr m)
        show ?thesis
        proof (cases "m = 0")
          case True
          with exec2 m have "resolve_transition_race W 3 rule i sg observed t2 = (r, t')" by simp
          then show ?thesis using others by (auto intro: resolve_runs_to)
        next
          case False
          with exec2 m have "t' = snd (read_intent W 3 i t2)"
            by (auto split: prod.splits sum.splits option.splits)
          then show ?thesis using others by (cases "read_intent W 3 i t2") (auto intro: read_runs_to)
        qed
      qed
      with run1 run2 show ?thesis by (blast intro: runs_to_trans)
    qed
  qed
qed

definition allowed_writes ::
    "confirm_world \<Rightarrow> confirm_funding_params \<Rightarrow> funding_table \<Rightarrow> (i64 \<times> string \<times> funding_op) set" where
  "allowed_writes W params t =
     (\<Union>k. set (cw_others W k))
   \<union> {op. \<exists>observed. confirmed_payment W params t observed \<and> confirming_write W params observed op}"

lemma confirm_observed_cases:
  assumes run: "confirm_observed W intent stored already sg t = (r, t')"
  obtains "t' = t" "\<forall>b. r \<noteq> Inr (BudgetReservedResponse b)"
  | reader observed where "cw_reader W = Some reader" "reader sg = Inr (ReadConfirmed observed)"
      "payment_proved (cw_sdk W) observed intent"
      "t' = t \<or> reserve_budget W stored (fi_intent_id intent) sg observed t = (r, t')"
proof (cases "cw_reader W")
  case None
  with run that(1) show ?thesis by (auto simp: confirm_observed_def Let_def)
next
  case reader: (Some reader)
  note exec = run [unfolded confirm_observed_def Let_def reader option.case]
  show ?thesis
  proof (cases "reader sg")
    case (Inl e)
    with exec that(1) show ?thesis by auto
  next
    case read: (Inr x)
    show ?thesis
    proof (cases x)
      case ReadPending
      with exec read that(1) show ?thesis by auto
    next
      case obs: (ReadConfirmed observed)
      show ?thesis
      proof (cases "verify_funding_transaction (cw_sdk W) observed intent")
        case (Inl e)
        with exec read obs that(1) show ?thesis by auto
      next
        case (Inr u)
        then have "payment_proved (cw_sdk W) observed intent" using verify_ok by simp
        moreover have "t' = t \<or> reserve_budget W stored (fi_intent_id intent) sg observed t = (r, t')"
          using exec read obs Inr by (auto split: if_splits)
        ultimately show ?thesis using that(2) reader read obs by blast
      qed
    qed
  qed
qed

lemma confirm_funding_cases:
  assumes "confirm_funding W params t = (r, t')"
  obtains "runs_to (\<Union>k. set (cw_others W k)) t t'" "\<forall>b. r \<noteq> Inr (BudgetReservedResponse b)"
  | intent rule_id rules stored already t0 where
      "decode_rule_id (trim (cfp_intent_id params)) = Some rule_id"
      "read_intent W 0 (trim (cfp_intent_id params)) t = (Inr (Some intent), t0)"
      "cw_rules W = Inr rules" "watch_get (cw_crypto W) (cw_store W) rule_id rules = Inr (Some stored)"
      "watch_rule_matches_intent (cw_store W) stored intent"
      "funding_admission intent (trim (cfp_tx_signature params)) = Inr already"
      "confirm_observed W intent stored already (trim (cfp_tx_signature params)) t0 = (r, t')"
proof -
  let ?i = "trim (cfp_intent_id params)" and ?sg = "trim (cfp_tx_signature params)"
  let ?A = "\<Union>k. set (cw_others W k)"
  obtain x t0 where rd: "read_intent W 0 ?i t = (x, t0)" by (cases "read_intent W 0 ?i t")
  have run0: "runs_to ?A t t0" using rd by (rule read_runs_to) blast
  note exec = assms [unfolded confirm_funding_def Let_def]
  show ?thesis
  proof (cases "decode_rule_id ?i")
    case None
    with exec that(1) runs_to_refl show ?thesis by auto
  next
    case rid: (Some rule_id)
    show ?thesis
    proof (cases "cs_signature_ok (cw_sdk W) ?sg")
      case False
      with exec rid that(1) runs_to_refl show ?thesis by auto
    next
      case sg: True
      note exec = exec [unfolded rid option.case rd prod.case, simplified sg not_True_eq_False if_False]
      show ?thesis
      proof (cases "\<exists>intent rules stored. x = Inr (Some intent) \<and> cw_rules W = Inr rules
          \<and> watch_get (cw_crypto W) (cw_store W) rule_id rules = Inr (Some stored)
          \<and> watch_rule_matches_intent (cw_store W) stored intent
          \<and> (\<exists>already. funding_admission intent ?sg = Inr already)")
        case True
        then obtain intent rules stored already where
          c: "x = Inr (Some intent)" "cw_rules W = Inr rules"
            "watch_get (cw_crypto W) (cw_store W) rule_id rules = Inr (Some stored)"
            "watch_rule_matches_intent (cw_store W) stored intent" "funding_admission intent ?sg = Inr already" by blast
        then have "confirm_observed W intent stored already ?sg t0 = (r, t')"
          using exec by (auto split: if_splits)
        with c rid rd that(2) show ?thesis by blast
      next
        case False
        have refusal: "funding_admission intent s = Inl resp \<Longrightarrow> resp \<noteq> BudgetReservedResponse b" for intent s resp b
          by (auto simp: funding_admission_def split: w5h_intent_status.splits if_splits)
        have "t' = t0 \<and> (\<forall>b. r \<noteq> Inr (BudgetReservedResponse b))"
          using exec False refusal
          by (auto split: sum.splits option.splits if_splits)
        with run0 that(1) show ?thesis by blast
      qed
    qed
  qed
qed

lemma confirmation_writes:
  assumes "confirm_funding W params t = (r, t')"
  shows "(\<exists>ops. t' = funding_run t ops \<and> set ops \<subseteq> allowed_writes W params t)
     \<and> (\<forall>b. r = Inr (BudgetReservedResponse b) \<longrightarrow> (\<exists>observed. confirmed_payment W params t observed))"
proof -
  let ?i = "trim (cfp_intent_id params)" and ?sg = "trim (cfp_tx_signature params)"
  let ?A = "allowed_writes W params t"
  have others: "(\<Union>k. set (cw_others W k)) \<subseteq> ?A" by (auto simp: allowed_writes_def)
  show ?thesis
  proof (rule confirm_funding_cases [OF assms])
    assume "runs_to (\<Union>k. set (cw_others W k)) t t'" "\<forall>b. r \<noteq> Inr (BudgetReservedResponse b)"
    with others show ?thesis unfolding runs_to_def by blast
  next
    fix intent rule_id rules stored already t0
    assume rid: "decode_rule_id ?i = Some rule_id" and rd: "read_intent W 0 ?i t = (Inr (Some intent), t0)"
      and rules: "cw_rules W = Inr rules" "watch_get (cw_crypto W) (cw_store W) rule_id rules = Inr (Some stored)"
      and m: "watch_rule_matches_intent (cw_store W) stored intent"
      and run: "confirm_observed W intent stored already ?sg t0 = (r, t')"
    have t0: "runs_to ?A t t0" using rd others by (auto intro: read_runs_to)
    have get: "funding_get ?i (funding_run t (cw_others W 0)) = Inr (Some intent)"
      using rd by (auto simp: read_intent_def Let_def split: if_splits)
    then have id: "fi_intent_id intent = ?i" by (rule funding_get_intent_id)
    from run show ?thesis
    proof (rule confirm_observed_cases)
      assume "t' = t0" "\<forall>b. r \<noteq> Inr (BudgetReservedResponse b)"
      with t0 show ?thesis unfolding runs_to_def by blast
    next
      fix reader observed
      assume rdr: "cw_reader W = Some reader" "reader ?sg = Inr (ReadConfirmed observed)"
        and proved: "payment_proved (cw_sdk W) observed intent"
        and res: "t' = t0 \<or> reserve_budget W stored (fi_intent_id intent) ?sg observed t0 = (r, t')"
      have pay: "confirmed_payment W params t observed"
        unfolding confirmed_payment_def using get rid rules m rdr proved by blast
      then have "(cw_row_clock W 1, ?i, FundSubmit ?sg) \<in> ?A"
        "(cw_row_clock W 2, ?i, FundReserve ?sg (oft_slot observed)) \<in> ?A"
        by (auto simp: allowed_writes_def confirming_write_def)
      with res others have "runs_to ?A t0 t'" unfolding id by (auto intro: reserve_runs_to runs_to_refl)
      with t0 have "runs_to ?A t t'" by (rule runs_to_trans)
      with pay show ?thesis unfolding runs_to_def by blast
    qed
  qed
qed

text \<open>C4: A budget is reserved only behind a proved payment: whatever the database, the node and other
  actors do, the only writes a confirmation adds to theirs mark the requested intent as submitted and as
  reserved with the given signature and the observed slot, and these writes, like the answer that the
  budget is reserved, occur only when the reader showed a transaction for that signature that is proved
  to pay the intent, as stored and as matched with its watch rule.\<close>

theorem budget_needs_a_proved_payment:
  assumes "confirm_funding W params t = (r, t')"
  shows "(\<exists>ops. t' = funding_run t ops \<and> set ops \<subseteq> allowed_writes W params t)
     \<and> (\<forall>b. r = Inr (BudgetReservedResponse b) \<longrightarrow> (\<exists>observed. confirmed_payment W params t observed))"
  using assms by (rule confirmation_writes)

section \<open>An undisturbed confirmation, and a payment used twice\<close>

definition undisturbed :: "confirm_world \<Rightarrow> bool" where
  "undisturbed W \<longleftrightarrow> (\<forall>k. cw_others W k = [] \<and> cw_fault W k = NoFault)"

text \<open>The intent waits for its payment, and its rule is the stored one.\<close>

definition awaits_payment :: "confirm_world \<Rightarrow> string \<Rightarrow> funding_table \<Rightarrow> w5h_funding_intent \<Rightarrow> bool" where
  "awaits_payment W sg t intent \<longleftrightarrow>
     trim (fi_intent_id intent) = fi_intent_id intent \<and> trim sg = sg \<and> cs_signature_ok (cw_sdk W) sg
   \<and> funding_get (fi_intent_id intent) t = Inr (Some intent) \<and> fi_status intent = FundingRequired
   \<and> (\<exists>rule_id rules stored. decode_rule_id (fi_intent_id intent) = Some rule_id \<and> cw_rules W = Inr rules
        \<and> watch_get (cw_crypto W) (cw_store W) rule_id rules = Inr (Some stored)
        \<and> watch_rule_matches_intent (cw_store W) stored intent)"

definition params_for :: "w5h_funding_intent \<Rightarrow> string \<Rightarrow> confirm_funding_params" where
  "params_for intent sg = \<lparr>cfp_intent_id = fi_intent_id intent, cfp_tx_signature = sg\<rparr>"

definition reserved_row :: "funding_table \<Rightarrow> string \<Rightarrow> string \<Rightarrow> u64 \<Rightarrow> bool" where
  "reserved_row t i sg slot \<longleftrightarrow>
     (\<exists>row. sql_get fr_intent_id i t = Some row \<and> fr_status row = ''budget_reserved''
        \<and> fr_funding_signature row = Some sg \<and> fr_funding_finalized_slot row = Some slot)"

lemma undisturbed_read: "undisturbed W \<Longrightarrow> read_intent W k i t = (funding_get i t, t)"
  by (simp add: undisturbed_def read_intent_def Let_def funding_run_def)

lemma undisturbed_write: "undisturbed W \<Longrightarrow> write_intent W k stmt t = (Inr (snd (stmt t)), fst (stmt t))"
  by (simp add: undisturbed_def write_intent_def Let_def funding_run_def)

lemma funding_apply_hit:
  assumes "distinct (map fr_intent_id t)" "sql_get fr_intent_id i t = Some r" "funding_guard (now, opn) r"
  shows "snd (funding_apply now i opn t) = 1"
    "sql_get fr_intent_id i (fst (funding_apply now i opn t)) = Some (funding_rewrite (now, opn) r)"
    "distinct (map fr_intent_id (fst (funding_apply now i opn t)))"
    "j \<noteq> i \<Longrightarrow> sql_get fr_intent_id j (fst (funding_apply now i opn t)) = sql_get fr_intent_id j t"
  using fund.affected_iff [OF assms(1), of "(i, (now, opn))"] assms
  by (simp_all add: funding_apply_exec fund.get_exec fund.exec_keys option.map_ident)

lemma reserved_row_readable:
  "fr_status r = ''budget_reserved'' \<Longrightarrow> 0 \<le> sint (fr_amount_raw r) \<Longrightarrow> \<exists>c. row_to_intent r = Inr c"
  by (simp add: row_to_intent_def funding_status_parse_def)

lemma reserve_undisturbed:
  assumes u: "undisturbed W" and t: "distinct (map fr_intent_id t)" "funding_get i t = Inr (Some intent)"
    and st: "fi_status intent = FundingRequired"
  shows "\<exists>b t'. reserve_budget W stored i sg observed t = (Inr (BudgetReservedResponse b), t')
     \<and> \<not> brr_idempotent b \<and> distinct (map fr_intent_id t') \<and> reserved_row t' i sg (oft_slot observed)
     \<and> (\<forall>j. j \<noteq> i \<longrightarrow> sql_get fr_intent_id j t' = sql_get fr_intent_id j t)"
proof -
  from t(2) obtain row where row: "sql_get fr_intent_id i t = Some row" and ri: "row_to_intent row = Inr intent"
    by (auto simp: funding_get_def split: option.splits)
  from ri st have status: "fr_status row = ''funding_required''" and amt: "0 \<le> sint (fr_amount_raw row)"
    by (auto simp: row_to_intent_def funding_status.parse_iff split: if_splits)
  let ?a1 = "funding_apply (cw_row_clock W 1) i (FundSubmit sg)"
  let ?a2 = "funding_apply (cw_row_clock W 2) i (FundReserve sg (oft_slot observed))"
  let ?r1 = "funding_rewrite (cw_row_clock W 1, FundSubmit sg) row"
  let ?r2 = "funding_rewrite (cw_row_clock W 2, FundReserve sg (oft_slot observed)) ?r1"
  note h1 = funding_apply_hit [OF t(1) row, of "cw_row_clock W 1" "FundSubmit sg"]
  have g1: "funding_guard (cw_row_clock W 1, FundSubmit sg) row" by (simp add: funding_guard_def status)
  note h1 = h1 [OF g1]
  have g2: "funding_guard (cw_row_clock W 2, FundReserve sg (oft_slot observed)) ?r1"
    by (simp add: funding_guard_def funding_rewrite_def)
  note h2 = funding_apply_hit [OF h1(3,2) g2]
  let ?t2 = "fst (?a2 (fst (?a1 t)))"
  have r2: "fr_status ?r2 = ''budget_reserved''" "fr_funding_signature ?r2 = Some sg"
    "fr_funding_finalized_slot ?r2 = Some (oft_slot observed)" "fr_amount_raw ?r2 = fr_amount_raw row"
    by (simp_all add: funding_rewrite_def)
  have "\<exists>current. row_to_intent ?r2 = Inr current"
    by (rule reserved_row_readable [OF r2(1)]) (simp only: r2(4) amt)
  then obtain current where cur: "funding_get i ?t2 = Inr (Some current)"
    using h2(2) by (auto simp: funding_get_def)
  have "reserve_budget W stored i sg observed t = (Inr (BudgetReservedResponse (success_response current stored sg
      (Some (oft_slot observed)) (oft_block_time_ms observed)
      (confirmation_level_str (oft_confirmation observed)) (cw_now W) False)), ?t2)"
    using h1(1) h2(1) cur
    by (simp add: reserve_budget_def undisturbed_write [OF u] undisturbed_read [OF u] flip: funding_apply.simps)
  moreover have "reserved_row ?t2 i sg (oft_slot observed)"
    unfolding reserved_row_def using h2(2) r2 by blast
  moreover have "\<forall>j. j \<noteq> i \<longrightarrow> sql_get fr_intent_id j ?t2 = sql_get fr_intent_id j t"
    using h1(4) h2(4) by simp
  ultimately show ?thesis
    using h2(3) by (intro exI conjI) (auto simp: success_response_def Let_def split: option.splits)
qed

lemma confirm_undisturbed:
  assumes u: "undisturbed W" and t: "distinct (map fr_intent_id t)" and a: "awaits_payment W sg t intent"
    and r: "cw_reader W = Some reader" "reader sg = Inr (ReadConfirmed observed)"
    and p: "payment_proved (cw_sdk W) observed intent"
  shows "\<exists>b t'. confirm_funding W (params_for intent sg) t = (Inr (BudgetReservedResponse b), t')
     \<and> \<not> brr_idempotent b \<and> distinct (map fr_intent_id t') \<and> reserved_row t' (fi_intent_id intent) sg (oft_slot observed)
     \<and> (\<forall>j. j \<noteq> fi_intent_id intent \<longrightarrow> sql_get fr_intent_id j t' = sql_get fr_intent_id j t)"
proof -
  from a obtain rule_id rules stored where rule: "decode_rule_id (fi_intent_id intent) = Some rule_id"
    "cw_rules W = Inr rules" "watch_get (cw_crypto W) (cw_store W) rule_id rules = Inr (Some stored)"
    "watch_rule_matches_intent (cw_store W) stored intent" by (auto simp: awaits_payment_def)
  from a have trim: "trim (fi_intent_id intent) = fi_intent_id intent" "trim sg = sg"
    and sg: "cs_signature_ok (cw_sdk W) sg"
    and get: "funding_get (fi_intent_id intent) t = Inr (Some intent)" "fi_status intent = FundingRequired"
    by (simp_all add: awaits_payment_def)
  have "confirm_funding W (params_for intent sg) t = reserve_budget W stored (fi_intent_id intent) sg observed t"
    using rule sg get r p
    by (simp add: confirm_funding_def params_for_def Let_def trim undisturbed_read [OF u] funding_admission_def
        confirm_observed_def verify_ok [THEN iffD2])
  with reserve_undisturbed [OF u t get, of stored sg observed] show ?thesis by simp
qed

text \<open>C5: One payment can reserve several budgets: nothing ties a funding transaction to a single intent,
  so a transaction that pays one intent and also carries the memo of another one, of the same wallets
  and the same amount, is accepted for both; confirmed one after the other with that signature, both
  intents end up with a reserved budget although the controlled account received the amount once.\<close>

theorem one_payment_reserves_two_budgets:
  assumes "undisturbed W" "distinct (map fr_intent_id t)"
    and "awaits_payment W sg t a" "awaits_payment W sg t b" "fi_intent_id a \<noteq> fi_intent_id b"
    and "cw_reader W = Some reader" "reader sg = Inr (ReadConfirmed observed)"
    and "payment_proved (cw_sdk W) observed a" "expected_memo b \<in> set (oft_memos observed)"
    and "fi_user_wallet b = fi_user_wallet a" "fi_controlled_wallet b = fi_controlled_wallet a"
      "fi_user_usdc_ata b = fi_user_usdc_ata a" "fi_controlled_usdc_ata b = fi_controlled_usdc_ata a"
      "fi_amount_raw b = fi_amount_raw a"
  shows "\<exists>ra rb t1 t2. confirm_funding W (params_for a sg) t = (Inr (BudgetReservedResponse ra), t1)
     \<and> confirm_funding W (params_for b sg) t1 = (Inr (BudgetReservedResponse rb), t2)
     \<and> reserved_row t2 (fi_intent_id a) sg (oft_slot observed)
     \<and> reserved_row t2 (fi_intent_id b) sg (oft_slot observed)"
proof -
  from confirm_undisturbed [OF assms(1-3) assms(6-8)] obtain ra t1 where
    t1: "confirm_funding W (params_for a sg) t = (Inr (BudgetReservedResponse ra), t1)"
      "distinct (map fr_intent_id t1)" "reserved_row t1 (fi_intent_id a) sg (oft_slot observed)"
      "\<forall>j. j \<noteq> fi_intent_id a \<longrightarrow> sql_get fr_intent_id j t1 = sql_get fr_intent_id j t" by blast
  have "payment_proved (cw_sdk W) observed b"
    using assms(8,9) unfolding payment_proved_def canonical_atas_def exact_transfer_def assms(10-14) by blast
  moreover have "awaits_payment W sg t1 b"
    using assms(4,5) t1(4) by (simp add: awaits_payment_def funding_get_def)
  ultimately obtain rb t2 where
    t2: "confirm_funding W (params_for b sg) t1 = (Inr (BudgetReservedResponse rb), t2)"
      "reserved_row t2 (fi_intent_id b) sg (oft_slot observed)"
      "\<forall>j. j \<noteq> fi_intent_id b \<longrightarrow> sql_get fr_intent_id j t2 = sql_get fr_intent_id j t1"
    using confirm_undisturbed [OF assms(1) t1(2) _ assms(6,7)] by blast
  have "reserved_row t2 (fi_intent_id a) sg (oft_slot observed)"
    using t1(3) t2(3) assms(5) by (simp add: reserved_row_def)
  with t1(1) t2(1,2) show ?thesis by blast
qed

section \<open>Confirmations of concrete intents\<close>

text \<open>Two intents of one user, a reader that shows one transfer with both memos.\<close>

definition example_rule_id :: "nat \<Rightarrow> bytes" where "example_rule_id n = replicate 16 (word_of_nat n)"

definition numbered_rule :: "nat \<Rightarrow> watch_rule" where
  "numbered_rule n = example_rule\<lparr>wr_rule_id := example_rule_id n\<rparr>"

definition numbered_intent :: "nat \<Rightarrow> new_w5h_funding_intent" where
  "numbered_intent n =
     \<lparr>nfi_intent_id = hex_encode (example_rule_id n), nfi_rule_id_hex = hex_encode (example_rule_id n),
      nfi_canonical_rule_hash_hex = hex_encode (canonical_rule_hash example_crypto (numbered_rule n)),
      nfi_user_wallet = ''user'', nfi_user_usdc_ata = ''user-ata'', nfi_controlled_wallet = ''daemon'',
      nfi_controlled_usdc_ata = ''daemon-ata'', nfi_amount_raw = 500000, nfi_threshold_bps = 50,
      nfi_save_display_apy_bps = 60, nfi_native_onchain_apr_bps = 55,
      nfi_created_at_ms = 0, nfi_expires_at_ms = 180000\<rparr>"

definition waiting_intent :: "nat \<Rightarrow> w5h_funding_intent" where
  "waiting_intent n =
     \<lparr>fi_intent_id = hex_encode (example_rule_id n), fi_rule_id_hex = hex_encode (example_rule_id n),
      fi_canonical_rule_hash_hex = hex_encode (canonical_rule_hash example_crypto (numbered_rule n)),
      fi_user_wallet = ''user'', fi_user_usdc_ata = ''user-ata'', fi_controlled_wallet = ''daemon'',
      fi_controlled_usdc_ata = ''daemon-ata'', fi_amount_raw = 500000, fi_threshold_bps = 50,
      fi_save_display_apy_bps = 60, fi_native_onchain_apr_bps = 55, fi_created_at_ms = 0,
      fi_expires_at_ms = 180000, fi_status = FundingRequired, fi_funding_signature = None,
      fi_funding_finalized_slot = None, fi_execution_signature = None, fi_refund_signature = None,
      fi_last_error = None, fi_updated_at_ms = 1\<rparr>"

definition example_balance :: "string \<Rightarrow> string \<Rightarrow> u64 \<Rightarrow> observed_token_balance" where
  "example_balance account owner amount =
     \<lparr>otb_account = account, otb_mint = usdc_mint_bs58, otb_owner = owner, otb_amount_raw = amount,
      otb_decimals = usdc_decimals\<rparr>"

definition shared_payment :: observed_funding_transaction where
  "shared_payment =
     \<lparr>oft_slot = 150, oft_block_time_ms = Some 1000, oft_confirmation = LevelFinalized, oft_succeeded = True,
      oft_signer_pubkeys = [''user''],
      oft_memos = [expected_memo (waiting_intent 7), expected_memo (waiting_intent 8)],
      oft_transfer_checked = [\<lparr>otc_source = ''user-ata'', otc_mint = usdc_mint_bs58,
        otc_destination = ''daemon-ata'', otc_authority = ''user'', otc_amount_raw = 500000,
        otc_decimals = usdc_decimals\<rparr>],
      oft_pre_token_balances = [example_balance ''user-ata'' ''user'' 800000],
      oft_post_token_balances = [example_balance ''user-ata'' ''user'' 300000,
                                 example_balance ''daemon-ata'' ''daemon'' 500000]\<rparr>"

definition confirm_store :: store_env where
  "confirm_store =
     \<lparr>se_to_base58 = (\<lambda>p. ''daemon''), se_rule_to_json = (\<lambda>r. Inr (hex_encode (wr_rule_id r))),
      se_rule_from_json = (\<lambda>s. case hex_decode s of
         Inr rid \<Rightarrow> Inr (example_rule\<lparr>wr_rule_id := rid\<rparr>) | Inl _ \<Rightarrow> Inl ''json'')\<rparr>"

definition confirm_example :: confirm_world where
  "confirm_example =
     \<lparr>cw_crypto = example_crypto, cw_store = confirm_store,
      cw_sdk = \<lparr>cs_pubkey_from_str = (\<lambda>s. Some (map (\<lambda>c. word_of_nat (of_char c)) s)),
                cs_ata_text = (\<lambda>owner mint. map (\<lambda>b. char_of (unat b)) owner @ ''-ata''),
                cs_signature_ok = (\<lambda>s. s = ''sig'')\<rparr>,
      cw_reader = Some (\<lambda>s. Inr (ReadConfirmed shared_payment)), cw_now = 1500,
      cw_row_clock = (\<lambda>k. 1500), cw_fault = (\<lambda>k. NoFault), cw_others = (\<lambda>k. []),
      cw_rules = Inr [new_watch_row example_crypto confirm_store 1 (numbered_rule 7) (hex_encode (example_rule_id 7)),
                      new_watch_row example_crypto confirm_store 1 (numbered_rule 8) (hex_encode (example_rule_id 8))]\<rparr>"

definition waiting_table :: funding_table where
  "waiting_table = [new_funding_row 1 (numbered_intent 7), new_funding_row 1 (numbered_intent 8)]"

lemma example_rule_ids: "example_rule_id 7 \<noteq> example_rule_id 8"
  by (simp add: example_rule_id_def)

lemma example_memo_undisturbed: "undisturbed confirm_example"
  by (simp add: undisturbed_def confirm_example_def)

lemma numbered_rule_stored:
  "watch_row_to_stored example_crypto confirm_store
     (new_watch_row example_crypto confirm_store 1 (numbered_rule n) (hex_encode (example_rule_id n)))
   = Inr (fresh_rule example_crypto 1 (numbered_rule n))"
proof (rule new_watch_row_stored)
  show "se_rule_from_json confirm_store (hex_encode (example_rule_id n)) = Inr (numbered_rule n)"
    by (simp add: confirm_store_def hex_decode_encode numbered_rule_def)
  show "length (canonical_rule_hash example_crypto (numbered_rule n)) = 32"
    by (simp add: canonical_rule_hash_def canonical_rule_bytes_def example_crypto_def)
qed

lemma lower_hex_graphic: "lower_hex_char c \<Longrightarrow> graphic c"
  by (auto simp: lower_hex_char_def graphic_def Let_def)

lemma hex_chars_lower: "n < 16 \<Longrightarrow> lower_hex_char (hex_chars ! n)"
proof -
  assume "n < 16"
  then have "n \<in> set [0..<16]" by simp
  moreover have "\<forall>n \<in> set [0..<16]. lower_hex_char (hex_chars ! n)"
    by (simp add: upt_rec lower_hex_char_def hex_chars_def Let_def)
  ultimately show ?thesis by blast
qed

lemma hex_encode_lower: "list_all lower_hex_char (hex_encode bs)"
  by (induction bs) (simp_all add: hex_encode_def hex_byte_def hex_chars_lower)

lemma trim_hex [simp]: "trim (hex_encode bs) = hex_encode bs"
  by (rule trim_id) (use hex_encode_lower lower_hex_graphic in \<open>auto simp: list_all_iff\<close>)

lemma decode_rule_id_encode [simp]: "length rid = 16 \<Longrightarrow> decode_rule_id (hex_encode rid) = Some rid"
  by (simp add: decode_rule_id_def hex_encode_lower hex_decode_encode result_option_def)

lemma waiting_intent_read:
  assumes "n = 7 \<or> n = 8"
  shows "funding_get (fi_intent_id (waiting_intent n)) waiting_table = Inr (Some (waiting_intent n))"
proof -
  have row: "row_to_intent (new_funding_row 1 (numbered_intent n)) = Inr (waiting_intent n)"
    by (simp add: row_to_intent_def new_funding_row_def numbered_intent_def waiting_intent_def
        funding_status_parse_def ok_or_def)
  show ?thesis
    using assms row example_rule_ids
    by (auto simp: funding_get_def waiting_table_def waiting_intent_def sql_get_def new_funding_row_def
        numbered_intent_def)
qed

lemma waiting_intents:
  assumes "n = 7 \<or> n = 8"
  shows "awaits_payment confirm_example ''sig'' waiting_table (waiting_intent n)"
proof -
  let ?rules = "[new_watch_row example_crypto confirm_store 1 (numbered_rule 7) (hex_encode (example_rule_id 7)),
                 new_watch_row example_crypto confirm_store 1 (numbered_rule 8) (hex_encode (example_rule_id 8))]"
  have key: "rw_rule_id (new_watch_row example_crypto confirm_store 1 (numbered_rule k) j) = hex_encode (example_rule_id k)"
    for k j by (simp add: new_watch_row_def numbered_rule_def rule_id_hex_def)
  have get: "watch_get example_crypto confirm_store (example_rule_id n) ?rules
      = Inr (Some (fresh_rule example_crypto 1 (numbered_rule n)))"
    using assms example_rule_ids numbered_rule_stored [of n]
    by (auto simp: watch_get_def sql_get_def rule_id_hex_def key)
  have matches: "watch_rule_matches_intent confirm_store (fresh_rule example_crypto 1 (numbered_rule n)) (waiting_intent n)"
    by (simp add: watch_rule_matches_intent_def fresh_rule_def waiting_intent_def numbered_rule_def example_rule_def
        confirm_store_def)
  have "length (example_rule_id n) = 16" by (simp add: example_rule_id_def)
  moreover have "trim ''sig'' = ''sig''" by (rule trim_id) (simp add: graphic_def)
  ultimately show ?thesis
    using waiting_intent_read [OF assms] get matches
    by (simp add: awaits_payment_def confirm_example_def) (simp add: waiting_intent_def)
qed

lemma shared_payment_proved: "payment_proved (cw_sdk confirm_example) shared_payment (waiting_intent 7)"
proof -
  show ?thesis
    unfolding payment_proved_def
    by (simp add: shared_payment_def canonical_atas_def confirm_example_def waiting_intent_def exact_transfer_def
        find_balance_def example_balance_def usdc_account_def) code_simp
qed

theorem one_payment_reserves_two_budgets_witness:
  "\<exists>ra rb t1 t2. confirm_funding confirm_example (params_for (waiting_intent 7) ''sig'') waiting_table
        = (Inr (BudgetReservedResponse ra), t1)
     \<and> confirm_funding confirm_example (params_for (waiting_intent 8) ''sig'') t1 = (Inr (BudgetReservedResponse rb), t2)
     \<and> reserved_row t2 (fi_intent_id (waiting_intent 7)) ''sig'' 150
     \<and> reserved_row t2 (fi_intent_id (waiting_intent 8)) ''sig'' 150"
proof -
  have distinct: "distinct (map fr_intent_id waiting_table)"
    using example_rule_ids by (simp add: waiting_table_def new_funding_row_def numbered_intent_def)
  have ids: "fi_intent_id (waiting_intent 7) \<noteq> fi_intent_id (waiting_intent 8)"
    using example_rule_ids by (simp add: waiting_intent_def)
  have reader: "cw_reader confirm_example = Some (\<lambda>s. Inr (ReadConfirmed shared_payment))"
    by (simp add: confirm_example_def)
  have memo: "expected_memo (waiting_intent 8) \<in> set (oft_memos shared_payment)" by (simp add: shared_payment_def)
  have slot: "oft_slot shared_payment = 150" by (simp add: shared_payment_def)
  from one_payment_reserves_two_budgets [OF example_memo_undisturbed distinct waiting_intents waiting_intents ids
      reader refl shared_payment_proved memo, unfolded slot]
  show ?thesis by (simp add: waiting_intent_def)
qed

theorem budget_needs_a_proved_payment_witness:
  "\<exists>b t' observed. confirm_funding confirm_example (params_for (waiting_intent 7) ''sig'') waiting_table
        = (Inr (BudgetReservedResponse b), t')
     \<and> confirmed_payment confirm_example (params_for (waiting_intent 7) ''sig'') waiting_table observed"
proof -
  have distinct: "distinct (map fr_intent_id waiting_table)"
    using example_rule_ids by (simp add: waiting_table_def new_funding_row_def numbered_intent_def)
  have reader: "cw_reader confirm_example = Some (\<lambda>s. Inr (ReadConfirmed shared_payment))"
    by (simp add: confirm_example_def)
  obtain b t' where run: "confirm_funding confirm_example (params_for (waiting_intent 7) ''sig'') waiting_table
      = (Inr (BudgetReservedResponse b), t')"
    using confirm_undisturbed [OF example_memo_undisturbed distinct waiting_intents reader refl shared_payment_proved]
    by blast
  from budget_needs_a_proved_payment [OF run] run show ?thesis by blast
qed

end
