(* ===== verification/Propose.thy ===== *)
theory Propose
  imports Json Store_Support "HOL-Library.List_Lexorder" "HOL-Library.Char_ord"
begin

text \<open>
  The drafting of an intent, \<open>bins/solfrontier-mcp/src/propose.rs\<close>: the typed parameters, the exact
  decimal parser of a USDC amount, the validation against the pinned policy, and the draft hash over a
  sorted JSON object. Texts are their UTF-8 bytes. SHA-256, the JSON writer, \<open>Pubkey::from_str\<close> and the
  random draft id are parameters.
\<close>

section \<open>Parameters and drafts\<close>

definition min_amount_raw :: u64 where "min_amount_raw = 100000"
definition max_amount_raw :: u64 where "max_amount_raw = 1000000"
definition expiry_seconds_after_finalize :: u64 where "expiry_seconds_after_finalize = 180"
definition max_threshold_bps :: u32 where "max_threshold_bps = 10000"

definition controlled_wallet_bs58 :: string where
  "controlled_wallet_bs58 = ''BPfDMmeMBmCbMC1rWh7hwigMBoKGBrKwXxSeUu9hhs5L''"

definition controlled_usdc_ata_bs58 :: string where
  "controlled_usdc_ata_bs58 = ''7LFdKcSV7JQYi3or5y9phHVPjhGigu5DDjUakAFbBmk3''"

definition usdc_fraction_digits :: nat where "usdc_fraction_digits = 6"
definition usdc_raw_per_whole :: u64 where "usdc_raw_per_whole = 1000000"

datatype draft_action_param = ParamDeposit
datatype draft_protocol_param = ParamSolend
datatype draft_asset_param = ParamUsdc
datatype draft_display_source_param = ParamSave
datatype draft_comparison_param = ParamGt

fun draft_action_str :: "draft_action_param \<Rightarrow> string" where "draft_action_str ParamDeposit = ''deposit''"
fun draft_protocol_str :: "draft_protocol_param \<Rightarrow> string" where "draft_protocol_str ParamSolend = ''solend''"
fun draft_asset_str :: "draft_asset_param \<Rightarrow> string" where "draft_asset_str ParamUsdc = ''USDC''"
fun draft_display_source_str :: "draft_display_source_param \<Rightarrow> string" where
  "draft_display_source_str ParamSave = ''save''"
fun draft_comparison_str :: "draft_comparison_param \<Rightarrow> string" where "draft_comparison_str ParamGt = ''gt''"

record propose_intent_params =
  pp_action :: draft_action_param
  pp_protocol :: draft_protocol_param
  pp_asset :: draft_asset_param
  pp_display_source :: draft_display_source_param
  pp_comparison :: draft_comparison_param
  pp_amount :: string
  pp_threshold_bps :: u32
  pp_expiry_seconds_after_finalize :: u64
  pp_controlled_wallet :: string
  pp_controlled_usdc_ata :: string
  pp_original_user_message :: string

record draft_intent =
  di_action :: string
  di_protocol :: string
  di_asset :: string
  di_display_source :: string
  di_comparison :: string
  di_threshold_bps :: u32
  di_amount_raw :: u64
  di_expiry_seconds_after_finalize :: u64
  di_controlled_wallet :: string
  di_controlled_usdc_ata :: string
  di_original_user_message_hash :: string

record canonical_draft_preimage =
  cp_action :: string
  cp_amount_raw :: string
  cp_asset :: string
  cp_comparison :: string
  cp_controlled_usdc_ata :: string
  cp_controlled_wallet :: string
  cp_display_source :: string
  cp_expiry_seconds_after_finalize :: u64
  cp_original_user_message_hash :: string
  cp_protocol :: string
  cp_threshold_bps :: u32

definition canonical_preimage :: "draft_intent \<Rightarrow> canonical_draft_preimage" where
  "canonical_preimage d =
     \<lparr>cp_action = di_action d, cp_amount_raw = decimal (unat (di_amount_raw d)), cp_asset = di_asset d,
      cp_comparison = di_comparison d, cp_controlled_usdc_ata = di_controlled_usdc_ata d,
      cp_controlled_wallet = di_controlled_wallet d, cp_display_source = di_display_source d,
      cp_expiry_seconds_after_finalize = di_expiry_seconds_after_finalize d,
      cp_original_user_message_hash = di_original_user_message_hash d, cp_protocol = di_protocol d,
      cp_threshold_bps = di_threshold_bps d\<rparr>"

datatype amount_parse_error =
    AmountEmpty
  | AmountNegative
  | AmountInvalidChar
  | AmountMultipleDots
  | AmountTooManyDecimals
  | AmountOverflow
  | AmountIsZero

datatype propose_intent_error =
    AmountFormat amount_parse_error
  | AmountBandExceeded
  | ThresholdBandExceeded
  | UnsupportedExpiry
  | InvalidControlledWallet
  | UnsupportedControlledWallet
  | InvalidControlledUsdcAta
  | UnsupportedControlledUsdcAta
  | EmptyOriginalUserMessage

fun propose_error_code :: "propose_intent_error \<Rightarrow> string" where
  "propose_error_code (AmountFormat _) = ''amount_format_invalid''"
| "propose_error_code AmountBandExceeded = ''amount_out_of_range''"
| "propose_error_code ThresholdBandExceeded = ''threshold_bps_out_of_range''"
| "propose_error_code UnsupportedExpiry = ''expiry_unsupported''"
| "propose_error_code InvalidControlledWallet = ''controlled_wallet_invalid''"
| "propose_error_code UnsupportedControlledWallet = ''controlled_wallet_unsupported''"
| "propose_error_code InvalidControlledUsdcAta = ''controlled_usdc_ata_invalid''"
| "propose_error_code UnsupportedControlledUsdcAta = ''controlled_usdc_ata_unsupported''"
| "propose_error_code EmptyOriginalUserMessage = ''original_user_message_empty''"

fun amount_error_text :: "amount_parse_error \<Rightarrow> string" where
  "amount_error_text AmountEmpty = ''amount is empty''"
| "amount_error_text AmountNegative = ''amount must be non-negative''"
| "amount_error_text AmountInvalidChar = ''amount contains non-decimal characters''"
| "amount_error_text AmountMultipleDots = ''amount has more than one decimal point''"
| "amount_error_text AmountTooManyDecimals = ''amount has more than 6 decimal places''"
| "amount_error_text AmountOverflow = ''amount overflows u64 when scaled to raw units''"
| "amount_error_text AmountIsZero = ''amount must be greater than zero''"

fun propose_error_text :: "propose_intent_error \<Rightarrow> string" where
  "propose_error_text (AmountFormat e) = amount_error_text e"
| "propose_error_text AmountBandExceeded = ''amount must be between 0.10 and 1.00 USDC''"
| "propose_error_text ThresholdBandExceeded = ''threshold_bps must be in the inclusive range 1..=10000''"
| "propose_error_text UnsupportedExpiry = ''expiry_seconds_after_finalize must be exactly 180''"
| "propose_error_text InvalidControlledWallet = ''controlled_wallet must be a valid Solana public key''"
| "propose_error_text UnsupportedControlledWallet =
     ''controlled_wallet must equal the pinned bounded executor wallet''"
| "propose_error_text InvalidControlledUsdcAta = ''controlled_usdc_ata must be a valid Solana public key''"
| "propose_error_text UnsupportedControlledUsdcAta =
     ''controlled_usdc_ata must equal the pinned bounded executor USDC ATA''"
| "propose_error_text EmptyOriginalUserMessage = ''original_user_message must not be empty''"

section \<open>The amount parser\<close>

fun split_on :: "char \<Rightarrow> string \<Rightarrow> string list" where
  "split_on sep [] = [[]]"
| "split_on sep (c # cs) =
     (if c = sep then [] # split_on sep cs
      else case split_on sep cs of part # parts \<Rightarrow> (c # part) # parts | [] \<Rightarrow> [[c]])"

definition all_digits :: "string \<Rightarrow> bool" where
  "all_digits s = list_all (\<lambda>c. digit_of c \<noteq> None) s"

definition pad_fraction :: "string \<Rightarrow> string" where
  "pad_fraction f = f @ replicate (usdc_fraction_digits - length f) CHR ''0''"

definition scale_amount :: "string \<Rightarrow> string \<Rightarrow> amount_parse_error + u64" where
  "scale_amount i f =
     try_bind (if i = [] then Inr 0 else ok_or (parse_u64 i) AmountOverflow) (\<lambda>integer_value.
     try_bind (ok_or (parse_u64 (pad_fraction f)) AmountOverflow) (\<lambda>fractional_value.
     try_bind (ok_or (Option.bind (checked_mul integer_value usdc_raw_per_whole)
                                  (\<lambda>scaled. checked_add scaled fractional_value))
                 AmountOverflow) (\<lambda>raw.
       if raw = 0 then Inl AmountIsZero else Inr raw)))"

definition parse_usdc_amount_to_raw :: "string \<Rightarrow> amount_parse_error + u64" where
  "parse_usdc_amount_to_raw text =
     (let value = trim text in
      if value = [] then Inl AmountEmpty
      else if hd value = CHR ''-'' then Inl AmountNegative
      else if hd value = CHR ''+'' then Inl AmountInvalidChar
      else
        (let parts = split_on CHR ''.'' value;
             integer_part = hd parts;
             fractional_part = (if tl parts = [] then None else Some (hd (tl parts))) in
         if length parts > 2 then Inl AmountMultipleDots
         else if \<not> all_digits integer_part then Inl AmountInvalidChar
         else
           try_bind (case fractional_part of
                       None \<Rightarrow> Inr ()
                     | Some f \<Rightarrow>
                         (if \<not> all_digits f then Inl AmountInvalidChar
                          else if length f > usdc_fraction_digits then Inl AmountTooManyDecimals
                          else Inr ())) (\<lambda>_.
           scale_amount integer_part (case fractional_part of None \<Rightarrow> [] | Some f \<Rightarrow> f))))"

section \<open>Validation and the draft hash\<close>

record propose_env =
  pe_pubkey_ok :: "string \<Rightarrow> bool"           \<comment> \<open>\<open>Pubkey::from_str(..).is_ok()\<close>\<close>
  pe_sha256 :: "bytes \<Rightarrow> bytes"
  pe_json_to_vec :: "json \<Rightarrow> bytes"           \<comment> \<open>\<open>serde_json::to_vec\<close>, infallible on these objects\<close>

definition text_bytes :: "string \<Rightarrow> bytes" where
  "text_bytes s = map of_char s"

definition hex_lower_32 :: "bytes \<Rightarrow> string" where
  "hex_lower_32 bs = concat (map hex_byte bs)"

definition sha256_hex :: "propose_env \<Rightarrow> string \<Rightarrow> string" where
  "sha256_hex E value = hex_lower_32 (pe_sha256 E (text_bytes value))"

text \<open>\<open>BTreeMap::insert\<close>: the entries stay sorted by key and a key is replaced.\<close>

fun btree_insert :: "string \<Rightarrow> json \<Rightarrow> (string \<times> json) list \<Rightarrow> (string \<times> json) list" where
  "btree_insert k v [] = [(k, v)]"
| "btree_insert k v ((k', v') # m) =
     (if k < k' then (k, v) # (k', v') # m
      else if k = k' then (k, v) # m
      else (k', v') # btree_insert k v m)"

definition draft_hash_fields :: "canonical_draft_preimage \<Rightarrow> (string \<times> json) list" where
  "draft_hash_fields p =
     fold (\<lambda>(k, v). btree_insert k v)
       [(''action'', JString (cp_action p)),
        (''amount_raw'', JString (cp_amount_raw p)),
        (''asset'', JString (cp_asset p)),
        (''comparison'', JString (cp_comparison p)),
        (''controlled_usdc_ata'', JString (cp_controlled_usdc_ata p)),
        (''controlled_wallet'', JString (cp_controlled_wallet p)),
        (''display_source'', JString (cp_display_source p)),
        (''expiry_seconds_after_finalize'', JPosInt (cp_expiry_seconds_after_finalize p)),
        (''original_user_message_hash'', JString (cp_original_user_message_hash p)),
        (''protocol'', JString (cp_protocol p)),
        (''threshold_bps'', JPosInt (ucast (cp_threshold_bps p)))] []"

definition compute_draft_hash :: "propose_env \<Rightarrow> canonical_draft_preimage \<Rightarrow> string" where
  "compute_draft_hash E p = hex_lower_32 (pe_sha256 E (pe_json_to_vec E (JObject (draft_hash_fields p))))"

definition validate_draft :: "propose_env \<Rightarrow> propose_intent_params \<Rightarrow> propose_intent_error + draft_intent" where
  "validate_draft E params =
     try_bind (map_err AmountFormat (parse_usdc_amount_to_raw (pp_amount params))) (\<lambda>amount_raw.
       if \<not> (min_amount_raw \<le> amount_raw \<and> amount_raw \<le> max_amount_raw) then Inl AmountBandExceeded
       else if \<not> (1 \<le> pp_threshold_bps params \<and> pp_threshold_bps params \<le> max_threshold_bps)
       then Inl ThresholdBandExceeded
       else if pp_expiry_seconds_after_finalize params \<noteq> expiry_seconds_after_finalize
       then Inl UnsupportedExpiry
       else if \<not> pe_pubkey_ok E (pp_controlled_wallet params) then Inl InvalidControlledWallet
       else if pp_controlled_wallet params \<noteq> controlled_wallet_bs58 then Inl UnsupportedControlledWallet
       else if \<not> pe_pubkey_ok E (pp_controlled_usdc_ata params) then Inl InvalidControlledUsdcAta
       else if pp_controlled_usdc_ata params \<noteq> controlled_usdc_ata_bs58 then Inl UnsupportedControlledUsdcAta
       else if trim (pp_original_user_message params) = [] then Inl EmptyOriginalUserMessage
       else Inr
         \<lparr>di_action = draft_action_str (pp_action params),
          di_protocol = draft_protocol_str (pp_protocol params),
          di_asset = draft_asset_str (pp_asset params),
          di_display_source = draft_display_source_str (pp_display_source params),
          di_comparison = draft_comparison_str (pp_comparison params),
          di_threshold_bps = pp_threshold_bps params,
          di_amount_raw = amount_raw,
          di_expiry_seconds_after_finalize = pp_expiry_seconds_after_finalize params,
          di_controlled_wallet = pp_controlled_wallet params,
          di_controlled_usdc_ata = pp_controlled_usdc_ata params,
          di_original_user_message_hash = sha256_hex E (pp_original_user_message params)\<rparr>)"

definition validate_and_hash_draft ::
    "propose_env \<Rightarrow> propose_intent_params \<Rightarrow> propose_intent_error + draft_intent \<times> string" where
  "validate_and_hash_draft E params =
     try_bind (validate_draft E params) (\<lambda>draft.
       Inr (draft, compute_draft_hash E (canonical_preimage draft)))"

datatype propose_response =
    ProposeOk string string draft_intent                  \<comment> \<open>draft id, draft hash, draft\<close>
  | ProposeInvalidInput string string                      \<comment> \<open>error code, reason\<close>

text \<open>\<open>draft_id\<close> is the fresh \<open>Uuid::new_v4().simple()\<close>.\<close>

definition propose_intent :: "propose_env \<Rightarrow> string \<Rightarrow> propose_intent_params \<Rightarrow> propose_response" where
  "propose_intent E draft_id params =
     (case validate_and_hash_draft E params of
        Inr (draft, draft_hash) \<Rightarrow> ProposeOk draft_id draft_hash draft
      | Inl e \<Rightarrow> ProposeInvalidInput (propose_error_code e) (propose_error_text e))"


section \<open>The amount parser is exact\<close>

lemma split_on_not_Nil [simp]: "split_on sep s \<noteq> []"
  by (cases s) (simp_all split: list.splits)

lemma split_on_no_sep [simp]: "sep \<notin> set s \<Longrightarrow> split_on sep s = [s]"
  by (induction s) auto

lemma split_on_append [simp]: "sep \<notin> set a \<Longrightarrow> split_on sep (a @ sep # b) = a # split_on sep b"
  by (induction a) auto

text \<open>A text with a separator falls into its first part and the rest.\<close>

lemma split_on_cases:
  obtains "sep \<notin> set s" "split_on sep s = [s]"
  | a b where "s = a @ sep # b" "sep \<notin> set a" "split_on sep s = a # split_on sep b"
proof (cases "sep \<in> set s")
  case True
  from split_list_first [OF this] obtain a b where "s = a @ sep # b" "sep \<notin> set a" by blast
  then show thesis using that(2) by simp
next
  case False
  then show thesis using that(1) by simp
qed

lemma split_on_at_most_two:
  assumes "length (split_on sep s) \<le> 2"
  obtains "sep \<notin> set s" "split_on sep s = [s]"
  | a b where "s = a @ sep # b" "sep \<notin> set (a @ b)" "split_on sep s = [a, b]"
proof (cases rule: split_on_cases [of sep s])
  case 1
  then show thesis using that(1) by blast
next
  case (2 a b)
  show thesis
  proof (cases rule: split_on_cases [of sep b])
    case 1
    with 2 show thesis using that(2) by simp
  next
    case (2 c d)
    then have "0 < length (split_on sep d)" by simp
    with 2 \<open>split_on sep s = a # split_on sep b\<close> assms show thesis by simp
  qed
qed

lemma digits_value_acc:
  "digits_value s acc = map_option (\<lambda>v. acc * 10 ^ length s + v) (digits_value s 0)"
proof (induction s arbitrary: acc)
  case Nil
  then show ?case by simp
next
  case (Cons c s)
  show ?case
  proof (cases "digit_of c")
    case None
    then show ?thesis by simp
  next
    case (Some d)
    have "digits_value (c # s) x = map_option (\<lambda>v. (10 * x + d) * 10 ^ length s + v) (digits_value s 0)" for x
      using Cons [of "10 * x + d"] by (simp only: digits_value.simps Some option.case)
    from this [of acc] this [of 0] show ?thesis
      by (simp only: option.map_comp comp_def) (simp add: algebra_simps)
  qed
qed

lemma all_digits_value: "all_digits s \<longleftrightarrow> digits_value s acc \<noteq> None"
  by (induction s arbitrary: acc) (auto simp: all_digits_def split: option.splits)

lemma digits_value_split:
  "digits_value (i @ f) 0 = Some n \<longleftrightarrow>
     (\<exists>a b. digits_value i 0 = Some a \<and> digits_value f 0 = Some b \<and> n = a * 10 ^ length f + b)"
proof (cases "digits_value i 0")
  case None
  then show ?thesis by (simp add: digits_value_append)
next
  case (Some a)
  then have "digits_value (i @ f) 0 = map_option (\<lambda>v. a * 10 ^ length f + v) (digits_value f 0)"
    by (simp only: digits_value_append Option.bind.simps digits_value_acc [of f a])
  with Some show ?thesis by auto
qed

lemma digits_value_pad: "digits_value f 0 = Some b \<Longrightarrow>
  digits_value (f @ replicate k CHR ''0'') 0 = Some (b * 10 ^ k)"
proof -
  have "digits_value (replicate k CHR ''0'') 0 = Some 0" by (induction k) (simp_all add: digit_of_def)
  then show "digits_value f 0 = Some b \<Longrightarrow> digits_value (f @ replicate k CHR ''0'') 0 = Some (b * 10 ^ k)"
    by (simp add: digits_value_split)
qed

lemma digits_not_special:
  assumes "digits_value s 0 = Some n" and "c \<in> set s"
  shows "c \<noteq> CHR ''.''" and "c \<noteq> CHR ''+''" and "c \<noteq> CHR ''-''"
  using assms all_digits_value [of s 0] by (auto simp: all_digits_def list_all_iff digit_of_def)

lemma parse_u64_digits:
  assumes "digits_value s 0 = Some n" and "s \<noteq> []"
  shows "parse_u64 s = (if n < 2 ^ 64 then Some (word_of_nat n) else None)"
proof -
  from assms have "hd s \<noteq> CHR ''+''" by (simp add: digits_not_special)
  then have "parse_unsigned (2 ^ 64) s = parse_digits (2 ^ 64) s"
    using assms(2) unfolding parse_unsigned_def by (cases s) (auto split: char.splits bool.splits)
  then show ?thesis using assms by (simp add: parse_u64_def parse_digits_def)
qed


lemma digits_value_less: "digits_value s 0 = Some n \<Longrightarrow> n < 10 ^ length s"
proof (induction s arbitrary: n rule: rev_induct)
  case Nil
  then show ?case by simp
next
  case (snoc c s)
  then obtain a b where ab: "digits_value s 0 = Some a" "digits_value [c] 0 = Some b" "n = a * 10 + b"
    by (auto simp: digits_value_split simp del: digits_value.simps)
  moreover from ab(2) have "b < 10"
    by (auto simp: digit_of_def Let_def split: option.splits if_splits)
  moreover from snoc.IH [OF ab(1)] have "a < 10 ^ length s" .
  ultimately show ?case by simp
qed

lemma pad_fraction_value:
  assumes "digits_value f 0 = Some b" and "length f \<le> usdc_fraction_digits"
  shows "parse_u64 (pad_fraction f) = Some (word_of_nat (b * 10 ^ (usdc_fraction_digits - length f)))"
    and "b * 10 ^ (usdc_fraction_digits - length f) < 10 ^ 6"
proof -
  let ?k = "usdc_fraction_digits - length f"
  have v: "digits_value (pad_fraction f) 0 = Some (b * 10 ^ ?k)"
    unfolding pad_fraction_def by (rule digits_value_pad [OF assms(1)])
  have "length (pad_fraction f) = 6" using assms(2) by (simp add: pad_fraction_def usdc_fraction_digits_def)
  with digits_value_less [OF v] show less: "b * 10 ^ ?k < 10 ^ 6" by simp
  have "pad_fraction f \<noteq> []" using \<open>length (pad_fraction f) = 6\<close> by auto
  from parse_u64_digits [OF v this] less
  show "parse_u64 (pad_fraction f) = Some (word_of_nat (b * 10 ^ ?k))" by simp
qed

lemma unat_of_u64: "n < 2 ^ 64 \<Longrightarrow> unat (word_of_nat n :: u64) = n"
  by (simp add: unat_of_nat)

lemma scaled_sum:
  fixes iv whole fv raw :: u64
  assumes "unat iv = a" and "unat whole = m" and "unat fv = b"
  shows "Option.bind (checked_mul iv whole) (\<lambda>scaled. checked_add scaled fv) = Some raw
    \<longleftrightarrow> unat raw = a * m + b"
proof
  assume "unat raw = a * m + b"
  moreover from this have "unat (word_of_nat (a * m) :: u64) = a * m"
    using unat_less_exp [of raw] by (intro unat_of_u64) simp
  ultimately have "checked_mul iv whole = Some (word_of_nat (a * m))"
      "checked_add (word_of_nat (a * m)) fv = Some raw"
    using assms by (simp_all only: checked_mul_Some checked_add_Some)
  then show "Option.bind (checked_mul iv whole) (\<lambda>scaled. checked_add scaled fv) = Some raw" by simp
qed (auto simp: bind_eq_Some_conv checked_mul_Some checked_add_Some assms)

lemma ok_or_value: "ok_or (Some a) e = Inr a"
  by (simp add: ok_or_def)

lemma nonzero_result:
  "try_bind (ok_or x e) (\<lambda>r. if r = 0 then Inl e' else Inr r) = Inr raw \<longleftrightarrow> x = Some raw \<and> raw \<noteq> 0"
  by (cases x) (auto simp: ok_or_def)

lemma scale_amount_exact:
  assumes "digits_value i 0 = Some a" and "digits_value f 0 = Some b" and "length f \<le> usdc_fraction_digits"
  shows "scale_amount i f = Inr raw \<longleftrightarrow>
    raw \<noteq> 0 \<and> unat raw = (a * 10 ^ length f + b) * 10 ^ (usdc_fraction_digits - length f)"
proof -
  let ?b = "b * 10 ^ (usdc_fraction_digits - length f)"
  note fraction = pad_fraction_value [OF assms(2,3)]
  have "10 ^ length f * 10 ^ (usdc_fraction_digits - length f) = (10 ^ 6 :: nat)"
    using assms(3) by (simp add: usdc_fraction_digits_def flip: power_add)
  then have total: "(a * 10 ^ length f + b) * 10 ^ (usdc_fraction_digits - length f) = a * 10 ^ 6 + ?b"
    by (simp add: algebra_simps)
  have int: "(if i = [] then Inr 0 else ok_or (parse_u64 i) AmountOverflow)
      = (if a < 2 ^ 64 then Inr (word_of_nat a) else Inl AmountOverflow :: amount_parse_error + u64)"
    using assms(1) parse_u64_digits [OF assms(1)] by (auto simp: ok_or_def)
  have b: "unat (word_of_nat ?b :: u64) = ?b"
    using fraction(2) by (intro unat_of_u64) simp
  have u: "unat usdc_raw_per_whole = 10 ^ 6" by (simp add: usdc_raw_per_whole_def)
  show ?thesis
  proof (cases "a < 2 ^ 64")
    case True
    then have "unat (word_of_nat a :: u64) = a" by (intro unat_of_u64) simp
    then have "Option.bind (checked_mul (word_of_nat a :: u64) usdc_raw_per_whole)
        (\<lambda>scaled. checked_add scaled (word_of_nat ?b)) = Some raw \<longleftrightarrow> unat raw = a * 10 ^ 6 + ?b"
      by (rule scaled_sum [OF _ u b])
    moreover have "scale_amount i f = try_bind (ok_or (Option.bind
        (checked_mul (word_of_nat a :: u64) usdc_raw_per_whole)
        (\<lambda>scaled. checked_add scaled (word_of_nat ?b))) AmountOverflow)
        (\<lambda>raw. if raw = 0 then Inl AmountIsZero else Inr raw)"
      using True by (simp only: scale_amount_def int fraction(1) ok_or_value if_True try_bind.simps)
    ultimately show ?thesis by (simp only: nonzero_result total) blast
  next
    case False
    then have "unat raw \<noteq> a * 10 ^ 6 + ?b" using unat_less_exp [of raw] by auto
    moreover have "scale_amount i f = Inl AmountOverflow"
      using False by (simp only: scale_amount_def int if_False try_bind.simps)
    ultimately show ?thesis by (simp only: total) simp
  qed
qed


text \<open>The number of raw units a text writes: digits with at most six of them behind one optional point.\<close>

definition writes_amount :: "string \<Rightarrow> nat \<Rightarrow> bool" where
  "writes_amount s raw \<longleftrightarrow>
     (\<exists>i f n. (s = i @ CHR ''.'' # f \<or> s = i \<and> f = []) \<and> length f \<le> usdc_fraction_digits
        \<and> digits_value (i @ f) 0 = Some n \<and> raw = n * 10 ^ (usdc_fraction_digits - length f))"

lemma writes_amount_digits:
  "writes_amount s raw \<longleftrightarrow>
     (\<exists>i f a b. (s = i @ CHR ''.'' # f \<or> s = i \<and> f = []) \<and> length f \<le> usdc_fraction_digits
        \<and> digits_value i 0 = Some a \<and> digits_value f 0 = Some b
        \<and> raw = (a * 10 ^ length f + b) * 10 ^ (usdc_fraction_digits - length f))"
  unfolding writes_amount_def digits_value_split by blast

lemma parse_amount_unfold:
  assumes "trim text \<noteq> []" and "hd (trim text) \<noteq> CHR ''-''" and "hd (trim text) \<noteq> CHR ''+''"
    and "trim text = i \<and> CHR ''.'' \<notin> set i \<and> f = []
       \<or> trim text = i @ CHR ''.'' # f \<and> CHR ''.'' \<notin> set (i @ f)"
  shows "parse_usdc_amount_to_raw text =
    (if \<not> all_digits i \<or> \<not> all_digits f then Inl AmountInvalidChar
     else if length f > usdc_fraction_digits then Inl AmountTooManyDecimals
     else scale_amount i f)"
  using assms(4)
proof (elim disjE conjE)
  assume "trim text = i" "CHR ''.'' \<notin> set i" "f = []"
  then show ?thesis using assms(1-3)
    by (simp add: parse_usdc_amount_to_raw_def Let_def all_digits_def)
next
  assume "trim text = i @ CHR ''.'' # f" "CHR ''.'' \<notin> set (i @ f)"
  then have "split_on CHR ''.'' (trim text) = [i, f]" by simp
  then show ?thesis using assms(1-3)
    by (simp add: parse_usdc_amount_to_raw_def Let_def)
qed


lemma writes_amount_shape:
  assumes "writes_amount s raw" and "raw \<noteq> 0"
  shows "s \<noteq> []" and "hd s \<noteq> CHR ''-''" and "hd s \<noteq> CHR ''+''"
    and "length (split_on CHR ''.'' s) \<le> 2"
proof -
  from assms(1) obtain i f n where s: "s = i @ CHR ''.'' # f \<or> s = i \<and> f = []"
      and n: "digits_value (i @ f) 0 = Some n" "raw = n * 10 ^ (usdc_fraction_digits - length f)"
    unfolding writes_amount_def by blast
  note special = digits_not_special [OF n(1)]
  from s show "s \<noteq> []" using n assms(2) by auto
  then have "hd s \<in> set (i @ f) \<or> hd s = CHR ''.''" using s by (cases i) auto
  with special show "hd s \<noteq> CHR ''-''" "hd s \<noteq> CHR ''+''" by auto
  have "CHR ''.'' \<notin> set (i @ f)" using special(1) by blast
  with s show "length (split_on CHR ''.'' s) \<le> 2" by auto
qed

lemma split_shape_unique:
  fixes c :: char
  assumes "c \<notin> set i'" and "c \<notin> set f'" and "c \<notin> set i" and "c \<notin> set f"
    and "s = i @ c # f \<or> s = i \<and> f = []" and "s = i' @ c # f' \<or> s = i' \<and> f' = []"
  shows "i' = i \<and> f' = f"
  using assms(5)
proof
  assume s: "s = i @ c # f"
  then have "c \<in> set s" by simp
  then have "s = i' @ c # f'" using assms(1,6) by blast
  then have "split_on c s = [i', f']" using assms(1,2) by simp
  moreover have "split_on c s = [i, f]" using s assms(3,4) by simp
  ultimately show ?thesis by simp
next
  assume s: "s = i \<and> f = []"
  then have "c \<notin> set s" using assms(3) by simp
  then have "s \<noteq> i' @ c # f'" by auto
  then show ?thesis using s assms(6) by simp
qed

lemma parse_amount_exact:
  "parse_usdc_amount_to_raw text = Inr raw \<longleftrightarrow> raw \<noteq> 0 \<and> writes_amount (trim text) (unat raw)"
proof (cases "trim text \<noteq> [] \<and> hd (trim text) \<noteq> CHR ''-'' \<and> hd (trim text) \<noteq> CHR ''+''
    \<and> length (split_on CHR ''.'' (trim text)) \<le> 2")
  case False
  then have "parse_usdc_amount_to_raw text \<noteq> Inr raw"
    by (auto simp: parse_usdc_amount_to_raw_def Let_def)
  moreover have "\<not> (raw \<noteq> 0 \<and> writes_amount (trim text) (unat raw))"
    using False writes_amount_shape [of "trim text" "unat raw"] by (auto simp: unat_eq_0)
  ultimately show ?thesis by blast
next
  case True
  then obtain i f where shape: "trim text = i \<and> CHR ''.'' \<notin> set i \<and> f = []
       \<or> trim text = i @ CHR ''.'' # f \<and> CHR ''.'' \<notin> set (i @ f)"
    using split_on_at_most_two [of "CHR ''.''" "trim text"] by metis
  have parts: "i' = i \<and> f' = f"
    if "trim text = i' @ CHR ''.'' # f' \<or> trim text = i' \<and> f' = []" and "digits_value i' 0 \<noteq> None"
      "digits_value f' 0 \<noteq> None" for i' f'
  proof -
    have "CHR ''.'' \<notin> set i'" "CHR ''.'' \<notin> set f'" using that(2,3) digits_not_special(1) by auto
    moreover have "CHR ''.'' \<notin> set i" "CHR ''.'' \<notin> set f"
      "trim text = i @ CHR ''.'' # f \<or> trim text = i \<and> f = []" using shape by auto
    ultimately show ?thesis using that(1) by (intro split_shape_unique)
  qed
  show ?thesis
  proof (cases "all_digits i \<and> all_digits f \<and> length f \<le> usdc_fraction_digits")
    case True': True
    then obtain a b where ab: "digits_value i 0 = Some a" "digits_value f 0 = Some b"
      by (auto simp: all_digits_value [of _ 0])
    have "parse_usdc_amount_to_raw text = scale_amount i f"
      using True True' by (subst parse_amount_unfold [OF _ _ _ shape]) auto
    moreover have "writes_amount (trim text) (unat raw)
        \<longleftrightarrow> unat raw = (a * 10 ^ length f + b) * 10 ^ (usdc_fraction_digits - length f)"
      unfolding writes_amount_digits using parts shape ab True' by (metis option.distinct(1) option.inject)
    ultimately show ?thesis using scale_amount_exact [OF ab] True' by simp
  next
    case False
    then have "parse_usdc_amount_to_raw text \<noteq> Inr raw"
      using True by (subst parse_amount_unfold [OF _ _ _ shape]) auto
    moreover have "\<not> writes_amount (trim text) (unat raw)"
      unfolding writes_amount_digits using parts False by (metis all_digits_value option.distinct(1))
    ultimately show ?thesis by blast
  qed
qed


section \<open>Accepted drafts\<close>

text \<open>What a validated draft says, given its amount.\<close>

definition draft_of :: "propose_env \<Rightarrow> propose_intent_params \<Rightarrow> u64 \<Rightarrow> draft_intent" where
  "draft_of E params amount_raw =
     \<lparr>di_action = ''deposit'', di_protocol = ''solend'', di_asset = ''USDC'', di_display_source = ''save'',
      di_comparison = ''gt'', di_threshold_bps = pp_threshold_bps params, di_amount_raw = amount_raw,
      di_expiry_seconds_after_finalize = 180, di_controlled_wallet = controlled_wallet_bs58,
      di_controlled_usdc_ata = controlled_usdc_ata_bs58,
      di_original_user_message_hash = sha256_hex E (pp_original_user_message params)\<rparr>"

definition within_policy :: "propose_env \<Rightarrow> propose_intent_params \<Rightarrow> bool" where
  "within_policy E params \<longleftrightarrow>
     1 \<le> unat (pp_threshold_bps params) \<and> unat (pp_threshold_bps params) \<le> 10000
   \<and> pp_expiry_seconds_after_finalize params = 180
   \<and> pp_controlled_wallet params = controlled_wallet_bs58 \<and> pe_pubkey_ok E controlled_wallet_bs58
   \<and> pp_controlled_usdc_ata params = controlled_usdc_ata_bs58 \<and> pe_pubkey_ok E controlled_usdc_ata_bs58
   \<and> trim (pp_original_user_message params) \<noteq> []"

lemma param_texts [simp]:
  "draft_action_str a = ''deposit''" "draft_protocol_str p = ''solend''" "draft_asset_str s = ''USDC''"
  "draft_display_source_str d = ''save''" "draft_comparison_str c = ''gt''"
  by (cases a; cases p; cases s; cases d; cases c; simp)+

lemma policy_bands:
  "(min_amount_raw \<le> raw \<and> raw \<le> max_amount_raw) \<longleftrightarrow> 100000 \<le> unat raw \<and> unat raw \<le> 1000000"
  "(1 \<le> t \<and> t \<le> max_threshold_bps) \<longleftrightarrow> 1 \<le> unat t \<and> unat t \<le> 10000"
  by (simp_all add: word_le_nat_alt min_amount_raw_def max_amount_raw_def max_threshold_bps_def)

lemma validate_draft_amount:
  "validate_draft E params = Inr d \<longleftrightarrow>
     (\<exists>raw. parse_usdc_amount_to_raw (pp_amount params) = Inr raw \<and> 100000 \<le> unat raw \<and> unat raw \<le> 1000000
        \<and> within_policy E params \<and> d = draft_of E params raw)"
  by (cases "parse_usdc_amount_to_raw (pp_amount params)")
    (auto simp: validate_draft_def map_err_def policy_bands within_policy_def draft_of_def
      expiry_seconds_after_finalize_def
      controlled_wallet_bs58_def [symmetric] split: if_splits)

text \<open>C30: A proposal is accepted if and only if its amount text, blanks aside, writes a number of USDC
  with at most six decimals between 0.1 and 1 inclusive, and the threshold, the expiry, the controlled
  wallet, its token account and the message satisfy the pinned policy; the draft is then determined, its
  raw amount being the written number times one million, exactly.\<close>

theorem proposals_accepted_exactly:
  "validate_draft E params = Inr d \<longleftrightarrow>
     (\<exists>raw. writes_amount (trim (pp_amount params)) (unat raw) \<and> 100000 \<le> unat raw \<and> unat raw \<le> 1000000
        \<and> within_policy E params \<and> d = draft_of E params raw)"
  unfolding validate_draft_amount parse_amount_exact by (metis unat_0 not_numeral_le_zero)

text \<open>The hashed object lists the fields in the order of the frozen preimage, so it determines it.\<close>

lemma draft_hash_fields_order:
  "draft_hash_fields p =
     [(''action'', JString (cp_action p)), (''amount_raw'', JString (cp_amount_raw p)),
      (''asset'', JString (cp_asset p)), (''comparison'', JString (cp_comparison p)),
      (''controlled_usdc_ata'', JString (cp_controlled_usdc_ata p)),
      (''controlled_wallet'', JString (cp_controlled_wallet p)),
      (''display_source'', JString (cp_display_source p)),
      (''expiry_seconds_after_finalize'', JPosInt (cp_expiry_seconds_after_finalize p)),
      (''original_user_message_hash'', JString (cp_original_user_message_hash p)),
      (''protocol'', JString (cp_protocol p)),
      (''threshold_bps'', JPosInt (ucast (cp_threshold_bps p)))]"
  by (simp add: draft_hash_fields_def less_char_def)

lemma draft_hash_fields_inj: "draft_hash_fields p = draft_hash_fields q \<Longrightarrow> p = q"
proof -
  assume eq: "draft_hash_fields p = draft_hash_fields q"
  have "unat (ucast (cp_threshold_bps p) :: u64) = unat (ucast (cp_threshold_bps q) :: u64)"
    using eq by (simp add: draft_hash_fields_order)
  then have "cp_threshold_bps p = cp_threshold_bps q"
    by (simp add: unat_ucast_up word_unat_eq_iff)
  with eq show "p = q" by (simp add: draft_hash_fields_order)
qed

end
