(* ===== verification/Sidecar.thy ===== *)
theory Sidecar
  imports Store_Support
begin

text \<open>
  The finalize receipts and the hash index of \<open>bins/solfrontier-mcp/src/sidecar.rs\<close>: a SQLite file that
  several server instances may share, each with its own lazily opened handle. The file is its two tables
  and the facts its opening checks read; an operation is one transaction on it. The storage can fail at
  every step of an operation, and a failing commit may or may not have been applied. The lemmas give the
  consume-once rule of drafts and the stability of the index across instances, restarts and failures.
\<close>

section \<open>Outcomes and tables\<close>

datatype claim_outcome = DraftClaimed | DraftAlreadyConsumed | DraftConflict | ClaimUnavailable
datatype index_outcome = HashIndexed | HashAlreadyPresent | IndexUnavailable | IndexConflict
datatype hash_lookup = LookupFound string | LookupMissing | LookupUnavailable

datatype sidecar_error =
    SidecarInvalidHex string nat
  | SidecarInvalidTimestamp string
  | SidecarUnavailable
  | SidecarNotInitialized
  | SidecarIntegrity
  | SidecarUnsupportedSchema i64
  | SidecarMappingConflict
  | SidecarStorage
  | SidecarFilesystem

record hash_index_entry =
  hie_canonical_rule_hash :: string
  hie_intent_id :: string
  hie_draft_id :: string
  hie_draft_hash :: string
  hie_indexed_at_ms :: i64

record consumed_draft =
  cdr_draft_id :: string
  cdr_draft_hash :: string
  cdr_consumed_at_ms :: i64

record sidecar_db =
  sdb_quick_check :: string                 \<comment> \<open>what \<open>PRAGMA quick_check\<close> answers\<close>
  sdb_schema_version :: "i64 option"        \<comment> \<open>None: no such table or row\<close>
  sdb_tables_shaped :: bool                 \<comment> \<open>both tables have the expected columns\<close>
  sdb_consumed :: "consumed_draft list"
  sdb_index :: "hash_index_entry list"

datatype sidecar_state = SidecarUnopened | SidecarReady | SidecarDown

definition sidecar_schema_version :: i64 where "sidecar_schema_version = 1"

text \<open>What the storage does at the numbered steps of one operation; a commit can fail after its effect.\<close>

datatype storage_result = StorageOk | StorageFails | StorageFailsApplied

type_synonym storage = "nat \<Rightarrow> storage_result"

definition works :: "storage \<Rightarrow> nat \<Rightarrow> bool" where
  "works F k \<longleftrightarrow> F k = StorageOk"

definition all_work :: "storage \<Rightarrow> nat list \<Rightarrow> bool" where
  "all_work F ks \<longleftrightarrow> list_all (works F) ks"

section \<open>Validation of the arguments\<close>

definition validate_lower_hex :: "string \<Rightarrow> string \<Rightarrow> nat \<Rightarrow> sidecar_error + unit" where
  "validate_lower_hex field value expected_len =
     (if length value = expected_len \<and> list_all lower_hex_char value then Inr ()
      else Inl (SidecarInvalidHex field expected_len))"

definition without_hyphens :: "string \<Rightarrow> string" where
  "without_hyphens v = take 8 v @ take 4 (drop 9 v) @ take 4 (drop 14 v) @ take 4 (drop 19 v) @ drop 24 v"

definition normalize_draft_id :: "string \<Rightarrow> sidecar_error + string" where
  "normalize_draft_id value =
     try_bind (if length value = 32 then Inr value
               else if length value = 36 then
                 (if list_all (\<lambda>k. value ! k = CHR ''-'') [8, 13, 18, 23] then Inr (without_hyphens value)
                  else Inl (SidecarInvalidHex ''draft_id'' 32))
               else Inl (SidecarInvalidHex ''draft_id'' 32)) (\<lambda>compact.
     try_bind (validate_lower_hex ''draft_id'' compact 32) (\<lambda>_. Inr compact))"

definition validate_timestamp :: "string \<Rightarrow> i64 \<Rightarrow> sidecar_error + unit" where
  "validate_timestamp field value =
     (if 0 \<le> sint value then Inr () else Inl (SidecarInvalidTimestamp field))"

section \<open>Opening the file\<close>

definition fresh_file :: sidecar_db where
  "fresh_file = \<lparr>sdb_quick_check = ''ok'', sdb_schema_version = None, sdb_tables_shaped = False,
     sdb_consumed = [], sdb_index = []\<rparr>"

definition initialized_file :: sidecar_db where
  "initialized_file = fresh_file\<lparr>sdb_schema_version := Some sidecar_schema_version, sdb_tables_shaped := True\<rparr>"

definition validate_existing :: "storage \<Rightarrow> sidecar_db \<Rightarrow> sidecar_error + unit" where
  "validate_existing F db =
     (if \<not> works F 2 then Inl SidecarStorage
      else if sdb_quick_check db \<noteq> ''ok'' then Inl SidecarIntegrity
      else if \<not> works F 3 then Inl SidecarStorage
      else case sdb_schema_version db of
        None \<Rightarrow> Inl SidecarStorage
      | Some found \<Rightarrow>
          (if found \<noteq> sidecar_schema_version then Inl (SidecarUnsupportedSchema found)
           else if \<not> all_work F [4, 5] \<or> \<not> sdb_tables_shaped db then Inl SidecarStorage
           else Inr ()))"

definition open_existing :: "storage \<Rightarrow> sidecar_db \<Rightarrow> sidecar_error + unit" where
  "open_existing F db = (if works F 1 then validate_existing F db else Inl SidecarStorage)"

text \<open>
  Connecting with \<open>create_if_missing\<close> leaves an empty file; the schema is created by one transaction of
  a begin, four statements and a commit.
\<close>

definition initialize_schema :: "storage \<Rightarrow> (sidecar_error + unit) \<times> sidecar_db" where
  "initialize_schema F =
     (if \<not> all_work F [2, 3, 4, 5, 6] then (Inl SidecarStorage, fresh_file)
      else case F 7 of
        StorageOk \<Rightarrow> (Inr (), initialized_file)
      | StorageFails \<Rightarrow> (Inl SidecarStorage, fresh_file)
      | StorageFailsApplied \<Rightarrow> (Inl SidecarStorage, initialized_file))"

definition create_new :: "storage \<Rightarrow> (sidecar_error + unit) \<times> sidecar_db option" where
  "create_new F =
     (if works F 1 then (case initialize_schema F of (r, db) \<Rightarrow> (r, Some db))
      else (Inl SidecarStorage, None))"

type_synonym handle = "sidecar_state \<times> sidecar_db option"

definition pool_for_claim :: "storage \<Rightarrow> handle \<Rightarrow> (sidecar_error + sidecar_db) \<times> handle" where
  "pool_for_claim F h =
     (case h of (st, file) \<Rightarrow>
        (case st of
           SidecarReady \<Rightarrow> (ok_or file SidecarStorage, h)
         | SidecarDown \<Rightarrow> (Inl SidecarUnavailable, h)
         | SidecarUnopened \<Rightarrow>
             (if \<not> works F 0 then (Inl SidecarFilesystem, h)
              else
                (case (case file of Some db \<Rightarrow> (open_existing F db, Some db) | None \<Rightarrow> create_new F) of
                   (Inl e, file') \<Rightarrow> (Inl e, (SidecarDown, file'))
                 | (Inr _, file') \<Rightarrow> (ok_or file' SidecarStorage, (SidecarReady, file'))))))"

definition pool_for_lookup :: "storage \<Rightarrow> handle \<Rightarrow> sidecar_db option \<times> sidecar_state" where
  "pool_for_lookup F h =
     (case h of (st, file) \<Rightarrow>
        (case st of
           SidecarReady \<Rightarrow> (file, SidecarReady)
         | SidecarDown \<Rightarrow> (None, SidecarDown)
         | SidecarUnopened \<Rightarrow>
             (if \<not> works F 0 then (None, SidecarDown)
              else case file of
                None \<Rightarrow> (None, SidecarUnopened)
              | Some db \<Rightarrow>
                  (case open_existing F db of Inr _ \<Rightarrow> (Some db, SidecarReady) | Inl _ \<Rightarrow> (None, SidecarDown)))))"

definition ready_pool :: "handle \<Rightarrow> sidecar_error + sidecar_db" where
  "ready_pool h =
     (case h of (st, file) \<Rightarrow>
        (case st of
           SidecarReady \<Rightarrow> ok_or file SidecarStorage
         | SidecarDown \<Rightarrow> Inl SidecarUnavailable
         | SidecarUnopened \<Rightarrow> Inl SidecarNotInitialized))"

section \<open>The transactions\<close>

definition hex_text :: "nat \<Rightarrow> string \<Rightarrow> bool" where
  "hex_text n s \<longleftrightarrow> length s = n \<and> list_all lower_hex_char s"

text \<open>Ending a transaction with the tables it would leave.\<close>

definition commit :: "storage \<Rightarrow> nat \<Rightarrow> sidecar_db \<Rightarrow> sidecar_db \<Rightarrow> 'a \<Rightarrow> (sidecar_error + 'a) \<times> sidecar_db" where
  "commit F k db db' outcome =
     (case F k of
        StorageOk \<Rightarrow> (Inr outcome, db')
      | StorageFails \<Rightarrow> (Inl SidecarStorage, db)
      | StorageFailsApplied \<Rightarrow> (Inl SidecarStorage, db'))"

text \<open>
  \<open>INSERT OR IGNORE\<close> skips a row that breaks a uniqueness or check constraint; a foreign key that is not
  there is an error. The steps 9 and 10 are the begin and the insert.
\<close>

definition claim_draft_in_pool ::
    "storage \<Rightarrow> string \<Rightarrow> string \<Rightarrow> i64 \<Rightarrow> sidecar_db \<Rightarrow> (sidecar_error + claim_outcome) \<times> sidecar_db" where
  "claim_draft_in_pool F draft_id draft_hash consumed_at_ms db =
     (if \<not> all_work F [9, 10] then (Inl SidecarStorage, db)
      else if draft_id \<notin> cdr_draft_id ` set (sdb_consumed db) \<and> hex_text 32 draft_id \<and> hex_text 64 draft_hash
      then commit F 12 db
             (db\<lparr>sdb_consumed := sdb_consumed db @
                [\<lparr>cdr_draft_id = draft_id, cdr_draft_hash = draft_hash, cdr_consumed_at_ms = consumed_at_ms\<rparr>]\<rparr>)
             DraftClaimed
      else if \<not> works F 11 then (Inl SidecarStorage, db)
      else case find (\<lambda>r. cdr_draft_id r = draft_id) (sdb_consumed db) of
        Some r \<Rightarrow>
          commit F 12 db db (if cdr_draft_hash r = draft_hash then DraftAlreadyConsumed else DraftConflict)
      | None \<Rightarrow> (Inl (if works F 13 then SidecarIntegrity else SidecarStorage), db))"

definition select_hash_entry :: "sidecar_db \<Rightarrow> string \<Rightarrow> hash_index_entry option" where
  "select_hash_entry db h = find (\<lambda>e. hie_canonical_rule_hash e = h) (sdb_index db)"

definition select_intent_entry :: "sidecar_db \<Rightarrow> string \<Rightarrow> hash_index_entry option" where
  "select_intent_entry db i = find (\<lambda>e. hie_intent_id e = i) (sdb_index db)"

definition draft_consumed :: "sidecar_db \<Rightarrow> string \<Rightarrow> string \<Rightarrow> bool" where
  "draft_consumed db draft_id draft_hash \<longleftrightarrow>
     (\<exists>r \<in> set (sdb_consumed db). cdr_draft_id r = draft_id \<and> cdr_draft_hash r = draft_hash)"

definition index_hash_in_pool ::
    "storage \<Rightarrow> hash_index_entry \<Rightarrow> sidecar_db \<Rightarrow> (sidecar_error + index_outcome) \<times> sidecar_db" where
  "index_hash_in_pool F e db =
     (if \<not> all_work F [9, 10] then (Inl SidecarStorage, db)
      else if select_hash_entry db (hie_canonical_rule_hash e) = None
            \<and> select_intent_entry db (hie_intent_id e) = None
            \<and> hex_text 64 (hie_canonical_rule_hash e) \<and> hex_text 32 (hie_intent_id e)
      then
        (if \<not> draft_consumed db (hie_draft_id e) (hie_draft_hash e) then (Inl SidecarStorage, db)
         else commit F 11 db (db\<lparr>sdb_index := sdb_index db @ [e]\<rparr>) HashIndexed)
      else if \<not> all_work F [12, 13] then (Inl SidecarStorage, db)
      else
        (let by_hash = select_hash_entry db (hie_canonical_rule_hash e);
             by_intent = select_intent_entry db (hie_intent_id e);
             identical_pair =
               (case by_hash of Some x \<Rightarrow> hie_intent_id x = hie_intent_id e | None \<Rightarrow> False)
             \<and> (case by_intent of
                  Some x \<Rightarrow> hie_canonical_rule_hash x = hie_canonical_rule_hash e | None \<Rightarrow> False) in
         if \<not> identical_pair then (Inl (if works F 15 then SidecarMappingConflict else SidecarStorage), db)
         else commit F 14 db db HashAlreadyPresent))"

section \<open>The operations of a server instance\<close>

definition claim_draft ::
    "storage \<Rightarrow> string \<Rightarrow> string \<Rightarrow> i64 \<Rightarrow> handle \<Rightarrow> claim_outcome \<times> handle" where
  "claim_draft F draft_id draft_hash consumed_at_ms h =
     (case try_bind (normalize_draft_id draft_id) (\<lambda>i.
           try_bind (validate_lower_hex ''draft_hash'' draft_hash 64) (\<lambda>_.
           try_bind (validate_timestamp ''consumed_at_ms'' consumed_at_ms) (\<lambda>_. Inr i))) of
        Inl _ \<Rightarrow> (ClaimUnavailable, h)
      | Inr normalized \<Rightarrow>
          (case pool_for_claim F h of
             (Inl _, h') \<Rightarrow> (ClaimUnavailable, h')
           | (Inr db, (st, _)) \<Rightarrow>
               (case claim_draft_in_pool F normalized draft_hash consumed_at_ms db of
                  (Inr outcome, db') \<Rightarrow> (outcome, (st, Some db'))
                | (Inl _, db') \<Rightarrow> (ClaimUnavailable, (SidecarDown, Some db')))))"

definition index_hash ::
    "storage \<Rightarrow> string \<Rightarrow> string \<Rightarrow> string \<Rightarrow> string \<Rightarrow> i64 \<Rightarrow> handle \<Rightarrow> index_outcome \<times> handle" where
  "index_hash F rule_hash intent_id draft_id draft_hash indexed_at_ms h =
     (case try_bind (normalize_draft_id draft_id) (\<lambda>i.
           try_bind (validate_lower_hex ''canonical_rule_hash'' rule_hash 64) (\<lambda>_.
           try_bind (validate_lower_hex ''intent_id'' intent_id 32) (\<lambda>_.
           try_bind (validate_lower_hex ''draft_hash'' draft_hash 64) (\<lambda>_.
           try_bind (validate_timestamp ''indexed_at_ms'' indexed_at_ms) (\<lambda>_. Inr i))))) of
        Inl _ \<Rightarrow> (IndexUnavailable, h)
      | Inr normalized \<Rightarrow>
          (case ready_pool h of
             Inl _ \<Rightarrow> (IndexUnavailable, h)
           | Inr db \<Rightarrow>
               (case index_hash_in_pool F
                       \<lparr>hie_canonical_rule_hash = rule_hash, hie_intent_id = intent_id,
                        hie_draft_id = normalized, hie_draft_hash = draft_hash,
                        hie_indexed_at_ms = indexed_at_ms\<rparr> db of
                  (Inr outcome, db') \<Rightarrow> (outcome, (fst h, Some db'))
                | (Inl e, db') \<Rightarrow>
                    (if e = SidecarMappingConflict then IndexConflict else IndexUnavailable,
                     (SidecarDown, Some db')))))"

definition lookup_hash :: "storage \<Rightarrow> string \<Rightarrow> handle \<Rightarrow> hash_lookup \<times> handle" where
  "lookup_hash F rule_hash h =
     (if validate_lower_hex ''canonical_rule_hash'' rule_hash 64 \<noteq> Inr () then (LookupMissing, h)
      else case pool_for_lookup F h of
        (None, st) \<Rightarrow> (LookupUnavailable, (st, snd h))
      | (Some db, st) \<Rightarrow>
          (if \<not> works F 8 then (LookupUnavailable, (SidecarDown, snd h))
           else case select_hash_entry db rule_hash of
             Some entry \<Rightarrow> (LookupFound (hie_intent_id entry), (st, snd h))
           | None \<Rightarrow> (LookupMissing, (st, snd h))))"


section \<open>The file only grows\<close>

definition extends_db :: "sidecar_db option \<Rightarrow> sidecar_db option \<Rightarrow> bool" where
  "extends_db file file' \<longleftrightarrow>
     (\<forall>db. file = Some db \<longrightarrow>
        (\<exists>db' cs es. file' = Some db' \<and> sdb_consumed db' = sdb_consumed db @ cs
           \<and> sdb_index db' = sdb_index db @ es))"

lemma extends_db_refl [simp]: "extends_db file file"
  by (simp add: extends_db_def)

lemma extends_db_None [simp]: "extends_db None file"
  by (simp add: extends_db_def)

lemma extends_db_trans: "extends_db f g \<Longrightarrow> extends_db g h \<Longrightarrow> extends_db f h"
  by (fastforce simp: extends_db_def)

text \<open>The well-formed files: identifiers are unique and every indexed draft was consumed.\<close>

definition sidecar_inv :: "sidecar_db option \<Rightarrow> bool" where
  "sidecar_inv file \<longleftrightarrow>
     (\<forall>db. file = Some db \<longrightarrow>
        distinct (map cdr_draft_id (sdb_consumed db))
      \<and> distinct (map hie_canonical_rule_hash (sdb_index db)) \<and> distinct (map hie_intent_id (sdb_index db))
      \<and> (\<forall>e \<in> set (sdb_index db). draft_consumed db (hie_draft_id e) (hie_draft_hash e)))"

lemma sidecar_inv_fresh [simp]: "sidecar_inv None" "sidecar_inv (Some fresh_file)" "sidecar_inv (Some initialized_file)"
  by (simp_all add: sidecar_inv_def fresh_file_def initialized_file_def)

text \<open>A commit keeps the new tables or fails with the old ones.\<close>

lemma commit_cases:
  assumes "commit F k db db' outcome = (r, db'')"
  obtains "db'' = db'" | "db'' = db" "r = Inl SidecarStorage"
  using assms by (cases "F k") (auto simp: commit_def)

lemma commit_same: "commit F k db db outcome = (r, db') \<Longrightarrow> db' = db \<and> (r = Inr outcome \<or> r = Inl SidecarStorage)"
  by (cases "F k") (auto simp: commit_def)

text \<open>A claim leaves the tables as they are or adds the draft, which was not there.\<close>

lemma claim_in_pool_cases:
  assumes run: "claim_draft_in_pool F i dh ms db = (r, db')"
  obtains (same) "db' = db" "r \<noteq> Inr DraftClaimed"
  | (consumed) "i \<notin> cdr_draft_id ` set (sdb_consumed db)"
      "db' = db\<lparr>sdb_consumed := sdb_consumed db @
         [\<lparr>cdr_draft_id = i, cdr_draft_hash = dh, cdr_consumed_at_ms = ms\<rparr>]\<rparr>"
proof -
  let ?new = "i \<notin> cdr_draft_id ` set (sdb_consumed db) \<and> hex_text 32 i \<and> hex_text 64 dh"
  consider "\<not> all_work F [9, 10]" | "all_work F [9, 10]" "?new" | "all_work F [9, 10]" "\<not> ?new" by blast
  then show thesis
  proof cases
    case 1
    then show thesis using run same by (auto simp: claim_draft_in_pool_def)
  next
    case 2
    then have "commit F 12 db (db\<lparr>sdb_consumed := sdb_consumed db @
         [\<lparr>cdr_draft_id = i, cdr_draft_hash = dh, cdr_consumed_at_ms = ms\<rparr>]\<rparr>) DraftClaimed = (r, db')"
      using run by (simp add: claim_draft_in_pool_def)
    then show thesis by (rule commit_cases) (use 2 same consumed in auto)
  next
    case 3
    show thesis
    proof (cases "works F 11 \<and> find (\<lambda>r. cdr_draft_id r = i) (sdb_consumed db) \<noteq> None")
      case True
      then obtain x where "find (\<lambda>r. cdr_draft_id r = i) (sdb_consumed db) = Some x" by blast
      with True 3 run have "commit F 12 db db (if cdr_draft_hash x = dh then DraftAlreadyConsumed else DraftConflict)
          = (r, db')"
        by (simp only: claim_draft_in_pool_def) simp
      from commit_same [OF this] show thesis using same by (auto split: if_splits)
    next
      case False
      then have "db' = db \<and> r \<noteq> Inr DraftClaimed"
        using 3 run unfolding claim_draft_in_pool_def by (auto split: if_splits)
      then show thesis using same by blast
    qed
  qed
qed

lemma index_in_pool_cases:
  assumes run: "index_hash_in_pool F e db = (r, db')"
  obtains (same) "db' = db"
  | (indexed) "select_hash_entry db (hie_canonical_rule_hash e) = None"
      "select_intent_entry db (hie_intent_id e) = None"
      "draft_consumed db (hie_draft_id e) (hie_draft_hash e)"
      "db' = db\<lparr>sdb_index := sdb_index db @ [e]\<rparr>"
proof (cases "commit F 11 db (db\<lparr>sdb_index := sdb_index db @ [e]\<rparr>) HashIndexed = (r, db')
    \<and> select_hash_entry db (hie_canonical_rule_hash e) = None \<and> select_intent_entry db (hie_intent_id e) = None
    \<and> draft_consumed db (hie_draft_id e) (hie_draft_hash e)")
  case True
  then show thesis by (elim conjE commit_cases) (use same indexed in blast)+
next
  case False
  have "db' = db"
    using run commit_same [of F 14 db HashAlreadyPresent] False
    by (simp add: index_hash_in_pool_def Let_def split: if_splits)
  then show thesis by (rule same)
qed

lemma claim_in_pool_inv:
  assumes run: "claim_draft_in_pool F i dh ms db = (r, db')"
  shows "(sidecar_inv (Some db) \<longrightarrow> sidecar_inv (Some db')) \<and> extends_db (Some db) (Some db')"
  using run
proof (cases rule: claim_in_pool_cases)
  case same
  then show ?thesis by simp
next
  case consumed
  then show ?thesis by (auto simp: sidecar_inv_def draft_consumed_def extends_db_def)
qed

lemma index_in_pool_inv:
  assumes run: "index_hash_in_pool F e db = (r, db')"
  shows "(sidecar_inv (Some db) \<longrightarrow> sidecar_inv (Some db')) \<and> extends_db (Some db) (Some db')"
  using run
proof (cases rule: index_in_pool_cases)
  case same
  then show ?thesis by simp
next
  case indexed
  then show ?thesis
    by (auto simp: sidecar_inv_def select_hash_entry_def select_intent_entry_def find_None_iff
        draft_consumed_def extends_db_def)
qed


lemma create_new_inv: "sidecar_inv (snd (create_new F))"
  by (simp add: create_new_def initialize_schema_def split: storage_result.splits)

lemma pool_for_claim_file:
  assumes "pool_for_claim F h = (r, (st', file'))"
  shows "file' = snd h \<or> snd h = None \<and> file' = snd (create_new F)"
    and "r = Inr db \<Longrightarrow> file' = Some db"
  using assms
  by (cases h; auto simp: pool_for_claim_def ok_or_def
      split: sidecar_state.splits if_splits sum.splits option.splits prod.splits)+

text \<open>What a claim does to the shared file, and what winning it means.\<close>

lemma claim_draft_file:
  assumes run: "claim_draft F draft_id dh ms h = (outcome, h')"
  shows "(sidecar_inv (snd h) \<longrightarrow> sidecar_inv (snd h')) \<and> extends_db (snd h) (snd h')"
    and "outcome = DraftClaimed \<Longrightarrow> \<exists>i db'. normalize_draft_id draft_id = Inr i
       \<and> (\<forall>db. snd h = Some db \<longrightarrow> i \<notin> cdr_draft_id ` set (sdb_consumed db))
       \<and> snd h' = Some db' \<and> i \<in> cdr_draft_id ` set (sdb_consumed db')"
proof -
  let ?valid = "try_bind (normalize_draft_id draft_id) (\<lambda>i.
           try_bind (validate_lower_hex ''draft_hash'' dh 64) (\<lambda>_.
           try_bind (validate_timestamp ''consumed_at_ms'' ms) (\<lambda>_. Inr i)))"
  obtain r st fl where pool: "pool_for_claim F h = (r, (st, fl))" by (metis prod.exhaust)
  note opened_file = pool_for_claim_file [OF pool]
  have opened: "(sidecar_inv (snd h) \<longrightarrow> sidecar_inv fl) \<and> extends_db (snd h) fl"
    using opened_file(1) create_new_inv [of F] by auto
  have "((sidecar_inv (snd h) \<longrightarrow> sidecar_inv (snd h')) \<and> extends_db (snd h) (snd h'))
    \<and> (outcome = DraftClaimed \<longrightarrow> (\<exists>i db'. normalize_draft_id draft_id = Inr i
       \<and> (\<forall>db. snd h = Some db \<longrightarrow> i \<notin> cdr_draft_id ` set (sdb_consumed db))
       \<and> snd h' = Some db' \<and> i \<in> cdr_draft_id ` set (sdb_consumed db')))"
  proof (cases ?valid)
    case (Inl e)
    then have "outcome = ClaimUnavailable \<and> h' = h" using run unfolding claim_draft_def Inl by simp
    then show ?thesis by simp
  next
    case (Inr i)
    then have i: "normalize_draft_id draft_id = Inr i" by auto
    show ?thesis
    proof (cases r)
      case (Inl e)
      then have "outcome = ClaimUnavailable \<and> h' = (st, fl)" using run pool \<open>r = Inl e\<close> unfolding claim_draft_def \<open>?valid = Inr i\<close> by simp
      then show ?thesis using opened by simp
    next
      case r: (Inr db)
      obtain q db' where claim: "claim_draft_in_pool F i dh ms db = (q, db')" by (metis prod.exhaust)
      then have h': "snd h' = Some db'" and q: "outcome = DraftClaimed \<Longrightarrow> q = Inr DraftClaimed"
        using run pool r unfolding claim_draft_def Inr by (auto split: sum.splits)
      have Some: "fl = Some db" using opened_file(2) r by blast
      have grown: "(sidecar_inv fl \<longrightarrow> sidecar_inv (Some db')) \<and> extends_db fl (Some db')"
        using claim_in_pool_inv [OF claim] Some by simp
      moreover have "(\<forall>d. snd h = Some d \<longrightarrow> i \<notin> cdr_draft_id ` set (sdb_consumed d))
          \<and> i \<in> cdr_draft_id ` set (sdb_consumed db')" if "q = Inr DraftClaimed"
        using claim
      proof (cases rule: claim_in_pool_cases)
        case same
        then show ?thesis using that by simp
      next
        case consumed
        moreover have "d = db" if "snd h = Some d" for d
          using opened_file(1) Some that by auto
        ultimately show ?thesis by auto
      qed
      ultimately show ?thesis using opened h' i q extends_db_trans by (metis (no_types, lifting))
    qed
  qed
  then show "(sidecar_inv (snd h) \<longrightarrow> sidecar_inv (snd h')) \<and> extends_db (snd h) (snd h')"
    and "outcome = DraftClaimed \<Longrightarrow> \<exists>i db'. normalize_draft_id draft_id = Inr i
       \<and> (\<forall>db. snd h = Some db \<longrightarrow> i \<notin> cdr_draft_id ` set (sdb_consumed db))
       \<and> snd h' = Some db' \<and> i \<in> cdr_draft_id ` set (sdb_consumed db')" by blast+
qed

lemma index_hash_file:
  assumes run: "index_hash F rh i draft_id dh ms h = (outcome, h')"
  shows "(sidecar_inv (snd h) \<longrightarrow> sidecar_inv (snd h')) \<and> extends_db (snd h) (snd h')"
proof (cases "h' = h")
  case True
  then show ?thesis by simp
next
  case False
  then obtain db e r db' where "snd h = Some db" "index_hash_in_pool F e db = (r, db')" "snd h' = Some db'"
    using run
    by (cases h) (auto simp: index_hash_def ready_pool_def ok_or_def
        split: sum.splits prod.splits sidecar_state.splits option.splits; blast)
  then show ?thesis using index_in_pool_inv by metis
qed

lemma lookup_hash_file:
  assumes "lookup_hash F rh h = (outcome, h')"
  shows "snd h' = snd h"
    and "outcome = LookupFound i \<Longrightarrow> \<exists>db e. snd h = Some db \<and> select_hash_entry db rh = Some e \<and> hie_intent_id e = i"
  using assms
  by (cases h; auto simp: lookup_hash_def pool_for_lookup_def
      split: if_splits option.splits prod.splits sidecar_state.splits sum.splits)+


section \<open>Many instances on one file\<close>

text \<open>
  Server instances are numbered; a restarted instance forgets its handle. Each operation meets a storage
  of its own.
\<close>

datatype sidecar_event =
    ClaimAt nat storage string string i64
  | IndexAt nat storage string string string string i64
  | LookupAt nat storage string
  | RestartAt nat

type_synonym sidecar_world = "(nat \<Rightarrow> sidecar_state) \<times> sidecar_db option"

definition with_handle :: "(handle \<Rightarrow> 'a \<times> handle) \<Rightarrow> nat \<Rightarrow> sidecar_world \<Rightarrow> 'a \<times> sidecar_world" where
  "with_handle f n w =
     (case f (fst w n, snd w) of (r, (st, fl)) \<Rightarrow> (r, ((fst w)(n := st), fl)))"

fun sidecar_step :: "sidecar_event \<Rightarrow> sidecar_world \<Rightarrow> sidecar_world" where
  "sidecar_step (ClaimAt n F i dh ms) w = snd (with_handle (claim_draft F i dh ms) n w)"
| "sidecar_step (IndexAt n F rh i d dh ms) w = snd (with_handle (index_hash F rh i d dh ms) n w)"
| "sidecar_step (LookupAt n F rh) w = snd (with_handle (lookup_hash F rh) n w)"
| "sidecar_step (RestartAt n) w = ((fst w)(n := SidecarUnopened), snd w)"

definition sidecar_run :: "sidecar_world \<Rightarrow> sidecar_event list \<Rightarrow> sidecar_world" where
  "sidecar_run w es = fold sidecar_step es w"

text \<open>Whether an event is a claim of the draft \<open>i\<close>, in either spelling, that is answered \<open>Claimed\<close>.\<close>

fun wins_draft :: "string \<Rightarrow> sidecar_world \<Rightarrow> sidecar_event \<Rightarrow> bool" where
  "wins_draft i w (ClaimAt n F d dh ms) \<longleftrightarrow>
     normalize_draft_id d = Inr i \<and> fst (claim_draft F d dh ms (fst w n, snd w)) = DraftClaimed"
| "wins_draft i w _ \<longleftrightarrow> False"

fun draft_wins :: "string \<Rightarrow> sidecar_world \<Rightarrow> sidecar_event list \<Rightarrow> nat" where
  "draft_wins i w [] = 0"
| "draft_wins i w (e # es) = (if wins_draft i w e then 1 else 0) + draft_wins i (sidecar_step e w) es"

lemma with_handle_file: "snd (snd (with_handle f n w)) = snd (snd (f (fst w n, snd w)))"
  by (simp add: with_handle_def split: prod.splits)

lemma sidecar_step_file:
  "(sidecar_inv (snd w) \<longrightarrow> sidecar_inv (snd (sidecar_step e w))) \<and> extends_db (snd w) (snd (sidecar_step e w))"
proof (cases e)
  case (ClaimAt n F d dh ms)
  then show ?thesis
    using claim_draft_file(1) [of F d dh ms "(fst w n, snd w)", OF prod.collapse [symmetric]]
    by (simp add: with_handle_file)
next
  case (IndexAt n F rh i d dh ms)
  then show ?thesis
    using index_hash_file [of F rh i d dh ms "(fst w n, snd w)", OF prod.collapse [symmetric]]
    by (simp add: with_handle_file)
next
  case (LookupAt n F rh)
  then show ?thesis
    using lookup_hash_file(1) [of F rh "(fst w n, snd w)", OF prod.collapse [symmetric]]
    by (simp add: with_handle_file)
qed simp

lemma sidecar_run_file:
  "(sidecar_inv (snd w) \<longrightarrow> sidecar_inv (snd (sidecar_run w es))) \<and> extends_db (snd w) (snd (sidecar_run w es))"
proof (induction es arbitrary: w)
  case (Cons e es)
  then show ?case
    using sidecar_step_file [of w e] extends_db_trans by (simp add: sidecar_run_def) blast
qed (simp add: sidecar_run_def)

definition draft_recorded :: "string \<Rightarrow> sidecar_world \<Rightarrow> bool" where
  "draft_recorded i w \<longleftrightarrow> (\<exists>db. snd w = Some db \<and> i \<in> cdr_draft_id ` set (sdb_consumed db))"

lemma wins_draft_records:
  assumes "wins_draft i w e"
  shows "\<not> draft_recorded i w" and "draft_recorded i (sidecar_step e w)"
proof -
  from assms obtain n F d dh ms where e: "e = ClaimAt n F d dh ms" and i: "normalize_draft_id d = Inr i"
      and won: "fst (claim_draft F d dh ms (fst w n, snd w)) = DraftClaimed"
    by (cases e) auto
  from claim_draft_file(2) [of F d dh ms "(fst w n, snd w)", OF prod.collapse [symmetric] won] i
  show "\<not> draft_recorded i w" and "draft_recorded i (sidecar_step e w)"
    by (auto simp: draft_recorded_def e with_handle_file)
qed

lemma recorded_stays: "draft_recorded i w \<Longrightarrow> draft_recorded i (sidecar_step e w)"
  using sidecar_step_file [of w e] by (fastforce simp: draft_recorded_def extends_db_def)

lemma recorded_never_won: "draft_recorded i w \<Longrightarrow> draft_wins i w es = 0"
  by (induction es arbitrary: w) (use wins_draft_records(1) recorded_stays in auto)

text \<open>C29: A draft is consumed at most once: in any sequence of claims, index writes and lookups by any
  number of server instances on the shared file, with restarts and with storage failures at any step
  (a failing commit may or may not have been applied), at most one claim of a draft id, in either of its
  spellings, is answered \<open>Claimed\<close>.\<close>

theorem draft_consumed_at_most_once: "draft_wins i w es \<le> 1"
proof (induction es arbitrary: w)
  case (Cons e es)
  show ?case
  proof (cases "wins_draft i w e")
    case True
    then show ?thesis using wins_draft_records(2) recorded_never_won by simp
  next
    case False
    then show ?thesis using Cons by simp
  qed
qed simp

lemma find_append: "find P (xs @ ys) = (case find P xs of None \<Rightarrow> find P ys | Some x \<Rightarrow> Some x)"
  by (induction xs) simp_all

text \<open>The hash index never changes its mind: once a lookup has found an intent for a canonical rule
  hash, every later lookup of that hash that finds one, by any instance and after any operations,
  restarts and storage failures, finds the same intent.\<close>

theorem found_mapping_is_stable:
  assumes "fst (lookup_hash F rh (fst w n, snd w)) = LookupFound i"
    and "fst (lookup_hash F' rh (fst (sidecar_run w es) n', snd (sidecar_run w es))) = LookupFound i'"
  shows "i' = i"
proof -
  from lookup_hash_file(2) [of F rh "(fst w n, snd w)", OF prod.collapse [symmetric] assms(1)]
  obtain db e where db: "snd w = Some db" "select_hash_entry db rh = Some e" "hie_intent_id e = i" by auto
  from lookup_hash_file(2) [OF prod.collapse [symmetric] assms(2)]
  obtain db' e' where db': "snd (sidecar_run w es) = Some db'" "select_hash_entry db' rh = Some e'"
      "hie_intent_id e' = i'" by auto
  obtain xs where "sdb_index db' = sdb_index db @ xs"
    using sidecar_run_file [of w es] db(1) db'(1) by (auto simp: extends_db_def)
  then have "select_hash_entry db' rh = Some e"
    using db(2) by (simp add: select_hash_entry_def find_append split: option.splits)
  with db db' show ?thesis by simp
qed


text \<open>On working storage the first claim of a well-formed draft id wins and creates the file.\<close>

lemma first_claim_wins:
  assumes "\<forall>k. F k = StorageOk" and "normalize_draft_id d = Inr i" and "hex_text 64 dh" and "0 \<le> sint ms"
  shows "claim_draft F d dh ms (SidecarUnopened, None) =
    (DraftClaimed, (SidecarReady, Some (initialized_file\<lparr>sdb_consumed :=
       [\<lparr>cdr_draft_id = i, cdr_draft_hash = dh, cdr_consumed_at_ms = ms\<rparr>]\<rparr>)))"
proof -
  have works: "works F k" for k using assms(1) by (simp add: works_def)
  have "hex_text 32 i"
    using assms(2) by (auto simp: normalize_draft_id_def validate_lower_hex_def hex_text_def split: if_splits)
  then have "claim_draft_in_pool F i dh ms initialized_file = (Inr DraftClaimed, initialized_file\<lparr>sdb_consumed :=
       [\<lparr>cdr_draft_id = i, cdr_draft_hash = dh, cdr_consumed_at_ms = ms\<rparr>]\<rparr>)"
    using assms(1,3) works
    by (simp add: claim_draft_in_pool_def all_work_def commit_def initialized_file_def fresh_file_def)
  moreover have "pool_for_claim F (SidecarUnopened, None) = (Inr initialized_file, (SidecarReady, Some initialized_file))"
    using assms(1) works
    by (simp add: pool_for_claim_def create_new_def initialize_schema_def all_work_def ok_or_def)
  ultimately show ?thesis
    using assms(2-4) by (simp add: claim_draft_def validate_lower_hex_def validate_timestamp_def hex_text_def)
qed

definition indexed_example :: sidecar_world where
  "indexed_example = (\<lambda>_. SidecarUnopened, Some (initialized_file\<lparr>
     sdb_consumed := [\<lparr>cdr_draft_id = replicate 32 CHR ''a'', cdr_draft_hash = replicate 64 CHR ''b'',
                       cdr_consumed_at_ms = 1\<rparr>],
     sdb_index := [\<lparr>hie_canonical_rule_hash = replicate 64 CHR ''c'', hie_intent_id = replicate 32 CHR ''d'',
                    hie_draft_id = replicate 32 CHR ''a'', hie_draft_hash = replicate 64 CHR ''b'',
                    hie_indexed_at_ms = 2\<rparr>]\<rparr>))"

lemma indexed_example_lookup:
  "fst (lookup_hash (\<lambda>_. StorageOk) (replicate 64 CHR ''c'') (SidecarUnopened, snd indexed_example))
     = LookupFound (replicate 32 CHR ''d'')"
  by (simp add: lookup_hash_def validate_lower_hex_def lower_hex_char_def pool_for_lookup_def works_def
      indexed_example_def open_existing_def validate_existing_def all_work_def initialized_file_def
      fresh_file_def select_hash_entry_def list_all_iff)

theorem found_mapping_is_stable_witness:
  "fst (lookup_hash (\<lambda>_. StorageOk) (replicate 64 CHR ''c'')
     (SidecarUnopened, snd (sidecar_run indexed_example [RestartAt 3]))) = LookupFound (replicate 32 CHR ''d'')"
proof -
  have later: "sidecar_run indexed_example [RestartAt 3] = indexed_example"
    by (simp add: sidecar_run_def indexed_example_def fun_eq_iff)
  have unopened: "fst indexed_example n = SidecarUnopened" for n by (simp add: indexed_example_def)
  obtain i' where found: "fst (lookup_hash (\<lambda>_. StorageOk) (replicate 64 CHR ''c'')
      (fst (sidecar_run indexed_example [RestartAt 3]) 1, snd (sidecar_run indexed_example [RestartAt 3])))
        = LookupFound i'"
    using indexed_example_lookup unfolding later unopened by blast
  then have "i' = replicate 32 CHR ''d''"
    by (rule found_mapping_is_stable [rotated]) (subst unopened, rule indexed_example_lookup)
  with found show ?thesis unfolding later unopened by (simp only:)
qed

end
