(* ===== verification/Finalize.thy ===== *)
theory Finalize
  imports Propose Sidecar Funding_Confirm Watch_Scan
begin

text \<open>
  The finalisation of a draft, \<open>bins/solfrontier-mcp/src/finalize.rs\<close>: the draft is consumed in the
  sidecar, the market is read, the canonical rule and then the funding row are written, and funding
  instructions are issued for what the database holds. The database calls are numbered (0 and 1 insert
  and read the rule, 2 and 3 insert and read the funding row); each may fail, before or after its effect,
  and is preceded by whatever other actors do to its table. The clock is numbered too.
\<close>

section \<open>Pinned values and parameters\<close>

definition solend_reserve_bs58 :: string where
  "solend_reserve_bs58 = ''BgxfHJDzm44T7XG68MYKx7YisTjZu73tVovyZSjJMpmw''"

definition solend_lending_market_bs58 :: string where
  "solend_lending_market_bs58 = ''4UpD2fh7xH3VP9QQaXtsS1YY3bxzWhtfpks7FatyKvdY''"

definition solend_program_id_bs58 :: string where
  "solend_program_id_bs58 = ''So1endDq2YkqhipRh3WViPa8hdiSpxWy6z3Z6tMCpAo''"

definition solend_target_obligation_bs58 :: string where
  "solend_target_obligation_bs58 = ''BdFLjCcP9mCy557vNNGVbTUuvHxXsh8hc6jXzaPra1wN''"

definition watch_rule_expiry_slots :: u64 where "watch_rule_expiry_slots = 480"
definition funding_window_ms :: i64 where "funding_window_ms = 180000"
definition funding_window_seconds :: i64 where "funding_window_seconds = 180"

definition signing_page_base_url :: string where
  "signing_page_base_url = ''http://127.0.0.1:8080/index.html''"

definition canonical_deposit_mapping_error :: string where
  "canonical_deposit_mapping_error =
     ''the approved draft cannot be represented as the canonical SolendDeposit action''"

record finalize_intent_params =
  fip_proposal :: propose_intent_params
  fip_draft_id :: string
  fip_draft_hash :: string
  fip_user_wallet :: string

text \<open>The messages of the market errors, as \<open>thiserror\<close> derives them.\<close>

fun market_error_text :: "finalize_market_read_error \<Rightarrow> string" where
  "market_error_text RpcPoolUnavailable = ''Solana RPC pool is unavailable''"
| "market_error_text SlotRequestFailed = ''Solana confirmed-slot request failed''"
| "market_error_text ReserveRequestFailed = ''Solana reserve-account request failed''"
| "market_error_text AccountRequestFailed = ''Solana account request failed''"
| "market_error_text ReserveAccountMissing = ''the requested Solend reserve account was not found''"
| "market_error_text ReserveDecodeFailed = ''the pinned Solend reserve account could not be decoded''"
| "market_error_text AprComputationFailed = ''Solend native supply APR calculation failed''"
| "market_error_text AprOutOfRange = ''Solend native supply APR was outside the accepted range''"
| "market_error_text SaveClientUnavailable = ''Save market-data HTTP client is unavailable''"
| "market_error_text SaveTimeout = ''Save market-data request timed out''"
| "market_error_text SaveRequestFailed = ''Save market-data request failed''"
| "market_error_text (SaveHttpStatus n) =
     ''Save market-data API returned HTTP status '' @ decimal (unat n)"
| "market_error_text SaveInvalidResponse = ''Save market-data response was invalid''"
| "market_error_text SaveIdentityMismatch =
     ''Save market-data response did not match the pinned Main Pool USDC reserve''"
| "market_error_text SaveRateInvalid = ''Save display APY was invalid''"

section \<open>The canonical rule of a draft\<close>

definition validate_canonical_solend_deposit_draft :: "draft_intent \<Rightarrow> string + unit" where
  "validate_canonical_solend_deposit_draft draft =
     (if di_action draft \<noteq> ''deposit'' \<or> di_protocol draft \<noteq> ''solend'' \<or> di_asset draft \<noteq> ''USDC''
         \<or> di_display_source draft \<noteq> ''save'' \<or> di_comparison draft \<noteq> ''gt''
         \<or> di_expiry_seconds_after_finalize draft \<noteq> 180
         \<or> di_controlled_wallet draft \<noteq> controlled_wallet_bs58
         \<or> di_controlled_usdc_ata draft \<noteq> controlled_usdc_ata_bs58
      then Inl canonical_deposit_mapping_error else Inr ())"

definition derive_rule_id :: "u32 \<Rightarrow> u64 \<Rightarrow> pubkey_bytes \<Rightarrow> bytes" where
  "derive_rule_id threshold_bps amount_raw controlled_wallet =
     to_le_bytes 4 threshold_bps @ to_le_bytes 8 amount_raw @ take 4 (pubkey_as_bytes controlled_wallet)"

definition build_watch_rule :: "crypto \<Rightarrow> draft_intent \<Rightarrow> u64 \<Rightarrow> string + watch_rule" where
  "build_watch_rule C draft last_checked_slot =
     try_bind (validate_canonical_solend_deposit_draft draft) (\<lambda>_.
       (let controlled = pinned_pubkey C controlled_wallet_bs58;
            reserve = pinned_pubkey C solend_reserve_bs58;
            lending_market = pinned_pubkey C solend_lending_market_bs58;
            solend_program_id = pinned_pubkey C solend_program_id_bs58;
            input_mint = pinned_pubkey C usdc_mint_bs58;
            target_obligation = pinned_pubkey C solend_target_obligation_bs58;
            input_amount_raw = di_amount_raw draft in
        Inr \<lparr>wr_schema_version = stage2_watch_rule_schema_v2,
             wr_rule_id = derive_rule_id (di_threshold_bps draft) (di_amount_raw draft) controlled,
             wr_user = controlled, wr_executor = controlled, wr_delegated_wallet = controlled,
             wr_created_at_slot = last_checked_slot,
             wr_expires_at_slot = saturating_add last_checked_slot watch_rule_expiry_slots,
             wr_one_shot = True, wr_condition_logic = LogicAll,
             wr_conditions = [SolendReserveSupplyRate
               \<lparr>sr_reserve_pubkey = reserve, sr_lending_market = lending_market,
                sr_solend_program_id = solend_program_id, sr_comparison = CmpGt,
                sr_threshold_bps = di_threshold_bps draft, sr_rate_kind = RateApr, sr_formula_version = 1,
                sr_max_reserve_staleness_slots = 16, sr_required_refresh_same_tx = True\<rparr>],
             wr_action = SolendDeposit
               \<lparr>sd_target_obligation = target_obligation, sd_reserve_pubkey = reserve,
                sd_lending_market = lending_market, sd_solend_program_id = solend_program_id,
                sd_input_mint = input_mint, sd_input_amount_raw = input_amount_raw\<rparr>,
             wr_max_input_amount_raw = input_amount_raw, wr_used_amount_raw = 0,
             wr_destination = controlled, wr_slippage_bps = 0\<rparr>))"

definition canonical_solend_deposit_amount_raw :: "watch_rule \<Rightarrow> u64 option" where
  "canonical_solend_deposit_amount_raw rule =
     (case wr_action rule of
        SolendDeposit d \<Rightarrow>
          (if sd_input_amount_raw d = wr_max_input_amount_raw rule then Some (sd_input_amount_raw d) else None)
      | _ \<Rightarrow> None)"

definition has_exact_solend_deposit_amount_invariant :: "watch_rule \<Rightarrow> u64 \<Rightarrow> bool" where
  "has_exact_solend_deposit_amount_invariant rule funding_amount_raw \<longleftrightarrow>
     canonical_solend_deposit_amount_raw rule = Some funding_amount_raw"

definition hex_lower_text :: "bytes \<Rightarrow> string" where
  "hex_lower_text bs = concat (map hex_byte bs)"

section \<open>The world of a finalisation\<close>

record finalize_world =
  fw_crypto :: crypto
  fw_store :: store_env
  fw_propose :: propose_env
  fw_sdk :: confirm_sdk
  fw_pubkey_to_string :: "pubkey \<Rightarrow> string"
  fw_uuid_version :: "string \<Rightarrow> nat option"        \<comment> \<open>\<open>Uuid::parse_str(..).ok()\<close> and its version\<close>
  fw_json_to_text :: "json \<Rightarrow> string"
  fw_market :: "(finalize_market_read_error + finalize_market_snapshot) option"
  fw_clock :: "nat \<Rightarrow> i64"
  fw_row_clock :: "nat \<Rightarrow> i64"
  fw_fault :: "nat \<Rightarrow> db_fault"
  fw_other_rules :: "nat \<Rightarrow> watch_table \<Rightarrow> watch_table"
  fw_other_intents :: "nat \<Rightarrow> funding_table \<Rightarrow> funding_table"
  fw_claim_storage :: storage
  fw_index_storage :: storage

record finalize_state =
  fz_sidecar :: handle
  fz_rules :: watch_table
  fz_intents :: funding_table

definition is_v4_uuid :: "finalize_world \<Rightarrow> string \<Rightarrow> bool" where
  "is_v4_uuid W value \<longleftrightarrow> fw_uuid_version W value = Some 4"

text \<open>A call that fails after its effect has been applied answers with an error all the same.\<close>

definition faulty_insert :: "db_fault \<Rightarrow> (store_error + 't) \<Rightarrow> 't \<Rightarrow> (store_error + unit) \<times> 't" where
  "faulty_insert fault result t =
     (case (fault, result) of
        (FailBefore, _) \<Rightarrow> (Inl (Sqlx ''database unavailable''), t)
      | (_, Inl e) \<Rightarrow> (Inl e, t)
      | (FailAfter, Inr t') \<Rightarrow> (Inl (Sqlx ''database unavailable''), t')
      | (NoFault, Inr t') \<Rightarrow> (Inr (), t'))"

definition faulty_read :: "db_fault \<Rightarrow> store_error + 'a \<Rightarrow> store_error + 'a" where
  "faulty_read fault result = (if fault = NoFault then result else Inl (Sqlx ''database unavailable''))"

definition persist_rule_with_legacy_recovery ::
    "finalize_world \<Rightarrow> watch_rule \<Rightarrow> watch_table \<Rightarrow> (watch_rule \<times> bool) \<times> watch_table" where
  "persist_rule_with_legacy_recovery W fresh t =
     (let t0 = fw_other_rules W 0 t in
      case faulty_insert (fw_fault W 0) (watch_insert (fw_crypto W) (fw_store W) (fw_row_clock W 0) fresh t0) t0 of
        (Inr _, t1) \<Rightarrow> ((fresh, True), t1)
      | (Inl _, t1) \<Rightarrow>
          (let t2 = fw_other_rules W 1 t1 in
           case faulty_read (fw_fault W 1) (watch_get (fw_crypto W) (fw_store W) (wr_rule_id fresh) t2) of
             Inr (Some stored) \<Rightarrow> ((swr_rule stored, True), t2)
           | _ \<Rightarrow> ((fresh, False), t2)))"

datatype funding_persist_outcome = PersistInserted w5h_funding_intent | PersistExisting w5h_funding_intent

fun into_row :: "funding_persist_outcome \<Rightarrow> w5h_funding_intent" where
  "into_row (PersistInserted row) = row"
| "into_row (PersistExisting row) = row"

definition persist_funding_with_legacy_recovery ::
    "finalize_world \<Rightarrow> new_w5h_funding_intent \<Rightarrow> funding_table \<Rightarrow>
     (store_error + funding_persist_outcome) \<times> funding_table" where
  "persist_funding_with_legacy_recovery W fresh t =
     (let t0 = fw_other_intents W 2 t in
      case faulty_insert (fw_fault W 2) (funding_insert (fw_row_clock W 2) fresh t0) t0 of
        (inserted, t1) \<Rightarrow>
          (let t2 = fw_other_intents W 3 t1;
               read = faulty_read (fw_fault W 3) (funding_get (nfi_intent_id fresh) t2) in
           (case (inserted, read) of
              (Inr _, Inr (Some persisted)) \<Rightarrow> Inr (PersistInserted persisted)
            | (Inr _, Inr None) \<Rightarrow> Inl (NotFound ''stage2_w5h_funding_intents'' (nfi_intent_id fresh))
            | (Inr _, Inl read_error) \<Rightarrow> Inl read_error
            | (Inl _, Inr (Some existing)) \<Rightarrow> Inr (PersistExisting existing)
            | (Inl insert_error, Inr None) \<Rightarrow> Inl insert_error
            | (Inl _, Inl read_error) \<Rightarrow> Inl read_error, t2)))"

definition rule_threshold :: "watch_rule \<Rightarrow> u32 option" where
  "rule_threshold rule =
     (case wr_conditions rule of
        SolendReserveSupplyRate c # _ \<Rightarrow> Some (sr_threshold_bps c)
      | _ \<Rightarrow> None)"

definition funding_row_matches_identity ::
    "finalize_world \<Rightarrow> pubkey \<Rightarrow> w5h_funding_intent \<Rightarrow> watch_rule \<Rightarrow> string \<Rightarrow> string \<Rightarrow> bool" where
  "funding_row_matches_identity W mint funding rule intent_id rule_hash =
     (if fi_intent_id funding \<noteq> intent_id \<or> fi_rule_id_hex funding \<noteq> intent_id
         \<or> map ascii_lower (fi_canonical_rule_hash_hex funding) \<noteq> map ascii_lower rule_hash
         \<or> fi_controlled_wallet funding \<noteq> controlled_wallet_bs58
         \<or> fi_controlled_usdc_ata funding \<noteq> controlled_usdc_ata_bs58
         \<or> \<not> has_exact_solend_deposit_amount_invariant rule (fi_amount_raw funding)
      then False
      else case rule_threshold rule of
        None \<Rightarrow> False
      | Some rule_threshold_bps \<Rightarrow>
          (if fi_threshold_bps funding \<noteq> rule_threshold_bps then False
           else case cs_pubkey_from_str (fw_sdk W) (fi_user_wallet funding) of
             None \<Rightarrow> False
           | Some user_wallet \<Rightarrow> cs_ata_text (fw_sdk W) user_wallet mint = fi_user_usdc_ata funding))"


section \<open>The signing page\<close>

record funding_instructions =
  fin_user_wallet :: string
  fin_user_usdc_ata :: string
  fin_controlled_wallet :: string
  fin_controlled_usdc_ata :: string
  fin_mint :: string
  fin_decimals :: u8
  fin_amount_raw :: string
  fin_memo :: string
  fin_memo_program_id :: string
  fin_funding_window_seconds :: i64
  fin_expires_at_ms :: i64

definition json_of_i64 :: "i64 \<Rightarrow> json" where
  "json_of_i64 i = (if 0 \<le> sint i then JPosInt i else JNegInt i)"

definition funding_json :: "funding_instructions \<Rightarrow> json" where
  "funding_json f = JObject
     [(''user_wallet'', JString (fin_user_wallet f)), (''user_usdc_ata'', JString (fin_user_usdc_ata f)),
      (''controlled_wallet'', JString (fin_controlled_wallet f)),
      (''controlled_usdc_ata'', JString (fin_controlled_usdc_ata f)), (''mint'', JString (fin_mint f)),
      (''decimals'', JPosInt (ucast (fin_decimals f))), (''amount_raw'', JString (fin_amount_raw f)),
      (''memo'', JString (fin_memo f)), (''memo_program_id'', JString (fin_memo_program_id f)),
      (''instruction_order'', JArray [JString ''memo'', JString ''transfer_checked'']),
      (''funding_window_seconds'', json_of_i64 (fin_funding_window_seconds f)),
      (''expires_at_ms'', json_of_i64 (fin_expires_at_ms f))]"

definition unreserved :: "char \<Rightarrow> bool" where
  "unreserved c =
     (let b = of_char c :: nat in
      (48 \<le> b \<and> b \<le> 57) \<or> (65 \<le> b \<and> b \<le> 90) \<or> (97 \<le> b \<and> b \<le> 122) \<or> c \<in> set ''-_.~'')"

definition upper_hex_chars :: string where "upper_hex_chars = ''0123456789ABCDEF''"

definition percent_encode_byte :: "char \<Rightarrow> string" where
  "percent_encode_byte c =
     (if unreserved c then [c]
      else [CHR ''%'', upper_hex_chars ! ((of_char c :: nat) div 16), upper_hex_chars ! ((of_char c :: nat) mod 16)])"

definition percent_encode_fragment_component :: "string \<Rightarrow> string" where
  "percent_encode_fragment_component value = concat (map percent_encode_byte value)"

definition build_signing_page_url :: "(json \<Rightarrow> string) \<Rightarrow> string \<Rightarrow> string \<Rightarrow> string \<Rightarrow> json \<Rightarrow> string" where
  "build_signing_page_url to_text status intent_id rule_hash funding =
     signing_page_base_url @ ''#payload='' @ percent_encode_fragment_component (to_text (JObject
       [(''status'', JString status), (''funding_actionable'', JBool True),
        (''intent_id'', JString intent_id), (''rule_hash'', JString rule_hash), (''funding'', funding)]))"

section \<open>Finalising\<close>

record handoff =
  ho_status :: string
  ho_draft_id :: string
  ho_draft_hash :: string
  ho_intent_id :: string
  ho_rule_hash :: string
  ho_rule_persisted :: bool
  ho_reused_existing_intent :: bool
  ho_created_at_ms :: i64
  ho_expires_at_ms :: i64
  ho_funding :: funding_instructions
  ho_signing_page_url :: string
  ho_request_wallet_matches_persisted :: bool

record unconfirmed_rule =
  ur_draft_id :: string
  ur_draft_hash :: string
  ur_intent_id :: string
  ur_rule_hash :: string
  ur_persisted_funding_status :: string
  ur_reused_existing_intent :: bool

record not_actionable =
  na_status :: string
  na_draft_id :: string
  na_intent_id :: string
  na_rule_hash :: string
  na_reused_existing_intent :: bool
  na_created_at_ms :: i64
  na_expires_at_ms :: i64
  na_deadline_elapsed :: bool

datatype finalize_response =
    FinalizeInvalidInput string
  | FinalizeHashMismatch string string string            \<comment> \<open>draft id, recomputed hash, provided hash\<close>
  | FinalizeActionUnsupported string bool                \<comment> \<open>reason, draft consumed\<close>
  | FinalizeConfigMissing
  | FinalizeInvalidUserWallet
  | FinalizeAlreadyFinalized string
  | FinalizeDraftIdConflict string
  | FinalizeSidecarUnavailable
  | FinalizeMarketDataError string string                \<comment> \<open>error class, reason\<close>
  | FinalizeExistingRuleConflict string bool             \<comment> \<open>draft id; whether the amount invariant failed\<close>
  | FinalizeRuleUnconfirmed unconfirmed_rule
  | FinalizeExistingIntentConflict string string "string option"   \<comment> \<open>draft id, intent id, status\<close>
  | FinalizeNotActionable not_actionable
  | FinalizeHandoff handoff
  | FinalizePanicked                                     \<comment> \<open>an \<open>expect\<close> on a pinned constant\<close>

definition saturating_add_i64 :: "i64 \<Rightarrow> i64 \<Rightarrow> i64" where
  "saturating_add_i64 a b =
     (let s = sint a + sint b in
      if s > 2 ^ 63 - 1 then word_of_int (2 ^ 63 - 1)
      else if s < - (2 ^ 63) then word_of_int (- (2 ^ 63))
      else word_of_int s)"

definition new_intent_of ::
    "draft_intent \<Rightarrow> string \<Rightarrow> string \<Rightarrow> string \<Rightarrow> string \<Rightarrow> u64 \<Rightarrow> finalize_market_snapshot \<Rightarrow> i64 \<Rightarrow>
     new_w5h_funding_intent" where
  "new_intent_of draft intent_id rule_hash user_wallet user_usdc_ata amount_raw snapshot created_at_ms =
     \<lparr>nfi_intent_id = intent_id, nfi_rule_id_hex = intent_id, nfi_canonical_rule_hash_hex = rule_hash,
      nfi_user_wallet = user_wallet, nfi_user_usdc_ata = user_usdc_ata,
      nfi_controlled_wallet = controlled_wallet_bs58, nfi_controlled_usdc_ata = controlled_usdc_ata_bs58,
      nfi_amount_raw = amount_raw, nfi_threshold_bps = di_threshold_bps draft,
      nfi_save_display_apy_bps = fms_save_display_apy_bps snapshot,
      nfi_native_onchain_apr_bps = fms_native_onchain_apr_bps snapshot,
      nfi_created_at_ms = created_at_ms,
      nfi_expires_at_ms = saturating_add_i64 created_at_ms funding_window_ms\<rparr>"

text \<open>The response to the funding row as it stands in the database.\<close>

definition issue_instructions ::
    "finalize_world \<Rightarrow> finalize_intent_params \<Rightarrow> pubkey \<Rightarrow> pubkey \<Rightarrow> watch_rule \<Rightarrow> bool \<Rightarrow> bool \<Rightarrow>
     w5h_funding_intent \<Rightarrow> i64 \<Rightarrow> finalize_response" where
  "issue_instructions W params mint user_wallet rule rule_persisted reused current checked_at_ms =
     (let intent_id = hex_lower_text (wr_rule_id rule);
          rule_hash = hex_lower_text (canonical_rule_hash (fw_crypto W) rule);
          status = funding_status_as_str (fi_status current);
          wallet_matches = (fi_user_wallet current = fw_pubkey_to_string W user_wallet);
          elapsed = (sint (fi_expires_at_ms current) \<le> sint checked_at_ms) in
      if \<not> rule_persisted then
        FinalizeRuleUnconfirmed
          \<lparr>ur_draft_id = fip_draft_id params, ur_draft_hash = fip_draft_hash params, ur_intent_id = intent_id,
           ur_rule_hash = rule_hash, ur_persisted_funding_status = status, ur_reused_existing_intent = reused\<rparr>
      else if \<not> funding_row_matches_identity W mint current rule intent_id rule_hash then
        FinalizeExistingIntentConflict (fip_draft_id params) intent_id None
      else if reused \<and> \<not> wallet_matches then
        FinalizeExistingIntentConflict (fip_draft_id params) intent_id (Some status)
      else if fi_status current \<noteq> FundingRequired \<or> elapsed then
        FinalizeNotActionable
          \<lparr>na_status = status, na_draft_id = fip_draft_id params, na_intent_id = intent_id,
           na_rule_hash = rule_hash, na_reused_existing_intent = reused,
           na_created_at_ms = fi_created_at_ms current, na_expires_at_ms = fi_expires_at_ms current,
           na_deadline_elapsed = elapsed\<rparr>
      else
        (let funding =
           \<lparr>fin_user_wallet = fi_user_wallet current, fin_user_usdc_ata = fi_user_usdc_ata current,
            fin_controlled_wallet = fi_controlled_wallet current,
            fin_controlled_usdc_ata = fi_controlled_usdc_ata current, fin_mint = usdc_mint_bs58,
            fin_decimals = 6, fin_amount_raw = decimal (unat (fi_amount_raw current)),
            fin_memo = ''claw:w5h:'' @ intent_id @ '':'' @ rule_hash,
            fin_memo_program_id = memo_program_id_bs58,
            fin_funding_window_seconds = funding_window_seconds,
            fin_expires_at_ms = fi_expires_at_ms current\<rparr> in
         FinalizeHandoff
           \<lparr>ho_status = status, ho_draft_id = fip_draft_id params, ho_draft_hash = fip_draft_hash params,
            ho_intent_id = intent_id, ho_rule_hash = rule_hash, ho_rule_persisted = rule_persisted,
            ho_reused_existing_intent = reused, ho_created_at_ms = fi_created_at_ms current,
            ho_expires_at_ms = fi_expires_at_ms current, ho_funding = funding,
            ho_signing_page_url =
              build_signing_page_url (fw_json_to_text W) status intent_id rule_hash (funding_json funding),
            ho_request_wallet_matches_persisted = wallet_matches\<rparr>))"


text \<open>The hash index, for a rule that is known to be stored; its outcome only changes the sidecar.\<close>

definition index_rule ::
    "finalize_world \<Rightarrow> finalize_intent_params \<Rightarrow> watch_rule \<Rightarrow> bool \<Rightarrow> finalize_state \<Rightarrow> finalize_state" where
  "index_rule W params rule rule_persisted s =
     (if rule_persisted
      then s\<lparr>fz_sidecar := snd (index_hash (fw_index_storage W)
             (hex_lower_text (canonical_rule_hash (fw_crypto W) rule)) (hex_lower_text (wr_rule_id rule))
             (fip_draft_id params) (fip_draft_hash params) (fw_clock W 2) (fz_sidecar s))\<rparr>
      else s)"

text \<open>The funding row and the response; the clock has been read twice, and once more for the index.\<close>

definition finalize_funding ::
    "finalize_world \<Rightarrow> finalize_intent_params \<Rightarrow> draft_intent \<Rightarrow> pubkey \<Rightarrow> pubkey \<Rightarrow> watch_rule \<Rightarrow> bool \<Rightarrow> u64 \<Rightarrow>
     finalize_market_snapshot \<Rightarrow> finalize_state \<Rightarrow> (store_error + finalize_response) \<times> finalize_state" where
  "finalize_funding W params draft mint user_wallet rule rule_persisted amount_raw snapshot s =
     (let k = (if rule_persisted then 3 else 2);
          new_intent = new_intent_of draft (hex_lower_text (wr_rule_id rule))
            (hex_lower_text (canonical_rule_hash (fw_crypto W) rule))
            (fw_pubkey_to_string W user_wallet) (cs_ata_text (fw_sdk W) user_wallet mint)
            amount_raw snapshot (fw_clock W k) in
      case persist_funding_with_legacy_recovery W new_intent (fz_intents s) of
        (Inl e, intents) \<Rightarrow> (Inl e, s\<lparr>fz_intents := intents\<rparr>)
      | (Inr persistence, intents) \<Rightarrow>
          (Inr (issue_instructions W params mint user_wallet rule rule_persisted
                  (case persistence of PersistExisting _ \<Rightarrow> True | PersistInserted _ \<Rightarrow> False)
                  (into_row persistence) (fw_clock W (k + 1))),
           s\<lparr>fz_intents := intents\<rparr>))"

text \<open>After the market was read: the rule, the hash index, the funding row.\<close>

definition finalize_with_snapshot ::
    "finalize_world \<Rightarrow> finalize_intent_params \<Rightarrow> draft_intent \<Rightarrow> pubkey \<Rightarrow> pubkey \<Rightarrow>
     finalize_market_snapshot \<Rightarrow> finalize_state \<Rightarrow> (store_error + finalize_response) \<times> finalize_state" where
  "finalize_with_snapshot W params draft mint user_wallet snapshot s =
     (case build_watch_rule (fw_crypto W) draft (fms_last_checked_slot snapshot) of
        Inl reason \<Rightarrow> (Inr (FinalizeActionUnsupported reason True), s)
      | Inr fresh \<Rightarrow>
          (case persist_rule_with_legacy_recovery W fresh (fz_rules s) of ((rule, rule_persisted), rules) \<Rightarrow>
             (let s1 = s\<lparr>fz_rules := rules\<rparr> in
              case build_watch_rule (fw_crypto W) draft (wr_created_at_slot rule) of
                Inl _ \<Rightarrow> (Inr FinalizePanicked, s1)
              | Inr expected_rule \<Rightarrow>
                  (if rule_persisted \<and> rule \<noteq> expected_rule
                   then (Inr (FinalizeExistingRuleConflict (fip_draft_id params) False), s1)
                   else case canonical_solend_deposit_amount_raw rule of
                     None \<Rightarrow> (Inr (FinalizeExistingRuleConflict (fip_draft_id params) True), s1)
                   | Some canonical_amount_raw \<Rightarrow>
                       finalize_funding W params draft mint user_wallet rule rule_persisted
                         canonical_amount_raw snapshot (index_rule W params rule rule_persisted s1)))))"

definition finalize_intent ::
    "finalize_world \<Rightarrow> finalize_intent_params \<Rightarrow> finalize_state \<Rightarrow>
     (store_error + finalize_response) \<times> finalize_state" where
  "finalize_intent W params s =
     (case validate_and_hash_draft (fw_propose W) (fip_proposal params) of
        Inl e \<Rightarrow> (Inr (FinalizeInvalidInput (propose_error_text e)), s)
      | Inr (draft, recomputed_hash) \<Rightarrow>
          (if recomputed_hash \<noteq> fip_draft_hash params
           then (Inr (FinalizeHashMismatch (fip_draft_id params) recomputed_hash (fip_draft_hash params)), s)
           else if \<not> is_v4_uuid W (fip_draft_id params)
           then (Inr (FinalizeInvalidInput
                   ''draft_id must be a random UUID v4 returned by propose_intent''), s)
           else case validate_canonical_solend_deposit_draft draft of
             Inl reason \<Rightarrow> (Inr (FinalizeActionUnsupported reason False), s)
           | Inr _ \<Rightarrow>
               (case fw_market W of
                  None \<Rightarrow> (Inr FinalizeConfigMissing, s)
                | Some market \<Rightarrow>
                    (case cs_pubkey_from_str (fw_sdk W) (trim (fip_user_wallet params)) of
                       None \<Rightarrow> (Inr FinalizeInvalidUserWallet, s)
                     | Some user_wallet \<Rightarrow>
                         (case cs_pubkey_from_str (fw_sdk W) usdc_mint_bs58 of
                            None \<Rightarrow> (Inr FinalizePanicked, s)
                          | Some mint \<Rightarrow>
                              (case claim_draft (fw_claim_storage W) (fip_draft_id params) (fip_draft_hash params)
                                      (fw_clock W 0) (fz_sidecar s) of (outcome, h) \<Rightarrow>
                                 (let s1 = s\<lparr>fz_sidecar := h\<rparr> in
                                  case outcome of
                                    DraftAlreadyConsumed \<Rightarrow>
                                      (Inr (FinalizeAlreadyFinalized (fip_draft_id params)), s1)
                                  | DraftConflict \<Rightarrow> (Inr (FinalizeDraftIdConflict (fip_draft_id params)), s1)
                                  | ClaimUnavailable \<Rightarrow> (Inr FinalizeSidecarUnavailable, s1)
                                  | DraftClaimed \<Rightarrow>
                                      (case market of
                                         Inl e \<Rightarrow>
                                           (Inr (FinalizeMarketDataError (category e) (market_error_text e)), s1)
                                       | Inr snapshot \<Rightarrow>
                                           finalize_with_snapshot W params draft mint user_wallet snapshot s1))))))))"


section \<open>What a handoff rests on\<close>

lemma persist_funding_reads:
  assumes "persist_funding_with_legacy_recovery W n t = (Inr p, t')"
  shows "funding_get (nfi_intent_id n) t' = Inr (Some (into_row p))"
  using assms
  by (auto simp: persist_funding_with_legacy_recovery_def Let_def faulty_read_def
      split: prod.splits sum.splits option.splits if_splits)

lemma issue_handoff:
  assumes "issue_instructions W params mint user rule persisted reused row now = FinalizeHandoff r"
  shows "persisted"
    and "funding_row_matches_identity W mint row rule (hex_lower_text (wr_rule_id rule))
           (hex_lower_text (canonical_rule_hash (fw_crypto W) rule))"
    and "fi_status row = FundingRequired" and "sint now < sint (fi_expires_at_ms row)"
    and "ho_intent_id r = hex_lower_text (wr_rule_id rule)"
    and "ho_rule_hash r = hex_lower_text (canonical_rule_hash (fw_crypto W) rule)"
    and "ho_funding r =
           \<lparr>fin_user_wallet = fi_user_wallet row, fin_user_usdc_ata = fi_user_usdc_ata row,
            fin_controlled_wallet = fi_controlled_wallet row,
            fin_controlled_usdc_ata = fi_controlled_usdc_ata row, fin_mint = usdc_mint_bs58,
            fin_decimals = 6, fin_amount_raw = decimal (unat (fi_amount_raw row)),
            fin_memo = ''claw:w5h:'' @ ho_intent_id r @ '':'' @ ho_rule_hash r,
            fin_memo_program_id = memo_program_id_bs58,
            fin_funding_window_seconds = funding_window_seconds,
            fin_expires_at_ms = fi_expires_at_ms row\<rparr>"
  using assms by (auto simp: issue_instructions_def Let_def split: if_splits)

lemma new_intent_of_id: "nfi_intent_id (new_intent_of draft i h u a amount snapshot now) = i"
  by (simp add: new_intent_of_def)

lemma finalize_funding_handoff:
  assumes "finalize_funding W params draft mint user rule persisted amount snapshot s = (Inr (FinalizeHandoff r), s')"
  shows "\<exists>row reused now. funding_get (hex_lower_text (wr_rule_id rule)) (fz_intents s') = Inr (Some row)
    \<and> issue_instructions W params mint user rule persisted reused row now = FinalizeHandoff r"
proof -
  let ?k = "if persisted then 3 else 2 :: nat"
  let ?n = "new_intent_of draft (hex_lower_text (wr_rule_id rule))
      (hex_lower_text (canonical_rule_hash (fw_crypto W) rule)) (fw_pubkey_to_string W user)
      (cs_ata_text (fw_sdk W) user mint) amount snapshot (fw_clock W ?k)"
  obtain q intents where q: "persist_funding_with_legacy_recovery W ?n (fz_intents s) = (q, intents)"
    by (metis prod.exhaust)
  with assms obtain p where p: "q = Inr p" "fz_intents s' = intents"
      "issue_instructions W params mint user rule persisted
         (case p of PersistExisting _ \<Rightarrow> True | PersistInserted _ \<Rightarrow> False) (into_row p) (fw_clock W (?k + 1))
       = FinalizeHandoff r"
    by (cases q) (auto simp: finalize_funding_def Let_def)
  then show ?thesis using persist_funding_reads [OF q [unfolded p(1)]] unfolding new_intent_of_id by blast
qed

text \<open>The rule was just inserted into the table or read back from it.\<close>

definition rule_is_stored :: "finalize_world \<Rightarrow> draft_intent \<Rightarrow> watch_rule \<Rightarrow> watch_table \<Rightarrow> bool" where
  "rule_is_stored W draft rule rules \<longleftrightarrow>
     (\<exists>fresh slot before. build_watch_rule (fw_crypto W) draft slot = Inr fresh
        \<and> persist_rule_with_legacy_recovery W fresh before = ((rule, True), rules))"

lemma finalize_funding_rules:
  assumes "finalize_funding W params draft mint user rule persisted amount snapshot s = (q, s')"
  shows "fz_rules s' = fz_rules s" and "fz_sidecar s' = fz_sidecar s"
  using assms by (auto simp: finalize_funding_def Let_def split: prod.splits sum.splits)

lemma with_snapshot_handoff:
  assumes run: "finalize_with_snapshot W params draft mint user snapshot s = (Inr (FinalizeHandoff r), s')"
  obtains slot rule row reused now where
    "build_watch_rule (fw_crypto W) draft slot = Inr rule"
    "funding_get (hex_lower_text (wr_rule_id rule)) (fz_intents s') = Inr (Some row)"
    "issue_instructions W params mint user rule True reused row now = FinalizeHandoff r"
    "rule_is_stored W draft rule (fz_rules s')"
proof -
  obtain fresh where fresh: "build_watch_rule (fw_crypto W) draft (fms_last_checked_slot snapshot) = Inr fresh"
    using run by (cases "build_watch_rule (fw_crypto W) draft (fms_last_checked_slot snapshot)")
      (auto simp: finalize_with_snapshot_def)
  obtain rule persisted rules where
    rule: "persist_rule_with_legacy_recovery W fresh (fz_rules s) = ((rule, persisted), rules)"
    by (metis prod.exhaust)
  note run1 = run [unfolded finalize_with_snapshot_def, simplified fresh rule sum.case prod.case]
  obtain expected where expected: "build_watch_rule (fw_crypto W) draft (wr_created_at_slot rule) = Inr expected"
    using run1 by (cases "build_watch_rule (fw_crypto W) draft (wr_created_at_slot rule)") (auto simp: Let_def)
  note run2 = run1 [simplified expected sum.case Let_def]
  have same: "\<not> (persisted \<and> rule \<noteq> expected)" using run2 by (auto split: if_splits)
  obtain amount where amount: "canonical_solend_deposit_amount_raw rule = Some amount"
    using run2 same by (cases "canonical_solend_deposit_amount_raw rule") auto
  note run3 = run2 [simplified same amount if_False option.case]
  from finalize_funding_handoff [OF run3] obtain row reused now where
    row: "funding_get (hex_lower_text (wr_rule_id rule)) (fz_intents s') = Inr (Some row)"
    and issue: "issue_instructions W params mint user rule persisted reused row now = FinalizeHandoff r" by blast
  from issue_handoff(1) [OF issue] have persisted by simp
  with same have "rule = expected" by blast
  moreover have "fz_rules s' = rules"
    using finalize_funding_rules [OF run3] by (simp add: index_rule_def)
  moreover have "rule_is_stored W draft rule rules"
    using rule fresh \<open>persisted\<close> unfolding rule_is_stored_def by (intro exI conjI) auto
  ultimately show thesis using that issue \<open>persisted\<close> expected row by auto
qed


lemma finalize_handoff:
  assumes run: "finalize_intent W params s = (Inr (FinalizeHandoff r), s')"
  obtains draft mint user snapshot h slot rule row reused now where
    "validate_draft (fw_propose W) (fip_proposal params) = Inr draft"
    "compute_draft_hash (fw_propose W) (canonical_preimage draft) = fip_draft_hash params"
    "cs_pubkey_from_str (fw_sdk W) (trim (fip_user_wallet params)) = Some user"
    "cs_pubkey_from_str (fw_sdk W) usdc_mint_bs58 = Some mint"
    "claim_draft (fw_claim_storage W) (fip_draft_id params) (fip_draft_hash params) (fw_clock W 0) (fz_sidecar s)
       = (DraftClaimed, h)"
    "fw_market W = Some (Inr snapshot)"
    "build_watch_rule (fw_crypto W) draft slot = Inr rule"
    "funding_get (hex_lower_text (wr_rule_id rule)) (fz_intents s') = Inr (Some row)"
    "issue_instructions W params mint user rule True reused row now = FinalizeHandoff r"
    "rule_is_stored W draft rule (fz_rules s')"
proof -
  obtain draft where draft: "validate_draft (fw_propose W) (fip_proposal params) = Inr draft"
    using run by (cases "validate_draft (fw_propose W) (fip_proposal params)")
      (auto simp: finalize_intent_def validate_and_hash_draft_def)
  have hash: "compute_draft_hash (fw_propose W) (canonical_preimage draft) = fip_draft_hash params"
    and uuid: "is_v4_uuid W (fip_draft_id params)"
    using run by (auto simp: finalize_intent_def validate_and_hash_draft_def draft split: if_splits)
  note run1 = run [unfolded finalize_intent_def validate_and_hash_draft_def draft try_bind.simps sum.case prod.case
      hash, simplified uuid]
  have canonical: "validate_canonical_solend_deposit_draft draft = Inr ()"
    using run1 by (cases "validate_canonical_solend_deposit_draft draft") auto
  obtain market where market: "fw_market W = Some market"
    using run1 canonical by (cases "fw_market W") auto
  obtain user where user: "cs_pubkey_from_str (fw_sdk W) (trim (fip_user_wallet params)) = Some user"
    using run1 canonical market by (cases "cs_pubkey_from_str (fw_sdk W) (trim (fip_user_wallet params))") auto
  obtain mint where mint: "cs_pubkey_from_str (fw_sdk W) usdc_mint_bs58 = Some mint"
    using run1 canonical market user by (cases "cs_pubkey_from_str (fw_sdk W) usdc_mint_bs58") auto
  obtain outcome h where claim:
    "claim_draft (fw_claim_storage W) (fip_draft_id params) (fip_draft_hash params) (fw_clock W 0) (fz_sidecar s)
       = (outcome, h)" by (metis prod.exhaust)
  note run2 = run1 [simplified canonical market user mint claim sum.case option.case prod.case Let_def]
  have claimed: "outcome = DraftClaimed" using run2 by (cases outcome) auto
  obtain snapshot where snapshot: "market = Inr snapshot"
    using run2 claimed by (cases market) auto
  from run2 have "finalize_with_snapshot W params draft mint user snapshot (s\<lparr>fz_sidecar := h\<rparr>)
      = (Inr (FinalizeHandoff r), s')"
    by (simp add: claimed snapshot)
  then obtain slot rule row reused now where
    "build_watch_rule (fw_crypto W) draft slot = Inr rule"
    "funding_get (hex_lower_text (wr_rule_id rule)) (fz_intents s') = Inr (Some row)"
    "issue_instructions W params mint user rule True reused row now = FinalizeHandoff r"
    "rule_is_stored W draft rule (fz_rules s')"
    by (rule with_snapshot_handoff)
  then show thesis using that draft hash user mint claim claimed market snapshot by blast
qed

text \<open>The rule of a validated draft has the envelope and the condition that the executor supports.\<close>

lemma built_rule_supported:
  assumes "build_watch_rule C draft slot = Inr rule"
  obtains d c where "envelope_ok C rule d" "sd_input_amount_raw d = wr_max_input_amount_raw rule"
    "wr_max_input_amount_raw rule = di_amount_raw draft"
    "wr_delegated_wallet rule = pinned_pubkey C controlled_wallet_bs58"
    "wr_conditions rule = [SolendReserveSupplyRate c]" "sr_threshold_bps c = di_threshold_bps draft"
    "\<forall>snap. fs_threshold_bps snap = di_threshold_bps draft \<and> 1 \<le> unat (di_threshold_bps draft)
       \<and> unat (di_threshold_bps draft) \<le> 10000 \<longrightarrow> condition_ok snap rule d c"
    "wr_rule_id rule = derive_rule_id (di_threshold_bps draft) (di_amount_raw draft)
       (pinned_pubkey C controlled_wallet_bs58)"
    "wr_expires_at_slot rule = saturating_add slot watch_rule_expiry_slots"
    "wr_created_at_slot rule = slot"
proof -
  have "solend_program_id_bs58 = ''So1endDq2YkqhipRh3WViPa8hdiSpxWy6z3Z6tMCpAo''"
    "usdc_mint_bs58 = ''EPjFWdd5AufqSSqeM2qN1xzybapC8G4wEGGkZwyTDt1v''"
    by (simp_all only: solend_program_id_bs58_def usdc_mint_bs58_def)
  then have pins: "pinned_pubkey C solend_program_id_bs58 = audited_solend_program C"
      "pinned_pubkey C usdc_mint_bs58 = usdc_mint C"
    by (simp_all only: audited_solend_program_def usdc_mint_def)
  let ?d = "\<lparr>sd_target_obligation = pinned_pubkey C solend_target_obligation_bs58,
      sd_reserve_pubkey = pinned_pubkey C solend_reserve_bs58,
      sd_lending_market = pinned_pubkey C solend_lending_market_bs58,
      sd_solend_program_id = pinned_pubkey C solend_program_id_bs58,
      sd_input_mint = pinned_pubkey C usdc_mint_bs58, sd_input_amount_raw = di_amount_raw draft\<rparr>"
  let ?c = "\<lparr>sr_reserve_pubkey = pinned_pubkey C solend_reserve_bs58,
      sr_lending_market = pinned_pubkey C solend_lending_market_bs58,
      sr_solend_program_id = pinned_pubkey C solend_program_id_bs58, sr_comparison = CmpGt,
      sr_threshold_bps = di_threshold_bps draft, sr_rate_kind = RateApr, sr_formula_version = 1,
      sr_max_reserve_staleness_slots = 16, sr_required_refresh_same_tx = True\<rparr>"
  show thesis
    using assms
    by (intro that [of ?d ?c])
      (auto simp: build_watch_rule_def Let_def envelope_ok_def condition_ok_def pins
        stage2_watch_rule_schema_v2_def)
qed


lemma built_rule_id:
  assumes "build_watch_rule C draft slot = Inr rule"
  shows "wr_rule_id rule = derive_rule_id (di_threshold_bps draft) (di_amount_raw draft)
     (pinned_pubkey C controlled_wallet_bs58)"
  using assms by (rule built_rule_supported) blast

text \<open>The JSON codec reads back the rules it writes, and the rule hash has 32 bytes.\<close>

definition rule_codec :: "crypto \<Rightarrow> store_env \<Rightarrow> bool" where
  "rule_codec C E \<longleftrightarrow>
     (\<forall>rule j. se_rule_to_json E rule = Inr j \<longrightarrow> se_rule_from_json E j = Inr rule)
   \<and> (\<forall>rule. length (canonical_rule_hash C rule) = 32)"

lemma watch_insert_stored:
  assumes "watch_insert C E now rule t = Inr t'" and "rule_codec C E"
  shows "watch_get C E (wr_rule_id rule) t' = Inr (Some (fresh_rule C now rule))"
proof -
  obtain j where j: "se_rule_to_json E rule = Inr j"
      "sql_insert rw_rule_id (new_watch_row C E now rule j) t = Some t'"
    using assms(1) by (auto simp: watch_insert_def split: sum.splits option.splits)
  have "rw_rule_id (new_watch_row C E now rule j) = rule_id_hex (wr_rule_id rule)"
    by (simp add: new_watch_row_def)
  with sql_insert_get [OF j(2)] have "sql_get rw_rule_id (rule_id_hex (wr_rule_id rule)) t'
      = Some (new_watch_row C E now rule j)" by simp
  moreover have "watch_row_to_stored C E (new_watch_row C E now rule j) = Inr (fresh_rule C now rule)"
    using assms(2) j(1) by (intro new_watch_row_stored) (auto simp: rule_codec_def)
  ultimately show ?thesis by (simp add: watch_get_def)
qed

lemma watch_get_id:
  assumes "watch_get C E rid t = Inr (Some stored)"
  shows "wr_rule_id (swr_rule stored) = rid"
proof -
  obtain row where row: "sql_get rw_rule_id (rule_id_hex rid) t = Some row" "watch_row_to_stored C E row = Inr stored"
    using assms by (auto simp: watch_get_def split: option.splits)
  from sql_get_Some_in [OF row(1)] have "rw_rule_id row = hex_encode rid" by (simp add: rule_id_hex_def)
  with watch_row_to_stored_integrity(2) [OF row(2)] show ?thesis
    by (simp add: ascii_lower_hex hex_encode_inject)
qed

lemma stored_rule_is_read:
  assumes "rule_is_stored W draft rule rules" and "rule_codec (fw_crypto W) (fw_store W)"
    and "build_watch_rule (fw_crypto W) draft slot = Inr rule"
  shows "\<exists>stored. watch_get (fw_crypto W) (fw_store W) (wr_rule_id rule) rules = Inr (Some stored)
    \<and> swr_rule stored = rule"
proof -
  let ?C = "fw_crypto W" and ?E = "fw_store W"
  obtain fresh slot' before where fresh: "build_watch_rule ?C draft slot' = Inr fresh"
      and run: "persist_rule_with_legacy_recovery W fresh before = ((rule, True), rules)"
    using assms(1) by (auto simp: rule_is_stored_def)
  have id: "wr_rule_id fresh = wr_rule_id rule"
    using built_rule_id [OF fresh] built_rule_id [OF assms(3)] by simp
  let ?t0 = "fw_other_rules W 0 before"
  consider "watch_insert ?C ?E (fw_row_clock W 0) fresh ?t0 = Inr rules" "rule = fresh"
    | stored where "watch_get ?C ?E (wr_rule_id fresh) rules = Inr (Some stored)" "rule = swr_rule stored"
    using run
    by (auto simp: persist_rule_with_legacy_recovery_def Let_def faulty_insert_def faulty_read_def
        split: db_fault.splits sum.splits option.splits if_splits prod.splits)
  then show ?thesis
  proof cases
    case 1
    from watch_insert_stored [OF this(1) assms(2)] 1(2) show ?thesis by (auto simp: fresh_rule_def)
  next
    case (2 stored)
    then show ?thesis using id by auto
  qed
qed


section \<open>Finalised intents are executable and payable\<close>

lemma hex_lower_text_encode [simp]: "hex_lower_text bs = hex_encode bs"
  by (simp add: hex_lower_text_def hex_encode_def)

lemma ascii_lower_id: "lower_hex_char c \<Longrightarrow> ascii_lower c = c"
  by (auto simp: lower_hex_char_def ascii_lower_def Let_def)

lemma lower_hex_map_id: "list_all lower_hex_char s \<Longrightarrow> map ascii_lower s = s"
  by (induction s) (simp_all add: ascii_lower_id)

text \<open>What a matching row says, when its hash is written in lower case.\<close>

lemma matching_row:
  assumes "funding_row_matches_identity W mint row rule (hex_encode rid) (hex_encode h)"
  shows "fi_intent_id row = hex_encode rid" and "fi_rule_id_hex row = hex_encode rid"
    and "fi_controlled_wallet row = controlled_wallet_bs58"
    and "fi_controlled_usdc_ata row = controlled_usdc_ata_bs58"
    and "has_exact_solend_deposit_amount_invariant rule (fi_amount_raw row)"
    and "rule_threshold rule = Some (fi_threshold_bps row)"
    and "\<exists>user. cs_pubkey_from_str (fw_sdk W) (fi_user_wallet row) = Some user
           \<and> cs_ata_text (fw_sdk W) user mint = fi_user_usdc_ata row"
    and "list_all lower_hex_char (fi_canonical_rule_hash_hex row) \<Longrightarrow>
           fi_canonical_rule_hash_hex row = hex_encode h"
proof -
  note m = assms [unfolded funding_row_matches_identity_def]
  show "fi_intent_id row = hex_encode rid" "fi_rule_id_hex row = hex_encode rid"
      "fi_controlled_wallet row = controlled_wallet_bs58" "fi_controlled_usdc_ata row = controlled_usdc_ata_bs58"
      "has_exact_solend_deposit_amount_invariant rule (fi_amount_raw row)"
    using m by (simp_all split: if_splits)
  show "rule_threshold rule = Some (fi_threshold_bps row)"
    and "\<exists>user. cs_pubkey_from_str (fw_sdk W) (fi_user_wallet row) = Some user
           \<and> cs_ata_text (fw_sdk W) user mint = fi_user_usdc_ata row"
    using m by (auto split: if_splits option.splits)
  have "map ascii_lower (fi_canonical_rule_hash_hex row) = hex_encode h"
    using m by (simp add: ascii_lower_hex split: if_splits)
  then show "list_all lower_hex_char (fi_canonical_rule_hash_hex row) \<Longrightarrow>
      fi_canonical_rule_hash_hex row = hex_encode h"
    by (simp add: lower_hex_map_id)
qed

definition row_read :: "handoff \<Rightarrow> finalize_state \<Rightarrow> w5h_funding_intent \<Rightarrow> bool" where
  "row_read r s row \<longleftrightarrow>
     funding_get (ho_intent_id r) (fz_intents s) = Inr (Some row) \<and> fi_status row = FundingRequired"

lemma handoff_executable:
  assumes run: "finalize_intent W params s = (Inr (FinalizeHandoff r), s')"
    and hex: "hex_lower (fw_crypto W) = hex_encode"
    and pin: "pubkey_from_base58 dec controlled_wallet_bs58 = Inr (pinned_pubkey (fw_crypto W) controlled_wallet_bs58)"
    and codec: "rule_codec (fw_crypto W) (fw_store W)"
  shows "\<exists>row stored. row_read r s' row
    \<and> watch_get (fw_crypto W) (fw_store W) (wr_rule_id (swr_rule stored)) (fz_rules s') = Inr (Some stored)
    \<and> ho_intent_id r = hex_encode (wr_rule_id (swr_rule stored))
    \<and> (list_all lower_hex_char (fi_canonical_rule_hash_hex row) \<longrightarrow>
        (\<forall>snap now slot. funding_snapshot_of dec row = Inr snap
           \<longrightarrow> before_deadlines snap (swr_rule stored) now slot
           \<longrightarrow> (\<exists>p. preflight_candidate (fw_crypto W)
                  \<lparr>cin_funding = Some snap, cin_rule = Some (swr_rule stored)\<rparr>
                  \<lparr>pk_now_ms = now, pk_current_confirmed_slot = Some slot\<rparr> = NeedsChain p)))"
proof -
  let ?C = "fw_crypto W"
  from run obtain draft mint user snapshot h slot rule row reused now where
    draft: "validate_draft (fw_propose W) (fip_proposal params) = Inr draft"
    and build: "build_watch_rule ?C draft slot = Inr rule"
    and get: "funding_get (hex_lower_text (wr_rule_id rule)) (fz_intents s') = Inr (Some row)"
    and issue: "issue_instructions W params mint user rule True reused row now = FinalizeHandoff r"
    and stored: "rule_is_stored W draft rule (fz_rules s')" by (rule finalize_handoff)
  note issued = issue_handoff [OF issue, unfolded hex_lower_text_encode]
  note row = matching_row [OF issued(2)]
  from stored_rule_is_read [OF stored codec build] obtain st where
    st: "watch_get ?C (fw_store W) (wr_rule_id rule) (fz_rules s') = Inr (Some st)" "swr_rule st = rule" by blast
  from build obtain d c where env: "envelope_ok ?C rule d" "sd_input_amount_raw d = wr_max_input_amount_raw rule"
      "wr_max_input_amount_raw rule = di_amount_raw draft"
      "wr_delegated_wallet rule = pinned_pubkey ?C controlled_wallet_bs58"
      "wr_conditions rule = [SolendReserveSupplyRate c]" "sr_threshold_bps c = di_threshold_bps draft"
      "\<forall>snap. fs_threshold_bps snap = di_threshold_bps draft \<and> 1 \<le> unat (di_threshold_bps draft)
         \<and> unat (di_threshold_bps draft) \<le> 10000 \<longrightarrow> condition_ok snap rule d c"
    by (rule built_rule_supported) blast
  from draft obtain raw where raw: "100000 \<le> unat raw" "within_policy (fw_propose W) (fip_proposal params)"
      "draft = draft_of (fw_propose W) (fip_proposal params) raw"
    by (auto simp: validate_draft_amount)
  then have band: "100000 \<le> unat (di_amount_raw draft)" "1 \<le> unat (di_threshold_bps draft)"
      "unat (di_threshold_bps draft) \<le> 10000"
    by (simp_all add: draft_of_def within_policy_def)
  have amount: "fi_amount_raw row = wr_max_input_amount_raw rule"
    using row(5) by (auto simp: has_exact_solend_deposit_amount_invariant_def
        canonical_solend_deposit_amount_raw_def env split: action_spec.splits if_splits)
  have threshold: "fi_threshold_bps row = di_threshold_bps draft"
    using row(6) env(5,6) by (simp add: rule_threshold_def)
  have admitted: "\<exists>p. preflight_candidate ?C \<lparr>cin_funding = Some snap, cin_rule = Some rule\<rparr>
      \<lparr>pk_now_ms = now, pk_current_confirmed_slot = Some slot\<rparr> = NeedsChain p"
    if lower: "list_all lower_hex_char (fi_canonical_rule_hash_hex row)"
      and snap: "funding_snapshot_of dec row = Inr snap" and due: "before_deadlines snap rule now slot"
    for snap now slot
  proof -
    from snap have f: "fs_intent_id snap = fi_intent_id row" "fs_rule_id_hex snap = fi_rule_id_hex row"
        "fs_canonical_rule_hash_hex snap = fi_canonical_rule_hash_hex row"
        "fs_controlled_wallet snap = pinned_pubkey ?C controlled_wallet_bs58"
        "fs_amount_raw snap = fi_amount_raw row" "fs_threshold_bps snap = fi_threshold_bps row"
      by (auto simp: funding_snapshot_of_def row(3) pin)
    have "funded_by ?C snap rule d"
      using band(1) by (auto simp: funded_by_def f row(1,2) row(8) [OF lower] hex env amount)
    moreover have "condition_ok snap rule d c"
      using env(7) band(2,3) by (simp add: f threshold)
    ultimately show ?thesis
      unfolding preflight_gate_exact using env(1) due by simp blast
  qed
  show ?thesis
    using get issued(3,5) st admitted unfolding row_read_def hex_lower_text_encode
    by (intro exI [of _ row] exI [of _ st]) auto
qed


section \<open>An undisturbed finalisation\<close>

definition fresh_intent :: "i64 \<Rightarrow> new_w5h_funding_intent \<Rightarrow> w5h_funding_intent" where
  "fresh_intent now n =
     \<lparr>fi_intent_id = nfi_intent_id n, fi_rule_id_hex = nfi_rule_id_hex n,
      fi_canonical_rule_hash_hex = nfi_canonical_rule_hash_hex n,
      fi_user_wallet = nfi_user_wallet n, fi_user_usdc_ata = nfi_user_usdc_ata n,
      fi_controlled_wallet = nfi_controlled_wallet n,
      fi_controlled_usdc_ata = nfi_controlled_usdc_ata n,
      fi_amount_raw = nfi_amount_raw n, fi_threshold_bps = nfi_threshold_bps n,
      fi_save_display_apy_bps = nfi_save_display_apy_bps n,
      fi_native_onchain_apr_bps = nfi_native_onchain_apr_bps n,
      fi_created_at_ms = nfi_created_at_ms n, fi_expires_at_ms = nfi_expires_at_ms n,
      fi_status = FundingRequired, fi_funding_signature = None,
      fi_funding_finalized_slot = None, fi_execution_signature = None,
      fi_refund_signature = None, fi_last_error = None, fi_updated_at_ms = now\<rparr>"

lemma fresh_intent_read:
  assumes "funding_insert now n t = Inr t'" and "unat (nfi_amount_raw n) < 2 ^ 63"
  shows "funding_get (nfi_intent_id n) t' = Inr (Some (fresh_intent now n))"
proof -
  have [simp]: "ucast (ucast (w :: u32) :: i64) = w" for w
    by (rule bit_word_eqI) (auto simp: bit_unsigned_iff)
  have "0 \<le> sint (nfi_amount_raw n)" using assms(2) by (simp only: sint_nonneg_iff)
  then show ?thesis
    using funding_insert_get_row [OF assms(1)]
    by (simp add: funding_get_def row_to_intent_def new_funding_row_def funding_status_literals
        ok_or_def fresh_intent_def)
qed

definition calm :: "finalize_world \<Rightarrow> bool" where
  "calm W \<longleftrightarrow> (\<forall>k. fw_fault W k = NoFault \<and> fw_other_rules W k = id \<and> fw_other_intents W k = id)"

definition draft_ready ::
    "finalize_world \<Rightarrow> finalize_intent_params \<Rightarrow> draft_intent \<Rightarrow> pubkey \<Rightarrow> pubkey \<Rightarrow> finalize_market_snapshot \<Rightarrow> bool" where
  "draft_ready W params draft user mint snapshot \<longleftrightarrow>
     validate_draft (fw_propose W) (fip_proposal params) = Inr draft
   \<and> compute_draft_hash (fw_propose W) (canonical_preimage draft) = fip_draft_hash params
   \<and> is_v4_uuid W (fip_draft_id params) \<and> fw_market W = Some (Inr snapshot)
   \<and> cs_pubkey_from_str (fw_sdk W) (trim (fip_user_wallet params)) = Some user
   \<and> cs_pubkey_from_str (fw_sdk W) (fw_pubkey_to_string W user) = Some user
   \<and> cs_pubkey_from_str (fw_sdk W) usdc_mint_bs58 = Some mint"

lemma validated_draft_canonical:
  "validate_draft E params = Inr draft \<Longrightarrow> validate_canonical_solend_deposit_draft draft = Inr ()"
  by (auto simp: validate_draft_amount draft_of_def validate_canonical_solend_deposit_draft_def)

lemma built_rule_amount:
  assumes "build_watch_rule C draft slot = Inr rule"
  shows "canonical_solend_deposit_amount_raw rule = Some (di_amount_raw draft)"
proof -
  from assms obtain d c where "envelope_ok C rule d" "sd_input_amount_raw d = wr_max_input_amount_raw rule"
      "wr_max_input_amount_raw rule = di_amount_raw draft"
    by (rule built_rule_supported) blast
  then show ?thesis by (simp add: canonical_solend_deposit_amount_raw_def envelope_ok_def)
qed

text \<open>Instructions for the draft's amount between the accounts of the user and the controlled wallet.\<close>

definition pays_draft ::
    "finalize_world \<Rightarrow> draft_intent \<Rightarrow> pubkey \<Rightarrow> pubkey \<Rightarrow> funding_instructions \<Rightarrow> bool" where
  "pays_draft W draft user mint f \<longleftrightarrow>
     fin_user_usdc_ata f = cs_ata_text (fw_sdk W) user mint \<and> fin_controlled_usdc_ata f = controlled_usdc_ata_bs58
   \<and> fin_mint f = usdc_mint_bs58 \<and> fin_decimals f = usdc_decimals
   \<and> fin_amount_raw f = decimal (unat (di_amount_raw draft))"

text \<open>A response to the row that was just written for a rule of the draft.\<close>

lemma fresh_row_instructions:
  assumes build: "build_watch_rule (fw_crypto W) draft slot = Inr rule"
    and wallet: "cs_pubkey_from_str (fw_sdk W) (fw_pubkey_to_string W user) = Some user"
    and n: "n = new_intent_of draft (hex_lower_text (wr_rule_id rule))
      (hex_lower_text (canonical_rule_hash (fw_crypto W) rule)) (fw_pubkey_to_string W user)
      (cs_ata_text (fw_sdk W) user mint) (di_amount_raw draft) snapshot created"
    and due: "sint now < sint (nfi_expires_at_ms n)"
  shows "\<exists>r. issue_instructions W params mint user rule True False (fresh_intent t n) now = FinalizeHandoff r
    \<and> ho_intent_id r = hex_lower_text (wr_rule_id rule) \<and> pays_draft W draft user mint (ho_funding r)"
proof -
  from build obtain d c where env: "envelope_ok (fw_crypto W) rule d"
      "sd_input_amount_raw d = wr_max_input_amount_raw rule"
      "wr_max_input_amount_raw rule = di_amount_raw draft"
      "wr_conditions rule = [SolendReserveSupplyRate c]" "sr_threshold_bps c = di_threshold_bps draft"
    by (rule built_rule_supported) blast
  have "has_exact_solend_deposit_amount_invariant rule (di_amount_raw draft)"
    by (simp add: has_exact_solend_deposit_amount_invariant_def built_rule_amount [OF build])
  moreover have "rule_threshold rule = Some (di_threshold_bps draft)"
    using env by (simp add: rule_threshold_def)
  ultimately have "funding_row_matches_identity W mint (fresh_intent t n) rule (hex_lower_text (wr_rule_id rule))
      (hex_lower_text (canonical_rule_hash (fw_crypto W) rule))"
    using wallet by (simp add: funding_row_matches_identity_def fresh_intent_def n new_intent_of_def)
  moreover have "fi_status (fresh_intent t n) = FundingRequired" "fi_expires_at_ms (fresh_intent t n) = nfi_expires_at_ms n"
    by (simp_all add: fresh_intent_def)
  moreover have "fi_user_usdc_ata (fresh_intent t n) = cs_ata_text (fw_sdk W) user mint"
      "fi_controlled_usdc_ata (fresh_intent t n) = controlled_usdc_ata_bs58"
      "fi_amount_raw (fresh_intent t n) = di_amount_raw draft"
    by (simp_all add: fresh_intent_def n new_intent_of_def)
  ultimately show ?thesis
    using due by (simp add: issue_instructions_def Let_def pays_draft_def usdc_decimals_def)
qed

lemma calm_handoff:
  assumes ready: "draft_ready W params draft user mint snapshot" and calm: "calm W"
    and claim: "claim_draft (fw_claim_storage W) (fip_draft_id params) (fip_draft_hash params) (fw_clock W 0)
        (fz_sidecar s) = (DraftClaimed, h)"
    and fresh: "build_watch_rule (fw_crypto W) draft (fms_last_checked_slot snapshot) = Inr fresh"
    and persist: "persist_rule_with_legacy_recovery W fresh (fz_rules s) = ((rule, True), rules)"
    and build: "build_watch_rule (fw_crypto W) draft (wr_created_at_slot rule) = Inr rule"
    and free: "hex_encode (wr_rule_id rule) \<notin> fr_intent_id ` set (fz_intents s)"
    and due: "sint (fw_clock W 4) < sint (saturating_add_i64 (fw_clock W 3) funding_window_ms)"
  shows "\<exists>r s'. finalize_intent W params s = (Inr (FinalizeHandoff r), s')
    \<and> ho_intent_id r = hex_encode (wr_rule_id rule) \<and> fz_rules s' = rules
    \<and> pays_draft W draft user mint (ho_funding r)"
proof -
  let ?n = "new_intent_of draft (hex_lower_text (wr_rule_id rule))
      (hex_lower_text (canonical_rule_hash (fw_crypto W) rule)) (fw_pubkey_to_string W user)
      (cs_ata_text (fw_sdk W) user mint) (di_amount_raw draft) snapshot (fw_clock W 3)"
  from ready have facts: "validate_draft (fw_propose W) (fip_proposal params) = Inr draft"
      "compute_draft_hash (fw_propose W) (canonical_preimage draft) = fip_draft_hash params"
      "is_v4_uuid W (fip_draft_id params)" "fw_market W = Some (Inr snapshot)"
      "cs_pubkey_from_str (fw_sdk W) (trim (fip_user_wallet params)) = Some user"
      "cs_pubkey_from_str (fw_sdk W) (fw_pubkey_to_string W user) = Some user"
      "cs_pubkey_from_str (fw_sdk W) usdc_mint_bs58 = Some mint"
    by (auto simp: draft_ready_def)
  note canonical = validated_draft_canonical [OF facts(1)]
  have amount: "canonical_solend_deposit_amount_raw rule = Some (di_amount_raw draft)"
    by (rule built_rule_amount [OF build])
  have small: "unat (di_amount_raw draft) < 2 ^ 63"
    using facts(1) by (auto simp: validate_draft_amount draft_of_def)
  define s1 where "s1 = index_rule W params rule True (s\<lparr>fz_sidecar := h, fz_rules := rules\<rparr>)"
  have s1: "fz_intents s1 = fz_intents s" "fz_rules s1 = rules" by (simp_all add: s1_def index_rule_def)
  obtain t where t: "funding_insert (fw_row_clock W 2) ?n (fz_intents s) = Inr t"
    using free by (simp add: funding_insert_def sql_insert_def new_intent_of_def new_funding_row_def)
  have read: "funding_get (nfi_intent_id ?n) t = Inr (Some (fresh_intent (fw_row_clock W 2) ?n))"
    by (rule fresh_intent_read [OF t]) (use small in \<open>simp add: new_intent_of_def\<close>)
  have row: "persist_funding_with_legacy_recovery W ?n (fz_intents s1)
      = (Inr (PersistInserted (fresh_intent (fw_row_clock W 2) ?n)), t)"
    using calm read t
    by (simp add: persist_funding_with_legacy_recovery_def s1 calm_def faulty_insert_def faulty_read_def)
  have "nfi_expires_at_ms ?n = saturating_add_i64 (fw_clock W 3) funding_window_ms"
    by (simp add: new_intent_of_def)
  with due have "sint (fw_clock W 4) < sint (nfi_expires_at_ms ?n)" by simp
  from fresh_row_instructions [OF build facts(6) refl this] obtain r where
    r: "issue_instructions W params mint user rule True False (fresh_intent (fw_row_clock W 2) ?n) (fw_clock W 4)
        = FinalizeHandoff r" "ho_intent_id r = hex_lower_text (wr_rule_id rule)"
      "pays_draft W draft user mint (ho_funding r)" by blast
  have "finalize_funding W params draft mint user rule True (di_amount_raw draft) snapshot s1
      = (Inr (FinalizeHandoff r), s1\<lparr>fz_intents := t\<rparr>)"
    using row r(1) by (simp add: finalize_funding_def)
  then have "finalize_with_snapshot W params draft mint user snapshot (s\<lparr>fz_sidecar := h\<rparr>)
      = (Inr (FinalizeHandoff r), s1\<lparr>fz_intents := t\<rparr>)"
    using fresh persist build amount by (simp add: finalize_with_snapshot_def s1_def)
  then have "finalize_intent W params s = (Inr (FinalizeHandoff r), s1\<lparr>fz_intents := t\<rparr>)"
    using facts canonical claim by (simp add: finalize_intent_def validate_and_hash_draft_def)
  with r(2,3) s1 show ?thesis by simp
qed


section \<open>The properties\<close>

text \<open>C7: What finalising hands off, the executor admits: when funding instructions are issued, the
  database holds the funding row, waiting for its payment, and the rule under the announced id, and for
  as long as both deadlines lie ahead the executor's first gate lets exactly this pair through to the
  chain. The row's hash is written in lower case, as this program writes it; the rule codec reads back
  what it wrote, \<open>hex::encode\<close> is lowercase hexadecimal and the pinned wallet decodes to its key.\<close>

theorem handed_off_intents_are_admitted:
  assumes "finalize_intent W params s = (Inr (FinalizeHandoff r), s')"
    and "hex_lower (fw_crypto W) = hex_encode"
    and "pubkey_from_base58 dec controlled_wallet_bs58 = Inr (pinned_pubkey (fw_crypto W) controlled_wallet_bs58)"
    and "rule_codec (fw_crypto W) (fw_store W)"
  shows "\<exists>row stored. row_read r s' row
    \<and> watch_get (fw_crypto W) (fw_store W) (wr_rule_id (swr_rule stored)) (fz_rules s') = Inr (Some stored)
    \<and> ho_intent_id r = hex_encode (wr_rule_id (swr_rule stored))
    \<and> (list_all lower_hex_char (fi_canonical_rule_hash_hex row) \<longrightarrow>
        (\<forall>snap now slot. funding_snapshot_of dec row = Inr snap
           \<longrightarrow> before_deadlines snap (swr_rule stored) now slot
           \<longrightarrow> (\<exists>p. preflight_candidate (fw_crypto W)
                  \<lparr>cin_funding = Some snap, cin_rule = Some (swr_rule stored)\<rparr>
                  \<lparr>pk_now_ms = now, pk_current_confirmed_slot = Some slot\<rparr> = NeedsChain p)))"
  using assms by (rule handoff_executable)

text \<open>A transaction that does what the instructions say.\<close>

definition follows_instructions ::
    "funding_instructions \<Rightarrow> observed_funding_transaction \<Rightarrow> bool" where
  "follows_instructions f tx \<longleftrightarrow>
     oft_succeeded tx \<and> fin_memo f \<in> set (oft_memos tx) \<and> fin_user_wallet f \<in> set (oft_signer_pubkeys tx)
   \<and> (\<exists>transfer \<in> set (oft_transfer_checked tx).
        otc_source transfer = fin_user_usdc_ata f \<and> otc_destination transfer = fin_controlled_usdc_ata f
      \<and> otc_mint transfer = fin_mint f \<and> otc_authority transfer = fin_user_wallet f
      \<and> decimal (unat (otc_amount_raw transfer)) = fin_amount_raw f \<and> otc_decimals transfer = fin_decimals f
      \<and> (\<exists>pre post. find_balance (oft_pre_token_balances tx) (fin_user_usdc_ata f) = Some pre
           \<and> find_balance (oft_post_token_balances tx) (fin_user_usdc_ata f) = Some post
           \<and> usdc_account pre (fin_user_wallet f) \<and> usdc_account post (fin_user_wallet f)
           \<and> unat (otb_amount_raw pre) = unat (otb_amount_raw post) + unat (otc_amount_raw transfer))
      \<and> (\<exists>pre post. find_balance (oft_pre_token_balances tx) (fin_controlled_usdc_ata f) = Some pre
           \<and> find_balance (oft_post_token_balances tx) (fin_controlled_usdc_ata f) = Some post
           \<and> usdc_account pre (fin_controlled_wallet f) \<and> usdc_account post (fin_controlled_wallet f)
           \<and> unat (otb_amount_raw post) = unat (otb_amount_raw pre) + unat (otc_amount_raw transfer)))"

lemma decimal_unat_inj: "decimal (unat a) = decimal (unat b) \<longleftrightarrow> a = b" for a b :: u64
  by (metis parse_u64_decimal option.inject)

text \<open>The instructions are those the verifier checks: a successful transaction that carries the
  issued memo, is signed by the named wallet, and moves the written amount of the named mint between
  the two named accounts is accepted for the funding row that the instructions were issued for. The
  pinned token account is the controlled wallet's.\<close>

theorem followed_instructions_are_accepted:
  assumes run: "finalize_intent W params s = (Inr (FinalizeHandoff r), s')"
    and paid: "follows_instructions (ho_funding r) tx"
    and mint: "cs_pubkey_from_str (fw_sdk W) usdc_mint_bs58 = Some mint"
    and controlled: "cs_pubkey_from_str (fw_sdk W) controlled_wallet_bs58 = Some cw"
      "cs_ata_text (fw_sdk W) cw mint = controlled_usdc_ata_bs58"
  shows "\<exists>row. row_read r s' row
    \<and> (list_all lower_hex_char (fi_canonical_rule_hash_hex row) \<longrightarrow>
         verify_funding_transaction (fw_sdk W) tx row = Inr ())"
proof -
  from run obtain draft mint' user snapshot h slot rule row reused now where
    "cs_pubkey_from_str (fw_sdk W) usdc_mint_bs58 = Some mint'"
    and get: "funding_get (hex_lower_text (wr_rule_id rule)) (fz_intents s') = Inr (Some row)"
    and issue: "issue_instructions W params mint' user rule True reused row now = FinalizeHandoff r"
    by (rule finalize_handoff)
  with mint have issue: "issue_instructions W params mint user rule True reused row now = FinalizeHandoff r" by simp
  note issued = issue_handoff [OF issue, unfolded hex_lower_text_encode]
  note row = matching_row [OF issued(2)]
  have "payment_proved (fw_sdk W) tx row" if lower: "list_all lower_hex_char (fi_canonical_rule_hash_hex row)"
  proof -
    have memo: "expected_memo row = fin_memo (ho_funding r)"
      by (simp add: expected_memo_def issued(5-7) row(1) row(8) [OF lower])
    have atas: "canonical_atas (fw_sdk W) row"
      using row(7) mint controlled by (auto simp: canonical_atas_def row(3,4))
    have f: "fin_user_wallet (ho_funding r) = fi_user_wallet row"
        "fin_user_usdc_ata (ho_funding r) = fi_user_usdc_ata row"
        "fin_controlled_wallet (ho_funding r) = fi_controlled_wallet row"
        "fin_controlled_usdc_ata (ho_funding r) = fi_controlled_usdc_ata row"
        "fin_mint (ho_funding r) = usdc_mint_bs58" "fin_decimals (ho_funding r) = usdc_decimals"
        "fin_amount_raw (ho_funding r) = decimal (unat (fi_amount_raw row))"
      by (simp_all add: issued(7) usdc_decimals_def)
    from paid [unfolded follows_instructions_def f decimal_unat_inj] memo atas show ?thesis
      unfolding payment_proved_def exact_transfer_def by (auto split: option.splits)
  qed
  then show ?thesis
    using get issued(3,5) unfolding row_read_def hex_lower_text_encode verify_ok by (intro exI [of _ row]) auto
qed

text \<open>C10: A rule that has run out is handed off for funding again: when the deterministic rule of a
  draft is already stored, has expired by the slot just read and its funding row is missing (as after a
  failed write), an undisturbed finalisation issues funding instructions for it, and the executor's
  first gate refuses it at that slot and every later one.\<close>

theorem expired_rule_is_handed_off:
  assumes ready: "draft_ready W params draft user mint snapshot" and calm: "calm W"
    and claim: "claim_draft (fw_claim_storage W) (fip_draft_id params) (fip_draft_hash params) (fw_clock W 0)
        (fz_sidecar s) = (DraftClaimed, h)"
    and stored: "watch_get (fw_crypto W) (fw_store W) (wr_rule_id (swr_rule stored)) (fz_rules s) = Inr (Some stored)"
    and build: "build_watch_rule (fw_crypto W) draft (wr_created_at_slot (swr_rule stored)) = Inr (swr_rule stored)"
    and expired: "unat (wr_expires_at_slot (swr_rule stored)) \<le> unat (fms_last_checked_slot snapshot)"
    and free: "hex_encode (wr_rule_id (swr_rule stored)) \<notin> fr_intent_id ` set (fz_intents s)"
    and due: "sint (fw_clock W 4) < sint (saturating_add_i64 (fw_clock W 3) funding_window_ms)"
  shows "\<exists>r s'. finalize_intent W params s = (Inr (FinalizeHandoff r), s')
    \<and> ho_intent_id r = hex_encode (wr_rule_id (swr_rule stored))
    \<and> (\<forall>snap now slot. unat (fms_last_checked_slot snapshot) \<le> unat slot \<longrightarrow>
         \<not> (\<exists>p. preflight_candidate (fw_crypto W)
              \<lparr>cin_funding = Some snap, cin_rule = Some (swr_rule stored)\<rparr>
              \<lparr>pk_now_ms = now, pk_current_confirmed_slot = Some slot\<rparr> = NeedsChain p))"
proof -
  have canonical: "validate_canonical_solend_deposit_draft draft = Inr ()"
    using ready validated_draft_canonical by (auto simp: draft_ready_def)
  then obtain fresh where fresh: "build_watch_rule (fw_crypto W) draft (fms_last_checked_slot snapshot) = Inr fresh"
    by (simp add: build_watch_rule_def Let_def)
  have id: "wr_rule_id fresh = wr_rule_id (swr_rule stored)"
    using built_rule_id [OF fresh] built_rule_id [OF build] by simp
  obtain row where "sql_get rw_rule_id (rule_id_hex (wr_rule_id fresh)) (fz_rules s) = Some row"
    using stored id by (auto simp: watch_get_def split: option.splits)
  then have "rule_id_hex (wr_rule_id fresh) \<in> rw_rule_id ` set (fz_rules s)"
    using sql_get_None [of rw_rule_id "rule_id_hex (wr_rule_id fresh)" "fz_rules s"] by (simp only: option.distinct) blast
  then obtain e where "watch_insert (fw_crypto W) (fw_store W) (fw_row_clock W 0) fresh (fz_rules s) = Inl e"
    by (cases "se_rule_to_json (fw_store W) fresh")
      (simp_all add: watch_insert_def sql_insert_def new_watch_row_def)
  then have persist: "persist_rule_with_legacy_recovery W fresh (fz_rules s) = ((swr_rule stored, True), fz_rules s)"
    using calm stored id
    by (simp add: persist_rule_with_legacy_recovery_def calm_def faulty_insert_def faulty_read_def)
  from calm_handoff [OF ready calm claim fresh persist build free due]
  obtain r s' where "finalize_intent W params s = (Inr (FinalizeHandoff r), s')"
      "ho_intent_id r = hex_encode (wr_rule_id (swr_rule stored))" by blast
  moreover have "\<not> before_deadlines snap (swr_rule stored) now slot"
    if "unat (fms_last_checked_slot snapshot) \<le> unat slot" for snap now slot
    using that expired by (simp add: before_deadlines_def)
  ultimately show ?thesis unfolding preflight_gate_exact by fastforce
qed


section \<open>Witnesses\<close>

definition example_propose_env :: propose_env where
  "example_propose_env =
     \<lparr>pe_pubkey_ok = (\<lambda>_. True), pe_sha256 = (\<lambda>_. replicate 32 0), pe_json_to_vec = (\<lambda>_. [])\<rparr>"

definition example_proposal :: propose_intent_params where
  "example_proposal =
     \<lparr>pp_action = ParamDeposit, pp_protocol = ParamSolend, pp_asset = ParamUsdc,
      pp_display_source = ParamSave, pp_comparison = ParamGt, pp_amount = ''0.5'', pp_threshold_bps = 100,
      pp_expiry_seconds_after_finalize = 180, pp_controlled_wallet = controlled_wallet_bs58,
      pp_controlled_usdc_ata = controlled_usdc_ata_bs58, pp_original_user_message = ''go''\<rparr>"

definition example_draft :: draft_intent where
  "example_draft = draft_of example_propose_env example_proposal 500000"

lemma example_amount: "writes_amount (trim ''0.5'') (unat (500000 :: u64))"
proof -
  have "digits_value (''0'' @ ''5'') 0 = Some 5" by (simp add: digit_of_def)
  moreover have "trim ''0.5'' = ''0'' @ CHR ''.'' # ''5''"
    using trim_id [of "''0.5''"] by (simp add: graphic_def)
  ultimately show ?thesis
    unfolding writes_amount_def
    by (intro exI [of _ "''0''"] exI [of _ "''5''"] exI [of _ 5]) (simp add: usdc_fraction_digits_def)
qed

lemma example_draft_valid: "validate_draft example_propose_env example_proposal = Inr example_draft"
proof -
  have "trim ''go'' = ''go''" using trim_id [of "''go''"] by (simp add: graphic_def)
  then have "within_policy example_propose_env example_proposal"
    by (simp add: within_policy_def example_propose_env_def example_proposal_def)
  moreover have "parse_usdc_amount_to_raw (pp_amount example_proposal) = Inr 500000"
    unfolding parse_amount_exact using example_amount by (simp add: example_proposal_def)
  ultimately show ?thesis
    unfolding validate_draft_amount example_draft_def by (intro exI [of _ 500000]) simp
qed

definition example_built :: "u64 \<Rightarrow> watch_rule" where
  "example_built slot =
     (case build_watch_rule example_crypto example_draft slot of Inr rule \<Rightarrow> rule | Inl _ \<Rightarrow> example_rule)"

definition example_finalize_store :: store_env where
  "example_finalize_store =
     \<lparr>se_to_base58 = (\<lambda>_. controlled_wallet_bs58),
      se_rule_to_json = (\<lambda>rule. if rule = example_built 100 then Inr ''rule'' else Inl ''unknown''),
      se_rule_from_json = (\<lambda>_. Inr (example_built 100))\<rparr>"

definition example_confirm_sdk :: confirm_sdk where
  "example_confirm_sdk =
     \<lparr>cs_pubkey_from_str = (\<lambda>s. Some (text_bytes s)),
      cs_ata_text = (\<lambda>user _. if user = text_bytes controlled_wallet_bs58 then controlled_usdc_ata_bs58 else ''ata''),
      cs_signature_ok = (\<lambda>_. True)\<rparr>"

text \<open>A world without faults, at a given slot; the index is unavailable.\<close>

definition finalize_example :: "u64 \<Rightarrow> finalize_world" where
  "finalize_example slot =
     \<lparr>fw_crypto = example_crypto, fw_store = example_finalize_store, fw_propose = example_propose_env,
      fw_sdk = example_confirm_sdk, fw_pubkey_to_string = (\<lambda>_. ''user''), fw_uuid_version = (\<lambda>_. Some 4),
      fw_json_to_text = (\<lambda>_. ''payload''),
      fw_market = Some (Inr \<lparr>fms_last_checked_slot = slot, fms_native_onchain_apr_bps = 400,
                             fms_save_display_apy_bps = 410\<rparr>),
      fw_clock = (\<lambda>_. 1000), fw_row_clock = (\<lambda>_. 1000), fw_fault = (\<lambda>_. NoFault),
      fw_other_rules = (\<lambda>_. id), fw_other_intents = (\<lambda>_. id),
      fw_claim_storage = (\<lambda>_. StorageOk), fw_index_storage = (\<lambda>_. StorageFails)\<rparr>"

definition example_params :: finalize_intent_params where
  "example_params =
     \<lparr>fip_proposal = example_proposal, fip_draft_id = replicate 32 CHR ''a'',
      fip_draft_hash = compute_draft_hash example_propose_env (canonical_preimage example_draft),
      fip_user_wallet = ''user''\<rparr>"

definition example_start :: "watch_table \<Rightarrow> finalize_state" where
  "example_start rules = \<lparr>fz_sidecar = (SidecarUnopened, None), fz_rules = rules, fz_intents = []\<rparr>"

lemma example_built_ok: "build_watch_rule example_crypto example_draft slot = Inr (example_built slot)"
  using validated_draft_canonical [OF example_draft_valid]
  by (simp add: example_built_def build_watch_rule_def Let_def)

lemma example_ready:
  "draft_ready (finalize_example slot) example_params example_draft (text_bytes ''user'')
     (text_bytes usdc_mint_bs58)
     \<lparr>fms_last_checked_slot = slot, fms_native_onchain_apr_bps = 400, fms_save_display_apy_bps = 410\<rparr>"
proof -
  have "trim ''user'' = ''user''" using trim_id [of "''user''"] by (simp add: graphic_def)
  then show ?thesis
    using example_draft_valid
    by (simp add: draft_ready_def finalize_example_def example_params_def example_confirm_sdk_def is_v4_uuid_def)
qed

lemma example_calm: "calm (finalize_example slot)"
  by (simp add: calm_def finalize_example_def)

lemma example_claim:
  "\<exists>h. claim_draft (fw_claim_storage (finalize_example slot)) (fip_draft_id example_params)
     (fip_draft_hash example_params) (fw_clock (finalize_example slot) 0) (fz_sidecar (example_start rules))
     = (DraftClaimed, h)"
proof -
  have "normalize_draft_id (replicate 32 CHR ''a'') = Inr (replicate 32 CHR ''a'')"
    by (simp add: normalize_draft_id_def validate_lower_hex_def lower_hex_char_def list_all_iff)
  moreover have "hex_text 64 (fip_draft_hash example_params)"
    using hex_encode_lower [of "replicate 32 0"] length_concat_hex [of "replicate 32 0"]
    by (simp add: hex_text_def example_params_def compute_draft_hash_def example_propose_env_def
        hex_lower_32_def hex_encode_def)
  moreover have "(0::int) \<le> sint (1000 :: i64)" by simp
  ultimately show ?thesis
    using first_claim_wins [of "\<lambda>_. StorageOk" "replicate 32 CHR ''a''" "replicate 32 CHR ''a''"
        "fip_draft_hash example_params" 1000]
    by (simp add: example_start_def finalize_example_def example_params_def)
qed

lemma example_due:
  "sint (fw_clock (finalize_example slot) 4)
     < sint (saturating_add_i64 (fw_clock (finalize_example slot) 3) funding_window_ms)"
  by (simp add: finalize_example_def saturating_add_i64_def funding_window_ms_def)

lemma example_codec: "rule_codec (fw_crypto (finalize_example slot)) (fw_store (finalize_example slot))"
  by (simp add: rule_codec_def finalize_example_def example_finalize_store_def canonical_rule_hash_def
      canonical_rule_bytes_def example_crypto_def min_def)


lemma example_finalize_runs:
  "\<exists>r s'. finalize_intent (finalize_example 100) example_params (example_start []) = (Inr (FinalizeHandoff r), s')
    \<and> pays_draft (finalize_example 100) example_draft (text_bytes ''user'') (text_bytes usdc_mint_bs58) (ho_funding r)"
proof -
  let ?W = "finalize_example 100" and ?rule = "example_built 100"
  have insert: "watch_insert (fw_crypto ?W) (fw_store ?W) 1000 ?rule []
      = Inr [new_watch_row (fw_crypto ?W) (fw_store ?W) 1000 ?rule ''rule'']"
    by (simp add: watch_insert_def sql_insert_def finalize_example_def example_finalize_store_def)
  have persist: "persist_rule_with_legacy_recovery ?W ?rule (fz_rules (example_start []))
      = ((?rule, True), [new_watch_row (fw_crypto ?W) (fw_store ?W) 1000 ?rule ''rule''])"
    using insert by (simp add: persist_rule_with_legacy_recovery_def example_start_def finalize_example_def
        faulty_insert_def)
  have built: "build_watch_rule (fw_crypto ?W) example_draft 100 = Inr ?rule"
    using example_built_ok by (simp add: finalize_example_def)
  then have "wr_created_at_slot ?rule = 100" by (rule built_rule_supported) blast
  with built have again: "build_watch_rule (fw_crypto ?W) example_draft (wr_created_at_slot ?rule) = Inr ?rule"
    by simp
  obtain h where claim: "claim_draft (fw_claim_storage ?W) (fip_draft_id example_params)
     (fip_draft_hash example_params) (fw_clock ?W 0) (fz_sidecar (example_start [])) = (DraftClaimed, h)"
    using example_claim by blast
  from calm_handoff [OF example_ready example_calm claim _ persist again _ example_due] built
  show ?thesis by (simp add: example_start_def) blast
qed

lemma example_hex: "hex_lower (fw_crypto (finalize_example slot)) = hex_encode"
  by (simp add: finalize_example_def example_crypto_def hex_encode_def fun_eq_iff)

lemma example_pin:
  "pubkey_from_base58 (\<lambda>_. Inr (replicate 32 (of_char (CHR ''L'')))) controlled_wallet_bs58
     = Inr (pinned_pubkey (fw_crypto (finalize_example slot)) controlled_wallet_bs58)"
  by (simp add: pubkey_from_base58_def finalize_example_def example_crypto_def example_key_def
      controlled_wallet_bs58_def)

theorem handed_off_intents_are_admitted_witness:
  "\<exists>r s' row (stored :: stored_watch_rule). finalize_intent (finalize_example 100) example_params (example_start [])
       = (Inr (FinalizeHandoff r), s') \<and> row_read r s' row
     \<and> ho_intent_id r = hex_encode (wr_rule_id (swr_rule stored))"
proof -
  from example_finalize_runs obtain r s' where
    run: "finalize_intent (finalize_example 100) example_params (example_start []) = (Inr (FinalizeHandoff r), s')"
    by blast
  from handed_off_intents_are_admitted [OF run example_hex example_pin example_codec]
  obtain row and stored :: stored_watch_rule where row: "row_read r s' row"
      and id: "ho_intent_id r = hex_encode (wr_rule_id (swr_rule stored))"
    by blast
  show ?thesis by (rule exI [of _ r], rule exI [of _ s'], rule exI [of _ row], rule exI [of _ stored]) (intro conjI run row id)
qed


definition paying_transaction :: "funding_instructions \<Rightarrow> u64 \<Rightarrow> observed_funding_transaction" where
  "paying_transaction f amount =
     \<lparr>oft_slot = 120, oft_block_time_ms = Some 2000, oft_confirmation = LevelFinalized, oft_succeeded = True,
      oft_signer_pubkeys = [fin_user_wallet f], oft_memos = [fin_memo f],
      oft_transfer_checked =
        [\<lparr>otc_source = fin_user_usdc_ata f, otc_mint = fin_mint f, otc_destination = fin_controlled_usdc_ata f,
          otc_authority = fin_user_wallet f, otc_amount_raw = amount, otc_decimals = fin_decimals f\<rparr>],
      oft_pre_token_balances =
        [\<lparr>otb_account = fin_user_usdc_ata f, otb_mint = fin_mint f, otb_owner = fin_user_wallet f,
          otb_amount_raw = amount, otb_decimals = fin_decimals f\<rparr>,
         \<lparr>otb_account = fin_controlled_usdc_ata f, otb_mint = fin_mint f, otb_owner = fin_controlled_wallet f,
          otb_amount_raw = 0, otb_decimals = fin_decimals f\<rparr>],
      oft_post_token_balances =
        [\<lparr>otb_account = fin_user_usdc_ata f, otb_mint = fin_mint f, otb_owner = fin_user_wallet f,
          otb_amount_raw = 0, otb_decimals = fin_decimals f\<rparr>,
         \<lparr>otb_account = fin_controlled_usdc_ata f, otb_mint = fin_mint f, otb_owner = fin_controlled_wallet f,
          otb_amount_raw = amount, otb_decimals = fin_decimals f\<rparr>]\<rparr>"

lemma paying_transaction_follows:
  assumes "fin_user_usdc_ata f \<noteq> fin_controlled_usdc_ata f" and "fin_mint f = usdc_mint_bs58"
    and "fin_decimals f = usdc_decimals" and "fin_amount_raw f = decimal (unat amount)"
  shows "follows_instructions f (paying_transaction f amount)"
  using assms
  by (simp add: follows_instructions_def paying_transaction_def find_balance_def usdc_account_def)

theorem followed_instructions_are_accepted_witness:
  "\<exists>r s' row. finalize_intent (finalize_example 100) example_params (example_start [])
       = (Inr (FinalizeHandoff r), s')
     \<and> follows_instructions (ho_funding r) (paying_transaction (ho_funding r) 500000) \<and> row_read r s' row"
proof -
  let ?W = "finalize_example 100"
  from example_finalize_runs obtain r s' where
    run: "finalize_intent ?W example_params (example_start []) = (Inr (FinalizeHandoff r), s')"
    and pays: "pays_draft ?W example_draft (text_bytes ''user'') (text_bytes usdc_mint_bs58) (ho_funding r)" by blast
  have "cs_ata_text (fw_sdk ?W) (text_bytes ''user'') (text_bytes usdc_mint_bs58) \<noteq> controlled_usdc_ata_bs58"
    by (simp add: finalize_example_def example_confirm_sdk_def text_bytes_def controlled_wallet_bs58_def
        controlled_usdc_ata_bs58_def)
  with pays have follows: "follows_instructions (ho_funding r) (paying_transaction (ho_funding r) 500000)"
    by (intro paying_transaction_follows) (auto simp: pays_draft_def example_draft_def draft_of_def)
  have sdk: "cs_pubkey_from_str (fw_sdk ?W) usdc_mint_bs58 = Some (text_bytes usdc_mint_bs58)"
      "cs_pubkey_from_str (fw_sdk ?W) controlled_wallet_bs58 = Some (text_bytes controlled_wallet_bs58)"
      "cs_ata_text (fw_sdk ?W) (text_bytes controlled_wallet_bs58) (text_bytes usdc_mint_bs58) = controlled_usdc_ata_bs58"
    by (simp_all add: finalize_example_def example_confirm_sdk_def)
  from followed_instructions_are_accepted [OF run follows sdk]
  obtain row where row: "row_read r s' row" by blast
  show ?thesis by (rule exI [of _ r], rule exI [of _ s'], rule exI [of _ row]) (intro conjI run follows row)
qed


text \<open>At slot 1000 the rule built at slot 100 is past its expiry; it is still the persisted one.\<close>

theorem expired_rule_is_handed_off_witness:
  "let W = finalize_example 1000; row = new_watch_row example_crypto example_finalize_store 1000 (example_built 100) ''rule''
   in \<exists>r s'. finalize_intent W example_params (example_start [row]) = (Inr (FinalizeHandoff r), s')
        \<and> ho_intent_id r = hex_encode (wr_rule_id (example_built 100))"
proof -
  let ?W = "finalize_example 1000" and ?rule = "example_built 100"
  let ?row = "new_watch_row example_crypto example_finalize_store 1000 ?rule ''rule''"
  let ?snap = "\<lparr>fms_last_checked_slot = 1000, fms_native_onchain_apr_bps = 400, fms_save_display_apy_bps = 410\<rparr>"
  let ?stored = "fresh_rule example_crypto 1000 ?rule"
  have W: "fw_crypto ?W = example_crypto" "fw_store ?W = example_finalize_store"
    by (simp_all add: finalize_example_def)
  have rule: "swr_rule ?stored = ?rule" by (simp add: fresh_rule_def)
  note built = example_built_ok [of 100]
  then have at: "wr_created_at_slot ?rule = 100"
    and expiry: "wr_expires_at_slot ?rule = saturating_add 100 watch_rule_expiry_slots"
    by (auto elim!: built_rule_supported)
  have stored: "watch_get (fw_crypto ?W) (fw_store ?W) (wr_rule_id (swr_rule ?stored)) (fz_rules (example_start [?row]))
      = Inr (Some ?stored)"
  proof -
    have "watch_insert example_crypto example_finalize_store 1000 ?rule [] = Inr [?row]"
      by (simp add: watch_insert_def sql_insert_def example_finalize_store_def)
    from watch_insert_stored [OF this] example_codec [of 1000] show ?thesis
      by (simp add: W rule example_start_def)
  qed
  have again: "build_watch_rule (fw_crypto ?W) example_draft (wr_created_at_slot (swr_rule ?stored)) = Inr (swr_rule ?stored)"
    using built by (simp add: W rule at)
  have expired: "unat (wr_expires_at_slot (swr_rule ?stored)) \<le> unat (fms_last_checked_slot ?snap)"
    by (simp add: rule expiry saturating_add_def watch_rule_expiry_slots_def)
  have free: "hex_encode (wr_rule_id (swr_rule ?stored)) \<notin> fr_intent_id ` set (fz_intents (example_start [?row]))"
    by (simp add: example_start_def)
  obtain h where claim: "claim_draft (fw_claim_storage ?W) (fip_draft_id example_params)
     (fip_draft_hash example_params) (fw_clock ?W 0) (fz_sidecar (example_start [?row])) = (DraftClaimed, h)"
    using example_claim by blast
  from expired_rule_is_handed_off [OF example_ready example_calm claim stored again expired free example_due]
  show ?thesis by (auto simp: rule Let_def)
qed

end
