(* ===== verification/Status.thy ===== *)
theory Status
  imports Finalize
begin

text \<open>
  The status query of \<open>bins/solfrontier-mcp/src/status.rs\<close>: an intent is named by its UUID in either
  spelling or by the canonical hash of its rule. A hash goes through the sidecar, whose answer is only
  a hint: it is checked against the rule as it stands in the main database. The sidecar, the funding
  table and the rule table are read one after the other, so the query takes each as it is when it is
  read. The lemmas show that a hash gives the same answer as the UUID of the rule that has this hash,
  and that a finalised intent is found under both names.
\<close>

section \<open>Responses and references\<close>

record intent_status_response =
  isr_intent_ref :: string
  isr_status :: string
  isr_is_terminal :: bool
  isr_message :: "string option"
  isr_source :: "string option"
  isr_resolved_intent_id :: "string option"
  isr_canonical_rule_hash :: "string option"
  isr_watch_rule_status :: "string option"
  isr_amount_raw :: "u64 option"
  isr_input_mint :: "string option"
  isr_output_mint :: "string option"
  isr_created_at_ms :: "i64 option"
  isr_expires_at_ms :: "i64 option"
  isr_updated_at_ms :: "i64 option"
  isr_created_at_slot :: "u64 option"
  isr_expires_at_slot :: "u64 option"

record resolved_intent_ref =
  rir_intent_id :: string
  rir_rule_id :: bytes

datatype unsupported_intent_ref = CanonicalHashUnavailable | CanonicalHashInconsistent | RefInvalidFormat

definition ascii_hex_digit :: "char \<Rightarrow> bool" where
  "ascii_hex_digit c =
     (let b = of_char c :: nat in (48 \<le> b \<and> b \<le> 57) \<or> (97 \<le> b \<and> b \<le> 102) \<or> (65 \<le> b \<and> b \<le> 70))"

definition ref_nibble :: "char \<Rightarrow> unsupported_intent_ref + u8" where
  "ref_nibble c =
     (let b = of_char c :: u8 in
      if 48 \<le> b \<and> b \<le> 57 then Inr (b - 48)
      else if 97 \<le> b \<and> b \<le> 102 then Inr (b - 97 + 10)
      else if 65 \<le> b \<and> b \<le> 70 then Inr (b - 65 + 10)
      else Inl RefInvalidFormat)"

definition has_uuid_hyphens :: "string \<Rightarrow> bool" where
  "has_uuid_hyphens candidate =
     list_all (\<lambda>(index, byte). if index \<in> {8, 13, 18, 23} then byte = CHR ''-'' else ascii_hex_digit byte)
       (enumerate 0 candidate)"

text \<open>The loop over the 16 bytes; the text has 32 digits by then, so no index is out of range.\<close>

fun ref_bytes :: "nat \<Rightarrow> string \<Rightarrow> unsupported_intent_ref + bytes" where
  "ref_bytes 0 _ = Inr []"
| "ref_bytes (Suc n) (c1 # c2 # cs) =
     try_bind (ref_nibble c1) (\<lambda>hi.
     try_bind (ref_nibble c2) (\<lambda>lo.
     try_bind (ref_bytes n cs) (\<lambda>rest.
       Inr ((or (push_bit 4 hi) lo) # rest))))"
| "ref_bytes (Suc n) _ = Inl RefInvalidFormat"

definition resolve_uuid_ref :: "string \<Rightarrow> unsupported_intent_ref + resolved_intent_ref" where
  "resolve_uuid_ref intent_ref =
     (let candidate = trim intent_ref in
      try_bind (if length candidate = 32 \<and> list_all ascii_hex_digit candidate then Inr candidate
                else if length candidate = 36 \<and> has_uuid_hyphens candidate
                then Inr (filter (\<lambda>byte. byte \<noteq> CHR ''-'') candidate)
                else Inl RefInvalidFormat) (\<lambda>compact.
      if \<not> list_all ascii_hex_digit compact then Inl RefInvalidFormat
      else try_bind (ref_bytes 16 compact) (\<lambda>rule_id.
        Inr \<lparr>rir_intent_id = map ascii_lower compact, rir_rule_id = rule_id\<rparr>)))"

section \<open>The projections\<close>

definition action_mints :: "store_env \<Rightarrow> stored_watch_rule \<Rightarrow> string option \<times> string option" where
  "action_mints E rule =
     (case wr_action (swr_rule rule) of
        JupiterBuySolWithUsdc a \<Rightarrow> (Some (se_to_base58 E (jb_input_mint a)), Some (se_to_base58 E (jb_output_mint a)))
      | SolendDeposit a \<Rightarrow> (Some (se_to_base58 E (sd_input_mint a)), None)
      | SolendWithdrawAllDelegated _ \<Rightarrow> (None, None))"

definition funding_response ::
    "store_env \<Rightarrow> string \<Rightarrow> resolved_intent_ref \<Rightarrow> w5h_funding_intent \<Rightarrow> stored_watch_rule option \<Rightarrow>
     intent_status_response" where
  "funding_response E intent_ref resolved intent watch_rule =
     (let mints = (case map_option (action_mints E) watch_rule of Some ms \<Rightarrow> ms | None \<Rightarrow> (None, None)) in
      \<lparr>isr_intent_ref = intent_ref, isr_status = funding_status_as_str (fi_status intent),
       isr_is_terminal = funding_is_terminal (fi_status intent), isr_message = None,
       isr_source = Some ''w5h_funding_intent'', isr_resolved_intent_id = Some (rir_intent_id resolved),
       isr_canonical_rule_hash = Some (fi_canonical_rule_hash_hex intent),
       isr_watch_rule_status = map_option (\<lambda>rule. watch_status_as_str (swr_status rule)) watch_rule,
       isr_amount_raw = Some (fi_amount_raw intent), isr_input_mint = fst mints, isr_output_mint = snd mints,
       isr_created_at_ms = Some (fi_created_at_ms intent), isr_expires_at_ms = Some (fi_expires_at_ms intent),
       isr_updated_at_ms = Some (fi_updated_at_ms intent),
       isr_created_at_slot = map_option (\<lambda>rule. wr_created_at_slot (swr_rule rule)) watch_rule,
       isr_expires_at_slot = map_option (\<lambda>rule. wr_expires_at_slot (swr_rule rule)) watch_rule\<rparr>)"

definition watch_rule_response ::
    "store_env \<Rightarrow> string \<Rightarrow> resolved_intent_ref \<Rightarrow> stored_watch_rule \<Rightarrow> intent_status_response" where
  "watch_rule_response E intent_ref resolved rule =
     (let mints = action_mints E rule; status = watch_status_as_str (swr_status rule) in
      \<lparr>isr_intent_ref = intent_ref, isr_status = status,
       isr_is_terminal = (status \<in> {''completed'', ''expired'', ''revoked'', ''failed''}),
       isr_message = Some ''watch rule exists, but no W5h funding intent is stored for this UUID'',
       isr_source = Some ''watch_rule'', isr_resolved_intent_id = Some (rir_intent_id resolved),
       isr_canonical_rule_hash = Some (hex_encode (swr_canonical_rule_hash rule)),
       isr_watch_rule_status = Some status,
       isr_amount_raw = Some (wr_max_input_amount_raw (swr_rule rule)),
       isr_input_mint = fst mints, isr_output_mint = snd mints,
       isr_created_at_ms = Some (swr_created_at_ms rule), isr_expires_at_ms = None,
       isr_updated_at_ms = Some (swr_updated_at_ms rule),
       isr_created_at_slot = Some (wr_created_at_slot (swr_rule rule)),
       isr_expires_at_slot = Some (wr_expires_at_slot (swr_rule rule))\<rparr>)"

definition not_found_response :: "string \<Rightarrow> resolved_intent_ref \<Rightarrow> intent_status_response" where
  "not_found_response intent_ref resolved =
     \<lparr>isr_intent_ref = intent_ref, isr_status = ''not_found'', isr_is_terminal = False, isr_message = None,
      isr_source = None, isr_resolved_intent_id = Some (rir_intent_id resolved),
      isr_canonical_rule_hash = None, isr_watch_rule_status = None, isr_amount_raw = None,
      isr_input_mint = None, isr_output_mint = None, isr_created_at_ms = None, isr_expires_at_ms = None,
      isr_updated_at_ms = None, isr_created_at_slot = None, isr_expires_at_slot = None\<rparr>"

fun unsupported_message :: "unsupported_intent_ref \<Rightarrow> string" where
  "unsupported_message CanonicalHashUnavailable =
     ''canonical hash lookup is unavailable because the derived MCP sidecar ''
     @ ''is missing, unreadable, or has no mapping; use the intent UUID''"
| "unsupported_message CanonicalHashInconsistent =
     ''canonical hash lookup was rejected because the derived mapping did ''
     @ ''not revalidate against the authoritative state-store repositories; ''
     @ ''use the intent UUID''"
| "unsupported_message RefInvalidFormat =
     ''unsupported intent_ref format; use the intent UUID (hyphenated or ''
     @ ''32-character hex) or a 64-character canonical rule hash''"

definition unsupported_response :: "string \<Rightarrow> unsupported_intent_ref \<Rightarrow> intent_status_response" where
  "unsupported_response intent_ref reason =
     \<lparr>isr_intent_ref = intent_ref, isr_status = ''unsupported_ref'', isr_is_terminal = False,
      isr_message = Some (unsupported_message reason),
      isr_source = None, isr_resolved_intent_id = None,
      isr_canonical_rule_hash = None, isr_watch_rule_status = None, isr_amount_raw = None,
      isr_input_mint = None, isr_output_mint = None, isr_created_at_ms = None, isr_expires_at_ms = None,
      isr_updated_at_ms = None, isr_created_at_slot = None, isr_expires_at_slot = None\<rparr>"

definition project_status ::
    "store_env \<Rightarrow> string \<Rightarrow> resolved_intent_ref \<Rightarrow> w5h_funding_intent option \<Rightarrow> stored_watch_rule option \<Rightarrow>
     intent_status_response" where
  "project_status E intent_ref resolved funding_intent watch_rule =
     (case funding_intent of
        Some intent \<Rightarrow> funding_response E intent_ref resolved intent watch_rule
      | None \<Rightarrow>
          (case watch_rule of
             Some rule \<Rightarrow> watch_rule_response E intent_ref resolved rule
           | None \<Rightarrow> not_found_response intent_ref resolved))"

section \<open>The query\<close>

definition canonical_mapping_matches_main_store ::
    "crypto \<Rightarrow> string \<Rightarrow> resolved_intent_ref \<Rightarrow> w5h_funding_intent option \<Rightarrow> stored_watch_rule option \<Rightarrow> bool" where
  "canonical_mapping_matches_main_store C expected_hash resolved funding_intent watch_rule =
     (case watch_rule of
        None \<Rightarrow> False
      | Some stored \<Rightarrow>
          (if wr_rule_id (swr_rule stored) \<noteq> rir_rule_id resolved
              \<or> hex_lower_text (wr_rule_id (swr_rule stored)) \<noteq> rir_intent_id resolved
              \<or> hex_lower_text (swr_canonical_rule_hash stored) \<noteq> expected_hash
              \<or> hex_lower_text (canonical_rule_hash C (swr_rule stored)) \<noteq> expected_hash
           then False
           else case funding_intent of
             None \<Rightarrow> True
           | Some intent \<Rightarrow>
               fi_intent_id intent = rir_intent_id resolved \<and> fi_rule_id_hex intent = rir_intent_id resolved
             \<and> map ascii_lower (fi_canonical_rule_hash_hex intent) = map ascii_lower expected_hash))"

record status_world =
  sq_crypto :: crypto
  sq_store :: store_env
  sq_storage :: storage                     \<comment> \<open>what the sidecar's file does\<close>
  sq_fault :: "nat \<Rightarrow> db_fault"             \<comment> \<open>0: the funding read, 1: the rule read\<close>

definition hash_ref :: "string \<Rightarrow> string option" where
  "hash_ref intent_ref =
     (let candidate = trim intent_ref in
      if length candidate = 64 \<and> list_all ascii_hex_digit candidate then Some (map ascii_lower candidate) else None)"

definition resolve_ref ::
    "status_world \<Rightarrow> string \<Rightarrow> handle \<Rightarrow> (unsupported_intent_ref + resolved_intent_ref) \<times> handle" where
  "resolve_ref W intent_ref h =
     (case hash_ref intent_ref of
        Some hash \<Rightarrow>
          (case lookup_hash (sq_storage W) hash h of
             (LookupFound intent_id, h') \<Rightarrow> (map_err (\<lambda>_. CanonicalHashInconsistent) (resolve_uuid_ref intent_id), h')
           | (_, h') \<Rightarrow> (Inl CanonicalHashUnavailable, h'))
      | None \<Rightarrow> (resolve_uuid_ref intent_ref, h))"

definition query_intent_status ::
    "status_world \<Rightarrow> string \<Rightarrow> handle \<Rightarrow> funding_table \<Rightarrow> watch_table \<Rightarrow>
     (store_error + intent_status_response) \<times> handle" where
  "query_intent_status W intent_ref h funding_intents watch_rules =
     (case resolve_ref W intent_ref h of
        (Inl reason, h') \<Rightarrow> (Inr (unsupported_response intent_ref reason), h')
      | (Inr resolved, h') \<Rightarrow>
          (try_bind (faulty_read (sq_fault W 0) (funding_get (rir_intent_id resolved) funding_intents)) (\<lambda>funding_intent.
           try_bind (faulty_read (sq_fault W 1)
                       (watch_get (sq_crypto W) (sq_store W) (rir_rule_id resolved) watch_rules)) (\<lambda>watch_rule.
             Inr (case hash_ref intent_ref of
                    Some hash \<Rightarrow>
                      (if \<not> canonical_mapping_matches_main_store (sq_crypto W) hash resolved funding_intent watch_rule
                       then unsupported_response intent_ref CanonicalHashInconsistent
                       else project_status (sq_store W) intent_ref resolved funding_intent watch_rule)
                  | None \<Rightarrow> project_status (sq_store W) intent_ref resolved funding_intent watch_rule))), h'))"


section \<open>References in canonical spelling\<close>

lemma lower_hex_is_hex: "lower_hex_char c \<Longrightarrow> ascii_hex_digit c"
  by (auto simp: lower_hex_char_def ascii_hex_digit_def Let_def)

lemma ref_nibble_hex_nibble: "ref_nibble c = map_err (\<lambda>_. RefInvalidFormat) (hex_nibble c)"
  by (simp add: ref_nibble_def hex_nibble_def map_err_def Let_def)

lemma ref_bytes_hex_pairs:
  "length s = 2 * n \<Longrightarrow> ref_bytes n s = map_err (\<lambda>_. RefInvalidFormat) (hex_pairs s)"
proof (induction n s rule: ref_bytes.induct)
  case (2 n c1 c2 cs)
  then show ?case
    by (cases "hex_nibble c1"; cases "hex_nibble c2"; cases "hex_pairs cs")
      (simp_all add: ref_nibble_hex_nibble map_err_def)
qed (auto simp: map_err_def)

lemma ref_bytes_length: "ref_bytes n s = Inr bs \<Longrightarrow> length bs = n"
proof (induction n s arbitrary: bs rule: ref_bytes.induct)
  case (2 n c1 c2 cs)
  then show ?case
    by (cases "ref_nibble c1"; cases "ref_nibble c2"; cases "ref_bytes n cs") auto
qed auto

lemma resolve_length: "resolve_uuid_ref intent_ref = Inr r \<Longrightarrow> length (rir_rule_id r) = 16"
  using ref_bytes_length
  by (auto simp: resolve_uuid_ref_def Let_def split: if_splits)

lemma trim_hex_encode [simp]: "trim (hex_encode bs) = hex_encode bs"
  using hex_encode_lower [of bs] by (auto intro!: trim_id simp: list_all_iff lower_hex_graphic)

lemma hex_encode_is_hex: "list_all ascii_hex_digit (hex_encode bs)"
  using hex_encode_lower [of bs] by (auto simp: list_all_iff lower_hex_is_hex)

lemma resolve_encoded:
  assumes "length rid = 16"
  shows "resolve_uuid_ref (hex_encode rid) = Inr \<lparr>rir_intent_id = hex_encode rid, rir_rule_id = rid\<rparr>"
proof -
  have "hex_pairs (hex_encode rid) = Inr rid"
    using hex_decode_encode [of rid] by (simp add: hex_decode_def)
  then have "ref_bytes 16 (hex_encode rid) = Inr rid"
    using assms by (simp add: ref_bytes_hex_pairs map_err_def)
  then show ?thesis
    using assms by (simp add: resolve_uuid_ref_def hex_encode_is_hex ascii_lower_hex)
qed

lemma hash_ref_encoded:
  "hash_ref (hex_encode bs) = (if length bs = 32 then Some (hex_encode bs) else None)"
  by (simp add: hash_ref_def hex_encode_is_hex ascii_lower_hex)


section \<open>A hash is answered like the UUID of its rule\<close>

lemma answered_status:
  "isr_status (unsupported_response intent_ref reason) = ''unsupported_ref''"
  by (simp add: unsupported_response_def)

lemma project_status_ref:
  "(project_status E intent_ref resolved f w)\<lparr>isr_intent_ref := intent_ref'\<rparr> = project_status E intent_ref' resolved f w"
  by (simp add: project_status_def funding_response_def watch_rule_response_def not_found_response_def
      Let_def split: option.splits)

lemma mapping_matches:
  assumes "canonical_mapping_matches_main_store C hash resolved f w"
  obtains stored where "w = Some stored" "wr_rule_id (swr_rule stored) = rir_rule_id resolved"
    "rir_intent_id resolved = hex_encode (rir_rule_id resolved)"
    "hash = hex_encode (canonical_rule_hash C (swr_rule stored))"
  using assms
  by (auto simp: canonical_mapping_matches_main_store_def split: option.splits if_splits)

lemma resolve_ref_encoded:
  "length rid = 16 \<Longrightarrow>
     resolve_ref W (hex_encode rid) h = (Inr \<lparr>rir_intent_id = hex_encode rid, rir_rule_id = rid\<rparr>, h)"
  by (simp add: resolve_ref_def hash_ref_encoded resolve_encoded)

lemma hash_query:
  assumes run: "query_intent_status W intent_ref h intents rules = (Inr resp, h')"
    and hash: "hash_ref intent_ref = Some hash" and answered: "isr_status resp \<noteq> ''unsupported_ref''"
  obtains resolved f stored where "length (rir_rule_id resolved) = 16"
    "faulty_read (sq_fault W 0) (funding_get (rir_intent_id resolved) intents) = Inr f"
    "faulty_read (sq_fault W 1) (watch_get (sq_crypto W) (sq_store W) (rir_rule_id resolved) rules) = Inr (Some stored)"
    "canonical_mapping_matches_main_store (sq_crypto W) hash resolved f (Some stored)"
    "resp = project_status (sq_store W) intent_ref resolved f (Some stored)"
proof -
  obtain r k where r: "resolve_ref W intent_ref h = (r, k)" by (cases "resolve_ref W intent_ref h")
  have "\<exists>resolved. r = Inr resolved"
    using run answered by (cases r) (auto simp: query_intent_status_def r answered_status)
  then obtain resolved where resolved: "r = Inr resolved" ..
  have "length (rir_rule_id resolved) = 16"
    using r resolved hash by (auto simp: resolve_ref_def resolve_length split: hash_lookup.splits prod.splits)
  moreover from run answered obtain f w where
      "faulty_read (sq_fault W 0) (funding_get (rir_intent_id resolved) intents) = Inr f"
      "faulty_read (sq_fault W 1) (watch_get (sq_crypto W) (sq_store W) (rir_rule_id resolved) rules) = Inr w"
      "canonical_mapping_matches_main_store (sq_crypto W) hash resolved f w"
      "resp = project_status (sq_store W) intent_ref resolved f w"
    by (auto simp: query_intent_status_def r resolved hash answered_status split: if_splits)
  moreover from this(3) obtain stored where "w = Some stored" by (rule mapping_matches)
  ultimately show ?thesis using that by blast
qed

text \<open>C9: A hash reference is a name for the rule that has this hash: when a query by hash is answered
  at all, the rule table holds a rule whose recomputed canonical hash is the one asked for, and the
  answer is the one that a query by that rule's UUID gives, whatever the sidecar says; a stale or
  tampered index entry can only make the query fail.\<close>

theorem hash_refs_are_authoritative:
  assumes run: "query_intent_status W intent_ref h intents rules = (Inr resp, h')"
    and hash: "hash_ref intent_ref = Some hash" and answered: "isr_status resp \<noteq> ''unsupported_ref''"
  shows "\<exists>stored uuid. watch_get (sq_crypto W) (sq_store W) (wr_rule_id (swr_rule stored)) rules = Inr (Some stored)
    \<and> hash = hex_encode (canonical_rule_hash (sq_crypto W) (swr_rule stored))
    \<and> uuid = hex_encode (wr_rule_id (swr_rule stored))
    \<and> (\<forall>k. query_intent_status W uuid k intents rules = (Inr (resp\<lparr>isr_intent_ref := uuid\<rparr>), k))"
proof -
  from hash_query [OF assms] obtain resolved f stored where 16: "length (rir_rule_id resolved) = 16"
    and reads: "faulty_read (sq_fault W 0) (funding_get (rir_intent_id resolved) intents) = Inr f"
      "faulty_read (sq_fault W 1) (watch_get (sq_crypto W) (sq_store W) (rir_rule_id resolved) rules) = Inr (Some stored)"
    and matches: "canonical_mapping_matches_main_store (sq_crypto W) hash resolved f (Some stored)"
    and resp: "resp = project_status (sq_store W) intent_ref resolved f (Some stored)" .
  from matches have ids: "wr_rule_id (swr_rule stored) = rir_rule_id resolved"
      "rir_intent_id resolved = hex_encode (rir_rule_id resolved)"
      "hash = hex_encode (canonical_rule_hash (sq_crypto W) (swr_rule stored))"
    by (auto elim!: mapping_matches)
  let ?uuid = "hex_encode (rir_rule_id resolved)"
  have same: "\<lparr>rir_intent_id = ?uuid, rir_rule_id = rir_rule_id resolved\<rparr> = resolved"
    using ids(2) by simp
  have "query_intent_status W ?uuid k intents rules = (Inr (resp\<lparr>isr_intent_ref := ?uuid\<rparr>), k)" for k
    using reads 16
    by (simp add: query_intent_status_def resolve_ref_encoded hash_ref_encoded same resp project_status_ref)
  moreover have "watch_get (sq_crypto W) (sq_store W) (rir_rule_id resolved) rules = Inr (Some stored)"
    using reads(2) by (simp add: faulty_read_def split: if_splits)
  ultimately show ?thesis using ids by (intro exI [of _ stored] exI [of _ ?uuid]) simp
qed


section \<open>A finalised intent is found\<close>

text \<open>The answer to a reference that resolves to an intent whose funding row and rule are read.\<close>

lemma query_found:
  assumes "length rid = 16" and calm: "sq_fault Q = (\<lambda>_. NoFault)"
    and ref: "intent_ref = hex_encode rid
       \<or> hash_ref intent_ref = Some (hex_encode (canonical_rule_hash (sq_crypto Q) (swr_rule stored)))
         \<and> fst (lookup_hash (sq_storage Q) (hex_encode (canonical_rule_hash (sq_crypto Q) (swr_rule stored))) h)
           = LookupFound (hex_encode rid)"
    and row: "funding_get (hex_encode rid) intents = Inr (Some row)"
      "fi_intent_id row = hex_encode rid" "fi_rule_id_hex row = hex_encode rid"
      "map ascii_lower (fi_canonical_rule_hash_hex row) = hex_encode (canonical_rule_hash (sq_crypto Q) (swr_rule stored))"
    and stored: "watch_get (sq_crypto Q) (sq_store Q) rid rules = Inr (Some stored)"
      "wr_rule_id (swr_rule stored) = rid"
      "swr_canonical_rule_hash stored = canonical_rule_hash (sq_crypto Q) (swr_rule stored)"
  shows "\<exists>h'. query_intent_status Q intent_ref h intents rules
    = (Inr (funding_response (sq_store Q) intent_ref \<lparr>rir_intent_id = hex_encode rid, rir_rule_id = rid\<rparr> row (Some stored)), h')"
proof -
  let ?r = "\<lparr>rir_intent_id = hex_encode rid, rir_rule_id = rid\<rparr>"
  have matches: "canonical_mapping_matches_main_store (sq_crypto Q)
      (hex_encode (canonical_rule_hash (sq_crypto Q) (swr_rule stored))) ?r (Some row) (Some stored)"
    by (simp add: canonical_mapping_matches_main_store_def row stored ascii_lower_hex)
  from ref show ?thesis
  proof
    assume "intent_ref = hex_encode rid"
    then show ?thesis
      using assms(1) by (simp add: query_intent_status_def resolve_ref_encoded hash_ref_encoded calm
          faulty_read_def row stored project_status_def)
  next
    assume by_hash: "hash_ref intent_ref = Some (hex_encode (canonical_rule_hash (sq_crypto Q) (swr_rule stored)))
         \<and> fst (lookup_hash (sq_storage Q) (hex_encode (canonical_rule_hash (sq_crypto Q) (swr_rule stored))) h)
           = LookupFound (hex_encode rid)"
    then have "resolve_ref Q intent_ref h = (Inr ?r, snd (lookup_hash (sq_storage Q)
        (hex_encode (canonical_rule_hash (sq_crypto Q) (swr_rule stored))) h))"
      using assms(1) by (simp add: resolve_ref_def resolve_encoded map_err_def case_prod_beta)
    then obtain h' where "resolve_ref Q intent_ref h = (Inr ?r, h')" by blast
    with by_hash matches show ?thesis
      by (simp add: query_intent_status_def calm faulty_read_def row stored project_status_def)
  qed
qed

lemma handoff_found:
  assumes run: "finalize_intent W params s = (Inr (FinalizeHandoff r), s')"
    and codec: "rule_codec (fw_crypto W) (fw_store W)"
    and pin: "wf_pubkey (pinned_pubkey (fw_crypto W) controlled_wallet_bs58)"
    and Q: "sq_crypto Q = fw_crypto W" "sq_store Q = fw_store W" "sq_fault Q = (\<lambda>_. NoFault)"
    and ref: "intent_ref = ho_intent_id r
      \<or> intent_ref = ho_rule_hash r \<and> fst (lookup_hash (sq_storage Q) intent_ref h) = LookupFound (ho_intent_id r)"
  shows "\<exists>resp h' amount. query_intent_status Q intent_ref h (fz_intents s') (fz_rules s') = (Inr resp, h')
    \<and> isr_status resp = ''funding_required'' \<and> \<not> isr_is_terminal resp
    \<and> isr_resolved_intent_id resp = Some (ho_intent_id r)
    \<and> isr_amount_raw resp = Some amount \<and> fin_amount_raw (ho_funding r) = decimal (unat amount)
    \<and> isr_expires_at_ms resp = Some (fin_expires_at_ms (ho_funding r))
    \<and> map_option (map ascii_lower) (isr_canonical_rule_hash resp) = Some (ho_rule_hash r)"
proof -
  let ?C = "fw_crypto W"
  from run obtain draft mint user slot rule row reused now where build: "build_watch_rule ?C draft slot = Inr rule"
    and get: "funding_get (hex_lower_text (wr_rule_id rule)) (fz_intents s') = Inr (Some row)"
    and issue: "issue_instructions W params mint user rule True reused row now = FinalizeHandoff r"
    and stored: "rule_is_stored W draft rule (fz_rules s')" by (rule finalize_handoff)
  note issued = issue_handoff [OF issue, unfolded hex_lower_text_encode]
  from stored_rule_is_read [OF stored codec build] obtain st where
    st: "watch_get ?C (fw_store W) (wr_rule_id rule) (fz_rules s') = Inr (Some st)" "swr_rule st = rule" by blast
  have "swr_canonical_rule_hash st = canonical_rule_hash ?C (swr_rule st)"
    using st(1) by (auto simp: watch_get_def watch_row_to_stored_integrity split: option.splits)
  then have st_hash: "swr_canonical_rule_hash st = canonical_rule_hash ?C rule" using st(2) by simp
  have id16: "length (wr_rule_id rule) = 16"
    using built_rule_id [OF build] pin by (simp add: derive_rule_id_def wf_pubkey_def)
  have hash32: "length (canonical_rule_hash ?C rule) = 32" using codec by (simp add: rule_codec_def)
  have row_hash: "map ascii_lower (fi_canonical_rule_hash_hex row) = hex_encode (canonical_rule_hash ?C rule)"
    using issued(2) by (simp add: funding_row_matches_identity_def ascii_lower_hex split: if_splits)
  have "intent_ref = hex_encode (wr_rule_id rule)
       \<or> hash_ref intent_ref = Some (hex_encode (canonical_rule_hash (sq_crypto Q) (swr_rule st)))
         \<and> fst (lookup_hash (sq_storage Q) (hex_encode (canonical_rule_hash (sq_crypto Q) (swr_rule st))) h)
           = LookupFound (hex_encode (wr_rule_id rule))"
    using ref issued(5,6) hash32 by (auto simp: Q st(2) hash_ref_encoded)
  from query_found [OF id16 Q(3) this, of "fz_intents s'" row "fz_rules s'"] obtain h' where
    "query_intent_status Q intent_ref h (fz_intents s') (fz_rules s')
      = (Inr (funding_response (sq_store Q) intent_ref \<lparr>rir_intent_id = hex_encode (wr_rule_id rule),
           rir_rule_id = wr_rule_id rule\<rparr> row (Some st)), h')"
    using get row_hash st st_hash matching_row(1,2) [OF issued(2)] by (auto simp: Q)
  then show ?thesis
    using issued(3,5-7) row_hash by (simp add: funding_response_def Let_def)
qed

text \<open>C8: What finalising announces, the status query finds: with the tables as the handoff left them,
  a query by the announced intent id, or by the announced rule hash when the sidecar has indexed it,
  reports an intent that waits for its funding, with the amount, deadline and rule hash of the
  handoff.\<close>

theorem handed_off_intents_are_found:
  assumes run: "finalize_intent W params s = (Inr (FinalizeHandoff r), s')"
    and codec: "rule_codec (fw_crypto W) (fw_store W)"
    and pin: "wf_pubkey (pinned_pubkey (fw_crypto W) controlled_wallet_bs58)"
    and Q: "sq_crypto Q = fw_crypto W" "sq_store Q = fw_store W" "sq_fault Q = (\<lambda>_. NoFault)"
    and ref: "intent_ref = ho_intent_id r
      \<or> intent_ref = ho_rule_hash r \<and> fst (lookup_hash (sq_storage Q) intent_ref h) = LookupFound (ho_intent_id r)"
  shows "\<exists>resp h' amount. query_intent_status Q intent_ref h (fz_intents s') (fz_rules s') = (Inr resp, h')
    \<and> isr_status resp = ''funding_required'' \<and> \<not> isr_is_terminal resp
    \<and> isr_resolved_intent_id resp = Some (ho_intent_id r)
    \<and> isr_amount_raw resp = Some amount \<and> fin_amount_raw (ho_funding r) = decimal (unat amount)
    \<and> isr_expires_at_ms resp = Some (fin_expires_at_ms (ho_funding r))
    \<and> map_option (map ascii_lower) (isr_canonical_rule_hash resp) = Some (ho_rule_hash r)"
  using assms by (rule handoff_found)


section \<open>Witnesses\<close>

text \<open>A sidecar that is open and has one entry.\<close>

definition indexed_sidecar :: "string \<Rightarrow> string \<Rightarrow> handle" where
  "indexed_sidecar hash i =
     (SidecarReady, Some (initialized_file\<lparr>sdb_index :=
        [\<lparr>hie_canonical_rule_hash = hash, hie_intent_id = i, hie_draft_id = ''d'', hie_draft_hash = ''h'',
          hie_indexed_at_ms = 0\<rparr>]\<rparr>))"

lemma indexed_sidecar_lookup:
  "length hash = 32 \<Longrightarrow>
     fst (lookup_hash (\<lambda>_. StorageOk) (hex_encode hash) (indexed_sidecar (hex_encode hash) i)) = LookupFound i"
  using hex_encode_lower [of hash]
  by (simp add: lookup_hash_def validate_lower_hex_def pool_for_lookup_def indexed_sidecar_def
      select_hash_entry_def works_def)

definition status_example :: status_world where
  "status_example =
     \<lparr>sq_crypto = example_crypto, sq_store = example_finalize_store, sq_storage = (\<lambda>_. StorageOk),
      sq_fault = (\<lambda>_. NoFault)\<rparr>"

lemma handoff_hash:
  assumes "finalize_intent W params s = (Inr (FinalizeHandoff r), s')"
    and "rule_codec (fw_crypto W) (fw_store W)"
  shows "\<exists>hash. ho_rule_hash r = hex_encode hash \<and> length hash = 32"
proof -
  from assms(1) obtain mint user rule row reused now where
    "issue_instructions W params mint user rule True reused row now = FinalizeHandoff r" by (rule finalize_handoff)
  from issue_handoff(6) [OF this] assms(2) show ?thesis by (auto simp: rule_codec_def)
qed

lemma status_example_ready:
  obtains r s' hash where
    "finalize_intent (finalize_example 100) example_params (example_start []) = (Inr (FinalizeHandoff r), s')"
    "ho_rule_hash r = hex_encode hash" "length hash = 32"
    "fst (lookup_hash (sq_storage status_example) (ho_rule_hash r) (indexed_sidecar (ho_rule_hash r) (ho_intent_id r)))
      = LookupFound (ho_intent_id r)"
proof -
  from example_finalize_runs obtain r s' where
    run: "finalize_intent (finalize_example 100) example_params (example_start []) = (Inr (FinalizeHandoff r), s')"
    by blast
  from handoff_hash [OF run example_codec] obtain hash where hash: "ho_rule_hash r = hex_encode hash" "length hash = 32"
    by blast
  with run indexed_sidecar_lookup [OF hash(2)] that show ?thesis by (simp add: status_example_def)
qed

lemma example_wallet_wf: "wf_pubkey (pinned_pubkey (fw_crypto (finalize_example slot)) controlled_wallet_bs58)"
  by (simp add: wf_pubkey_def finalize_example_def example_crypto_def example_key_def)

lemma status_example_env:
  "sq_crypto status_example = fw_crypto (finalize_example slot)"
  "sq_store status_example = fw_store (finalize_example slot)" "sq_fault status_example = (\<lambda>_. NoFault)"
  by (simp_all add: status_example_def finalize_example_def)

theorem handed_off_intents_are_found_witness:
  "\<exists>r s' resp h'. finalize_intent (finalize_example 100) example_params (example_start []) = (Inr (FinalizeHandoff r), s')
     \<and> query_intent_status status_example (ho_rule_hash r) (indexed_sidecar (ho_rule_hash r) (ho_intent_id r))
         (fz_intents s') (fz_rules s') = (Inr resp, h') \<and> isr_status resp = ''funding_required''"
proof -
  obtain r s' hash where
    run: "finalize_intent (finalize_example 100) example_params (example_start []) = (Inr (FinalizeHandoff r), s')"
    and look: "fst (lookup_hash (sq_storage status_example) (ho_rule_hash r)
      (indexed_sidecar (ho_rule_hash r) (ho_intent_id r))) = LookupFound (ho_intent_id r)"
    by (rule status_example_ready)
  from handed_off_intents_are_found [OF run example_codec example_wallet_wf status_example_env disjI2 [OF conjI [OF refl look]]]
  show ?thesis using run by blast
qed

theorem hash_refs_are_authoritative_witness:
  "\<exists>r s' resp h'. query_intent_status status_example (ho_rule_hash r) (indexed_sidecar (ho_rule_hash r) (ho_intent_id r))
       (fz_intents s') (fz_rules s') = (Inr resp, h')
     \<and> finalize_intent (finalize_example 100) example_params (example_start []) = (Inr (FinalizeHandoff r), s')
     \<and> (\<exists>uuid. query_intent_status status_example uuid (SidecarUnopened, None) (fz_intents s') (fz_rules s')
          = (Inr (resp\<lparr>isr_intent_ref := uuid\<rparr>), (SidecarUnopened, None)))"
proof -
  obtain r s' hash where
    run: "finalize_intent (finalize_example 100) example_params (example_start []) = (Inr (FinalizeHandoff r), s')"
    and hash: "ho_rule_hash r = hex_encode hash" "length hash = 32"
    and look: "fst (lookup_hash (sq_storage status_example) (ho_rule_hash r)
      (indexed_sidecar (ho_rule_hash r) (ho_intent_id r))) = LookupFound (ho_intent_id r)"
    by (rule status_example_ready)
  from handoff_found [OF run example_codec example_wallet_wf status_example_env disjI2 [OF conjI [OF refl look]]]
  obtain resp h' where query: "query_intent_status status_example (ho_rule_hash r)
      (indexed_sidecar (ho_rule_hash r) (ho_intent_id r)) (fz_intents s') (fz_rules s') = (Inr resp, h')"
      and status: "isr_status resp = ''funding_required''" by blast
  have "hash_ref (ho_rule_hash r) = Some (ho_rule_hash r)" using hash by (simp add: hash_ref_encoded)
  from hash_refs_are_authoritative [OF query this] status obtain uuid where
      "query_intent_status status_example uuid (SidecarUnopened, None) (fz_intents s') (fz_rules s')
         = (Inr (resp\<lparr>isr_intent_ref := uuid\<rparr>), (SidecarUnopened, None))" by auto
  with query run show ?thesis by blast
qed

end
