(* ===== verification/Rpc_Pool.thy ===== *)
theory Rpc_Pool
  imports Wallet_Pipeline
begin

text \<open>
  The pool of RPC endpoints with its circuit breakers, \<open>crates/solana-core/src/rpc/mod.rs\<close>, and the
  client on top of it, \<open>rpc/client.rs\<close>. An \<open>Instant\<close> is a number of a monotonic clock and a
  \<open>Duration\<close> a difference of such numbers; every operation takes the clock readings it makes. The
  node behind a client is a function from the client to its answer, so that an operation on the pool is
  the choice of a client, the answer, and the record of its success or failure. The lemmas relate the
  state of a breaker to the history of its endpoint.
\<close>

section \<open>Configuration and endpoints\<close>

record endpoint_config =
  ec_url :: string
  ec_label :: string
  ec_is_write_endpoint :: bool

record rpc_pool_config =
  pc_endpoints :: "endpoint_config list"
  pc_failure_threshold :: u32
  pc_recovery_interval :: nat
  pc_request_timeout :: nat

text \<open>Durations in milliseconds.\<close>

definition default_pool_config :: rpc_pool_config where
  "default_pool_config =
     \<lparr>pc_endpoints = [\<lparr>ec_url = ''https://api.devnet.solana.com'', ec_label = ''devnet-public'',
                       ec_is_write_endpoint = True\<rparr>],
      pc_failure_threshold = 3, pc_recovery_interval = 30000, pc_request_timeout = 15000\<rparr>"

record rpc_client =
  rc_url :: string
  rc_timeout :: nat

record endpoint_state =
  es_config :: endpoint_config
  es_client :: rpc_client
  es_consecutive_failures :: u32
  es_circuit_open_since :: "nat option"

definition endpoint_new :: "endpoint_config \<Rightarrow> nat \<Rightarrow> endpoint_state" where
  "endpoint_new config timeout =
     \<lparr>es_config = config, es_client = \<lparr>rc_url = ec_url config, rc_timeout = timeout\<rparr>,
      es_consecutive_failures = 0, es_circuit_open_since = None\<rparr>"

text \<open>\<open>Instant::elapsed\<close> saturates at zero.\<close>

definition is_available :: "nat \<Rightarrow> endpoint_state \<Rightarrow> nat \<Rightarrow> bool" where
  "is_available now ep recovery_interval =
     (case es_circuit_open_since ep of
        None \<Rightarrow> True
      | Some since \<Rightarrow> now - since \<ge> recovery_interval)"

definition endpoint_success :: "endpoint_state \<Rightarrow> endpoint_state" where
  "endpoint_success ep = ep\<lparr>es_consecutive_failures := 0, es_circuit_open_since := None\<rparr>"

definition endpoint_failure :: "nat \<Rightarrow> u32 \<Rightarrow> endpoint_state \<Rightarrow> endpoint_state" where
  "endpoint_failure now failure_threshold ep =
     (let ep = ep\<lparr>es_consecutive_failures := es_consecutive_failures ep + 1\<rparr> in
      if es_consecutive_failures ep \<ge> failure_threshold \<and> es_circuit_open_since ep = None
      then ep\<lparr>es_circuit_open_since := Some now\<rparr> else ep)"

section \<open>The pool\<close>

record rpc_pool =
  rp_config :: rpc_pool_config
  rp_endpoints :: "endpoint_state list"

definition pool_new :: "rpc_pool_config \<Rightarrow> rpc_pool" where
  "pool_new config =
     \<lparr>rp_config = config,
      rp_endpoints = map (\<lambda>ec. endpoint_new ec (pc_request_timeout config)) (pc_endpoints config)\<rparr>"

definition pick_any :: "nat \<Rightarrow> rpc_pool \<Rightarrow> solana_error + rpc_client" where
  "pick_any now pool =
     (case find (\<lambda>ep. is_available now ep (pc_recovery_interval (rp_config pool))) (rp_endpoints pool) of
        Some ep \<Rightarrow> Inr (es_client ep)
      | None \<Rightarrow> Inl ErrPoolExhausted)"

definition read_client :: "nat \<Rightarrow> rpc_pool \<Rightarrow> solana_error + rpc_client" where
  "read_client now pool = pick_any now pool"

text \<open>
  The lock is given back between the two loops of \<open>write_client\<close>: the second one sees the pool as it is
  then, at its own time.
\<close>

definition write_client :: "nat \<Rightarrow> rpc_pool \<Rightarrow> nat \<Rightarrow> rpc_pool \<Rightarrow> solana_error + rpc_client" where
  "write_client now pool now' pool' =
     (case find (\<lambda>ep. ec_is_write_endpoint (es_config ep)
                   \<and> is_available now ep (pc_recovery_interval (rp_config pool))) (rp_endpoints pool) of
        Some ep \<Rightarrow> Inr (es_client ep)
      | None \<Rightarrow> pick_any now' pool')"

text \<open>\<open>iter_mut().find\<close>: the first endpoint with this URL is changed.\<close>

fun update_first :: "('a \<Rightarrow> bool) \<Rightarrow> ('a \<Rightarrow> 'a) \<Rightarrow> 'a list \<Rightarrow> 'a list" where
  "update_first P f [] = []"
| "update_first P f (x # xs) = (if P x then f x # xs else x # update_first P f xs)"

definition record_success :: "string \<Rightarrow> rpc_pool \<Rightarrow> rpc_pool" where
  "record_success url pool =
     pool\<lparr>rp_endpoints := update_first (\<lambda>e. ec_url (es_config e) = url) endpoint_success (rp_endpoints pool)\<rparr>"

definition record_failure :: "nat \<Rightarrow> string \<Rightarrow> rpc_pool \<Rightarrow> rpc_pool" where
  "record_failure now url pool =
     pool\<lparr>rp_endpoints := update_first (\<lambda>e. ec_url (es_config e) = url)
        (endpoint_failure now (pc_failure_threshold (rp_config pool))) (rp_endpoints pool)\<rparr>"

section \<open>The client\<close>

fun to_sdk_commitment :: "commitment_level \<Rightarrow> commitment_config" where
  "to_sdk_commitment Processed = CommitmentProcessed"
| "to_sdk_commitment Confirmed = CommitmentConfirmed"
| "to_sdk_commitment Finalized = CommitmentFinalized"

text \<open>
  What the crates and the node do: parsing of keys, signatures and transactions, and the answer to each
  request, given as the text of the error or the value. The commitment is absent where the request has
  none.
\<close>

datatype 'tx rpc_request =
    RequestAccount pubkey commitment_config
  | RequestBalance pubkey commitment_config
  | RequestSlot commitment_config
  | RequestSignatures pubkey nat commitment_config
  | RequestTransaction signature commitment_config
  | RequestRentExemption nat
  | RequestFees "pubkey list"
  | RequestBlockHeight commitment_config
  | RequestSend 'tx send_config

record ('tx, 'r) node_env =
  ne_parse_pubkey :: "string \<Rightarrow> string + pubkey"
  ne_parse_signature :: "string \<Rightarrow> string + signature"
  ne_deserialize :: "bytes \<Rightarrow> string + 'tx"
  ne_answer :: "rpc_client \<Rightarrow> 'tx rpc_request \<Rightarrow> string + 'r"
  ne_pick_time :: nat                      \<comment> \<open>when the client is picked\<close>
  ne_fallback_time :: nat                  \<comment> \<open>when a write falls back to any endpoint\<close>
  ne_answer_time :: nat                    \<comment> \<open>when the answer is recorded\<close>
  ne_meanwhile :: "rpc_pool \<Rightarrow> rpc_pool"   \<comment> \<open>what other callers record before the fallback\<close>
  ne_in_flight :: "rpc_pool \<Rightarrow> rpc_pool"   \<comment> \<open>and while the request is under way\<close>

record claw_rpc_client =
  crc_pool :: rpc_pool
  crc_default_commitment :: commitment_level

definition client_new :: "rpc_pool \<Rightarrow> commitment_level \<Rightarrow> claw_rpc_client" where
  "client_new pool default_commitment = \<lparr>crc_pool = pool, crc_default_commitment = default_commitment\<rparr>"

definition parse_pubkey :: "('tx, 'r) node_env \<Rightarrow> string \<Rightarrow> solana_error + pubkey" where
  "parse_pubkey N s = map_err ErrInvalidPubkey (ne_parse_pubkey N s)"

definition with_pool :: "('a \<times> rpc_pool) \<Rightarrow> claw_rpc_client \<Rightarrow> 'a \<times> claw_rpc_client" where
  "with_pool r c = (fst r, c\<lparr>crc_pool := snd r\<rparr>)"

text \<open>The request to the picked client, and the record of its outcome.\<close>

definition recorded_call ::
    "('tx, 'r) node_env \<Rightarrow> (string \<Rightarrow> solana_error) \<Rightarrow> (solana_error + rpc_client) \<Rightarrow> 'tx rpc_request \<Rightarrow>
     rpc_pool \<Rightarrow> (solana_error + 'r) \<times> rpc_pool" where
  "recorded_call N err picked request pool =
     (case picked of
        Inl e \<Rightarrow> (Inl e, pool)
      | Inr client \<Rightarrow>
          (case ne_answer N client request of
             Inl e \<Rightarrow> (Inl (err e), record_failure (ne_answer_time N) (rc_url client) (ne_in_flight N pool))
           | Inr value \<Rightarrow> (Inr value, record_success (rc_url client) (ne_in_flight N pool))))"

definition read_call ::
    "('tx, 'r) node_env \<Rightarrow> 'tx rpc_request \<Rightarrow> claw_rpc_client \<Rightarrow> (solana_error + 'r) \<times> claw_rpc_client" where
  "read_call N request c =
     with_pool (recorded_call N ErrClient (read_client (ne_pick_time N) (crc_pool c)) request (crc_pool c)) c"

text \<open>Two requests do not report to the pool.\<close>

definition unrecorded_call ::
    "('tx, 'r) node_env \<Rightarrow> 'tx rpc_request \<Rightarrow> claw_rpc_client \<Rightarrow> (solana_error + 'r) \<times> claw_rpc_client" where
  "unrecorded_call N request c =
     (try_bind (read_client (ne_pick_time N) (crc_pool c)) (\<lambda>client. map_err ErrClient (ne_answer N client request)), c)"

definition get_account ::
    "('tx, 'acc option) node_env \<Rightarrow> string \<Rightarrow> commitment_level option \<Rightarrow> claw_rpc_client \<Rightarrow>
     (solana_error + 'acc) \<times> claw_rpc_client" where
  "get_account N pubkey commitment c =
     (case parse_pubkey N pubkey of
        Inl e \<Rightarrow> (Inl e, c)
      | Inr pk \<Rightarrow>
          (case read_call N (RequestAccount pk (to_sdk_commitment
                   (case commitment of Some l \<Rightarrow> l | None \<Rightarrow> crc_default_commitment c))) c of
             (result, c') \<Rightarrow> (try_bind result (\<lambda>value. ok_or value (ErrAccountNotFound pubkey)), c')))"

definition get_balance ::
    "('tx, u64) node_env \<Rightarrow> string \<Rightarrow> commitment_level option \<Rightarrow> claw_rpc_client \<Rightarrow>
     (solana_error + u64) \<times> claw_rpc_client" where
  "get_balance N pubkey commitment c =
     (case parse_pubkey N pubkey of
        Inl e \<Rightarrow> (Inl e, c)
      | Inr pk \<Rightarrow>
          read_call N (RequestBalance pk (to_sdk_commitment
            (case commitment of Some l \<Rightarrow> l | None \<Rightarrow> crc_default_commitment c))) c)"

definition get_slot ::
    "('tx, u64) node_env \<Rightarrow> commitment_level option \<Rightarrow> claw_rpc_client \<Rightarrow>
     (solana_error + u64) \<times> claw_rpc_client" where
  "get_slot N commitment c =
     read_call N (RequestSlot (to_sdk_commitment
       (case commitment of Some l \<Rightarrow> l | None \<Rightarrow> crc_default_commitment c))) c"

definition get_signatures_for_address ::
    "('tx, 'sig list) node_env \<Rightarrow> string \<Rightarrow> nat \<Rightarrow> commitment_level option \<Rightarrow> claw_rpc_client \<Rightarrow>
     (solana_error + 'sig list) \<times> claw_rpc_client" where
  "get_signatures_for_address N address limit commitment c =
     (case parse_pubkey N address of
        Inl e \<Rightarrow> (Inl e, c)
      | Inr pk \<Rightarrow>
          read_call N (RequestSignatures pk limit (to_sdk_commitment
            (case commitment of Some l \<Rightarrow> l | None \<Rightarrow> crc_default_commitment c))) c)"

definition client_get_transaction ::
    "('tx, 'enc) node_env \<Rightarrow> string \<Rightarrow> commitment_level option \<Rightarrow> claw_rpc_client \<Rightarrow>
     (solana_error + 'enc) \<times> claw_rpc_client" where
  "client_get_transaction N signature commitment c =
     (case ne_parse_signature N signature of
        Inl e \<Rightarrow> (Inl (ErrClient (''invalid signature: '' @ e)), c)
      | Inr sig \<Rightarrow>
          read_call N (RequestTransaction sig (to_sdk_commitment
            (case commitment of Some l \<Rightarrow> l | None \<Rightarrow> Confirmed))) c)"

definition get_minimum_balance_for_rent_exemption ::
    "('tx, u64) node_env \<Rightarrow> nat \<Rightarrow> claw_rpc_client \<Rightarrow> (solana_error + u64) \<times> claw_rpc_client" where
  "get_minimum_balance_for_rent_exemption N data_len c = unrecorded_call N (RequestRentExemption data_len) c"

definition get_recent_prioritization_fees ::
    "('tx, 'fee list) node_env \<Rightarrow> string list \<Rightarrow> claw_rpc_client \<Rightarrow> (solana_error + 'fee list) \<times> claw_rpc_client" where
  "get_recent_prioritization_fees N addresses c =
     (case collect_results (map (parse_pubkey N) addresses) of
        Inl e \<Rightarrow> (Inl e, c)
      | Inr pubkeys \<Rightarrow> unrecorded_call N (RequestFees pubkeys) c)"

definition get_block_height ::
    "('tx, u64) node_env \<Rightarrow> commitment_level option \<Rightarrow> claw_rpc_client \<Rightarrow>
     (solana_error + u64) \<times> claw_rpc_client" where
  "get_block_height N commitment c =
     read_call N (RequestBlockHeight (to_sdk_commitment
       (case commitment of Some l \<Rightarrow> l | None \<Rightarrow> Confirmed))) c"

definition pool_send_config :: send_config where
  "pool_send_config = \<lparr>snc_skip_preflight = True, snc_preflight_commitment = None, snc_max_retries = Some 0\<rparr>"

text \<open>The answer to a send is the text of the signature.\<close>

definition send_transaction_bytes ::
    "string \<Rightarrow> string \<Rightarrow> ('tx, string) node_env \<Rightarrow> bytes \<Rightarrow> claw_rpc_client \<Rightarrow>
     (solana_error + string) \<times> claw_rpc_client" where
  "send_transaction_bytes decode_text send_text N signed_tx_bytes c =
     (case ne_deserialize N signed_tx_bytes of
        Inl e \<Rightarrow> (Inl (ErrSolSerialization (decode_text @ e)), c)
      | Inr tx \<Rightarrow>
          (let pool' = ne_meanwhile N (crc_pool c) in
           with_pool (recorded_call N (\<lambda>e. ErrClient (send_text @ e))
             (write_client (ne_pick_time N) (crc_pool c) (ne_fallback_time N) pool') (RequestSend tx pool_send_config) pool') c))"

definition send_raw_transaction ::
    "('tx, string) node_env \<Rightarrow> bytes \<Rightarrow> claw_rpc_client \<Rightarrow> (solana_error + string) \<times> claw_rpc_client" where
  "send_raw_transaction = send_transaction_bytes ''deserialize signed tx: '' ''sendTransaction: ''"

definition send_raw_v0_transaction ::
    "('tx, string) node_env \<Rightarrow> bytes \<Rightarrow> claw_rpc_client \<Rightarrow> (solana_error + string) \<times> claw_rpc_client" where
  "send_raw_v0_transaction = send_transaction_bytes ''deserialize v0 signed tx: '' ''sendTransaction (v0): ''"

text \<open>The answer to a simulation: the error, in its debug text, and the logs. The pool is not told.\<close>

record v0_simulation =
  vs_err :: "string option"
  vs_logs :: "string list option"

definition simulate_v0_transaction ::
    "(rpc_client \<Rightarrow> simulate_config \<Rightarrow> string + v0_simulation) \<Rightarrow> nat \<Rightarrow> claw_rpc_client \<Rightarrow>
     solana_error + bool \<times> string option \<times> u64 option" where
  "simulate_v0_transaction answer now c =
     try_bind (read_client now (crc_pool c)) (\<lambda>client.
     try_bind (map_err (\<lambda>e. ErrClient (''simulateTransaction (v0): '' @ e))
         (answer client (simulation_config\<lparr>sc_replace_recent_blockhash := False\<rparr>))) (\<lambda>value.
       Inr (vs_err value = None, vs_err value,
            find_map consumed_units (rev (case vs_logs value of Some logs \<Rightarrow> logs | None \<Rightarrow> [])))))"


section \<open>The history of an endpoint\<close>

definition endpoint_event :: "u32 \<Rightarrow> nat \<times> bool \<Rightarrow> endpoint_state \<Rightarrow> endpoint_state" where
  "endpoint_event threshold e ep = (if snd e then endpoint_success ep else endpoint_failure (fst e) threshold ep)"

definition endpoint_run :: "u32 \<Rightarrow> endpoint_state \<Rightarrow> (nat \<times> bool) list \<Rightarrow> endpoint_state" where
  "endpoint_run threshold ep es = fold (endpoint_event threshold) es ep"

text \<open>The failures since the last success.\<close>

definition failures_since_success :: "(nat \<times> bool) list \<Rightarrow> (nat \<times> bool) list" where
  "failures_since_success es = rev (takeWhile (\<lambda>e. \<not> snd e) (rev es))"

lemma failures_since_success_simps [simp]:
  "failures_since_success [] = []"
  "failures_since_success (es @ [e]) = (if snd e then [] else failures_since_success es @ [e])"
  by (simp_all add: failures_since_success_def)

lemma length_failures: "length (failures_since_success es) \<le> length es"
  unfolding failures_since_success_def by (metis length_rev length_takeWhile_le)

text \<open>The failure that opens the circuit, when there is one.\<close>

definition opened_at :: "u32 \<Rightarrow> (nat \<times> bool) list \<Rightarrow> nat option" where
  "opened_at threshold es =
     (let fs = failures_since_success es; k = max 1 (unat threshold) in
      if k \<le> length fs then Some (fst (fs ! (k - 1))) else None)"

lemma endpoint_follows_history:
  assumes "length es < 2 ^ 32"
  shows "unat (es_consecutive_failures (endpoint_run threshold (endpoint_new ec timeout) es))
       = length (failures_since_success es)"
    and "es_circuit_open_since (endpoint_run threshold (endpoint_new ec timeout) es) = opened_at threshold es"
    and "es_config (endpoint_run threshold (endpoint_new ec timeout) es) = ec"
    and "es_client (endpoint_run threshold (endpoint_new ec timeout) es) = \<lparr>rc_url = ec_url ec, rc_timeout = timeout\<rparr>"
proof -
  have "unat (es_consecutive_failures (endpoint_run threshold (endpoint_new ec timeout) es))
       = length (failures_since_success es)
    \<and> es_circuit_open_since (endpoint_run threshold (endpoint_new ec timeout) es) = opened_at threshold es
    \<and> es_config (endpoint_run threshold (endpoint_new ec timeout) es) = ec
    \<and> es_client (endpoint_run threshold (endpoint_new ec timeout) es) = \<lparr>rc_url = ec_url ec, rc_timeout = timeout\<rparr>"
    using assms
  proof (induction es rule: rev_induct)
    case Nil
    then show ?case by (simp add: endpoint_run_def endpoint_new_def opened_at_def)
  next
    case (snoc e es)
    let ?ep = "endpoint_run threshold (endpoint_new ec timeout) es"
    from snoc have IH: "unat (es_consecutive_failures ?ep) = length (failures_since_success es)"
        "es_circuit_open_since ?ep = opened_at threshold es" "es_config ?ep = ec"
        "es_client ?ep = \<lparr>rc_url = ec_url ec, rc_timeout = timeout\<rparr>" by simp_all
    have run: "endpoint_run threshold (endpoint_new ec timeout) (es @ [e]) = endpoint_event threshold e ?ep"
      by (simp add: endpoint_run_def)
    have next_count: "unat (es_consecutive_failures ?ep + 1) = length (failures_since_success es) + 1"
      using snoc.prems length_failures [of es] IH(1) by (simp add: unat_add_no_wrap)
    show ?case
    proof (cases "snd e")
      case True
      then show ?thesis
        using IH by (simp add: run endpoint_event_def endpoint_success_def opened_at_def)
    next
      case False
      then show ?thesis
        using IH next_count unfolding run
        by (auto simp: endpoint_event_def endpoint_failure_def Let_def opened_at_def word_le_nat_alt nth_append
            max_def split: if_splits)
    qed
  qed
  then show "unat (es_consecutive_failures (endpoint_run threshold (endpoint_new ec timeout) es))
       = length (failures_since_success es)"
    and "es_circuit_open_since (endpoint_run threshold (endpoint_new ec timeout) es) = opened_at threshold es"
    and "es_config (endpoint_run threshold (endpoint_new ec timeout) es) = ec"
    and "es_client (endpoint_run threshold (endpoint_new ec timeout) es) = \<lparr>rc_url = ec_url ec, rc_timeout = timeout\<rparr>"
    by simp_all
qed

section \<open>The history of the pool\<close>

text \<open>Outcomes recorded for a URL: the time, the URL, and whether the call succeeded.\<close>

type_synonym pool_event = "nat \<times> string \<times> bool"

fun pool_step :: "pool_event \<Rightarrow> rpc_pool \<Rightarrow> rpc_pool" where
  "pool_step (now, url, ok) pool = (if ok then record_success url pool else record_failure now url pool)"

definition pool_run :: "rpc_pool \<Rightarrow> pool_event list \<Rightarrow> rpc_pool" where
  "pool_run pool es = fold pool_step es pool"

definition history :: "string \<Rightarrow> pool_event list \<Rightarrow> (nat \<times> bool) list" where
  "history url es = map (\<lambda>(now, _, ok). (now, ok)) (filter (\<lambda>(_, u, _). u = url) es)"

lemma length_history: "length (history url es) \<le> length es"
  by (simp add: history_def)

lemma update_first_distinct:
  "distinct (map k xs) \<Longrightarrow> update_first (\<lambda>x. k x = u) f xs = map (\<lambda>x. if k x = u then f x else x) xs"
  by (induction xs) (auto intro!: map_idI [symmetric], metis image_eqI)

lemma pool_run_endpoints:
  assumes "distinct (map ec_url (pc_endpoints config))"
  shows "rp_config (pool_run (pool_new config) es) = config
    \<and> rp_endpoints (pool_run (pool_new config) es)
      = map (\<lambda>ec. endpoint_run (pc_failure_threshold config) (endpoint_new ec (pc_request_timeout config))
                  (history (ec_url ec) es)) (pc_endpoints config)"
proof (induction es rule: rev_induct)
  case Nil
  then show ?case by (simp add: pool_run_def pool_new_def history_def endpoint_run_def)
next
  case (snoc e es)
  obtain now url ok where e: "e = (now, url, ok)" by (cases e)
  let ?pool = "pool_run (pool_new config) es"
  have url_fixed: "ec_url (es_config (endpoint_run T (endpoint_new ec t) h)) = ec_url ec" for T ec t h
  proof (induction h rule: rev_induct)
    case Nil
    then show ?case by (simp add: endpoint_run_def endpoint_new_def)
  next
    case (snoc x xs)
    then show ?case
      by (simp add: endpoint_run_def endpoint_event_def endpoint_success_def endpoint_failure_def Let_def)
  qed
  have run: "pool_run (pool_new config) (es @ [(now, url, ok)]) = pool_step (now, url, ok) ?pool"
    by (simp add: pool_run_def)
  have "distinct (map (\<lambda>ep. ec_url (es_config ep))
      (map (\<lambda>ec. endpoint_run (pc_failure_threshold config) (endpoint_new ec (pc_request_timeout config))
                  (history (ec_url ec) es)) (pc_endpoints config)))"
    using assms by (simp add: url_fixed comp_def)
  note update = update_first_distinct [OF this]
  have history: "history u (es @ [(now, url, ok)]) = history u es @ (if u = url then [(now, ok)] else [])" for u
    by (simp add: history_def)
  have snoc_run: "endpoint_run T ep (h @ [x]) = endpoint_event T x (endpoint_run T ep h)" for T ep h x
    by (simp add: endpoint_run_def)
  show ?case
    using snoc unfolding e run history
    by (cases ok)
      (auto simp: record_success_def record_failure_def update url_fixed endpoint_event_def snoc_run)
qed

text \<open>An endpoint is served when its circuit never opened, or the recovery interval has passed since.\<close>

definition served :: "rpc_pool_config \<Rightarrow> pool_event list \<Rightarrow> nat \<Rightarrow> endpoint_config \<Rightarrow> bool" where
  "served config es now ec \<longleftrightarrow>
     (case opened_at (pc_failure_threshold config) (history (ec_url ec) es) of
        None \<Rightarrow> True
      | Some since \<Rightarrow> now - since \<ge> pc_recovery_interval config)"

definition client_of :: "rpc_pool_config \<Rightarrow> endpoint_config \<Rightarrow> rpc_client" where
  "client_of config ec = \<lparr>rc_url = ec_url ec, rc_timeout = pc_request_timeout config\<rparr>"

lemma find_map_list: "find P (map f xs) = map_option f (find (P \<circ> f) xs)"
  by (induction xs) auto

lemma find_cong_pred: "(\<And>x. P x = Q x) \<Longrightarrow> find P xs = find Q xs"
  by (induction xs) auto

lemma endpoint_served:
  assumes "length es < 2 ^ 32"
  shows "is_available now (endpoint_run (pc_failure_threshold config) (endpoint_new ec t) (history (ec_url ec) es))
      (pc_recovery_interval config) = served config es now ec"
proof -
  have "length (history (ec_url ec) es) < 2 ^ 32" using assms length_history [of "ec_url ec" es] by simp
  then show ?thesis by (simp add: is_available_def served_def endpoint_follows_history)
qed

lemma pick_any_history:
  assumes "distinct (map ec_url (pc_endpoints config))" and "length es < 2 ^ 32"
  shows "pick_any now (pool_run (pool_new config) es) =
    (case find (served config es now) (pc_endpoints config) of
       Some ec \<Rightarrow> Inr (client_of config ec)
     | None \<Rightarrow> Inl ErrPoolExhausted)"
proof -
  let ?run = "\<lambda>ec. endpoint_run (pc_failure_threshold config) (endpoint_new ec (pc_request_timeout config))
      (history (ec_url ec) es)"
  have short: "length (history u es) < 2 ^ 32" for u using assms(2) length_history [of u es] by simp
  have "es_client (?run ec) = client_of config ec" for ec
    by (simp add: endpoint_follows_history [OF short] client_of_def)
  then show ?thesis
    using pool_run_endpoints [OF assms(1), of es]
    by (simp add: pick_any_def find_map_list comp_def endpoint_served [OF assms(2)] split: option.splits)
qed

section \<open>The pool serves by history\<close>

text \<open>C25: The choice of an endpoint is a function of what was recorded: after any run of recorded outcomes,
  a read is given the first configured endpoint whose circuit is closed or has been open for the recovery
  interval, where the circuit opened at the threshold-th failure since the endpoint's last success; no
  other call changes it. The URLs differ, and no failure counter has wrapped.\<close>

theorem reads_follow_the_history:
  assumes "distinct (map ec_url (pc_endpoints config))" and "length es < 2 ^ 32"
  shows "read_client now (pool_run (pool_new config) es) =
    (case find (served config es now) (pc_endpoints config) of
       Some ec \<Rightarrow> Inr \<lparr>rc_url = ec_url ec, rc_timeout = pc_request_timeout config\<rparr>
     | None \<Rightarrow> Inl ErrPoolExhausted)"
  using pick_any_history [OF assms] unfolding read_client_def client_of_def .

definition two_endpoints :: rpc_pool_config where
  "two_endpoints =
     \<lparr>pc_endpoints = [\<lparr>ec_url = ''primary'', ec_label = ''primary'', ec_is_write_endpoint = True\<rparr>,
                      \<lparr>ec_url = ''replica'', ec_label = ''replica'', ec_is_write_endpoint = False\<rparr>],
      pc_failure_threshold = 3, pc_recovery_interval = 30000, pc_request_timeout = 15000\<rparr>"

definition dead_primary :: "pool_event list" where
  "dead_primary = [(0, ''primary'', False), (5, ''primary'', False), (9, ''primary'', False)]"

lemma two_endpoints_distinct: "distinct (map ec_url (pc_endpoints two_endpoints))"
  by (simp add: two_endpoints_def)

lemma dead_primary_history:
  "history ''primary'' dead_primary = [(0, False), (5, False), (9, False)]" "history ''replica'' dead_primary = []"
  by (simp_all add: history_def dead_primary_def)

lemma dead_primary_opened:
  "opened_at 3 [(0, False), (5, False), (9, False)] = Some 9" "opened_at 3 [] = None"
  by (simp_all add: opened_at_def failures_since_success_def)

text \<open>While the circuit of the primary is open, the replica is read.\<close>

theorem reads_follow_the_history_witness:
  "read_client 20000 (pool_run (pool_new two_endpoints) dead_primary)
     = Inr \<lparr>rc_url = ''replica'', rc_timeout = 15000\<rparr>"
proof -
  have short: "length dead_primary < 2 ^ 32" by (simp add: dead_primary_def)
  have "\<not> served two_endpoints dead_primary 20000
      \<lparr>ec_url = ''primary'', ec_label = ''primary'', ec_is_write_endpoint = True\<rparr>"
    "served two_endpoints dead_primary 20000
      \<lparr>ec_url = ''replica'', ec_label = ''replica'', ec_is_write_endpoint = False\<rparr>"
    using dead_primary_opened by (simp_all add: served_def dead_primary_history two_endpoints_def)
  then show ?thesis
    unfolding reads_follow_the_history [OF two_endpoints_distinct short]
    by (simp add: two_endpoints_def)
qed

text \<open>Later failures do not move the opening of a circuit.\<close>

lemma failures_append:
  "list_all (\<lambda>e. \<not> snd e) fs \<Longrightarrow> failures_since_success (es @ fs) = failures_since_success es @ fs"
proof (induction fs rule: rev_induct)
  case (snoc x xs)
  then show ?case
    using failures_since_success_simps(2) [of "es @ xs" x] by simp
qed simp

lemma opened_at_append:
  assumes "opened_at threshold es = Some since" and "list_all (\<lambda>e. \<not> snd e) fs"
  shows "opened_at threshold (es @ fs) = Some since"
  using assms by (auto simp: opened_at_def Let_def failures_append nth_append split: if_splits)

lemma history_append: "history url (es @ fs) = history url es @ history url fs"
  by (simp add: history_def)

text \<open>C26: A failed probe does not start a new recovery interval: once the circuit of the first endpoint has
  been open for one interval, every read is sent to it again, for as long as it goes on failing and
  however often it does; the endpoints behind it are not read any more.\<close>

theorem failed_probes_are_not_held_off:
  assumes "distinct (map ec_url (pc_endpoints config))" and "length (es @ fs) < 2 ^ 32"
    and primary: "pc_endpoints config = primary # others"
    and opened: "opened_at (pc_failure_threshold config) (history (ec_url primary) es) = Some since"
    and dead: "list_all (\<lambda>(_, url, ok). url = ec_url primary \<longrightarrow> \<not> ok) fs"
    and elapsed: "since + pc_recovery_interval config \<le> now"
  shows "read_client now (pool_run (pool_new config) (es @ fs))
    = Inr \<lparr>rc_url = ec_url primary, rc_timeout = pc_request_timeout config\<rparr>"
proof -
  have "list_all (\<lambda>e. \<not> snd e) (history (ec_url primary) fs)"
    using dead by (auto simp: list_all_iff history_def)
  from opened_at_append [OF opened this] elapsed have "served config (es @ fs) now primary"
    by (simp add: served_def history_append)
  then show ?thesis
    using pick_any_history [OF assms(1,2)] by (simp add: read_client_def primary client_of_def)
qed

text \<open>Three failures, an interval, two failed probes: the dead primary is read a third time.\<close>

theorem failed_probes_are_not_held_off_witness:
  "read_client 30100 (pool_run (pool_new two_endpoints)
       (dead_primary @ [(30010, ''primary'', False), (30050, ''primary'', False)]))
     = Inr \<lparr>rc_url = ''primary'', rc_timeout = 15000\<rparr>"
  using failed_probes_are_not_held_off [OF two_endpoints_distinct, of dead_primary
      "[(30010, ''primary'', False), (30050, ''primary'', False)]"
      "\<lparr>ec_url = ''primary'', ec_label = ''primary'', ec_is_write_endpoint = True\<rparr>"
      "[\<lparr>ec_url = ''replica'', ec_label = ''replica'', ec_is_write_endpoint = False\<rparr>]" 9 30100]
    dead_primary_history dead_primary_opened
  by (simp add: dead_primary_def two_endpoints_def)

end
