(* ===== verification/Pending_State.thy ===== *)
theory Pending_State
  imports Execution_Store
begin

text \<open>
  The durable pending state, \<open>crates/state-store/src/pending_state.rs\<close> over the tables of
  \<open>migrations/0003\<close> and \<open>0004\<close>: approvals, signatures and completion metadata that a restart recovers.
  A method is its SQL statements on the three tables, with the clock reading and the fault of each
  statement as arguments. \<open>pending_table\<close> is what the three tables share; the lemmas say which requests
  a recovery returns after any sequence of calls and faults, and how often a request can be settled.
\<close>

section \<open>Statements\<close>

definition sql_replace :: "('r \<Rightarrow> 'k) \<Rightarrow> 'r \<Rightarrow> 'r list \<Rightarrow> 'r list" where
  "sql_replace key r t = filter (\<lambda>x. key x \<noteq> key r) t @ [r]"

definition sql_delete :: "('r \<Rightarrow> bool) \<Rightarrow> 'r list \<Rightarrow> 'r list \<times> nat" where
  "sql_delete P t = (filter (\<lambda>r. \<not> P r) t, length (filter P t))"

text \<open>A statement that fails after its effect answers with an error all the same.\<close>

definition statement :: "db_fault \<Rightarrow> ('t \<Rightarrow> 't \<times> 'a) \<Rightarrow> 't \<Rightarrow> (store_error + 'a) \<times> 't" where
  "statement fault f t =
     (case fault of
        NoFault \<Rightarrow> (Inr (snd (f t)), fst (f t))
      | FailBefore \<Rightarrow> (Inl (Sqlx ''database unavailable''), t)
      | FailAfter \<Rightarrow> (Inl (Sqlx ''database unavailable''), fst (f t)))"

section \<open>Rows\<close>

record pending_approval_row =
  par_request_id :: string
  par_session_id :: string
  par_transaction_id :: string
  par_description :: string
  par_wallet_pubkey :: string
  par_approval_json :: string
  par_tx_bytes_hex :: string
  par_simulation_json :: string
  par_verdict_json :: string
  par_created_at :: i64
  par_state :: string
  par_terminal_reason :: "string option"

record pending_signature_row =
  psr_request_id :: string
  psr_session_id :: string
  psr_transaction_id :: string
  psr_expected_signer :: string
  psr_description :: string
  psr_finalized_tx_bytes :: bytes
  psr_adapter_type :: string
  psr_created_at :: i64
  psr_state :: string
  psr_terminal_reason :: "string option"

record pending_completion_meta_row =
  pcm_request_id :: string
  pcm_fee_lamports :: "i64 option"
  pcm_created_at :: i64
  pcm_state :: string

record pending_db =
  pdb_approvals :: "pending_approval_row list"
  pdb_signatures :: "pending_signature_row list"
  pdb_meta :: "pending_completion_meta_row list"

record expired_counts =
  xc_approvals :: nat
  xc_signatures :: nat
  xc_meta :: nat

definition on_approvals ::
    "(pending_approval_row list \<Rightarrow> pending_approval_row list \<times> 'a) \<Rightarrow> pending_db \<Rightarrow> pending_db \<times> 'a" where
  "on_approvals f db = (db\<lparr>pdb_approvals := fst (f (pdb_approvals db))\<rparr>, snd (f (pdb_approvals db)))"

definition on_signatures ::
    "(pending_signature_row list \<Rightarrow> pending_signature_row list \<times> 'a) \<Rightarrow> pending_db \<Rightarrow> pending_db \<times> 'a" where
  "on_signatures f db = (db\<lparr>pdb_signatures := fst (f (pdb_signatures db))\<rparr>, snd (f (pdb_signatures db)))"

definition on_meta ::
    "(pending_completion_meta_row list \<Rightarrow> pending_completion_meta_row list \<times> 'a) \<Rightarrow> pending_db \<Rightarrow> pending_db \<times> 'a" where
  "on_meta f db = (db\<lparr>pdb_meta := fst (f (pdb_meta db))\<rparr>, snd (f (pdb_meta db)))"

section \<open>Approvals\<close>

text \<open>The row that is written: the arguments, the clock and the state \<open>pending\<close>.\<close>

definition new_approval_row :: "i64 \<Rightarrow> pending_approval_row \<Rightarrow> pending_approval_row" where
  "new_approval_row now row = row\<lparr>par_created_at := now, par_state := ''pending'', par_terminal_reason := None\<rparr>"

definition insert_pending_approval ::
    "db_fault \<Rightarrow> i64 \<Rightarrow> pending_approval_row \<Rightarrow> pending_db \<Rightarrow> (store_error + unit) \<times> pending_db" where
  "insert_pending_approval fault now row =
     statement fault (on_approvals (\<lambda>t. (sql_replace par_request_id (new_approval_row now row) t, ())))"

definition mark_approval ::
    "string \<Rightarrow> string option \<Rightarrow> pending_approval_row \<Rightarrow> pending_approval_row" where
  "mark_approval terminal_state reason r = r\<lparr>par_state := terminal_state, par_terminal_reason := reason\<rparr>"

definition mark_approval_terminal ::
    "db_fault \<Rightarrow> string \<Rightarrow> string \<Rightarrow> string option \<Rightarrow> pending_db \<Rightarrow> (store_error + bool) \<times> pending_db" where
  "mark_approval_terminal fault request_id terminal_state reason =
     statement fault (on_approvals (\<lambda>t. apsnd (\<lambda>n. n > 0)
       (sql_update (\<lambda>r. par_request_id r = request_id \<and> par_state r = ''pending'')
          (mark_approval terminal_state reason) t)))"

definition remove_pending_approval ::
    "db_fault \<Rightarrow> string \<Rightarrow> pending_db \<Rightarrow> (store_error + bool) \<times> pending_db" where
  "remove_pending_approval fault request_id =
     statement fault (on_approvals (\<lambda>t. apsnd (\<lambda>n. n > 0) (sql_delete (\<lambda>r. par_request_id r = request_id) t)))"

definition load_pending_approvals :: "pending_db \<Rightarrow> pending_approval_row list" where
  "load_pending_approvals db =
     sort_key (\<lambda>r. sint (par_created_at r)) (filter (\<lambda>r. par_state r = ''pending'') (pdb_approvals db))"

section \<open>Signatures\<close>

definition new_signature_row :: "i64 \<Rightarrow> pending_signature_row \<Rightarrow> pending_signature_row" where
  "new_signature_row now row = row\<lparr>psr_created_at := now, psr_state := ''pending'', psr_terminal_reason := None\<rparr>"

definition insert_pending_signature ::
    "db_fault \<Rightarrow> i64 \<Rightarrow> pending_signature_row \<Rightarrow> pending_db \<Rightarrow> (store_error + unit) \<times> pending_db" where
  "insert_pending_signature fault now row =
     statement fault (on_signatures (\<lambda>t. (sql_replace psr_request_id (new_signature_row now row) t, ())))"

definition mark_signature ::
    "string \<Rightarrow> string option \<Rightarrow> pending_signature_row \<Rightarrow> pending_signature_row" where
  "mark_signature terminal_state reason r = r\<lparr>psr_state := terminal_state, psr_terminal_reason := reason\<rparr>"

definition mark_signature_terminal ::
    "db_fault \<Rightarrow> string \<Rightarrow> string \<Rightarrow> string option \<Rightarrow> pending_db \<Rightarrow> (store_error + bool) \<times> pending_db" where
  "mark_signature_terminal fault request_id terminal_state reason =
     statement fault (on_signatures (\<lambda>t. apsnd (\<lambda>n. n > 0)
       (sql_update (\<lambda>r. psr_request_id r = request_id \<and> psr_state r = ''pending'')
          (mark_signature terminal_state reason) t)))"

definition remove_pending_signature ::
    "db_fault \<Rightarrow> string \<Rightarrow> pending_db \<Rightarrow> (store_error + bool) \<times> pending_db" where
  "remove_pending_signature fault request_id =
     statement fault (on_signatures (\<lambda>t. apsnd (\<lambda>n. n > 0) (sql_delete (\<lambda>r. psr_request_id r = request_id) t)))"

definition load_pending_signatures :: "pending_db \<Rightarrow> pending_signature_row list" where
  "load_pending_signatures db =
     sort_key (\<lambda>r. sint (psr_created_at r)) (filter (\<lambda>r. psr_state r = ''pending'') (pdb_signatures db))"

section \<open>Completion metadata\<close>

definition new_meta_row :: "i64 \<Rightarrow> string \<Rightarrow> u64 option \<Rightarrow> pending_completion_meta_row" where
  "new_meta_row now request_id fee_lamports =
     \<lparr>pcm_request_id = request_id, pcm_fee_lamports = map_option ucast fee_lamports,
      pcm_created_at = now, pcm_state = ''pending''\<rparr>"

definition insert_completion_meta ::
    "db_fault \<Rightarrow> i64 \<Rightarrow> string \<Rightarrow> u64 option \<Rightarrow> pending_db \<Rightarrow> (store_error + unit) \<times> pending_db" where
  "insert_completion_meta fault now request_id fee_lamports =
     statement fault (on_meta (\<lambda>t. (sql_replace pcm_request_id (new_meta_row now request_id fee_lamports) t, ())))"

definition mark_meta :: "string \<Rightarrow> pending_completion_meta_row \<Rightarrow> pending_completion_meta_row" where
  "mark_meta terminal_state r = r\<lparr>pcm_state := terminal_state\<rparr>"

definition mark_completion_meta_terminal ::
    "db_fault \<Rightarrow> string \<Rightarrow> string \<Rightarrow> pending_db \<Rightarrow> (store_error + bool) \<times> pending_db" where
  "mark_completion_meta_terminal fault request_id terminal_state =
     statement fault (on_meta (\<lambda>t. apsnd (\<lambda>n. n > 0)
       (sql_update (\<lambda>r. pcm_request_id r = request_id \<and> pcm_state r = ''pending'') (mark_meta terminal_state) t)))"

definition remove_completion_meta ::
    "db_fault \<Rightarrow> string \<Rightarrow> pending_db \<Rightarrow> (store_error + bool) \<times> pending_db" where
  "remove_completion_meta fault request_id =
     statement fault (on_meta (\<lambda>t. apsnd (\<lambda>n. n > 0) (sql_delete (\<lambda>r. pcm_request_id r = request_id) t)))"

definition load_completion_meta :: "pending_db \<Rightarrow> pending_completion_meta_row list" where
  "load_completion_meta db =
     sort_key (\<lambda>r. sint (pcm_created_at r)) (filter (\<lambda>r. pcm_state r = ''pending'') (pdb_meta db))"

section \<open>Several statements\<close>

text \<open>
  One transaction: a failed begin or insert rolls it back, a failed commit may have happened. The steps
  are numbered 0 (begin) to 3 (commit).
\<close>

definition insert_signature_and_meta ::
    "(nat \<Rightarrow> db_fault) \<Rightarrow> i64 \<Rightarrow> pending_signature_row \<Rightarrow> u64 option \<Rightarrow> pending_db \<Rightarrow>
     (store_error + unit) \<times> pending_db" where
  "insert_signature_and_meta fault now row fee_lamports db =
     (if fault 0 \<noteq> NoFault \<or> fault 1 \<noteq> NoFault \<or> fault 2 \<noteq> NoFault
      then (Inl (Sqlx ''database unavailable''), db)
      else statement (fault 3) (\<lambda>db.
        (let db1 = fst (on_signatures (\<lambda>t. (sql_replace psr_request_id (new_signature_row now row) t, ())) db) in
         on_meta (\<lambda>t. (sql_replace pcm_request_id (new_meta_row now (psr_request_id row) fee_lamports) t, ())) db1)) db)"

definition ttl_reason :: string where "ttl_reason = ''TTL exceeded on startup''"

text \<open>Three statements, one after the other, without a transaction; the first error ends the call.\<close>

definition then_statement ::
    "(store_error + 'a) \<times> pending_db \<Rightarrow> ('a \<Rightarrow> pending_db \<Rightarrow> (store_error + 'b) \<times> pending_db) \<Rightarrow>
     (store_error + 'b) \<times> pending_db" where
  "then_statement r f = (case r of (Inl e, db) \<Rightarrow> (Inl e, db) | (Inr a, db) \<Rightarrow> f a db)"

definition expire_older_than ::
    "(nat \<Rightarrow> db_fault) \<Rightarrow> i64 \<Rightarrow> i64 \<Rightarrow> pending_db \<Rightarrow> (store_error + expired_counts) \<times> pending_db" where
  "expire_older_than fault now max_age_ms db =
     (let cutoff = now - max_age_ms in
      then_statement (statement (fault 0) (on_approvals (sql_update
          (\<lambda>r. par_state r = ''pending'' \<and> sint (par_created_at r) \<le> sint cutoff)
          (mark_approval ''expired'' (Some ttl_reason)))) db) (\<lambda>approvals db.
      then_statement (statement (fault 1) (on_signatures (sql_update
          (\<lambda>r. psr_state r = ''pending'' \<and> sint (psr_created_at r) \<le> sint cutoff)
          (mark_signature ''expired'' (Some ttl_reason)))) db) (\<lambda>signatures db.
      then_statement (statement (fault 2) (on_meta (sql_update
          (\<lambda>r. pcm_state r = ''pending'' \<and> sint (pcm_created_at r) \<le> sint cutoff)
          (mark_meta ''expired''))) db) (\<lambda>meta db.
        (Inr \<lparr>xc_approvals = approvals, xc_signatures = signatures, xc_meta = meta\<rparr>, db)))))"

definition purge_terminal ::
    "(nat \<Rightarrow> db_fault) \<Rightarrow> i64 \<Rightarrow> i64 \<Rightarrow> pending_db \<Rightarrow> (store_error + nat) \<times> pending_db" where
  "purge_terminal fault now retention_ms db =
     (let cutoff = now - retention_ms in
      then_statement (statement (fault 0) (on_approvals (sql_delete
          (\<lambda>r. par_state r \<noteq> ''pending'' \<and> sint (par_created_at r) \<le> sint cutoff))) db) (\<lambda>a db.
      then_statement (statement (fault 1) (on_signatures (sql_delete
          (\<lambda>r. psr_state r \<noteq> ''pending'' \<and> sint (psr_created_at r) \<le> sint cutoff))) db) (\<lambda>b db.
      then_statement (statement (fault 2) (on_meta (sql_delete
          (\<lambda>r. pcm_state r \<noteq> ''pending'' \<and> sint (pcm_created_at r) \<le> sint cutoff))) db) (\<lambda>c db.
        (Inr (a + b + c), db)))))"


section \<open>What the three tables share\<close>

text \<open>
  The effects on one table, as they matter for recovery: a request with its time is live after an
  insertion, until it is settled in another state, removed or expired; purging does not touch it.
\<close>

datatype pending_effect =
    Inserted string i64
  | Settled string string
  | Dropped string
  | ExpiredUpTo i64
  | Purged

fun live_after :: "pending_effect \<Rightarrow> (string \<times> i64) set \<Rightarrow> (string \<times> i64) set" where
  "live_after (Inserted i now) L = {p \<in> L. fst p \<noteq> i} \<union> {(i, now)}"
| "live_after (Settled i s) L = (if s = ''pending'' then L else {p \<in> L. fst p \<noteq> i})"
| "live_after (Dropped i) L = {p \<in> L. fst p \<noteq> i}"
| "live_after (ExpiredUpTo cutoff) L = {p \<in> L. \<not> sint (snd p) \<le> sint cutoff}"
| "live_after Purged L = L"

locale pending_table =
  fixes key :: "'r \<Rightarrow> string"
    and state :: "'r \<Rightarrow> string"
    and created :: "'r \<Rightarrow> i64"
begin

definition live :: "'r list \<Rightarrow> (string \<times> i64) set" where
  "live t = (\<lambda>r. (key r, created r)) ` {r \<in> set t. state r = ''pending''}"

lemma live_map:
  assumes "\<And>r. key (g r) = key r" "\<And>r. created (g r) = created r"
    and "\<And>r. state (g r) = ''pending'' \<longleftrightarrow> state r = ''pending'' \<and> Q (key r, created r)"
  shows "live (map g t) = {p \<in> live t. Q p}"
proof -
  have "{r \<in> set (map g t). state r = ''pending''} = g ` {r \<in> set t. state r = ''pending'' \<and> Q (key r, created r)}"
    using assms(3) by auto
  then have "live (map g t) = (\<lambda>r. (key r, created r)) ` {r \<in> set t. state r = ''pending'' \<and> Q (key r, created r)}"
    by (simp add: live_def image_image assms(1,2))
  then show ?thesis by (auto simp: live_def)
qed

lemma live_filter:
  assumes "\<And>r. state r = ''pending'' \<Longrightarrow> P r \<longleftrightarrow> Q (key r, created r)"
  shows "live (filter P t) = {p \<in> live t. Q p}"
  using assms by (auto simp: live_def)

lemma live_append: "live (t @ t') = live t \<union> live t'"
  by (auto simp: live_def)

lemma live_replace:
  assumes "state r = ''pending''"
  shows "live (sql_replace key r t) = live_after (Inserted (key r) (created r)) (live t)"
proof -
  have "live (filter (\<lambda>x. key x \<noteq> key r) t) = {p \<in> live t. fst p \<noteq> key r}"
    by (rule live_filter) simp
  moreover have "live [r] = {(key r, created r)}" using assms by (auto simp: live_def)
  ultimately show ?thesis by (simp add: sql_replace_def live_append)
qed

lemma live_settle:
  assumes "\<And>r. key (f r) = key r" "\<And>r. created (f r) = created r" "\<And>r. state (f r) = s"
  shows "live (fst (sql_update (\<lambda>r. key r = i \<and> state r = ''pending'') f t)) = live_after (Settled i s) (live t)"
proof -
  have "live (fst (sql_update (\<lambda>r. key r = i \<and> state r = ''pending'') f t))
      = {p \<in> live t. fst p = i \<longrightarrow> s = ''pending''}"
    unfolding sql_update_def fst_conv by (rule live_map) (auto simp: assms)
  then show ?thesis by auto
qed

lemma live_delete: "live (fst (sql_delete (\<lambda>r. key r = i) t)) = live_after (Dropped i) (live t)"
  using live_filter [of "\<lambda>r. key r \<noteq> i" "\<lambda>p. fst p \<noteq> i" t] by (simp add: sql_delete_def)

lemma live_expire:
  assumes "\<And>r. key (f r) = key r" "\<And>r. created (f r) = created r" "\<And>r. state (f r) = ''expired''"
  shows "live (fst (sql_update (\<lambda>r. state r = ''pending'' \<and> sint (created r) \<le> sint cutoff) f t))
    = live_after (ExpiredUpTo cutoff) (live t)"
proof -
  have "live (fst (sql_update (\<lambda>r. state r = ''pending'' \<and> sint (created r) \<le> sint cutoff) f t))
      = {p \<in> live t. \<not> sint (snd p) \<le> sint cutoff}"
    unfolding sql_update_def fst_conv by (rule live_map) (auto simp: assms)
  then show ?thesis by simp
qed

lemma live_purge:
  "live (fst (sql_delete (\<lambda>r. state r \<noteq> ''pending'' \<and> P r) t)) = live_after Purged (live t)"
  using live_filter [of "\<lambda>r. \<not> (state r \<noteq> ''pending'' \<and> P r)" "\<lambda>_. True" t] by (simp add: sql_delete_def)

lemma live_loaded: "(\<lambda>r. (key r, created r)) ` set (sort_key k (filter (\<lambda>r. state r = ''pending'') t)) = live t"
  by (simp add: live_def)

text \<open>An update of the pending row of a request reports whether the request was live.\<close>

lemma settled_live:
  "0 < snd (sql_update (\<lambda>r. key r = i \<and> state r = ''pending'') f t) \<longleftrightarrow> i \<in> fst ` live t"
proof -
  have "0 < snd (sql_update (\<lambda>r. key r = i \<and> state r = ''pending'') f t)
      \<longleftrightarrow> (\<exists>r \<in> set t. key r = i \<and> state r = ''pending'')"
    by (auto simp: sql_update_def filter_empty_conv)
  also have "\<dots> \<longleftrightarrow> i \<in> fst ` live t" by (auto simp: live_def image_iff)
  finally show ?thesis .
qed

end

interpretation approvals: pending_table par_request_id par_state par_created_at .
interpretation signatures: pending_table psr_request_id psr_state psr_created_at .
interpretation metadata: pending_table pcm_request_id pcm_state pcm_created_at .


section \<open>Runs\<close>

datatype pending_call =
    InsertApproval pending_approval_row
  | MarkApproval string string "string option"
  | RemoveApproval string
  | InsertSignature pending_signature_row
  | MarkSignature string string "string option"
  | RemoveSignature string
  | InsertSignatureAndMeta pending_signature_row "u64 option"
  | InsertMeta string "u64 option"
  | MarkMeta string string
  | RemoveMeta string
  | ExpireOlderThan i64
  | PurgeTerminal i64

text \<open>A call with its faults and its clock reading.\<close>

type_synonym pending_event = "(nat \<Rightarrow> db_fault) \<times> i64 \<times> pending_call"

fun pending_step :: "pending_event \<Rightarrow> pending_db \<Rightarrow> pending_db" where
  "pending_step (fault, now, InsertApproval row) db = snd (insert_pending_approval (fault 0) now row db)"
| "pending_step (fault, now, MarkApproval i s m) db = snd (mark_approval_terminal (fault 0) i s m db)"
| "pending_step (fault, now, RemoveApproval i) db = snd (remove_pending_approval (fault 0) i db)"
| "pending_step (fault, now, InsertSignature row) db = snd (insert_pending_signature (fault 0) now row db)"
| "pending_step (fault, now, MarkSignature i s m) db = snd (mark_signature_terminal (fault 0) i s m db)"
| "pending_step (fault, now, RemoveSignature i) db = snd (remove_pending_signature (fault 0) i db)"
| "pending_step (fault, now, InsertSignatureAndMeta row fee) db = snd (insert_signature_and_meta fault now row fee db)"
| "pending_step (fault, now, InsertMeta i fee) db = snd (insert_completion_meta (fault 0) now i fee db)"
| "pending_step (fault, now, MarkMeta i s) db = snd (mark_completion_meta_terminal (fault 0) i s db)"
| "pending_step (fault, now, RemoveMeta i) db = snd (remove_completion_meta (fault 0) i db)"
| "pending_step (fault, now, ExpireOlderThan age) db = snd (expire_older_than fault now age db)"
| "pending_step (fault, now, PurgeTerminal age) db = snd (purge_terminal fault now age db)"

definition pending_run :: "pending_event list \<Rightarrow> pending_db \<Rightarrow> pending_db" where
  "pending_run = fold pending_step"

definition empty_db :: pending_db where
  "empty_db = \<lparr>pdb_approvals = [], pdb_signatures = [], pdb_meta = []\<rparr>"

text \<open>What a call does to each table, given which of its statements take effect.\<close>

definition takes_effect :: "db_fault \<Rightarrow> pending_effect \<Rightarrow> pending_effect list" where
  "takes_effect fault e = (if fault = FailBefore then [] else [e])"

definition commits :: "(nat \<Rightarrow> db_fault) \<Rightarrow> bool" where
  "commits fault \<longleftrightarrow> fault 0 = NoFault \<and> fault 1 = NoFault \<and> fault 2 = NoFault \<and> fault 3 \<noteq> FailBefore"

fun approval_effects :: "pending_event \<Rightarrow> pending_effect list" where
  "approval_effects (fault, now, InsertApproval row) = takes_effect (fault 0) (Inserted (par_request_id row) now)"
| "approval_effects (fault, now, MarkApproval i s m) = takes_effect (fault 0) (Settled i s)"
| "approval_effects (fault, now, RemoveApproval i) = takes_effect (fault 0) (Dropped i)"
| "approval_effects (fault, now, ExpireOlderThan age) = takes_effect (fault 0) (ExpiredUpTo (now - age))"
| "approval_effects (fault, now, PurgeTerminal age) = takes_effect (fault 0) Purged"
| "approval_effects _ = []"

fun signature_effects :: "pending_event \<Rightarrow> pending_effect list" where
  "signature_effects (fault, now, InsertSignature row) = takes_effect (fault 0) (Inserted (psr_request_id row) now)"
| "signature_effects (fault, now, InsertSignatureAndMeta row fee) =
     (if commits fault then [Inserted (psr_request_id row) now] else [])"
| "signature_effects (fault, now, MarkSignature i s m) = takes_effect (fault 0) (Settled i s)"
| "signature_effects (fault, now, RemoveSignature i) = takes_effect (fault 0) (Dropped i)"
| "signature_effects (fault, now, ExpireOlderThan age) =
     (if fault 0 = NoFault then takes_effect (fault 1) (ExpiredUpTo (now - age)) else [])"
| "signature_effects (fault, now, PurgeTerminal age) =
     (if fault 0 = NoFault then takes_effect (fault 1) Purged else [])"
| "signature_effects _ = []"

fun meta_effects :: "pending_event \<Rightarrow> pending_effect list" where
  "meta_effects (fault, now, InsertMeta i fee) = takes_effect (fault 0) (Inserted i now)"
| "meta_effects (fault, now, InsertSignatureAndMeta row fee) =
     (if commits fault then [Inserted (psr_request_id row) now] else [])"
| "meta_effects (fault, now, MarkMeta i s) = takes_effect (fault 0) (Settled i s)"
| "meta_effects (fault, now, RemoveMeta i) = takes_effect (fault 0) (Dropped i)"
| "meta_effects (fault, now, ExpireOlderThan age) =
     (if fault 0 = NoFault \<and> fault 1 = NoFault then takes_effect (fault 2) (ExpiredUpTo (now - age)) else [])"
| "meta_effects (fault, now, PurgeTerminal age) =
     (if fault 0 = NoFault \<and> fault 1 = NoFault then takes_effect (fault 2) Purged else [])"
| "meta_effects _ = []"

lemmas pending_method_defs =
  insert_pending_approval_def mark_approval_terminal_def remove_pending_approval_def
  insert_pending_signature_def mark_signature_terminal_def remove_pending_signature_def
  insert_completion_meta_def mark_completion_meta_terminal_def remove_completion_meta_def
  insert_signature_and_meta_def expire_older_than_def purge_terminal_def then_statement_def

lemmas pending_table_defs = on_approvals_def on_signatures_def on_meta_def

lemma approval_row_facts [simp]:
  "par_state (new_approval_row now row) = ''pending''" "par_created_at (new_approval_row now row) = now"
  "par_request_id (new_approval_row now row) = par_request_id row"
  "par_request_id (mark_approval s m r) = par_request_id r" "par_created_at (mark_approval s m r) = par_created_at r"
  "par_state (mark_approval s m r) = s"
  by (simp_all add: new_approval_row_def mark_approval_def)

lemma signature_row_facts [simp]:
  "psr_state (new_signature_row now row) = ''pending''" "psr_created_at (new_signature_row now row) = now"
  "psr_request_id (new_signature_row now row) = psr_request_id row"
  "psr_request_id (mark_signature s m r) = psr_request_id r" "psr_created_at (mark_signature s m r) = psr_created_at r"
  "psr_state (mark_signature s m r) = s"
  by (simp_all add: new_signature_row_def mark_signature_def)

lemma meta_row_facts [simp]:
  "pcm_state (new_meta_row now i fee) = ''pending''" "pcm_created_at (new_meta_row now i fee) = now"
  "pcm_request_id (new_meta_row now i fee) = i"
  "pcm_request_id (mark_meta s r) = pcm_request_id r" "pcm_created_at (mark_meta s r) = pcm_created_at r"
  "pcm_state (mark_meta s r) = s"
  by (simp_all add: new_meta_row_def mark_meta_def)

lemmas approvals_live = approvals.live_replace approvals.live_settle approvals.live_delete
  approvals.live_expire approvals.live_purge
lemmas signatures_live = signatures.live_replace signatures.live_settle signatures.live_delete
  signatures.live_expire signatures.live_purge
lemmas metadata_live = metadata.live_replace metadata.live_settle metadata.live_delete
  metadata.live_expire metadata.live_purge

lemma approvals_step:
  "approvals.live (pdb_approvals (pending_step e db)) = fold live_after (approval_effects e) (approvals.live (pdb_approvals db))"
proof -
  obtain fault now call where e: "e = (fault, now, call)" by (cases e)
  show ?thesis
    unfolding e by (cases call) (simp_all add: pending_method_defs pending_table_defs statement_def takes_effect_def approvals_live
        Let_def del: live_after.simps split: db_fault.split sum.split)
qed

lemma signatures_step:
  "signatures.live (pdb_signatures (pending_step e db)) = fold live_after (signature_effects e) (signatures.live (pdb_signatures db))"
proof -
  obtain fault now call where e: "e = (fault, now, call)" by (cases e)
  show ?thesis
    unfolding e by (cases call) (simp_all add: pending_method_defs pending_table_defs statement_def takes_effect_def signatures_live
        commits_def Let_def del: live_after.simps split: db_fault.split sum.split)
qed

lemma metadata_step:
  "metadata.live (pdb_meta (pending_step e db)) = fold live_after (meta_effects e) (metadata.live (pdb_meta db))"
proof -
  obtain fault now call where e: "e = (fault, now, call)" by (cases e)
  show ?thesis
    unfolding e by (cases call) (simp_all add: pending_method_defs pending_table_defs statement_def takes_effect_def metadata_live
        commits_def Let_def del: live_after.simps split: db_fault.split sum.split)
qed

lemma fold_effects:
  assumes "\<And>e db. f (pending_step e db) = fold live_after (effects e) (f db)"
  shows "f (pending_run es db) = fold live_after (concat (map effects es)) (f db)"
  by (induction es arbitrary: db) (simp_all add: pending_run_def assms)


section \<open>Recovery and settlement\<close>

text \<open>C22: What a restart recovers: after any sequence of calls, each with any faults, the pending rows of each
  table are the requests that an abstract account of the effects still holds, with the times of their
  last insertions, and they are loaded oldest first. A settled, removed or expired request does not come
  back unless it is inserted again.\<close>

theorem recovery_returns_the_live_requests:
  "(\<lambda>r. (par_request_id r, par_created_at r)) ` set (load_pending_approvals (pending_run es empty_db))
     = fold live_after (concat (map approval_effects es)) {}
   \<and> (\<lambda>r. (psr_request_id r, psr_created_at r)) ` set (load_pending_signatures (pending_run es empty_db))
     = fold live_after (concat (map signature_effects es)) {}
   \<and> (\<lambda>r. (pcm_request_id r, pcm_created_at r)) ` set (load_completion_meta (pending_run es empty_db))
     = fold live_after (concat (map meta_effects es)) {}
   \<and> sorted (map (\<lambda>r. sint (par_created_at r)) (load_pending_approvals (pending_run es empty_db)))
   \<and> sorted (map (\<lambda>r. sint (psr_created_at r)) (load_pending_signatures (pending_run es empty_db)))
   \<and> sorted (map (\<lambda>r. sint (pcm_created_at r)) (load_completion_meta (pending_run es empty_db)))"
proof -
  have "approvals.live (pdb_approvals (pending_run es empty_db)) = fold live_after (concat (map approval_effects es)) {}"
    using fold_effects [of "\<lambda>db. approvals.live (pdb_approvals db)", OF approvals_step, of es empty_db]
    by (simp add: empty_db_def approvals.live_def)
  moreover have "signatures.live (pdb_signatures (pending_run es empty_db))
      = fold live_after (concat (map signature_effects es)) {}"
    using fold_effects [of "\<lambda>db. signatures.live (pdb_signatures db)", OF signatures_step, of es empty_db]
    by (simp add: empty_db_def signatures.live_def)
  moreover have "metadata.live (pdb_meta (pending_run es empty_db)) = fold live_after (concat (map meta_effects es)) {}"
    using fold_effects [of "\<lambda>db. metadata.live (pdb_meta db)", OF metadata_step, of es empty_db]
    by (simp add: empty_db_def metadata.live_def)
  ultimately show ?thesis
    unfolding load_pending_approvals_def load_pending_signatures_def load_completion_meta_def
    by (simp only: approvals.live_loaded signatures.live_loaded metadata.live_loaded sorted_sort_key)
qed

text \<open>The calls that decide a request: answered with \<open>true\<close>, in another state than \<open>pending\<close>.\<close>

fun decides_approval :: "string \<Rightarrow> pending_event \<Rightarrow> pending_db \<Rightarrow> bool" where
  "decides_approval i (fault, now, MarkApproval j s m) db \<longleftrightarrow>
     j = i \<and> s \<noteq> ''pending'' \<and> fst (mark_approval_terminal (fault 0) j s m db) = Inr True"
| "decides_approval i _ db \<longleftrightarrow> False"

fun decisions :: "string \<Rightarrow> pending_event list \<Rightarrow> pending_db \<Rightarrow> nat" where
  "decisions i [] db = 0"
| "decisions i (e # es) db = (if decides_approval i e db then 1 else 0) + decisions i es (pending_step e db)"

fun inserts_request :: "string \<Rightarrow> pending_effect \<Rightarrow> bool" where
  "inserts_request i (Inserted j now) \<longleftrightarrow> j = i"
| "inserts_request i _ \<longleftrightarrow> False"

definition insertions :: "string \<Rightarrow> pending_effect list \<Rightarrow> nat" where
  "insertions i effects = length (filter (inserts_request i) effects)"

definition holds :: "string \<Rightarrow> (string \<times> i64) set \<Rightarrow> nat" where
  "holds i L = (if i \<in> fst ` L then 1 else 0)"

lemma holds_after: "holds i (live_after e L) \<le> holds i L + (if inserts_request i e then 1 else 0)"
  by (cases e) (auto simp: holds_def)

lemma holds_effects: "holds i (fold live_after effects L) \<le> holds i L + insertions i effects"
proof (induction effects arbitrary: L)
  case (Cons e effects)
  from Cons [of "live_after e L"] holds_after [of i e L] show ?case
    by (auto simp: insertions_def split: if_splits)
qed (simp add: insertions_def)

lemma decision_effects:
  assumes "decides_approval i e db"
  obtains s where "approval_effects e = [Settled i s]" "s \<noteq> ''pending''"
    "i \<in> fst ` approvals.live (pdb_approvals db)"
proof -
  obtain fault now s m where e: "e = (fault, now, MarkApproval i s m)" and s: "s \<noteq> ''pending''"
    and win: "fst (mark_approval_terminal (fault 0) i s m db) = Inr True"
    using assms by (cases "(i, e, db)" rule: decides_approval.cases) auto
  have "fault 0 = NoFault" and "i \<in> fst ` approvals.live (pdb_approvals db)"
    using win by (auto simp: mark_approval_terminal_def statement_def on_approvals_def approvals.settled_live
        split: db_fault.splits)
  then show ?thesis using that [of s] s by (simp add: e takes_effect_def)
qed

lemma decisions_bound:
  "decisions i es db \<le> insertions i (concat (map approval_effects es)) + holds i (approvals.live (pdb_approvals db))"
proof (induction es arbitrary: db)
  case (Cons e es)
  let ?L = "approvals.live (pdb_approvals db)"
  have IH: "decisions i es (pending_step e db)
      \<le> insertions i (concat (map approval_effects es)) + holds i (fold live_after (approval_effects e) ?L)"
    using Cons [of "pending_step e db"] by (simp add: approvals_step)
  have split: "insertions i (concat (map approval_effects (e # es)))
      = insertions i (approval_effects e) + insertions i (concat (map approval_effects es))"
    by (simp add: insertions_def)
  show ?case
  proof (cases "decides_approval i e db")
    case True
    then obtain s where effects: "approval_effects e = [Settled i s]" "s \<noteq> ''pending''" "i \<in> fst ` ?L"
      by (rule decision_effects)
    then have "holds i (fold live_after (approval_effects e) ?L) = 0" "holds i ?L = 1"
      by (auto simp: holds_def)
    with IH True split show ?thesis by simp
  next
    case False
    then show ?thesis using IH holds_effects [of i "approval_effects e" ?L] split by simp
  qed
qed simp

text \<open>C23: An approval is decided at most once for each time it was requested: however many callers mark it,
  with whatever faults, restarts, expiries and clean-ups in between, at most as many of them are told
  that they decided it as there were insertions of the request.\<close>

theorem approvals_are_decided_once:
  "decisions i es empty_db \<le> insertions i (concat (map approval_effects es))"
  using decisions_bound [of i es empty_db] by (simp add: holds_def empty_db_def approvals.live_def)

text \<open>The signature and its metadata become live together or not at all.\<close>

lemma signature_and_meta_together:
  assumes "insert_signature_and_meta fault now row fee db = (r, db')"
  shows "db' = db
    \<or> (psr_request_id row, now) \<in> signatures.live (pdb_signatures db')
      \<and> (psr_request_id row, now) \<in> metadata.live (pdb_meta db')"
proof -
  let ?e = "(fault, now, InsertSignatureAndMeta row fee)"
  have db': "db' = pending_step ?e db" using assms by simp
  show ?thesis
  proof (cases "commits fault")
    case True
    then show ?thesis unfolding db' by (simp add: signatures_step metadata_step del: pending_step.simps)
  next
    case False
    then show ?thesis using assms
      by (auto simp: insert_signature_and_meta_def commits_def statement_def split: if_splits db_fault.splits)
  qed
qed

end
