(* ===== verification/Pending_Jupiter.thy ===== *)
theory Pending_Jupiter
  imports Store_Support Json
begin

text \<open>
  Swap intents and their policy, \<open>crates/types/src/swap.rs\<close>, and the repository that keeps them,
  \<open>crates/state-store/src/pending_jupiter.rs\<close> over the table of \<open>migrations/0010\<close>. A UUID is its 128 bits,
  a \<open>DateTime\<close> its nanoseconds since the epoch; printing and parsing of UUIDs, the range of valid times
  and the JSON texts are parameters. A store error is the kind of the error with its text. The lemmas
  give the verdict of the policy, what of an intent survives the repository, and what its state column
  promises.
\<close>

section \<open>Intents, previews and the policy\<close>

type_synonym uuid = "128 word"
type_synonym utc = int

record swap_intent =
  si_id :: uuid
  si_session_id :: uuid
  si_wallet_pubkey :: string
  si_network :: solana_network
  si_input_mint :: string
  si_output_mint :: string
  si_input_amount :: u64
  si_slippage_bps :: u16
  si_description :: string
  si_created_at :: utc

definition swap_intent_new ::
    "uuid \<Rightarrow> utc \<Rightarrow> uuid \<Rightarrow> string \<Rightarrow> solana_network \<Rightarrow> string \<Rightarrow> string \<Rightarrow> u64 \<Rightarrow> u16 \<Rightarrow> string \<Rightarrow> swap_intent" where
  "swap_intent_new new_id now session_id wallet_pubkey network input_mint output_mint input_amount slippage_bps
       description =
     \<lparr>si_id = new_id, si_session_id = session_id, si_wallet_pubkey = wallet_pubkey, si_network = network,
      si_input_mint = input_mint, si_output_mint = output_mint, si_input_amount = input_amount,
      si_slippage_bps = slippage_bps, si_description = description, si_created_at = now\<rparr>"

record swap_preview =
  sp_expected_output_amount :: u64
  sp_price_impact_pct :: "string option"
  sp_route_labels :: "string list"
  sp_fetched_at :: utc

record swap_policy_config =
  spc_allowed_input_mints :: "string list"
  spc_allowed_output_mints :: "string list"
  spc_max_input_amount :: "u64 option"
  spc_max_slippage_bps :: "u16 option"
  spc_required_approver_role :: "string option"

definition exceeds :: "'w::len word \<Rightarrow> 'w word option \<Rightarrow> bool" where
  "exceeds v cap = (case cap of None \<Rightarrow> False | Some c \<Rightarrow> v > c)"

definition swap_evaluate :: "swap_policy_config \<Rightarrow> swap_intent \<Rightarrow> policy_verdict" where
  "swap_evaluate config intent =
     (if spc_allowed_input_mints config \<noteq> [] \<and> si_input_mint intent \<notin> set (spc_allowed_input_mints config)
      then VerdictRejected (''input mint '' @ si_input_mint intent @ '' is not in the allowed list'')
             ''swap-input-mint-not-allowed''
      else if spc_allowed_output_mints config \<noteq> [] \<and> si_output_mint intent \<notin> set (spc_allowed_output_mints config)
      then VerdictRejected (''output mint '' @ si_output_mint intent @ '' is not in the allowed list'')
             ''swap-output-mint-not-allowed''
      else if exceeds (si_slippage_bps intent) (spc_max_slippage_bps config)
      then VerdictRejected (''slippage '' @ decimal (unat (si_slippage_bps intent)) @ '' bps exceeds maximum ''
             @ decimal (unat (the (spc_max_slippage_bps config))) @ '' bps'') ''swap-slippage-exceeds-cap''
      else if exceeds (si_input_amount intent) (spc_max_input_amount config)
      then VerdictRequiresHumanApproval (''input amount '' @ decimal (unat (si_input_amount intent)) @ '' exceeds cap ''
             @ decimal (unat (the (spc_max_input_amount config)))) ''swap-input-amount-exceeds-cap''
             (Some (case spc_required_approver_role config of Some role \<Rightarrow> role | None \<Rightarrow> ''treasury'')) None
      else VerdictApproved ''swap-policy-default-approve'')"

section \<open>Rows\<close>

definition jupiter_pending_approval :: string where "jupiter_pending_approval = ''pending_approval''"
definition jupiter_approved_waiting_jit :: string where "jupiter_approved_waiting_jit = ''approved_waiting_jit''"
definition jupiter_jit_building :: string where "jupiter_jit_building = ''jit_building''"
definition jupiter_jit_build_failed :: string where "jupiter_jit_build_failed = ''jit_build_failed''"
definition jupiter_awaiting_signature :: string where "jupiter_awaiting_signature = ''awaiting_wallet_signature''"
definition jupiter_submitted :: string where "jupiter_submitted = ''submitted''"
definition jupiter_rejected :: string where "jupiter_rejected = ''rejected''"
definition jupiter_expired :: string where "jupiter_expired = ''expired''"

record stored_jupiter_intent =
  sji_intent :: swap_intent
  sji_request_id :: "uuid option"
  sji_state :: string
  sji_policy_verdict :: "policy_verdict option"
  sji_preview :: "swap_preview option"
  sji_last_error :: "string option"
  sji_created_at :: utc
  sji_updated_at :: utc

record jupiter_row =
  jr_intent_id :: string
  jr_session_id :: string
  jr_request_id :: "string option"
  jr_wallet_pubkey :: string
  jr_network :: string
  jr_input_mint :: string
  jr_output_mint :: string
  jr_input_amount :: i64
  jr_slippage_bps :: i64
  jr_description :: "string option"
  jr_state :: string
  jr_policy_verdict_json :: "string option"
  jr_preview_json :: "string option"
  jr_last_error :: "string option"
  jr_created_at :: i64
  jr_updated_at :: i64

type_synonym jupiter_table = "jupiter_row list"

datatype jupiter_error = JupiterSqlx string | JupiterSerialization string | JupiterIntegrity string

record jupiter_env =
  je_uuid_text :: "uuid \<Rightarrow> string"
  je_parse_uuid :: "string \<Rightarrow> string + uuid"
  je_time_ok :: "i64 \<Rightarrow> bool"                \<comment> \<open>\<open>timestamp_opt(secs, 0).single()\<close> is some time\<close>
  je_i64_text :: "i64 \<Rightarrow> string"
  je_verdict_to_json :: "policy_verdict \<Rightarrow> string + string"
  je_verdict_from_json :: "string \<Rightarrow> string + policy_verdict"
  je_preview_to_json :: "swap_preview \<Rightarrow> string + string"
  je_preview_from_json :: "string \<Rightarrow> string + swap_preview"

fun network_str :: "solana_network \<Rightarrow> string" where
  "network_str MainnetBeta = ''mainnet-beta''"
| "network_str Devnet = ''devnet''"
| "network_str Testnet = ''testnet''"
| "network_str Localnet = ''localnet''"

definition parse_network :: "string \<Rightarrow> solana_network option" where
  "parse_network s =
     (if s = ''mainnet'' \<or> s = ''mainnet-beta'' then Some MainnetBeta
      else if s = ''devnet'' then Some Devnet
      else if s = ''testnet'' then Some Testnet
      else if s = ''localnet'' \<or> s = ''localhost'' then Some Localnet
      else None)"

text \<open>\<open>Option::map(f).transpose()\<close>.\<close>

fun transpose_result :: "('a \<Rightarrow> 'e + 'b) \<Rightarrow> 'a option \<Rightarrow> 'e + 'b option" where
  "transpose_result f None = Inr None"
| "transpose_result f (Some a) = (case f a of Inl e \<Rightarrow> Inl e | Inr b \<Rightarrow> Inr (Some b))"

definition parse_time :: "jupiter_env \<Rightarrow> string \<Rightarrow> i64 \<Rightarrow> jupiter_error + utc" where
  "parse_time E column secs =
     (if je_time_ok E secs then Inr (sint secs * 1000000000)
      else Inl (JupiterIntegrity (''invalid '' @ column @ '' '' @ je_i64_text E secs)))"

text \<open>The single quote of the messages.\<close>

definition quote_mark :: string where "quote_mark = [char_of (39 :: nat)]"

text \<open>The casts to \<open>u64\<close> and \<open>u16\<close> keep the low bits.\<close>

definition jupiter_row_to_stored :: "jupiter_env \<Rightarrow> jupiter_row \<Rightarrow> jupiter_error + stored_jupiter_intent" where
  "jupiter_row_to_stored E row =
     try_bind (map_err (\<lambda>e. JupiterIntegrity (''invalid intent_id '' @ quote_mark @ jr_intent_id row @ quote_mark @ '': '' @ e))
                 (je_parse_uuid E (jr_intent_id row))) (\<lambda>intent_id.
     try_bind (map_err (\<lambda>e. JupiterIntegrity (''invalid session_id '' @ quote_mark @ jr_session_id row @ quote_mark @ '': '' @ e))
                 (je_parse_uuid E (jr_session_id row))) (\<lambda>session_id.
     try_bind (map_err (\<lambda>e. JupiterIntegrity (''invalid request_id: '' @ e))
                 (transpose_result (je_parse_uuid E) (jr_request_id row))) (\<lambda>request_id.
     try_bind (ok_or (parse_network (jr_network row))
                 (JupiterIntegrity (''unknown network '' @ quote_mark @ jr_network row @ quote_mark))) (\<lambda>network.
     try_bind (parse_time E ''created_at'' (jr_created_at row)) (\<lambda>created_at.
     try_bind (parse_time E ''updated_at'' (jr_updated_at row)) (\<lambda>updated_at.
     try_bind (map_err JupiterSerialization
                 (transpose_result (je_verdict_from_json E) (jr_policy_verdict_json row))) (\<lambda>policy_verdict.
     try_bind (map_err JupiterSerialization
                 (transpose_result (je_preview_from_json E) (jr_preview_json row))) (\<lambda>preview.
       Inr \<lparr>sji_intent =
              \<lparr>si_id = intent_id, si_session_id = session_id, si_wallet_pubkey = jr_wallet_pubkey row,
               si_network = network, si_input_mint = jr_input_mint row, si_output_mint = jr_output_mint row,
               si_input_amount = ucast (jr_input_amount row), si_slippage_bps = ucast (jr_slippage_bps row),
               si_description = (case jr_description row of Some d \<Rightarrow> d | None \<Rightarrow> []),
               si_created_at = created_at\<rparr>,
            sji_request_id = request_id, sji_state = jr_state row, sji_policy_verdict = policy_verdict,
            sji_preview = preview, sji_last_error = jr_last_error row, sji_created_at = created_at,
            sji_updated_at = updated_at\<rparr>))))))))"

section \<open>The repository\<close>

definition new_jupiter_row ::
    "jupiter_env \<Rightarrow> i64 \<Rightarrow> swap_intent \<Rightarrow> uuid option \<Rightarrow> string \<Rightarrow> string option \<Rightarrow> string option \<Rightarrow> jupiter_row" where
  "new_jupiter_row E now intent request_id state verdict_json preview_json =
     \<lparr>jr_intent_id = je_uuid_text E (si_id intent), jr_session_id = je_uuid_text E (si_session_id intent),
      jr_request_id = map_option (je_uuid_text E) request_id, jr_wallet_pubkey = si_wallet_pubkey intent,
      jr_network = network_str (si_network intent), jr_input_mint = si_input_mint intent,
      jr_output_mint = si_output_mint intent, jr_input_amount = ucast (si_input_amount intent),
      jr_slippage_bps = ucast (si_slippage_bps intent), jr_description = Some (si_description intent),
      jr_state = state, jr_policy_verdict_json = verdict_json, jr_preview_json = preview_json,
      jr_last_error = None, jr_created_at = now, jr_updated_at = now\<rparr>"

definition jupiter_insert ::
    "jupiter_env \<Rightarrow> i64 \<Rightarrow> swap_intent \<Rightarrow> uuid option \<Rightarrow> string \<Rightarrow> policy_verdict option \<Rightarrow> swap_preview option \<Rightarrow>
     jupiter_table \<Rightarrow> jupiter_error + jupiter_table" where
  "jupiter_insert E now intent request_id state policy_verdict preview t =
     try_bind (map_err JupiterSerialization (transpose_result (je_verdict_to_json E) policy_verdict)) (\<lambda>verdict_json.
     try_bind (map_err JupiterSerialization (transpose_result (je_preview_to_json E) preview)) (\<lambda>preview_json.
       ok_or (sql_insert jr_intent_id (new_jupiter_row E now intent request_id state verdict_json preview_json) t)
             (JupiterSqlx ''UNIQUE constraint failed'')))"

definition attach_request_id ::
    "jupiter_env \<Rightarrow> i64 \<Rightarrow> uuid \<Rightarrow> uuid \<Rightarrow> jupiter_table \<Rightarrow> jupiter_table \<times> nat" where
  "attach_request_id E now intent_id request_id =
     sql_update (\<lambda>r. jr_intent_id r = je_uuid_text E intent_id)
       (\<lambda>r. r\<lparr>jr_request_id := Some (je_uuid_text E request_id), jr_updated_at := now\<rparr>)"

definition jupiter_mark_state ::
    "jupiter_env \<Rightarrow> i64 \<Rightarrow> uuid \<Rightarrow> string \<Rightarrow> string option \<Rightarrow> jupiter_table \<Rightarrow> jupiter_table \<times> nat" where
  "jupiter_mark_state E now intent_id state last_error =
     sql_update (\<lambda>r. jr_intent_id r = je_uuid_text E intent_id)
       (\<lambda>r. r\<lparr>jr_state := state, jr_last_error := last_error, jr_updated_at := now\<rparr>)"

definition jupiter_get ::
    "jupiter_env \<Rightarrow> uuid \<Rightarrow> jupiter_table \<Rightarrow> jupiter_error + stored_jupiter_intent option" where
  "jupiter_get E intent_id t =
     transpose_result (jupiter_row_to_stored E) (sql_get jr_intent_id (je_uuid_text E intent_id) t)"

text \<open>Nothing makes \<open>request_id\<close> unique; \<open>fetch_optional\<close> takes the first row.\<close>

definition jupiter_get_by_request_id ::
    "jupiter_env \<Rightarrow> uuid \<Rightarrow> jupiter_table \<Rightarrow> jupiter_error + stored_jupiter_intent option" where
  "jupiter_get_by_request_id E request_id t =
     transpose_result (jupiter_row_to_stored E) (sql_get jr_request_id (Some (je_uuid_text E request_id)) t)"

text \<open>One update for each state, with one clock reading; the counts are added in \<open>u64\<close>.\<close>

fun expire_stuck :: "i64 \<Rightarrow> string list \<Rightarrow> string \<Rightarrow> jupiter_table \<Rightarrow> jupiter_table \<times> u64" where
  "expire_stuck now [] reason t = (t, 0)"
| "expire_stuck now (state # states) reason t =
     (case sql_update (\<lambda>r. jr_state r = state)
             (\<lambda>r. r\<lparr>jr_state := ''expired'', jr_last_error := Some reason, jr_updated_at := now\<rparr>) t of
        (t1, n) \<Rightarrow> (case expire_stuck now states reason t1 of (t2, others) \<Rightarrow> (t2, of_nat n + others)))"

definition list_pending_for_session ::
    "jupiter_env \<Rightarrow> string \<Rightarrow> jupiter_table \<Rightarrow> jupiter_error + stored_jupiter_intent list" where
  "list_pending_for_session E session_id t =
     collect_results (map (jupiter_row_to_stored E)
       (sort_key (\<lambda>r. sint (jr_created_at r))
          (filter (\<lambda>r. jr_session_id r = session_id \<and> jr_state r = ''pending_approval'') t)))"


section \<open>The verdict of the policy\<close>

definition mints_allowed :: "swap_policy_config \<Rightarrow> swap_intent \<Rightarrow> bool" where
  "mints_allowed config intent \<longleftrightarrow>
     (spc_allowed_input_mints config = [] \<or> si_input_mint intent \<in> set (spc_allowed_input_mints config))
   \<and> (spc_allowed_output_mints config = [] \<or> si_output_mint intent \<in> set (spc_allowed_output_mints config))"

definition within_cap :: "'w::len word \<Rightarrow> 'w word option \<Rightarrow> bool" where
  "within_cap v cap \<longleftrightarrow> (\<forall>c. cap = Some c \<longrightarrow> unat v \<le> unat c)"

lemma exceeds_iff: "exceeds v cap \<longleftrightarrow> \<not> within_cap v cap"
  by (auto simp: exceeds_def within_cap_def word_less_nat_alt not_le split: option.splits)

lemma swap_verdicts:
  "is_auto_approved (swap_evaluate config intent) \<longleftrightarrow>
     mints_allowed config intent \<and> within_cap (si_slippage_bps intent) (spc_max_slippage_bps config)
     \<and> within_cap (si_input_amount intent) (spc_max_input_amount config)"
  "(\<exists>reason rule. swap_evaluate config intent = VerdictRejected reason rule) \<longleftrightarrow>
     \<not> mints_allowed config intent \<or> \<not> within_cap (si_slippage_bps intent) (spc_max_slippage_bps config)"
  by (auto simp: swap_evaluate_def mints_allowed_def exceeds_iff)

section \<open>What survives the repository\<close>

lemma network_roundtrip: "parse_network (network_str n) = Some n"
  by (cases n) (simp_all add: parse_network_def)

definition jupiter_laws :: "jupiter_env \<Rightarrow> bool" where
  "jupiter_laws E \<longleftrightarrow>
     (\<forall>u. je_parse_uuid E (je_uuid_text E u) = Inr u)
   \<and> (\<forall>v j. je_verdict_to_json E v = Inr j \<longrightarrow> je_verdict_from_json E j = Inr v)
   \<and> (\<forall>p j. je_preview_to_json E p = Inr j \<longrightarrow> je_preview_from_json E j = Inr p)"

lemma transpose_result_roundtrip:
  assumes "transpose_result f a = Inr b" and "\<And>x y. f x = Inr y \<Longrightarrow> g y = Inr x"
  shows "transpose_result g b = Inr a"
  using assms by (cases a) (auto split: sum.splits)

lemma transpose_map: "(\<And>x. g (f x) = Inr x) \<Longrightarrow> transpose_result g (map_option f a) = Inr a"
  by (cases a) simp_all

lemma narrow_wide: "ucast (ucast (v :: u16) :: i64) = v"
  by (rule bit_word_eqI) (auto simp: bit_unsigned_iff)

text \<open>The row as it is read back.\<close>

definition fresh_jupiter ::
    "i64 \<Rightarrow> swap_intent \<Rightarrow> uuid option \<Rightarrow> string \<Rightarrow> policy_verdict option \<Rightarrow> swap_preview option \<Rightarrow> stored_jupiter_intent" where
  "fresh_jupiter now intent request_id state policy_verdict preview =
     \<lparr>sji_intent = intent\<lparr>si_created_at := sint now * 1000000000\<rparr>, sji_request_id = request_id, sji_state = state,
      sji_policy_verdict = policy_verdict, sji_preview = preview, sji_last_error = None,
      sji_created_at = sint now * 1000000000, sji_updated_at = sint now * 1000000000\<rparr>"

lemma jupiter_insert_read:
  assumes laws: "jupiter_laws E" and now: "je_time_ok E now"
    and ins: "jupiter_insert E now intent request_id state policy_verdict preview t = Inr t'"
  shows "jupiter_get E (si_id intent) t' = Inr (Some (fresh_jupiter now intent request_id state policy_verdict preview))"
proof -
  obtain vj pj where v: "transpose_result (je_verdict_to_json E) policy_verdict = Inr vj"
    and p: "transpose_result (je_preview_to_json E) preview = Inr pj"
    and t': "sql_insert jr_intent_id (new_jupiter_row E now intent request_id state vj pj) t = Some t'"
    using ins by (auto simp: jupiter_insert_def)
  have "transpose_result (je_verdict_from_json E) vj = Inr policy_verdict"
    by (rule transpose_result_roundtrip [OF v]) (use laws in \<open>simp add: jupiter_laws_def\<close>)
  moreover have "transpose_result (je_preview_from_json E) pj = Inr preview"
    by (rule transpose_result_roundtrip [OF p]) (use laws in \<open>simp add: jupiter_laws_def\<close>)
  moreover have "transpose_result (je_parse_uuid E) (map_option (je_uuid_text E) request_id) = Inr request_id"
    by (rule transpose_map) (use laws in \<open>simp add: jupiter_laws_def\<close>)
  moreover have "je_parse_uuid E (je_uuid_text E u) = Inr u" for u
    using laws by (simp add: jupiter_laws_def)
  ultimately have "jupiter_row_to_stored E (new_jupiter_row E now intent request_id state vj pj)
      = Inr (fresh_jupiter now intent request_id state policy_verdict preview)"
    using now
    by (simp add: jupiter_row_to_stored_def new_jupiter_row_def network_roundtrip parse_time_def
        fresh_jupiter_def narrow_wide map_err_def)
  moreover have "sql_get jr_intent_id (je_uuid_text E (si_id intent)) t'
      = Some (new_jupiter_row E now intent request_id state vj pj)"
    using sql_insert_get [OF t'] by (simp add: new_jupiter_row_def)
  ultimately show ?thesis by (simp add: jupiter_get_def)
qed

text \<open>The repository keeps a swap intent as it was submitted, all but the time it was created: mints, the
  full 64 bits of the amount, slippage, network, session, verdict and preview are read back as they were
  written, while \<open>created_at\<close> becomes the second at which the row was inserted.\<close>

theorem swap_intents_survive_storage:
  assumes "jupiter_laws E" and "je_time_ok E now"
    and "jupiter_insert E now intent request_id state policy_verdict preview t = Inr t'"
  shows "\<exists>stored. jupiter_get E (si_id intent) t' = Inr (Some stored)
    \<and> sji_intent stored = intent\<lparr>si_created_at := sint now * 1000000000\<rparr>
    \<and> sji_request_id stored = request_id \<and> sji_state stored = state
    \<and> sji_policy_verdict stored = policy_verdict \<and> sji_preview stored = preview \<and> sji_last_error stored = None"
  unfolding jupiter_insert_read [OF assms] by (simp add: fresh_jupiter_def)

section \<open>What the state column promises\<close>

lemma marked_row:
  assumes "jupiter_row_to_stored E row = Inr stored" and "je_time_ok E now"
  shows "jupiter_row_to_stored E (row\<lparr>jr_state := s, jr_last_error := err, jr_updated_at := now\<rparr>)
    = Inr (stored\<lparr>sji_state := s, sji_last_error := err, sji_updated_at := sint now * 1000000000\<rparr>)"
proof -
  obtain u where "parse_time E ''updated_at'' (jr_updated_at row) = Inr u"
    using assms(1) by (auto simp: jupiter_row_to_stored_def)
  moreover have "parse_time E ''updated_at'' now = Inr (sint now * 1000000000)"
    using assms(2) by (simp add: parse_time_def)
  ultimately show ?thesis using assms(1) by (auto simp: jupiter_row_to_stored_def)
qed

lemma collect_results_succeeds: "(\<exists>ys. collect_results (map f xs) = Inr ys) \<longleftrightarrow> (\<forall>x \<in> set xs. \<exists>y. f x = Inr y)"
proof
  assume "\<exists>ys. collect_results (map f xs) = Inr ys"
  then obtain ys where "map f xs = map Inr ys" by (auto simp: collect_results_Inr)
  then have "f ` set xs = Inr ` set ys" by (metis set_map)
  then show "\<forall>x \<in> set xs. \<exists>y. f x = Inr y" by (auto simp: set_eq_iff image_iff)
next
  assume "\<forall>x \<in> set xs. \<exists>y. f x = Inr y"
  then have "map f xs = map Inr (map (\<lambda>x. projr (f x)) xs)" by (induction xs) auto
  then show "\<exists>ys. collect_results (map f xs) = Inr ys" by (metis collect_results_map_Inr)
qed

lemma listing_succeeds:
  "(\<exists>listed. list_pending_for_session E session t = Inr listed) \<longleftrightarrow>
     (\<forall>r \<in> set t. jr_session_id r = session \<and> jr_state r = ''pending_approval'' \<longrightarrow>
        (\<exists>x. jupiter_row_to_stored E r = Inr x))"
  unfolding list_pending_for_session_def collect_results_succeeds by auto

lemma listing_contains:
  assumes "list_pending_for_session E session t = Inr listed"
    and "r \<in> set t" "jr_session_id r = session" "jr_state r = ''pending_approval''"
    and "jupiter_row_to_stored E r = Inr x"
  shows "x \<in> set listed"
proof -
  define rows where "rows = sort_key (\<lambda>r. sint (jr_created_at r))
      (filter (\<lambda>r. jr_session_id r = session \<and> jr_state r = ''pending_approval'') t)"
  have "r \<in> set rows" using assms(2-4) by (simp add: rows_def)
  then have "jupiter_row_to_stored E r \<in> set (map (jupiter_row_to_stored E) rows)"
    unfolding set_map by (rule imageI)
  also have "map (jupiter_row_to_stored E) rows = map Inr listed"
    using assms(1) unfolding list_pending_for_session_def collect_results_Inr rows_def .
  finally show ?thesis using assms(5) by auto
qed

text \<open>C28: No state of a swap intent is terminal for the repository: whatever state a readable row is in,
  rejected and expired ones included, marking it moves it to any other state. One marked
  \<open>pending_approval\<close> is in the list of its session again whenever that list can be read; and the list can
  be read exactly if every other pending row of the session can, since one unreadable row makes the whole
  listing fail.\<close>

theorem terminal_swap_intents_can_be_revived:
  assumes "distinct (map jr_intent_id t)" and "jupiter_get E i t = Inr (Some stored)" and "je_time_ok E now"
  shows "jupiter_get E i (fst (jupiter_mark_state E now i s err t))
      = Inr (Some (stored\<lparr>sji_state := s, sji_last_error := err, sji_updated_at := sint now * 1000000000\<rparr>))
    \<and> (s = ''pending_approval'' \<longrightarrow>
        (\<exists>row \<in> set t. jr_intent_id row = je_uuid_text E i
           \<and> (\<forall>listed. list_pending_for_session E (jr_session_id row) (fst (jupiter_mark_state E now i s err t))
                = Inr listed \<longrightarrow> stored\<lparr>sji_state := s, sji_last_error := err,
                    sji_updated_at := sint now * 1000000000\<rparr> \<in> set listed)
           \<and> ((\<exists>listed. list_pending_for_session E (jr_session_id row) (fst (jupiter_mark_state E now i s err t))
                = Inr listed) \<longleftrightarrow>
              (\<forall>r \<in> set t. r \<noteq> row \<and> jr_session_id r = jr_session_id row \<and> jr_state r = ''pending_approval'' \<longrightarrow>
                 (\<exists>x. jupiter_row_to_stored E r = Inr x)))))"
proof -
  let ?f = "\<lambda>r. r\<lparr>jr_state := s, jr_last_error := err, jr_updated_at := now\<rparr>"
  let ?t = "fst (jupiter_mark_state E now i s err t)"
  obtain row where row: "sql_get jr_intent_id (je_uuid_text E i) t = Some row" "jupiter_row_to_stored E row = Inr stored"
    using assms(2) by (cases "sql_get jr_intent_id (je_uuid_text E i) t") (auto simp: jupiter_get_def split: sum.splits)
  have id: "jr_intent_id row = je_uuid_text E i" and mem: "row \<in> set t" using sql_get_Some_in [OF row(1)] by simp_all
  have get: "sql_get jr_intent_id (je_uuid_text E i) ?t = Some (?f row)"
    using id row(1) by (simp add: jupiter_mark_state_def sql_update_get)
  note marked = marked_row [OF row(2) assms(3), where s = s and err = err]
  have only: "r = row" if "r \<in> set t" "jr_intent_id r = jr_intent_id row" for r
    using assms(1) mem that by (auto simp: distinct_map inj_on_def)
  have rows: "set ?t = insert (?f row) (set t - {row})"
  proof -
    have "set ?t = (\<lambda>r. if jr_intent_id r = je_uuid_text E i then ?f r else r) ` set t"
      by (simp add: jupiter_mark_state_def sql_update_def)
    also have "\<dots> = (\<lambda>r. if r = row then ?f row else r) ` set t"
    proof (rule image_cong [OF refl])
      fix r assume "r \<in> set t"
      with only id have "jr_intent_id r = je_uuid_text E i \<longleftrightarrow> r = row" by metis
      then show "(if jr_intent_id r = je_uuid_text E i then ?f r else r) = (if r = row then ?f row else r)" by simp
    qed
    finally show ?thesis using mem by auto
  qed
  have listed: "stored\<lparr>sji_state := s, sji_last_error := err, sji_updated_at := sint now * 1000000000\<rparr> \<in> set listed"
    if "s = ''pending_approval''" "list_pending_for_session E (jr_session_id row) ?t = Inr listed" for listed
    using listing_contains [OF that(2) _ _ _ marked] that(1) rows by simp
  have succeeds: "(\<exists>listed. list_pending_for_session E (jr_session_id row) ?t = Inr listed) \<longleftrightarrow>
      (\<forall>r \<in> set t. r \<noteq> row \<and> jr_session_id r = jr_session_id row \<and> jr_state r = ''pending_approval'' \<longrightarrow>
         (\<exists>x. jupiter_row_to_stored E r = Inr x))"
    unfolding listing_succeeds rows using marked by auto
  show ?thesis
    using get marked id mem listed succeeds
    by (intro conjI impI bexI [of _ row]) (simp_all add: jupiter_get_def)
qed

section \<open>Witnesses\<close>

text \<open>An environment that prints a UUID as a decimal number and has no JSON.\<close>

definition example_jupiter_env :: jupiter_env where
  "example_jupiter_env =
     \<lparr>je_uuid_text = (\<lambda>u. decimal (unat u)),
      je_parse_uuid = (\<lambda>s. case digits_value s 0 of Some n \<Rightarrow> Inr (word_of_nat n) | None \<Rightarrow> Inl ''uuid''),
      je_time_ok = (\<lambda>_. True), je_i64_text = (\<lambda>_. ''time''),
      je_verdict_to_json = (\<lambda>_. Inl ''none''), je_verdict_from_json = (\<lambda>_. Inl ''none''),
      je_preview_to_json = (\<lambda>_. Inl ''none''), je_preview_from_json = (\<lambda>_. Inl ''none'')\<rparr>"

lemma example_jupiter_laws: "jupiter_laws example_jupiter_env"
  by (simp add: jupiter_laws_def example_jupiter_env_def)

lemma example_jupiter_time: "je_time_ok example_jupiter_env now"
  by (simp add: example_jupiter_env_def)

definition example_swap :: swap_intent where
  "example_swap = swap_intent_new 7 12345 9 ''wallet'' MainnetBeta ''in'' ''out'' 18446744073709551615 50 ''swap''"

lemma example_swap_id: "si_id example_swap = 7" by (simp add: example_swap_def swap_intent_new_def)

lemma example_swap_inserted:
  "jupiter_insert example_jupiter_env 5 example_swap None state None None []
     = Inr [new_jupiter_row example_jupiter_env 5 example_swap None state None None]"
  by (simp add: jupiter_insert_def sql_insert_def)

theorem swap_intents_survive_storage_witness:
  "\<exists>stored. jupiter_get example_jupiter_env 7
       [new_jupiter_row example_jupiter_env 5 example_swap None ''rejected'' None None] = Inr (Some stored)
     \<and> si_input_amount (sji_intent stored) = 18446744073709551615 \<and> sji_state stored = ''rejected''"
proof -
  from swap_intents_survive_storage [OF example_jupiter_laws example_jupiter_time example_swap_inserted,
      of "''rejected''", unfolded example_swap_id]
  obtain stored where s: "jupiter_get example_jupiter_env 7
       [new_jupiter_row example_jupiter_env 5 example_swap None ''rejected'' None None] = Inr (Some stored)"
     "sji_intent stored = example_swap\<lparr>si_created_at := sint (5 :: i64) * 1000000000\<rparr>"
     "sji_state stored = ''rejected''" by blast
  have "si_input_amount (sji_intent stored) = 18446744073709551615"
    unfolding s(2) by (simp add: example_swap_def swap_intent_new_def)
  with s(1,3) show ?thesis by blast
qed

theorem terminal_swap_intents_can_be_revived_witness:
  "\<exists>stored listed. sji_state stored = ''rejected''
     \<and> jupiter_get example_jupiter_env 7
         [new_jupiter_row example_jupiter_env 5 example_swap None ''rejected'' None None] = Inr (Some stored)
     \<and> list_pending_for_session example_jupiter_env ''9'' (fst (jupiter_mark_state example_jupiter_env 6 7
         ''pending_approval'' None [new_jupiter_row example_jupiter_env 5 example_swap None ''rejected'' None None]))
       = Inr listed
     \<and> stored\<lparr>sji_state := ''pending_approval'', sji_last_error := None,
                sji_updated_at := sint (6 :: i64) * 1000000000\<rparr> \<in> set listed"
proof -
  let ?row = "new_jupiter_row example_jupiter_env 5 example_swap None ''rejected'' None None"
  note read = jupiter_insert_read [OF example_jupiter_laws example_jupiter_time example_swap_inserted,
      of "''rejected''", unfolded example_swap_id]
  have session: "jr_session_id ?row = ''9''"
    by (simp add: new_jupiter_row_def example_jupiter_env_def example_swap_def swap_intent_new_def decimal.simps char_of_def bit_0)
  have rejected: "sji_state (fresh_jupiter 5 example_swap None ''rejected'' None None) = ''rejected''"
    by (simp add: fresh_jupiter_def)
  have "distinct (map jr_intent_id [?row])" by simp
  from terminal_swap_intents_can_be_revived [OF this read example_jupiter_time, where now = 6 and s = "''pending_approval''" and err = None]
  have "\<exists>listed. list_pending_for_session example_jupiter_env ''9'' (fst (jupiter_mark_state example_jupiter_env 6 7
         ''pending_approval'' None [?row])) = Inr listed
      \<and> (fresh_jupiter 5 example_swap None ''rejected'' None None)\<lparr>sji_state := ''pending_approval'', sji_last_error := None,
                sji_updated_at := sint (6 :: i64) * 1000000000\<rparr> \<in> set listed"
    by (auto simp: session)
  with read rejected show ?thesis by blast
qed

end
