(* ===== verification/Position.thy ===== *)
theory Position
  imports Rpc_Pool Watch_Scan Json
begin

text \<open>
  The read-only position query, \<open>bins/solfrontier-mcp/src/position.rs\<close>: a reader over a pool of one
  endpoint, and the sorting of the returned accounts into obligations of the wallet and warnings. Key
  parsing and printing and the node's answer are parameters; a warning keeps its account and its cause
  instead of the formatted text. The lemmas say what an answer contains and when the node is asked.
\<close>

section \<open>The reader\<close>

datatype position_read_error = PoolUnavailable | PositionRequestFailed

fun position_error_text :: "position_read_error \<Rightarrow> string" where
  "position_error_text PoolUnavailable = ''Solana RPC pool is unavailable''"
| "position_error_text PositionRequestFailed = ''Solana RPC request failed''"

definition rpc_endpoint_label :: string where "rpc_endpoint_label = ''configured-read-rpc''"

record position_reader =
  prd_rpc_pool :: rpc_pool
  prd_program_id :: pubkey

definition position_pool_config :: "string \<Rightarrow> rpc_pool_config" where
  "position_pool_config rpc_url =
     default_pool_config\<lparr>pc_endpoints :=
       [\<lparr>ec_url = rpc_url, ec_label = rpc_endpoint_label, ec_is_write_endpoint = False\<rparr>]\<rparr>"

definition reader_new :: "pubkey \<Rightarrow> string \<Rightarrow> position_reader" where
  "reader_new program_id rpc_url =
     \<lparr>prd_rpc_pool = pool_new (position_pool_config rpc_url), prd_program_id = program_id\<rparr>"

text \<open>The environment variable, when it is set and is Unicode.\<close>

definition configured_reader_from_env :: "pubkey \<Rightarrow> string option \<Rightarrow> position_reader option" where
  "configured_reader_from_env program_id env_value =
     (case env_value of
        None \<Rightarrow> None
      | Some value \<Rightarrow>
          (let rpc_url = trim value in
           if rpc_url = [] then None else Some (reader_new program_id rpc_url)))"

text \<open>The filters of \<open>getProgramAccounts\<close>: the size of an obligation, and its owner at the owner's offset.\<close>

datatype account_filter = DataSize nat | Memcmp nat bytes

definition obligation_filters :: "pubkey \<Rightarrow> account_filter list" where
  "obligation_filters owner_wallet = [DataSize obligation_len, Memcmp obligation_owner_offset owner_wallet]"

type_synonym program_accounts_node =
  "rpc_client \<Rightarrow> pubkey \<Rightarrow> account_filter list \<Rightarrow> (pubkey \<times> bytes) list option"

definition find_obligations_for_owner ::
    "program_accounts_node \<Rightarrow> nat \<Rightarrow> nat \<Rightarrow> pubkey \<Rightarrow> position_reader \<Rightarrow>
     (position_read_error + (pubkey \<times> bytes) list) \<times> position_reader" where
  "find_obligations_for_owner node pick_time answer_time owner_wallet reader =
     (case read_client pick_time (prd_rpc_pool reader) of
        Inl _ \<Rightarrow> (Inl PoolUnavailable, reader)
      | Inr client \<Rightarrow>
          (case node client (prd_program_id reader) (obligation_filters owner_wallet) of
             Some accounts \<Rightarrow>
               (Inr accounts, reader\<lparr>prd_rpc_pool := record_success (rc_url client) (prd_rpc_pool reader)\<rparr>)
           | None \<Rightarrow>
               (Inl PositionRequestFailed,
                reader\<lparr>prd_rpc_pool := record_failure answer_time (rc_url client) (prd_rpc_pool reader)\<rparr>)))"

section \<open>The response\<close>

record deposit_json =
  dj_reserve :: string
  dj_deposited_amount :: string

record obligation_json =
  oj_obligation_pubkey :: string
  oj_lending_market :: string
  oj_deposits :: "deposit_json list"

definition obligation_to_json :: "(pubkey \<Rightarrow> string) \<Rightarrow> pubkey \<Rightarrow> solend_obligation \<Rightarrow> obligation_json" where
  "obligation_to_json show_key obligation_pubkey obligation =
     \<lparr>oj_obligation_pubkey = show_key obligation_pubkey,
      oj_lending_market = show_key (so_lending_market obligation),
      oj_deposits = map (\<lambda>deposit. \<lparr>dj_reserve = show_key (oc_deposit_reserve deposit),
                                  dj_deposited_amount = decimal (unat (oc_deposited_amount deposit))\<rparr>)
                        (so_deposits obligation)\<rparr>"

datatype decode_issue = OwnerMismatch pubkey | DecodeIssue pubkey decode_error

datatype position_response =
    PositionConfigMissing
  | PositionInvalidWallet
  | PositionRpcError string                                \<comment> \<open>reason\<close>
  | PositionNone string                                    \<comment> \<open>wallet\<close>
  | PositionDecodeError "decode_issue list"
  | PositionOk string nat "obligation_json list" "decode_issue list"
      \<comment> \<open>wallet, obligation count, obligations, warnings\<close>

text \<open>The loop over the accounts; an index panic of the decoder would end it without an answer.\<close>

fun sort_accounts ::
    "(pubkey \<Rightarrow> string) \<Rightarrow> pubkey \<Rightarrow> (pubkey \<times> bytes) list \<Rightarrow> (obligation_json list \<times> decode_issue list) option" where
  "sort_accounts show_key owner [] = Some ([], [])"
| "sort_accounts show_key owner ((k, data) # accounts) =
     (case decode_obligation data of
        Inl IndexPanic \<Rightarrow> None
      | result \<Rightarrow>
          map_option (\<lambda>(obligations, errors).
            (case result of
               Inr obligation \<Rightarrow>
                 (if so_owner obligation = owner
                  then (obligation_to_json show_key k obligation # obligations, errors)
                  else (obligations, OwnerMismatch k # errors))
             | Inl (DecodeErr e) \<Rightarrow> (obligations, DecodeIssue k e # errors)
             | Inl IndexPanic \<Rightarrow> (obligations, errors)))
          (sort_accounts show_key owner accounts))"

definition answer_accounts ::
    "(pubkey \<Rightarrow> string) \<Rightarrow> string \<Rightarrow> pubkey \<Rightarrow> (pubkey \<times> bytes) list \<Rightarrow> position_response option" where
  "answer_accounts show_key wallet owner raw_obligations =
     (if raw_obligations = [] then Some (PositionNone wallet)
      else map_option (\<lambda>(obligations, decode_errors).
             if obligations = [] then PositionDecodeError decode_errors
             else PositionOk wallet (length obligations) obligations decode_errors)
           (sort_accounts show_key owner raw_obligations))"

record position_env =
  pv_parse_key :: "string \<Rightarrow> pubkey option"
  pv_show_key :: "pubkey \<Rightarrow> string"
  pv_node :: program_accounts_node
  pv_pick_time :: nat
  pv_answer_time :: nat

definition query_position ::
    "position_env \<Rightarrow> string \<Rightarrow> position_reader option \<Rightarrow> position_response option \<times> position_reader option" where
  "query_position P wallet configured =
     (case configured of
        None \<Rightarrow> (Some PositionConfigMissing, None)
      | Some reader \<Rightarrow>
          (case pv_parse_key P wallet of
             None \<Rightarrow> (Some PositionInvalidWallet, Some reader)
           | Some owner \<Rightarrow>
               (case find_obligations_for_owner (pv_node P) (pv_pick_time P) (pv_answer_time P) owner reader of
                  (Inl e, reader') \<Rightarrow> (Some (PositionRpcError (position_error_text e)), Some reader')
                | (Inr raw_obligations, reader') \<Rightarrow>
                    (answer_accounts (pv_show_key P) wallet owner raw_obligations, Some reader'))))"


section \<open>What an answer contains\<close>

text \<open>The obligations of the wallet among the accounts, and the accounts that are not.\<close>

definition owned :: "pubkey \<Rightarrow> pubkey \<times> bytes \<Rightarrow> bool" where
  "owned owner a \<longleftrightarrow> (\<exists>obligation. decode_obligation (snd a) = Inr obligation \<and> so_owner obligation = owner)"

definition decoded_obligation :: "bytes \<Rightarrow> solend_obligation" where
  "decoded_obligation data = (case decode_obligation data of Inr obligation \<Rightarrow> obligation | Inl _ \<Rightarrow> undefined)"

fun issue_key :: "decode_issue \<Rightarrow> pubkey" where
  "issue_key (OwnerMismatch k) = k"
| "issue_key (DecodeIssue k e) = k"

lemma sort_accounts_split:
  "\<exists>errors. sort_accounts show_key owner accounts
     = Some (map (\<lambda>a. obligation_to_json show_key (fst a) (decoded_obligation (snd a))) (filter (owned owner) accounts), errors)
   \<and> map issue_key errors = map fst (filter (\<lambda>a. \<not> owned owner a) accounts)"
proof (induction accounts)
  case (Cons a accounts)
  obtain k data where a: "a = (k, data)" by (cases a)
  from Cons obtain errors where IH: "sort_accounts show_key owner accounts
     = Some (map (\<lambda>a. obligation_to_json show_key (fst a) (decoded_obligation (snd a))) (filter (owned owner) accounts), errors)"
     "map issue_key errors = map fst (filter (\<lambda>a. \<not> owned owner a) accounts)" by blast
  show ?case
  proof (cases "decode_obligation data")
    case (Inr obligation)
    then have "owned owner (k, data) \<longleftrightarrow> so_owner obligation = owner" "decoded_obligation data = obligation"
      by (simp_all add: owned_def decoded_obligation_def)
    then show ?thesis using IH Inr by (cases "so_owner obligation = owner") (simp_all add: a)
  next
    case (Inl failure)
    then obtain e where "failure = DecodeErr e"
      using decode_obligation_no_panic [of data] by (cases failure) auto
    moreover have "\<not> owned owner (k, data)" using Inl by (simp add: owned_def)
    ultimately show ?thesis using Inl IH by (simp add: a)
  qed
qed simp

text \<open>A position answer neither invents nor drops an account: whatever accounts the node returns for the
  wallet, the query answers, the reported obligations are exactly those that decode to an obligation owned
  by the requested wallet, in the node's order, and every other account is named in a warning.\<close>

theorem positions_are_owned_and_complete:
  "\<exists>errors. map issue_key errors = map fst (filter (\<lambda>a. \<not> owned owner a) accounts)
   \<and> answer_accounts show_key wallet owner accounts
     = Some (let obligations = map (\<lambda>a. obligation_to_json show_key (fst a) (decoded_obligation (snd a)))
                                 (filter (owned owner) accounts) in
             if accounts = [] then PositionNone wallet
             else if obligations = [] then PositionDecodeError errors
             else PositionOk wallet (length obligations) obligations errors)"
proof -
  obtain errors where "sort_accounts show_key owner accounts
     = Some (map (\<lambda>a. obligation_to_json show_key (fst a) (decoded_obligation (snd a))) (filter (owned owner) accounts), errors)"
     "map issue_key errors = map fst (filter (\<lambda>a. \<not> owned owner a) accounts)"
    using sort_accounts_split by blast
  then show ?thesis by (intro exI [of _ errors]) (simp add: answer_accounts_def Let_def)
qed

end
