(* ===== verification/Quote.thy ===== *)
theory Quote
  imports Propose Funding_Confirm
begin

text \<open>
  The read-only quote, \<open>bins/solfrontier-mcp/src/quote.rs\<close>, with its wire types of
  \<open>crates/protocols/src/jupiter/quote.rs\<close>: the policy envelope, the request and the response. What the
  HTTP stack does with a request is a parameter: it is sent or not in time, it fails or has a status, its
  body is read or not in time and is valid or not. The lemmas say when the quote service is asked, and
  for what.
\<close>

section \<open>Wire types\<close>

record swap_quote_request =
  sqr_input_mint :: string
  sqr_output_mint :: string
  sqr_amount :: u64
  sqr_slippage_bps :: u16

datatype swap_mode = ExactIn | ExactOut

record swap_info =
  swi_amm_key :: string
  swi_label :: "string option"
  swi_input_mint :: string
  swi_output_mint :: string
  swi_in_amount :: string
  swi_out_amount :: string
  swi_fee_amount :: "string option"
  swi_fee_mint :: "string option"

record route_plan_step =
  rps_swap_info :: swap_info
  rps_percent :: u8

record swap_quote_response =
  sqp_input_mint :: string
  sqp_in_amount :: string
  sqp_output_mint :: string
  sqp_out_amount :: string
  sqp_other_amount_threshold :: string
  sqp_swap_mode :: swap_mode
  sqp_slippage_bps :: u16
  sqp_price_impact_pct :: "string option"
  sqp_route_plan :: "route_plan_step list"
  sqp_context_slot :: "u64 option"

section \<open>The client\<close>

definition sol_mint_bs58 :: string where
  "sol_mint_bs58 = ''So11111111111111111111111111111111111111112''"

definition quote_usdc_mint_bs58 :: string where
  "quote_usdc_mint_bs58 = ''EPjFWdd5AufqSSqeM2qN1xzybapC8G4wEGGkZwyTDt1v''"

definition max_slippage_bps :: u16 where "max_slippage_bps = 100"
definition jupiter_api_base_url :: string where "jupiter_api_base_url = ''https://api.jup.ag''"
definition quote_timeout_ms :: nat where "quote_timeout_ms = 8000"

datatype quote_read_error = QuoteTimeout | QuoteRequestFailed | QuoteHttpStatus u16 | QuoteInvalidResponse

fun quote_error_text :: "quote_read_error \<Rightarrow> string" where
  "quote_error_text QuoteTimeout = ''Jupiter quote request timed out''"
| "quote_error_text QuoteRequestFailed = ''Jupiter quote request failed''"
| "quote_error_text (QuoteHttpStatus n) = ''Jupiter quote API returned HTTP '' @ decimal (unat n)"
| "quote_error_text QuoteInvalidResponse = ''Jupiter quote response was invalid''"

fun quote_error_class :: "quote_read_error \<Rightarrow> string" where
  "quote_error_class QuoteTimeout = ''timeout''"
| "quote_error_class QuoteRequestFailed = ''request_failed''"
| "quote_error_class (QuoteHttpStatus _) = ''http_status''"
| "quote_error_class QuoteInvalidResponse = ''invalid_response''"

fun trim_end_slashes :: "string \<Rightarrow> string" where
  "trim_end_slashes s = rev (dropWhile (\<lambda>c. c = CHR ''/'') (rev s))"

definition with_base_url :: "string \<Rightarrow> string" where
  "with_base_url base_url = trim_end_slashes base_url"

definition configured_client_from_env :: "string option \<Rightarrow> string" where
  "configured_client_from_env env_value =
     with_base_url (case env_value of
         Some value \<Rightarrow> (if trim value \<noteq> [] then value else jupiter_api_base_url)
       | None \<Rightarrow> jupiter_api_base_url)"

text \<open>The send and the reading of the body: \<open>None\<close> when the limit passes first.\<close>

record http_outcome =
  ho_send :: "(unit + u16) option"                        \<comment> \<open>a transport error or the status\<close>
  ho_body :: "(unit + swap_quote_response) option"         \<comment> \<open>not the expected JSON, or the response\<close>

definition is_success :: "u16 \<Rightarrow> bool" where
  "is_success status \<longleftrightarrow> 200 \<le> status \<and> status \<le> 299"

definition fetch_quote ::
    "(string \<Rightarrow> swap_quote_request \<Rightarrow> http_outcome) \<Rightarrow> string \<Rightarrow> swap_quote_request \<Rightarrow>
     quote_read_error + swap_quote_response" where
  "fetch_quote http base_url request =
     (let outcome = http (base_url @ ''/swap/v1/quote'') request in
      case ho_send outcome of
        None \<Rightarrow> Inl QuoteTimeout
      | Some (Inl _) \<Rightarrow> Inl QuoteRequestFailed
      | Some (Inr status) \<Rightarrow>
          (if \<not> is_success status then Inl (QuoteHttpStatus status)
           else case ho_body outcome of
             None \<Rightarrow> Inl QuoteTimeout
           | Some (Inl _) \<Rightarrow> Inl QuoteInvalidResponse
           | Some (Inr response) \<Rightarrow> Inr response))"

section \<open>The query\<close>

definition ascii_upper :: "char \<Rightarrow> char" where
  "ascii_upper c = (let n = of_char c :: nat in if 97 \<le> n \<and> n \<le> 122 then char_of (n - 32) else c)"

definition normalize_mint :: "string \<Rightarrow> string" where
  "normalize_mint input =
     (let trimmed = trim input; upper = map ascii_upper trimmed in
      if upper = ''SOL'' \<or> upper = ''WSOL'' then sol_mint_bs58
      else if upper = ''USDC'' then quote_usdc_mint_bs58
      else trimmed)"

definition is_allowed_mint :: "string \<Rightarrow> bool" where
  "is_allowed_mint mint \<longleftrightarrow> mint = sol_mint_bs58 \<or> mint = quote_usdc_mint_bs58"

datatype quote_response =
    QuotePolicyBlocked string string "u64 option"          \<comment> \<open>rule, reason, offending slippage\<close>
  | QuoteApiError string
  | QuoteOk string string string swap_quote_response "string list" u16
      \<comment> \<open>mints, input amount, the response, route labels, slippage\<close>

text \<open>The answer, and the request that was sent for it.\<close>

definition query_quote ::
    "(swap_quote_request \<Rightarrow> quote_read_error + swap_quote_response) \<Rightarrow> string \<Rightarrow> string \<Rightarrow> string \<Rightarrow> u64 \<Rightarrow>
     quote_response \<times> swap_quote_request option" where
  "query_quote source input output amount_text slippage_bps =
     (let input_mint = normalize_mint input; output_mint = normalize_mint output in
      case (case parse_u64 amount_text of Some amount \<Rightarrow> (if amount > 0 then Some amount else None) | None \<Rightarrow> None) of
        None \<Rightarrow> (QuotePolicyBlocked ''input-amount-invalid''
                  ''amount must be a positive base-unit integer encoded as a string'' None, None)
      | Some amount \<Rightarrow>
          (if slippage_bps > ucast max_slippage_bps
           then (QuotePolicyBlocked ''slippage-exceeds-quote-cap'' ''slippage_bps exceeds the Phase 1 cap of 100''
                   (Some slippage_bps), None)
           else if \<not> is_allowed_mint input_mint
           then (QuotePolicyBlocked ''input-mint-not-allowed'' ''input_mint is outside the SOL/USDC allowlist'' None, None)
           else if \<not> is_allowed_mint output_mint
           then (QuotePolicyBlocked ''output-mint-not-allowed'' ''output_mint is outside the SOL/USDC allowlist'' None, None)
           else if input_mint = output_mint
           then (QuotePolicyBlocked ''input-output-mint-equal'' ''input_mint and output_mint must differ'' None, None)
           else
             (let request = \<lparr>sqr_input_mint = input_mint, sqr_output_mint = output_mint, sqr_amount = amount,
                             sqr_slippage_bps = ucast slippage_bps\<rparr> in
              (case source request of
                 Inr response \<Rightarrow>
                   QuoteOk input_mint output_mint (decimal (unat amount)) response
                     (List.map_filter (\<lambda>step. swi_label (rps_swap_info step)) (sqp_route_plan response))
                     (ucast slippage_bps)
               | Inl e \<Rightarrow> QuoteApiError (quote_error_text e), Some request))))"


section \<open>When the service is asked\<close>

definition within_quote_policy :: "string \<Rightarrow> string \<Rightarrow> string \<Rightarrow> u64 \<Rightarrow> bool" where
  "within_quote_policy input output amount_text slippage_bps \<longleftrightarrow>
     (\<exists>amount. parse_u64 amount_text = Some amount \<and> 0 < unat amount) \<and> unat slippage_bps \<le> 100
   \<and> {normalize_mint input, normalize_mint output} = {sol_mint_bs58, quote_usdc_mint_bs58}"

lemma quote_mints_differ: "sol_mint_bs58 \<noteq> quote_usdc_mint_bs58"
  by (simp add: sol_mint_bs58_def quote_usdc_mint_bs58_def)

lemma allowed_pair:
  "is_allowed_mint a \<and> is_allowed_mint b \<and> a \<noteq> b \<longleftrightarrow> {a, b} = {sol_mint_bs58, quote_usdc_mint_bs58}"
  using quote_mints_differ by (auto simp: is_allowed_mint_def doubleton_eq_iff)

lemma slippage_cap: "slippage_bps > ucast max_slippage_bps \<longleftrightarrow> \<not> unat (slippage_bps :: u64) \<le> 100"
  by (auto simp: max_slippage_bps_def word_less_nat_alt)

lemma positive_amount:
  "(case parse_u64 t of Some amount \<Rightarrow> (if amount > 0 then Some amount else None) | None \<Rightarrow> None)
    = (if \<exists>amount. parse_u64 t = Some amount \<and> 0 < unat amount then parse_u64 t else None)"
  by (auto simp: word_less_nat_alt split: option.splits)

text \<open>C27: The quote service is asked only within the policy, and always then: a request goes out exactly when
  the amount is a positive 64-bit integer, the slippage is at most 100 basis points and the two names
  stand for SOL and USDC, one each; it carries those mints, that amount and that slippage. Otherwise the
  answer is a policy block and nothing is sent.\<close>

theorem quotes_stay_within_the_policy:
  "snd (query_quote source input output amount_text slippage_bps) =
     (if within_quote_policy input output amount_text slippage_bps
      then Some \<lparr>sqr_input_mint = normalize_mint input, sqr_output_mint = normalize_mint output,
                 sqr_amount = the (parse_u64 amount_text), sqr_slippage_bps = ucast slippage_bps\<rparr>
      else None)
   \<and> (within_quote_policy input output amount_text slippage_bps \<longleftrightarrow>
        (\<nexists>rule reason cap. fst (query_quote source input output amount_text slippage_bps)
           = QuotePolicyBlocked rule reason cap))"
proof (cases "\<exists>amount. parse_u64 amount_text = Some amount \<and> 0 < unat amount")
  case False
  then have "query_quote source input output amount_text slippage_bps = (QuotePolicyBlocked ''input-amount-invalid''
      ''amount must be a positive base-unit integer encoded as a string'' None, None)"
    unfolding query_quote_def positive_amount by (simp only: if_False option.case Let_def)
  moreover have "\<not> within_quote_policy input output amount_text slippage_bps"
    using False by (simp add: within_quote_policy_def)
  ultimately show ?thesis by simp
next
  case True
  then obtain amount where amount: "parse_u64 amount_text = Some amount" "0 < unat amount" by blast
  have policy: "within_quote_policy input output amount_text slippage_bps \<longleftrightarrow>
      unat slippage_bps \<le> 100 \<and> is_allowed_mint (normalize_mint input) \<and> is_allowed_mint (normalize_mint output)
      \<and> normalize_mint input \<noteq> normalize_mint output"
    using amount by (auto simp: within_quote_policy_def allowed_pair [symmetric])
  have query: "query_quote source input output amount_text slippage_bps =
      (if \<not> unat slippage_bps \<le> 100
       then (QuotePolicyBlocked ''slippage-exceeds-quote-cap'' ''slippage_bps exceeds the Phase 1 cap of 100''
               (Some slippage_bps), None)
       else if \<not> is_allowed_mint (normalize_mint input)
       then (QuotePolicyBlocked ''input-mint-not-allowed'' ''input_mint is outside the SOL/USDC allowlist'' None, None)
       else if \<not> is_allowed_mint (normalize_mint output)
       then (QuotePolicyBlocked ''output-mint-not-allowed'' ''output_mint is outside the SOL/USDC allowlist'' None, None)
       else if normalize_mint input = normalize_mint output
       then (QuotePolicyBlocked ''input-output-mint-equal'' ''input_mint and output_mint must differ'' None, None)
       else
         (let request = \<lparr>sqr_input_mint = normalize_mint input, sqr_output_mint = normalize_mint output,
                         sqr_amount = amount, sqr_slippage_bps = ucast slippage_bps\<rparr> in
          (case source request of
             Inr response \<Rightarrow>
               QuoteOk (normalize_mint input) (normalize_mint output) (decimal (unat amount)) response
                 (List.map_filter (\<lambda>step. swi_label (rps_swap_info step)) (sqp_route_plan response))
                 (ucast slippage_bps)
           | Inl e \<Rightarrow> QuoteApiError (quote_error_text e), Some request)))"
    unfolding query_quote_def positive_amount slippage_cap using True by (simp only: amount(1) if_True option.case Let_def)
  show ?thesis
    unfolding query policy amount(1) by (auto simp: Let_def split: sum.splits)
qed

end
