(* ===== verification/Ledger_Store.thy ===== *)
theory Ledger_Store
  imports Pending_State
begin

text \<open>
  Three repositories of \<open>crates/state-store\<close> that guard against repetition: the spend ledger
  (\<open>spend.rs\<close>, \<open>migrations/0002\<close>), the wallet challenges (\<open>wallet_challenges.rs\<close>) and the transaction
  tracking (\<open>tracking.rs\<close>). A method is its SQL statement with the clock, the date and the fresh UUID as
  arguments; a failing statement is modelled for the ledger, where retries matter. The lemmas show that the ledger counts each transaction once, that a challenge is used
  once, and what the tracking table allows.
\<close>

section \<open>The spend ledger\<close>

record spend_row =
  slr_id :: string
  slr_wallet_pubkey :: string
  slr_session_id :: string
  slr_transaction_id :: string
  slr_lamports_spent :: i64
  slr_recorded_date :: string
  slr_recorded_at :: i64

text \<open>\<open>INSERT OR IGNORE\<close> with a unique \<open>id\<close> and a unique \<open>transaction_id\<close>.\<close>

definition insert_spend_row :: "spend_row \<Rightarrow> spend_row list \<Rightarrow> spend_row list \<times> bool" where
  "insert_spend_row row t =
     (if slr_id row \<in> slr_id ` set t \<or> slr_transaction_id row \<in> slr_transaction_id ` set t
      then (t, False) else (t @ [row], True))"

definition ledger_record_spend ::
    "db_fault \<Rightarrow> string \<Rightarrow> i64 \<Rightarrow> string \<Rightarrow> string \<Rightarrow> string \<Rightarrow> string \<Rightarrow> u64 \<Rightarrow> spend_row list \<Rightarrow>
     (store_error + bool) \<times> spend_row list" where
  "ledger_record_spend fault new_id now date wallet_pubkey session_id transaction_id lamports_spent =
     statement fault (insert_spend_row
       \<lparr>slr_id = new_id, slr_wallet_pubkey = wallet_pubkey, slr_session_id = session_id,
        slr_transaction_id = transaction_id, slr_lamports_spent = ucast lamports_spent,
        slr_recorded_date = date, slr_recorded_at = now\<rparr>)"

text \<open>SQLite's \<open>SUM\<close> of integers fails when a partial sum leaves the 64-bit range.\<close>

fun sum_from :: "int \<Rightarrow> i64 list \<Rightarrow> int option" where
  "sum_from acc [] = Some acc"
| "sum_from acc (v # vs) =
     (let s = acc + sint v in
      if - (2 ^ 63) \<le> s \<and> s < 2 ^ 63 then sum_from s vs else None)"

definition sql_sum :: "(spend_row \<Rightarrow> bool) \<Rightarrow> spend_row list \<Rightarrow> store_error + u64" where
  "sql_sum P t =
     (case sum_from 0 (map slr_lamports_spent (filter P t)) of
        None \<Rightarrow> Inl (Sqlx ''integer overflow'')
      | Some s \<Rightarrow> Inr (word_of_int s))"

definition wallet_daily_spend :: "string \<Rightarrow> string \<Rightarrow> spend_row list \<Rightarrow> store_error + u64" where
  "wallet_daily_spend wallet_pubkey date t =
     sql_sum (\<lambda>r. slr_wallet_pubkey r = wallet_pubkey \<and> slr_recorded_date r = date) t"

definition ledger_session_spend :: "string \<Rightarrow> spend_row list \<Rightarrow> store_error + u64" where
  "ledger_session_spend session_id t = sql_sum (\<lambda>r. slr_session_id r = session_id) t"

definition wallet_daily_count :: "string \<Rightarrow> string \<Rightarrow> spend_row list \<Rightarrow> nat" where
  "wallet_daily_count wallet_pubkey date t =
     length (filter (\<lambda>r. slr_wallet_pubkey r = wallet_pubkey \<and> slr_recorded_date r = date) t)"

section \<open>Wallet challenges\<close>

record wallet_challenge_row =
  wcr_id :: string
  wcr_session_id :: string
  wcr_wallet_pubkey :: string
  wcr_nonce :: string
  wcr_message :: string
  wcr_created_at :: i64
  wcr_expires_at :: i64
  wcr_used_at :: "i64 option"

definition create_challenge ::
    "string \<Rightarrow> i64 \<Rightarrow> string \<Rightarrow> string \<Rightarrow> string \<Rightarrow> string \<Rightarrow> i64 \<Rightarrow> wallet_challenge_row list \<Rightarrow>
     (store_error + string) \<times> wallet_challenge_row list" where
  "create_challenge new_id now session_id wallet_pubkey nonce message expires_at t =
     (case sql_insert wcr_id
             \<lparr>wcr_id = new_id, wcr_session_id = session_id, wcr_wallet_pubkey = wallet_pubkey, wcr_nonce = nonce,
              wcr_message = message, wcr_created_at = now, wcr_expires_at = expires_at, wcr_used_at = None\<rparr> t of
        None \<Rightarrow> (Inl (Sqlx ''UNIQUE constraint failed''), t)
      | Some t' \<Rightarrow> (Inr new_id, t'))"

definition get_challenge :: "string \<Rightarrow> wallet_challenge_row list \<Rightarrow> wallet_challenge_row option" where
  "get_challenge challenge_id t = sql_get wcr_id challenge_id t"

definition challenge_mark_used :: "i64 \<Rightarrow> string \<Rightarrow> wallet_challenge_row list \<Rightarrow> wallet_challenge_row list \<times> bool" where
  "challenge_mark_used now challenge_id t =
     apsnd (\<lambda>n. n > 0) (sql_update (\<lambda>r. wcr_id r = challenge_id \<and> wcr_used_at r = None)
                           (\<lambda>r. r\<lparr>wcr_used_at := Some now\<rparr>) t)"

definition purge_old :: "i64 \<Rightarrow> i64 \<Rightarrow> wallet_challenge_row list \<Rightarrow> wallet_challenge_row list \<times> nat" where
  "purge_old now retention_ms t = sql_delete (\<lambda>r. sint (wcr_created_at r) < sint (now - retention_ms)) t"

section \<open>Transaction tracking\<close>

record tracking_row =
  tkr_signature :: string
  tkr_transaction_id :: string
  tkr_request_id :: string
  tkr_session_id :: string
  tkr_wallet_pubkey :: string
  tkr_state :: string
  tkr_last_valid_block_height :: i64
  tkr_submission_block_height :: i64
  tkr_slot :: "i64 option"
  tkr_err :: "string option"
  tkr_confirmed_emitted :: bool
  tkr_finalized_emitted :: bool
  tkr_failed_emitted :: bool
  tkr_dropped_emitted :: bool
  tkr_expired_emitted :: bool
  tkr_created_at :: i64
  tkr_updated_at :: i64

definition tracking_insert ::
    "i64 \<Rightarrow> string \<Rightarrow> string \<Rightarrow> string \<Rightarrow> string \<Rightarrow> string \<Rightarrow> u64 \<Rightarrow> u64 \<Rightarrow> tracking_row list \<Rightarrow> tracking_row list" where
  "tracking_insert now signature transaction_id request_id session_id wallet_pubkey last_valid submission t =
     (case sql_insert tkr_signature
             \<lparr>tkr_signature = signature, tkr_transaction_id = transaction_id, tkr_request_id = request_id,
              tkr_session_id = session_id, tkr_wallet_pubkey = wallet_pubkey, tkr_state = ''submitted'',
              tkr_last_valid_block_height = ucast last_valid, tkr_submission_block_height = ucast submission,
              tkr_slot = None, tkr_err = None, tkr_confirmed_emitted = False, tkr_finalized_emitted = False,
              tkr_failed_emitted = False, tkr_dropped_emitted = False, tkr_expired_emitted = False,
              tkr_created_at = now, tkr_updated_at = now\<rparr> t of
        None \<Rightarrow> t
      | Some t' \<Rightarrow> t')"

definition coalesce :: "'a option \<Rightarrow> 'a option \<Rightarrow> 'a option" where
  "coalesce a b = (case a of Some x \<Rightarrow> Some x | None \<Rightarrow> b)"

definition tracking_update_state ::
    "i64 \<Rightarrow> string \<Rightarrow> string \<Rightarrow> u64 option \<Rightarrow> string option \<Rightarrow> tracking_row list \<Rightarrow> tracking_row list \<times> bool" where
  "tracking_update_state now signature new_state slot err t =
     apsnd (\<lambda>n. n > 0) (sql_update (\<lambda>r. tkr_signature r = signature)
       (\<lambda>r. r\<lparr>tkr_state := new_state, tkr_slot := coalesce (map_option ucast slot) (tkr_slot r),
               tkr_err := coalesce err (tkr_err r), tkr_updated_at := now\<rparr>) t)"

definition set_flag :: "string \<Rightarrow> tracking_row \<Rightarrow> tracking_row" where
  "set_flag event_column r =
     (if event_column = ''confirmed_emitted'' then r\<lparr>tkr_confirmed_emitted := True\<rparr>
      else if event_column = ''finalized_emitted'' then r\<lparr>tkr_finalized_emitted := True\<rparr>
      else if event_column = ''failed_emitted'' then r\<lparr>tkr_failed_emitted := True\<rparr>
      else if event_column = ''dropped_emitted'' then r\<lparr>tkr_dropped_emitted := True\<rparr>
      else r\<lparr>tkr_expired_emitted := True\<rparr>)"

definition mark_event_emitted ::
    "i64 \<Rightarrow> string \<Rightarrow> string \<Rightarrow> tracking_row list \<Rightarrow> (store_error + unit) \<times> tracking_row list" where
  "mark_event_emitted now signature event_column t =
     (if event_column \<notin> {''confirmed_emitted'', ''finalized_emitted'', ''failed_emitted'', ''dropped_emitted'',
                          ''expired_emitted''}
      then (Inl (IntegrityCheckFailed (UnknownStatus (''invalid event column: '' @ event_column))), t)
      else (Inr (), fst (sql_update (\<lambda>r. tkr_signature r = signature)
             (\<lambda>r. (set_flag event_column r)\<lparr>tkr_updated_at := now\<rparr>) t)))"

definition load_active :: "tracking_row list \<Rightarrow> tracking_row list" where
  "load_active t =
     sort_key (\<lambda>r. sint (tkr_created_at r))
       (filter (\<lambda>r. tkr_state r \<in> {''submitted'', ''confirmed'', ''dropped''}) t)"

definition tracking_mark_expired :: "i64 \<Rightarrow> string \<Rightarrow> tracking_row list \<Rightarrow> tracking_row list" where
  "tracking_mark_expired now signature t =
     fst (sql_update (\<lambda>r. tkr_signature r = signature) (\<lambda>r. r\<lparr>tkr_state := ''expired'', tkr_updated_at := now\<rparr>) t)"


section \<open>The ledger counts each transaction once\<close>

text \<open>One call: its fault, what the clock and the UUID generator give, and its arguments.\<close>

record spend_call =
  sc_fault :: db_fault
  sc_id :: string
  sc_now :: i64
  sc_date :: string
  sc_wallet :: string
  sc_session :: string
  sc_tx :: string
  sc_lamports :: u64

definition spend_step :: "spend_call \<Rightarrow> spend_row list \<Rightarrow> spend_row list" where
  "spend_step c t = snd (ledger_record_spend (sc_fault c) (sc_id c) (sc_now c) (sc_date c) (sc_wallet c) (sc_session c)
     (sc_tx c) (sc_lamports c) t)"

text \<open>What was spent by each transaction: the first call that takes effect.\<close>

definition account_for :: "spend_call \<Rightarrow> (string \<rightharpoonup> spend_call) \<Rightarrow> (string \<rightharpoonup> spend_call)" where
  "account_for c m = (if sc_fault c = FailBefore \<or> m (sc_tx c) \<noteq> None then m else m(sc_tx c \<mapsto> c))"

definition accounts :: "spend_call list \<Rightarrow> (string \<rightharpoonup> spend_call)" where
  "accounts cs = fold account_for cs (\<lambda>_. None)"

definition spent :: "(spend_call \<Rightarrow> bool) \<Rightarrow> (string \<rightharpoonup> spend_call) \<Rightarrow> nat" where
  "spent P m = (\<Sum>c \<in> {c \<in> ran m. P c}. unat (sc_lamports c))"

definition row_of :: "spend_call \<Rightarrow> spend_row" where
  "row_of c = \<lparr>slr_id = sc_id c, slr_wallet_pubkey = sc_wallet c, slr_session_id = sc_session c,
     slr_transaction_id = sc_tx c, slr_lamports_spent = ucast (sc_lamports c), slr_recorded_date = sc_date c,
     slr_recorded_at = sc_now c\<rparr>"

lemma sum_from_nonneg:
  assumes "list_all (\<lambda>v. 0 \<le> sint v) vs" "0 \<le> acc" "acc + sum_list (map sint vs) < 2 ^ 63"
  shows "sum_from acc vs = Some (acc + sum_list (map sint vs))"
  using assms
proof (induction vs arbitrary: acc)
  case (Cons v vs)
  have "0 \<le> sum_list (map sint vs)"
    using Cons.prems(1) by (intro sum_list_nonneg) (auto simp: list_all_iff)
  with Cons show ?case by (simp add: Let_def add.assoc)
qed simp

text \<open>The table is a list of the accounted calls, in some order.\<close>

lemma ledger_rows:
  assumes "distinct (map sc_id cs)"
  shows "\<exists>kept. fold spend_step cs [] = map row_of kept \<and> distinct (map sc_tx kept)
    \<and> set kept \<subseteq> set cs \<and> ran (accounts cs) = set kept
    \<and> dom (accounts cs) = sc_tx ` set kept"
  using assms
proof (induction cs rule: rev_induct)
  case Nil
  then show ?case by (auto simp: accounts_def)
next
  case (snoc c cs)
  then obtain kept where IH: "fold spend_step cs [] = map row_of kept" "distinct (map sc_tx kept)"
      "set kept \<subseteq> set cs" "ran (accounts cs) = set kept"
      "dom (accounts cs) = sc_tx ` set kept" by auto
  have fresh: "sc_id c \<notin> sc_id ` set kept" using snoc.prems IH(3) by auto
  have step: "fold spend_step (cs @ [c]) [] = spend_step c (map row_of kept)" by (simp add: IH(1))
  have accounts: "accounts (cs @ [c]) = account_for c (accounts cs)" by (simp add: accounts_def)
  have known: "accounts cs (sc_tx c) \<noteq> None \<longleftrightarrow> sc_tx c \<in> sc_tx ` set kept" using IH(5) by (auto simp: dom_def)
  have ids: "slr_id ` row_of ` set kept = sc_id ` set kept"
      "slr_transaction_id ` row_of ` set kept = sc_tx ` set kept"
    by (auto simp: row_of_def image_iff)
  show ?case
  proof (cases "sc_fault c = FailBefore \<or> sc_tx c \<in> sc_tx ` set kept")
    case True
    then have "spend_step c (map row_of kept) = map row_of kept"
      by (auto simp: spend_step_def ledger_record_spend_def statement_def insert_spend_row_def ids
          split: db_fault.split)
    moreover have "account_for c (accounts cs) = accounts cs" using True known by (simp add: account_for_def)
    ultimately show ?thesis using IH unfolding step accounts by (intro exI [of _ kept]) auto
  next
    case False
    then have "spend_step c (map row_of kept) = map row_of (kept @ [c])"
      using fresh by (auto simp: spend_step_def ledger_record_spend_def statement_def insert_spend_row_def ids row_of_def
          split: db_fault.split)
    moreover have m: "account_for c (accounts cs) = (accounts cs)(sc_tx c \<mapsto> c)"
      using False known by (simp add: account_for_def)
    moreover have "ran ((accounts cs)(sc_tx c \<mapsto> c)) = insert c (set kept)"
      using False known IH(4) by (subst ran_map_upd) auto
    ultimately show ?thesis
      unfolding step accounts m
      by (intro exI [of _ "kept @ [c]"]) (use IH False in \<open>auto simp del: fun_upd_apply\<close>)
  qed
qed

lemma spent_list:
  assumes "distinct (map sc_tx kept)" "ran m = set kept"
  shows "spent P m = sum_list (map (\<lambda>c. unat (sc_lamports c)) (filter P kept))"
proof -
  have "distinct (filter P kept)" using assms(1) by (simp add: distinct_map)
  then show ?thesis unfolding spent_def assms(2)
    by (simp add: sum_list_distinct_conv_sum_set)
qed

lemma sint_unat: "unat v < 2 ^ 63 \<Longrightarrow> sint v = int (unat v)" for v :: i64
proof -
  assume "unat v < 2 ^ 63"
  then have "0 \<le> sint v" by (simp add: sint_nonneg_iff)
  moreover have "sint v < 2 ^ 63" using sint_less [of v] by simp
  ultimately have "take_bit 64 (sint v) = sint v" by (intro take_bit_int_eq_self) simp_all
  then show ?thesis using uint_sint [of v] by simp
qed

lemma sum_sint: "list_all (\<lambda>v. unat v < 2 ^ 63) vs \<Longrightarrow> sum_list (map sint vs) = int (sum_list (map unat vs))"
  for vs :: "i64 list"
  by (induction vs) (simp_all add: sint_unat)

lemma sql_sum_spent:
  assumes "distinct (map sc_id cs)" and P: "\<And>c. P (row_of c) \<longleftrightarrow> Q c"
    and "spent Q (accounts cs) < 2 ^ 63"
  shows "sql_sum P (fold spend_step cs []) = Inr (word_of_nat (spent Q (accounts cs)))"
proof -
  obtain kept where kept: "fold spend_step cs [] = map row_of kept" "distinct (map sc_tx kept)"
      "ran (accounts cs) = set kept"
    using ledger_rows [OF assms(1)] by blast
  let ?vs = "map sc_lamports (filter Q kept)"
  have "filter P (map row_of kept) = map row_of (filter Q kept)" using P by (simp add: filter_map comp_def)
  then have vs: "map slr_lamports_spent (filter P (map row_of kept)) = ?vs"
    by (simp add: comp_def row_of_def)
  have total: "spent Q (accounts cs) = sum_list (map unat ?vs)"
    using spent_list [OF kept(2,3)] by (simp add: comp_def)
  have small: "unat v < 2 ^ 63" if "v \<in> set ?vs" for v
  proof -
    have "unat v \<le> sum_list (map unat ?vs)" by (rule member_le_sum_list) (use that in auto)
    then show ?thesis using assms(3) total by simp
  qed
  then have sint: "sint v = int (unat v)" if "v \<in> set ?vs" for v
    using that small by (intro sint_unat) blast
  have "list_all (\<lambda>v. unat v < 2 ^ 63) ?vs" using small unfolding list_all_iff by blast
  then have sums: "sum_list (map sint ?vs) = int (sum_list (map unat ?vs))" by (rule sum_sint)
  have "sum_from 0 ?vs = Some (int (sum_list (map unat ?vs)))"
    using sum_from_nonneg [of ?vs 0] sums assms(3) total sint by (simp add: list_all_iff)
  then show ?thesis by (simp add: sql_sum_def kept(1) vs total)
qed


text \<open>C24: Over every sequence of spend recordings, some of them failing before or after their statement, what
  the ledger reports for a wallet and a day is what the first effective recording of each transaction
  spent there, and likewise for a session: a retried transaction is never counted twice and none that
  took effect is lost. The record identifiers are fresh, and the sums stay in the range SQLite adds in.
\<close>

theorem ledger_counts_each_transaction_once:
  assumes "distinct (map sc_id cs)"
    and "spent (\<lambda>c. sc_wallet c = w \<and> sc_date c = d) (accounts cs) < 2 ^ 63"
    and "spent (\<lambda>c. sc_session c = s) (accounts cs) < 2 ^ 63"
  shows "wallet_daily_spend w d (fold spend_step cs [])
      = Inr (word_of_nat (spent (\<lambda>c. sc_wallet c = w \<and> sc_date c = d) (accounts cs)))
    \<and> ledger_session_spend s (fold spend_step cs [])
      = Inr (word_of_nat (spent (\<lambda>c. sc_session c = s) (accounts cs)))"
  unfolding wallet_daily_spend_def ledger_session_spend_def
  using assms by (intro conjI sql_sum_spent) (simp_all add: row_of_def)

definition repeated_spends :: "spend_call list" where
  "repeated_spends =
     (let c = \<lparr>sc_fault = FailAfter, sc_id = ''1'', sc_now = 10, sc_date = ''2026-04-01'', sc_wallet = ''w'',
               sc_session = ''s'', sc_tx = ''t'', sc_lamports = 700\<rparr>
      in [c\<lparr>sc_fault := FailBefore, sc_id := ''0''\<rparr>, c, c\<lparr>sc_fault := NoFault, sc_id := ''2''\<rparr>,
          c\<lparr>sc_fault := NoFault, sc_id := ''3'', sc_tx := ''u'', sc_lamports := 50\<rparr>])"

theorem ledger_counts_each_transaction_once_witness:
  "wallet_daily_spend ''w'' ''2026-04-01'' (fold spend_step repeated_spends []) = Inr 750
    \<and> ledger_session_spend ''s'' (fold spend_step repeated_spends []) = Inr 750"
proof -
  let ?a = "repeated_spends ! 1" and ?b = "repeated_spends ! 3"
  have ids: "distinct (map sc_id repeated_spends)" by (simp add: repeated_spends_def Let_def)
  have m: "accounts repeated_spends = [sc_tx ?a \<mapsto> ?a, sc_tx ?b \<mapsto> ?b]"
    by (simp add: repeated_spends_def accounts_def account_for_def Let_def)
  have "ran (accounts repeated_spends) = {?a, ?b}"
    unfolding m by (simp add: repeated_spends_def Let_def insert_commute)
  then have spent: "spent P (accounts repeated_spends) = 750" if "P ?a" "P ?b" for P
  proof -
    assume "ran (accounts repeated_spends) = {?a, ?b}"
    then have "{c \<in> ran (accounts repeated_spends). P c} = {?a, ?b}" using that by auto
    then show ?thesis by (simp add: spent_def repeated_spends_def Let_def)
  qed
  have both: "sc_wallet c = ''w'' \<and> sc_date c = ''2026-04-01''" "sc_session c = ''s''" if "c \<in> set repeated_spends" for c
    using that by (auto simp: repeated_spends_def Let_def)
  have a: "?a \<in> set repeated_spends" and b: "?b \<in> set repeated_spends" by (simp_all add: repeated_spends_def Let_def)
  show ?thesis
    using ledger_counts_each_transaction_once [OF ids, of "''w''" "''2026-04-01''" "''s''"]
      spent [OF both(1) [OF a] both(1) [OF b]] spent [OF both(2) [OF a] both(2) [OF b]]
    by simp
qed

section \<open>Challenges are used once\<close>

datatype challenge_op =
    CreateChallenge string i64 string string string string i64
  | UseChallenge i64 string
  | PurgeChallenges i64 i64

fun challenge_step :: "challenge_op \<Rightarrow> wallet_challenge_row list \<Rightarrow> wallet_challenge_row list" where
  "challenge_step (CreateChallenge new_id now session wallet nonce msg expires) t =
     snd (create_challenge new_id now session wallet nonce msg expires t)"
| "challenge_step (UseChallenge now i) t = fst (challenge_mark_used now i t)"
| "challenge_step (PurgeChallenges now retention) t = fst (purge_old now retention t)"

text \<open>How often challenge \<open>i\<close> is successfully created and successfully used in a run.\<close>

fun challenge_created :: "string \<Rightarrow> challenge_op list \<Rightarrow> wallet_challenge_row list \<Rightarrow> nat" where
  "challenge_created i [] t = 0"
| "challenge_created i (CreateChallenge j now session wallet nonce msg expires # cmds) t =
     (if j = i \<and> fst (create_challenge j now session wallet nonce msg expires t) = Inr i then 1 else 0)
     + challenge_created i cmds (snd (create_challenge j now session wallet nonce msg expires t))"
| "challenge_created i (c # cmds) t = challenge_created i cmds (challenge_step c t)"

fun challenge_used :: "string \<Rightarrow> challenge_op list \<Rightarrow> wallet_challenge_row list \<Rightarrow> nat" where
  "challenge_used i [] t = 0"
| "challenge_used i (UseChallenge now j # cmds) t =
     (if j = i \<and> snd (challenge_mark_used now j t) then 1 else 0)
     + challenge_used i cmds (fst (challenge_mark_used now j t))"
| "challenge_used i (c # cmds) t = challenge_used i cmds (challenge_step c t)"

definition unused_rows :: "string \<Rightarrow> wallet_challenge_row list \<Rightarrow> nat" where
  "unused_rows i t = length (filter (\<lambda>r. wcr_id r = i \<and> wcr_used_at r = None) t)"


lemma use_consumes:
  "(if snd (challenge_mark_used now j t) \<and> j = i then 1 else 0) + unused_rows i (fst (challenge_mark_used now j t))
     \<le> unused_rows i t"
  by (induction t) (auto simp: challenge_mark_used_def sql_update_def unused_rows_def)

lemma create_adds:
  "unused_rows i (snd (create_challenge j now session wallet nonce msg expires t))
     \<le> unused_rows i t
       + (if j = i \<and> fst (create_challenge j now session wallet nonce msg expires t) = Inr i then 1 else 0)"
  by (auto simp: create_challenge_def unused_rows_def sql_insert_def)

lemma purge_removes: "unused_rows i (fst (purge_old now retention t)) \<le> unused_rows i t"
  by (induction t) (auto simp: purge_old_def sql_delete_def unused_rows_def)

lemma challenge_used_at_most_once:
  "challenge_used i cmds t \<le> challenge_created i cmds t + unused_rows i t"
proof (induction cmds arbitrary: t)
  case (Cons c cmds)
  show ?case
  proof (cases c)
    case (CreateChallenge j now session wallet nonce msg expires)
    then show ?thesis
      using Cons.IH [of "challenge_step c t"] create_adds [of i j now session wallet nonce msg expires t]
      by (simp split del: if_split)
  next
    case (UseChallenge now j)
    then show ?thesis
      using Cons.IH [of "challenge_step c t"] use_consumes [of now j t i]
      by (simp split del: if_split add: conj_commute)
  next
    case (PurgeChallenges now retention)
    then show ?thesis
      using Cons.IH [of "challenge_step c t"] purge_removes [of i now retention t] by simp
  qed
qed simp

section \<open>Tracking rows can go back\<close>

text \<open>
  \<open>update_state\<close> writes the state it is given whatever the row holds: a finalized transaction can be
  written back as submitted, and is then loaded as active.
\<close>

lemma tracking_updates_can_regress:
  assumes "r \<in> set t" "tkr_signature r = sig" "state \<in> {''submitted'', ''confirmed'', ''dropped''}"
  shows "snd (tracking_update_state now sig state slot err t)"
    and "\<exists>r' \<in> set (load_active (fst (tracking_update_state now sig state slot err t))).
           tkr_signature r' = sig \<and> tkr_state r' = state"
proof -
  show "snd (tracking_update_state now sig state slot err t)"
    using assms(1,2) by (auto simp: tracking_update_state_def sql_update_def filter_empty_conv)
  show "\<exists>r' \<in> set (load_active (fst (tracking_update_state now sig state slot err t))).
           tkr_signature r' = sig \<and> tkr_state r' = state"
    using assms
    by (intro bexI [of _ "r\<lparr>tkr_state := state, tkr_slot := coalesce (map_option ucast slot) (tkr_slot r),
               tkr_err := coalesce err (tkr_err r), tkr_updated_at := now\<rparr>"])
      (auto simp: load_active_def tracking_update_state_def sql_update_def image_iff)
qed

end
