(* ===== verification/Save_Rate.thy ===== *)
theory Save_Rate
  imports Complex_Main Market_Rate Rpc_Pool Quote
begin

text \<open>
  The market source of the finalisation, the second half of \<open>bins/solfrontier-mcp/src/finalize_market.rs\<close>:
  the reads over a pool of one endpoint, and the display rate of the Save API, a percent text that is
  parsed as an \<open>f64\<close> and turned into basis points. A finite double is its rational value;
  \<open>str::parse::<f64>\<close> follows the documented grammar and rounds to nearest, ties to even, and the sign of
  a zero is not kept, since nothing here tells the two zeros apart. The HTTP client and the node are
  parameters. The lemmas bound what the two roundings can do to a rate.
\<close>

section \<open>Doubles\<close>

datatype f64 = F64NaN | F64Infinite bool | F64Finite rat

definition floor_log2 :: "rat \<Rightarrow> int" where
  "floor_log2 q =
     (let (n, d) = quotient_of q; k = int (bit_count (nat n)) - int (bit_count (nat d)) in
      if 2 powi k \<le> q then k else k - 1)"

definition round_even :: "rat \<Rightarrow> int" where
  "round_even x =
     (let f = \<lfloor>x\<rfloor>; r = x - of_int f in if r > 1 / 2 \<or> (r = 1 / 2 \<and> odd f) then f + 1 else f)"

text \<open>The exponent of the last place: 52 below the leading bit, and never below that of the subnormals.\<close>

definition last_place :: "rat \<Rightarrow> int" where
  "last_place q = max (- 1074) (floor_log2 q - 52)"

definition nearest_double :: "rat \<Rightarrow> rat" where
  "nearest_double q = (if q = 0 then 0 else of_int (round_even (q / 2 powi last_place q)) * 2 powi last_place q)"

definition f64_of_rat :: "rat \<Rightarrow> f64" where
  "f64_of_rat q =
     (let v = nearest_double \<bar>q\<bar> in
      if 2 ^ 1024 \<le> v then F64Infinite (q < 0) else F64Finite (if q < 0 then - v else v))"

text \<open>\<open>f64::round\<close>: halves away from zero.\<close>

definition f64_round :: "rat \<Rightarrow> int" where
  "f64_round q = (if 0 \<le> q then \<lfloor>q + 1 / 2\<rfloor> else - \<lfloor>1 / 2 - q\<rfloor>)"

section \<open>\<open>str::parse::<f64>\<close>\<close>

definition is_digit :: "char \<Rightarrow> bool" where
  "is_digit c \<longleftrightarrow> digit_of c \<noteq> None"

definition digits_number :: "string \<Rightarrow> nat" where
  "digits_number ds = foldl (\<lambda>a c. 10 * a + (of_char c - 48)) 0 ds"

definition split_sign :: "string \<Rightarrow> bool \<times> string" where
  "split_sign s =
     (case s of
        [] \<Rightarrow> (False, [])
      | c # cs \<Rightarrow> (if c = CHR ''-'' then (True, cs) else if c = CHR ''+'' then (False, cs) else (False, s)))"

definition parse_exponent :: "string \<Rightarrow> int option" where
  "parse_exponent s =
     (case s of
        [] \<Rightarrow> Some 0
      | c # cs \<Rightarrow>
          (let (neg, ds) = split_sign cs in
           if c \<in> {CHR ''e'', CHR ''E''} \<and> ds \<noteq> [] \<and> list_all is_digit ds
           then Some (if neg then - int (digits_number ds) else int (digits_number ds)) else None))"

definition parse_number :: "string \<Rightarrow> rat option" where
  "parse_number s =
     (let whole = takeWhile is_digit s; rest = dropWhile is_digit s;
          (fraction, rest) = (case rest of
             c # cs \<Rightarrow> (if c = CHR ''.'' then (takeWhile is_digit cs, dropWhile is_digit cs) else ([], rest))
           | [] \<Rightarrow> ([], []))
      in if whole = [] \<and> fraction = [] then None
         else map_option (\<lambda>e. of_nat (digits_number (whole @ fraction)) * 10 powi (e - int (length fraction)))
                (parse_exponent rest))"

text \<open>The number a text denotes, before it is rounded to a double.\<close>

definition decimal_value :: "string \<Rightarrow> rat option" where
  "decimal_value s =
     (let (neg, body) = split_sign s in map_option (\<lambda>q. if neg then - q else q) (parse_number body))"

definition parse_f64 :: "string \<Rightarrow> f64 option" where
  "parse_f64 s =
     (let (neg, body) = split_sign s; word = map ascii_lower body in
      if word = ''inf'' \<or> word = ''infinity'' then Some (F64Infinite neg)
      else if word = ''nan'' then Some F64NaN
      else map_option f64_of_rat (decimal_value s))"

section \<open>The display rate\<close>

definition main_pool_usdc_reserve_bs58 :: string where
  "main_pool_usdc_reserve_bs58 = ''BgxfHJDzm44T7XG68MYKx7YisTjZu73tVovyZSjJMpmw''"
definition main_pool_lending_market_bs58 :: string where
  "main_pool_lending_market_bs58 = ''4UpD2fh7xH3VP9QQaXtsS1YY3bxzWhtfpks7FatyKvdY''"
definition market_usdc_mint_bs58 :: string where
  "market_usdc_mint_bs58 = ''EPjFWdd5AufqSSqeM2qN1xzybapC8G4wEGGkZwyTDt1v''"
definition main_pool_usdc_collateral_mint_bs58 :: string where
  "main_pool_usdc_collateral_mint_bs58 = ''993dVFL2uXWYeoXuEBFXR4BijeXdTv4s6BzsCjJZuwqk''"
definition save_apy_percent_sanity_max :: rat where "save_apy_percent_sanity_max = 1000"

definition parse_percent_string_to_bps :: "string \<Rightarrow> finalize_market_read_error + u32" where
  "parse_percent_string_to_bps value =
     (case parse_f64 (trim value) of
        Some (F64Finite percent) \<Rightarrow>
          (if \<not> (0 \<le> percent \<and> percent \<le> save_apy_percent_sanity_max) then Inl SaveRateInvalid
           else case f64_of_rat (percent * 100) of
             F64Finite product \<Rightarrow>
               (let bps = f64_round product in
                if \<not> (0 \<le> bps \<and> bps \<le> 2 ^ 32 - 1) then Inl SaveRateInvalid else Inr (word_of_int bps))
           | _ \<Rightarrow> Inl SaveRateInvalid)
      | _ \<Rightarrow> Inl SaveRateInvalid)"

definition pointer :: "string list \<Rightarrow> json \<Rightarrow> json option" where
  "pointer path v = fold (\<lambda>key found. Option.bind found (json_get key)) path (Some v)"

definition require_pinned_string :: "json option \<Rightarrow> string \<Rightarrow> finalize_market_read_error + unit" where
  "require_pinned_string actual expected =
     try_bind (ok_or (Option.bind actual as_str) SaveInvalidResponse) (\<lambda>actual.
       if actual \<noteq> expected then Inl SaveIdentityMismatch else Inr ())"

definition parse_save_display_apy_bps :: "json \<Rightarrow> finalize_market_read_error + u32" where
  "parse_save_display_apy_bps body =
     try_bind (ok_or (Option.bind (Option.bind (json_get ''results'' body) as_array)
         (\<lambda>results. case results of [] \<Rightarrow> None | first # _ \<Rightarrow> Some first)) SaveInvalidResponse) (\<lambda>result.
     try_bind (require_pinned_string (pointer [''reserve'', ''pubkey''] result) main_pool_usdc_reserve_bs58) (\<lambda>_.
     try_bind (require_pinned_string (pointer [''reserve'', ''lendingMarket''] result) main_pool_lending_market_bs58) (\<lambda>_.
     try_bind (require_pinned_string (pointer [''reserve'', ''liquidity'', ''mintPubkey''] result) market_usdc_mint_bs58) (\<lambda>_.
     try_bind (require_pinned_string (pointer [''reserve'', ''collateral'', ''mintPubkey''] result)
         main_pool_usdc_collateral_mint_bs58) (\<lambda>_.
     try_bind (ok_or (Option.bind (pointer [''rates'', ''supplyInterest''] result) as_str) SaveInvalidResponse) (\<lambda>text.
       parse_percent_string_to_bps text))))))"


section \<open>What the roundings do\<close>

lemma bit_count_lower: "0 < n \<Longrightarrow> 2 ^ bit_count n \<le> 2 * n"
proof (induction n rule: bit_count.induct)
  case (1 n)
  show ?case
  proof (cases "n div 2 = 0")
    case True
    then have "n = 1" using 1(2) by simp
    then show ?thesis by (simp add: bit_count.simps)
  next
    case False
    then show ?thesis using 1 by (subst bit_count.simps) simp
  qed
qed

lemma bit_count_upper: "n < 2 ^ bit_count n"
proof (induction n rule: bit_count.induct)
  case (1 n)
  show ?case
  proof (cases "n = 0")
    case False
    then have "n div 2 < 2 ^ bit_count (n div 2)" by (rule 1)
    then have "n < 2 * 2 ^ bit_count (n div 2)" by linarith
    then show ?thesis using False by (subst bit_count.simps) simp
  qed simp
qed

lemma floor_log2_lower:
  assumes "0 < q"
  shows "2 powi floor_log2 q \<le> q"
proof -
  obtain n d where nd: "quotient_of q = (n, d)" by (cases "quotient_of q")
  have d: "0 < d" using nd by (rule quotient_of_denom_pos)
  have q: "q = of_int n / of_int d" using nd by (rule quotient_of_div)
  have n: "0 < n" using assms d unfolding q by (simp add: zero_less_divide_iff)
  let ?bn = "bit_count (nat n)" and ?bd = "bit_count (nat d)"
  have "2 ^ ?bn \<le> 2 * nat n" using n by (intro bit_count_lower) simp
  then have "int (2 ^ ?bn) \<le> int (2 * nat n)" by (rule of_nat_mono)
  then have "(2 :: int) ^ ?bn \<le> 2 * n" using n by simp
  then have "of_int ((2 :: int) ^ ?bn) \<le> (of_int (2 * n) :: rat)" by (rule of_int_le_iff [THEN iffD2])
  then have top: "(2 :: rat) ^ ?bn \<le> 2 * of_int n" by simp
  have "int (nat d) \<le> int (2 ^ ?bd)" by (intro of_nat_mono less_imp_le bit_count_upper)
  then have "d \<le> (2 :: int) ^ ?bd" using d by simp
  then have "(of_int d :: rat) \<le> of_int ((2 :: int) ^ ?bd)" by (rule of_int_le_iff [THEN iffD2])
  then have bottom: "of_int d \<le> (2 :: rat) ^ ?bd" by simp
  have "(2 :: rat) powi (int ?bn - int ?bd - 1) = 2 ^ ?bn / (2 * 2 ^ ?bd)"
    by (simp add: power_int_diff)
  also have "\<dots> \<le> of_int n / 2 ^ ?bd" using top by (simp add: field_simps)
  also have "\<dots> \<le> of_int n / of_int d" using bottom d n by (intro divide_left_mono) auto
  finally have "(2 :: rat) powi (int ?bn - int ?bd - 1) \<le> q" unfolding q .
  then show ?thesis unfolding floor_log2_def nd by (auto simp: Let_def)
qed

lemma floor_log2_upper:
  assumes "0 < q"
  shows "q < 2 powi (floor_log2 q + 1)"
proof -
  obtain n d where nd: "quotient_of q = (n, d)" by (cases "quotient_of q")
  have d: "0 < d" using nd by (rule quotient_of_denom_pos)
  have q: "q = of_int n / of_int d" using nd by (rule quotient_of_div)
  have n: "0 < n" using assms d unfolding q by (simp add: zero_less_divide_iff)
  let ?bn = "bit_count (nat n)" and ?bd = "bit_count (nat d)"
  have "int (nat n) < int (2 ^ ?bn)" by (simp only: of_nat_less_iff bit_count_upper)
  then have "of_int n < (of_int (2 ^ ?bn) :: rat)" using n by (simp only: of_int_less_iff) simp
  then have top: "of_int n < (2 :: rat) ^ ?bn" by simp
  have "int (2 ^ ?bd) \<le> int (2 * nat d)" using d by (intro of_nat_mono bit_count_lower) simp
  then have "(of_int (2 ^ ?bd) :: rat) \<le> of_int (2 * d)" using d by (simp only: of_int_le_iff) simp
  then have bottom: "(2 :: rat) ^ ?bd \<le> 2 * of_int d" by simp
  have "q * 2 ^ ?bd \<le> q * (2 * of_int d)" using bottom assms by (intro mult_left_mono) auto
  also have "\<dots> = 2 * of_int n" using d by (simp add: q)
  also have "\<dots> < 2 * 2 ^ ?bn" using top by simp
  finally have "q < 2 * 2 ^ ?bn / 2 ^ ?bd" by (simp add: field_simps)
  also have "\<dots> = 2 powi (int ?bn - int ?bd + 1)" by (simp add: power_int_diff power_int_add)
  finally show ?thesis unfolding floor_log2_def nd by (auto simp: Let_def)
qed

lemma floor_log2_unique:
  assumes "2 powi k \<le> q" "q < 2 powi (k + 1)"
  shows "floor_log2 q = k"
proof -
  have "(0 :: rat) < 2 powi k" by simp
  then have q: "0 < q" using assms(1) by linarith
  have "floor_log2 q < k + 1"
  proof (rule ccontr)
    assume "\<not> floor_log2 q < k + 1"
    then have "(2 :: rat) powi (k + 1) \<le> 2 powi floor_log2 q" by (intro power_int_increasing) auto
    with floor_log2_lower [OF q] assms(2) show False by linarith
  qed
  moreover have "k < floor_log2 q + 1"
  proof (rule ccontr)
    assume "\<not> k < floor_log2 q + 1"
    then have "(2 :: rat) powi (floor_log2 q + 1) \<le> 2 powi k" by (intro power_int_increasing) auto
    with floor_log2_upper [OF q] assms(1) show False by linarith
  qed
  ultimately show ?thesis by simp
qed

lemma round_even_close: "\<bar>of_int (round_even x) - x\<bar> \<le> 1 / 2"
  unfolding round_even_def Let_def by (auto simp: abs_if) linarith+

lemma round_even_le: "x \<le> of_int n \<Longrightarrow> round_even x \<le> n"
  unfolding round_even_def Let_def by (auto split: if_splits) linarith+

lemma round_even_nonneg: "0 \<le> x \<Longrightarrow> 0 \<le> round_even x"
  unfolding round_even_def Let_def by auto

lemma nearest_double_nonneg: "0 \<le> q \<Longrightarrow> 0 \<le> nearest_double q"
  by (auto simp: nearest_double_def intro!: mult_nonneg_nonneg round_even_nonneg)

definition rounding_error :: "rat \<Rightarrow> rat" where
  "rounding_error q = q / 2 ^ 53 + 1 / 2 ^ 1075"

lemma nearest_double_close:
  assumes "0 \<le> q"
  shows "\<bar>nearest_double q - q\<bar> \<le> rounding_error q"
proof (cases "q = 0")
  case False
  let ?u = "(2 :: rat) powi last_place q"
  have u: "0 < ?u" by simp
  have "nearest_double q - q = (of_int (round_even (q / ?u)) - q / ?u) * ?u"
    using False u by (simp add: nearest_double_def left_diff_distrib)
  then have "\<bar>nearest_double q - q\<bar> = \<bar>of_int (round_even (q / ?u)) - q / ?u\<bar> * ?u"
    using u by (simp only: abs_mult abs_of_pos)
  also have "\<dots> \<le> 1 / 2 * ?u" using round_even_close u by (intro mult_right_mono) auto
  also have "\<dots> \<le> rounding_error q"
  proof (cases "floor_log2 q - 52 \<le> - 1074")
    case True
    then have "1 / 2 * ?u = 1 / 2 ^ 1075" unfolding last_place_def by (simp add: power_int_def max_def power_inverse field_simps)
    then show ?thesis unfolding rounding_error_def using assms by simp
  next
    case small: False
    then have "?u = 2 powi floor_log2 q / 2 ^ 52"
      unfolding last_place_def by (simp add: max_def power_int_diff)
    also have "\<dots> \<le> q / 2 ^ 52" using floor_log2_lower assms False by (intro divide_right_mono) auto
    finally show ?thesis unfolding rounding_error_def by simp
  qed
  finally show ?thesis .
qed (simp add: nearest_double_def rounding_error_def)

lemma nearest_double_le:
  assumes "0 \<le> q" "q \<le> 1000"
  shows "nearest_double q \<le> 1000"
proof (cases "q = 0")
  case False
  let ?e = "last_place q"
  have "floor_log2 q < 10"
  proof (rule ccontr)
    assume "\<not> floor_log2 q < 10"
    then have "(2 :: rat) powi 10 \<le> 2 powi floor_log2 q" by (intro power_int_increasing) auto
    moreover have "(2 :: rat) powi floor_log2 q \<le> 1000" using floor_log2_lower [of q] assms False by simp
    ultimately show False by simp
  qed
  then have e: "?e \<le> 0" by (simp add: last_place_def)
  then have grid: "1000 / (2 :: rat) powi ?e = of_int (1000 * 2 ^ nat (- ?e))"
    by (simp add: power_int_def power_inverse field_simps)
  have "round_even (q / 2 powi ?e) \<le> 1000 * 2 ^ nat (- ?e)"
    using assms(2) by (intro round_even_le) (simp only: grid [symmetric], intro divide_right_mono, auto)
  then have "(of_int (round_even (q / 2 powi ?e)) :: rat) \<le> 1000 / 2 powi ?e" unfolding grid by (rule of_int_le_iff [THEN iffD2])
  then show ?thesis using False by (simp add: nearest_double_def field_simps)
qed (simp add: nearest_double_def)


lemma rounding_error_small: "\<exists>t. (\<forall>q. rounding_error q = q / 2 ^ 53 + t) \<and> 0 \<le> t \<and> t \<le> 1 / 10 ^ 20"
  by (intro exI [of _ "1 / 2 ^ 1075"]) (simp add: rounding_error_def)

lemma f64_of_rat_close:
  assumes "f64_of_rat q = F64Finite p"
  shows "\<bar>p - q\<bar> \<le> rounding_error \<bar>q\<bar>"
  using nearest_double_close [of "\<bar>q\<bar>"] assms
  by (auto simp: f64_of_rat_def Let_def abs_if split: if_splits)

lemma f64_of_rat_nonneg: "0 \<le> q \<Longrightarrow> f64_of_rat q = F64Finite p \<Longrightarrow> 0 \<le> p"
  using nearest_double_nonneg [of q] by (auto simp: f64_of_rat_def Let_def split: if_splits)

lemma f64_of_rat_finite:
  assumes "0 \<le> q" "q \<le> 10 ^ 6"
  shows "f64_of_rat q = F64Finite (nearest_double q)"
proof -
  obtain t where t: "\<And>q. rounding_error q = q / 2 ^ 53 + t" "0 \<le> t" "t \<le> 1 / 10 ^ 20"
    using rounding_error_small by blast
  have "nearest_double q \<le> 2 * 10 ^ 6" using nearest_double_close [OF assms(1)] assms(2) t by (simp add: abs_if split: if_splits)
  moreover have "(2 * 10 ^ 6 :: rat) < 2 ^ 1024" by simp
  ultimately have "\<not> 2 ^ 1024 \<le> nearest_double q" by linarith
  then show ?thesis using assms(1) by (simp add: f64_of_rat_def)
qed

lemma f64_round_close: "\<bar>of_int (f64_round b) - b\<bar> \<le> 1 / 2"
  unfolding f64_round_def by (auto simp: abs_if) linarith+

lemma lower_digit: "is_digit c \<Longrightarrow> ascii_lower c = c"
  by (auto simp: is_digit_def digit_of_def ascii_lower_def Let_def split: if_splits)

lemma number_is_no_word:
  assumes "parse_number s = Some q"
  shows "map ascii_lower s \<noteq> ''inf''" "map ascii_lower s \<noteq> ''infinity''" "map ascii_lower s \<noteq> ''nan''"
proof -
  obtain c cs where s: "s = c # cs" using assms by (cases s) (auto simp: parse_number_def)
  have "is_digit c \<or> c = CHR ''.''" using assms unfolding s parse_number_def by (auto simp: Let_def split: if_splits)
  then have "ascii_lower c = c" using lower_digit by (auto simp: ascii_lower_def)
  moreover have "c \<noteq> CHR ''i''" "c \<noteq> CHR ''n''"
    using \<open>is_digit c \<or> c = CHR ''.''\<close> by (auto simp: is_digit_def digit_of_def)
  ultimately show "map ascii_lower s \<noteq> ''inf''" "map ascii_lower s \<noteq> ''infinity''" "map ascii_lower s \<noteq> ''nan''"
    unfolding s by auto
qed

lemma parse_f64_decimal: "decimal_value s = Some q \<Longrightarrow> parse_f64 s = Some (f64_of_rat q)"
proof -
  assume q: "decimal_value s = Some q"
  obtain neg body where split: "split_sign s = (neg, body)" by force
  then obtain r where r: "parse_number body = Some r" using q by (auto simp: decimal_value_def)
  show ?thesis unfolding parse_f64_def split Let_def prod.case q using number_is_no_word [OF r] by (simp only: simp_thms if_False option.map)
qed

lemma parse_f64_finite:
  "parse_f64 s = Some (F64Finite p) \<Longrightarrow> \<exists>q. decimal_value s = Some q \<and> f64_of_rat q = F64Finite p"
  by (auto simp: parse_f64_def Let_def split: prod.splits if_splits)

lemma percent_accepted:
  assumes "decimal_value (trim text) = Some q" "0 \<le> q" "q \<le> 1000"
  shows "\<exists>bps. parse_percent_string_to_bps text = Inr bps"
proof -
  let ?p = "nearest_double q"
  have p: "0 \<le> ?p" "?p \<le> 1000" using assms nearest_double_nonneg nearest_double_le by auto
  then have finite: "f64_of_rat (?p * 100) = F64Finite (nearest_double (?p * 100))"
    by (intro f64_of_rat_finite) auto
  obtain t where t: "\<And>q. rounding_error q = q / 2 ^ 53 + t" "0 \<le> t" "t \<le> 1 / 10 ^ 20"
    using rounding_error_small by blast
  have "\<bar>nearest_double (?p * 100) - ?p * 100\<bar> \<le> rounding_error (?p * 100)"
    by (rule nearest_double_close) (use p in simp)
  then have "nearest_double (?p * 100) \<le> 200000" using p t by (simp add: abs_if split: if_splits)
  moreover have "0 \<le> nearest_double (?p * 100)" using p by (intro nearest_double_nonneg) simp
  ultimately have "0 \<le> f64_round (nearest_double (?p * 100))" "f64_round (nearest_double (?p * 100)) \<le> 2 ^ 32 - 1"
    by (simp_all add: f64_round_def)
  then show ?thesis
    using p finite parse_f64_decimal [OF assms(1)] assms(2,3)
    by (simp add: parse_percent_string_to_bps_def f64_of_rat_finite save_apy_percent_sanity_max_def Let_def)
qed

lemma percent_close:
  assumes "parse_percent_string_to_bps text = Inr bps"
  obtains q where "decimal_value (trim text) = Some q" "\<bar>of_nat (unat bps) - 100 * q\<bar> \<le> 1 / 2 + 1 / 10 ^ 10"
proof -
  obtain p b where p: "parse_f64 (trim text) = Some (F64Finite p)" "0 \<le> p" "p \<le> 1000"
      and b: "f64_of_rat (p * 100) = F64Finite b" "0 \<le> f64_round b" "f64_round b \<le> 2 ^ 32 - 1"
        "bps = word_of_int (f64_round b)"
    using assms
    by (auto simp: parse_percent_string_to_bps_def save_apy_percent_sanity_max_def Let_def
        split: option.splits f64.splits if_splits)
  obtain q where q: "decimal_value (trim text) = Some q" "f64_of_rat q = F64Finite p"
    using parse_f64_finite [OF p(1)] by blast
  obtain t where t: "\<And>q. rounding_error q = q / 2 ^ 53 + t" "0 \<le> t" "t \<le> 1 / 10 ^ 20"
    using rounding_error_small by blast
  have pq: "\<bar>p - q\<bar> \<le> \<bar>q\<bar> / 2 ^ 53 + t" using f64_of_rat_close [OF q(2)] t(1) by simp
  then have "\<bar>q\<bar> \<le> 1001" using p(2,3) t(2,3) by (simp add: abs_if split: if_splits)
  then have pq: "\<bar>p - q\<bar> \<le> 1001 / 2 ^ 53 + t" using pq by simp
  have "\<bar>b - p * 100\<bar> \<le> p * 100 / 2 ^ 53 + t" using f64_of_rat_close [OF b(1)] t(1) p(2) by simp
  then have bp: "\<bar>b - p * 100\<bar> \<le> 100000 / 2 ^ 53 + t" using p(3) by simp
  have "(of_nat (unat bps) :: rat) = of_int (f64_round b)"
    using b(2,3) by (simp add: b(4) unsigned_of_int take_bit_int_eq_self)
  then have "\<bar>of_nat (unat bps) - b\<bar> \<le> 1 / 2" using f64_round_close [of b] by simp
  with bp pq t(2,3) have "\<bar>of_nat (unat bps) - 100 * q\<bar> \<le> 1 / 2 + 1 / 10 ^ 10"
    by (simp add: abs_if split: if_splits)
  then show thesis using q(1) that by blast
qed


section \<open>The market source\<close>

definition save_api_base_url :: string where "save_api_base_url = ''https://api.solend.fi''"
definition save_api_scope :: string where "save_api_scope = ''solend''"
definition market_read_timeout :: nat where "market_read_timeout = 8000"

record rpc_save_source =
  rss_rpc_pool :: rpc_pool
  rss_reserve_pubkey :: pubkey
  rss_http :: bool                  \<comment> \<open>whether the HTTP client could be built\<close>

definition save_source_new :: "pubkey \<Rightarrow> bool \<Rightarrow> string \<Rightarrow> rpc_save_source" where
  "save_source_new reserve_pubkey http rpc_url =
     \<lparr>rss_rpc_pool = pool_new (default_pool_config\<lparr>
        pc_endpoints := [\<lparr>ec_url = rpc_url, ec_label = ''configured-read-rpc'', ec_is_write_endpoint = False\<rparr>],
        pc_request_timeout := market_read_timeout\<rparr>),
      rss_reserve_pubkey = reserve_pubkey, rss_http = http\<rparr>"

definition configured_finalize_market_source_from_env ::
    "pubkey \<Rightarrow> bool \<Rightarrow> string option \<Rightarrow> rpc_save_source option" where
  "configured_finalize_market_source_from_env reserve_pubkey http env_value =
     (case env_value of
        None \<Rightarrow> None
      | Some value \<Rightarrow>
          (let rpc_url = trim value in
           if rpc_url = [] then None else Some (save_source_new reserve_pubkey http rpc_url)))"

text \<open>The send and the reading of the body: \<open>None\<close> when the limit passes first.\<close>

record save_http_outcome =
  sho_send :: "(unit + u16) option"
  sho_body :: "(unit + json) option"

definition fetch_save_display_apy_bps ::
    "(string \<Rightarrow> (string \<times> string) list \<Rightarrow> save_http_outcome) \<Rightarrow> rpc_save_source \<Rightarrow>
     finalize_market_read_error + u32" where
  "fetch_save_display_apy_bps http source =
     (if \<not> rss_http source then Inl SaveClientUnavailable
      else
        (let outcome = http (save_api_base_url @ ''/v1/reserves'')
               [(''scope'', save_api_scope), (''ids'', main_pool_usdc_reserve_bs58)] in
         case sho_send outcome of
           None \<Rightarrow> Inl SaveTimeout
         | Some (Inl _) \<Rightarrow> Inl SaveRequestFailed
         | Some (Inr status) \<Rightarrow>
             (if \<not> is_success status then Inl (SaveHttpStatus status)
              else case sho_body outcome of
                None \<Rightarrow> Inl SaveTimeout
              | Some (Inl _) \<Rightarrow> Inl SaveInvalidResponse
              | Some (Inr body) \<Rightarrow> parse_save_display_apy_bps body)))"

text \<open>One request to the pool's client, whose outcome is recorded under its address.\<close>

definition source_call ::
    "(rpc_client \<Rightarrow> 'r option) \<Rightarrow> nat \<Rightarrow> nat \<Rightarrow> finalize_market_read_error \<Rightarrow> rpc_save_source \<Rightarrow>
     (finalize_market_read_error + 'r) \<times> rpc_save_source" where
  "source_call node pick_time answer_time failed source =
     (case read_client pick_time (rss_rpc_pool source) of
        Inl _ \<Rightarrow> (Inl RpcPoolUnavailable, source)
      | Inr client \<Rightarrow>
          (case node client of
             Some value \<Rightarrow>
               (Inr value, source\<lparr>rss_rpc_pool := record_success (rc_url client) (rss_rpc_pool source)\<rparr>)
           | None \<Rightarrow>
               (Inl failed, source\<lparr>rss_rpc_pool := record_failure answer_time (rc_url client) (rss_rpc_pool source)\<rparr>)))"

definition fetch_confirmed_account ::
    "(rpc_client \<Rightarrow> solana_account option option) \<Rightarrow> nat \<Rightarrow> nat \<Rightarrow> rpc_save_source \<Rightarrow>
     (finalize_market_read_error + solana_account option) \<times> rpc_save_source" where
  "fetch_confirmed_account node pick_time answer_time =
     source_call node pick_time answer_time AccountRequestFailed"

definition fetch_confirmed_slot ::
    "(rpc_client \<Rightarrow> u64 option) \<Rightarrow> nat \<Rightarrow> nat \<Rightarrow> rpc_save_source \<Rightarrow>
     (finalize_market_read_error + u64) \<times> rpc_save_source" where
  "fetch_confirmed_slot node pick_time answer_time =
     source_call node pick_time answer_time SlotRequestFailed"

section \<open>The property\<close>

definition names_pinned_reserve :: "json \<Rightarrow> bool" where
  "names_pinned_reserve result \<longleftrightarrow>
     pointer [''reserve'', ''pubkey''] result = Some (JString main_pool_usdc_reserve_bs58)
   \<and> pointer [''reserve'', ''lendingMarket''] result = Some (JString main_pool_lending_market_bs58)
   \<and> pointer [''reserve'', ''liquidity'', ''mintPubkey''] result = Some (JString market_usdc_mint_bs58)
   \<and> pointer [''reserve'', ''collateral'', ''mintPubkey''] result = Some (JString main_pool_usdc_collateral_mint_bs58)"

text \<open>The body's first result is of the pinned reserve, and its supply interest is the number \<open>q\<close>.\<close>

definition displays_rate :: "json \<Rightarrow> rat \<Rightarrow> bool" where
  "displays_rate body q \<longleftrightarrow>
     (\<exists>result others text. json_get ''results'' body = Some (JArray (result # others))
        \<and> names_pinned_reserve result
        \<and> pointer [''rates'', ''supplyInterest''] result = Some (JString text)
        \<and> decimal_value (trim text) = Some q)"

lemma as_str_Some: "as_str v = Some t \<longleftrightarrow> v = JString t"
  by (cases v) auto

lemma as_array_Some: "as_array v = Some vs \<longleftrightarrow> v = JArray vs"
  by (cases v) auto

lemma pinned_ok: "require_pinned_string actual expected = Inr u \<longleftrightarrow> actual = Some (JString expected)"
  by (cases actual; cases "Option.bind actual as_str") (auto simp: require_pinned_string_def as_str_Some)

lemma parse_display_ok:
  "parse_save_display_apy_bps body = Inr bps \<longleftrightarrow>
     (\<exists>result others text. json_get ''results'' body = Some (JArray (result # others)) \<and> names_pinned_reserve result
        \<and> pointer [''rates'', ''supplyInterest''] result = Some (JString text)
        \<and> parse_percent_string_to_bps text = Inr bps)"
  unfolding parse_save_display_apy_bps_def try_bind_Inr ok_or_Inr pinned_ok bind_eq_Some_conv as_str_Some as_array_Some
    names_pinned_reserve_def
  by (fastforce split: list.splits)

text \<open>C38: The display rate that a finalised intent records is that of the pinned reserve: it is taken only from a
  body whose first result names the pinned reserve, market, mint and collateral mint, and the recorded
  basis points are within one half and \<open>10 ^ -10\<close> of a hundred times the percent number the body
  displays, whatever its length and exponent and whatever the two roundings to double precision do; a
  displayed number from 0 to 1000 is always accepted.\<close>

theorem displayed_rates_are_the_pinned_reserves:
  "(parse_save_display_apy_bps body = Inr bps \<longrightarrow>
      (\<exists>q. displays_rate body q \<and> \<bar>of_nat (unat bps) - 100 * q\<bar> \<le> 1 / 2 + 1 / 10 ^ 10))
   \<and> (displays_rate body q \<and> 0 \<le> q \<and> q \<le> 1000 \<longrightarrow> (\<exists>bps. parse_save_display_apy_bps body = Inr bps))"
proof (intro conjI impI)
  assume "parse_save_display_apy_bps body = Inr bps"
  then obtain result others shown where r: "json_get ''results'' body = Some (JArray (result # others))"
      "names_pinned_reserve result" "pointer [''rates'', ''supplyInterest''] result = Some (JString shown)"
      "parse_percent_string_to_bps shown = Inr bps"
    unfolding parse_display_ok by blast
  from r(4) obtain q where q: "decimal_value (trim shown) = Some q" "\<bar>of_nat (unat bps) - 100 * q\<bar> \<le> 1 / 2 + 1 / 10 ^ 10"
    by (rule percent_close)
  have "displays_rate body q" unfolding displays_rate_def using r(1-3) q(1) by blast
  with q(2) show "\<exists>q. displays_rate body q \<and> \<bar>of_nat (unat bps) - 100 * q\<bar> \<le> 1 / 2 + 1 / 10 ^ 10" by blast
next
  assume "displays_rate body q \<and> 0 \<le> q \<and> q \<le> 1000"
  then obtain result others shown where r: "json_get ''results'' body = Some (JArray (result # others))"
      "names_pinned_reserve result" "pointer [''rates'', ''supplyInterest''] result = Some (JString shown)"
      "decimal_value (trim shown) = Some q" "0 \<le> q" "q \<le> 1000"
    unfolding displays_rate_def by blast
  obtain bps where "parse_percent_string_to_bps shown = Inr bps" using percent_accepted [OF r(4-6)] by blast
  then show "\<exists>bps. parse_save_display_apy_bps body = Inr bps" unfolding parse_display_ok using r(1-3) by blast
qed

definition save_body :: "string \<Rightarrow> json" where
  "save_body rate =
     JObject [(''results'', JArray [JObject
       [(''reserve'', JObject
          [(''pubkey'', JString main_pool_usdc_reserve_bs58), (''lendingMarket'', JString main_pool_lending_market_bs58),
           (''liquidity'', JObject [(''mintPubkey'', JString market_usdc_mint_bs58)]),
           (''collateral'', JObject [(''mintPubkey'', JString main_pool_usdc_collateral_mint_bs58)])]),
        (''rates'', JObject [(''supplyInterest'', JString rate)])]])]"

lemma save_body_displays: "displays_rate (save_body text) q \<longleftrightarrow> decimal_value (trim text) = Some q"
  by (simp add: displays_rate_def save_body_def names_pinned_reserve_def pointer_def)

lemma example_percent: "decimal_value (trim ''4.10'') = Some (41 / 10)"
  by code_simp

theorem displayed_rates_are_the_pinned_reserves_witness:
  "parse_save_display_apy_bps (save_body ''4.10'') = Inr 410"
proof -
  have shown: "displays_rate (save_body ''4.10'') q \<longleftrightarrow> q = 41 / 10" for q
    using example_percent by (auto simp: save_body_displays)
  obtain bps where bps: "parse_save_display_apy_bps (save_body ''4.10'') = Inr bps"
    using displayed_rates_are_the_pinned_reserves [of "save_body ''4.10''" 0 "41 / 10"] shown by auto
  with displayed_rates_are_the_pinned_reserves [of "save_body ''4.10''" bps "41 / 10"]
  have "\<bar>of_nat (unat bps) - 100 * (41 / 10 :: rat)\<bar> \<le> 1 / 2 + 1 / 10 ^ 10" unfolding shown by blast
  then have "\<bar>of_int (int (unat bps) - 410) :: rat\<bar> < of_int 1" by simp
  then have "\<bar>int (unat bps) - 410\<bar> < 1" unfolding of_int_abs [symmetric] of_int_less_iff .
  then have "unat bps = 410" by linarith
  then have "bps = 410" by (simp add: word_unat_eq_iff)
  with bps show ?thesis by simp
qed

text \<open>Two roundings: 1.005 percent is 100.5 basis points and yet becomes 100.\<close>

lemma round_even_floor: "of_int n \<le> x \<Longrightarrow> x - of_int n < 1 / 2 \<Longrightarrow> round_even x = n"
  by (simp add: round_even_def Let_def floor_unique)

lemma round_even_ceiling:
  assumes "x \<le> of_int n" "of_int n - x < 1 / 2"
  shows "round_even x = n"
proof (cases "x = of_int n")
  case False
  then have "\<lfloor>x\<rfloor> = n - 1" using assms by (intro floor_unique) (auto simp: less_le)
  then show ?thesis using assms(2) by (simp add: round_even_def)
qed (simp add: round_even_def)

lemma displayed_half_rounds_down: "parse_percent_string_to_bps ''1.005'' = Inr 100"
proof -
  let ?p = "4526117625507348 / 2 ^ 52 :: rat" and ?b = "7072058789855231 / 2 ^ 46 :: rat"
  have val: "decimal_value (trim ''1.005'') = Some (201 / 200)" by code_simp
  have "floor_log2 (201 / 200) = 0" by (rule floor_log2_unique) simp_all
  moreover have "round_even (201 / 200 / 2 powi - 52) = 4526117625507348"
    by (rule round_even_floor) (simp_all add: power_int_minus)
  ultimately have p: "nearest_double (201 / 200) = ?p"
    by (simp add: nearest_double_def last_place_def power_int_minus)
  have "floor_log2 (?p * 100) = 6" by (rule floor_log2_unique) simp_all
  moreover have "round_even (?p * 100 / 2 powi - 46) = 7072058789855231"
    by (rule round_even_floor) (simp_all add: power_int_minus)
  ultimately have b: "nearest_double (?p * 100) = ?b"
    unfolding nearest_double_def last_place_def by (simp add: power_int_minus)
  have round: "f64_round ?b = 100" unfolding f64_round_def by (simp add: floor_eq_iff)
  have "f64_of_rat (201 / 200) = F64Finite ?p" using f64_of_rat_finite [of "201 / 200"] p by simp
  moreover have "f64_of_rat (?p * 100) = F64Finite ?b" using f64_of_rat_finite [of "?p * 100"] b by simp
  ultimately show ?thesis
    using parse_f64_decimal [OF val] round
    by (simp only: parse_percent_string_to_bps_def option.case f64.case save_apy_percent_sanity_max_def) simp
qed

end
