(* ===== verification/System_Run.thy ===== *)
theory System_Run
  imports Watch_Executor Finalize Status
begin

text \<open>
  The program as a whole: the server of \<open>bins/solfrontier-mcp/src/main.rs\<close>, whose tools finalise intents,
  confirm their funding and answer about them, and the executing watcher, over one database and one
  sidecar. A run is a sequence of tool calls, rounds and writes of other actors; inside a call the
  database may fail and other actors may write, as in the theories of the calls. \<open>propose_intent\<close>,
  \<open>get_quote\<close> and \<open>get_position\<close> touch neither and are not steps. The lemmas carry one invariant through all
  steps: a row whose budget was reserved stands behind a payment that a confirmation of the run was shown.
\<close>

section \<open>States and steps\<close>

record 's system_state =
  sy_exec :: "'s execution_state"
  sy_sidecar :: handle

datatype ('f, 'o, 'now, 's) system_event =
    FinalizeIntentCall finalize_world finalize_intent_params
  | ConfirmFundingCall confirm_world confirm_funding_params
  | IntentStatusCall status_world string
  | ExecuteRound scan_world round_world db_env "('f, 'o, 'now, 's) executor" nat
  | OtherActors "foreign_step list"

text \<open>
  \<open>finalize_intent\<close>, \<open>confirm_funding\<close> and \<open>get_intent_status\<close> of the server on the shared state. A failure
  of the store is answered with a fixed message; a response is its constructor and not its JSON text.
\<close>

definition finalize_call ::
    "finalize_world \<Rightarrow> finalize_intent_params \<Rightarrow> 's system_state \<Rightarrow>
     (string + finalize_response) \<times> 's system_state" where
  "finalize_call W params y =
     (case finalize_intent W params
             \<lparr>fz_sidecar = sy_sidecar y, fz_rules = es_rules (sy_exec y), fz_intents = es_funding (sy_exec y)\<rparr> of
        (r, fs) \<Rightarrow> (map_err (\<lambda>_. ''finalize state-store operation failed'') r,
                     \<lparr>sy_exec = (sy_exec y)\<lparr>es_funding := fz_intents fs, es_rules := fz_rules fs\<rparr>,
                      sy_sidecar = fz_sidecar fs\<rparr>))"

definition confirm_call ::
    "confirm_world \<Rightarrow> confirm_funding_params \<Rightarrow> 's system_state \<Rightarrow>
     (string + confirm_response) \<times> 's system_state" where
  "confirm_call W params y =
     (case confirm_funding W params (es_funding (sy_exec y)) of
        (r, t) \<Rightarrow>
          (map_err (\<lambda>_. ''confirm_funding state-store operation failed; retry the same intent_id and tx_signature'') r,
           y\<lparr>sy_exec := (sy_exec y)\<lparr>es_funding := t\<rparr>\<rparr>))"

definition status_call ::
    "status_world \<Rightarrow> string \<Rightarrow> 's system_state \<Rightarrow> (string + intent_status_response) \<times> 's system_state" where
  "status_call Q intent_ref y =
     (case query_intent_status Q intent_ref (sy_sidecar y) (es_funding (sy_exec y)) (es_rules (sy_exec y)) of
        (r, h) \<Rightarrow> (map_err (\<lambda>_. ''state-store query failed'') r, y\<lparr>sy_sidecar := h\<rparr>))"

fun system_step :: "'s system_state \<Rightarrow> ('f, 'o, 'now, 's) system_event \<Rightarrow> 's system_state" where
  "system_step y (FinalizeIntentCall W params) = snd (finalize_call W params y)"
| "system_step y (ConfirmFundingCall W params) = snd (confirm_call W params y)"
| "system_step y (IntentStatusCall Q intent_ref) = snd (status_call Q intent_ref y)"
| "system_step y (ExecuteRound W R D X k) =
     y\<lparr>sy_exec := snd (snd (execute_round W R (repository_execution_state D) (production_backend X) k (sy_exec y)))\<rparr>"
| "system_step y (OtherActors fs) = y\<lparr>sy_exec := foldl (\<lambda>s f. foreign_apply f s) (sy_exec y) fs\<rparr>"

section \<open>What a row stands for\<close>

text \<open>The intent of a row, whatever its status: these columns are written once.\<close>

definition row_view :: "funding_row \<Rightarrow> w5h_funding_intent" where
  "row_view r =
     \<lparr>fi_intent_id = fr_intent_id r, fi_rule_id_hex = fr_rule_id_hex r,
      fi_canonical_rule_hash_hex = fr_canonical_rule_hash_hex r, fi_user_wallet = fr_user_wallet r,
      fi_user_usdc_ata = fr_user_usdc_ata r, fi_controlled_wallet = fr_controlled_wallet r,
      fi_controlled_usdc_ata = fr_controlled_usdc_ata r, fi_amount_raw = fr_amount_raw r,
      fi_threshold_bps = 0, fi_save_display_apy_bps = 0, fi_native_onchain_apr_bps = 0, fi_created_at_ms = 0,
      fi_expires_at_ms = 0, fi_status = FundingRequired, fi_funding_signature = None,
      fi_funding_finalized_slot = None, fi_execution_signature = None, fi_refund_signature = None,
      fi_last_error = None, fi_updated_at_ms = 0\<rparr>"

lemma row_view_rewrite [simp]: "row_view (funding_rewrite a r) = row_view r"
  by (cases "snd a") (simp_all add: row_view_def funding_rewrite_def)

lemma read_view:
  assumes "row_to_intent r = Inr intent"
  shows "payment_proved S tx (row_view r) \<longleftrightarrow> payment_proved S tx intent"
    and "fi_amount_raw intent = fi_amount_raw (row_view r)" and "fi_intent_id intent = fr_intent_id r"
proof -
  have same: "fi_intent_id intent = fr_intent_id r" "fi_canonical_rule_hash_hex intent = fr_canonical_rule_hash_hex r"
      "fi_user_wallet intent = fr_user_wallet r" "fi_user_usdc_ata intent = fr_user_usdc_ata r"
      "fi_controlled_wallet intent = fr_controlled_wallet r"
      "fi_controlled_usdc_ata intent = fr_controlled_usdc_ata r" "fi_amount_raw intent = fr_amount_raw r"
    using assms by (auto simp: row_to_intent_def split: if_splits)
  have view: "fi_intent_id (row_view r) = fr_intent_id r"
      "fi_canonical_rule_hash_hex (row_view r) = fr_canonical_rule_hash_hex r"
      "fi_user_wallet (row_view r) = fr_user_wallet r" "fi_user_usdc_ata (row_view r) = fr_user_usdc_ata r"
      "fi_controlled_wallet (row_view r) = fr_controlled_wallet r"
      "fi_controlled_usdc_ata (row_view r) = fr_controlled_usdc_ata r" "fi_amount_raw (row_view r) = fr_amount_raw r"
    by (simp_all add: row_view_def)
  show "payment_proved S tx (row_view r) \<longleftrightarrow> payment_proved S tx intent"
    unfolding payment_proved_def exact_transfer_def expected_memo_def canonical_atas_def same view ..
  show "fi_amount_raw intent = fi_amount_raw (row_view r)" "fi_intent_id intent = fr_intent_id r"
    by (simp_all only: same view)
qed

section \<open>The invariant of the funding table\<close>

definition past_reservation :: "funding_row \<Rightarrow> bool" where
  "past_reservation r \<longleftrightarrow>
     fr_status r \<in> {''budget_reserved'', ''executing'', ''completed'', ''expired'', ''refunding'', ''refunded''}"

definition rows_backed :: "(w5h_funding_intent \<Rightarrow> bool) \<Rightarrow> funding_table \<Rightarrow> bool" where
  "rows_backed Q t \<longleftrightarrow>
     distinct (map fr_intent_id t) \<and> (\<forall>r \<in> set t. past_reservation r \<longrightarrow> Q (row_view r))"

fun reserves :: "funding_op \<Rightarrow> bool" where
  "reserves (FundReserve sg slot) = True"
| "reserves _ = False"

lemma past_reservation_step:
  "funding_guard (now, opn) r \<Longrightarrow> \<not> reserves opn \<Longrightarrow> past_reservation (funding_rewrite (now, opn) r) \<Longrightarrow>
     past_reservation r"
  by (cases opn) (auto simp: past_reservation_def funding_guard_def funding_rewrite_def)

lemma funding_apply_rows:
  "fst (funding_apply now i opn t)
     = map (\<lambda>r. if fr_intent_id r = i \<and> funding_guard (now, opn) r then funding_rewrite (now, opn) r else r) t"
  by (simp add: funding_apply_exec fund.exec_def sql_update_def)

lemma funding_apply_views: "map row_view (fst (funding_apply now i opn t)) = map row_view t"
  by (simp add: funding_apply_rows)

lemma funding_run_views: "map row_view (funding_run t ops) = map row_view t"
proof (induction ops arbitrary: t)
  case (Cons op ops)
  obtain now i opn where "op = (now, i, opn)" by (cases op)
  then have "funding_run t (op # ops) = funding_run (fst (funding_apply now i opn t)) ops"
    by (simp add: funding_run_def)
  then show ?case by (simp only: Cons.IH funding_apply_views)
qed (simp add: funding_run_def)

lemma rows_backed_apply:
  assumes "rows_backed Q t" "reserves opn \<Longrightarrow> \<forall>r \<in> set t. fr_intent_id r = i \<longrightarrow> Q (row_view r)"
  shows "rows_backed Q (fst (funding_apply now i opn t))"
proof -
  have "distinct (map fr_intent_id (fst (funding_apply now i opn t)))"
    using assms(1) by (intro funding_apply_distinct) (simp add: rows_backed_def)
  moreover have "Q (row_view r')"
    if "r' \<in> set (fst (funding_apply now i opn t))" "past_reservation r'" for r'
  proof -
    from that(1) obtain r where r: "r \<in> set t"
      "r' = (if fr_intent_id r = i \<and> funding_guard (now, opn) r then funding_rewrite (now, opn) r else r)"
      unfolding funding_apply_rows by auto
    show ?thesis
    proof (cases "fr_intent_id r = i \<and> funding_guard (now, opn) r")
      case True
      with r that(2) assms past_reservation_step [of now opn r] show ?thesis
        by (cases "reserves opn") (auto simp: rows_backed_def)
    next
      case False
      with r that(2) assms(1) show ?thesis by (auto simp: rows_backed_def)
    qed
  qed
  ultimately show ?thesis by (simp add: rows_backed_def)
qed

lemma rows_backed_run:
  assumes "rows_backed Q t"
    and "\<And>now i opn. (now, i, opn) \<in> set ops \<Longrightarrow> reserves opn \<Longrightarrow> \<forall>v \<in> row_view ` set t. fi_intent_id v = i \<longrightarrow> Q v"
  shows "rows_backed Q (funding_run t ops)"
  using assms
proof (induction ops arbitrary: t)
  case (Cons op ops)
  obtain now i opn where op: "op = (now, i, opn)" by (cases op)
  let ?t1 = "fst (funding_apply now i opn t)"
  have "reserves opn \<Longrightarrow> \<forall>r \<in> set t. fr_intent_id r = i \<longrightarrow> Q (row_view r)"
    using Cons.prems(2) [of now i opn] op by (auto simp: row_view_def)
  then have "rows_backed Q ?t1" by (rule rows_backed_apply [OF Cons.prems(1)])
  moreover have "row_view ` set ?t1 = row_view ` set t"
    using funding_apply_views [of now i opn t] by (metis list.set_map)
  moreover have "\<forall>v \<in> row_view ` set t. fi_intent_id v = i' \<longrightarrow> Q v"
    if "(now', i', opn') \<in> set ops" "reserves opn'" for now' i' opn'
    using Cons.prems(2) [of now' i' opn'] that by simp
  ultimately have "rows_backed Q (funding_run ?t1 ops)" by (intro Cons.IH) simp_all
  then show ?case by (simp add: op funding_run_def)
qed (simp add: funding_run_def)

lemma rows_backed_insert:
  assumes "rows_backed Q t" "funding_insert now n t = Inr t'"
  shows "rows_backed Q t'"
  using assms
  by (auto simp: rows_backed_def funding_insert_def sql_insert_def new_funding_row_def past_reservation_def
      split: option.splits if_splits)


section \<open>Confirming and finalising\<close>

definition unreserving :: "(i64 \<times> string \<times> funding_op) list \<Rightarrow> bool" where
  "unreserving ops \<longleftrightarrow> list_all (\<lambda>(now, i, opn). \<not> reserves opn) ops"

lemma rows_backed_mono: "rows_backed Q t \<Longrightarrow> (\<And>v. Q v \<Longrightarrow> Q' v) \<Longrightarrow> rows_backed Q' t"
  by (auto simp: rows_backed_def)

lemma confirmed_row:
  assumes pay: "confirmed_payment W params t observed" and t: "distinct (map fr_intent_id t)"
    and v: "v \<in> row_view ` set t" "fi_intent_id v = trim (cfp_intent_id params)"
  shows "payment_proved (cw_sdk W) observed v"
    and "\<exists>reader. cw_reader W = Some reader \<and> reader (trim (cfp_tx_signature params)) = Inr (ReadConfirmed observed)"
proof -
  let ?i = "trim (cfp_intent_id params)" and ?u = "funding_run t (cw_others W 0)"
  from pay obtain intent where get: "funding_get ?i ?u = Inr (Some intent)" and proved: "payment_proved (cw_sdk W) observed intent"
    and reader: "\<exists>reader. cw_reader W = Some reader \<and> reader (trim (cfp_tx_signature params)) = Inr (ReadConfirmed observed)"
    unfolding confirmed_payment_def by blast
  from get obtain r where r: "sql_get fr_intent_id ?i ?u = Some r" "row_to_intent r = Inr intent"
    by (auto simp: funding_get_def split: option.splits)
  have ri: "r \<in> set ?u" "fr_intent_id r = ?i" using sql_get_Some_in [OF r(1)] by simp_all
  have "row_view ` set ?u = row_view ` set t"
    using arg_cong [OF funding_run_views, of set] by (simp only: list.set_map)
  with ri(1) obtain r0 where r0: "r0 \<in> set t" "row_view r = row_view r0" by blast
  obtain r1 where r1: "r1 \<in> set t" "v = row_view r1" using v(1) by blast
  have "fr_intent_id r0 = fr_intent_id r1"
    using ri(2) r0(2) r1(2) v(2) by (simp add: row_view_def)
  then have "r0 = r1" using r0(1) r1(1) t by (auto simp: distinct_map dest: inj_onD)
  then have "v = row_view r" using r0(2) r1(2) by simp
  then show "payment_proved (cw_sdk W) observed v"
    using proved read_view(1) [OF r(2)] by simp
  show "\<exists>reader. cw_reader W = Some reader \<and> reader (trim (cfp_tx_signature params)) = Inr (ReadConfirmed observed)"
    by (rule reader)
qed

lemma confirm_backed:
  assumes t: "rows_backed Q t" and others: "\<And>k. unreserving (cw_others W k)"
    and Q: "\<And>v observed reader. payment_proved (cw_sdk W) observed v \<Longrightarrow> fi_intent_id v = trim (cfp_intent_id params) \<Longrightarrow>
        cw_reader W = Some reader \<Longrightarrow> reader (trim (cfp_tx_signature params)) = Inr (ReadConfirmed observed) \<Longrightarrow> Q v"
    and run: "confirm_funding W params t = (r, t')"
  shows "rows_backed Q t'"
proof -
  obtain ops where ops: "t' = funding_run t ops" "set ops \<subseteq> allowed_writes W params t"
    using confirmation_writes [OF run] by blast
  have "\<forall>v \<in> row_view ` set t. fi_intent_id v = i \<longrightarrow> Q v"
    if op: "(now, i, opn) \<in> set ops" "reserves opn" for now i opn
  proof -
    have "\<nexists>k. (now, i, opn) \<in> set (cw_others W k)"
      using others op(2) by (fastforce simp: unreserving_def list_all_iff)
    then obtain observed where o: "confirmed_payment W params t observed" "confirming_write W params observed (now, i, opn)"
      using op(1) ops(2) by (auto simp: allowed_writes_def)
    have i: "i = trim (cfp_intent_id params)" using o(2) by (auto simp: confirming_write_def)
    have "distinct (map fr_intent_id t)" using t by (simp add: rows_backed_def)
    then show ?thesis using confirmed_row [OF o(1)] Q i by blast
  qed
  then show ?thesis unfolding ops(1) by (rule rows_backed_run [OF t])
qed

lemma finalize_funding_effect:
  "\<exists>n h. nfi_canonical_rule_hash_hex n = hex_encode h
     \<and> fz_intents (snd (finalize_funding W params draft mint user rule p amount snap u))
         = snd (persist_funding_with_legacy_recovery W n (fz_intents u))"
  "fz_rules (snd (finalize_funding W params draft mint user rule p amount snap u)) = fz_rules u"
proof -
  let ?n = "new_intent_of draft (hex_lower_text (wr_rule_id rule))
      (hex_lower_text (canonical_rule_hash (fw_crypto W) rule)) (fw_pubkey_to_string W user)
      (cs_ata_text (fw_sdk W) user mint) amount snap (fw_clock W (if p then 3 else 2))"
  obtain q intents where "persist_funding_with_legacy_recovery W ?n (fz_intents u) = (q, intents)"
    by (metis prod.exhaust)
  then show "\<exists>n h. nfi_canonical_rule_hash_hex n = hex_encode h
      \<and> fz_intents (snd (finalize_funding W params draft mint user rule p amount snap u))
          = snd (persist_funding_with_legacy_recovery W n (fz_intents u))"
    "fz_rules (snd (finalize_funding W params draft mint user rule p amount snap u)) = fz_rules u"
    by (auto simp: finalize_funding_def Let_def new_intent_of_def split: sum.split intro!: exI [of _ ?n])
qed

text \<open>What a finalisation does to the tables.\<close>

definition finalize_effect :: "finalize_world \<Rightarrow> finalize_state \<Rightarrow> finalize_state \<Rightarrow> bool" where
  "finalize_effect W s s' \<longleftrightarrow>
     (fz_intents s' = fz_intents s
        \<or> (\<exists>n h. nfi_canonical_rule_hash_hex n = hex_encode h
              \<and> fz_intents s' = snd (persist_funding_with_legacy_recovery W n (fz_intents s))))
   \<and> (fz_rules s' = fz_rules s \<or> (\<exists>r. fz_rules s' = snd (persist_rule_with_legacy_recovery W r (fz_rules s))))"

lemma finalize_with_snapshot_effect:
  "finalize_effect W s (snd (finalize_with_snapshot W params draft mint user snap s))"
proof (cases "build_watch_rule (fw_crypto W) draft (fms_last_checked_slot snap)")
  case (Inl e)
  then show ?thesis by (simp add: finalize_with_snapshot_def finalize_effect_def)
next
  case (Inr fresh)
  obtain rule p rules where persist: "persist_rule_with_legacy_recovery W fresh (fz_rules s) = ((rule, p), rules)"
    by (metis prod.exhaust)
  then have rules: "rules = snd (persist_rule_with_legacy_recovery W fresh (fz_rules s))" by simp
  let ?u = "index_rule W params rule p (s\<lparr>fz_rules := rules\<rparr>)"
  have u: "fz_intents ?u = fz_intents s" "fz_rules ?u = rules" by (simp_all add: index_rule_def)
  have stop: "finalize_effect W s (s\<lparr>fz_rules := rules\<rparr>)"
    using rules by (auto simp: finalize_effect_def)
  have goon: "finalize_effect W s (snd (finalize_funding W params draft mint user rule p amount snap ?u))" for amount
    using finalize_funding_effect [of W params draft mint user rule p amount snap ?u] rules
    unfolding finalize_effect_def u by blast
  show ?thesis
    using stop goon by (simp add: finalize_with_snapshot_def Inr persist Let_def split: sum.split option.split)
qed

lemma finalize_intent_effect: "finalize_effect W s (snd (finalize_intent W params s))"
proof -
  have same: "finalize_effect W s s" "finalize_effect W s (s\<lparr>fz_sidecar := h\<rparr>)" for h
    by (simp_all add: finalize_effect_def)
  have goon: "finalize_effect W s (snd (finalize_with_snapshot W params draft mint user snap (s\<lparr>fz_sidecar := h\<rparr>)))"
    for draft mint user snap h
    using finalize_with_snapshot_effect [of W "s\<lparr>fz_sidecar := h\<rparr>" params draft mint user snap]
    by (simp add: finalize_effect_def)
  show ?thesis
    unfolding finalize_intent_def Let_def
    by (simp add: same goon split: sum.split prod.split option.split claim_outcome.split)
qed

lemma persist_rule_distinct:
  assumes "distinct (map rw_rule_id t)"
    and "\<And>k u. distinct (map rw_rule_id u) \<Longrightarrow> distinct (map rw_rule_id (fw_other_rules W k u))"
  shows "distinct (map rw_rule_id (snd (persist_rule_with_legacy_recovery W r t)))"
proof -
  let ?t0 = "fw_other_rules W 0 t"
  obtain x t1 where ins: "faulty_insert (fw_fault W 0)
      (watch_insert (fw_crypto W) (fw_store W) (fw_row_clock W 0) r ?t0) ?t0 = (x, t1)" by force
  have "distinct (map rw_rule_id ?t0)" using assms by blast
  moreover have "distinct (map rw_rule_id t')"
    if "watch_insert C E now r u = Inr t'" "distinct (map rw_rule_id u)" for C E now u t'
    using that by (auto simp: watch_insert_def sql_insert_def split: sum.splits option.splits if_splits)
  ultimately have t1: "distinct (map rw_rule_id t1)"
    using ins by (auto simp: faulty_insert_def split: db_fault.splits sum.splits)
  then have "distinct (map rw_rule_id (fw_other_rules W 1 t1))" by (rule assms(2))
  with t1 show ?thesis
    by (auto simp: persist_rule_with_legacy_recovery_def Let_def ins split: sum.split option.split)
qed

section \<open>What other actors may do to the funding table\<close>

text \<open>Nobody but \<open>confirm_funding\<close> reserves a budget, and nobody but the watcher gives an execution lease back.\<close>

fun bystander_op :: "funding_op \<Rightarrow> bool" where
  "bystander_op (FundReserve sg slot) = False"
| "bystander_op (FundReleaseExecution e) = False"
| "bystander_op _ = True"

definition bystander_step :: "foreign_step \<Rightarrow> bool" where
  "bystander_step f = (case f of FundingStep now i opn \<Rightarrow> bystander_op opn | RuleStep now i opn \<Rightarrow> True)"

inductive funding_evolves :: "funding_table \<Rightarrow> funding_table \<Rightarrow> bool" where
  unchanged: "funding_evolves t t"
| written: "funding_evolves t u \<Longrightarrow> bystander_op opn \<Longrightarrow> funding_evolves t (fst (funding_apply now i opn u))"
| inserted: "funding_evolves t u \<Longrightarrow> funding_insert now n u = Inr u' \<Longrightarrow> funding_evolves t u'"

lemma funding_evolves_trans: "funding_evolves u v \<Longrightarrow> funding_evolves t u \<Longrightarrow> funding_evolves t v"
  by (induction rule: funding_evolves.induct) (auto intro: funding_evolves.intros)

lemma bystander_not_reserving: "bystander_op opn \<Longrightarrow> \<not> reserves opn"
  by (cases opn) simp_all

lemma committed_apply:
  assumes "budget_committed (funded_status t i)" "\<forall>e. opn \<noteq> FundReleaseExecution e"
  shows "budget_committed (funded_status (fst (funding_apply now j opn t)) i)"
proof -
  let ?s = "\<lparr>es_funding = t, es_rules = [], es_calls = 0, es_sent = [],
      es_pipeline = \<lparr>pst_cache = None, pst_calls = 0\<rparr>, es_signer = ()\<rparr> :: unit execution_state"
  have "keeps_lease (FundingStep now j opn) i" using assms(2) by (cases opn) simp_all
  from foreign_keeps_committed [OF this, of ?s] assms(1) show ?thesis by simp
qed

lemma committed_insert:
  assumes "budget_committed (funded_status t i)" "funding_insert now n t = Inr t'"
  shows "budget_committed (funded_status t' i)"
proof -
  from assms(1) have "sql_get fr_intent_id i t \<noteq> None"
    by (cases "sql_get fr_intent_id i t") (simp_all add: funded_status_def budget_committed_def)
  then have "sql_get fr_intent_id i t' = sql_get fr_intent_id i t"
    using assms(2)
    by (auto simp: funding_insert_def sql_insert_def sql_get_append split: option.splits if_splits)
  with assms(1) show ?thesis by (simp add: funded_status_def)
qed

lemma insert_views: "funding_insert now n t = Inr t' \<Longrightarrow> row_view ` set t \<subseteq> row_view ` set t'"
  by (auto simp: funding_insert_def sql_insert_def split: option.splits if_splits)

text \<open>What a step keeps of the table: backed rows, committed budgets, and the rows themselves.\<close>

definition table_kept :: "(w5h_funding_intent \<Rightarrow> bool) \<Rightarrow> funding_table \<Rightarrow> funding_table \<Rightarrow> bool" where
  "table_kept Q t t' \<longleftrightarrow>
     (rows_backed Q t \<longrightarrow> rows_backed Q t')
   \<and> (\<forall>i. budget_committed (funded_status t i) \<longrightarrow> budget_committed (funded_status t' i))
   \<and> row_view ` set t \<subseteq> row_view ` set t'"

lemma evolved_table: "funding_evolves t u \<Longrightarrow> table_kept Q t u"
proof (induction rule: funding_evolves.induct)
  case (written t u opn now i)
  have "row_view ` set (fst (funding_apply now i opn u)) = row_view ` set u"
    using arg_cong [OF funding_apply_views, of set] by (simp only: list.set_map)
  moreover have no_release: "\<forall>e. opn \<noteq> FundReleaseExecution e" using written(2) by auto
  moreover have "rows_backed Q u \<Longrightarrow> rows_backed Q (fst (funding_apply now i opn u))"
    by (rule rows_backed_apply) (simp_all add: bystander_not_reserving [OF written(2)])
  ultimately show ?case
    using written(3) committed_apply [OF _ no_release] unfolding table_kept_def by simp
next
  case (inserted t u now n u')
  then show ?case
    using rows_backed_insert [OF _ inserted(2)] committed_insert [OF _ inserted(2)] insert_views [OF inserted(2)]
    unfolding table_kept_def by blast
qed (simp add: table_kept_def)

lemma funding_run_evolves:
  "list_all (\<lambda>(now, i, opn). bystander_op opn) ops \<Longrightarrow> funding_evolves t (funding_run t ops)"
proof (induction ops arbitrary: t)
  case (Cons op ops)
  obtain now i opn where op: "op = (now, i, opn)" by (cases op)
  have "funding_evolves t (fst (funding_apply now i opn t))"
    using Cons.prems op by (intro funding_evolves.intros) simp_all
  from funding_evolves_trans [OF Cons.IH this] Cons.prems show ?case by (simp add: op funding_run_def)
qed (simp add: funding_run_def funding_evolves.unchanged)

lemma foreign_evolves:
  "bystander_step f \<Longrightarrow> funding_evolves (es_funding s) (es_funding (foreign_apply f s))"
  by (cases f) (auto simp: bystander_step_def intro: funding_evolves.intros)

lemma persist_funding_evolves:
  assumes others: "\<And>k u. funding_evolves u (fw_other_intents W k u)"
  shows "funding_evolves t (snd (persist_funding_with_legacy_recovery W n t))"
proof -
  let ?t0 = "fw_other_intents W 2 t"
  obtain x t1 where ins: "faulty_insert (fw_fault W 2) (funding_insert (fw_row_clock W 2) n ?t0) ?t0 = (x, t1)" by force
  have "funding_evolves t t1"
    using ins others [of t 2] by (auto simp: faulty_insert_def intro: inserted split: db_fault.splits sum.splits)
  then have "funding_evolves t (fw_other_intents W 3 t1)"
    by (rule funding_evolves_trans [OF others])
  then show ?thesis by (simp add: persist_funding_with_legacy_recovery_def Let_def ins)
qed

section \<open>Attempts and rounds\<close>

definition backed_state :: "(w5h_funding_intent \<Rightarrow> bool) \<Rightarrow> w5h_funding_intent set \<Rightarrow> 's execution_state \<Rightarrow> bool" where
  "backed_state Q V s \<longleftrightarrow>
     execution_state_inv s \<and> rows_backed Q (es_funding s) \<and> row_view ` set (es_funding s) = V"

lemma backed_inv: "backed_state Q V s \<Longrightarrow> execution_state_inv s"
  by (simp add: backed_state_def)

lemma on_funding_backed:
  assumes "backed_state Q V s" "on_funding D (funding_apply now i opn) s = (r, s')" "\<not> reserves opn"
  shows "backed_state Q V s'"
proof -
  let ?t' = "fst (funding_apply now i opn (es_funding s))"
  have "es_funding s' = es_funding s \<or> es_funding s' = ?t'"
    using assms(2) by (auto simp: on_funding_def run_statement_def split: db_fault.splits)
  moreover have "row_view ` set ?t' = row_view ` set (es_funding s)"
    using arg_cong [OF funding_apply_views, of set] by (simp only: list.set_map)
  moreover have "rows_backed Q ?t'"
    using assms(1,3) by (intro rows_backed_apply) (simp_all add: backed_state_def)
  moreover have "execution_state_inv s'"
    using on_funding_effect(1) [OF _ assms(2)] assms(1) by (simp add: backed_state_def)
  ultimately show ?thesis using assms(1) by (auto simp: backed_state_def)
qed

lemma backed_same_funding:
  "backed_state Q V s \<Longrightarrow> execution_state_inv s' \<Longrightarrow> es_funding s' = es_funding s \<Longrightarrow> backed_state Q V s'"
  by (simp add: backed_state_def)

interpretation backed: execution_world "repository_execution_state D" "production_backend X"
  "backed_state Q V" state_intent_status state_rule_completed es_sent "signed_by X" "carried_by X"
  for D and X :: "('f, 'o, 'now, 's) executor" and Q V
proof
  fix s s' :: "'s execution_state" and i now r
  assume b: "backed_state Q V s" and c: "sp_lease_funding (repository_execution_state D) i now s = (r, s')"
  from production.lease [OF backed_inv [OF b] c] on_funding_backed [OF b c [unfolded repository_ops]]
  show "backed_state Q V s' \<and> es_sent s' = es_sent s
    \<and> (\<forall>j. j \<noteq> i \<longrightarrow> state_intent_status s' j = state_intent_status s j)
    \<and> (budget_committed (state_intent_status s i) \<longrightarrow>
         state_intent_status s' i = state_intent_status s i \<and> r \<noteq> Inr 1)
    \<and> (r = Inr 1 \<longrightarrow> state_intent_status s i = Some BudgetReserved \<and> state_intent_status s' i = Some Executing)"
    by simp
next
  fix s s' :: "'s execution_state" and i e r
  assume b: "backed_state Q V s" and c: "sp_release_funding (repository_execution_state D) i e s = (r, s')"
  from production.release [OF backed_inv [OF b] c] on_funding_backed [OF b c [unfolded repository_ops]]
  show "backed_state Q V s' \<and> es_sent s' = es_sent s
    \<and> (\<forall>j. j \<noteq> i \<longrightarrow> state_intent_status s' j = state_intent_status s j)
    \<and> (r = Inr 1 \<longrightarrow> state_intent_status s' i = Some BudgetReserved)" by simp
next
  fix s s' :: "'s execution_state" and i e r
  assume b: "backed_state Q V s" and c: "sp_fail_funding (repository_execution_state D) i e s = (r, s')"
  from production.fail [OF backed_inv [OF b] c] on_funding_backed [OF b c [unfolded repository_ops]]
  show "backed_state Q V s' \<and> es_sent s' = es_sent s
    \<and> (\<forall>j. j \<noteq> i \<longrightarrow> state_intent_status s' j = state_intent_status s j)
    \<and> state_intent_status s' i \<in> {state_intent_status s i, Some Failed}
    \<and> (r = Inr 1 \<longrightarrow> state_intent_status s' i = Some Failed)" by simp
next
  fix s s' :: "'s execution_state" and rid u slot r
  assume b: "backed_state Q V s"
    and c: "sp_complete_watch_rule (repository_execution_state D) rid u slot s = (r, s')"
  note inv = backed_inv [OF b]
  from production.complete_rule [OF inv c] backed_same_funding [OF b]
    on_rules_effect(1,3) [OF inv c [unfolded repository_ops]]
  show "backed_state Q V s' \<and> es_sent s' = es_sent s \<and> state_intent_status s' = state_intent_status s
    \<and> (r = Inr 1 \<longrightarrow> state_rule_completed s' rid)" by simp
next
  fix s s' :: "'s execution_state" and i sg r
  assume b: "backed_state Q V s" and c: "sp_complete_funding (repository_execution_state D) i sg s = (r, s')"
  from production.complete_funding [OF backed_inv [OF b] c] on_funding_backed [OF b c [unfolded repository_ops]]
  show "backed_state Q V s' \<and> es_sent s' = es_sent s
    \<and> (\<forall>j. j \<noteq> i \<longrightarrow> state_intent_status s' j = state_intent_status s j)
    \<and> state_intent_status s' i \<in> {state_intent_status s i, Some Completed}
    \<and> state_rule_completed s' = state_rule_completed s
    \<and> (r = Inr 1 \<longrightarrow> state_intent_status s' i = Some Completed)" by simp
next
  fix s s' :: "'s execution_state" and c x
  assume b: "backed_state Q V s" and r: "eb_review_and_sign (production_backend X) c s = (x, s')"
  note inv = backed_inv [OF b]
  have "es_funding s' = es_funding s"
    using r by (auto simp: production_backend_def Let_def split: option.splits prod.splits)
  then have "backed_state Q V s'" using backed_same_funding [OF b] production.review [OF inv r] by blast
  with production.review [OF inv r]
  show "backed_state Q V s' \<and> es_sent s' = es_sent s \<and> state_intent_status s' = state_intent_status s
    \<and> (\<forall>p. x = Some (Inr p) \<longrightarrow> signed_by X c p)" by simp
next
  fix s s' :: "'s execution_state" and p out
  assume b: "backed_state Q V s" and r: "eb_submit_and_observe (production_backend X) p s = (out, s')"
  note inv = backed_inv [OF b]
  have "es_funding s' = es_funding s"
    using r by (auto simp: production_backend_def split: prod.splits)
  then have "backed_state Q V s'" using backed_same_funding [OF b] production.submit [OF inv r] by blast
  with production.submit [OF inv r]
  show "backed_state Q V s' \<and> state_intent_status s' = state_intent_status s
    \<and> (\<exists>ms. es_sent s' = es_sent s @ ms \<and> length ms = (case out of PreBroadcastFailure e \<Rightarrow> 0 | _ \<Rightarrow> 1)
         \<and> (\<forall>m \<in> set ms. carried_by X p m))" by simp
qed

text \<open>
  A deposit is paid for when its intent has a row that is backed and whose amount is the deposit's. The
  deposits sent are accounted for when each is paid for, no intent has two and their budgets are committed.
\<close>

definition paid_deposit ::
    "sdk \<Rightarrow> (w5h_funding_intent \<Rightarrow> bool) \<Rightarrow> w5h_funding_intent set \<Rightarrow> string \<Rightarrow> transaction \<Rightarrow> bool" where
  "paid_deposit T Q V i tx \<longleftrightarrow>
     (\<exists>v \<in> V. \<exists>w plan. fi_intent_id v = i \<and> Q v \<and> plan_deposit_transaction T w plan tx
        \<and> vi_input_amount_raw plan = fi_amount_raw v)"

definition accounted ::
    "sdk \<Rightarrow> (w5h_funding_intent \<Rightarrow> bool) \<Rightarrow> w5h_funding_intent set \<Rightarrow> (string \<times> transaction) list \<Rightarrow>
     's execution_state \<Rightarrow> bool" where
  "accounted T Q V ps s \<longleftrightarrow>
     es_sent s = map snd ps \<and> distinct (map fst ps)
   \<and> (\<forall>(i, tx) \<in> set ps. paid_deposit T Q V i tx \<and> budget_committed (state_intent_status s i))"

lemma reserved_row:
  assumes "backed_state Q V s" "state_intent_status s i = Some BudgetReserved"
  shows "\<exists>v \<in> V. fi_intent_id v = i \<and> Q v"
proof -
  from assms(2) obtain r where r: "sql_get fr_intent_id i (es_funding s) = Some r"
    "funding_row_status r = Some BudgetReserved"
    by (cases "sql_get fr_intent_id i (es_funding s)") (auto simp: funded_status_def)
  have "r \<in> set (es_funding s)" "fr_intent_id r = i" using sql_get_Some_in [OF r(1)] by simp_all
  moreover have "past_reservation r" using r(2) by (auto simp: past_reservation_def funding_row_status_iff)
  ultimately show ?thesis using assms(1) by (force simp: backed_state_def rows_backed_def row_view_def)
qed

text \<open>An event of a round whose attempt, if it is one, is for the amount of the intent's row.\<close>

definition fitting :: "w5h_funding_intent set \<Rightarrow> foreign_step executor_event \<Rightarrow> bool" where
  "fitting V e \<longleftrightarrow>
     (case e of
        Attempt c now \<Rightarrow> \<forall>v \<in> V. fi_intent_id v = rc_intent_id c \<longrightarrow> vi_input_amount_raw (rc_plan c) = fi_amount_raw v
      | Foreign f \<Rightarrow> bystander_step f)"

lemma attempt_accounted:
  assumes b: "backed_state Q V s" and a: "accounted T Q V ps s" and T: "one_sdk T X" and fit: "fitting V (Attempt c now)"
    and step: "production_step D X s (Attempt c now) = s'"
  shows "\<exists>ps'. backed_state Q V s' \<and> accounted T Q V ps' s'"
proof -
  let ?i = "rc_intent_id c"
  obtain out where ex: "execute_revalidated_candidate (repository_execution_state D) (production_backend X) c now s = (out, s')"
    using step by (cases "execute_revalidated_candidate (repository_execution_state D) (production_backend X) c now s") simp
  note A = backed.attempt [OF b ex]
  have kept: "budget_committed (state_intent_status s' j)" if "budget_committed (state_intent_status s j)" for j
    using A that by (cases "j = ?i") simp_all
  obtain ms where ms: "es_sent s' = es_sent s @ ms" "length ms \<le> 1"
    "\<forall>m \<in> set ms. \<exists>p. signed_by X c p \<and> carried_by X p m" using A by blast
  show ?thesis
  proof (cases ms)
    case Nil
    then have "accounted T Q V ps s'" using a ms(1) kept by (auto simp: accounted_def)
    with A show ?thesis by blast
  next
    case (Cons tx rest)
    then have ms1: "ms = [tx]" using ms(2) by simp
    have sent: "state_intent_status s ?i = Some BudgetReserved" "budget_committed (state_intent_status s' ?i)"
      using A ms(1) ms1 by simp_all
    from reserved_row [OF b sent(1)] obtain v where v: "v \<in> V" "fi_intent_id v = ?i" "Q v" by blast
    have "vi_input_amount_raw (rc_plan c) = fi_amount_raw v" using fit v by (simp add: fitting_def)
    moreover have "plan_deposit_transaction T (lcw_pubkey (ex_wallet X)) (rc_plan c) tx"
      using ms(3) ms1 carried_deposit [OF T] by auto
    ultimately have "paid_deposit T Q V ?i tx" using v unfolding paid_deposit_def by blast
    moreover have "?i \<notin> fst ` set ps"
      using a sent(1) by (auto simp: accounted_def budget_committed_def)
    ultimately have "accounted T Q V (ps @ [(?i, tx)]) s'"
      using a ms(1) ms1 kept sent(2) by (auto simp: accounted_def)
    with A show ?thesis by blast
  qed
qed

lemma table_step:
  assumes b: "backed_state Q V s" and a: "accounted T Q V ps s"
    and kept: "table_kept Q' (es_funding s) (es_funding s')" and Q: "\<And>v. Q v \<Longrightarrow> Q' v"
    and same: "es_sent s' = es_sent s" "distinct (map rw_rule_id (es_rules s'))"
  shows "\<exists>V'. V \<subseteq> V' \<and> backed_state Q' V' s' \<and> accounted T Q' V' ps s'"
proof -
  let ?V = "row_view ` set (es_funding s')"
  have "rows_backed Q' (es_funding s)" using b Q by (auto simp: backed_state_def intro: rows_backed_mono)
  then have rows: "rows_backed Q' (es_funding s')" using kept by (simp add: table_kept_def)
  then have "backed_state Q' ?V s'"
    using same(2) by (simp add: backed_state_def execution_state_inv_def rows_backed_def)
  moreover have V: "V \<subseteq> ?V" using b kept by (simp add: backed_state_def table_kept_def)
  moreover have "paid_deposit T Q' ?V i tx" if "paid_deposit T Q V i tx" for i tx
    using that V Q unfolding paid_deposit_def by blast
  then have "accounted T Q' ?V ps s'"
    using a kept same(1) unfolding accounted_def table_kept_def by fastforce
  ultimately show ?thesis by blast
qed

lemma foreign_rules: "distinct (map rw_rule_id (es_rules s)) \<Longrightarrow> distinct (map rw_rule_id (es_rules (foreign_apply f s)))"
  by (cases f) (simp_all add: watch_apply_distinct)

lemma foreign_views: "row_view ` set (es_funding (foreign_apply f s)) = row_view ` set (es_funding s)"
proof (cases f)
  case (FundingStep now i opn)
  then show ?thesis using arg_cong [OF funding_apply_views [of now i opn "es_funding s"], of set] by (simp add: image_image)
qed simp

lemma foreign_sent: "es_sent (foreign_apply f s) = es_sent s"
  by (cases f) simp_all

lemma foreign_accounted:
  assumes b: "backed_state Q V s" and a: "accounted T Q V ps s"
    and f: "bystander_step f"
  shows "backed_state Q V (foreign_apply f s) \<and> accounted T Q V ps (foreign_apply f s)"
proof -
  have "distinct (map rw_rule_id (es_rules (foreign_apply f s)))"
    using b by (intro foreign_rules) (simp add: backed_state_def execution_state_inv_def)
  from table_step [OF b a evolved_table [OF foreign_evolves [OF f]] _ foreign_sent this] obtain V' where
    "backed_state Q V' (foreign_apply f s)" "accounted T Q V' ps (foreign_apply f s)" by blast
  moreover from this(1) have "V' = V" using b foreign_views [of f s] by (simp add: backed_state_def)
  ultimately show ?thesis by simp
qed

lemma events_accounted:
  assumes "backed_state Q V s" "accounted T Q V ps s" "one_sdk T X" "list_all (fitting V) es"
  shows "\<exists>ps'. backed_state Q V (foldl (production_step D X) s es)
    \<and> accounted T Q V ps' (foldl (production_step D X) s es)"
  using assms(1,2,4)
proof (induction es arbitrary: s ps)
  case (Cons e es)
  let ?s1 = "production_step D X s e"
  have "\<exists>ps1. backed_state Q V ?s1 \<and> accounted T Q V ps1 ?s1"
  proof (cases e)
    case (Attempt c now)
    with Cons.prems(3) have "fitting V (Attempt c now)" by simp
    from attempt_accounted [OF Cons.prems(1,2) assms(3) this refl] show ?thesis unfolding Attempt .
  next
    case (Foreign f)
    then show ?thesis using foreign_accounted [OF Cons.prems(1,2)] Cons.prems(3) by (auto simp: fitting_def)
  qed
  then obtain ps1 where "backed_state Q V ?s1" "accounted T Q V ps1 ?s1" by blast
  from Cons.IH [OF this] Cons.prems(3) show ?case by simp
qed auto

text \<open>The scan reads the rows of the table, as they are or as they were.\<close>

definition reads_rows :: "scan_world \<Rightarrow> w5h_funding_intent set \<Rightarrow> bool" where
  "reads_rows W V \<longleftrightarrow> (\<forall>k ft. sw_funding W k = Inr ft \<longrightarrow> row_view ` set ft \<subseteq> V)"

lemma revalidated_amount:
  assumes plan: "revalidated_plan W k i plan" and reads: "reads_rows W V" and V: "inj_on fi_intent_id V"
    and v: "v \<in> V" "fi_intent_id v = i"
  shows "vi_input_amount_raw plan = fi_amount_raw v"
proof -
  from plan obtain ft funding slot stored where ft: "sw_funding W (k + 1) = Inr ft"
    and get: "funding_get i ft = Inr (Some funding)" and adm: "admitted_from W (k + 2) slot funding stored plan"
    unfolding revalidated_plan_def by blast
  from adm obtain snapshot clocks facts fin where sn: "funding_snapshot_of (sw_bs58_decode W) funding = Inr snapshot"
    and ad: "admit (sw_crypto W) \<lparr>cin_funding = Some snapshot, cin_rule = Some (swr_rule stored)\<rparr> clocks facts fin
      = Some plan" unfolding admitted_from_def by blast
  have "vi_input_amount_raw plan = fs_amount_raw snapshot" using admitted_plan [OF ad] by auto
  also have "\<dots> = fi_amount_raw funding"
    using sn by (auto simp: funding_snapshot_of_def)
  also from get obtain r where r: "sql_get fr_intent_id i ft = Some r" "row_to_intent r = Inr funding"
    by (auto simp: funding_get_def split: option.splits)
  have "fi_amount_raw funding = fi_amount_raw (row_view r)" by (rule read_view(2) [OF r(2)])
  also have "row_view r = v"
  proof (rule inj_onD [OF V])
    have ri: "r \<in> set ft" "fr_intent_id r = i" using sql_get_Some_in [OF r(1)] by simp_all
    then show "row_view r \<in> V" using reads ft unfolding reads_rows_def by blast
    show "fi_intent_id (row_view r) = fi_intent_id v" using ri(2) v(2) by (simp add: row_view_def)
  qed (rule v(1))
  finally show ?thesis .
qed

lemma views_inj: "backed_state Q V s \<Longrightarrow> inj_on fi_intent_id V"
  by (auto simp: backed_state_def rows_backed_def row_view_def distinct_map inj_on_def)

lemma round_accounted:
  assumes b: "backed_state Q V s" and a: "accounted T Q V ps s" and T: "one_sdk T X"
    and foreign: "\<And>k. list_all bystander_step (rnd_foreign R k)" and reads: "reads_rows W V"
    and run: "execute_round W R (repository_execution_state D) (production_backend X) k s = (e, reps, s')"
  shows "\<exists>ps'. backed_state Q V s' \<and> accounted T Q V ps' s'"
proof -
  obtain es ids where es: "s' = foldl (production_step D X) s es"
      "list_all (sound_attempt W R (k + calls_per_scan) ids) es"
    using execute_round_events [OF run] by blast
  have "fitting V ev" if "sound_attempt W R (k + calls_per_scan) ids ev" for ev
  proof (cases ev)
    case (Attempt c now)
    with that obtain k' where "revalidated_plan W k' (rc_intent_id c) (rc_plan c)"
      unfolding sound_attempt_def by blast
    from revalidated_amount [OF this reads views_inj [OF b]] show ?thesis by (simp add: fitting_def Attempt)
  next
    case (Foreign f)
    with that obtain j where "f \<in> set (rnd_foreign R j)" by (auto simp: sound_attempt_def)
    with foreign [of j] show ?thesis by (simp add: fitting_def Foreign list_all_iff)
  qed
  then have "list_all (fitting V) es" using es(2) by (simp add: list_all_iff)
  from events_accounted [OF b a T this] show ?thesis unfolding es(1) .
qed

section \<open>Runs of the program\<close>

text \<open>A confirmation of the run was shown a payment that proves the funding of the row.\<close>

definition payment_shown ::
    "confirm_sdk \<Rightarrow> ('f, 'o, 'now, 's) system_event list \<Rightarrow> w5h_funding_intent \<Rightarrow> bool" where
  "payment_shown S es v \<longleftrightarrow>
     (\<exists>W params reader observed. ConfirmFundingCall W params \<in> set es
        \<and> trim (cfp_intent_id params) = fi_intent_id v \<and> cw_reader W = Some reader
        \<and> reader (trim (cfp_tx_signature params)) = Inr (ReadConfirmed observed)
        \<and> payment_proved S observed v)"

lemma payment_shown_mono: "payment_shown S es v \<Longrightarrow> payment_shown S (es @ es') v"
  by (auto simp: payment_shown_def)

text \<open>
  What is supposed of an event: one SDK, other actors as above, and a scan that reads the table of the run.
\<close>

fun admissible ::
    "confirm_sdk \<Rightarrow> sdk \<Rightarrow> 's system_state \<Rightarrow> ('f, 'o, 'now, 's) system_event \<Rightarrow> bool" where
  "admissible S T y (FinalizeIntentCall W params) \<longleftrightarrow>
     (\<forall>k u. funding_evolves u (fw_other_intents W k u))
   \<and> (\<forall>k u. distinct (map rw_rule_id u) \<longrightarrow> distinct (map rw_rule_id (fw_other_rules W k u)))"
| "admissible S T y (ConfirmFundingCall W params) \<longleftrightarrow>
     cw_sdk W = S \<and> (\<forall>k. list_all (\<lambda>(now, i, opn). bystander_op opn) (cw_others W k))"
| "admissible S T y (IntentStatusCall Q intent_ref) \<longleftrightarrow> True"
| "admissible S T y (ExecuteRound W R D X k) \<longleftrightarrow>
     one_sdk T X \<and> (\<forall>k. list_all bystander_step (rnd_foreign R k))
   \<and> reads_rows W (row_view ` set (es_funding (sy_exec y)))"
| "admissible S T y (OtherActors fs) \<longleftrightarrow> list_all bystander_step fs"

fun admissible_run ::
    "confirm_sdk \<Rightarrow> sdk \<Rightarrow> 's system_state \<Rightarrow> ('f, 'o, 'now, 's) system_event list \<Rightarrow> bool" where
  "admissible_run S T y [] = True"
| "admissible_run S T y (e # es) = (admissible S T y e \<and> admissible_run S T (system_step y e) es)"

definition accounted_system ::
    "confirm_sdk \<Rightarrow> sdk \<Rightarrow> ('f, 'o, 'now, 's) system_event list \<Rightarrow> 's system_state \<Rightarrow> bool" where
  "accounted_system S T es y \<longleftrightarrow>
     (\<exists>V ps. backed_state (payment_shown S es) V (sy_exec y) \<and> accounted T (payment_shown S es) V ps (sy_exec y))"

lemma accounted_table_step:
  assumes "accounted_system S T es y"
    and kept: "\<And>V. backed_state (payment_shown S es) V (sy_exec y) \<Longrightarrow>
        table_kept (payment_shown S (es @ [e])) (es_funding (sy_exec y)) (es_funding (sy_exec y'))
      \<and> es_sent (sy_exec y') = es_sent (sy_exec y) \<and> distinct (map rw_rule_id (es_rules (sy_exec y')))"
  shows "accounted_system S T (es @ [e]) y'"
proof -
  from assms(1) obtain V ps where b: "backed_state (payment_shown S es) V (sy_exec y)"
    and a: "accounted T (payment_shown S es) V ps (sy_exec y)" unfolding accounted_system_def by blast
  have "\<exists>V'. V \<subseteq> V' \<and> backed_state (payment_shown S (es @ [e])) V' (sy_exec y')
      \<and> accounted T (payment_shown S (es @ [e])) V' ps (sy_exec y')"
    using kept [OF b] by (intro table_step [OF b a]) (simp_all add: payment_shown_mono)
  then show ?thesis unfolding accounted_system_def by blast
qed

lemma confirm_step:
  assumes W: "\<And>k. list_all (\<lambda>(now, i, opn). bystander_op opn) (cw_others W k)" "cw_sdk W = S"
    and run: "confirm_funding W params t = (r, t')"
  shows "table_kept (payment_shown S (es @ [ConfirmFundingCall W params])) t t'"
proof -
  let ?Q = "payment_shown S (es @ [ConfirmFundingCall W params])"
  obtain ops where ops: "t' = funding_run t ops" "set ops \<subseteq> allowed_writes W params t"
    using confirmation_writes [OF run] by blast
  have "unreserving (cw_others W k)" for k
    using W(1) [of k] by (auto simp: unreserving_def list_all_iff dest: bystander_not_reserving)
  moreover have "?Q v" if "payment_proved (cw_sdk W) observed v" "fi_intent_id v = trim (cfp_intent_id params)"
    "cw_reader W = Some reader" "reader (trim (cfp_tx_signature params)) = Inr (ReadConfirmed observed)"
    for v observed reader
    using that W(2) unfolding payment_shown_def by (intro exI [of _ W] exI [of _ params] exI [of _ reader] exI [of _ observed]) simp
  ultimately have "rows_backed ?Q t'" if "rows_backed ?Q t"
    using confirm_backed [OF that _ _ run] by blast
  moreover have "row_view ` set t' = row_view ` set t"
    unfolding ops(1) using arg_cong [OF funding_run_views, of set] by (simp only: list.set_map)
  moreover have no_release: "\<forall>e. opn \<noteq> FundReleaseExecution e" if "(now, i, opn) \<in> set ops" for now i opn
    using that ops(2) W(1) by (fastforce simp: allowed_writes_def confirming_write_def list_all_iff)
  have "budget_committed (funded_status (funding_run u xs) j)"
    if "budget_committed (funded_status u j)" "set xs \<subseteq> set ops" for u xs j
    using that
  proof (induction xs arbitrary: u)
    case (Cons x xs)
    obtain now i opn where x: "x = (now, i, opn)" by (cases x)
    have "\<forall>e. opn \<noteq> FundReleaseExecution e" using Cons.prems(2) x by (intro no_release [of now i]) simp
    from Cons.IH [OF committed_apply [OF Cons.prems(1) this]] Cons.prems(2)
    show ?case by (simp add: x funding_run_def)
  qed (simp add: funding_run_def)
  ultimately show ?thesis unfolding table_kept_def using ops(1) by blast
qed

lemma finalize_call_effect:
  assumes W: "\<And>k u. funding_evolves u (fw_other_intents W k u)"
      "\<And>k u. distinct (map rw_rule_id u) \<Longrightarrow> distinct (map rw_rule_id (fw_other_rules W k u))"
    and inv: "distinct (map rw_rule_id (fz_rules s))" and run: "finalize_intent W params s = (r, s')"
  shows "funding_evolves (fz_intents s) (fz_intents s')" "distinct (map rw_rule_id (fz_rules s'))"
proof -
  have E: "finalize_effect W s s'" using finalize_intent_effect [of W s params] run by simp
  then show "funding_evolves (fz_intents s) (fz_intents s')"
    using persist_funding_evolves [OF W(1)] by (auto simp: finalize_effect_def intro: unchanged)
  show "distinct (map rw_rule_id (fz_rules s'))"
    using E persist_rule_distinct [OF inv W(2)] inv by (auto simp: finalize_effect_def)
qed

lemma system_step_accounted:
  fixes y :: "'s system_state" and e :: "('f, 'o, 'now, 's) system_event"
  assumes a: "accounted_system S T es y" and adm: "admissible S T y e"
  shows "accounted_system S T (es @ [e]) (system_step y e)"
proof (cases e)
  case (FinalizeIntentCall W params)
  let ?fs = "\<lparr>fz_sidecar = sy_sidecar y, fz_rules = es_rules (sy_exec y), fz_intents = es_funding (sy_exec y)\<rparr>"
  obtain r s' where run: "finalize_intent W params ?fs = (r, s')" by (cases "finalize_intent W params ?fs")
  have y': "sy_exec (system_step y e) = (sy_exec y)\<lparr>es_funding := fz_intents s', es_rules := fz_rules s'\<rparr>"
    by (simp add: FinalizeIntentCall finalize_call_def run)
  show ?thesis
  proof (rule accounted_table_step [OF a])
    fix V assume "backed_state (payment_shown S es) V (sy_exec y)"
    then have inv: "distinct (map rw_rule_id (fz_rules ?fs))" by (simp add: backed_state_def execution_state_inv_def)
    from adm have W: "\<And>k u. funding_evolves u (fw_other_intents W k u)"
      "\<And>k u. distinct (map rw_rule_id u) \<Longrightarrow> distinct (map rw_rule_id (fw_other_rules W k u))"
      by (simp_all add: FinalizeIntentCall)
    note F = finalize_call_effect [OF W inv run]
    from evolved_table [OF F(1)] F(2)
    show "table_kept (payment_shown S (es @ [e])) (es_funding (sy_exec y)) (es_funding (sy_exec (system_step y e)))
      \<and> es_sent (sy_exec (system_step y e)) = es_sent (sy_exec y)
      \<and> distinct (map rw_rule_id (es_rules (sy_exec (system_step y e))))" by (simp add: y')
  qed
next
  case (ConfirmFundingCall W params)
  obtain r t' where run: "confirm_funding W params (es_funding (sy_exec y)) = (r, t')"
    by (cases "confirm_funding W params (es_funding (sy_exec y))")
  have y': "sy_exec (system_step y e) = (sy_exec y)\<lparr>es_funding := t'\<rparr>"
    by (simp add: ConfirmFundingCall confirm_call_def run)
  have "table_kept (payment_shown S (es @ [e])) (es_funding (sy_exec y)) t'"
    using adm confirm_step [OF _ _ run, of S es] by (simp add: ConfirmFundingCall)
  then show ?thesis
    by (intro accounted_table_step [OF a]) (simp add: y' backed_state_def execution_state_inv_def)
next
  case (IntentStatusCall Q intent_ref)
  have y': "sy_exec (system_step y e) = sy_exec y"
    by (simp add: IntentStatusCall status_call_def split: prod.split)
  show ?thesis
    by (intro accounted_table_step [OF a])
       (simp add: y' table_kept_def backed_state_def execution_state_inv_def)
next
  case (ExecuteRound W R D X k)
  obtain f reps s' where run: "execute_round W R (repository_execution_state D) (production_backend X) k (sy_exec y)
      = (f, reps, s')" by (metis prod.exhaust)
  have y': "sy_exec (system_step y e) = s'" by (simp add: ExecuteRound run)
  have "accounted_system S T (es @ [e]) y"
    by (intro accounted_table_step [OF a]) (simp add: table_kept_def backed_state_def execution_state_inv_def)
  then obtain V ps where b: "backed_state (payment_shown S (es @ [e])) V (sy_exec y)"
    and ac: "accounted T (payment_shown S (es @ [e])) V ps (sy_exec y)" unfolding accounted_system_def by blast
  have "reads_rows W V" "one_sdk T X" "\<And>k. list_all bystander_step (rnd_foreign R k)"
    using adm b by (simp_all add: ExecuteRound backed_state_def)
  from round_accounted [OF b ac this(2,3,1) run] show ?thesis unfolding accounted_system_def y' by blast
next
  case (OtherActors fs)
  have y': "sy_exec (system_step y e) = foldl (\<lambda>s f. foreign_apply f s) (sy_exec y) fs" by (simp add: OtherActors)
  have kept: "funding_evolves (es_funding s) (es_funding (foldl (\<lambda>s f. foreign_apply f s) s gs))
      \<and> es_sent (foldl (\<lambda>s f. foreign_apply f s) s gs) = es_sent s
      \<and> (distinct (map rw_rule_id (es_rules s)) \<longrightarrow>
           distinct (map rw_rule_id (es_rules (foldl (\<lambda>s f. foreign_apply f s) s gs))))"
    if "list_all bystander_step gs" for s :: "'s execution_state" and gs
    using that
  proof (induction gs arbitrary: s)
    case (Cons g gs)
    from Cons.prems have g: "bystander_step g" and gs: "list_all bystander_step gs" by simp_all
    show ?case
      using Cons.IH [OF gs, of "foreign_apply g s"] foreign_evolves [OF g, of s] foreign_sent [of g s] foreign_rules [of s g]
      by (auto intro: funding_evolves_trans)
  qed (simp add: unchanged)
  show ?thesis
    using kept [of fs "sy_exec y"] adm evolved_table
    by (intro accounted_table_step [OF a])
       (simp add: y' OtherActors backed_state_def execution_state_inv_def)
qed

lemma system_run_accounted:
  assumes "accounted_system S T es y" "admissible_run S T y es'"
  shows "accounted_system S T (es @ es') (foldl system_step y es')"
  using assms
proof (induction es' arbitrary: es y)
  case (Cons e es')
  from system_step_accounted [OF Cons.prems(1)] Cons.prems(2)
  have "accounted_system S T (es @ [e]) (system_step y e)" by simp
  from Cons.IH [OF this] Cons.prems(2) show ?case by simp
qed simp

lemma run_deposits_paid:
  fixes y :: "'s system_state" and es :: "('f, 'o, 'now, 's) system_event list"
  assumes start: "es_funding (sy_exec y) = []" "es_rules (sy_exec y) = []" "es_sent (sy_exec y) = []"
    and adm: "admissible_run S T y es" and run: "foldl system_step y es = y'"
  shows "\<exists>ps. es_sent (sy_exec y') = map snd ps \<and> distinct (map fst ps)
     \<and> (\<forall>(i, tx) \<in> set ps. budget_committed (state_intent_status (sy_exec y') i)
          \<and> (\<exists>row \<in> set (es_funding (sy_exec y')). \<exists>w plan. fr_intent_id row = i
               \<and> payment_shown S es (row_view row) \<and> plan_deposit_transaction T w plan tx
               \<and> vi_input_amount_raw plan = fr_amount_raw row))"
proof -
  have "accounted_system S T ([] :: ('f, 'o, 'now, 's) system_event list) y"
    using start
    by (auto simp: accounted_system_def accounted_def backed_state_def execution_state_inv_def rows_backed_def)
  from system_run_accounted [OF this adm] obtain V ps where b: "backed_state (payment_shown S es) V (sy_exec y')"
    and a: "accounted T (payment_shown S es) V ps (sy_exec y')"
    unfolding run accounted_system_def by auto
  have "\<exists>row \<in> set (es_funding (sy_exec y')). \<exists>w plan. fr_intent_id row = i
      \<and> payment_shown S es (row_view row) \<and> plan_deposit_transaction T w plan tx
      \<and> vi_input_amount_raw plan = fr_amount_raw row" if "paid_deposit T (payment_shown S es) V i tx" for i tx
    using that b unfolding paid_deposit_def backed_state_def by (force simp: row_view_def)
  with a show ?thesis unfolding accounted_def by (intro exI [of _ ps]) fastforce
qed



text \<open>C1: Over the whole program every deposit is paid for: start with empty tables and let the server
  finalise intents, confirm fundings and answer about them, let the executing watcher run its rounds, and
  let other actors write in between, in any order and any number of times, with the database, the node,
  the wallet and the clocks answering anything. Then every transaction ever handed to the network was
  sent for an intent of its own; that intent has a row, its budget is committed, a \<open>confirm_funding\<close> of
  the run for that intent was shown a transaction that proves the payment the row asks for, and what was
  sent is the canonical deposit of exactly the amount of the row, which is the amount paid. (One transaction
  may be shown for two intents when it carries both memos.) What is supposed: one SDK throughout, a scan
  that reads rows of this table, and that nobody else reserves budgets or gives execution leases back.\<close>

theorem every_deposit_is_paid_for:
  assumes "es_funding (sy_exec y) = []" "es_rules (sy_exec y) = []" "es_sent (sy_exec y) = []"
    and "admissible_run S T y es" and "foldl system_step y es = y'"
  shows "\<exists>ps. es_sent (sy_exec y') = map snd ps \<and> distinct (map fst ps)
     \<and> (\<forall>(i, tx) \<in> set ps. budget_committed (state_intent_status (sy_exec y') i)
          \<and> (\<exists>row \<in> set (es_funding (sy_exec y')). \<exists>w plan. fr_intent_id row = i
               \<and> payment_shown S es (row_view row) \<and> plan_deposit_transaction T w plan tx
               \<and> vi_input_amount_raw plan = fr_amount_raw row))"
  using assms by (rule run_deposits_paid)

section \<open>A handoff that is paid is reserved\<close>

text \<open>A confirmation over the tables as a finalisation left them, with the same crates.\<close>

definition confirms_after :: "finalize_world \<Rightarrow> 's system_state \<Rightarrow> confirm_world \<Rightarrow> bool" where
  "confirms_after W y V \<longleftrightarrow>
     undisturbed V \<and> cw_crypto V = fw_crypto W \<and> cw_store V = fw_store W \<and> cw_sdk V = fw_sdk W
   \<and> cw_rules V = Inr (es_rules (sy_exec y))"

text \<open>Base-58 on the two pinned accounts: the texts of the source are those of the keys.\<close>

definition pins_agree :: "finalize_world \<Rightarrow> bool" where
  "pins_agree W \<longleftrightarrow>
     wf_pubkey (pinned_pubkey (fw_crypto W) controlled_wallet_bs58)
   \<and> se_to_base58 (fw_store W) (pinned_pubkey (fw_crypto W) controlled_wallet_bs58) = controlled_wallet_bs58
   \<and> (\<exists>mint cw. cs_pubkey_from_str (fw_sdk W) usdc_mint_bs58 = Some mint
        \<and> cs_pubkey_from_str (fw_sdk W) controlled_wallet_bs58 = Some cw
        \<and> cs_ata_text (fw_sdk W) cw mint = controlled_usdc_ata_bs58)"

lemma handoff_awaits:
  assumes run: "finalize_intent W params s = (Inr (FinalizeHandoff r), s')"
    and paid: "follows_instructions (ho_funding r) tx"
    and codec: "rule_codec (fw_crypto W) (fw_store W)" and pins: "pins_agree W"
    and lower: "\<forall>row \<in> set (fz_intents s'). list_all lower_hex_char (fr_canonical_rule_hash_hex row)"
    and V: "cw_crypto V = fw_crypto W" "cw_store V = fw_store W" "cw_sdk V = fw_sdk W" "cw_rules V = Inr (fz_rules s')"
    and sg: "trim sg = sg" "cs_signature_ok (fw_sdk W) sg"
  shows "\<exists>row. fi_intent_id row = ho_intent_id r \<and> awaits_payment V sg (fz_intents s') row
    \<and> payment_proved (fw_sdk W) tx row"
proof -
  let ?C = "fw_crypto W"
  from run obtain draft mint user slot rule row reused now where build: "build_watch_rule ?C draft slot = Inr rule"
    and get: "funding_get (hex_lower_text (wr_rule_id rule)) (fz_intents s') = Inr (Some row)"
    and issue: "issue_instructions W params mint user rule True reused row now = FinalizeHandoff r"
    and stored: "rule_is_stored W draft rule (fz_rules s')" by (rule finalize_handoff)
  note issued = issue_handoff [OF issue, unfolded hex_lower_text_encode]
  note row = matching_row [OF issued(2)]
  from stored_rule_is_read [OF stored codec build] obtain st where
    st: "watch_get ?C (fw_store W) (wr_rule_id rule) (fz_rules s') = Inr (Some st)" "swr_rule st = rule" by blast
  have st_hash: "swr_canonical_rule_hash st = canonical_rule_hash ?C rule"
    using st by (auto simp: watch_get_def watch_row_to_stored_integrity split: option.splits)
  have id16: "length (wr_rule_id rule) = 16"
    using built_rule_id [OF build] pins by (simp add: derive_rule_id_def wf_pubkey_def pins_agree_def)
  have dest: "wr_destination rule = pinned_pubkey ?C controlled_wallet_bs58"
    using build by (auto simp: build_watch_rule_def Let_def)
  have amount: "wr_max_input_amount_raw rule = fi_amount_raw row"
    using row(5) by (auto simp: has_exact_solend_deposit_amount_invariant_def
        canonical_solend_deposit_amount_raw_def split: action_spec.splits if_splits)
  have hash: "map ascii_lower (fi_canonical_rule_hash_hex row) = hex_encode (canonical_rule_hash ?C rule)"
    using issued(2) by (simp add: funding_row_matches_identity_def ascii_lower_hex split: if_splits)
  have matches: "watch_rule_matches_intent (fw_store W) st row"
    using pins by (simp add: watch_rule_matches_intent_def st(2) st_hash hash dest amount row(1-3) ascii_lower_hex pins_agree_def)
  have "awaits_payment V sg (fz_intents s') row"
    using get issued(3) st(1) id16 matches sg by (simp add: awaits_payment_def V row(1))
  moreover have "list_all lower_hex_char (fi_canonical_rule_hash_hex row)"
    using get lower by (auto simp: funding_get_def row_to_intent_def dest!: sql_get_Some_in split: option.splits if_splits)
  then have "payment_proved (fw_sdk W) tx row"
    using followed_instructions_are_accepted [OF run paid] pins get issued(5)
    by (auto simp: pins_agree_def row_read_def verify_ok)
  ultimately show ?thesis using row(1) issued(5) by auto
qed

lemma paid_handoff_reserved:
  assumes run: "finalize_call W params y = (Inr (FinalizeHandoff r), y1)"
    and paid: "follows_instructions (ho_funding r) tx"
    and codec: "rule_codec (fw_crypto W) (fw_store W)" and pins: "pins_agree W"
    and rows: "distinct (map fr_intent_id (es_funding (sy_exec y1)))"
      "\<forall>row \<in> set (es_funding (sy_exec y1)). list_all lower_hex_char (fr_canonical_rule_hash_hex row)"
    and V: "confirms_after W y1 V" "cw_reader V = Some reader" "reader sg = Inr (ReadConfirmed tx)"
    and sg: "trim sg = sg" "cs_signature_ok (fw_sdk W) sg"
  shows "\<exists>b y2. confirm_call V \<lparr>cfp_intent_id = ho_intent_id r, cfp_tx_signature = sg\<rparr> y1
        = (Inr (BudgetReservedResponse b), y2)
     \<and> state_intent_status (sy_exec y2) (ho_intent_id r) = Some BudgetReserved"
proof -
  obtain fs where fin: "finalize_intent W params
      \<lparr>fz_sidecar = sy_sidecar y, fz_rules = es_rules (sy_exec y), fz_intents = es_funding (sy_exec y)\<rparr>
      = (Inr (FinalizeHandoff r), fs)"
    and y1: "es_funding (sy_exec y1) = fz_intents fs" "es_rules (sy_exec y1) = fz_rules fs"
    using run by (auto simp: finalize_call_def map_err_def split: prod.splits sum.splits)
  have V': "cw_crypto V = fw_crypto W" "cw_store V = fw_store W" "cw_sdk V = fw_sdk W" "cw_rules V = Inr (fz_rules fs)"
      "undisturbed V"
    using V(1) y1 by (simp_all add: confirms_after_def)
  from handoff_awaits [OF fin paid codec pins rows(2) [unfolded y1] V'(1-4) sg] obtain row where
    row: "fi_intent_id row = ho_intent_id r" "awaits_payment V sg (fz_intents fs) row"
      "payment_proved (cw_sdk V) tx row" unfolding V'(3) by blast
  from confirm_undisturbed [OF V'(5) rows(1) [unfolded y1] row(2) V(2,3) row(3)] obtain b t' where
    c: "confirm_funding V (params_for row sg) (fz_intents fs) = (Inr (BudgetReservedResponse b), t')"
      "reserved_row t' (fi_intent_id row) sg (oft_slot tx)" by blast
  have "funded_status t' (ho_intent_id r) = Some BudgetReserved"
    using c(2) by (auto simp: reserved_row_def row(1) funded_status_def funding_row_status_iff)
  with c(1) show ?thesis
    by (simp add: confirm_call_def params_for_def row(1) y1 map_err_def)
qed

text \<open>C6: A handoff that is paid ends in a reserved budget: when \<open>finalize_intent\<close> hands off an intent and
  the user's transaction does what the instructions say (it succeeded, carries the memo, is signed by the
  named wallet and moves the written amount between the named accounts), then an undisturbed
  \<open>confirm_funding\<close> of that intent with a signature under which the node shows that transaction answers
  that the budget is reserved, and the row of the intent is in that state, ready for the watcher. The
  crates are used alike by both tools, the pinned texts are those of the pinned keys, the rule codec reads
  back what it wrote, and the rows carry their hashes in lower case, as \<open>finalize_intent\<close> writes them.\<close>

theorem paid_handoffs_are_reserved:
  assumes run: "finalize_call W params y = (Inr (FinalizeHandoff r), y1)"
    and paid: "follows_instructions (ho_funding r) tx"
    and codec: "rule_codec (fw_crypto W) (fw_store W)" and pins: "pins_agree W"
    and rows: "distinct (map fr_intent_id (es_funding (sy_exec y1)))"
      "\<forall>row \<in> set (es_funding (sy_exec y1)). list_all lower_hex_char (fr_canonical_rule_hash_hex row)"
    and V: "confirms_after W y1 V" "cw_reader V = Some reader" "reader sg = Inr (ReadConfirmed tx)"
    and sg: "trim sg = sg" "cs_signature_ok (fw_sdk W) sg"
  shows "\<exists>b y2. confirm_call V \<lparr>cfp_intent_id = ho_intent_id r, cfp_tx_signature = sg\<rparr> y1
        = (Inr (BudgetReservedResponse b), y2)
     \<and> state_intent_status (sy_exec y2) (ho_intent_id r) = Some BudgetReserved"
  using assms by (rule paid_handoff_reserved)

section \<open>A run\<close>

text \<open>A draft is finalised, paid as instructed, confirmed and asked about; a round of the watcher follows.\<close>

definition first_state :: "unit system_state" where
  "first_state =
     \<lparr>sy_exec = example_execution_state\<lparr>es_funding := []\<rparr>, sy_sidecar = (SidecarUnopened, None)\<rparr>"

definition confirm_after_example :: "watch_table \<Rightarrow> observed_funding_transaction \<Rightarrow> confirm_world" where
  "confirm_after_example rules tx =
     \<lparr>cw_crypto = example_crypto, cw_store = example_finalize_store, cw_sdk = example_confirm_sdk,
      cw_reader = Some (\<lambda>s. Inr (ReadConfirmed tx)), cw_now = 1500, cw_row_clock = (\<lambda>k. 1500),
      cw_fault = (\<lambda>k. NoFault), cw_others = (\<lambda>k. []), cw_rules = Inr rules\<rparr>"

lemma finalize_pins: "pins_agree (finalize_example 100)"
  using example_wallet_wf by (simp add: pins_agree_def finalize_example_def example_finalize_store_def example_confirm_sdk_def)

lemma example_rows:
  assumes "finalize_intent (finalize_example 100) example_params (example_start []) = (r, s')"
  shows "distinct (map fr_intent_id (fz_intents s'))"
    "\<forall>row \<in> set (fz_intents s'). list_all lower_hex_char (fr_canonical_rule_hash_hex row)"
proof -
  let ?W = "finalize_example 100"
  have "snd (persist_funding_with_legacy_recovery ?W n []) = [new_funding_row 1000 n]" for n
    by (simp add: persist_funding_with_legacy_recovery_def finalize_example_def funding_insert_def sql_insert_def
        faulty_insert_def Let_def)
  then have "fz_intents s' = [] \<or> (\<exists>n h. nfi_canonical_rule_hash_hex n = hex_encode h
      \<and> fz_intents s' = [new_funding_row 1000 n])"
    using finalize_intent_effect [of ?W "example_start []" example_params] assms
    by (simp add: finalize_effect_def example_start_def)
  then show "distinct (map fr_intent_id (fz_intents s'))"
    "\<forall>row \<in> set (fz_intents s'). list_all lower_hex_char (fr_canonical_rule_hash_hex row)"
    by (auto simp: new_funding_row_def hex_encode_lower)
qed

lemma example_reader: "cw_reader (confirm_after_example rules tx) = Some (\<lambda>s. Inr (ReadConfirmed tx))"
  by (simp add: confirm_after_example_def)

lemma example_signature: "trim ''sig'' = ''sig''" "cs_signature_ok (fw_sdk (finalize_example 100)) ''sig''"
  using trim_id [of "''sig''"] by (simp_all add: graphic_def finalize_example_def example_confirm_sdk_def)

lemma example_paid_handoff:
  obtains r y1 tx where
    "finalize_call (finalize_example 100) example_params first_state = (Inr (FinalizeHandoff r), y1)"
    "follows_instructions (ho_funding r) tx" "distinct (map fr_intent_id (es_funding (sy_exec y1)))"
    "\<forall>row \<in> set (es_funding (sy_exec y1)). list_all lower_hex_char (fr_canonical_rule_hash_hex row)"
    "confirms_after (finalize_example 100) y1 (confirm_after_example (es_rules (sy_exec y1)) tx)"
proof -
  let ?W = "finalize_example 100"
  obtain r s' where run: "finalize_intent ?W example_params (example_start []) = (Inr (FinalizeHandoff r), s')"
    and pays: "pays_draft ?W example_draft (text_bytes ''user'') (text_bytes usdc_mint_bs58) (ho_funding r)"
    using example_finalize_runs by blast
  let ?tx = "paying_transaction (ho_funding r) 500000"
  have "cs_ata_text (fw_sdk ?W) (text_bytes ''user'') (text_bytes usdc_mint_bs58) \<noteq> controlled_usdc_ata_bs58"
    by (simp add: finalize_example_def example_confirm_sdk_def text_bytes_def controlled_wallet_bs58_def
        controlled_usdc_ata_bs58_def)
  with pays have follows: "follows_instructions (ho_funding r) ?tx"
    by (intro paying_transaction_follows) (auto simp: pays_draft_def example_draft_def draft_of_def)
  define y1 where "y1 = \<lparr>sy_exec = (sy_exec first_state)\<lparr>es_funding := fz_intents s', es_rules := fz_rules s'\<rparr>,
      sy_sidecar = fz_sidecar s'\<rparr>"
  have call: "finalize_call ?W example_params first_state = (Inr (FinalizeHandoff r), y1)"
    using run by (simp add: finalize_call_def first_state_def example_execution_state_def example_start_def y1_def)
  have rows: "distinct (map fr_intent_id (es_funding (sy_exec y1)))"
    "\<forall>row \<in> set (es_funding (sy_exec y1)). list_all lower_hex_char (fr_canonical_rule_hash_hex row)"
    using example_rows [OF run] by (simp_all add: y1_def)
  have V: "confirms_after ?W y1 (confirm_after_example (es_rules (sy_exec y1)) ?tx)"
    by (simp add: confirms_after_def confirm_after_example_def finalize_example_def undisturbed_def)
  from that [OF call follows rows V] show thesis .
qed

definition example_history :: "confirm_world \<Rightarrow> string \<Rightarrow> (unit, unit, unit, unit) system_event list" where
  "example_history V i =
     [FinalizeIntentCall (finalize_example 100) example_params,
      ConfirmFundingCall V \<lparr>cfp_intent_id = i, cfp_tx_signature = ''sig''\<rparr>,
      OtherActors [FundingStep 2000 ''07'' FundExpire],
      IntentStatusCall status_example i,
      ExecuteRound (quiet_world\<lparr>sw_funding := (\<lambda>k. Inr [])\<rparr>)
        \<lparr>rnd_emit_cycle = (\<lambda>r. True), rnd_emit_attempt = (\<lambda>k r. True), rnd_foreign = (\<lambda>k. [])\<rparr>
        example_db example_executor 0]"

lemma example_admissible:
  "admissible_run example_confirm_sdk instance_sdk first_state (example_history (confirm_after_example rules tx) i)"
proof -
  have "admissible S T y (FinalizeIntentCall (finalize_example 100) example_params)" for S T and y :: "unit system_state"
    by (simp add: finalize_example_def unchanged)
  moreover have "admissible example_confirm_sdk T y (ConfirmFundingCall (confirm_after_example rules tx) params)"
    for T params and y :: "unit system_state" by (simp add: confirm_after_example_def)
  moreover have "reads_rows (quiet_world\<lparr>sw_funding := (\<lambda>k. Inr [])\<rparr>) V" for V by (simp add: reads_rows_def)
  ultimately show ?thesis
    by (simp add: example_history_def example_one_sdk bystander_step_def del: system_step.simps)
qed

theorem every_deposit_is_paid_for_witness:
  "\<exists>V i ps. state_intent_status (sy_exec (foldl system_step first_state (take 2 (example_history V i)))) i
        = Some BudgetReserved
     \<and> es_sent (sy_exec (foldl system_step first_state (example_history V i))) = map snd ps \<and> distinct (map fst ps)
     \<and> (\<forall>(j, tx) \<in> set ps. \<exists>row \<in> set (es_funding (sy_exec (foldl system_step first_state (example_history V i)))).
          fr_intent_id row = j \<and> payment_shown example_confirm_sdk (example_history V i) (row_view row))"
proof -
  obtain r y1 tx where call: "finalize_call (finalize_example 100) example_params first_state = (Inr (FinalizeHandoff r), y1)"
    and paid: "follows_instructions (ho_funding r) tx" and rows: "distinct (map fr_intent_id (es_funding (sy_exec y1)))"
      "\<forall>row \<in> set (es_funding (sy_exec y1)). list_all lower_hex_char (fr_canonical_rule_hash_hex row)"
    and V: "confirms_after (finalize_example 100) y1 (confirm_after_example (es_rules (sy_exec y1)) tx)"
    by (rule example_paid_handoff)
  let ?V = "confirm_after_example (es_rules (sy_exec y1)) tx" and ?i = "ho_intent_id r"
  from paid_handoff_reserved [OF call paid example_codec finalize_pins rows V example_reader refl example_signature]
  have reserved: "state_intent_status (sy_exec (foldl system_step first_state (take 2 (example_history ?V ?i)))) ?i
      = Some BudgetReserved"
    using call by (auto simp: example_history_def)
  have start: "es_funding (sy_exec first_state) = []" "es_rules (sy_exec first_state) = []" "es_sent (sy_exec first_state) = []"
    by (simp_all add: first_state_def example_execution_state_def)
  from every_deposit_is_paid_for [OF start example_admissible refl, of "es_rules (sy_exec y1)" tx ?i] reserved
  show ?thesis by fast
qed

theorem paid_handoffs_are_reserved_witness:
  "\<exists>r y1 V b y2. finalize_call (finalize_example 100) example_params first_state = (Inr (FinalizeHandoff r), y1)
     \<and> confirm_call V \<lparr>cfp_intent_id = ho_intent_id r, cfp_tx_signature = ''sig''\<rparr> y1
         = (Inr (BudgetReservedResponse b), y2)
     \<and> state_intent_status (sy_exec y2) (ho_intent_id r) = Some BudgetReserved"
proof -
  obtain r y1 tx where call: "finalize_call (finalize_example 100) example_params first_state = (Inr (FinalizeHandoff r), y1)"
    and paid: "follows_instructions (ho_funding r) tx" and rows: "distinct (map fr_intent_id (es_funding (sy_exec y1)))"
      "\<forall>row \<in> set (es_funding (sy_exec y1)). list_all lower_hex_char (fr_canonical_rule_hash_hex row)"
    and V: "confirms_after (finalize_example 100) y1 (confirm_after_example (es_rules (sy_exec y1)) tx)"
    by (rule example_paid_handoff)
  from paid_handoffs_are_reserved [OF call paid example_codec finalize_pins rows V example_reader refl example_signature] call
  show ?thesis by blast
qed

end
