(* ===== verification/Spec2Isabelle.thy ===== *)
theory Spec2Isabelle
  imports Policy_Engine Approval Watch_Rule_Store Funding_Store Candidate Solend_Raw Execution_Store Watch_Executor Tx_Lifecycle Funding_Confirm Finalize Status Rpc_Pool Pending_State Pending_Jupiter Position Quote Ledger_Store Save_Rate
    System_Run
begin

text \<open>
  A model of solfrontier, an MCP server and watcher that let a person fund one bounded intent ("deposit
  this much USDC into this Solend reserve when its supply rate is above this threshold") and carry it out
  once from a pinned wallet. The definitions are translations of the Rust sources, executable, with the
  names of the sources where Isabelle allows them; the theorems say what the program promises about money:
  what is signed, what is sent, how often, and what has to be proved first.

  \<^bold>\<open>The program and its parts.\<close> An intent runs through these components (paths below \<open>src/\<close>):

    \<^item> \<open>bins/solfrontier-mcp/src/propose.rs\<close> drafts the intent and hashes it (theory \<open>Propose\<close>); \<open>quote.rs\<close>
      and \<open>position.rs\<close> are the read-only tools beside it (\<open>Quote\<close>, \<open>Position\<close>).
    \<^item> \<open>finalize.rs\<close> consumes the draft in the sidecar file (\<open>sidecar.rs\<close>, theory \<open>Sidecar\<close>), reads the
      market (\<open>finalize_market.rs\<close>, theories \<open>Market_Rate\<close> and \<open>Save_Rate\<close>), writes the canonical watch rule and the funding
      row, and issues funding instructions (\<open>Finalize\<close>). \<open>status.rs\<close> answers about intents (\<open>Status\<close>).
    \<^item> \<open>funding.rs\<close> verifies the payment on chain and reserves the budget (\<open>Json\<close>, \<open>Funding_Confirm\<close>).
    \<^item> \<open>watch.rs\<close> scans the rules and the funding rows; \<open>crates/executor\<close> is its two-gate admission check
      (\<open>Candidate\<close>, \<open>Watch_Scan\<close>, \<open>Watch_Executor\<close>).
    \<^item> \<open>watch_wallet.rs\<close>, with the Solend builders of \<open>crates/protocols\<close>, the compute budget of
      \<open>crates/solana-core\<close>, the risk policy of \<open>crates/risk-engine\<close> and the review pipeline of
      \<open>crates/wallet-engine\<close>, turns an admitted plan into one signed transaction (\<open>Solend_Builders\<close>,
      \<open>Compute_Budget\<close>, \<open>Policy_Engine\<close>, \<open>Wallet_Pipeline\<close>, \<open>Controlled_Wallet\<close>, \<open>Watch_Transaction\<close>,
      \<open>Signing_Liveness\<close>, \<open>Signing\<close>).
    \<^item> \<open>watch_execution_state.rs\<close>, \<open>watch_execute.rs\<close> and \<open>watch_submission.rs\<close> take the lease, send the
      payload once, observe it until it is finalized and record the result (\<open>Submission\<close>, \<open>Execution\<close>,
      \<open>Execution_Store\<close>).
    \<^item> Below them lie the repositories of \<open>crates/state-store\<close> (\<open>Store_Support\<close>, \<open>Watch_Rule_Store\<close>,
      \<open>Funding_Store\<close>, \<open>Pending_State\<close>, \<open>Pending_Jupiter\<close>, \<open>Ledger_Store\<close>), the schemas of \<open>crates/types\<close>
      (\<open>Core_Types\<close>, \<open>Watch_Rule\<close>, \<open>Approval\<close>), the account decoders (\<open>Solend_Raw\<close>), and the node client
      with its circuit breakers and the transaction tracker of \<open>crates/solana-core\<close> (\<open>Rpc_Pool\<close>,
      \<open>Tx_Lifecycle\<close>).
    \<^item> \<open>main.rs\<close> puts the tools over one database and one sidecar; \<open>System_Run\<close> composes its calls with the
      rounds of the watcher and the writes of other actors into runs of the whole program.

  \<open>Prelude\<close> holds the machine integers, results and table operations they share, \<open>Interfaces\<close> the
  contracts that several of them keep, \<open>Solana_Sdk\<close> the data types and functions of the SDK that the
  transaction code is written against, \<open>Sdk_Instance\<close> a concrete SDK for the witnesses, and
  \<open>Watch_Example\<close> a concrete world in which a round of the watcher finds an intent ready and sends.

  \<^bold>\<open>How the code is modelled.\<close> A struct is a record whose fields carry a short prefix, an enum a datatype, a
  \<open>u64\<close> or \<open>i64\<close> a 64-bit word read with \<open>unat\<close> or \<open>sint\<close>. Arithmetic wraps as in the release profile
  unless the source calls a checked or saturating method. A \<open>Result\<close> is a sum with the error on the left;
  where an index can be out of range or an \<open>expect\<close> can fail, the panic is a value of its own. A SQL
  table is a list of rows and a method its statement, with unique keys, \<open>WHERE\<close> clauses and row counts as
  written; the clock, fresh UUIDs and dates are arguments. Calls to the database, the node, the clock and
  the storage are numbered in the order of the code and answered by their number, so that the world may
  change between any two calls; other actors may write before each of them, and a statement may fail
  before or after its effect. A shared file or table is threaded through the calls as explicit state.

  \<^bold>\<open>What is a parameter.\<close> SHA-256, Ed25519, Borsh, bincode, base-58, the JSON writer, program-derived addresses
  and the compilation of messages come from crates: they are fields of the records \<open>crypto\<close>, \<open>sdk\<close> and of
  the world of each component, and the node, the HTTP client and SQLite's failures are functions. Where a
  property relies on such code the documented behaviour is a named hypothesis (\<open>rule_codec\<close>, \<open>sdk_laws\<close>,
  \<open>partial_sign_law\<close>, \<open>healthy_node\<close>) and its witness runs it on a concrete instance.

  \<^bold>\<open>The lemmas by group.\<close>

    \<^item> Execution: at most one broadcast per intent, whatever attempts, processes and database faults there
      are; a broadcast commits the budget; every report is true of the tables; only the deposit of a plan
      that both gates admitted is ever sent. They are proved once in the locales \<open>execution_world\<close> and
      \<open>execution_environment\<close> and obtained from the interpretation on the production port and backend.
    \<^item> The program: over every run from empty tables each deposit that was sent has a row, a committed budget
      and a confirmed payment of its amount (\<open>System_Run\<close>). The invariant, that a row whose budget was reserved stands
      behind a payment that was shown, is carried by a second interpretation of \<open>execution_world\<close>.
      A handoff that is paid as instructed ends in a reserved budget.
    \<^item> Rounds: a round of the watcher comes down to attempts and foreign writes (\<open>Watch_Executor\<close>), so the
      facts about attempts carry over, and the plan attempted for the \<open>n\<close>-th ready intent is admitted by both
      gates on the data read by the \<open>n\<close>-th revalidation of the round, identified by its call numbers.
    \<^item> Signing: signed bytes decode to exactly the deposit of the plan (\<open>Watch_Transaction\<close>), and a healthy
      node and the documented SDK make every admitted plan pass all checks up to the signature of the key
      that the wallet loaded (\<open>Signing_Liveness\<close>).
    \<^item> Admission: both gates decide exactly a declarative reading of the candidate (\<open>admission_exact\<close>).
    \<^item> Funding: the verifier accepts exactly the declared payments, a budget needs one, and one payment can
      reserve two budgets; the handoff of \<open>Finalize\<close> is admitted by the executor, its instructions are what
      the verifier checks, and the status query finds it.
    \<^item> Tables: leases and terminal transitions of the two intent tables by compare-and-set, as interpretations
      of \<open>keyed_store\<close> and \<open>invariant_lifecycle\<close>; the history behind a completed or refunded intent; what a recovery returns after any calls and faults
      (\<open>pending_table\<close>, three times); the ledger counts each transaction once; a draft is consumed once.
    \<^item> Decoding and arithmetic: the obligation layout both ways, the supply rate as exact rational
      arithmetic with floors, the display rate within its two roundings to double precision, the decimal
      amount parser, the policy thresholds and where one of them wraps.
    \<^item> Node access: a breaker is a function of its endpoint's history; transactions never lose precedence
      and are rebroadcast a bounded number of times.

  \<^bold>\<open>Bounds and fuel.\<close> The loop that could run for ever is the finality poll: \<open>poll_loop\<close> takes its rounds from
  the node and terminates by the time left to the deadline, since a sleep lasts at least its positive
  backoff, and \<open>polling_ends_within_17_rounds\<close> counts the rounds the doubling backoff leaves. \<open>chunks\<close>
  terminates by the length of its list. \<open>trim\<close> strips whitespace with the length of the text as its fuel,
  which is enough because no whitespace code is empty. The 256-bit division runs its 256 rounds. A scan
  keeps at most 128 rows of either table (\<open>watch_batch_limit\<close>), so a report has at most 256 rows. All other
  recursions are structural, and no fuel stands for a loop of the source.

  \<^bold>\<open>Not modelled.\<close> The start of the server, argument parsing and JSON-RPC plumbing (\<open>main.rs\<close>)
  and \<open>crates/observability\<close> decide nothing about intents. The remaining repositories of \<open>crates/state-store\<close>
  are inserts and look-ups by key. The assembly of versioned swap transactions (\<open>crates/protocols/src/jupiter\<close>)
  is not reached by a tool and rests on the SDK's compiler. Opening databases, signal handling, sleeping
  between rounds, connection options, websocket subscriptions, derived serialisation and the wording of
  log lines are left out.
\<close>

end
